(* ===== verification/BN_Prelude.thy ===== *)
theory BN_Prelude
  imports Main "HOL-Library.Product_Lexorder" "HOL-Library.Sublist" "HOL-Library.Code_Target_Nat"
begin

text \<open>
  Shared vocabulary of the development: identifiers, text, instants and money; the operations
  of a database table that the services use through Prisma (first match, ordered first match,
  conditional update with its row count, conditional delete); paging; the insertion-ordered set
  of JavaScript; and the interfaces as locales: a table inside a larger state
  (\<open>table_lens\<close>), a table with optimistic row versions (\<open>versioned_table\<close>), a transition
  system with an invariant (\<open>invariant_system\<close>) and a right that can be used once
  (\<open>single_use\<close>).
\<close>

named_theorems op_defs \<open>definitions of the services' operations\<close>
named_theorems view_defs \<open>definitions of mappers and views\<close>

section \<open>Scalar types\<close>

text \<open>
  A UUID is an opaque 128-bit number; PostgreSQL orders the \<open>uuid\<close> type bytewise, which is
  numeric order. Text is the list of its Unicode code points. An instant is a JavaScript
  timestamp in milliseconds. Money is a whole number of satang, the unit of
  \<open>Decimal(18, 2)\<close>.
\<close>

type_synonym uuid = nat
type_synonym utext = "nat list"
type_synonym instant = int
type_synonym money = int

definition ascii :: "string \<Rightarrow> utext" where
  "ascii s = map of_char s"

text \<open>The characters \<open>String.prototype.trim\<close> strips: WhiteSpace and LineTerminator of ECMAScript.\<close>

definition js_space :: "nat \<Rightarrow> bool" where
  "js_space c \<longleftrightarrow> (9 \<le> c \<and> c \<le> 13) \<or> c = 32 \<or> c = 160 \<or> c = 5760 \<or> (8192 \<le> c \<and> c \<le> 8202)
     \<or> c = 8232 \<or> c = 8233 \<or> c = 8239 \<or> c = 8287 \<or> c = 12288 \<or> c = 65279"

definition trim :: "utext \<Rightarrow> utext" where
  "trim s = rev (dropWhile js_space (rev (dropWhile js_space s)))"

lemma dropWhile_all_false: "(\<forall>x \<in> set xs. \<not> P x) \<Longrightarrow> dropWhile P xs = xs"
  by (cases xs) auto

lemma trim_Nil [simp]: "trim [] = []"
  by (simp add: trim_def)

lemma all_dropWhile_iff: "(\<forall>c \<in> set (dropWhile P s). P c) \<longleftrightarrow> (\<forall>c \<in> set s. P c)"
  by (induction s) auto

lemma trim_eq_Nil_iff: "trim s = [] \<longleftrightarrow> (\<forall>c \<in> set s. js_space c)"
  by (simp add: trim_def all_dropWhile_iff)

text \<open>The \<open>??\<close> of JavaScript.\<close>

definition or_default :: "'a option \<Rightarrow> 'a \<Rightarrow> 'a" where
  "or_default x d = (case x of None \<Rightarrow> d | Some y \<Rightarrow> y)"

section \<open>Tables\<close>

text \<open>
  A table is the list of its rows in insertion order. \<open>find\<close> of the library is Prisma's
  \<open>findUnique\<close> and \<open>findFirst\<close> without an order; \<open>find_by\<close> is \<open>findFirst\<close> with
  \<open>orderBy\<close>; \<open>update_many\<close> is \<open>updateMany\<close>, which answers the number of rows it wrote.
\<close>

definition find_by :: "('r \<Rightarrow> 'k::linorder) \<Rightarrow> ('r \<Rightarrow> bool) \<Rightarrow> 'r list \<Rightarrow> 'r option" where
  "find_by k P t = (case sort_key k (filter P t) of [] \<Rightarrow> None | r # _ \<Rightarrow> Some r)"

definition count_rows :: "('r \<Rightarrow> bool) \<Rightarrow> 'r list \<Rightarrow> nat" where
  "count_rows P t = length (filter P t)"

definition map_rows :: "('r \<Rightarrow> bool) \<Rightarrow> ('r \<Rightarrow> 'r) \<Rightarrow> 'r list \<Rightarrow> 'r list" where
  "map_rows P f t = map (\<lambda>r. if P r then f r else r) t"

definition update_many :: "('r \<Rightarrow> bool) \<Rightarrow> ('r \<Rightarrow> 'r) \<Rightarrow> 'r list \<Rightarrow> nat \<times> 'r list" where
  "update_many P f t = (count_rows P t, map_rows P f t)"

definition delete_many :: "('r \<Rightarrow> bool) \<Rightarrow> 'r list \<Rightarrow> 'r list" where
  "delete_many P t = filter (\<lambda>r. \<not> P r) t"

lemma fst_update_many [simp]: "fst (update_many P f t) = count_rows P t"
  and snd_update_many [simp]: "snd (update_many P f t) = map_rows P f t"
  by (simp_all add: update_many_def)

lemma find_cong_set: "(\<And>x. x \<in> set xs \<Longrightarrow> P x = Q x) \<Longrightarrow> find P xs = find Q xs"
  by (induction xs) auto

lemma find_SomeD: "find P xs = Some x \<Longrightarrow> x \<in> set xs \<and> P x"
  by (induction xs) (auto split: if_splits)

lemma find_NoneD: "find P xs = None \<Longrightarrow> x \<in> set xs \<Longrightarrow> \<not> P x"
  by (auto simp: find_None_iff)

lemma find_by_SomeD:
  assumes "find_by k P t = Some r"
  shows "r \<in> set t" and "P r" and "\<forall>q \<in> set t. P q \<longrightarrow> k r \<le> k q"
proof -
  obtain rs where s: "sort_key k (filter P t) = r # rs"
    using assms by (auto simp: find_by_def split: list.splits)
  have set_eq: "set (r # rs) = set (filter P t)"
    by (simp flip: s)
  then show "r \<in> set t" and "P r"
    by auto
  have "sorted (map k (r # rs))"
    by (simp flip: s)
  then have "\<forall>q \<in> set (r # rs). k r \<le> k q"
    by auto
  then show "\<forall>q \<in> set t. P q \<longrightarrow> k r \<le> k q"
    using set_eq by auto
qed

lemma find_by_None_iff: "find_by k P t = None \<longleftrightarrow> (\<forall>r \<in> set t. \<not> P r)"
proof -
  have "find_by k P t = None \<longleftrightarrow> sort_key k (filter P t) = []"
    by (simp add: find_by_def split: list.splits)
  also have "\<dots> \<longleftrightarrow> filter P t = []"
    by (metis length_0_conv length_sort)
  finally show ?thesis
    by (simp add: filter_empty_conv)
qed

lemma map_rows_id: "(\<forall>r \<in> set t. \<not> P r) \<Longrightarrow> map_rows P f t = t"
  by (simp add: map_rows_def map_idI)

lemma length_map_rows [simp]: "length (map_rows P f t) = length t"
  by (simp add: map_rows_def)

lemma set_map_rows: "set (map_rows P f t) = (\<lambda>r. if P r then f r else r) ` set t"
  by (simp add: map_rows_def)

lemma map_map_rows_same: "(\<And>r. g (f r) = g r) \<Longrightarrow> map g (map_rows P f t) = map g t"
  by (simp add: map_rows_def comp_def if_distrib cong: if_cong)

lemma count_rows_pos_iff: "count_rows P t = 0 \<longleftrightarrow> (\<forall>r \<in> set t. \<not> P r)"
  by (auto simp: count_rows_def filter_empty_conv)

lemma count_rows_append [simp]: "count_rows P (t @ u) = count_rows P t + count_rows P u"
  by (simp add: count_rows_def)

lemma count_rows_one: "count_rows P t = Suc 0 \<Longrightarrow> \<exists>r \<in> set t. P r"
  by (metis count_rows_pos_iff nat.distinct(1))

text \<open>A key that no two rows share makes a keyed lookup a map, and a keyed update write one row.\<close>

lemma distinct_key_unique:
  "distinct (map k t) \<Longrightarrow> r \<in> set t \<Longrightarrow> q \<in> set t \<Longrightarrow> k r = k q \<Longrightarrow> r = q"
  by (auto simp: distinct_map inj_on_def)

lemma find_key_eq:
  assumes "distinct (map k t)" "r \<in> set t" "P r" "\<And>q. P q \<Longrightarrow> k q = k r"
  shows "find P t = Some r"
proof (cases "find P t")
  case None
  then show ?thesis using assms(2,3) by (auto dest: find_NoneD)
next
  case (Some q)
  then have "q \<in> set t" "P q" by (auto dest: find_SomeD)
  then have "q = r" using assms distinct_key_unique by metis
  then show ?thesis using Some by simp
qed

lemma count_rows_key_le_1:
  assumes "distinct (map k t)" "\<And>q. P q \<Longrightarrow> k q = c"
  shows "count_rows P t \<le> 1"
  using assms(1)
proof (induction t)
  case Nil
  then show ?case by (simp add: count_rows_def)
next
  case (Cons r t)
  have "P r \<Longrightarrow> \<forall>q \<in> set t. \<not> P q"
    using Cons.prems assms(2) by (metis distinct.simps(2) image_eqI list.map(2) list.set_map)
  then have "P r \<Longrightarrow> count_rows P t = 0"
    by (simp add: count_rows_pos_iff)
  then show ?case
    using Cons by (auto simp: count_rows_def)
qed

lemma count_rows_key_1_iff:
  assumes "distinct (map k t)" "\<And>q. P q \<Longrightarrow> k q = c"
  shows "count_rows P t = 1 \<longleftrightarrow> (\<exists>r \<in> set t. P r)"
proof
  assume "count_rows P t = 1"
  then show "\<exists>r \<in> set t. P r" by (simp add: count_rows_one)
next
  assume "\<exists>r \<in> set t. P r"
  then have "count_rows P t \<noteq> 0" by (auto simp: count_rows_pos_iff)
  moreover have "count_rows P t \<le> 1" by (rule count_rows_key_le_1 [OF assms])
  ultimately show "count_rows P t = 1" by linarith
qed

lemma find_map_rows_key:
  assumes "\<And>r. k (f r) = k r"
  shows "find (\<lambda>r. k r = c) (map_rows P f t)
       = map_option (\<lambda>r. if P r then f r else r) (find (\<lambda>r. k r = c) t)"
  by (induction t) (auto simp: map_rows_def assms)

lemma filter_map_rows:
  assumes "\<And>r. r \<in> set t \<Longrightarrow> P r \<Longrightarrow> \<not> Q r \<and> \<not> Q (f r)"
  shows "filter Q (map_rows P f t) = filter Q t"
  using assms by (induction t) (auto simp: map_rows_def)

lemma map_filter_all:
  "(\<And>x. x \<in> set xs \<Longrightarrow> f x = Some (g x)) \<Longrightarrow> List.map_filter f xs = map g xs"
  by (induction xs) (simp_all add: map_filter_simps)

section \<open>Rows that stay\<close>

text \<open>Every row of the first table is in the second, with its frozen part, and dead if it was.\<close>

definition rows_grow :: "('r \<Rightarrow> 'k) \<Rightarrow> ('r \<Rightarrow> bool) \<Rightarrow> 'r list \<Rightarrow> 'r list \<Rightarrow> bool" where
  "rows_grow frozen dead t u \<longleftrightarrow>
     (\<forall>r \<in> set t. \<exists>q \<in> set u. frozen q = frozen r \<and> (dead r \<longrightarrow> dead q))"

lemma rows_grow_refl [simp]: "rows_grow f d t t"
  by (auto simp: rows_grow_def)

lemma rows_grow_trans: "rows_grow f d t u \<Longrightarrow> rows_grow f d u w \<Longrightarrow> rows_grow f d t w"
  unfolding rows_grow_def by metis

lemma rows_grow_append [simp]: "rows_grow f d t (t @ u)"
  by (auto simp: rows_grow_def)

lemma rows_grow_map_rows:
  assumes "\<And>r. f (g r) = f r" "\<And>r. d r \<Longrightarrow> d (g r)"
  shows "rows_grow f d t (map_rows P g t)"
  unfolding rows_grow_def
proof
  fix r assume r: "r \<in> set t"
  let ?q = "if P r then g r else r"
  have "?q \<in> set (map_rows P g t)"
    using r by (auto simp: set_map_rows)
  then show "\<exists>q \<in> set (map_rows P g t). f q = f r \<and> (d r \<longrightarrow> d q)"
    by (rule bexI [rotated]) (simp add: assms)
qed

lemma rows_grow_map_rows_append:
  assumes "\<And>r. f (g r) = f r" "\<And>r. d r \<Longrightarrow> d (g r)"
  shows "rows_grow f d t (map_rows P g t @ u)"
  using rows_grow_trans rows_grow_map_rows [of f g d t P] rows_grow_append assms by metis

lemma rows_growD:
  assumes "rows_grow f d t u" "r \<in> set t"
  obtains q where "q \<in> set u" "f q = f r" "d r \<Longrightarrow> d q"
  using assms unfolding rows_grow_def by blast

section \<open>Paging\<close>

definition page_of :: "nat \<Rightarrow> nat \<Rightarrow> 'a list \<Rightarrow> 'a list" where
  "page_of page limit xs = take limit (drop ((page - 1) * limit) xs)"

definition total_pages :: "nat \<Rightarrow> nat \<Rightarrow> nat" where
  "total_pages n limit = (n + limit - 1) div limit"

lemma concat_pages_aux:
  "concat (map (\<lambda>p. take l (drop (p * l) xs)) [0..<n]) = take (n * l) xs"
proof (induction n)
  case 0
  then show ?case by simp
next
  case (Suc n)
  have "take (Suc n * l) xs = take (n * l + l) xs"
    by (simp add: add.commute)
  also have "\<dots> = take (n * l) xs @ take l (drop (n * l) xs)"
    by (rule take_add)
  finally have "take (Suc n * l) xs = take (n * l) xs @ take l (drop (n * l) xs)" .

  then show ?case using Suc by simp
qed

lemma total_pages_cover: "0 < limit \<Longrightarrow> n \<le> total_pages n limit * limit"
proof -
  assume l: "0 < limit"
  have "n + limit - 1 = total_pages n limit * limit + (n + limit - 1) mod limit"
    by (simp add: total_pages_def)
  moreover have "(n + limit - 1) mod limit < limit"
    using l by simp
  ultimately show ?thesis
    using l by linarith
qed

lemma pages_cover:
  assumes "0 < limit"
  shows "concat (map (\<lambda>p. page_of p limit xs) [1..<Suc (total_pages (length xs) limit)]) = xs"
proof -
  have "map (\<lambda>p. page_of p limit xs) [1..<Suc n] = map (\<lambda>p. take limit (drop (p * limit) xs)) [0..<n]"
    for n
    by (rule nth_equalityI) (simp_all add: page_of_def nth_upt del: upt_Suc)
  then show ?thesis
    using assms by (simp add: concat_pages_aux total_pages_cover del: upt_Suc)
qed

lemma set_page_of: "set (page_of page limit xs) \<subseteq> set xs"
  by (auto simp: page_of_def dest!: in_set_takeD in_set_dropD)

lemma page_of_map: "page_of p l (map f xs) = map f (page_of p l xs)"
  by (simp add: page_of_def take_map drop_map)

text \<open>Sorting goes by the key alone.\<close>

lemma insort_key_map: "insort_key f (g x) (map g xs) = map g (insort_key (\<lambda>x. f (g x)) x xs)"
  by (induction xs) auto

lemma sort_key_map: "sort_key f (map g xs) = map g (sort_key (\<lambda>x. f (g x)) xs)"
  by (induction xs) (simp_all add: insort_key_map)

section \<open>Insertion-ordered sets\<close>

definition set_add :: "'a list \<Rightarrow> 'a \<Rightarrow> 'a list" where
  "set_add xs x = (if x \<in> set xs then xs else xs @ [x])"

definition set_of :: "'a list \<Rightarrow> 'a list" where
  "set_of xs = foldl set_add [] xs"

lemma set_foldl_set_add [simp]: "set (foldl set_add ys xs) = set ys \<union> set xs"
  by (induction xs arbitrary: ys) (auto simp: set_add_def)

lemma distinct_foldl_set_add: "distinct ys \<Longrightarrow> distinct (foldl set_add ys xs)"
  by (induction xs arbitrary: ys) (auto simp: set_add_def)

lemma set_set_of [simp]: "set (set_of xs) = set xs"
  by (simp add: set_of_def)

lemma distinct_set_of [simp]: "distinct (set_of xs)"
  by (simp add: set_of_def distinct_foldl_set_add)

section \<open>Interfaces\<close>

text \<open>
  A table inside a larger state: reading a table back after it was written gives what was
  written. What a client concludes about its guarded writes it concludes here once.
\<close>

locale table_lens =
  fixes rows :: "'s \<Rightarrow> 'r list"
    and put :: "'r list \<Rightarrow> 's \<Rightarrow> 's"
    and key :: "'r \<Rightarrow> 'k"
  assumes rows_put: "rows (put t s) = t"
    and put_put: "put t (put u s) = put t s"
    and put_rows: "put (rows s) s = s"
begin

lemma keys_guarded_write:
  assumes "\<And>r. key (f r) = key r"
  shows "map key (rows (put (snd (update_many P f (rows s))) s)) = map key (rows s)"
  by (simp add: rows_put map_map_rows_same assms)

lemma guarded_write_at_most_one:
  assumes "distinct (map key (rows s))" "\<And>r. P r \<Longrightarrow> key r = c"
  shows "fst (update_many P f (rows s)) \<le> 1"
  using count_rows_key_le_1 [OF assms] by simp

lemma guarded_write_hits:
  assumes "distinct (map key (rows s))" "\<And>r. P r \<Longrightarrow> key r = c"
  shows "fst (update_many P f (rows s)) = 1 \<longleftrightarrow> (\<exists>r \<in> set (rows s). P r)"
  using count_rows_key_1_iff [OF assms] by simp

lemma lookup_guarded_write:
  assumes "\<And>r. key (f r) = key r"
  shows "find (\<lambda>r. key r = c) (rows (put (snd (update_many P f (rows s))) s))
       = map_option (\<lambda>r. if P r then f r else r) (find (\<lambda>r. key r = c) (rows s))"
  by (simp add: rows_put find_map_rows_key assms)

lemma guarded_write_missed:
  assumes "fst (update_many P f (rows s)) = 0"
  shows "put (snd (update_many P f (rows s))) s = s"
  using assms by (simp add: count_rows_pos_iff map_rows_id put_rows)

end

text \<open>
  A table whose rows carry a version that every write increments. \<open>evolves\<close> is what any
  number of committed transactions may do between a read and a later guarded write.
\<close>

definition evolves_by :: "('r \<Rightarrow> 'k) \<Rightarrow> ('r \<Rightarrow> nat) \<Rightarrow> 'r list \<Rightarrow> 'r list \<Rightarrow> bool" where
  "evolves_by key version t u \<longleftrightarrow>
     (\<forall>r \<in> set t. \<exists>q \<in> set u. key q = key r \<and> version r \<le> version q \<and> (version q = version r \<longrightarrow> q = r))"

lemma evolves_by_refl: "evolves_by k v t t"
  by (auto simp: evolves_by_def)

lemma evolves_by_trans:
  assumes "evolves_by k v t u" "evolves_by k v u w"
  shows "evolves_by k v t w"
  unfolding evolves_by_def
proof
  fix r assume "r \<in> set t"
  then obtain q where q: "q \<in> set u" "k q = k r" "v r \<le> v q" "v q = v r \<longrightarrow> q = r"
    using assms(1) unfolding evolves_by_def by blast
  then obtain p where p: "p \<in> set w" "k p = k q" "v q \<le> v p" "v p = v q \<longrightarrow> p = q"
    using assms(2) unfolding evolves_by_def by blast
  then have "k p = k r" "v r \<le> v p" "v p = v r \<longrightarrow> p = r"
    using q by auto
  then show "\<exists>p \<in> set w. k p = k r \<and> v r \<le> v p \<and> (v p = v r \<longrightarrow> p = r)"
    using p(1) by blast
qed

lemma evolves_by_append: "evolves_by k v t (t @ u)"
  by (auto simp: evolves_by_def)

lemma evolves_by_map_rows:
  assumes "\<And>r. k (f r) = k r" "\<And>r. v (f r) = Suc (v r)"
  shows "evolves_by k v t (map_rows P f t)"
  unfolding evolves_by_def
proof
  fix r assume r: "r \<in> set t"
  let ?q = "if P r then f r else r"
  have "?q \<in> set (map_rows P f t)"
    using r by (auto simp: set_map_rows)
  moreover have "k ?q = k r" "v r \<le> v ?q" "v ?q = v r \<longrightarrow> ?q = r"
    by (simp_all add: assms)
  ultimately show "\<exists>q \<in> set (map_rows P f t). k q = k r \<and> v r \<le> v q \<and> (v q = v r \<longrightarrow> q = r)"
    by blast
qed

locale versioned_table = table_lens rows put key
  for rows :: "'s \<Rightarrow> 'r list" and put :: "'r list \<Rightarrow> 's \<Rightarrow> 's" and key :: "'r \<Rightarrow> 'k" +
  fixes version :: "'r \<Rightarrow> nat"
    and step :: "'s \<Rightarrow> 's \<Rightarrow> bool"
  assumes step_evolves: "step s s' \<Longrightarrow> evolves_by key version (rows s) (rows s')"
begin

lemma steps_evolve: "step\<^sup>*\<^sup>* s s' \<Longrightarrow> evolves_by key version (rows s) (rows s')"
proof (induction rule: rtranclp_induct)
  case base
  show ?case by (rule evolves_by_refl)
next
  case (step y z)
  then show ?case using evolves_by_trans step_evolves by metis
qed

lemma same_version_same_row:
  assumes "step\<^sup>*\<^sup>* s s'" "distinct (map key (rows s'))"
    and "r \<in> set (rows s)" "q \<in> set (rows s')" "key q = key r" "version q = version r"
  shows "q = r"
proof -
  obtain p where "p \<in> set (rows s')" "key p = key r" "version p = version r \<longrightarrow> p = r"
    using steps_evolve [OF assms(1)] assms(3) unfolding evolves_by_def by blast
  moreover from this have "p = q"
    using assms(2,4,5) distinct_key_unique [of key "rows s'" p q] by simp
  ultimately show ?thesis
    using assms(6) by simp
qed

end

locale invariant_system =
  fixes init :: "'s \<Rightarrow> bool"
    and step :: "'s \<Rightarrow> 's \<Rightarrow> bool"
    and inv :: "'s \<Rightarrow> bool"
  assumes init_inv: "init s \<Longrightarrow> inv s"
    and step_inv: "inv s \<Longrightarrow> step s s' \<Longrightarrow> inv s'"
begin

lemma steps_inv: "step\<^sup>*\<^sup>* s s' \<Longrightarrow> inv s \<Longrightarrow> inv s'"
  by (induction rule: rtranclp_induct) (auto intro: step_inv)

lemma reachable_inv: "init s \<Longrightarrow> step\<^sup>*\<^sup>* s s' \<Longrightarrow> inv s'"
  using init_inv steps_inv by blast

end

text \<open>
  Something that can be redeemed once: \<open>redeem\<close> answers what it spent, what is spent stays spent.
\<close>

locale single_use = invariant_system init step inv
  for init :: "'s \<Rightarrow> bool" and step :: "'s \<Rightarrow> 's \<Rightarrow> bool" and inv :: "'s \<Rightarrow> bool" +
  fixes redeem :: "'s \<Rightarrow> 'i \<Rightarrow> ('s \<times> 'k) option"
    and spent :: "'s \<Rightarrow> 'k \<Rightarrow> bool"
  assumes redeem_unspent: "inv s \<Longrightarrow> redeem s i = Some (s', k) \<Longrightarrow> \<not> spent s k"
    and redeem_spends: "redeem s i = Some (s', k) \<Longrightarrow> spent s' k"
    and redeem_step: "redeem s i = Some (s', k) \<Longrightarrow> step s s'"
    and spent_stays: "step s s' \<Longrightarrow> spent s k \<Longrightarrow> spent s' k"
begin

lemma spent_forever: "step\<^sup>*\<^sup>* s s' \<Longrightarrow> spent s k \<Longrightarrow> spent s' k"
  by (induction rule: rtranclp_induct) (auto intro: spent_stays)

lemma redeemed_once:
  assumes "inv s" "redeem s i = Some (s1, k)" "step\<^sup>*\<^sup>* s1 s2" "redeem s2 j = Some (s3, m)"
  shows "m \<noteq> k"
proof -
  have "inv s1" using step_inv [OF assms(1) redeem_step [OF assms(2)]] .
  then have "inv s2" using steps_inv [OF assms(3)] by blast
  then have "\<not> spent s2 m" using redeem_unspent assms(4) by blast
  moreover have "spent s2 k" using spent_forever [OF assms(3)] redeem_spends [OF assms(2)] by blast
  ultimately show ?thesis by blast
qed

end

end
