(* ===== verification/BN_Schema.thy ===== *)
theory BN_Schema
  imports BN_Prelude
begin

text \<open>
  The database: the enums and tables of \<open>apps/api/prisma/schema.prisma\<close> that the modelled
  services read or write, one record per table and one record \<open>db\<close> for the whole state. Columns
  keep the schema's names behind a prefix per table. Nullable columns are options. The columns no
  modelled code reads (alt texts, avatar urls, the ids of append-only logs) are left out.
\<close>

section \<open>Enums\<close>

datatype auction_status = DRAFT | SCHEDULED | ACTIVE | SOLD | UNSOLD | CANCELLED

datatype product_condition = NEW | USED

datatype product_status = P_ACTIVE | P_INACTIVE | P_OUT_OF_STOCK | P_REMOVED | P_SUSPENDED

datatype auction_event_type =
  EV_CREATED | EV_PUBLISHED | EV_STARTED | EV_BID_PLACED | EV_EXTENDED | EV_ENDED | EV_CANCELLED

datatype notification_type =
  OUTBID | AUCTION_WON | AUCTION_ENDED | AUCTION_CANCELLED | ORDER_PLACED | SHIPMENT_UPDATE
  | DELIVERED_NOTE | NEW_MESSAGE

datatype offer_decision = ACCEPTED | COUNTERED | REJECTED

datatype order_status = O_PENDING | O_PAID | O_CANCELLED

datatype payment_status = PAY_SUCCEEDED | PAY_FAILED

datatype payment_method = CARD | BANK_TRANSFER | E_WALLET

datatype ai_request_type = PRICE_ESTIMATE | NEGOTIATION

datatype shipment_status = PROCESSING | SHIPPED | IN_TRANSIT | DELIVERED | S_CANCELLED

datatype admin_action_type =
  SUSPEND_USER | REACTIVATE_USER | CREATE_CATEGORY | UPDATE_CATEGORY | ACTIVATE_CATEGORY
  | DEACTIVATE_CATEGORY | CANCEL_AUCTION | DEACTIVATE_PRODUCT | REACTIVATE_PRODUCT

section \<open>Rows\<close>

text \<open>A user with the display name of the profile, when there is a profile.\<close>

record user_row =
  us_id :: uuid
  us_displayName :: "utext option"
  us_autoReplyMessage :: "utext option"

record category_row =
  ca_id :: uuid
  ca_name :: utext
  ca_slug :: utext
  ca_isActive :: bool
  ca_parentId :: "uuid option"
  ca_description :: "utext option"
  ca_createdByAdminId :: "uuid option"
  ca_createdAt :: instant
  ca_updatedAt :: instant

record auction_row =
  au_id :: uuid
  au_sellerId :: uuid
  au_categoryId :: uuid
  au_title :: utext
  au_description :: utext
  au_condition :: product_condition
  au_status :: auction_status
  au_currency :: utext
  au_startingPrice :: money
  au_reservePrice :: "money option"
  au_minBidIncrement :: money
  au_currentPrice :: money
  au_bidCount :: nat
  au_scheduledStartAt :: "instant option"
  au_originalEndAt :: "instant option"
  au_currentEndAt :: "instant option"
  au_publishedAt :: "instant option"
  au_startedAt :: "instant option"
  au_endedAt :: "instant option"
  au_extensionCount :: nat
  au_winnerUserId :: "uuid option"
  au_winningBidId :: "uuid option"
  au_soldPrice :: "money option"
  au_cancellationReason :: "utext option"
  au_rowVersion :: nat
  au_deletedAt :: "instant option"
  au_createdAt :: instant
  au_updatedAt :: instant

text \<open>
  A storage key is either one the file store issued or the one a service invents for a picture
  added by url, written \<open>sellerId/randomUUID/index\<close> in the source.
\<close>

datatype storage_key = Stored utext | Invented uuid uuid nat

record image_row =
  im_id :: uuid
  im_ownerId :: uuid \<comment> \<open>\<open>auctionId\<close> or \<open>productId\<close>\<close>
  im_storageKey :: storage_key
  im_url :: utext
  im_position :: nat
  im_isPrimary :: bool

record bid_row =
  bi_id :: uuid
  bi_auctionId :: uuid
  bi_bidderId :: uuid
  bi_amount :: money
  bi_sequenceNo :: nat
  bi_clientRequestId :: uuid
  bi_placedAt :: instant

record extension_row =
  ex_auctionId :: uuid
  ex_triggeredByBidId :: uuid
  ex_extensionNumber :: nat
  ex_previousEndAt :: instant
  ex_newEndAt :: instant

record event_row =
  ev_auctionId :: uuid
  ev_actorUserId :: "uuid option"
  ev_bidId :: "uuid option"
  ev_eventType :: auction_event_type

record watch_row =
  wa_userId :: uuid
  wa_targetId :: uuid \<comment> \<open>\<open>auctionId\<close> or \<open>productId\<close>\<close>
  wa_createdAt :: instant

text \<open>
  The title and message of a notification are one constructor per template, with the values the
  template is filled with; rendering them to English is not modelled.
\<close>

datatype notification_body =
  OutbidBody utext money utext
| WonBody utext utext money
| EndedSoldBody utext utext money
| EndedNoBidBody utext
| EndedReserveNotMetBody utext
| CancelledBody utext "utext option"
| OrderPlacedBody uuid money
| OrderReceivedBody uuid money
| ShipmentBody uuid shipment_status
| DeliveredBody uuid
| MessageBody utext

record notification_row =
  no_userId :: uuid
  no_auctionId :: "uuid option"
  no_bidId :: "uuid option"
  no_orderId :: "uuid option"
  no_conversationId :: "uuid option"
  no_type :: notification_type
  no_body :: notification_body

record admin_action_row =
  aa_adminUserId :: uuid
  aa_auctionId :: "uuid option"
  aa_productId :: "uuid option"
  aa_categoryId :: "uuid option"
  aa_actionType :: admin_action_type
  aa_note :: "utext option"

record product_row =
  pr_id :: uuid
  pr_sellerId :: uuid
  pr_categoryId :: uuid
  pr_title :: utext
  pr_description :: utext
  pr_price :: money
  pr_stockQty :: int
  pr_condition :: product_condition
  pr_negotiationFloor :: "money option"
  pr_quantityDiscountMinQty :: "int option"
  pr_quantityDiscountPercent :: "int option" \<comment> \<open>\<open>Decimal(5, 2)\<close>, in hundredths of a percent\<close>
  pr_status :: product_status
  pr_createdAt :: instant
  pr_updatedAt :: instant

record cart_row =
  ct_id :: uuid
  ct_userId :: uuid

record cart_item_row =
  ci_id :: uuid
  ci_cartId :: uuid
  ci_productId :: uuid
  ci_quantity :: int

record offer_row =
  of_id :: uuid
  of_buyerId :: uuid
  of_productId :: uuid
  of_quantity :: int
  of_offerAmount :: money
  of_decision :: offer_decision
  of_counterAmount :: "money option"
  of_expiresAt :: "instant option"
  of_createdAt :: instant

record address =
  ad_recipientName :: utext
  ad_line1 :: utext
  ad_line2 :: "utext option"
  ad_city :: utext
  ad_postalCode :: utext
  ad_phone :: utext

record order_row =
  or_id :: uuid
  or_checkoutSessionId :: uuid
  or_sellerId :: uuid
  or_buyerId :: uuid
  or_paymentTransactionId :: uuid
  or_subtotal :: money
  or_status :: order_status
  or_address :: address
  or_createdAt :: instant

record order_item_row =
  oi_orderId :: uuid
  oi_productId :: "uuid option"
  oi_auctionId :: "uuid option"
  oi_quantity :: int
  oi_unitPrice :: money

record payment_row =
  pt_id :: uuid
  pt_checkoutSessionId :: uuid
  pt_status :: payment_status
  pt_method :: payment_method

record shipment_row =
  sh_id :: uuid
  sh_orderId :: uuid
  sh_trackingNumber :: "utext option"
  sh_carrier :: "utext option"
  sh_status :: shipment_status

record shipment_event_row =
  se_shipmentId :: uuid
  se_actorUserId :: "uuid option"
  se_eventType :: shipment_status
  se_createdAt :: instant

record ai_request_row =
  ai_userId :: uuid
  ai_type :: ai_request_type

section \<open>The database\<close>

record db =
  users :: "user_row list"
  categories :: "category_row list"
  auctions :: "auction_row list"
  auctionImages :: "image_row list"
  bids :: "bid_row list"
  extensions :: "extension_row list"
  auctionEvents :: "event_row list"
  watchlists :: "watch_row list"
  productWatchlists :: "watch_row list"
  notifications :: "notification_row list"
  adminActions :: "admin_action_row list"
  products :: "product_row list"
  productImages :: "image_row list"
  carts :: "cart_row list"
  cartItems :: "cart_item_row list"
  offers :: "offer_row list"
  orders :: "order_row list"
  orderItems :: "order_item_row list"
  payments :: "payment_row list"
  shipments :: "shipment_row list"
  shipmentEvents :: "shipment_event_row list"
  aiRequests :: "ai_request_row list"

definition empty_db :: db where
  "empty_db = \<lparr>users = [], categories = [], auctions = [], auctionImages = [], bids = [],
     extensions = [], auctionEvents = [], watchlists = [], productWatchlists = [],
     notifications = [], adminActions = [], products = [], productImages = [], carts = [],
     cartItems = [], offers = [], orders = [], orderItems = [], payments = [], shipments = [],
     shipmentEvents = [], aiRequests = []\<rparr>"

interpretation auction_table: table_lens auctions "\<lambda>t s. s\<lparr>auctions := t\<rparr>" au_id
  by unfold_locales simp_all

interpretation product_table: table_lens products "\<lambda>t s. s\<lparr>products := t\<rparr>" pr_id
  by unfold_locales simp_all

interpretation offer_table: table_lens offers "\<lambda>t s. s\<lparr>offers := t\<rparr>" of_id
  by unfold_locales simp_all

interpretation shipment_table: table_lens shipments "\<lambda>t s. s\<lparr>shipments := t\<rparr>" sh_id
  by unfold_locales simp_all

section \<open>Errors\<close>

text \<open>
  One constructor per \<open>throw\<close> of the modelled services, carrying what its message or payload
  carries; \<open>http_status\<close> gives the NestJS exception class.
\<close>

datatype draft_issue_code =
  TITLE_REQUIRED | DESCRIPTION_REQUIRED | CONDITION_REQUIRED | CATEGORY_REQUIRED
| CATEGORY_INACTIVE | STARTING_PRICE_NOT_POSITIVE | MIN_BID_INCREMENT_NOT_POSITIVE
| START_AT_REQUIRED | END_AT_REQUIRED | END_AT_NOT_AFTER_START_AT | END_AT_IN_THE_PAST
| IMAGES_REQUIRED | RESERVE_NOT_POSITIVE | RESERVE_BELOW_STARTING_PRICE

record draft_issue =
  di_field :: string
  di_code :: draft_issue_code

datatype change_verb = Edited | Cancelled_verb

datatype checkout_issue_code = PRODUCT_UNAVAILABLE | INSUFFICIENT_STOCK | OWN_LISTING | NOT_IN_CART

record checkout_issue =
  ck_code :: checkout_issue_code
  ck_productId :: "uuid option"
  ck_title :: utext
  ck_available :: "int option"
  ck_requested :: "int option"
  ck_count :: nat \<comment> \<open>the number in the message of \<open>NOT_IN_CART\<close>, 0 otherwise\<close>

datatype unique_target = TargetList "string list" | TargetName string | TargetMissing

datatype resource =
  AuctionDraft | Auction | AuctionImage | Product | ProductImage | CartItem | Order | Shipment
| Category | ParentCategory | Notification | Conversation

datatype conflict =
  ChangedMeanwhile | NotOpenForBidding | AuctionHasEnded | SomebodyBidFirst
| RequestIdOnOtherAuction | RequestIdOtherAmount | BidUnconfirmed
| CategorySlugTaken | NoLongerRunning
| AuctionAlreadyPaid | AuctionPaidMeanwhile uuid | StockLostAfterCharge uuid "checkout_issue list"

datatype forbidden =
  SellerCannotBid | NotProductOwner | RemovedBySeller | ProductSuspended | OwnProductInCart | OwnListingOffer
| NotOrderSeller | OwnListingConversation

datatype bad_request =
  CategoryNotFound | CategoryNotActive
| DraftNotReady "draft_issue list" | EditIncomplete "draft_issue list"
| NotChangeableInStatus auction_status change_verb | HasBids change_verb
| NotCancellableByAdmin auction_status | AdminChangedMeanwhile
| TooManyImages | MinAboveMax | BidBelowMinimum money
| RemovedNotEditable | DiscountRuleIncomplete | LastImage
| NotPurchasable | NotEnoughStock int
| SeveralTargets | CartEmpty | ItemsUnavailable "checkout_issue list" | PaymentDeclined uuid
| AuctionUnpayable | OfferUnusable
| NoOffersAccepted | OfferCooldown int | OfferCapReached | OfferTokenInvalid | OfferUsedOrExpired
| BadTransition shipment_status shipment_status
| NameWithoutLetterOrDigit | NothingToUpdate | TooDeep | ParentNotActive | ActivateParentFirst
| AlreadySuspended | NotSuspended product_status

datatype error =
  NotFound resource | Conflict conflict | Forbidden forbidden | BadRequest bad_request
| ServiceUnavailable
| KnownRequestError string unique_target \<comment> \<open>Prisma's error with its code and \<open>meta.target\<close>\<close>
| RecordNotFound \<comment> \<open>Prisma's \<open>findUniqueOrThrow\<close> and \<open>update\<close> on a missing row\<close>

fun http_status :: "error \<Rightarrow> nat" where
  "http_status (NotFound r) = 404"
| "http_status (Conflict c) = 409"
| "http_status (Forbidden f) = 403"
| "http_status (BadRequest b) = 400"
| "http_status ServiceUnavailable = 503"
| "http_status (KnownRequestError c t) = 500"
| "http_status RecordNotFound = 500"

end
