(* ===== verification/Money_Math.thy ===== *)
theory Money_Math
  imports BN_Schema "HOL-Library.Log_Nat" Complex_Main
begin

text \<open>
  The arithmetic the shop does on money. Prices are \<open>Prisma.Decimal\<close>, that is decimal.js with its
  default precision of twenty significant digits and \<open>ROUND_HALF_UP\<close>: a value is kept here as its
  integer coefficient at a scale the code fixes (satang for prices, hundredths of a percent for a
  discount), and every operation rounds its coefficient. The negotiator and the floor warning
  compute on JavaScript numbers instead, which are binary doubles: \<open>fl\<close> rounds a rational to the
  nearest double, ties to even, for the magnitudes that occur (zero, and \<open>2 ^ (-60)\<close> and up).
\<close>

section \<open>decimal.js\<close>

definition PRECISION :: nat where
  "PRECISION = 20"

fun num_digits :: "nat \<Rightarrow> nat" where
  "num_digits n = (if n < 10 then 1 else Suc (num_digits (n div 10)))"

declare num_digits.simps [simp del]

definition round_half_up :: "int \<Rightarrow> nat \<Rightarrow> int" where
  "round_half_up x k = sgn x * ((2 * \<bar>x\<bar> + 10 ^ k) div (2 * 10 ^ k))"

definition dec_fin :: "int \<Rightarrow> int" where
  "dec_fin x = (let d = num_digits (nat \<bar>x\<bar>) in
     if d \<le> PRECISION then x else round_half_up x (d - PRECISION) * 10 ^ (d - PRECISION))"

definition dec_mul :: "int \<Rightarrow> int \<Rightarrow> int" where
  "dec_mul x y = dec_fin (x * y)"

definition dec_plus :: "int \<Rightarrow> int \<Rightarrow> int" where
  "dec_plus x y = dec_fin (x + y)"

definition dec_minus :: "int \<Rightarrow> int \<Rightarrow> int" where
  "dec_minus x y = dec_fin (x - y)"

definition dec_sum :: "int list \<Rightarrow> int" where
  "dec_sum xs = foldl dec_plus 0 xs"

lemma num_digits_le: "n < 10 ^ k \<Longrightarrow> 0 < k \<Longrightarrow> num_digits n \<le> k"
proof (induction n arbitrary: k rule: num_digits.induct)
  case (1 n)
  show ?case
  proof (cases "n < 10")
    case True
    then show ?thesis using 1(3) by (subst num_digits.simps) simp
  next
    case False
    obtain j where k1: "k = Suc j" using 1(3) by (cases k) auto
    moreover have "0 < j" using 1(2) k1 False by (cases j) auto
    ultimately have k: "k = Suc j" "0 < j" by auto
    have "n div 10 < 10 ^ j" using 1(2) k by (simp add: less_mult_imp_div_less mult.commute)
    then show ?thesis using 1(1) [OF False _ k(2)] False k by (subst num_digits.simps) simp
  qed
qed

text \<open>Below \<open>10 ^ 20\<close> decimal.js is exact.\<close>

lemma dec_fin_exact: "\<bar>x\<bar> < 10 ^ 20 \<Longrightarrow> dec_fin x = x"
  using num_digits_le [of "nat \<bar>x\<bar>" 20] by (simp add: dec_fin_def PRECISION_def)

lemma dec_ops_exact:
  "\<bar>x * y\<bar> < 10 ^ 20 \<Longrightarrow> dec_mul x y = x * y"
  "\<bar>x + y\<bar> < 10 ^ 20 \<Longrightarrow> dec_plus x y = x + y"
  "\<bar>x - y\<bar> < 10 ^ 20 \<Longrightarrow> dec_minus x y = x - y"
  by (simp_all add: dec_mul_def dec_plus_def dec_minus_def dec_fin_exact)

lemma dec_sum_exact:
  assumes "\<forall>x \<in> set xs. 0 \<le> x" "sum_list xs < 10 ^ 20"
  shows "dec_sum xs = sum_list xs"
proof -
  have "foldl dec_plus a xs = a + sum_list xs" if "0 \<le> a" "a + sum_list xs < 10 ^ 20" for a
    using assms(1) that
  proof (induction xs arbitrary: a)
    case (Cons x xs)
    have "0 \<le> sum_list xs" using Cons.prems(1) by (auto intro: sum_list_nonneg)
    then have "dec_plus a x = a + x" using Cons.prems by (intro dec_ops_exact(2)) auto
    then show ?case using Cons by (simp add: add.assoc)
  qed simp
  from this [of 0] show ?thesis using assms by (simp add: dec_sum_def)
qed

lemma round_half_up_nonneg:
  assumes "0 \<le> x"
  shows "round_half_up x k = (2 * x + 10 ^ k) div (2 * 10 ^ k)"
  using assms by (cases "x = 0") (simp_all add: round_half_up_def)

lemma round_half_up_bounds:
  assumes "0 \<le> x"
  shows "0 \<le> round_half_up x k" "2 * \<bar>round_half_up x k * 10 ^ k - x\<bar> \<le> 10 ^ k"
    "x \<le> y * 10 ^ k \<Longrightarrow> round_half_up x k \<le> y"
proof -
  let ?p = "10 ^ k :: int"
  have p: "0 < ?p" by simp
  have eq: "round_half_up x k = (2 * x + ?p) div (2 * ?p)"
    by (rule round_half_up_nonneg [OF assms])
  show "0 \<le> round_half_up x k" unfolding eq using assms p by (simp add: pos_imp_zdiv_nonneg_iff)
  define q m where "q = (2 * x + ?p) div (2 * ?p)" and "m = (2 * x + ?p) mod (2 * ?p)"
  have "2 * x + ?p = q * (2 * ?p) + m"
    unfolding q_def m_def by (rule div_mult_mod_eq [symmetric])
  moreover have "0 \<le> m" "m < 2 * ?p"
    using p by (simp_all add: m_def)
  ultimately have "\<bar>2 * (q * ?p - x)\<bar> \<le> ?p"
    by (simp add: abs_if algebra_simps)
  then show "2 * \<bar>round_half_up x k * ?p - x\<bar> \<le> ?p"
    unfolding eq q_def [symmetric] by (simp only: abs_mult abs_numeral)
  assume "x \<le> y * ?p"
  then have "2 * x + ?p < y * (2 * ?p) + 2 * ?p" using p by linarith
  then have "2 * x + ?p < (y + 1) * (2 * ?p)" by (simp add: algebra_simps)
  moreover have "(2 * x + ?p) div (2 * ?p) * (2 * ?p) \<le> 2 * x + ?p"
    using div_mult_mod_eq [of "2 * x + ?p" "2 * ?p"] pos_mod_sign [of "2 * ?p" "2 * x + ?p"] p by linarith
  ultimately have "(2 * x + ?p) div (2 * ?p) * (2 * ?p) < (y + 1) * (2 * ?p)" by linarith
  then have "(2 * x + ?p) div (2 * ?p) < y + 1" using p by (simp only: mult_less_cancel_right)
  then show "round_half_up x k \<le> y" unfolding eq by simp
qed

section \<open>Doubles\<close>

definition round_even :: "rat \<Rightarrow> int" where
  "round_even x = (let f = \<lfloor>x\<rfloor>; d = x - of_int f in
     if d < 1 / 2 then f else if d > 1 / 2 then f + 1 else if even f then f else f + 1)"

text \<open>The binary exponent of a positive rational: \<open>2 ^ (e - 1) \<le> x < 2 ^ e\<close>, as \<open>e + 60\<close>.\<close>

definition expo60 :: "rat \<Rightarrow> nat" where
  "expo60 x = floorlog 2 (nat \<lfloor>x * 2 ^ 60\<rfloor>)"

definition fl :: "rat \<Rightarrow> rat" where
  "fl x = (if x = 0 then 0
     else of_int (round_even (x * 2 ^ 113 / 2 ^ expo60 x)) * 2 ^ expo60 x / 2 ^ 113)"

text \<open>\<open>Decimal.toNumber\<close> of an amount in hundredths, and \<open>Math.round\<close>.\<close>

definition to_number :: "int \<Rightarrow> rat" where
  "to_number x = fl (of_int x / 100)"

definition math_round :: "rat \<Rightarrow> int" where
  "math_round x = \<lfloor>x + 1 / 2\<rfloor>"

lemma round_even_near: "\<bar>of_int (round_even x) - x\<bar> \<le> 1 / 2"
  unfolding round_even_def Let_def by (simp add: abs_if split: if_splits; linarith)

lemma expo60_bounds:
  assumes "1 / 2 ^ 60 \<le> x"
  shows "0 < expo60 x" "2 ^ expo60 x \<le> 2 * (x * 2 ^ 60)"
proof -
  have one: "1 \<le> \<lfloor>x * 2 ^ 60\<rfloor>" using assms by (simp add: field_simps le_floor_iff)
  then have pos: "0 < nat \<lfloor>x * 2 ^ 60\<rfloor>" by simp
  show k: "0 < expo60 x" using pos by (simp add: expo60_def floorlog_def)
  have "2 ^ (expo60 x - 1) \<le> nat \<lfloor>x * 2 ^ 60\<rfloor>"
    using floorlog_bounds [of "nat \<lfloor>x * 2 ^ 60\<rfloor>" 2] pos by (simp add: expo60_def)
  then have "int (2 ^ (expo60 x - 1)) \<le> \<lfloor>x * 2 ^ 60\<rfloor>" using one by linarith
  then have "of_int (int (2 ^ (expo60 x - 1))) \<le> x * 2 ^ 60" by (simp only: le_floor_iff)
  then have "(2::rat) ^ (expo60 x - 1) \<le> x * 2 ^ 60" by simp
  moreover have "(2::rat) ^ expo60 x = 2 * 2 ^ (expo60 x - 1)" using k by (cases "expo60 x") auto
  ultimately show "2 ^ expo60 x \<le> 2 * (x * 2 ^ 60)" by simp
qed

text \<open>Rounding to a double is off by at most one part in \<open>2 ^ 53\<close>.\<close>

lemma fl_near:
  assumes "1 / 2 ^ 60 \<le> x"
  shows "\<bar>fl x - x\<bar> \<le> x / 2 ^ 53"
proof -
  let ?k = "2 ^ expo60 x :: rat"
  let ?y = "x * 2 ^ 113 / ?k"
  have k: "0 < ?k" by simp
  have x: "x \<noteq> 0" using assms by auto
  have "fl x - x = (of_int (round_even ?y) - ?y) * (?k / 2 ^ 113)"
    using x k by (simp add: fl_def field_simps)
  then have "\<bar>fl x - x\<bar> = \<bar>of_int (round_even ?y) - ?y\<bar> * (?k / 2 ^ 113)"
    using k by (simp only: abs_mult) (simp add: abs_of_pos)
  also have "\<dots> \<le> 1 / 2 * (?k / 2 ^ 113)"
    by (rule mult_right_mono [OF round_even_near]) simp
  also have "\<dots> \<le> 1 / 2 * (2 * (x * 2 ^ 60) / 2 ^ 113)"
    using expo60_bounds(2) [OF assms] by (intro mult_left_mono divide_right_mono) simp_all
  finally show ?thesis by simp
qed

lemma fl_bounds:
  assumes "1 / 2 ^ 60 \<le> x"
  shows "x - x / 2 ^ 53 \<le> fl x" "fl x \<le> x + x / 2 ^ 53" "0 < fl x"
proof -
  have x: "0 < x" using assms by (rule less_le_trans [rotated]) simp
  show lo: "x - x / 2 ^ 53 \<le> fl x" and "fl x \<le> x + x / 2 ^ 53"
    using abs_ge_self [of "fl x - x"] abs_ge_minus_self [of "fl x - x"] fl_near [OF assms] by linarith+
  have "0 < x - x / 2 ^ 53" using x by (simp add: field_simps)
  then show "0 < fl x" using lo by linarith
qed

text \<open>Amounts up to ten trillion baht keep their order as doubles.\<close>

lemma to_number_bounds:
  assumes "0 < a"
  shows "of_int a / 100 - of_int a / 100 / 2 ^ 53 \<le> to_number a"
    "to_number a \<le> of_int a / 100 + of_int a / 100 / 2 ^ 53"
proof -
  have "(1::rat) \<le> of_int a" using assms by simp
  then have "(1::rat) / 2 ^ 60 \<le> of_int a / 100" by (simp add: field_simps)
  from fl_bounds(1,2) [OF this] show "of_int a / 100 - of_int a / 100 / 2 ^ 53 \<le> to_number a"
    "to_number a \<le> of_int a / 100 + of_int a / 100 / 2 ^ 53"
    unfolding to_number_def .
qed

lemma to_number_less:
  assumes "0 < a" "a < b" "b \<le> 10 ^ 15"
  shows "to_number a < to_number b"
proof -
  have b: "(of_int b :: rat) \<le> 10 ^ 15" using assms(3) by (metis of_int_le_iff of_int_numeral of_int_power)
  have ab: "(of_int a :: rat) + 1 \<le> of_int b" using assms(2) by (metis of_int_1 of_int_add of_int_le_iff zless_imp_add1_zle)
  have "of_int a / 100 + of_int a / 100 / 2 ^ 53 < of_int b / 100 - of_int b / 100 / (2 ^ 53 :: rat)"
    using ab b by (simp add: field_simps)
  then show ?thesis
    using to_number_bounds(2) [of a] to_number_bounds(1) [of b] assms by linarith
qed

lemma to_number_le_iff:
  assumes "0 < a" "a \<le> 10 ^ 15" "0 < b" "b \<le> 10 ^ 15"
  shows "to_number a \<le> to_number b \<longleftrightarrow> a \<le> b"
proof
  assume "to_number a \<le> to_number b"
  then show "a \<le> b" using to_number_less [of b a] assms by force
next
  assume "a \<le> b"
  then show "to_number a \<le> to_number b" using to_number_less [of a b] assms by (cases "a = b") auto
qed

definition round_half_sum :: "rat \<Rightarrow> rat \<Rightarrow> int" where
  "round_half_sum x y = math_round (fl (fl (fl (x + y) / 2) * 100))"

text \<open>
  \<open>Math.round(((x + y) / 2) * 100)\<close> on the doubles of two amounts is one of the two whole amounts
  nearest to their mean; which of the two it is for a mean that ends in half a satang depends on
  the doubles.
\<close>

lemma fl_chain:
  assumes "1 / 2 ^ 50 \<le> x" "x - d \<le> y" "y \<le> x + d" "0 \<le> d" "d \<le> x / 2"
  shows "x - d - x / 2 ^ 52 \<le> fl y" "fl y \<le> x + d + x / 2 ^ 52"
proof -
  have "0 < x" using assms(1) by (rule less_le_trans [rotated]) simp
  then have y: "x / 2 \<le> y" "y \<le> 2 * x" using assms(2-5) by linarith+
  have "1 / 2 ^ 60 \<le> y" using assms(1) y(1) by (rule_tac order_trans [of _ "x / 2"]) (auto simp: field_simps)
  from fl_bounds(1,2) [OF this] have "y - y / 2 ^ 53 \<le> fl y" "fl y \<le> y + y / 2 ^ 53" .
  moreover have "y / 2 ^ 53 \<le> x / 2 ^ 52" using y(2) by (simp add: field_simps)
  ultimately show "x - d - x / 2 ^ 52 \<le> fl y" "fl y \<le> x + d + x / 2 ^ 52"
    using assms(2,3) by linarith+
qed

lemma round_half_sum_near:
  assumes "0 < a" "a \<le> 10 ^ 13" "0 < b" "b \<le> 10 ^ 13"
  shows "(a + b) div 2 \<le> round_half_sum (to_number a) (to_number b)"
    "round_half_sum (to_number a) (to_number b) \<le> (a + b + 1) div 2"
proof -
  define h :: rat where "h = (of_int a + of_int b) / 2"
  have bnd: "(1::rat) \<le> of_int a" "(1::rat) \<le> of_int b" "(of_int a :: rat) \<le> 10 ^ 13" "(of_int b :: rat) \<le> 10 ^ 13"
    using assms by simp_all
  have h: "1 \<le> h" "h \<le> 10 ^ 13" using bnd by (simp_all add: h_def)
  define s where "s = fl (to_number a + to_number b)"
  define m where "m = fl (s / 2)"
  define y where "y = fl (m * 100)"
  have "to_number a + to_number b \<le> h / 50 + h / 50 / 2 ^ 53" "h / 50 - h / 50 / 2 ^ 53 \<le> to_number a + to_number b"
    using to_number_bounds [OF assms(1)] to_number_bounds [OF assms(3)] unfolding h_def
    by (simp_all add: field_simps)
  then have s: "h / 50 - h / 50 / 2 ^ 53 - h / 50 / 2 ^ 52 \<le> s" "s \<le> h / 50 + h / 50 / 2 ^ 53 + h / 50 / 2 ^ 52"
    unfolding s_def using h by (intro fl_chain; simp add: field_simps)+
  have m: "h / 100 - 3 * h / 100 / 2 ^ 53 - h / 100 / 2 ^ 52 \<le> m" "m \<le> h / 100 + 3 * h / 100 / 2 ^ 53 + h / 100 / 2 ^ 52"
    unfolding m_def using h s by (intro fl_chain; simp add: field_simps)+
  have y: "h - 5 * h / 2 ^ 53 - h / 2 ^ 52 \<le> y" "y \<le> h + 5 * h / 2 ^ 53 + h / 2 ^ 52"
    unfolding y_def using h m by (intro fl_chain; simp add: field_simps)+
  have near: "h - 1 / 4 < y" "y < h + 1 / 4"
    using y h by (simp_all add: field_simps)
  have r: "round_half_sum (to_number a) (to_number b) = \<lfloor>y + 1 / 2\<rfloor>"
    by (simp add: round_half_sum_def math_round_def y_def m_def s_def)
  have lo: "of_int ((a + b) div 2) \<le> h"
  proof -
    have "2 * ((a + b) div 2) \<le> a + b" by simp
    then have "of_int (2 * ((a + b) div 2)) \<le> (of_int (a + b) :: rat)" by (simp only: of_int_le_iff)
    then show ?thesis by (simp add: h_def)
  qed
  have hi: "h \<le> of_int ((a + b + 1) div 2)"
  proof -
    have "a + b \<le> 2 * ((a + b + 1) div 2)" by linarith
    then have "(of_int (a + b) :: rat) \<le> of_int (2 * ((a + b + 1) div 2))" by (simp only: of_int_le_iff)
    then show ?thesis by (simp add: h_def)
  qed
  show "(a + b) div 2 \<le> round_half_sum (to_number a) (to_number b)"
    unfolding r le_floor_iff using lo near by linarith
  have "y + 1 / 2 < of_int ((a + b + 1) div 2 + 1)"
    using hi near by simp
  then have "\<lfloor>y + 1 / 2\<rfloor> < (a + b + 1) div 2 + 1" by (simp only: floor_less_iff)
  then show "round_half_sum (to_number a) (to_number b) \<le> (a + b + 1) div 2"
    unfolding r by linarith
qed

end
