(* ===== verification/Cart_Service.thy ===== *)
theory Cart_Service
  imports Money_Math
begin

text \<open>
  \<open>CartService\<close> of \<open>apps/api/src/cart/cart.service.ts\<close> with the line pricing of
  \<open>cart/utils/calculate-line-total.util.ts\<close>. Every operation answers the state it leaves together
  with its result, since a refusal can come after the caller's cart row has been created. The
  foreign keys guarantee that a line's product and a product's seller exist; a join leaves out
  nothing.
\<close>

section \<open>Line totals\<close>

record line_total =
  lt_unitPrice :: money
  lt_effectiveUnitPrice :: money
  lt_discountPercent :: "int option"
  lt_discountAmount :: money
  lt_subtotal :: money

text \<open>
  Scales: prices in satang, the percentage in its hundredths; the product of the two is at scale
  four, dividing it by a hundred moves it to scale six, and \<open>toDecimalPlaces(2)\<close> drops four digits.
\<close>

definition calculateLineTotal :: "money \<Rightarrow> int \<Rightarrow> int option \<Rightarrow> int option \<Rightarrow> line_total" where
  "calculateLineTotal unitPrice quantity minQty percent =
     (let grossSubtotal = dec_mul unitPrice quantity in
      case (minQty, percent) of
        (Some m, Some p) \<Rightarrow>
          if quantity \<ge> m then
            let effective = round_half_up (dec_mul unitPrice (dec_minus 10000 p)) 4;
                subtotal = dec_mul effective quantity
            in \<lparr>lt_unitPrice = unitPrice, lt_effectiveUnitPrice = effective,
                lt_discountPercent = Some p, lt_discountAmount = dec_minus grossSubtotal subtotal,
                lt_subtotal = subtotal\<rparr>
          else \<lparr>lt_unitPrice = unitPrice, lt_effectiveUnitPrice = unitPrice,
                lt_discountPercent = None, lt_discountAmount = 0, lt_subtotal = grossSubtotal\<rparr>
      | _ \<Rightarrow> \<lparr>lt_unitPrice = unitPrice, lt_effectiveUnitPrice = unitPrice,
                lt_discountPercent = None, lt_discountAmount = 0, lt_subtotal = grossSubtotal\<rparr>)"

section \<open>Reads\<close>

definition find_product :: "db \<Rightarrow> uuid \<Rightarrow> product_row option" where
  "find_product s pid = find (\<lambda>p. pr_id p = pid) (products s)"

definition find_user :: "db \<Rightarrow> uuid \<Rightarrow> user_row option" where
  "find_user s uid = find (\<lambda>u. us_id u = uid) (users s)"

definition primary_image_url :: "db \<Rightarrow> uuid \<Rightarrow> utext option" where
  "primary_image_url s pid =
     map_option im_url (find (\<lambda>i. im_ownerId i = pid \<and> im_isPrimary i) (productImages s))"

datatype cart_issue = CART_PRODUCT_UNAVAILABLE | CART_INSUFFICIENT_STOCK

definition detectIssue :: "product_status \<Rightarrow> int \<Rightarrow> int \<Rightarrow> cart_issue option" where
  "detectIssue status quantity stockQty =
     (if status \<noteq> P_ACTIVE then Some CART_PRODUCT_UNAVAILABLE
      else if quantity > stockQty then Some CART_INSUFFICIENT_STOCK else None)"

record cart_line =
  cl_id :: uuid
  cl_quantity :: int
  cl_productId :: uuid
  cl_title :: utext
  cl_status :: product_status
  cl_stockQty :: int
  cl_imageUrl :: "utext option"
  cl_sellerId :: uuid
  cl_sellerName :: "utext option"
  cl_total :: line_total
  cl_issue :: "cart_issue option"

record cart_view =
  cv_items :: "cart_line list"
  cv_sellerCount :: nat
  cv_itemCount :: int
  cv_discountTotal :: money
  cv_total :: money

definition with_product :: "db \<Rightarrow> cart_item_row \<Rightarrow> (cart_item_row \<times> product_row) option" where
  "with_product s i = map_option (\<lambda>p. (i, p)) (find_product s (ci_productId i))"

definition buildLine :: "db \<Rightarrow> cart_item_row \<times> product_row \<Rightarrow> cart_line" where
  "buildLine s ip = (case ip of (item, product) \<Rightarrow>
     \<lparr>cl_id = ci_id item, cl_quantity = ci_quantity item, cl_productId = pr_id product,
      cl_title = pr_title product, cl_status = pr_status product, cl_stockQty = pr_stockQty product,
      cl_imageUrl = primary_image_url s (pr_id product), cl_sellerId = pr_sellerId product,
      cl_sellerName = Option.bind (find_user s (pr_sellerId product)) us_displayName,
      cl_total = calculateLineTotal (pr_price product) (ci_quantity item)
        (pr_quantityDiscountMinQty product) (pr_quantityDiscountPercent product),
      cl_issue = detectIssue (pr_status product) (ci_quantity item) (pr_stockQty product)\<rparr>)"

definition buildCartView :: "db \<Rightarrow> uuid \<Rightarrow> cart_view" where
  "buildCartView s cartId =
     (let items = sort_key ci_id (filter (\<lambda>i. ci_cartId i = cartId) (cartItems s));
          lines = map (buildLine s) (List.map_filter (with_product s) items)
      in \<lparr>cv_items = lines,
          cv_sellerCount = length (set_of (map cl_sellerId lines)),
          cv_itemCount = sum_list (map cl_quantity lines),
          cv_discountTotal = dec_sum (map (\<lambda>l. lt_discountAmount (cl_total l)) lines),
          cv_total = dec_sum (map (\<lambda>l. lt_subtotal (cl_total l)) lines)\<rparr>)"

section \<open>Operations\<close>

definition findOrCreateCart :: "db \<Rightarrow> uuid \<Rightarrow> uuid \<Rightarrow> db \<times> uuid" where
  "findOrCreateCart s newId userId =
     (case find (\<lambda>c. ct_userId c = userId) (carts s) of
        Some c \<Rightarrow> (s, ct_id c)
      | None \<Rightarrow> (s\<lparr>carts := carts s @ [\<lparr>ct_id = newId, ct_userId = userId\<rparr>]\<rparr>, newId))"

definition getCart :: "db \<Rightarrow> uuid \<Rightarrow> uuid \<Rightarrow> db \<times> cart_view" where
  "getCart s newId userId =
     (case findOrCreateCart s newId userId of (s1, cartId) \<Rightarrow> (s1, buildCartView s1 cartId))"

definition findPurchasableProduct :: "db \<Rightarrow> uuid \<Rightarrow> uuid \<Rightarrow> error + product_row" where
  "findPurchasableProduct s productId buyerId =
     (case find_product s productId of
        None \<Rightarrow> Inl (NotFound Product)
      | Some p \<Rightarrow>
          if pr_status p = P_REMOVED then Inl (NotFound Product)
          else if pr_sellerId p = buyerId then Inl (Forbidden OwnProductInCart)
          else if pr_status p \<noteq> P_ACTIVE then Inl (BadRequest NotPurchasable)
          else Inr p)"

definition assertWithinStock :: "int \<Rightarrow> int \<Rightarrow> error option" where
  "assertWithinStock quantity stockQty =
     (if quantity > stockQty then Some (BadRequest (NotEnoughStock stockQty)) else None)"

definition upsert_item :: "cart_item_row list \<Rightarrow> uuid \<Rightarrow> uuid \<Rightarrow> uuid \<Rightarrow> int \<Rightarrow> cart_item_row list" where
  "upsert_item items newId cartId productId quantity =
     (if list_ex (\<lambda>i. ci_cartId i = cartId \<and> ci_productId i = productId) items
      then map_rows (\<lambda>i. ci_cartId i = cartId \<and> ci_productId i = productId)
             (\<lambda>i. i\<lparr>ci_quantity := quantity\<rparr>) items
      else items @ [\<lparr>ci_id = newId, ci_cartId = cartId, ci_productId = productId,
                     ci_quantity = quantity\<rparr>])"

definition addItem ::
  "db \<Rightarrow> uuid \<Rightarrow> uuid \<Rightarrow> uuid \<Rightarrow> uuid \<Rightarrow> int \<Rightarrow> db \<times> (error + cart_view)" where
  "addItem s newCartId newItemId userId productId quantity =
     (case findPurchasableProduct s productId userId of
        Inl e \<Rightarrow> (s, Inl e)
      | Inr product \<Rightarrow>
         (case findOrCreateCart s newCartId userId of
            (s1, cartId) \<Rightarrow>
              let existing = find (\<lambda>i. ci_cartId i = cartId \<and> ci_productId i = productId) (cartItems s1);
                  nextQuantity = (case existing of None \<Rightarrow> 0 | Some i \<Rightarrow> ci_quantity i) + quantity
              in (case assertWithinStock nextQuantity (pr_stockQty product) of
                    Some e \<Rightarrow> (s1, Inl e)
                  | None \<Rightarrow>
                      let s2 = s1\<lparr>cartItems := upsert_item (cartItems s1) newItemId cartId productId nextQuantity\<rparr>
                      in (s2, Inr (buildCartView s2 cartId)))))"

definition findOwnedCartItem :: "db \<Rightarrow> uuid \<Rightarrow> uuid \<Rightarrow> error + (cart_item_row \<times> product_row)" where
  "findOwnedCartItem s cartId itemId =
     (case Option.bind (find (\<lambda>i. ci_id i = itemId) (cartItems s)) (with_product s) of
        None \<Rightarrow> Inl (NotFound CartItem)
      | Some (item, product) \<Rightarrow>
          if ci_cartId item \<noteq> cartId then Inl (NotFound CartItem) else Inr (item, product))"

definition updateItem :: "db \<Rightarrow> uuid \<Rightarrow> uuid \<Rightarrow> uuid \<Rightarrow> int \<Rightarrow> db \<times> (error + cart_view)" where
  "updateItem s newCartId userId itemId quantity =
     (case findOrCreateCart s newCartId userId of
        (s1, cartId) \<Rightarrow>
         (case findOwnedCartItem s1 cartId itemId of
            Inl e \<Rightarrow> (s1, Inl e)
          | Inr (item, product) \<Rightarrow>
             (case assertWithinStock quantity (pr_stockQty product) of
                Some e \<Rightarrow> (s1, Inl e)
              | None \<Rightarrow>
                  let s2 = s1\<lparr>cartItems := map_rows (\<lambda>i. ci_id i = itemId)
                        (\<lambda>i. i\<lparr>ci_quantity := quantity\<rparr>) (cartItems s1)\<rparr>
                  in (s2, Inr (buildCartView s2 cartId)))))"

definition removeItem :: "db \<Rightarrow> uuid \<Rightarrow> uuid \<Rightarrow> uuid \<Rightarrow> db \<times> (error + cart_view)" where
  "removeItem s newCartId userId itemId =
     (case findOrCreateCart s newCartId userId of
        (s1, cartId) \<Rightarrow>
         (case findOwnedCartItem s1 cartId itemId of
            Inl e \<Rightarrow> (s1, Inl e)
          | Inr _ \<Rightarrow>
              let s2 = s1\<lparr>cartItems := delete_many (\<lambda>i. ci_id i = itemId) (cartItems s1)\<rparr>
              in (s2, Inr (buildCartView s2 cartId))))"

definition clear_cart :: "db \<Rightarrow> uuid \<Rightarrow> uuid \<Rightarrow> db \<times> cart_view" where
  "clear_cart s newCartId userId =
     (case findOrCreateCart s newCartId userId of
        (s1, cartId) \<Rightarrow>
          let s2 = s1\<lparr>cartItems := delete_many (\<lambda>i. ci_cartId i = cartId) (cartItems s1)\<rparr>
          in (s2, buildCartView s2 cartId))"

section \<open>What a line costs\<close>



end
