(* ===== verification/Auction_Rules.thy ===== *)
theory Auction_Rules
  imports BN_Schema
begin

text \<open>
  The pure rules of the auction and bid modules: \<open>bid/utils\<close> (minimum bid, anti-sniping, name
  masking), \<open>auction/utils\<close> (reserve, publish gate, who may change an auction, the audience of
  an announcement), \<open>auction/constants\<close> (public statuses, browse sections), the mappers that
  decide what leaves the server, the notification builders, and the search escaping shared with
  the catalogue. The lemmas state what each rule decides; the property theorems are at the end.
\<close>

section \<open>Bid rules\<close>

definition calculateMinimumBid :: "auction_row \<Rightarrow> money" where
  "calculateMinimumBid a =
     (if au_bidCount a = 0 then au_startingPrice a
      else au_currentPrice a + au_minBidIncrement a)"

definition ANTI_SNIPING_WINDOW_MS :: int where
  "ANTI_SNIPING_WINDOW_MS = 2 * 60 * 1000"

definition ANTI_SNIPING_EXTENSION_MS :: int where
  "ANTI_SNIPING_EXTENSION_MS = 2 * 60 * 1000"

definition MAX_EXTENSIONS :: nat where
  "MAX_EXTENSIONS = 5"

datatype extension_decision =
  NoExtension
| Extension (previousEndAt: instant) (newEndAt: instant) (extensionNumber: nat)

definition calculateAntiSniping :: "instant \<Rightarrow> nat \<Rightarrow> instant \<Rightarrow> extension_decision" where
  "calculateAntiSniping currentEndAt extensionCount now =
     (let remainingMs = currentEndAt - now in
      if remainingMs > ANTI_SNIPING_WINDOW_MS then NoExtension
      else if extensionCount \<ge> MAX_EXTENSIONS then NoExtension
      else Extension currentEndAt (currentEndAt + ANTI_SNIPING_EXTENSION_MS) (extensionCount + 1))"

text \<open>\<open>Array.from\<close> splits a string into code points, which are the elements of \<open>utext\<close>.\<close>

definition maskBidderName :: "utext option \<Rightarrow> utext" where
  "maskBidderName displayName =
     (let characters = trim (case displayName of None \<Rightarrow> [] | Some d \<Rightarrow> d) in
      if length characters = 0 then ascii ''***''
      else if length characters = 1 then ascii ''*''
      else if length characters = 2 then characters ! 0 # ascii ''*''
      else characters ! 0 # ascii ''***'' @ [characters ! (length characters - 1)])"

text \<open>\<open>LEADING_BID_ORDER\<close>: amount descending, then sequence number ascending.\<close>

definition LEADING_BID_ORDER :: "bid_row \<Rightarrow> int \<times> nat" where
  "LEADING_BID_ORDER b = (- bi_amount b, bi_sequenceNo b)"

definition leading_bid :: "db \<Rightarrow> uuid \<Rightarrow> bid_row option" where
  "leading_bid s aid = find_by LEADING_BID_ORDER (\<lambda>b. bi_auctionId b = aid) (bids s)"

section \<open>Auction rules\<close>

definition calculateReserveMet :: "money \<Rightarrow> money option \<Rightarrow> bool" where
  "calculateReserveMet currentPrice reservePrice =
     (case reservePrice of None \<Rightarrow> True | Some r \<Rightarrow> currentPrice \<ge> r)"

definition PUBLIC_AUCTION_STATUSES :: "auction_status list" where
  "PUBLIC_AUCTION_STATUSES = [SCHEDULED, ACTIVE, SOLD, UNSOLD]"

definition SELLER_CHANGEABLE :: "auction_status list" where
  "SELLER_CHANGEABLE = [DRAFT, SCHEDULED]"

definition assertSellerMayChange :: "auction_status \<Rightarrow> nat \<Rightarrow> change_verb \<Rightarrow> error option" where
  "assertSellerMayChange status bidCount verb =
     (if status \<notin> set SELLER_CHANGEABLE then Some (BadRequest (NotChangeableInStatus status verb))
      else if bidCount > 0 then Some (BadRequest (HasBids verb))
      else None)"

definition assertAuctionIsEditable :: "auction_row \<Rightarrow> error option" where
  "assertAuctionIsEditable a = assertSellerMayChange (au_status a) (au_bidCount a) Edited"

definition assertAuctionIsCancellable :: "auction_row \<Rightarrow> error option" where
  "assertAuctionIsCancellable a = assertSellerMayChange (au_status a) (au_bidCount a) Cancelled_verb"

record draft_for_publish =
  dp_title :: utext
  dp_description :: utext
  dp_condition :: "product_condition option"
  dp_category :: "bool option" \<comment> \<open>\<open>isActive\<close> of the category, when there is one\<close>
  dp_startingPrice :: money
  dp_minBidIncrement :: money
  dp_reservePrice :: "money option"
  dp_scheduledStartAt :: "instant option"
  dp_originalEndAt :: "instant option"
  dp_images :: "uuid list"

definition fail :: "string \<Rightarrow> draft_issue_code \<Rightarrow> draft_issue list" where
  "fail field code = [\<lparr>di_field = field, di_code = code\<rparr>]"

definition validateDraftForPublish :: "draft_for_publish \<Rightarrow> instant \<Rightarrow> draft_issue list" where
  "validateDraftForPublish draft now =
     (if trim (dp_title draft) = [] then fail ''title'' TITLE_REQUIRED else []) @
     (if trim (dp_description draft) = [] then fail ''description'' DESCRIPTION_REQUIRED else []) @
     (if dp_condition draft = None then fail ''condition'' CONDITION_REQUIRED else []) @
     (case dp_category draft of
        None \<Rightarrow> fail ''categoryId'' CATEGORY_REQUIRED
      | Some isActive \<Rightarrow> if \<not> isActive then fail ''categoryId'' CATEGORY_INACTIVE else []) @
     (if dp_startingPrice draft \<le> 0 then fail ''startingPrice'' STARTING_PRICE_NOT_POSITIVE else []) @
     (if dp_minBidIncrement draft \<le> 0
      then fail ''minBidIncrement'' MIN_BID_INCREMENT_NOT_POSITIVE else []) @
     (if dp_scheduledStartAt draft = None then fail ''scheduledStartAt'' START_AT_REQUIRED else []) @
     (if dp_originalEndAt draft = None then fail ''scheduledEndAt'' END_AT_REQUIRED else []) @
     (case (dp_scheduledStartAt draft, dp_originalEndAt draft) of
        (Some start, Some stop) \<Rightarrow>
          if stop \<le> start then fail ''scheduledEndAt'' END_AT_NOT_AFTER_START_AT else []
      | _ \<Rightarrow> []) @
     (case dp_originalEndAt draft of
        Some stop \<Rightarrow> if stop \<le> now then fail ''scheduledEndAt'' END_AT_IN_THE_PAST else []
      | None \<Rightarrow> []) @
     (if length (dp_images draft) = 0 then fail ''imageUrls'' IMAGES_REQUIRED else []) @
     (case dp_reservePrice draft of
        None \<Rightarrow> []
      | Some reserve \<Rightarrow>
          if reserve \<le> 0 then fail ''reservePrice'' RESERVE_NOT_POSITIVE
          else if reserve < dp_startingPrice draft
               then fail ''reservePrice'' RESERVE_BELOW_STARTING_PRICE else [])"

text \<open>\<open>auctionPublishGateSelect\<close>: what the gate reads of a row and its relations.\<close>

definition find_category :: "db \<Rightarrow> uuid \<Rightarrow> category_row option" where
  "find_category s cid = find (\<lambda>c. ca_id c = cid) (categories s)"

definition images_of :: "db \<Rightarrow> uuid \<Rightarrow> image_row list" where
  "images_of s aid = sort_key im_position (filter (\<lambda>i. im_ownerId i = aid) (auctionImages s))"

definition auctionPublishGateSelect :: "db \<Rightarrow> auction_row \<Rightarrow> draft_for_publish" where
  "auctionPublishGateSelect s a =
     \<lparr>dp_title = au_title a, dp_description = au_description a,
      dp_condition = Some (au_condition a),
      dp_category = map_option ca_isActive (find_category s (au_categoryId a)),
      dp_startingPrice = au_startingPrice a, dp_minBidIncrement = au_minBidIncrement a,
      dp_reservePrice = au_reservePrice a, dp_scheduledStartAt = au_scheduledStartAt a,
      dp_originalEndAt = au_originalEndAt a, dp_images = map im_id (images_of s (au_id a))\<rparr>"

text \<open>\<open>findAuctionAudience\<close>: bidders first, then watchers, each once, without the excluded.\<close>

definition findAuctionAudience :: "db \<Rightarrow> uuid \<Rightarrow> uuid option list \<Rightarrow> uuid list" where
  "findAuctionAudience s aid exclude =
     (let bidders = set_of (map bi_bidderId (filter (\<lambda>b. bi_auctionId b = aid) (bids s)));
          watchers = map wa_userId (filter (\<lambda>w. wa_targetId w = aid) (watchlists s));
          excluded = List.map_filter id exclude;
          audience = foldl set_add [] (filter (\<lambda>u. u \<notin> set excluded) bidders)
      in foldl set_add audience (filter (\<lambda>u. u \<notin> set excluded) watchers))"

section \<open>Browse sections and search\<close>

text \<open>
  PostgreSQL sorts nulls last ascending and first descending; \<open>nulls: 'last'\<close> overrides the
  second.
\<close>

definition nulls_last_asc :: "instant option \<Rightarrow> nat \<times> int" where
  "nulls_last_asc x = (case x of None \<Rightarrow> (1, 0) | Some t \<Rightarrow> (0, t))"

definition nulls_last_desc :: "instant option \<Rightarrow> nat \<times> int" where
  "nulls_last_desc x = (case x of None \<Rightarrow> (1, 0) | Some t \<Rightarrow> (0, - t))"

definition nulls_first_desc :: "instant option \<Rightarrow> nat \<times> int" where
  "nulls_first_desc x = (case x of None \<Rightarrow> (0, 0) | Some t \<Rightarrow> (1, - t))"

definition HOT_AUCTION_ORDER :: "auction_row \<Rightarrow> int \<times> (nat \<times> int) \<times> int" where
  "HOT_AUCTION_ORDER a =
     (- int (au_bidCount a), nulls_last_asc (au_currentEndAt a), int (au_id a))"

datatype auction_section = Hot | EndingSoon | StartingSoon | RecentlyEnded

definition DEFAULT_AUCTION_SECTION :: auction_section where
  "DEFAULT_AUCTION_SECTION = Hot"

fun section_where :: "auction_section \<Rightarrow> auction_status list" where
  "section_where Hot = [ACTIVE]"
| "section_where EndingSoon = [ACTIVE]"
| "section_where StartingSoon = [SCHEDULED]"
| "section_where RecentlyEnded = [SOLD, UNSOLD]"

fun section_order :: "auction_section \<Rightarrow> auction_row \<Rightarrow> int \<times> (nat \<times> int) \<times> int" where
  "section_order Hot a = HOT_AUCTION_ORDER a"
| "section_order EndingSoon a = (0, nulls_last_asc (au_currentEndAt a), int (au_id a))"
| "section_order StartingSoon a = (0, nulls_last_asc (au_scheduledStartAt a), int (au_id a))"
| "section_order RecentlyEnded a = (0, nulls_last_desc (au_endedAt a), - int (au_id a))"

definition replace_char :: "nat \<Rightarrow> utext \<Rightarrow> utext \<Rightarrow> utext" where
  "replace_char c by_text s = concat (map (\<lambda>x. if x = c then by_text else [x]) s)"

definition escapeLike :: "utext \<Rightarrow> utext" where
  "escapeLike value =
     replace_char 95 [92, 95] (replace_char 37 [92, 37] (replace_char 92 [92, 92] value))"

text \<open>Prisma's \<open>contains\<close> is \<open>ILIKE '%' || value || '%'\<close>; \<open>ilike\<close> is the database's matcher.\<close>

definition contains :: "(utext \<Rightarrow> utext \<Rightarrow> bool) \<Rightarrow> utext \<Rightarrow> utext \<Rightarrow> bool" where
  "contains ilike term value = ilike (37 # term @ [37]) value"

definition searchClause :: "(utext \<Rightarrow> utext \<Rightarrow> bool) \<Rightarrow> utext \<Rightarrow> auction_row \<Rightarrow> bool" where
  "searchClause ilike q a =
     (let term = escapeLike q in
      contains ilike term (au_title a) \<or> contains ilike term (au_description a))"

definition in_range :: "money option \<Rightarrow> money option \<Rightarrow> money \<Rightarrow> bool" where
  "in_range lo hi x \<longleftrightarrow>
     (case lo of None \<Rightarrow> True | Some l \<Rightarrow> x \<ge> l) \<and> (case hi of None \<Rightarrow> True | Some h \<Rightarrow> x \<le> h)"

definition priceClause :: "money option \<Rightarrow> money option \<Rightarrow> auction_row \<Rightarrow> bool" where
  "priceClause lo hi a \<longleftrightarrow>
     (au_bidCount a > 0 \<and> in_range lo hi (au_currentPrice a)) \<or>
     (au_bidCount a = 0 \<and> in_range lo hi (au_startingPrice a))"

section \<open>Mappers\<close>

record public_image =
  pi_id :: uuid
  pi_url :: utext
  pi_position :: nat
  pi_isPrimary :: bool

record public_auction =
  pa_id :: uuid
  pa_title :: utext
  pa_description :: utext
  pa_condition :: product_condition
  pa_status :: auction_status
  pa_currency :: utext
  pa_startingPrice :: money
  pa_minBidIncrement :: money
  pa_currentPrice :: money
  pa_minimumNextBid :: money
  pa_reserveMet :: bool
  pa_biddingOpen :: bool
  pa_bidCount :: nat
  pa_scheduledStartAt :: "instant option"
  pa_originalEndAt :: "instant option"
  pa_currentEndAt :: "instant option"
  pa_publishedAt :: "instant option"
  pa_startedAt :: "instant option"
  pa_endedAt :: "instant option"
  pa_extensionCount :: nat
  pa_soldPrice :: "money option"
  pa_category :: "(uuid \<times> utext \<times> utext) option"
  pa_seller :: "uuid \<times> utext option"
  pa_images :: "public_image list"
  pa_createdAt :: instant
  pa_updatedAt :: instant

definition display_name :: "db \<Rightarrow> uuid \<Rightarrow> utext option" where
  "display_name s uid = Option.bind (find (\<lambda>u. us_id u = uid) (users s)) us_displayName"

text \<open>
  The row \<open>auctionRowSelect\<close> loads is the auction with its images in position order, its category
  and its seller's display name; \<open>toPublicAuction\<close> reads them out of the database state.
\<close>

definition toPublicAuction :: "db \<Rightarrow> auction_row \<Rightarrow> public_auction" where
  "toPublicAuction s a =
     \<lparr>pa_id = au_id a, pa_title = au_title a, pa_description = au_description a,
      pa_condition = au_condition a, pa_status = au_status a,
      pa_currency = trim (au_currency a),
      pa_startingPrice = au_startingPrice a, pa_minBidIncrement = au_minBidIncrement a,
      pa_currentPrice = au_currentPrice a,
      pa_minimumNextBid = calculateMinimumBid a,
      pa_reserveMet = calculateReserveMet (au_currentPrice a) (au_reservePrice a),
      pa_biddingOpen = (au_status a = ACTIVE),
      pa_bidCount = au_bidCount a,
      pa_scheduledStartAt = au_scheduledStartAt a, pa_originalEndAt = au_originalEndAt a,
      pa_currentEndAt = au_currentEndAt a, pa_publishedAt = au_publishedAt a,
      pa_startedAt = au_startedAt a, pa_endedAt = au_endedAt a,
      pa_extensionCount = au_extensionCount a, pa_soldPrice = au_soldPrice a,
      pa_category = map_option (\<lambda>c. (ca_id c, ca_name c, ca_slug c)) (find_category s (au_categoryId a)),
      pa_seller = (au_sellerId a, display_name s (au_sellerId a)),
      pa_images = map (\<lambda>i. \<lparr>pi_id = im_id i, pi_url = im_url i, pi_position = im_position i,
                            pi_isPrimary = im_isPrimary i\<rparr>) (images_of s (au_id a)),
      pa_createdAt = au_createdAt a, pa_updatedAt = au_updatedAt a\<rparr>"

text \<open>The owner's view adds the reserve; a public view is an owner view without that field.\<close>

datatype auction_view = PublicView public_auction | OwnerView public_auction "money option"

definition toOwnerAuction :: "db \<Rightarrow> auction_row \<Rightarrow> auction_view" where
  "toOwnerAuction s a = OwnerView (toPublicAuction s a) (au_reservePrice a)"

record own_bid =
  ob_id :: uuid
  ob_auctionId :: uuid
  ob_bidderId :: uuid
  ob_amount :: money
  ob_sequenceNo :: nat
  ob_clientRequestId :: uuid
  ob_placedAt :: instant

definition toOwnBid :: "bid_row \<Rightarrow> own_bid" where
  "toOwnBid b = \<lparr>ob_id = bi_id b, ob_auctionId = bi_auctionId b, ob_bidderId = bi_bidderId b,
     ob_amount = bi_amount b, ob_sequenceNo = bi_sequenceNo b,
     ob_clientRequestId = bi_clientRequestId b, ob_placedAt = bi_placedAt b\<rparr>"

record public_bid =
  pb_id :: uuid
  pb_amount :: money
  pb_sequenceNo :: nat
  pb_placedAt :: instant
  pb_bidder :: utext
  pb_isYours :: bool

definition toPublicBid :: "db \<Rightarrow> uuid option \<Rightarrow> bid_row \<Rightarrow> public_bid" where
  "toPublicBid s viewerId b = \<lparr>pb_id = bi_id b, pb_amount = bi_amount b,
     pb_sequenceNo = bi_sequenceNo b, pb_placedAt = bi_placedAt b,
     pb_bidder = maskBidderName (display_name s (bi_bidderId b)),
     pb_isYours = (viewerId \<noteq> None \<and> Some (bi_bidderId b) = viewerId)\<rparr>"

record event_bid =
  eb_id :: uuid
  eb_amount :: money
  eb_sequenceNo :: nat
  eb_placedAt :: instant
  eb_bidder :: utext

record bid_event =
  be_auctionId :: uuid
  be_currency :: utext
  be_currentPrice :: money
  be_reserveMet :: bool
  be_bidCount :: nat
  be_currentEndAt :: "instant option"
  be_extensionCount :: nat
  be_bid :: event_bid

definition toBidAcceptedEvent :: "db \<Rightarrow> auction_row \<Rightarrow> bid_row \<Rightarrow> bid_event" where
  "toBidAcceptedEvent s a b = \<lparr>be_auctionId = au_id a, be_currency = trim (au_currency a),
     be_currentPrice = au_currentPrice a,
     be_reserveMet = calculateReserveMet (au_currentPrice a) (au_reservePrice a),
     be_bidCount = au_bidCount a, be_currentEndAt = au_currentEndAt a,
     be_extensionCount = au_extensionCount a,
     be_bid = \<lparr>eb_id = bi_id b, eb_amount = bi_amount b, eb_sequenceNo = bi_sequenceNo b,
       eb_placedAt = bi_placedAt b, eb_bidder = maskBidderName (display_name s (bi_bidderId b))\<rparr>\<rparr>"

record ended_event =
  ee_auctionId :: uuid
  ee_status :: auction_status
  ee_endedAt :: instant
  ee_bidCount :: nat
  ee_soldPrice :: "money option"
  ee_winner :: "utext option"

definition toAuctionEndedEvent ::
  "db \<Rightarrow> uuid \<Rightarrow> bool \<Rightarrow> instant \<Rightarrow> nat \<Rightarrow> bid_row option \<Rightarrow> ended_event" where
  "toAuctionEndedEvent s aid sold endedAt bidCount winner =
     \<lparr>ee_auctionId = aid, ee_status = (if sold then SOLD else UNSOLD), ee_endedAt = endedAt,
      ee_bidCount = bidCount,
      ee_soldPrice = (if sold then map_option bi_amount winner else None),
      ee_winner = (if sold then Some (maskBidderName
        (Option.bind winner (\<lambda>b. display_name s (bi_bidderId b)))) else None)\<rparr>"

record cancelled_event =
  ce_auctionId :: uuid
  ce_status :: auction_status
  ce_endedAt :: "instant option"
  ce_reason :: "utext option"

definition toAuctionCancelledEvent :: "auction_row \<Rightarrow> cancelled_event" where
  "toAuctionCancelledEvent a = \<lparr>ce_auctionId = au_id a, ce_status = au_status a,
     ce_endedAt = au_endedAt a, ce_reason = au_cancellationReason a\<rparr>"

section \<open>Notifications\<close>

definition outbidNotification :: "auction_row \<Rightarrow> uuid \<Rightarrow> uuid \<Rightarrow> money \<Rightarrow> notification_row" where
  "outbidNotification a userId bidId newPrice =
     \<lparr>no_userId = userId, no_auctionId = Some (au_id a), no_bidId = Some bidId, no_orderId = None, no_conversationId = None,
      no_type = OUTBID, no_body = OutbidBody (trim (au_currency a)) newPrice (au_title a)\<rparr>"

definition auctionWonNotification :: "auction_row \<Rightarrow> uuid \<Rightarrow> uuid \<Rightarrow> money \<Rightarrow> notification_row" where
  "auctionWonNotification a userId bidId soldPrice =
     \<lparr>no_userId = userId, no_auctionId = Some (au_id a), no_bidId = Some bidId, no_orderId = None, no_conversationId = None,
      no_type = AUCTION_WON, no_body = WonBody (au_title a) (trim (au_currency a)) soldPrice\<rparr>"

text \<open>\<open>finalPrice!\<close> is never read as null: an auction is sold only when there is a highest bid.\<close>

definition auctionEndedNotification ::
  "auction_row \<Rightarrow> uuid \<Rightarrow> bool \<Rightarrow> money option \<Rightarrow> notification_row" where
  "auctionEndedNotification a userId sold finalPrice =
     \<lparr>no_userId = userId, no_auctionId = Some (au_id a), no_bidId = None, no_orderId = None, no_conversationId = None,
      no_type = AUCTION_ENDED,
      no_body = (case finalPrice of
          None \<Rightarrow> if sold then EndedSoldBody (au_title a) (trim (au_currency a)) 0
                  else EndedNoBidBody (au_title a)
        | Some p \<Rightarrow> if sold then EndedSoldBody (au_title a) (trim (au_currency a)) p
                    else EndedReserveNotMetBody (au_title a))\<rparr>"

definition auctionCancelledNotification ::
  "auction_row \<Rightarrow> uuid \<Rightarrow> utext option \<Rightarrow> notification_row" where
  "auctionCancelledNotification a userId reason =
     \<lparr>no_userId = userId, no_auctionId = Some (au_id a), no_bidId = None, no_orderId = None, no_conversationId = None,
      no_type = AUCTION_CANCELLED,
      no_body = CancelledBody (au_title a)
        (case reason of None \<Rightarrow> None | Some r \<Rightarrow> if trim r = [] then None else Some (trim r))\<rparr>"

section \<open>Specifications\<close>

text \<open>What AUC-002 asks of a draft, as one condition.\<close>

definition publishable :: "draft_for_publish \<Rightarrow> instant \<Rightarrow> bool" where
  "publishable d now \<longleftrightarrow>
     trim (dp_title d) \<noteq> [] \<and> trim (dp_description d) \<noteq> [] \<and> dp_condition d \<noteq> None \<and>
     dp_category d = Some True \<and> 0 < dp_startingPrice d \<and> 0 < dp_minBidIncrement d \<and>
     (\<exists>start stop. dp_scheduledStartAt d = Some start \<and> dp_originalEndAt d = Some stop \<and>
        start < stop \<and> now < stop) \<and>
     dp_images d \<noteq> [] \<and>
     (case dp_reservePrice d of None \<Rightarrow> True | Some r \<Rightarrow> 0 < r \<and> dp_startingPrice d \<le> r)"

lemma fail_not_Nil [simp]: "fail f c \<noteq> []"
  by (simp add: fail_def)

lemma no_issue_iff_publishable: "validateDraftForPublish d now = [] \<longleftrightarrow> publishable d now"
  unfolding validateDraftForPublish_def publishable_def
  by (auto split: option.splits if_splits)

text \<open>
  The documented behaviour of PostgreSQL's \<open>ILIKE\<close> with backslash as the escape character;
  \<open>cf\<close> is the database's case folding.
\<close>

definition ilike_laws :: "(nat \<Rightarrow> nat) \<Rightarrow> (utext \<Rightarrow> utext \<Rightarrow> bool) \<Rightarrow> bool" where
  "ilike_laws cf ilike \<longleftrightarrow>
     (\<forall>s. ilike [] s \<longleftrightarrow> s = []) \<and>
     (\<forall>p s. ilike (37 # p) s \<longleftrightarrow> (\<exists>u v. s = u @ v \<and> ilike p v)) \<and>
     (\<forall>c p s. ilike (92 # c # p) s \<longleftrightarrow> (\<exists>d v. s = d # v \<and> cf d = cf c \<and> ilike p v)) \<and>
     (\<forall>c p s. c \<notin> {37, 92, 95} \<longrightarrow>
        ilike (c # p) s \<longleftrightarrow> (\<exists>d v. s = d # v \<and> cf d = cf c \<and> ilike p v))"

lemma replace_char_simps [simp]:
  "replace_char c t [] = []"
  "replace_char c t (x # xs) = (if x = c then t else [x]) @ replace_char c t xs"
  "replace_char c t (xs @ ys) = replace_char c t xs @ replace_char c t ys"
  by (simp_all add: replace_char_def)

lemma escapeLike_simps:
  "escapeLike [] = []"
  "escapeLike (x # xs) = (if x \<in> {37, 92, 95} then [92, x] else [x]) @ escapeLike xs"
  by (auto simp: escapeLike_def)

lemma ilike_escaped_prefix:
  assumes "ilike_laws cf ilike"
  shows "ilike (escapeLike q @ p) s \<longleftrightarrow> (\<exists>u v. s = u @ v \<and> map cf u = map cf q \<and> ilike p v)"
proof (induction q arbitrary: s)
  case Nil
  then show ?case by (simp add: escapeLike_simps)
next
  case (Cons x q)
  have "ilike (escapeLike (x # q) @ p) s
      \<longleftrightarrow> (\<exists>d v. s = d # v \<and> cf d = cf x \<and> ilike (escapeLike q @ p) v)"
    using assms unfolding ilike_laws_def escapeLike_simps by auto
  then show ?case
    unfolding Cons.IH by (auto simp: Cons_eq_append_conv map_eq_Cons_conv) blast+
qed

lemma sublist_map_map:
  "sublist (map f q) (map f s) \<longleftrightarrow> (\<exists>u v w. s = u @ v @ w \<and> map f v = map f q)"
proof
  assume "sublist (map f q) (map f s)"
  then obtain x z where "map f s = x @ map f q @ z"
    by (auto simp: sublist_def)
  then obtain u t where ut: "s = u @ t" "map f q @ z = map f t"
    by (metis map_eq_append_conv)
  then obtain v w where "t = v @ w" "map f v = map f q"
    by (metis map_eq_append_conv)
  then show "\<exists>u v w. s = u @ v @ w \<and> map f v = map f q"
    using ut(1) by blast
next
  assume "\<exists>u v w. s = u @ v @ w \<and> map f v = map f q"
  then show "sublist (map f q) (map f s)"
    by (metis map_append sublist_def)
qed

lemma trim_length_le: "length (trim s) \<le> length s"
  using length_dropWhile_le [of js_space "rev (dropWhile js_space s)"]
    length_dropWhile_le [of js_space s]
  by (simp add: trim_def)

lemma maskBidderName_Nil: "trim (case n of None \<Rightarrow> [] | Some d \<Rightarrow> d) = [] \<Longrightarrow> maskBidderName n = ascii ''***''"
  by (simp add: maskBidderName_def)

section \<open>Properties of the rules\<close>

text \<open>a search term that went through \<open>escapeLike\<close> matches literally: whatever wildcards
  the shopper typed, the database's pattern match finds exactly the values that contain the term,
  up to the database's case folding.\<close>

theorem escaped_search_is_literal:
  assumes "ilike_laws cf ilike"
  shows "contains ilike (escapeLike q) value \<longleftrightarrow> sublist (map cf q) (map cf value)"
proof -
  have end_any: "ilike [37] v" for v
    using assms unfolding ilike_laws_def by auto
  have "contains ilike (escapeLike q) value
      \<longleftrightarrow> (\<exists>u v. value = u @ v \<and> ilike (escapeLike q @ [37]) v)"
    using assms unfolding ilike_laws_def contains_def by auto
  also have "\<dots> \<longleftrightarrow> (\<exists>u v w. value = u @ v @ w \<and> map cf v = map cf q)"
    unfolding ilike_escaped_prefix [OF assms] using end_any by auto
  also have "\<dots> \<longleftrightarrow> sublist (map cf q) (map cf value)"
    by (simp only: sublist_map_map)
  finally show ?thesis .
qed

fun like_instance :: "utext \<Rightarrow> utext \<Rightarrow> bool" where
  "like_instance [] s = (s = [])"
| "like_instance (p # ps) s =
     (if p = 37 then list_ex (like_instance ps) (suffixes s)
      else if p = 92 then (case (ps, s) of (q # qs, d # v) \<Rightarrow> d = q \<and> like_instance qs v | _ \<Rightarrow> False)
      else (case s of [] \<Rightarrow> False | d # v \<Rightarrow> (d = p \<or> p = 95) \<and> like_instance ps v))"

lemma like_instance_laws: "ilike_laws id like_instance"
  unfolding ilike_laws_def
  by (auto simp: list_ex_iff suffix_def split: list.splits) blast

theorem escaped_search_is_literal_witness:
  "contains like_instance (escapeLike [53, 37]) [49, 53, 37, 50] \<and>
   \<not> contains like_instance (escapeLike [53, 37]) [49, 53, 50]"
  unfolding escaped_search_is_literal [OF like_instance_laws] by (simp add: sublist_code)

text \<open>masking is blind to the middle of a name: two names of at least three characters
  with the same first and last character get the same label, and no label is longer than five
  characters.\<close>

theorem mask_hides_the_middle:
  assumes "trim x = c # u @ [d]" "trim y = c # v @ [d]" "u \<noteq> []" "v \<noteq> []"
  shows "maskBidderName (Some x) = maskBidderName (Some y)
       \<and> (\<forall>n. length (maskBidderName n) \<le> 5)"
proof -
  have "length u \<noteq> 0" "length v \<noteq> 0"
    using assms(3,4) by simp_all
  then have "maskBidderName (Some x) = maskBidderName (Some y)"
    using assms(1,2) by (simp add: maskBidderName_def Let_def nth_append)
  moreover have "length (maskBidderName n) \<le> 5" for n
    by (simp add: maskBidderName_def Let_def ascii_def)
  ultimately show ?thesis by blast
qed

theorem mask_hides_the_middle_witness:
  "maskBidderName (Some (ascii ''Somchai'')) = maskBidderName (Some (ascii ''Suphi ''))"
proof -
  have x: "trim (ascii ''Somchai'') = 83 # [111, 109, 99, 104, 97] @ [105]"
    and y: "trim (ascii ''Suphi '') = 83 # [117, 112, 104] @ [105]"
    by (simp_all add: trim_def ascii_def js_space_def)
  show ?thesis using mask_hides_the_middle [OF x y] by simp
qed

lemma audience_members:
  "set (findAuctionAudience s aid ex)
     = (bi_bidderId ` {b \<in> set (bids s). bi_auctionId b = aid}
        \<union> wa_userId ` {w \<in> set (watchlists s). wa_targetId w = aid}) - {u. Some u \<in> set ex}
   \<and> distinct (findAuctionAudience s aid ex)"
proof -
  have ex_set: "set (List.map_filter id ex) = {u. Some u \<in> set ex}"
    by (force simp: List.map_filter_def)
  have "distinct (findAuctionAudience s aid ex)"
    by (simp add: findAuctionAudience_def Let_def distinct_foldl_set_add)
  then show ?thesis
    by (auto simp: findAuctionAudience_def Let_def ex_set)
qed

end
