(* ===== verification/Auction_Service.thy ===== *)
theory Auction_Service
  imports Auction_Rules
begin

text \<open>
  \<open>AuctionService\<close> of \<open>apps/api/src/auction/auction.service.ts\<close>, with the admin cancellation of
  \<open>admin/auctions.service.ts\<close>. A transaction takes two states: \<open>rd\<close>, what its reads before the
  guarded write saw, and \<open>wr\<close>, what the guarded write and everything after it runs on. Under
  PostgreSQL's READ COMMITTED other transactions may commit between the two; running alone is
  \<open>rd = wr\<close>. A transaction answers \<open>Inl\<close> the exception, which rolls it back, or \<open>Inr\<close> the
  committed state with its result. One instant \<open>now\<close> stands for the clock reads of one call.
  Values the code draws at random (ids, storage keys) are arguments.
\<close>

section \<open>Messages\<close>

record extension_event =
  xe_auctionId :: uuid
  xe_extensionNumber :: nat
  xe_previousEndAt :: instant
  xe_newEndAt :: instant
  xe_extensionsRemaining :: nat

datatype room_event =
  AuctionBid bid_event
| AuctionExtension extension_event
| AuctionStarted uuid auction_status instant "instant option"
| AuctionEndedEv ended_event
| AuctionCancelledEv cancelled_event

text \<open>What a call announces after its commit, and the files it asks the store to delete.\<close>

datatype message =
  ToRoom uuid room_event
| ToUser uuid notification_row
| DeleteFile storage_key

definition deliver :: "notification_row list \<Rightarrow> message list" where
  "deliver ns = map (\<lambda>n. ToUser (no_userId n) n) ns"

section \<open>Requests\<close>

record create_auction_dto =
  cd_title :: utext
  cd_description :: utext
  cd_categoryId :: uuid
  cd_condition :: product_condition
  cd_startingPrice :: money
  cd_minBidIncrement :: money
  cd_reservePrice :: "money option"
  cd_scheduledStartAt :: "instant option"
  cd_scheduledEndAt :: "instant option"
  cd_imageUrls :: "utext list option"

record update_auction_dto =
  ud_title :: "utext option"
  ud_description :: "utext option"
  ud_categoryId :: "uuid option"
  ud_condition :: "product_condition option"
  ud_startingPrice :: "money option"
  ud_minBidIncrement :: "money option"
  ud_reservePrice :: "money option"
  ud_scheduledStartAt :: "instant option"
  ud_scheduledEndAt :: "instant option"
  ud_imageUrls :: "utext list option"

record list_auctions_dto =
  la_q :: "utext option"
  la_categoryIds :: "uuid list"
  la_minPrice :: "money option"
  la_maxPrice :: "money option"
  la_section :: "auction_section option"
  la_page :: "nat option"
  la_limit :: "nat option"

record meta =
  me_page :: nat
  me_limit :: nat
  me_total :: nat
  me_totalPages :: nat

definition DEFAULT_LIST_PAGE_SIZE :: nat where
  "DEFAULT_LIST_PAGE_SIZE = 20"

definition meta_of :: "nat \<Rightarrow> nat \<Rightarrow> nat \<Rightarrow> meta" where
  "meta_of page limit n =
     \<lparr>me_page = page, me_limit = limit, me_total = n, me_totalPages = total_pages n limit\<rparr>"

section \<open>Lookups\<close>

definition find_auction :: "db \<Rightarrow> uuid \<Rightarrow> auction_row option" where
  "find_auction s aid = find (\<lambda>a. au_id a = aid) (auctions s)"

definition is_own_draft :: "uuid \<Rightarrow> uuid \<Rightarrow> auction_row \<Rightarrow> bool" where
  "is_own_draft aid sellerId a \<longleftrightarrow>
     au_id a = aid \<and> au_sellerId a = sellerId \<and> au_status a = DRAFT \<and> au_deletedAt a = None"

definition own_draft :: "db \<Rightarrow> uuid \<Rightarrow> uuid \<Rightarrow> auction_row option" where
  "own_draft s aid sellerId = find (is_own_draft aid sellerId) (auctions s)"

definition assertCategoryIsActive :: "db \<Rightarrow> uuid \<Rightarrow> error option" where
  "assertCategoryIsActive s cid =
     (case find_category s cid of
        None \<Rightarrow> Some (BadRequest CategoryNotFound)
      | Some c \<Rightarrow> if \<not> ca_isActive c then Some (BadRequest CategoryNotActive) else None)"

definition event :: "uuid \<Rightarrow> uuid option \<Rightarrow> uuid option \<Rightarrow> auction_event_type \<Rightarrow> event_row" where
  "event aid actor bid t =
     \<lparr>ev_auctionId = aid, ev_actorUserId = actor, ev_bidId = bid, ev_eventType = t\<rparr>"

definition image_rows_of_urls ::
  "(nat \<Rightarrow> uuid) \<Rightarrow> (nat \<Rightarrow> uuid) \<Rightarrow> uuid \<Rightarrow> uuid \<Rightarrow> utext list \<Rightarrow> image_row list" where
  "image_rows_of_urls imgId randomUUID sellerId aid urls =
     map (\<lambda>(index, url). \<lparr>im_id = imgId index, im_ownerId = aid,
            im_storageKey = Invented sellerId (randomUUID index) index, im_url = url,
            im_position = index, im_isPrimary = (index = 0)\<rparr>) (enumerate 0 urls)"

section \<open>Drafts\<close>

definition createDraft ::
  "db \<Rightarrow> instant \<Rightarrow> uuid \<Rightarrow> (nat \<Rightarrow> uuid) \<Rightarrow> (nat \<Rightarrow> uuid) \<Rightarrow> uuid \<Rightarrow> create_auction_dto
     \<Rightarrow> error + (db \<times> auction_view)" where
  "createDraft s now newId imgId randomUUID sellerId dto =
     (case assertCategoryIsActive s (cd_categoryId dto) of
        Some e \<Rightarrow> Inl e
      | None \<Rightarrow>
          let a = \<lparr>au_id = newId, au_sellerId = sellerId, au_categoryId = cd_categoryId dto,
                   au_title = cd_title dto, au_description = cd_description dto,
                   au_condition = cd_condition dto, au_status = DRAFT, au_currency = ascii ''THB'',
                   au_startingPrice = cd_startingPrice dto, au_reservePrice = cd_reservePrice dto,
                   au_minBidIncrement = cd_minBidIncrement dto, au_currentPrice = 0,
                   au_bidCount = 0, au_scheduledStartAt = cd_scheduledStartAt dto,
                   au_originalEndAt = cd_scheduledEndAt dto, au_currentEndAt = cd_scheduledEndAt dto,
                   au_publishedAt = None, au_startedAt = None, au_endedAt = None,
                   au_extensionCount = 0, au_winnerUserId = None, au_winningBidId = None,
                   au_soldPrice = None, au_cancellationReason = None, au_rowVersion = 1,
                   au_deletedAt = None, au_createdAt = now, au_updatedAt = now\<rparr>;
              s1 = s\<lparr>auctions := auctions s @ [a],
                     auctionImages := auctionImages s @
                       image_rows_of_urls imgId randomUUID sellerId newId
                         (or_default (cd_imageUrls dto) []),
                     auctionEvents := auctionEvents s @ [event newId (Some sellerId) None EV_CREATED]\<rparr>
          in Inr (s1, toOwnerAuction s1 a))"

definition listOwnDrafts :: "db \<Rightarrow> uuid \<Rightarrow> auction_view list" where
  "listOwnDrafts s sellerId =
     map (toOwnerAuction s)
       (sort_key (\<lambda>a. (- au_createdAt a, au_id a))
         (filter (\<lambda>a. au_sellerId a = sellerId \<and> au_status a = DRAFT \<and> au_deletedAt a = None)
           (auctions s)))"

definition listOwnAuctions ::
  "db \<Rightarrow> uuid \<Rightarrow> auction_status option \<Rightarrow> nat option \<Rightarrow> nat option \<Rightarrow> auction_view list \<times> meta" where
  "listOwnAuctions s sellerId status page limit =
     (let page = or_default page 1; limit = or_default limit DEFAULT_LIST_PAGE_SIZE;
          rows = filter (\<lambda>a. au_sellerId a = sellerId \<and> au_deletedAt a = None \<and>
                   (case status of None \<Rightarrow> True | Some t \<Rightarrow> au_status a = t)) (auctions s)
      in (map (toOwnerAuction s)
            (page_of page limit (sort_key (\<lambda>a. (- au_updatedAt a, au_id a)) rows)),
          meta_of page limit (length rows)))"

definition has_order_item :: "db \<Rightarrow> uuid \<Rightarrow> bool" where
  "has_order_item s aid \<longleftrightarrow> list_ex (\<lambda>i. oi_auctionId i = Some aid) (orderItems s)"

definition listWonAuctions ::
  "db \<Rightarrow> uuid \<Rightarrow> bool \<Rightarrow> nat option \<Rightarrow> nat option \<Rightarrow> (public_auction \<times> bool) list \<times> meta" where
  "listWonAuctions s winnerId unpaid page limit =
     (let page = or_default page 1; limit = or_default limit DEFAULT_LIST_PAGE_SIZE;
          rows = filter (\<lambda>a. au_winnerUserId a = Some winnerId \<and> au_status a = SOLD \<and>
                   au_deletedAt a = None \<and> (unpaid \<longrightarrow> \<not> has_order_item s (au_id a))) (auctions s)
      in (map (\<lambda>a. (toPublicAuction s a, has_order_item s (au_id a)))
            (page_of page limit (sort_key (\<lambda>a. (nulls_first_desc (au_endedAt a), au_id a)) rows)),
          meta_of page limit (length rows)))"

definition findOwnDraft :: "db \<Rightarrow> uuid \<Rightarrow> uuid \<Rightarrow> error + auction_view" where
  "findOwnDraft s aid sellerId =
     (case own_draft s aid sellerId of
        None \<Rightarrow> Inl (NotFound AuctionDraft)
      | Some a \<Rightarrow> Inr (toOwnerAuction s a))"

definition validateOwnDraft ::
  "db \<Rightarrow> instant \<Rightarrow> uuid \<Rightarrow> uuid \<Rightarrow> error + (uuid \<times> bool \<times> draft_issue list)" where
  "validateOwnDraft s now aid sellerId =
     (case own_draft s aid sellerId of
        None \<Rightarrow> Inl (NotFound AuctionDraft)
      | Some draft \<Rightarrow>
          let issues = validateDraftForPublish (auctionPublishGateSelect s draft) now
          in Inr (au_id draft, length issues = 0, issues))"

definition previewOwnDraft :: "db \<Rightarrow> uuid \<Rightarrow> uuid \<Rightarrow> error + public_auction" where
  "previewOwnDraft s aid sellerId =
     (case own_draft s aid sellerId of
        None \<Rightarrow> Inl (NotFound AuctionDraft)
      | Some draft \<Rightarrow> Inr (toPublicAuction s draft))"

definition publishDraft ::
  "db \<Rightarrow> db \<Rightarrow> instant \<Rightarrow> uuid \<Rightarrow> uuid \<Rightarrow> error + (db \<times> auction_view)" where
  "publishDraft rd wr now aid sellerId =
     (case own_draft rd aid sellerId of
        None \<Rightarrow> Inl (NotFound AuctionDraft)
      | Some draft \<Rightarrow>
          let issues = validateDraftForPublish (auctionPublishGateSelect rd draft) now in
          if length issues > 0 then Inl (BadRequest (DraftNotReady issues))
          else
            let startsImmediately =
                  (case au_scheduledStartAt draft of None \<Rightarrow> False | Some t \<Rightarrow> t \<le> now);
                (count, t) = update_many (is_own_draft aid sellerId)
                  (\<lambda>a. a\<lparr>au_status := (if startsImmediately then ACTIVE else SCHEDULED),
                          au_publishedAt := Some now,
                          au_startedAt := (if startsImmediately then Some now else None),
                          au_rowVersion := au_rowVersion a + 1, au_updatedAt := now\<rparr>) (auctions wr)
            in if count \<noteq> 1 then Inl (Conflict ChangedMeanwhile)
               else
                 let s1 = wr\<lparr>auctions := t,
                            auctionEvents := auctionEvents wr @
                              [event aid (Some sellerId) None EV_PUBLISHED] @
                              (if startsImmediately
                               then [event aid (Some sellerId) None EV_STARTED] else [])\<rparr>
                 in (case find_auction s1 aid of
                       None \<Rightarrow> Inl RecordNotFound
                     | Some published \<Rightarrow> Inr (s1, toOwnerAuction s1 published)))"

section \<open>Settlement\<close>

definition is_settleable :: "uuid \<Rightarrow> auction_row \<Rightarrow> bool" where
  "is_settleable aid a \<longleftrightarrow> au_id a = aid \<and> au_status a = ACTIVE \<and> au_deletedAt a = None"

record settlement =
  st_sold :: bool
  st_notifications :: "notification_row list"
  st_event :: ended_event

definition settle_notifications ::
  "db \<Rightarrow> auction_row \<Rightarrow> bid_row option \<Rightarrow> bool \<Rightarrow> notification_row list" where
  "settle_notifications s a highestBid sold =
     (let winnerId = (if sold then map_option bi_bidderId highestBid else None);
          audience = findAuctionAudience s (au_id a) [winnerId]
      in (case highestBid of
            Some h \<Rightarrow> if sold then [auctionWonNotification a (bi_bidderId h) (bi_id h) (bi_amount h)] else []
          | None \<Rightarrow> []) @
         map (\<lambda>u. auctionEndedNotification a u sold (map_option bi_amount highestBid))
           (filter (\<lambda>u. Some u \<noteq> winnerId) (set_of (audience @ [au_sellerId a]))))"

definition settleInTransaction ::
  "db \<Rightarrow> db \<Rightarrow> instant \<Rightarrow> uuid \<Rightarrow> db \<times> settlement option" where
  "settleInTransaction rd wr now aid =
     (case find (is_settleable aid) (auctions rd) of
        None \<Rightarrow> (wr, None)
      | Some a \<Rightarrow>
         (case au_currentEndAt a of
            None \<Rightarrow> (wr, None)
          | Some endAt \<Rightarrow>
              if endAt > now then (wr, None)
              else
                let highestBid = leading_bid rd aid;
                    sold = (case highestBid of None \<Rightarrow> False
                            | Some h \<Rightarrow> calculateReserveMet (bi_amount h) (au_reservePrice a));
                    (count, t) = update_many (is_settleable aid)
                      (\<lambda>r. r\<lparr>au_status := (if sold then SOLD else UNSOLD), au_endedAt := Some now,
                              au_winnerUserId := (if sold then map_option bi_bidderId highestBid else None),
                              au_winningBidId := (if sold then map_option bi_id highestBid else None),
                              au_soldPrice := (if sold then map_option bi_amount highestBid else None),
                              au_rowVersion := au_rowVersion r + 1, au_updatedAt := now\<rparr>) (auctions wr)
                in if count \<noteq> 1 then (wr, None)
                   else
                     let s1 = wr\<lparr>auctions := t, auctionEvents := auctionEvents wr @
                                 [event aid None (map_option bi_id highestBid) EV_ENDED]\<rparr>;
                         ns = settle_notifications s1 a highestBid sold
                     in (s1\<lparr>notifications := notifications s1 @ ns\<rparr>,
                         Some \<lparr>st_sold = sold, st_notifications = ns,
                               st_event = toAuctionEndedEvent s1 aid sold now (au_bidCount a) highestBid\<rparr>)))"

definition settleAuction ::
  "db \<Rightarrow> db \<Rightarrow> instant \<Rightarrow> uuid \<Rightarrow> db \<times> message list \<times> bool option" where
  "settleAuction rd wr now aid =
     (case settleInTransaction rd wr now aid of
        (s1, None) \<Rightarrow> (s1, [], None)
      | (s1, Some outcome) \<Rightarrow>
          (s1, ToRoom aid (AuctionEndedEv (st_event outcome)) # deliver (st_notifications outcome),
           Some (st_sold outcome)))"

section \<open>Public reads\<close>

definition is_public :: "auction_row \<Rightarrow> bool" where
  "is_public a \<longleftrightarrow> au_status a \<in> set PUBLIC_AUCTION_STATUSES \<and> au_deletedAt a = None"

definition view_for :: "db \<Rightarrow> uuid option \<Rightarrow> auction_row \<Rightarrow> auction_view" where
  "view_for s viewerId a =
     (if Some (au_sellerId a) = viewerId then toOwnerAuction s a else PublicView (toPublicAuction s a))"

definition findPublicAuction ::
  "db \<Rightarrow> instant \<Rightarrow> uuid \<Rightarrow> uuid option \<Rightarrow> db \<times> message list \<times> (error + auction_view)" where
  "findPublicAuction s now aid viewerId =
     (case find (\<lambda>a. au_id a = aid \<and> is_public a) (auctions s) of
        None \<Rightarrow> (s, [], Inl (NotFound Auction))
      | Some a \<Rightarrow>
          let isDue = (au_status a = ACTIVE \<and>
                (case au_currentEndAt a of None \<Rightarrow> False | Some t \<Rightarrow> t \<le> now))
          in if isDue then
               (case settleAuction s s now aid of
                  (s1, msgs, Some _) \<Rightarrow>
                    (case find (\<lambda>a. au_id a = aid \<and> is_public a) (auctions s1) of
                       None \<Rightarrow> (s1, msgs, Inl RecordNotFound)
                     | Some a1 \<Rightarrow> (s1, msgs, Inr (view_for s1 viewerId a1)))
                | (s1, msgs, None) \<Rightarrow> (s1, msgs, Inr (view_for s1 viewerId a)))
             else (s, [], Inr (view_for s viewerId a)))"

definition listAuctions_where ::
  "(utext \<Rightarrow> utext \<Rightarrow> bool) \<Rightarrow> list_auctions_dto \<Rightarrow> auction_row \<Rightarrow> bool" where
  "listAuctions_where ilike dto a \<longleftrightarrow>
     au_status a \<in> set (section_where (or_default (la_section dto) DEFAULT_AUCTION_SECTION)) \<and>
     au_deletedAt a = None \<and>
     (la_categoryIds dto \<noteq> [] \<longrightarrow> au_categoryId a \<in> set (la_categoryIds dto)) \<and>
     (case la_q dto of None \<Rightarrow> True | Some q \<Rightarrow> q \<noteq> [] \<longrightarrow> searchClause ilike q a) \<and>
     (la_minPrice dto \<noteq> None \<or> la_maxPrice dto \<noteq> None \<longrightarrow>
        priceClause (la_minPrice dto) (la_maxPrice dto) a)"

definition listAuctions ::
  "(utext \<Rightarrow> utext \<Rightarrow> bool) \<Rightarrow> db \<Rightarrow> list_auctions_dto \<Rightarrow> error + (public_auction list \<times> meta)" where
  "listAuctions ilike s dto =
     (let page = or_default (la_page dto) 1;
          limit = or_default (la_limit dto) DEFAULT_LIST_PAGE_SIZE;
          section = or_default (la_section dto) DEFAULT_AUCTION_SECTION
      in if (case (la_minPrice dto, la_maxPrice dto) of
               (Some lo, Some hi) \<Rightarrow> lo > hi | _ \<Rightarrow> False)
         then Inl (BadRequest MinAboveMax)
         else
           let rows = filter (listAuctions_where ilike dto) (auctions s)
           in Inr (map (toPublicAuction s)
                     (page_of page limit (sort_key (section_order section) rows)),
                   meta_of page limit (length rows)))"

record sale =
  sa_id :: uuid
  sa_title :: utext
  sa_soldPrice :: money
  sa_bidCount :: nat
  sa_endedAt :: "instant option"

definition getStats :: "db \<Rightarrow> nat \<times> nat \<times> sale option" where
  "getStats s =
     (count_rows (\<lambda>a. au_status a = ACTIVE \<and> au_deletedAt a = None) (auctions s),
      count_rows (\<lambda>b. list_ex (\<lambda>a. au_id a = bi_auctionId b \<and> au_deletedAt a = None) (auctions s))
        (bids s),
      (case find_by (\<lambda>a. (nulls_first_desc (au_endedAt a), - int (au_id a)))
              (\<lambda>a. au_status a = SOLD \<and> au_deletedAt a = None \<and> au_soldPrice a \<noteq> None) (auctions s) of
         None \<Rightarrow> None
       | Some a \<Rightarrow> map_option (\<lambda>p. \<lparr>sa_id = au_id a, sa_title = au_title a, sa_soldPrice = p,
                      sa_bidCount = au_bidCount a, sa_endedAt = au_endedAt a\<rparr>) (au_soldPrice a)))"

section \<open>Edits and cancellation\<close>

definition is_own :: "uuid \<Rightarrow> uuid \<Rightarrow> auction_row \<Rightarrow> bool" where
  "is_own aid sellerId a \<longleftrightarrow> au_id a = aid \<and> au_sellerId a = sellerId \<and> au_deletedAt a = None"

definition is_own_as_read :: "uuid \<Rightarrow> uuid \<Rightarrow> auction_row \<Rightarrow> auction_row \<Rightarrow> bool" where
  "is_own_as_read aid sellerId existing a \<longleftrightarrow>
     is_own aid sellerId a \<and> au_status a = au_status existing \<and> au_bidCount a = au_bidCount existing"

definition apply_edit :: "update_auction_dto \<Rightarrow> instant \<Rightarrow> auction_row \<Rightarrow> auction_row" where
  "apply_edit dto now a =
     a\<lparr>au_categoryId := or_default (ud_categoryId dto) (au_categoryId a),
       au_title := or_default (ud_title dto) (au_title a),
       au_description := or_default (ud_description dto) (au_description a),
       au_condition := or_default (ud_condition dto) (au_condition a),
       au_startingPrice := or_default (ud_startingPrice dto) (au_startingPrice a),
       au_minBidIncrement := or_default (ud_minBidIncrement dto) (au_minBidIncrement a),
       au_reservePrice := (case ud_reservePrice dto of None \<Rightarrow> au_reservePrice a | r \<Rightarrow> r),
       au_scheduledStartAt := (case ud_scheduledStartAt dto of None \<Rightarrow> au_scheduledStartAt a | t \<Rightarrow> t),
       au_originalEndAt := (case ud_scheduledEndAt dto of None \<Rightarrow> au_originalEndAt a | t \<Rightarrow> t),
       au_currentEndAt := (case ud_scheduledEndAt dto of None \<Rightarrow> au_currentEndAt a | t \<Rightarrow> t),
       au_rowVersion := au_rowVersion a + 1, au_updatedAt := now\<rparr>"

definition updateOwnAuction ::
  "db \<Rightarrow> db \<Rightarrow> instant \<Rightarrow> (nat \<Rightarrow> uuid) \<Rightarrow> (nat \<Rightarrow> uuid) \<Rightarrow> uuid \<Rightarrow> uuid \<Rightarrow> update_auction_dto
     \<Rightarrow> error + (db \<times> auction_view)" where
  "updateOwnAuction rd wr now imgId randomUUID aid sellerId dto =
     (case Option.bind (ud_categoryId dto) (assertCategoryIsActive rd) of
        Some e \<Rightarrow> Inl e
      | None \<Rightarrow>
         (case find (is_own aid sellerId) (auctions rd) of
            None \<Rightarrow> Inl (NotFound Auction)
          | Some existing \<Rightarrow>
             (case assertAuctionIsEditable existing of
                Some e \<Rightarrow> Inl e
              | None \<Rightarrow>
                  let (count, t) = update_many (is_own_as_read aid sellerId existing)
                        (apply_edit dto now) (auctions wr) in
                  if count \<noteq> 1 then Inl (Conflict ChangedMeanwhile)
                  else
                    let imgs = (case ud_imageUrls dto of
                          None \<Rightarrow> auctionImages wr
                        | Some urls \<Rightarrow> delete_many (\<lambda>i. im_ownerId i = aid) (auctionImages wr)
                            @ image_rows_of_urls imgId randomUUID sellerId aid urls);
                        s1 = wr\<lparr>auctions := t, auctionImages := imgs\<rparr>
                    in (case find_auction s1 aid of
                          None \<Rightarrow> Inl RecordNotFound
                        | Some updated \<Rightarrow>
                            let issues = (if au_status existing = SCHEDULED
                                  then validateDraftForPublish (auctionPublishGateSelect s1 updated) now
                                  else [])
                            in if length issues > 0 then Inl (BadRequest (EditIncomplete issues))
                               else Inr (s1, toOwnerAuction s1 updated)))))"

record cancellation =
  cn_row :: auction_row
  cn_event :: cancelled_event
  cn_notifications :: "notification_row list"

definition mark_cancelled :: "instant \<Rightarrow> utext option \<Rightarrow> auction_row \<Rightarrow> auction_row" where
  "mark_cancelled now reason a =
     a\<lparr>au_status := CANCELLED,
       au_cancellationReason := (case reason of None \<Rightarrow> au_cancellationReason a | r \<Rightarrow> r),
       au_endedAt := Some now, au_rowVersion := au_rowVersion a + 1, au_updatedAt := now\<rparr>"

definition cancelInTransaction ::
  "db \<Rightarrow> db \<Rightarrow> instant \<Rightarrow> uuid \<Rightarrow> uuid \<Rightarrow> utext option \<Rightarrow> error + (db \<times> cancellation)" where
  "cancelInTransaction rd wr now aid sellerId reason =
     (case find (is_own aid sellerId) (auctions rd) of
        None \<Rightarrow> Inl (NotFound Auction)
      | Some existing \<Rightarrow>
         (case assertAuctionIsCancellable existing of
            Some e \<Rightarrow> Inl e
          | None \<Rightarrow>
              let (count, t) = update_many (is_own_as_read aid sellerId existing)
                    (mark_cancelled now reason) (auctions wr) in
              if count \<noteq> 1 then Inl (Conflict ChangedMeanwhile)
              else
                let s1 = wr\<lparr>auctions := t, auctionEvents := auctionEvents wr @
                            [event aid (Some sellerId) None EV_CANCELLED]\<rparr>
                in (case find_auction s1 aid of
                      None \<Rightarrow> Inl RecordNotFound
                    | Some cancelled \<Rightarrow>
                        let ns = map (\<lambda>u. auctionCancelledNotification cancelled u reason)
                              (findAuctionAudience s1 aid [Some sellerId])
                        in Inr (s1\<lparr>notifications := notifications s1 @ ns\<rparr>,
                                \<lparr>cn_row = cancelled, cn_event = toAuctionCancelledEvent cancelled,
                                 cn_notifications = ns\<rparr>))))"

definition cancelOwnAuction ::
  "db \<Rightarrow> db \<Rightarrow> instant \<Rightarrow> uuid \<Rightarrow> uuid \<Rightarrow> utext option \<Rightarrow> db \<times> message list \<times> (error + auction_view)" where
  "cancelOwnAuction rd wr now aid sellerId reason =
     (case cancelInTransaction rd wr now aid sellerId reason of
        Inl e \<Rightarrow> (wr, [], Inl e)
      | Inr (s1, c) \<Rightarrow>
          (s1, ToRoom aid (AuctionCancelledEv (cn_event c)) # deliver (cn_notifications c),
           Inr (toOwnerAuction s1 (cn_row c))))"

definition CANCELLABLE_BY_ADMIN :: "auction_status list" where
  "CANCELLABLE_BY_ADMIN = [DRAFT, SCHEDULED, ACTIVE]"

definition adminCancelInTransaction ::
  "db \<Rightarrow> db \<Rightarrow> instant \<Rightarrow> uuid \<Rightarrow> uuid \<Rightarrow> utext \<Rightarrow> error + (db \<times> cancellation)" where
  "adminCancelInTransaction rd wr now aid adminId reason =
     (case find (\<lambda>a. au_id a = aid \<and> au_deletedAt a = None) (auctions rd) of
        None \<Rightarrow> Inl (NotFound Auction)
      | Some existing \<Rightarrow>
          if au_status existing \<notin> set CANCELLABLE_BY_ADMIN
          then Inl (BadRequest (NotCancellableByAdmin (au_status existing)))
          else
            let (count, t) = update_many
                  (\<lambda>a. au_id a = aid \<and> au_status a = au_status existing \<and> au_deletedAt a = None)
                  (mark_cancelled now (Some reason)) (auctions wr) in
            if count \<noteq> 1 then Inl (BadRequest AdminChangedMeanwhile)
            else
              let s1 = wr\<lparr>auctions := t,
                         auctionEvents := auctionEvents wr @ [event aid (Some adminId) None EV_CANCELLED],
                         adminActions := adminActions wr @
                           [\<lparr>aa_adminUserId = adminId, aa_auctionId = Some aid, aa_productId = None, aa_categoryId = None,
                             aa_actionType = CANCEL_AUCTION, aa_note = Some reason\<rparr>]\<rparr>
              in (case find_auction s1 aid of
                    None \<Rightarrow> Inl RecordNotFound
                  | Some cancelled \<Rightarrow>
                      let recipients = filter (\<lambda>u. u \<noteq> adminId)
                            (set_of (findAuctionAudience s1 aid [Some adminId] @ [au_sellerId existing]));
                          ns = map (\<lambda>u. auctionCancelledNotification cancelled u (Some reason)) recipients
                      in Inr (s1\<lparr>notifications := notifications s1 @ ns\<rparr>,
                              \<lparr>cn_row = cancelled, cn_event = toAuctionCancelledEvent cancelled,
                               cn_notifications = ns\<rparr>)))"

definition cancelAuction ::
  "db \<Rightarrow> db \<Rightarrow> instant \<Rightarrow> uuid \<Rightarrow> uuid \<Rightarrow> utext \<Rightarrow> db \<times> message list \<times> (error + public_auction)" where
  "cancelAuction rd wr now aid adminId reason =
     (case adminCancelInTransaction rd wr now aid adminId reason of
        Inl e \<Rightarrow> (wr, [], Inl e)
      | Inr (s1, c) \<Rightarrow>
          (s1, ToRoom aid (AuctionCancelledEv (cn_event c)) # deliver (cn_notifications c),
           Inr (toPublicAuction s1 (cn_row c))))"

section \<open>Draft images\<close>

definition MAX_AUCTION_IMAGES :: nat where
  "MAX_AUCTION_IMAGES = 8"

definition bump_version :: "instant \<Rightarrow> auction_row \<Rightarrow> auction_row" where
  "bump_version now a = a\<lparr>au_rowVersion := au_rowVersion a + 1, au_updatedAt := now\<rparr>"

definition next_position :: "image_row list \<Rightarrow> nat" where
  "next_position imgs =
     (case find_by (\<lambda>i. - int (im_position i)) (\<lambda>_. True) imgs of
        None \<Rightarrow> 0 | Some i \<Rightarrow> im_position i + 1)"

definition addImageInTransaction ::
  "db \<Rightarrow> instant \<Rightarrow> uuid \<Rightarrow> uuid \<Rightarrow> uuid \<Rightarrow> storage_key \<Rightarrow> utext \<Rightarrow> error + (db \<times> auction_view)" where
  "addImageInTransaction s now imgId aid sellerId key url =
     (case own_draft s aid sellerId of
        None \<Rightarrow> Inl (NotFound AuctionDraft)
      | Some current \<Rightarrow>
          if length (images_of s aid) \<ge> MAX_AUCTION_IMAGES then Inl (BadRequest TooManyImages)
          else
            let s1 = s\<lparr>auctionImages := auctionImages s @
                        [\<lparr>im_id = imgId, im_ownerId = aid, im_storageKey = key, im_url = url,
                          im_position = next_position (images_of s aid),
                          im_isPrimary = (length (images_of s aid) = 0)\<rparr>],
                      auctions := map_rows (\<lambda>a. au_id a = aid) (bump_version now) (auctions s)\<rparr>
            in (case find_auction s1 aid of
                  None \<Rightarrow> Inl RecordNotFound
                | Some a \<Rightarrow> Inr (s1, toOwnerAuction s1 a)))"

text \<open>\<open>upload\<close> is what the file store answers: the key and url it filed the picture under, or nothing.\<close>

definition addDraftImage ::
  "db \<Rightarrow> db \<Rightarrow> instant \<Rightarrow> uuid \<Rightarrow> uuid \<Rightarrow> uuid \<Rightarrow> (storage_key \<times> utext) option
     \<Rightarrow> db \<times> message list \<times> (error + auction_view)" where
  "addDraftImage rd wr now imgId aid sellerId upload =
     (case own_draft rd aid sellerId of
        None \<Rightarrow> (wr, [], Inl (NotFound AuctionDraft))
      | Some draft \<Rightarrow>
          if length (images_of rd aid) \<ge> MAX_AUCTION_IMAGES
          then (wr, [], Inl (BadRequest TooManyImages))
          else (case upload of
                  None \<Rightarrow> (wr, [], Inl ServiceUnavailable)
                | Some (key, url) \<Rightarrow>
                    (case addImageInTransaction wr now imgId aid sellerId key url of
                       Inl e \<Rightarrow> (wr, [DeleteFile key], Inl e)
                     | Inr (s1, v) \<Rightarrow> (s1, [], Inr v))))"

definition removeDraftImage ::
  "db \<Rightarrow> instant \<Rightarrow> uuid \<Rightarrow> uuid \<Rightarrow> uuid \<Rightarrow> db \<times> message list \<times> (error + auction_view)" where
  "removeDraftImage s now aid sellerId imageId =
     (case find (\<lambda>i. im_id i = imageId \<and> im_ownerId i = aid \<and> own_draft s aid sellerId \<noteq> None)
            (auctionImages s) of
        None \<Rightarrow> (s, [], Inl (NotFound AuctionImage))
      | Some img \<Rightarrow>
          let rest = delete_many (\<lambda>i. im_id i = im_id img) (auctionImages s);
              promoted = (if im_isPrimary img then
                  (case find_by im_position (\<lambda>i. im_ownerId i = aid) rest of
                     None \<Rightarrow> rest
                   | Some next \<Rightarrow> map_rows (\<lambda>i. im_id i = im_id next) (\<lambda>i. i\<lparr>im_isPrimary := True\<rparr>) rest)
                else rest);
              s1 = s\<lparr>auctionImages := promoted,
                     auctions := map_rows (\<lambda>a. au_id a = aid) (bump_version now) (auctions s)\<rparr>
          in (case find_auction s1 aid of
                None \<Rightarrow> (s, [], Inl RecordNotFound)
              | Some a \<Rightarrow> (s1, [DeleteFile (im_storageKey img)], Inr (toOwnerAuction s1 a))))"

end
