(* ===== verification/Product_Service.thy ===== *)
theory Product_Service
  imports Cart_Service Auction_Service
begin

text \<open>
  \<open>ProductService\<close> of \<open>apps/api/src/product/product.service.ts\<close> with its mapper, the part of
  \<open>storage/storage.service.ts\<close> that recognises our own uploads, and the admin's suspension of
  \<open>admin/products.service.ts\<close>. The seller's edits read the listing first and then write it with no
  guard, so as in \<open>Auction_Service\<close> \<open>rd\<close> is what the reads saw and \<open>wr\<close> what the write runs on.
  The platform's URL parser and the text form of an id are the arguments \<open>parse_url\<close> and \<open>render\<close>.
\<close>

section \<open>Uploads\<close>

fun split_on :: "nat \<Rightarrow> utext \<Rightarrow> utext list" where
  "split_on c [] = [[]]"
| "split_on c (x # xs) =
     (if x = c then [] # split_on c xs
      else case split_on c xs of [] \<Rightarrow> [[x]] | w # ws \<Rightarrow> (x # w) # ws)"

definition join_with :: "nat \<Rightarrow> utext list \<Rightarrow> utext" where
  "join_with c ws = (case ws of [] \<Rightarrow> [] | w # rest \<Rightarrow> w @ concat (map (\<lambda>v. c # v) rest))"

definition starts_with :: "utext \<Rightarrow> utext \<Rightarrow> bool" where
  "starts_with p s \<longleftrightarrow> take (length p) s = p"

definition CLOUDINARY_HOST :: utext where
  "CLOUDINARY_HOST = ascii ''res.cloudinary.com''"

definition PENDING_FOLDER_ROOT :: utext where
  "PENDING_FOLDER_ROOT = ascii ''bidnest/pending''"

definition pendingPrefix :: "(uuid \<Rightarrow> utext) \<Rightarrow> uuid \<Rightarrow> utext" where
  "pendingPrefix render userId = PENDING_FOLDER_ROOT @ ascii ''/'' @ render userId @ ascii ''/''"

definition is_version :: "utext \<Rightarrow> bool" where
  "is_version w = (case w of v # ds \<Rightarrow> v = 118 \<and> ds \<noteq> [] \<and> list_all (\<lambda>d. 48 \<le> d \<and> d \<le> 57) ds
     | [] \<Rightarrow> False)"

text \<open>\<open>lastIndexOf('.')\<close> and the slice before it, when that slice is not empty.\<close>

definition drop_extension :: "utext \<Rightarrow> utext" where
  "drop_extension name =
     (let stem = rev (drop 1 (dropWhile (\<lambda>c. c \<noteq> 46) (rev name)))
      in if 46 \<in> set name \<and> stem \<noteq> [] then stem else name)"

definition storageKeyFromUrl ::
  "utext option \<Rightarrow> (utext \<Rightarrow> (utext \<times> utext) option) \<Rightarrow> utext \<Rightarrow> utext option" where
  "storageKeyFromUrl cloudName parse_url url =
     (case cloudName of
        None \<Rightarrow> None
      | Some cloud \<Rightarrow>
         (case parse_url url of
            None \<Rightarrow> None
          | Some (hostname, pathname) \<Rightarrow>
              if hostname \<noteq> CLOUDINARY_HOST then None
              else
                case filter (\<lambda>w. w \<noteq> []) (split_on 47 pathname) of
                  a # b # c # v # body \<Rightarrow>
                    if a = cloud \<and> b = ascii ''image'' \<and> c = ascii ''upload'' \<and> is_version v \<and> body \<noteq> []
                    then Some (join_with 47 (butlast body @ [drop_extension (last body)]))
                    else None
                | _ \<Rightarrow> None))"

section \<open>Views\<close>

record public_product =
  pp_id :: uuid
  pp_title :: utext
  pp_description :: utext
  pp_price :: money
  pp_stockQty :: int
  pp_condition :: product_condition
  pp_status :: product_status
  pp_quantityDiscount :: "(int \<times> int) option"
  pp_category :: "(uuid \<times> utext \<times> utext) option"
  pp_seller :: "uuid \<times> utext option"
  pp_images :: "public_image list"
  pp_createdAt :: instant
  pp_updatedAt :: instant

definition product_images :: "db \<Rightarrow> uuid \<Rightarrow> image_row list" where
  "product_images s pid = sort_key im_position (filter (\<lambda>i. im_ownerId i = pid) (productImages s))"

text \<open>
  A minimum of zero would be falsy and hide the rule; a \<open>Decimal\<close> is an object and never falsy.
\<close>

definition toPublicProduct :: "db \<Rightarrow> product_row \<Rightarrow> public_product" where
  "toPublicProduct s p =
     \<lparr>pp_id = pr_id p, pp_title = pr_title p, pp_description = pr_description p,
      pp_price = pr_price p, pp_stockQty = pr_stockQty p, pp_condition = pr_condition p,
      pp_status = pr_status p,
      pp_quantityDiscount = (case (pr_quantityDiscountMinQty p, pr_quantityDiscountPercent p) of
          (Some m, Some d) \<Rightarrow> if m \<noteq> 0 then Some (m, d) else None | _ \<Rightarrow> None),
      pp_category = map_option (\<lambda>c. (ca_id c, ca_name c, ca_slug c)) (find_category s (pr_categoryId p)),
      pp_seller = (pr_sellerId p, display_name s (pr_sellerId p)),
      pp_images = map (\<lambda>i. \<lparr>pi_id = im_id i, pi_url = im_url i, pi_position = im_position i,
                            pi_isPrimary = im_isPrimary i\<rparr>) (product_images s (pr_id p)),
      pp_createdAt = pr_createdAt p, pp_updatedAt = pr_updatedAt p\<rparr>"

datatype product_view = BuyerView public_product | SellerView public_product "money option"

definition toOwnerProduct :: "db \<Rightarrow> product_row \<Rightarrow> product_view" where
  "toOwnerProduct s p = SellerView (toPublicProduct s p) (pr_negotiationFloor p)"

section \<open>Rules\<close>

record create_product_dto =
  cp_title :: utext
  cp_description :: utext
  cp_categoryId :: uuid
  cp_price :: money
  cp_stockQty :: int
  cp_condition :: product_condition
  cp_imageUrls :: "utext list"
  cp_negotiationFloor :: "money option"
  cp_quantityDiscountMinQty :: "int option"
  cp_quantityDiscountPercent :: "int option"

record update_product_dto =
  up_title :: "utext option"
  up_description :: "utext option"
  up_categoryId :: "uuid option"
  up_price :: "money option"
  up_stockQty :: "int option"
  up_condition :: "product_condition option"
  up_negotiationFloor :: "money option"
  up_quantityDiscountMinQty :: "int option"
  up_quantityDiscountPercent :: "int option"

definition assertDiscountRuleIsComplete :: "int option \<Rightarrow> int option \<Rightarrow> error option" where
  "assertDiscountRuleIsComplete minQty percent =
     (if (minQty \<noteq> None) \<noteq> (percent \<noteq> None) then Some (BadRequest DiscountRuleIncomplete) else None)"

text \<open>The warning carries the two numbers of its sentence; it is computed on doubles.\<close>

definition buildFloorWarnings :: "money \<Rightarrow> money option \<Rightarrow> int option \<Rightarrow> (money \<times> rat) list" where
  "buildFloorWarnings price flr percent =
     (case (flr, percent) of
        (Some f, Some p) \<Rightarrow>
          let discountedUnitPrice = fl (to_number price * fl (1 - fl (to_number p / 100)))
          in if to_number f \<ge> discountedUnitPrice then [] else [(f, discountedUnitPrice)]
      | _ \<Rightarrow> [])"

definition resolveStatus :: "product_status \<Rightarrow> int \<Rightarrow> product_status option" where
  "resolveStatus currentStatus stockQty =
     (if currentStatus \<noteq> P_ACTIVE \<and> currentStatus \<noteq> P_OUT_OF_STOCK then None
      else if stockQty > 0 then Some P_ACTIVE else Some P_OUT_OF_STOCK)"

definition assertNotSuspended :: "product_status \<Rightarrow> error option" where
  "assertNotSuspended currentStatus =
     (if currentStatus = P_SUSPENDED then Some (Forbidden ProductSuspended) else None)"

definition assertImagesAreEditable :: "product_status \<Rightarrow> error option" where
  "assertImagesAreEditable currentStatus =
     (case assertNotSuspended currentStatus of
        Some e \<Rightarrow> Some e
      | None \<Rightarrow> if currentStatus = P_REMOVED then Some (BadRequest RemovedNotEditable) else None)"

definition findOwnedProduct :: "db \<Rightarrow> uuid \<Rightarrow> uuid \<Rightarrow> error + product_row" where
  "findOwnedProduct s pid sellerId =
     (case find_product s pid of
        None \<Rightarrow> Inl (NotFound Product)
      | Some p \<Rightarrow> if pr_sellerId p \<noteq> sellerId then Inl (Forbidden NotProductOwner) else Inr p)"

section \<open>Creating and reading\<close>

primrec claim_keys ::
  "(nat \<Rightarrow> storage_key) \<Rightarrow> nat \<Rightarrow> utext option list \<Rightarrow> utext list \<Rightarrow> storage_key list" where
  "claim_keys invented k [] taken = []"
| "claim_keys invented k (c # cs) taken =
     (case c of
        None \<Rightarrow> invented k # claim_keys invented (Suc k) cs taken
      | Some key \<Rightarrow>
          (if key \<notin> set taken then Stored key else invented k)
            # claim_keys invented (Suc k) cs (set_add taken key))"

definition resolveImageKeys ::
  "(utext \<Rightarrow> utext option) \<Rightarrow> (uuid \<Rightarrow> utext) \<Rightarrow> (nat \<Rightarrow> uuid) \<Rightarrow> db \<Rightarrow> uuid \<Rightarrow> utext list \<Rightarrow> storage_key list" where
  "resolveImageKeys keyFromUrl render randomUUID s sellerId urls =
     (let prefix = pendingPrefix render sellerId;
          candidates = map (\<lambda>url. case keyFromUrl url of None \<Rightarrow> None
                         | Some key \<Rightarrow> if starts_with prefix key then Some key else None) urls;
          claimable = List.map_filter id candidates;
          taken = filter (\<lambda>key. list_ex (\<lambda>i. im_storageKey i = Stored key) (productImages s)) claimable
      in claim_keys (\<lambda>k. Invented sellerId (randomUUID k) k) 0 candidates taken)"

definition create ::
  "(utext \<Rightarrow> utext option) \<Rightarrow> (uuid \<Rightarrow> utext) \<Rightarrow> (nat \<Rightarrow> uuid) \<Rightarrow> db \<Rightarrow> instant \<Rightarrow> uuid \<Rightarrow> (nat \<Rightarrow> uuid)
     \<Rightarrow> uuid \<Rightarrow> create_product_dto \<Rightarrow> error + (db \<times> product_view \<times> (money \<times> rat) list)" where
  "create keyFromUrl render randomUUID s now newId imgId sellerId dto =
     (case assertCategoryIsActive s (cp_categoryId dto) of
        Some e \<Rightarrow> Inl e
      | None \<Rightarrow>
         (case assertDiscountRuleIsComplete (cp_quantityDiscountMinQty dto) (cp_quantityDiscountPercent dto) of
            Some e \<Rightarrow> Inl e
          | None \<Rightarrow>
              let keys = resolveImageKeys keyFromUrl render randomUUID s sellerId (cp_imageUrls dto);
                  p = \<lparr>pr_id = newId, pr_sellerId = sellerId, pr_categoryId = cp_categoryId dto,
                       pr_title = cp_title dto, pr_description = cp_description dto,
                       pr_price = cp_price dto, pr_stockQty = cp_stockQty dto,
                       pr_condition = cp_condition dto, pr_negotiationFloor = cp_negotiationFloor dto,
                       pr_quantityDiscountMinQty = cp_quantityDiscountMinQty dto,
                       pr_quantityDiscountPercent = cp_quantityDiscountPercent dto,
                       pr_status = (if cp_stockQty dto > 0 then P_ACTIVE else P_OUT_OF_STOCK),
                       pr_createdAt = now, pr_updatedAt = now\<rparr>;
                  s1 = s\<lparr>products := products s @ [p],
                         productImages := productImages s @
                           map (\<lambda>(k, url, key). \<lparr>im_id = imgId k, im_ownerId = newId,
                                im_storageKey = key, im_url = url, im_position = k,
                                im_isPrimary = (k = 0)\<rparr>)
                             (enumerate 0 (zip (cp_imageUrls dto) keys))\<rparr>
              in Inr (s1, toOwnerProduct s1 p,
                   buildFloorWarnings (cp_price dto) (cp_negotiationFloor dto) (cp_quantityDiscountPercent dto))))"

datatype product_sort = PRICE_ASC | PRICE_DESC | NEWEST

definition buildOrderBy :: "product_sort option \<Rightarrow> product_row \<Rightarrow> int \<times> uuid" where
  "buildOrderBy sort_by p =
     (case sort_by of
        Some PRICE_ASC \<Rightarrow> (pr_price p, pr_id p)
      | Some PRICE_DESC \<Rightarrow> (- pr_price p, pr_id p)
      | _ \<Rightarrow> (- pr_createdAt p, pr_id p))"

record search_product_dto =
  sp_q :: "utext option"
  sp_categoryIds :: "uuid list"
  sp_minPrice :: "money option"
  sp_maxPrice :: "money option"
  sp_sort :: "product_sort option"
  sp_page :: "nat option"
  sp_limit :: "nat option"

definition search_where :: "(utext \<Rightarrow> utext \<Rightarrow> bool) \<Rightarrow> search_product_dto \<Rightarrow> product_row \<Rightarrow> bool" where
  "search_where ilike dto p \<longleftrightarrow>
     pr_status p = P_ACTIVE \<and>
     (sp_categoryIds dto \<noteq> [] \<longrightarrow> pr_categoryId p \<in> set (sp_categoryIds dto)) \<and>
     (case sp_q dto of None \<Rightarrow> True | Some q \<Rightarrow> q \<noteq> [] \<longrightarrow>
        contains ilike (escapeLike q) (pr_title p) \<or> contains ilike (escapeLike q) (pr_description p)) \<and>
     in_range (sp_minPrice dto) (sp_maxPrice dto) (pr_price p)"

definition search ::
  "(utext \<Rightarrow> utext \<Rightarrow> bool) \<Rightarrow> db \<Rightarrow> search_product_dto \<Rightarrow> error + (public_product list \<times> meta)" where
  "search ilike s dto =
     (let page = or_default (sp_page dto) 1; limit = or_default (sp_limit dto) 20
      in if (case (sp_minPrice dto, sp_maxPrice dto) of (Some lo, Some hi) \<Rightarrow> lo > hi | _ \<Rightarrow> False)
         then Inl (BadRequest MinAboveMax)
         else let rows = filter (search_where ilike dto) (products s)
              in Inr (map (toPublicProduct s)
                        (page_of page limit (sort_key (buildOrderBy (sp_sort dto)) rows)),
                      meta_of page limit (length rows)))"

definition findOne :: "db \<Rightarrow> uuid \<Rightarrow> uuid option \<Rightarrow> error + product_view" where
  "findOne s pid requesterId =
     (case find_product s pid of
        None \<Rightarrow> Inl (NotFound Product)
      | Some p \<Rightarrow>
          if pr_status p = P_REMOVED then Inl (NotFound Product)
          else
            let isOwner = (requesterId = Some (pr_sellerId p)) in
            if \<not> isOwner \<and> (pr_status p = P_INACTIVE \<or> pr_status p = P_SUSPENDED)
            then Inl (NotFound Product)
            else Inr (if isOwner then toOwnerProduct s p else BuyerView (toPublicProduct s p)))"

definition listOwnProducts :: "db \<Rightarrow> uuid \<Rightarrow> product_view list" where
  "listOwnProducts s sellerId =
     map (toOwnerProduct s) (sort_key (\<lambda>p. - pr_updatedAt p)
       (filter (\<lambda>p. pr_sellerId p = sellerId \<and> pr_status p \<noteq> P_REMOVED) (products s)))"

section \<open>Editing\<close>

definition write_product :: "db \<Rightarrow> uuid \<Rightarrow> (product_row \<Rightarrow> product_row) \<Rightarrow> error + (db \<times> product_row)" where
  "write_product wr pid f =
     (let s1 = wr\<lparr>products := map_rows (\<lambda>p. pr_id p = pid) f (products wr)\<rparr>
      in case find_product s1 pid of None \<Rightarrow> Inl RecordNotFound | Some p \<Rightarrow> Inr (s1, p))"

definition apply_product_edit ::
  "update_product_dto \<Rightarrow> instant \<Rightarrow> product_status option \<Rightarrow> product_row \<Rightarrow> product_row" where
  "apply_product_edit dto now status p =
     p\<lparr>pr_categoryId := or_default (up_categoryId dto) (pr_categoryId p),
       pr_title := or_default (up_title dto) (pr_title p),
       pr_description := or_default (up_description dto) (pr_description p),
       pr_price := or_default (up_price dto) (pr_price p),
       pr_stockQty := or_default (up_stockQty dto) (pr_stockQty p),
       pr_condition := or_default (up_condition dto) (pr_condition p),
       pr_negotiationFloor := (case up_negotiationFloor dto of None \<Rightarrow> pr_negotiationFloor p | x \<Rightarrow> x),
       pr_quantityDiscountMinQty :=
         (case up_quantityDiscountMinQty dto of None \<Rightarrow> pr_quantityDiscountMinQty p | x \<Rightarrow> x),
       pr_quantityDiscountPercent :=
         (case up_quantityDiscountPercent dto of None \<Rightarrow> pr_quantityDiscountPercent p | x \<Rightarrow> x),
       pr_status := or_default status (pr_status p), pr_updatedAt := now\<rparr>"

definition update ::
  "db \<Rightarrow> db \<Rightarrow> instant \<Rightarrow> uuid \<Rightarrow> uuid \<Rightarrow> update_product_dto
     \<Rightarrow> error + (db \<times> product_view \<times> (money \<times> rat) list)" where
  "update rd wr now pid sellerId dto =
     (case findOwnedProduct rd pid sellerId of
        Inl e \<Rightarrow> Inl e
      | Inr existing \<Rightarrow>
         (case assertNotSuspended (pr_status existing) of
            Some e \<Rightarrow> Inl e
          | None \<Rightarrow>
              if pr_status existing = P_REMOVED then Inl (BadRequest RemovedNotEditable)
              else case Option.bind (up_categoryId dto) (assertCategoryIsActive rd) of
                Some e \<Rightarrow> Inl e
              | None \<Rightarrow>
                  let price = or_default (up_price dto) (pr_price existing);
                      flr = (case up_negotiationFloor dto of None \<Rightarrow> pr_negotiationFloor existing | x \<Rightarrow> x);
                      minQty = (case up_quantityDiscountMinQty dto of
                          None \<Rightarrow> pr_quantityDiscountMinQty existing | x \<Rightarrow> x);
                      percent = (case up_quantityDiscountPercent dto of
                          None \<Rightarrow> pr_quantityDiscountPercent existing | x \<Rightarrow> x)
                  in (case assertDiscountRuleIsComplete minQty percent of
                        Some e \<Rightarrow> Inl e
                      | None \<Rightarrow>
                          let nextStock = or_default (up_stockQty dto) (pr_stockQty existing)
                          in (case write_product wr pid
                                  (apply_product_edit dto now (resolveStatus (pr_status existing) nextStock)) of
                                Inl e \<Rightarrow> Inl e
                              | Inr (s1, p) \<Rightarrow>
                                  Inr (s1, toOwnerProduct s1 p, buildFloorWarnings price flr percent)))))"

text \<open>The status the request may ask for is ACTIVE (\<open>True\<close>) or INACTIVE (\<open>False\<close>).\<close>

definition updateStatus ::
  "db \<Rightarrow> db \<Rightarrow> instant \<Rightarrow> uuid \<Rightarrow> uuid \<Rightarrow> bool \<Rightarrow> error + (db \<times> product_view)" where
  "updateStatus rd wr now pid sellerId active =
     (case findOwnedProduct rd pid sellerId of
        Inl e \<Rightarrow> Inl e
      | Inr existing \<Rightarrow>
         (case assertNotSuspended (pr_status existing) of
            Some e \<Rightarrow> Inl e
          | None \<Rightarrow>
              if pr_status existing = P_REMOVED then Inl (BadRequest RemovedNotEditable)
              else
                let next = (if \<not> active then P_INACTIVE
                            else if pr_stockQty existing > 0 then P_ACTIVE else P_OUT_OF_STOCK)
                in (case write_product wr pid (\<lambda>p. p\<lparr>pr_status := next, pr_updatedAt := now\<rparr>) of
                      Inl e \<Rightarrow> Inl e
                    | Inr (s1, p) \<Rightarrow> Inr (s1, toOwnerProduct s1 p))))"

definition updateStock ::
  "db \<Rightarrow> db \<Rightarrow> instant \<Rightarrow> uuid \<Rightarrow> uuid \<Rightarrow> int \<Rightarrow> error + (db \<times> product_view)" where
  "updateStock rd wr now pid sellerId stockQty =
     (case findOwnedProduct rd pid sellerId of
        Inl e \<Rightarrow> Inl e
      | Inr existing \<Rightarrow>
         (case assertNotSuspended (pr_status existing) of
            Some e \<Rightarrow> Inl e
          | None \<Rightarrow>
              if pr_status existing = P_REMOVED then Inl (BadRequest RemovedNotEditable)
              else
                (case write_product wr pid (\<lambda>p. p\<lparr>pr_stockQty := stockQty,
                        pr_status := or_default (resolveStatus (pr_status existing) stockQty) (pr_status p),
                        pr_updatedAt := now\<rparr>) of
                   Inl e \<Rightarrow> Inl e
                 | Inr (s1, p) \<Rightarrow> Inr (s1, toOwnerProduct s1 p))))"

definition references_product :: "db \<Rightarrow> uuid \<Rightarrow> order_item_row \<Rightarrow> bool" where
  "references_product s pid i \<longleftrightarrow> oi_productId i = Some pid \<and>
     list_ex (\<lambda>x. or_id x = oi_orderId i \<and> or_status x \<noteq> O_CANCELLED) (orders s)"

definition remove ::
  "db \<Rightarrow> db \<Rightarrow> instant \<Rightarrow> uuid \<Rightarrow> uuid \<Rightarrow> error + (db \<times> product_status)" where
  "remove rd wr now pid sellerId =
     (case findOwnedProduct rd pid sellerId of
        Inl e \<Rightarrow> Inl e
      | Inr existing \<Rightarrow>
         (case assertNotSuspended (pr_status existing) of
            Some e \<Rightarrow> Inl e
          | None \<Rightarrow>
              let referencingOrders = count_rows (references_product rd pid) (orderItems rd);
                  status = (if referencingOrders > 0 then P_INACTIVE else P_REMOVED)
              in (case write_product wr pid (\<lambda>p. p\<lparr>pr_status := status, pr_updatedAt := now\<rparr>) of
                    Inl e \<Rightarrow> Inl e
                  | Inr (s1, p) \<Rightarrow> Inr (s1, status))))"

section \<open>Pictures\<close>

definition MAX_PRODUCT_IMAGES :: nat where
  "MAX_PRODUCT_IMAGES = 8"

definition addProductImageInTransaction ::
  "db \<Rightarrow> uuid \<Rightarrow> uuid \<Rightarrow> uuid \<Rightarrow> storage_key \<Rightarrow> utext \<Rightarrow> error + (db \<times> product_view)" where
  "addProductImageInTransaction s imgId pid sellerId key url =
     (case find (\<lambda>p. pr_id p = pid \<and> pr_sellerId p = sellerId) (products s) of
        None \<Rightarrow> Inl (NotFound Product)
      | Some current \<Rightarrow>
          let imgs = product_images s pid in
          if length imgs \<ge> MAX_PRODUCT_IMAGES then Inl (BadRequest TooManyImages)
          else
            let s1 = s\<lparr>productImages := productImages s @
                  [\<lparr>im_id = imgId, im_ownerId = pid, im_storageKey = key, im_url = url,
                    im_position = next_position imgs, im_isPrimary = (length imgs = 0)\<rparr>]\<rparr>
            in Inr (s1, toOwnerProduct s1 current))"

definition addImage ::
  "db \<Rightarrow> db \<Rightarrow> uuid \<Rightarrow> uuid \<Rightarrow> uuid \<Rightarrow> (storage_key \<times> utext) option
     \<Rightarrow> db \<times> storage_key list \<times> (error + product_view)" where
  "addImage rd wr imgId pid sellerId upload =
     (case findOwnedProduct rd pid sellerId of
        Inl e \<Rightarrow> (wr, [], Inl e)
      | Inr existing \<Rightarrow>
         (case assertImagesAreEditable (pr_status existing) of
            Some e \<Rightarrow> (wr, [], Inl e)
          | None \<Rightarrow>
              if length (product_images rd pid) \<ge> MAX_PRODUCT_IMAGES
              then (wr, [], Inl (BadRequest TooManyImages))
              else (case upload of
                      None \<Rightarrow> (wr, [], Inl ServiceUnavailable)
                    | Some (key, url) \<Rightarrow>
                       (case addProductImageInTransaction wr imgId pid sellerId key url of
                          Inl e \<Rightarrow> (wr, [key], Inl e)
                        | Inr (s1, v) \<Rightarrow> (s1, [], Inr v)))))"

definition removeImageInTransaction ::
  "db \<Rightarrow> uuid \<Rightarrow> uuid \<Rightarrow> uuid \<Rightarrow> error + (db \<times> storage_key \<times> product_view)" where
  "removeImageInTransaction s pid sellerId imageId =
     (case find (\<lambda>i. im_id i = imageId \<and> im_ownerId i = pid \<and>
              list_ex (\<lambda>p. pr_id p = pid \<and> pr_sellerId p = sellerId) (products s)) (productImages s) of
        None \<Rightarrow> Inl (NotFound ProductImage)
      | Some img \<Rightarrow>
          if length (product_images s pid) \<le> 1 then Inl (BadRequest LastImage)
          else
            let rest = delete_many (\<lambda>i. im_id i = im_id img) (productImages s);
                promoted = (if im_isPrimary img then
                    (case find_by im_position (\<lambda>i. im_ownerId i = pid) rest of
                       None \<Rightarrow> rest
                     | Some nxt \<Rightarrow> map_rows (\<lambda>i. im_id i = im_id nxt) (\<lambda>i. i\<lparr>im_isPrimary := True\<rparr>) rest)
                  else rest);
                s1 = s\<lparr>productImages := promoted\<rparr>
            in (case find_product s1 pid of
                  None \<Rightarrow> Inl RecordNotFound
                | Some p \<Rightarrow> Inr (s1, im_storageKey img, toOwnerProduct s1 p)))"

definition removeImage ::
  "db \<Rightarrow> db \<Rightarrow> uuid \<Rightarrow> uuid \<Rightarrow> uuid \<Rightarrow> db \<times> storage_key list \<times> (error + product_view)" where
  "removeImage rd wr pid sellerId imageId =
     (case findOwnedProduct rd pid sellerId of
        Inl e \<Rightarrow> (wr, [], Inl e)
      | Inr existing \<Rightarrow>
         (case assertImagesAreEditable (pr_status existing) of
            Some e \<Rightarrow> (wr, [], Inl e)
          | None \<Rightarrow>
             (case removeImageInTransaction wr pid sellerId imageId of
                Inl e \<Rightarrow> (wr, [], Inl e)
              | Inr (s1, key, v) \<Rightarrow> (s1, [key], Inr v))))"

section \<open>The admin's suspension\<close>

definition findModerable :: "db \<Rightarrow> uuid \<Rightarrow> error + product_row" where
  "findModerable s pid =
     (case find_product s pid of
        None \<Rightarrow> Inl (NotFound Product)
      | Some p \<Rightarrow> if pr_status p = P_REMOVED then Inl (Forbidden RemovedBySeller) else Inr p)"

definition moderate ::
  "db \<Rightarrow> instant \<Rightarrow> uuid \<Rightarrow> product_status \<Rightarrow> admin_action_type \<Rightarrow> uuid \<Rightarrow> utext \<Rightarrow> error + (db \<times> product_row)" where
  "moderate wr now pid status action adminId reason =
     (case write_product wr pid (\<lambda>p. p\<lparr>pr_status := status, pr_updatedAt := now\<rparr>) of
        Inl e \<Rightarrow> Inl e
      | Inr (s1, p) \<Rightarrow> Inr (s1\<lparr>adminActions := adminActions s1 @
            [\<lparr>aa_adminUserId = adminId, aa_auctionId = None, aa_productId = Some pid, aa_categoryId = None,
              aa_actionType = action, aa_note = Some reason\<rparr>]\<rparr>, p))"

definition deactivate ::
  "db \<Rightarrow> db \<Rightarrow> instant \<Rightarrow> uuid \<Rightarrow> uuid \<Rightarrow> utext \<Rightarrow> error + (db \<times> product_row)" where
  "deactivate rd wr now pid adminId reason =
     (case findModerable rd pid of
        Inl e \<Rightarrow> Inl e
      | Inr product \<Rightarrow>
          if pr_status product = P_SUSPENDED then Inl (BadRequest AlreadySuspended)
          else moderate wr now pid P_SUSPENDED DEACTIVATE_PRODUCT adminId reason)"

definition reactivate ::
  "db \<Rightarrow> db \<Rightarrow> instant \<Rightarrow> uuid \<Rightarrow> uuid \<Rightarrow> utext \<Rightarrow> error + (db \<times> product_row)" where
  "reactivate rd wr now pid adminId reason =
     (case findModerable rd pid of
        Inl e \<Rightarrow> Inl e
      | Inr product \<Rightarrow>
          if pr_status product \<noteq> P_SUSPENDED then Inl (BadRequest (NotSuspended (pr_status product)))
          else moderate wr now pid (if pr_stockQty product > 0 then P_ACTIVE else P_OUT_OF_STOCK)
                 REACTIVATE_PRODUCT adminId reason)"

end
