(* ===== verification/Negotiator.thy ===== *)
theory Negotiator
  imports Cart_Service
begin

text \<open>
  The AI negotiator: the pricing rule of \<open>ai-tools/negotiator.service.ts\<close> and the facade of
  \<open>ai-tools/negotiator-facade.service.ts\<close> around it (rate limit, offers, accept tokens). The rule
  computes on JavaScript numbers, so its amounts go through \<open>to_number\<close>. Signing and verifying the
  token are the JWT library's, the arguments \<open>sign\<close> and \<open>verify\<close>; what makes a token single-use is
  the offer row's \<open>expiresAt\<close>, and that is modelled here.
\<close>

section \<open>The rule\<close>

definition decide ::
  "money \<Rightarrow> money \<Rightarrow> money \<Rightarrow> int \<Rightarrow> int \<Rightarrow> money option \<Rightarrow> offer_decision \<times> money option" where
  "decide offerAmount floor_amount currentPrice quantity stockQty outstandingCounter =
     (let offer = to_number offerAmount; price = to_number currentPrice in
      if quantity > stockQty then (REJECTED, None)
      else if offer < to_number floor_amount then (REJECTED, None)
      else if offer \<ge> price then (ACCEPTED, None)
      else if (case outstandingCounter of None \<Rightarrow> False | Some c \<Rightarrow> offer \<ge> to_number c)
           then (ACCEPTED, None)
      else (COUNTERED, Some (round_half_sum offer price)))"

section \<open>The facade\<close>

definition COOLDOWN_MS :: int where
  "COOLDOWN_MS = 5 * 60 * 1000"

definition MAX_ATTEMPTS_PER_WINDOW :: nat where
  "MAX_ATTEMPTS_PER_WINDOW = 3"

definition ATTEMPT_WINDOW_MS :: int where
  "ATTEMPT_WINDOW_MS = 24 * 60 * 60 * 1000"

definition OFFER_TTL_MS :: int where
  "OFFER_TTL_MS = 15 * 60 * 1000"

record accept_payload =
  ap_offerId :: uuid
  ap_productId :: uuid
  ap_buyerId :: uuid

definition readRecentOffers :: "db \<Rightarrow> instant \<Rightarrow> uuid \<Rightarrow> uuid \<Rightarrow> offer_row list" where
  "readRecentOffers s now buyerId productId =
     sort_key (\<lambda>o'. - of_createdAt o')
       (filter (\<lambda>o'. of_buyerId o' = buyerId \<and> of_productId o' = productId \<and>
          of_createdAt o' > now - ATTEMPT_WINDOW_MS) (offers s))"

definition assertWithinRateLimit :: "offer_row list \<Rightarrow> instant \<Rightarrow> error option" where
  "assertWithinRateLimit recentOffers now =
     (case recentOffers of
        o' # _ \<Rightarrow>
          let sinceLastOffer = now - of_createdAt o' in
          if sinceLastOffer < COOLDOWN_MS
          then Some (BadRequest (OfferCooldown ((COOLDOWN_MS - sinceLastOffer + 999) div 1000)))
          else if length recentOffers \<ge> MAX_ATTEMPTS_PER_WINDOW then Some (BadRequest OfferCapReached)
          else None
      | [] \<Rightarrow> None)"

definition findOutstandingCounter :: "offer_row list \<Rightarrow> money option" where
  "findOutstandingCounter recentOffers =
     Option.bind (find (\<lambda>o'. of_decision o' = COUNTERED \<and> of_counterAmount o' \<noteq> None) recentOffers)
       of_counterAmount"

record 'tok negotiation =
  ng_id :: uuid
  ng_decision :: offer_decision
  ng_counterAmount :: "money option"
  ng_expiresAt :: "instant option"
  ng_acceptToken :: "'tok option"

definition negotiate ::
  "(instant \<Rightarrow> accept_payload \<Rightarrow> 'tok) \<Rightarrow> db \<Rightarrow> instant \<Rightarrow> uuid \<Rightarrow> uuid \<Rightarrow> uuid \<Rightarrow> int \<Rightarrow> money
     \<Rightarrow> error + (db \<times> 'tok negotiation)" where
  "negotiate sign s now newId productId buyerId quantity offerAmount =
     (case find_product s productId of
        None \<Rightarrow> Inl (NotFound Product)
      | Some product \<Rightarrow>
          if pr_status product \<noteq> P_ACTIVE then Inl (NotFound Product)
          else if pr_sellerId product = buyerId then Inl (Forbidden OwnListingOffer)
          else case pr_negotiationFloor product of
            None \<Rightarrow> Inl (BadRequest NoOffersAccepted)
          | Some floor_amount \<Rightarrow>
              let recentOffers = readRecentOffers s now buyerId productId;
                  outstandingCounter = findOutstandingCounter recentOffers;
                  isMeetingCounter = (case outstandingCounter of None \<Rightarrow> False
                    | Some c \<Rightarrow> to_number offerAmount \<ge> to_number c)
              in case (if isMeetingCounter then None else assertWithinRateLimit recentOffers now) of
                   Some e \<Rightarrow> Inl e
                 | None \<Rightarrow>
                    (case decide offerAmount floor_amount (pr_price product) quantity
                            (pr_stockQty product) outstandingCounter of
                       (decision, counterAmount) \<Rightarrow>
                         let expiresAt = (if decision = ACCEPTED then Some (now + OFFER_TTL_MS) else None);
                             s1 = s\<lparr>offers := offers s @ [\<lparr>of_id = newId, of_buyerId = buyerId,
                                      of_productId = productId, of_quantity = quantity,
                                      of_offerAmount = offerAmount, of_decision = decision,
                                      of_counterAmount = counterAmount, of_expiresAt = expiresAt,
                                      of_createdAt = now\<rparr>],
                                    aiRequests := aiRequests s @
                                      [\<lparr>ai_userId = buyerId, ai_type = NEGOTIATION\<rparr>]\<rparr>
                         in Inr (s1, \<lparr>ng_id = newId, ng_decision = decision,
                               ng_counterAmount = counterAmount, ng_expiresAt = expiresAt,
                               ng_acceptToken = (if decision = ACCEPTED
                                 then Some (sign now \<lparr>ap_offerId = newId, ap_productId = productId,
                                              ap_buyerId = buyerId\<rparr>) else None)\<rparr>)))"

record 'tok payable_offer =
  po_offerId :: uuid
  po_quantity :: int
  po_unitPrice :: money
  po_total :: money
  po_expiresAt :: "instant option"
  po_inStock :: bool
  po_productId :: uuid
  po_title :: utext
  po_imageUrl :: "utext option"
  po_acceptToken :: 'tok

definition is_payable :: "instant \<Rightarrow> uuid \<Rightarrow> offer_row \<times> product_row \<Rightarrow> bool" where
  "is_payable now buyerId op = (case op of (o', p) \<Rightarrow>
     of_buyerId o' = buyerId \<and> of_decision o' = ACCEPTED \<and>
     (case of_expiresAt o' of None \<Rightarrow> False | Some t \<Rightarrow> t > now) \<and> pr_status p = P_ACTIVE)"

definition listPayableOffers ::
  "(instant \<Rightarrow> accept_payload \<Rightarrow> 'tok) \<Rightarrow> db \<Rightarrow> instant \<Rightarrow> uuid \<Rightarrow> 'tok payable_offer list" where
  "listPayableOffers sign s now buyerId =
     map (\<lambda>(o', p). \<lparr>po_offerId = of_id o', po_quantity = of_quantity o',
            po_unitPrice = of_offerAmount o',
            po_total = dec_mul (of_offerAmount o') (of_quantity o'), po_expiresAt = of_expiresAt o',
            po_inStock = (pr_stockQty p \<ge> of_quantity o'), po_productId = pr_id p,
            po_title = pr_title p, po_imageUrl = primary_image_url s (pr_id p),
            po_acceptToken = sign now \<lparr>ap_offerId = of_id o', ap_productId = pr_id p,
              ap_buyerId = buyerId\<rparr>\<rparr>)
       (sort_key (\<lambda>(o', p). case of_expiresAt o' of None \<Rightarrow> 0 | Some t \<Rightarrow> t)
         (filter (is_payable now buyerId)
           (List.map_filter (\<lambda>o'. map_option (Pair o') (find_product s (of_productId o'))) (offers s))))"

definition redeemable :: "instant \<Rightarrow> uuid \<Rightarrow> offer_row \<Rightarrow> bool" where
  "redeemable now oid o' \<longleftrightarrow> of_id o' = oid \<and> of_decision o' = ACCEPTED \<and>
     (case of_expiresAt o' of None \<Rightarrow> False | Some t \<Rightarrow> t > now)"

definition verifyAndConsumeAcceptToken ::
  "(instant \<Rightarrow> 'tok \<Rightarrow> accept_payload option) \<Rightarrow> db \<Rightarrow> instant \<Rightarrow> 'tok \<Rightarrow> error + (db \<times> accept_payload)" where
  "verifyAndConsumeAcceptToken verify s now token =
     (case verify now token of
        None \<Rightarrow> Inl (BadRequest OfferTokenInvalid)
      | Some payload \<Rightarrow>
          let (count, t) = update_many (redeemable now (ap_offerId payload))
                (\<lambda>o'. o'\<lparr>of_expiresAt := Some 0\<rparr>) (offers s)
          in if count \<noteq> 1 then Inl (BadRequest OfferUsedOrExpired)
             else Inr (s\<lparr>offers := t\<rparr>, payload))"

section \<open>What the rule guarantees\<close>

text \<open>PROD-006, the negotiator never goes below the seller's secret floor. For amounts up to a
  hundred billion baht, a price it accepts is at least the floor and is either the asking price
  or more, or at least the counter it had proposed itself; a counter it proposes is between the
  buyer's offer and the asking price (so also above the floor), within half a satang of their
  mean; and it accepts or counters nothing that is not in stock.\<close>

theorem negotiator_respects_the_floor:
  assumes "0 < offer" "offer \<le> 10 ^ 13" "0 < flr" "flr \<le> 10 ^ 13" "0 < price" "price \<le> 10 ^ 13"
    and "\<forall>c. outstanding = Some c \<longrightarrow> 0 < c \<and> c \<le> 10 ^ 13"
  shows "case decide offer flr price quantity stock outstanding of
      (ACCEPTED, counter) \<Rightarrow> counter = None \<and> flr \<le> offer \<and> quantity \<le> stock \<and>
         (price \<le> offer \<or> (\<exists>c. outstanding = Some c \<and> c \<le> offer))
    | (COUNTERED, counter) \<Rightarrow> (\<exists>c. counter = Some c \<and> flr \<le> offer \<and> offer \<le> c \<and> c \<le> price \<and>
         \<bar>2 * c - (offer + price)\<bar> \<le> 1) \<and> quantity \<le> stock
    | (REJECTED, counter) \<Rightarrow> counter = None \<and> (offer < flr \<or> stock < quantity)"
proof -
  have le: "to_number x \<le> to_number y \<longleftrightarrow> x \<le> y" if "0 < x" "x \<le> 10 ^ 13" "0 < y" "y \<le> 10 ^ 13" for x y
    using that by (intro to_number_le_iff) auto
  have cmp: "to_number flr \<le> to_number offer \<longleftrightarrow> flr \<le> offer" "to_number price \<le> to_number offer \<longleftrightarrow> price \<le> offer"
      "\<And>c. outstanding = Some c \<Longrightarrow> to_number c \<le> to_number offer \<longleftrightarrow> c \<le> offer"
    using assms by (simp_all add: le)
  define c where "c = round_half_sum (to_number offer) (to_number price)"
  have "(offer + price) div 2 \<le> c" "c \<le> (offer + price + 1) div 2"
    unfolding c_def using round_half_sum_near assms by auto
  then have c: "\<bar>2 * c - (offer + price)\<bar> \<le> 1" "offer < price \<Longrightarrow> offer \<le> c \<and> c \<le> price"
    by linarith+
  show ?thesis
    unfolding decide_def Let_def c_def [symmetric] not_le [symmetric] cmp(1,2)
    using c cmp(3) by (auto simp: not_le split: option.splits)
qed

lemma decide_accepts_counter:
  assumes "quantity \<le> stock" "0 < flr" "flr \<le> c" "c \<le> 10 ^ 13"
  shows "decide c flr price quantity stock (Some c) = (ACCEPTED, None)"
proof -
  have "to_number flr \<le> to_number c" using assms by (subst to_number_le_iff) auto
  then show ?thesis using assms(1) by (simp add: decide_def Let_def)
qed

theorem negotiator_respects_the_floor_witness:
  "8000 \<le> (9000 :: int) \<and> decide 9000 8000 10000 1 5 (Some 9000) = (ACCEPTED, None)"
proof -
  have d: "decide 9000 8000 10000 1 5 (Some 9000) = (ACCEPTED, None)"
    by (rule decide_accepts_counter) simp_all
  show ?thesis
    using negotiator_respects_the_floor [of 9000 8000 10000 "Some 9000" 1 5] d by simp
qed

end
