(* ===== verification/Checkout.thy ===== *)
theory Checkout
  imports Negotiator Auction_Service
begin

text \<open>
  \<open>CheckoutService\<close> of \<open>apps/api/src/order/checkout.service.ts\<close>, with \<open>order/utils/checkout-issue.util.ts\<close>
  and the simulated payment of \<open>payment/payment.service.ts\<close>. A checkout is three commits: pricing (which
  spends an accept token), the payment row, and the order transaction. \<open>between\<close> is whatever other
  transactions do to the state between the second and the third; alone it is \<open>id\<close>. Amounts
  beyond the column's \<open>Decimal(18, 2)\<close> would be refused by the database and are not modelled.
\<close>

section \<open>Requests and lines\<close>

record 'tok checkout_dto =
  co_paymentMethod :: payment_method
  co_shippingAddress :: address
  co_cartItemIds :: "uuid list option"
  co_auctionId :: "uuid option"
  co_offerAcceptToken :: "'tok option"

record priced_line =
  pl_cartItemId :: "uuid option"
  pl_productId :: "uuid option"
  pl_auctionId :: "uuid option"
  pl_title :: utext
  pl_sellerId :: uuid
  pl_quantity :: int
  pl_unitPrice :: money
  pl_subtotal :: money

definition line_issue :: "uuid \<Rightarrow> cart_item_row \<times> product_row \<Rightarrow> checkout_issue option" where
  "line_issue buyerId line = (case line of (item, product) \<Rightarrow>
     let issue = (\<lambda>code available. \<lparr>ck_code = code, ck_productId = Some (pr_id product),
           ck_title = pr_title product, ck_available = available,
           ck_requested = Some (ci_quantity item), ck_count = 0\<rparr>)
     in if pr_status product \<noteq> P_ACTIVE then Some (issue PRODUCT_UNAVAILABLE None)
        else if pr_sellerId product = buyerId then Some (issue OWN_LISTING None)
        else if ci_quantity item > pr_stockQty product
             then Some (issue INSUFFICIENT_STOCK (Some (pr_stockQty product)))
        else None)"

definition collectCheckoutIssues :: "uuid \<Rightarrow> (cart_item_row \<times> product_row) list \<Rightarrow> checkout_issue list" where
  "collectCheckoutIssues buyerId ls = List.map_filter (line_issue buyerId) ls"

definition missingCartLineIssue :: "nat \<Rightarrow> checkout_issue" where
  "missingCartLineIssue count = \<lparr>ck_code = NOT_IN_CART, ck_productId = None, ck_title = [],
     ck_available = None, ck_requested = None, ck_count = count\<rparr>"

definition stockLostIssue :: "uuid \<Rightarrow> utext \<Rightarrow> int \<Rightarrow> checkout_issue" where
  "stockLostIssue productId title requested = \<lparr>ck_code = INSUFFICIENT_STOCK,
     ck_productId = Some productId, ck_title = title, ck_available = None,
     ck_requested = Some requested, ck_count = 0\<rparr>"

section \<open>Pricing\<close>

definition cart_line_of :: "cart_item_row \<times> product_row \<Rightarrow> priced_line" where
  "cart_line_of line = (case line of (item, product) \<Rightarrow>
     let l = calculateLineTotal (pr_price product) (ci_quantity item)
               (pr_quantityDiscountMinQty product) (pr_quantityDiscountPercent product)
     in \<lparr>pl_cartItemId = Some (ci_id item), pl_productId = Some (pr_id product), pl_auctionId = None,
         pl_title = pr_title product, pl_sellerId = pr_sellerId product,
         pl_quantity = ci_quantity item, pl_unitPrice = lt_effectiveUnitPrice l,
         pl_subtotal = lt_subtotal l\<rparr>)"

definition in_cart_of :: "db \<Rightarrow> uuid \<Rightarrow> cart_item_row \<Rightarrow> bool" where
  "in_cart_of s userId i \<longleftrightarrow> list_ex (\<lambda>c. ct_id c = ci_cartId i \<and> ct_userId c = userId) (carts s)"

definition priceCart :: "db \<Rightarrow> uuid \<Rightarrow> uuid list option \<Rightarrow> error + priced_line list" where
  "priceCart s buyerId cartItemIds =
     (let selected = map_option set_of cartItemIds;
          ids = or_default selected [];
          items = sort_key ci_id (filter (\<lambda>i. in_cart_of s buyerId i \<and>
                    (selected \<noteq> None \<longrightarrow> ci_id i \<in> set ids)) (cartItems s));
          ls = List.map_filter (with_product s) items
      in if length items = 0 then Inl (BadRequest CartEmpty)
         else if selected \<noteq> None \<and> length items \<noteq> length ids
         then Inl (BadRequest (ItemsUnavailable [missingCartLineIssue
                (length (filter (\<lambda>i. i \<notin> ci_id ` set items) ids))]))
         else let issues = collectCheckoutIssues buyerId ls in
              if length issues > 0 then Inl (BadRequest (ItemsUnavailable issues))
              else Inr (map cart_line_of ls))"

definition priceAuction :: "db \<Rightarrow> uuid \<Rightarrow> uuid \<Rightarrow> error + priced_line list" where
  "priceAuction s buyerId auctionId =
     (case find (\<lambda>a. au_id a = auctionId \<and> au_deletedAt a = None) (auctions s) of
        None \<Rightarrow> Inl (BadRequest AuctionUnpayable)
      | Some auction \<Rightarrow>
          if au_winnerUserId auction \<noteq> Some buyerId then Inl (BadRequest AuctionUnpayable)
          else case au_soldPrice auction of
            None \<Rightarrow> Inl (BadRequest AuctionUnpayable)
          | Some soldPrice \<Rightarrow>
              if au_status auction \<noteq> SOLD then Inl (BadRequest AuctionUnpayable)
              else if has_order_item s auctionId then Inl (Conflict AuctionAlreadyPaid)
              else Inr [\<lparr>pl_cartItemId = None, pl_productId = None, pl_auctionId = Some (au_id auction),
                         pl_title = au_title auction, pl_sellerId = au_sellerId auction,
                         pl_quantity = 1, pl_unitPrice = soldPrice, pl_subtotal = soldPrice\<rparr>])"

definition priceOffer ::
  "(instant \<Rightarrow> 'tok \<Rightarrow> accept_payload option) \<Rightarrow> db \<Rightarrow> instant \<Rightarrow> uuid \<Rightarrow> 'tok
     \<Rightarrow> db \<times> (error + priced_line list)" where
  "priceOffer verify s now buyerId token =
     (case verifyAndConsumeAcceptToken verify s now token of
        Inl _ \<Rightarrow> (s, Inl (BadRequest OfferUnusable))
      | Inr (s1, payload) \<Rightarrow>
          if ap_buyerId payload \<noteq> buyerId then (s1, Inl (BadRequest OfferUnusable))
          else
            case find (\<lambda>o'. of_id o' = ap_offerId payload) (offers s1) of
              None \<Rightarrow> (s1, Inl (BadRequest OfferUnusable))
            | Some offer \<Rightarrow>
               (case find_product s1 (of_productId offer) of
                  None \<Rightarrow> (s1, Inl (BadRequest OfferUnusable))
                | Some product \<Rightarrow>
                    if pr_status product \<noteq> P_ACTIVE then (s1, Inl (BadRequest OfferUnusable))
                    else if pr_stockQty product < of_quantity offer
                    then (s1, Inl (BadRequest OfferUnusable))
                    else (s1, Inr [\<lparr>pl_cartItemId = None, pl_productId = Some (pr_id product),
                            pl_auctionId = None, pl_title = pr_title product,
                            pl_sellerId = pr_sellerId product, pl_quantity = of_quantity offer,
                            pl_unitPrice = of_offerAmount offer,
                            pl_subtotal = dec_mul (of_offerAmount offer) (of_quantity offer)\<rparr>])))"

section \<open>Payment\<close>

definition DECLINE_AMOUNT :: money where
  "DECLINE_AMOUNT = 66600"

definition charge :: "money \<Rightarrow> payment_status" where
  "charge amount = (if amount = DECLINE_AMOUNT then PAY_FAILED else PAY_SUCCEEDED)"

section \<open>The order transaction\<close>

definition group_add :: "(uuid \<times> priced_line list) list \<Rightarrow> priced_line \<Rightarrow> (uuid \<times> priced_line list) list" where
  "group_add groups l =
     (if list_ex (\<lambda>g. fst g = pl_sellerId l) groups
      then map (\<lambda>(seller, ls). (seller, if seller = pl_sellerId l then ls @ [l] else ls)) groups
      else groups @ [(pl_sellerId l, [l])])"

definition groupBySeller :: "priced_line list \<Rightarrow> (uuid \<times> priced_line list) list" where
  "groupBySeller ls = foldl group_add [] ls"

record placed_order =
  po_id :: uuid
  po_seller :: uuid
  po_subtotal :: money
  po_product :: "uuid option"

text \<open>The nested \<open>items.create\<close>; \<open>order_items.auction_id\<close> is unique.\<close>

primrec create_items :: "(string list \<Rightarrow> unique_target) \<Rightarrow> uuid \<Rightarrow> priced_line list \<Rightarrow> db \<Rightarrow> error + db" where
  "create_items report orderId [] s = Inr s"
| "create_items report orderId (l # ls) s =
     (if (case pl_auctionId l of None \<Rightarrow> False | Some aid \<Rightarrow> has_order_item s aid)
      then Inl (KnownRequestError ''P2002'' (report [''auction_id'']))
      else create_items report orderId ls (s\<lparr>orderItems := orderItems s @
             [\<lparr>oi_orderId = orderId, oi_productId = pl_productId l, oi_auctionId = pl_auctionId l,
               oi_quantity = pl_quantity l, oi_unitPrice = pl_unitPrice l\<rparr>]\<rparr>))"

record order_context =
  oc_session :: uuid
  oc_buyer :: uuid
  oc_payment :: uuid
  oc_address :: address
  oc_now :: instant
  oc_orderId :: "nat \<Rightarrow> uuid"
  oc_shipmentId :: "nat \<Rightarrow> uuid"

definition order_rows :: "order_context \<Rightarrow> nat \<Rightarrow> uuid \<Rightarrow> priced_line list \<Rightarrow> db \<Rightarrow> db" where
  "order_rows c k sellerId ls s =
     s\<lparr>orders := orders s @ [\<lparr>or_id = oc_orderId c k, or_checkoutSessionId = oc_session c,
          or_sellerId = sellerId, or_buyerId = oc_buyer c, or_paymentTransactionId = oc_payment c,
          or_subtotal = dec_sum (map pl_subtotal ls), or_status = O_PAID, or_address = oc_address c,
          or_createdAt = oc_now c\<rparr>],
       shipments := shipments s @ [\<lparr>sh_id = oc_shipmentId c k, sh_orderId = oc_orderId c k,
          sh_trackingNumber = None, sh_carrier = None, sh_status = PROCESSING\<rparr>],
       shipmentEvents := shipmentEvents s @ [\<lparr>se_shipmentId = oc_shipmentId c k,
          se_actorUserId = None, se_eventType = PROCESSING, se_createdAt = oc_now c\<rparr>]\<rparr>"

primrec order_loop ::
  "(string list \<Rightarrow> unique_target) \<Rightarrow> order_context \<Rightarrow> nat \<Rightarrow> (uuid \<times> priced_line list) list \<Rightarrow> db
     \<Rightarrow> error + (db \<times> placed_order list)" where
  "order_loop report c k [] s = Inr (s, [])"
| "order_loop report c k (g # gs) s =
     (case create_items report (oc_orderId c k) (snd g) (order_rows c k (fst g) (snd g) s) of
        Inl e \<Rightarrow> Inl e
      | Inr s1 \<Rightarrow>
         (case order_loop report c (Suc k) gs s1 of
            Inl e \<Rightarrow> Inl e
          | Inr (s2, os) \<Rightarrow> Inr (s2,
              \<lparr>po_id = oc_orderId c k, po_seller = fst g, po_subtotal = dec_sum (map pl_subtotal (snd g)),
               po_product = pl_productId (hd (snd g))\<rparr> # os)))"

definition can_take :: "uuid \<Rightarrow> int \<Rightarrow> product_row \<Rightarrow> bool" where
  "can_take pid qty p \<longleftrightarrow> pr_id p = pid \<and> pr_status p = P_ACTIVE \<and> pr_stockQty p \<ge> qty"

definition take_stock :: "instant \<Rightarrow> int \<Rightarrow> product_row \<Rightarrow> product_row" where
  "take_stock now qty p = p\<lparr>pr_stockQty := pr_stockQty p - qty, pr_updatedAt := now\<rparr>"

primrec decrement_loop :: "instant \<Rightarrow> uuid \<Rightarrow> (uuid \<times> priced_line) list \<Rightarrow> product_row list \<Rightarrow> error + product_row list" where
  "decrement_loop now session [] t = Inr t"
| "decrement_loop now session (pl # ls) t =
     (let (count, t1) = update_many (can_take (fst pl) (pl_quantity (snd pl)))
            (take_stock now (pl_quantity (snd pl))) t
      in if count \<noteq> 1
         then Inl (Conflict (StockLostAfterCharge session
                [stockLostIssue (fst pl) (pl_title (snd pl)) (pl_quantity (snd pl))]))
         else decrement_loop now session ls t1)"

definition product_lines :: "priced_line list \<Rightarrow> (uuid \<times> priced_line) list" where
  "product_lines ls = List.map_filter (\<lambda>l. map_option (\<lambda>pid. (pid, l)) (pl_productId l)) ls"

definition sold_out_row :: "uuid list \<Rightarrow> product_row \<Rightarrow> bool" where
  "sold_out_row ids p \<longleftrightarrow> pr_id p \<in> set ids \<and> pr_stockQty p = 0 \<and> pr_status p = P_ACTIVE"

definition decrementStock :: "instant \<Rightarrow> uuid \<Rightarrow> priced_line list \<Rightarrow> db \<Rightarrow> error + db" where
  "decrementStock now session allLines s =
     (let ls = product_lines allLines in
      if length ls = 0 then Inr s
      else case decrement_loop now session ls (products s) of
             Inl e \<Rightarrow> Inl e
           | Inr t \<Rightarrow> Inr (s\<lparr>products := map_rows (sold_out_row (map fst ls))
                        (\<lambda>p. p\<lparr>pr_status := P_OUT_OF_STOCK, pr_updatedAt := now\<rparr>) t\<rparr>))"

definition createOrderPlacedNotifications :: "uuid \<Rightarrow> placed_order list \<Rightarrow> notification_row list" where
  "createOrderPlacedNotifications buyerId os =
     map (\<lambda>x. \<lparr>no_userId = buyerId, no_auctionId = None, no_bidId = None, no_orderId = Some (po_id x), no_conversationId = None,
            no_type = ORDER_PLACED, no_body = OrderPlacedBody (po_id x) (po_subtotal x)\<rparr>) os @
     map (\<lambda>x. \<lparr>no_userId = po_seller x, no_auctionId = None, no_bidId = None, no_orderId = Some (po_id x), no_conversationId = None,
            no_type = ORDER_PLACED, no_body = OrderReceivedBody (po_id x) (po_subtotal x)\<rparr>) os"

definition writeOrders ::
  "(string list \<Rightarrow> unique_target) \<Rightarrow> order_context \<Rightarrow> priced_line list \<Rightarrow> db
     \<Rightarrow> error + (db \<times> placed_order list \<times> notification_row list)" where
  "writeOrders report c ls s =
     (case order_loop report c 0 (groupBySeller ls) s of
        Inl e \<Rightarrow> Inl e
      | Inr (s1, os) \<Rightarrow>
         (case decrementStock (oc_now c) (oc_session c) ls s1 of
            Inl e \<Rightarrow> Inl e
          | Inr s2 \<Rightarrow>
              let cartItemIds = List.map_filter pl_cartItemId ls;
                  s3 = s2\<lparr>cartItems := delete_many (\<lambda>i. ci_id i \<in> set cartItemIds) (cartItems s2)\<rparr>;
                  ns = createOrderPlacedNotifications (oc_buyer c) os
              in Inr (s3\<lparr>notifications := notifications s3 @ ns\<rparr>, os, ns)))"

definition runOrderTransaction ::
  "(string list \<Rightarrow> unique_target) \<Rightarrow> order_context \<Rightarrow> priced_line list \<Rightarrow> db
     \<Rightarrow> error + (db \<times> placed_order list \<times> notification_row list)" where
  "runOrderTransaction report c ls s =
     (case writeOrders report c ls s of
        Inl (KnownRequestError code target) \<Rightarrow>
          if code = ''P2002'' then Inl (Conflict (AuctionPaidMeanwhile (oc_session c)))
          else Inl (KnownRequestError code target)
      | Inl e \<Rightarrow> Inl e
      | Inr r \<Rightarrow> Inr r)"

section \<open>Checkout\<close>

text \<open>What a checkout announces: notifications, then the sellers' auto-replies.\<close>

datatype shop_message =
  Notify uuid notification_row
| PurchaseAutoReply uuid uuid uuid
| OrderStatusChanged uuid uuid shipment_status "utext option"

record receipt =
  rc_checkoutSessionId :: uuid
  rc_total :: money
  rc_orders :: "placed_order list"

definition price_lines ::
  "(instant \<Rightarrow> 'tok \<Rightarrow> accept_payload option) \<Rightarrow> db \<Rightarrow> instant \<Rightarrow> uuid \<Rightarrow> 'tok checkout_dto
     \<Rightarrow> db \<times> (error + priced_line list)" where
  "price_lines verify s now buyerId dto =
     (case co_auctionId dto of
        Some aid \<Rightarrow> (s, priceAuction s buyerId aid)
      | None \<Rightarrow>
         (case co_offerAcceptToken dto of
            Some token \<Rightarrow> priceOffer verify s now buyerId token
          | None \<Rightarrow> (s, priceCart s buyerId (co_cartItemIds dto))))"

definition auto_replies :: "uuid \<Rightarrow> placed_order list \<Rightarrow> shop_message list" where
  "auto_replies buyerId os =
     List.map_filter (\<lambda>x. map_option (PurchaseAutoReply (po_seller x) buyerId) (po_product x)) os"

definition checkout ::
  "(string list \<Rightarrow> unique_target) \<Rightarrow> (instant \<Rightarrow> 'tok \<Rightarrow> accept_payload option) \<Rightarrow> (db \<Rightarrow> db) \<Rightarrow> db
     \<Rightarrow> instant \<Rightarrow> uuid \<Rightarrow> uuid \<Rightarrow> (nat \<Rightarrow> uuid) \<Rightarrow> (nat \<Rightarrow> uuid) \<Rightarrow> uuid \<Rightarrow> 'tok checkout_dto
     \<Rightarrow> db \<times> shop_message list \<times> (error + receipt)" where
  "checkout report verify between s now session paymentId orderId shipmentId buyerId dto =
     (if length (filter id [co_auctionId dto \<noteq> None, co_cartItemIds dto \<noteq> None,
                            co_offerAcceptToken dto \<noteq> None]) > 1
      then (s, [], Inl (BadRequest SeveralTargets))
      else
        case price_lines verify s now buyerId dto of
          (s1, Inl e) \<Rightarrow> (s1, [], Inl e)
        | (s1, Inr ls) \<Rightarrow>
            let grandTotal = dec_sum (map pl_subtotal ls);
                status = charge grandTotal;
                s2 = s1\<lparr>payments := payments s1 @ [\<lparr>pt_id = paymentId, pt_checkoutSessionId = session,
                        pt_status = status, pt_method = co_paymentMethod dto\<rparr>]\<rparr>
            in if status = PAY_FAILED then (s2, [], Inl (BadRequest (PaymentDeclined session)))
               else
                 let c = \<lparr>oc_session = session, oc_buyer = buyerId, oc_payment = paymentId,
                          oc_address = co_shippingAddress dto, oc_now = now,
                          oc_orderId = orderId, oc_shipmentId = shipmentId\<rparr>
                 in (case runOrderTransaction report c ls (between s2) of
                       Inl e \<Rightarrow> (between s2, [], Inl e)
                     | Inr (s3, os, ns) \<Rightarrow>
                         (s3, map (\<lambda>n. Notify (no_userId n) n) ns @ auto_replies buyerId os,
                          Inr \<lparr>rc_checkoutSessionId = session, rc_total = grandTotal, rc_orders = os\<rparr>)))"

end
