(* ===== verification/Order_Service.thy ===== *)
theory Order_Service
  imports Checkout
begin

text \<open>
  After the payment: \<open>OrderService\<close> of \<open>apps/api/src/order/order.service.ts\<close> (the order history of
  buyer and seller) and \<open>ShipmentService\<close> of \<open>apps/api/src/shipment/shipment.service.ts\<close> with its
  transition table. Advancing a parcel reads the order first (\<open>rd\<close>) and then runs one guarded
  transaction (\<open>wr\<close>). The text of the tracking number and carrier is drawn at random and is an
  argument.
\<close>

section \<open>Orders\<close>

datatype listing_kind = PRODUCT | AUCTION

record order_line_view =
  ol_quantity :: int
  ol_unitPrice :: money
  ol_lineTotal :: money
  ol_listing :: "(listing_kind \<times> uuid \<times> utext \<times> utext option) option"

record order_view =
  ov_id :: uuid
  ov_checkoutSessionId :: uuid
  ov_status :: order_status
  ov_subtotal :: money
  ov_createdAt :: instant
  ov_buyer :: "uuid \<times> utext option"
  ov_seller :: "uuid \<times> utext option"
  ov_shipment :: "(shipment_status \<times> utext option \<times> utext option) option"
  ov_shippingAddress :: address
  ov_items :: "order_line_view list"

definition auction_image_url :: "db \<Rightarrow> uuid \<Rightarrow> utext option" where
  "auction_image_url s aid =
     map_option im_url (find (\<lambda>i. im_ownerId i = aid \<and> im_isPrimary i) (auctionImages s))"

definition toListingView ::
  "db \<Rightarrow> order_item_row \<Rightarrow> (listing_kind \<times> uuid \<times> utext \<times> utext option) option" where
  "toListingView s i =
     (case Option.bind (oi_productId i) (find_product s) of
        Some p \<Rightarrow> Some (PRODUCT, pr_id p, pr_title p, primary_image_url s (pr_id p))
      | None \<Rightarrow>
         (case Option.bind (oi_auctionId i) (find_auction s) of
            Some a \<Rightarrow> Some (AUCTION, au_id a, au_title a, auction_image_url s (au_id a))
          | None \<Rightarrow> None))"

definition shipment_of :: "db \<Rightarrow> uuid \<Rightarrow> shipment_row option" where
  "shipment_of s orderId = find (\<lambda>h. sh_orderId h = orderId) (shipments s)"

definition toOrderView :: "db \<Rightarrow> order_row \<Rightarrow> order_view" where
  "toOrderView s x =
     \<lparr>ov_id = or_id x, ov_checkoutSessionId = or_checkoutSessionId x, ov_status = or_status x,
      ov_subtotal = or_subtotal x, ov_createdAt = or_createdAt x,
      ov_buyer = (or_buyerId x, display_name s (or_buyerId x)),
      ov_seller = (or_sellerId x, display_name s (or_sellerId x)),
      ov_shipment = map_option (\<lambda>h. (sh_status h, sh_trackingNumber h, sh_carrier h)) (shipment_of s (or_id x)),
      ov_shippingAddress = or_address x,
      ov_items = map (\<lambda>i. \<lparr>ol_quantity = oi_quantity i, ol_unitPrice = oi_unitPrice i,
                          ol_lineTotal = dec_mul (oi_unitPrice i) (oi_quantity i),
                          ol_listing = toListingView s i\<rparr>)
                   (filter (\<lambda>i. oi_orderId i = or_id x) (orderItems s))\<rparr>"

record order_filters =
  fi_status :: "order_status option"
  fi_shipmentStatus :: "shipment_status list"
  fi_page :: "nat option"
  fi_limit :: "nat option"

definition narrow :: "db \<Rightarrow> order_filters \<Rightarrow> order_row \<Rightarrow> bool" where
  "narrow s filters x \<longleftrightarrow>
     (case fi_status filters of None \<Rightarrow> True | Some t \<Rightarrow> or_status x = t) \<and>
     (fi_shipmentStatus filters \<noteq> [] \<longrightarrow>
        (case shipment_of s (or_id x) of None \<Rightarrow> False
         | Some h \<Rightarrow> sh_status h \<in> set (fi_shipmentStatus filters)))"

definition list_orders ::
  "db \<Rightarrow> (order_row \<Rightarrow> bool) \<Rightarrow> nat \<Rightarrow> nat \<Rightarrow> order_view list \<times> meta" where
  "list_orders s P page limit =
     (let rows = filter P (orders s)
      in (map (toOrderView s) (page_of page limit (sort_key (\<lambda>x. (- or_createdAt x, or_id x)) rows)),
          meta_of page limit (length rows)))"

definition listForBuyer :: "db \<Rightarrow> uuid \<Rightarrow> order_filters \<Rightarrow> order_view list \<times> meta" where
  "listForBuyer s buyerId filters =
     list_orders s (\<lambda>x. or_buyerId x = buyerId \<and> narrow s filters x)
       (or_default (fi_page filters) 1) (or_default (fi_limit filters) 20)"

definition listForSeller :: "db \<Rightarrow> uuid \<Rightarrow> order_filters \<Rightarrow> order_view list \<times> meta" where
  "listForSeller s sellerId filters =
     list_orders s (\<lambda>x. or_sellerId x = sellerId \<and> narrow s filters x)
       (or_default (fi_page filters) 1) (or_default (fi_limit filters) 20)"

definition find_order :: "db \<Rightarrow> uuid \<Rightarrow> order_row option" where
  "find_order s orderId = find (\<lambda>x. or_id x = orderId) (orders s)"

definition findOneOrder :: "db \<Rightarrow> uuid \<Rightarrow> uuid \<Rightarrow> error + order_view" where
  "findOneOrder s orderId userId =
     (case find_order s orderId of
        None \<Rightarrow> Inl (NotFound Order)
      | Some x \<Rightarrow>
          if or_buyerId x \<noteq> userId \<and> or_sellerId x \<noteq> userId then Inl (NotFound Order)
          else Inr (toOrderView s x))"

section \<open>Shipments\<close>

fun SHIPMENT_TRANSITIONS :: "shipment_status \<Rightarrow> shipment_status list" where
  "SHIPMENT_TRANSITIONS PROCESSING = [SHIPPED, S_CANCELLED]"
| "SHIPMENT_TRANSITIONS SHIPPED = [IN_TRANSIT]"
| "SHIPMENT_TRANSITIONS IN_TRANSIT = [DELIVERED]"
| "SHIPMENT_TRANSITIONS DELIVERED = []"
| "SHIPMENT_TRANSITIONS S_CANCELLED = []"

definition nextStatuses :: "shipment_status \<Rightarrow> shipment_status list" where
  "nextStatuses from_status = SHIPMENT_TRANSITIONS from_status"

definition canTransition :: "shipment_status \<Rightarrow> shipment_status \<Rightarrow> bool" where
  "canTransition from_status to_status \<longleftrightarrow> to_status \<in> set (SHIPMENT_TRANSITIONS from_status)"

definition loadOrderParties :: "db \<Rightarrow> uuid \<Rightarrow> uuid \<Rightarrow> error + (order_row \<times> shipment_row)" where
  "loadOrderParties s orderId userId =
     (case find_order s orderId of
        None \<Rightarrow> Inl (NotFound Order)
      | Some x \<Rightarrow>
          if or_buyerId x \<noteq> userId \<and> or_sellerId x \<noteq> userId then Inl (NotFound Order)
          else case shipment_of s orderId of
                 None \<Rightarrow> Inl (NotFound Shipment)
               | Some h \<Rightarrow> Inr (x, h))"

record timeline =
  tl_status :: shipment_status
  tl_trackingNumber :: "utext option"
  tl_carrier :: "utext option"
  tl_events :: "(shipment_status \<times> instant) list"
  tl_nextStatuses :: "shipment_status list"

text \<open>Events are read back in the order of their serial ids, which is the order they were written in.\<close>

definition getTimeline :: "db \<Rightarrow> uuid \<Rightarrow> uuid \<Rightarrow> error + timeline" where
  "getTimeline s orderId userId =
     (case loadOrderParties s orderId userId of
        Inl e \<Rightarrow> Inl e
      | Inr (x, h) \<Rightarrow>
          Inr \<lparr>tl_status = sh_status h, tl_trackingNumber = sh_trackingNumber h, tl_carrier = sh_carrier h,
               tl_events = map (\<lambda>v. (se_eventType v, se_createdAt v))
                 (filter (\<lambda>v. se_shipmentId v = sh_id h) (shipmentEvents s)),
               tl_nextStatuses = nextStatuses (sh_status h)\<rparr>)"

definition order_product_items :: "db \<Rightarrow> uuid \<Rightarrow> (uuid \<times> int) list" where
  "order_product_items s orderId =
     List.map_filter (\<lambda>i. if oi_orderId i = orderId
       then map_option (\<lambda>pid. (pid, oi_quantity i)) (oi_productId i) else None) (orderItems s)"

definition put_back :: "instant \<Rightarrow> int \<Rightarrow> product_row \<Rightarrow> product_row" where
  "put_back now qty p = p\<lparr>pr_stockQty := pr_stockQty p + qty, pr_updatedAt := now\<rparr>"

definition restock :: "instant \<Rightarrow> (uuid \<times> int) list \<Rightarrow> product_row list \<Rightarrow> product_row list" where
  "restock now items t = foldl (\<lambda>t i. map_rows (\<lambda>p. pr_id p = fst i) (put_back now (snd i)) t) t items"

definition back_on_sale :: "uuid list \<Rightarrow> product_row \<Rightarrow> bool" where
  "back_on_sale ids p \<longleftrightarrow> pr_id p \<in> set ids \<and> pr_status p = P_OUT_OF_STOCK \<and> pr_stockQty p > 0"

definition cancelOrder :: "db \<Rightarrow> instant \<Rightarrow> uuid \<Rightarrow> db" where
  "cancelOrder s now orderId =
     (let s1 = s\<lparr>orders := map_rows (\<lambda>x. or_id x = orderId) (\<lambda>x. x\<lparr>or_status := O_CANCELLED\<rparr>) (orders s)\<rparr>;
          items = order_product_items s1 orderId
      in if length items = 0 then s1
         else s1\<lparr>products := map_rows (back_on_sale (map fst items)) (\<lambda>p. p\<lparr>pr_status := P_ACTIVE, pr_updatedAt := now\<rparr>)
                    (restock now items (products s1))\<rparr>)"

definition buildNotifications :: "order_row \<Rightarrow> shipment_status \<Rightarrow> notification_row list" where
  "buildNotifications x nxt =
     [\<lparr>no_userId = or_buyerId x, no_auctionId = None, no_bidId = None, no_orderId = Some (or_id x), no_conversationId = None,
       no_type = SHIPMENT_UPDATE, no_body = ShipmentBody (or_id x) nxt\<rparr>] @
     (if nxt = DELIVERED
      then [\<lparr>no_userId = or_buyerId x, no_auctionId = None, no_bidId = None, no_orderId = Some (or_id x), no_conversationId = None,
             no_type = DELIVERED_NOTE, no_body = DeliveredBody (or_id x)\<rparr>]
      else [])"

definition at_status :: "uuid \<Rightarrow> shipment_status \<Rightarrow> shipment_row \<Rightarrow> bool" where
  "at_status shid status h \<longleftrightarrow> sh_id h = shid \<and> sh_status h = status"

definition advance :: "shipment_status \<Rightarrow> (utext \<times> utext) \<Rightarrow> shipment_row \<Rightarrow> shipment_row" where
  "advance nxt tracking h =
     (if nxt = SHIPPED
      then h\<lparr>sh_status := nxt, sh_trackingNumber := Some (fst tracking), sh_carrier := Some (snd tracking)\<rparr>
      else h\<lparr>sh_status := nxt\<rparr>)"

definition updateShipmentStatus ::
  "db \<Rightarrow> db \<Rightarrow> instant \<Rightarrow> (utext \<times> utext) \<Rightarrow> uuid \<Rightarrow> uuid \<Rightarrow> shipment_status
     \<Rightarrow> error + (db \<times> shop_message list \<times> shipment_row)" where
  "updateShipmentStatus rd wr now tracking orderId userId nxt =
     (case loadOrderParties rd orderId userId of
        Inl e \<Rightarrow> Inl e
      | Inr (x, h) \<Rightarrow>
          if or_sellerId x \<noteq> userId then Inl (Forbidden NotOrderSeller)
          else if \<not> canTransition (sh_status h) nxt
          then Inl (BadRequest (BadTransition (sh_status h) nxt))
          else
            let (count, t) = update_many (at_status (sh_id h) (sh_status h)) (advance nxt tracking) (shipments wr)
            in if count \<noteq> 1 then Inl (Conflict ChangedMeanwhile)
               else
                 let s1 = wr\<lparr>shipments := t\<rparr>
                 in (case find (\<lambda>g. sh_id g = sh_id h) (shipments s1) of
                       None \<Rightarrow> Inl RecordNotFound
                     | Some g \<Rightarrow>
                         let s2 = s1\<lparr>shipmentEvents := shipmentEvents s1 @
                               [\<lparr>se_shipmentId = sh_id h, se_actorUserId = Some userId,
                                 se_eventType = nxt, se_createdAt = now\<rparr>]\<rparr>;
                             s3 = (if nxt = S_CANCELLED then cancelOrder s2 now orderId else s2);
                             ns = buildNotifications x nxt
                         in Inr (s3\<lparr>notifications := notifications s3 @ ns\<rparr>,
                                 map (\<lambda>u. OrderStatusChanged u orderId nxt (sh_trackingNumber g))
                                   [or_buyerId x, or_sellerId x], g)))"

end
