(* ===== verification/Shop_House.thy ===== *)
theory Shop_House
  imports Product_Service Order_Service
begin

text \<open>
  The shop as one system: what a successful order transaction, cancellation and redemption did to
  the tables, the step relation \<open>shop_step\<close> of the shop's committed transactions and its invariant
  \<open>shop_inv\<close>, and the single-use interface that the accept tokens implement.
\<close>

section \<open>Writing orders\<close>

definition item_of :: "uuid \<Rightarrow> priced_line \<Rightarrow> order_item_row" where
  "item_of orderId l = \<lparr>oi_orderId = orderId, oi_productId = pl_productId l, oi_auctionId = pl_auctionId l,
     oi_quantity = pl_quantity l, oi_unitPrice = pl_unitPrice l\<rparr>"

definition lots_of :: "order_item_row list \<Rightarrow> uuid list" where
  "lots_of t = List.map_filter oi_auctionId t"

definition lots_once :: "db \<Rightarrow> bool" where
  "lots_once s \<longleftrightarrow> distinct (lots_of (orderItems s))"

lemma lots_of_append [simp]: "lots_of (t @ u) = lots_of t @ lots_of u"
  by (simp add: lots_of_def List.map_filter_def)

lemma has_order_item_iff: "has_order_item s aid \<longleftrightarrow> aid \<in> set (lots_of (orderItems s))"
  by (force simp: has_order_item_def lots_of_def List.map_filter_def list_ex_iff)

lemma create_items_Inr:
  "create_items report oid ls s = Inr s' \<Longrightarrow>
   s' = s\<lparr>orderItems := orderItems s @ map (item_of oid) ls\<rparr> \<and>
   (lots_once s \<longrightarrow> lots_once s')"
proof (induction ls arbitrary: s)
  case (Cons l ls)
  have free: "\<And>aid. pl_auctionId l = Some aid \<Longrightarrow> aid \<notin> set (lots_of (orderItems s))"
    using Cons.prems by (auto simp: has_order_item_iff split: if_splits)
  let ?s1 = "s\<lparr>orderItems := orderItems s @ [item_of oid l]\<rparr>"
  have "create_items report oid ls ?s1 = Inr s'"
    using Cons.prems by (simp add: item_of_def split: if_splits)
  note IH = Cons.IH [OF this]
  have "lots_once s \<Longrightarrow> lots_once ?s1"
    using free by (auto simp: lots_once_def lots_of_def List.map_filter_def item_of_def)
  moreover have "s' = s\<lparr>orderItems := orderItems s @ map (item_of oid) (l # ls)\<rparr>"
    using IH by simp
  ultimately show ?case using IH by blast
qed simp

definition order_row_of :: "order_context \<Rightarrow> nat \<times> uuid \<times> priced_line list \<Rightarrow> order_row" where
  "order_row_of c jg = (case jg of (j, g) \<Rightarrow>
     \<lparr>or_id = oc_orderId c j, or_checkoutSessionId = oc_session c, or_sellerId = fst g,
      or_buyerId = oc_buyer c, or_paymentTransactionId = oc_payment c,
      or_subtotal = dec_sum (map pl_subtotal (snd g)), or_status = O_PAID, or_address = oc_address c,
      or_createdAt = oc_now c\<rparr>)"

definition shipment_row_of :: "order_context \<Rightarrow> nat \<times> uuid \<times> priced_line list \<Rightarrow> shipment_row" where
  "shipment_row_of c jg = (case jg of (j, g) \<Rightarrow>
     \<lparr>sh_id = oc_shipmentId c j, sh_orderId = oc_orderId c j, sh_trackingNumber = None,
      sh_carrier = None, sh_status = PROCESSING\<rparr>)"

definition shipment_event_of :: "order_context \<Rightarrow> nat \<times> uuid \<times> priced_line list \<Rightarrow> shipment_event_row" where
  "shipment_event_of c jg = (case jg of (j, g) \<Rightarrow>
     \<lparr>se_shipmentId = oc_shipmentId c j, se_actorUserId = None, se_eventType = PROCESSING,
      se_createdAt = oc_now c\<rparr>)"

definition items_of_group :: "order_context \<Rightarrow> nat \<times> uuid \<times> priced_line list \<Rightarrow> order_item_row list" where
  "items_of_group c jg = (case jg of (j, g) \<Rightarrow> map (item_of (oc_orderId c j)) (snd g))"

definition placed_of :: "order_context \<Rightarrow> nat \<times> uuid \<times> priced_line list \<Rightarrow> placed_order" where
  "placed_of c jg = (case jg of (j, g) \<Rightarrow>
     \<lparr>po_id = oc_orderId c j, po_seller = fst g, po_subtotal = dec_sum (map pl_subtotal (snd g)),
      po_product = pl_productId (hd (snd g))\<rparr>)"

definition with_orders :: "order_context \<Rightarrow> nat \<Rightarrow> (uuid \<times> priced_line list) list \<Rightarrow> db \<Rightarrow> db" where
  "with_orders c k gs s =
     s\<lparr>orders := orders s @ map (order_row_of c) (enumerate k gs),
       shipments := shipments s @ map (shipment_row_of c) (enumerate k gs),
       shipmentEvents := shipmentEvents s @ map (shipment_event_of c) (enumerate k gs),
       orderItems := orderItems s @ concat (map (items_of_group c) (enumerate k gs))\<rparr>"

lemma order_loop_Inr:
  "order_loop report c k gs s = Inr (s', os) \<Longrightarrow>
   s' = with_orders c k gs s \<and> os = map (placed_of c) (enumerate k gs) \<and>
   (lots_once s \<longrightarrow> lots_once s')"
proof (induction gs arbitrary: k s os)
  case Nil
  then show ?case by (simp add: with_orders_def)
next
  case (Cons g gs)
  obtain s1 where s1: "create_items report (oc_orderId c k) (snd g) (order_rows c k (fst g) (snd g) s) = Inr s1"
    using Cons.prems by (auto split: sum.splits)
  then obtain os1 where rest: "order_loop report c (Suc k) gs s1 = Inr (s', os1)"
      and os: "os = placed_of c (k, g) # os1"
    using Cons.prems by (auto simp: placed_of_def split: sum.splits)
  note one = create_items_Inr [OF s1] and IH = Cons.IH [OF rest]
  have "s1 = with_orders c k [g] s"
    using one by (simp add: order_rows_def with_orders_def order_row_of_def shipment_row_of_def
        shipment_event_of_def items_of_group_def)
  then have "s' = with_orders c k (g # gs) s"
    using IH by (simp add: with_orders_def)
  moreover have "lots_once (order_rows c k (fst g) (snd g) s) = lots_once s"
    by (simp add: order_rows_def lots_once_def)
  then have "lots_once s \<longrightarrow> lots_once s'" using one IH by blast
  moreover have "os = map (placed_of c) (enumerate k (g # gs))" using IH os by simp
  ultimately show ?case by blast
qed

section \<open>Taking and putting back stock\<close>

definition wanted :: "(uuid \<times> priced_line) list \<Rightarrow> uuid \<Rightarrow> int" where
  "wanted ls pid = sum_list (map (\<lambda>l. pl_quantity (snd l)) (filter (\<lambda>l. fst l = pid) ls))"

lemma take_stock_simps [simp]:
  "pr_id (take_stock now q p) = pr_id p" "pr_status (take_stock now q p) = pr_status p"
  "pr_stockQty (take_stock now q p) = pr_stockQty p - q"
  "take_stock now q (take_stock now r p) = take_stock now (r + q) p"
  by (simp_all add: take_stock_def)

text \<open>A row after the guarded decrements of all its lines.\<close>

definition taken :: "instant \<Rightarrow> (uuid \<times> priced_line) list \<Rightarrow> product_row \<Rightarrow> product_row" where
  "taken now ls p = (if pr_id p \<in> fst ` set ls then take_stock now (wanted ls (pr_id p)) p else p)"

lemma taken_simps [simp]: "pr_id (taken now ls p) = pr_id p" "pr_status (taken now ls p) = pr_status p"
  by (simp_all add: taken_def)

lemma wanted_Cons: "wanted (l # ls) pid = (if pid = fst l then pl_quantity (snd l) else 0) + wanted ls pid"
  by (auto simp: wanted_def)

lemma wanted_zero: "pid \<notin> fst ` set ls \<Longrightarrow> wanted ls pid = 0"
proof -
  assume "pid \<notin> fst ` set ls"
  then have "filter (\<lambda>l. fst l = pid) ls = []" by (auto simp: filter_empty_conv)
  then show ?thesis by (simp add: wanted_def)
qed

lemma taken_stock [simp]: "pr_stockQty (taken now ls p) = pr_stockQty p - wanted ls (pr_id p)"
  by (simp add: taken_def wanted_zero)

lemma taken_Cons:
  "taken now ls (if pr_id p = fst l then take_stock now (pl_quantity (snd l)) p else p) = taken now (l # ls) p"
  by (auto simp: taken_def wanted_Cons wanted_zero)

lemma guarded_take:
  assumes "distinct (map pr_id t)" "count_rows (can_take pid qty) t = 1"
  shows "map_rows (can_take pid qty) (take_stock now qty) t
      = map (\<lambda>p. if pr_id p = pid then take_stock now qty p else p) t"
    and "p \<in> set t \<Longrightarrow> pr_id p = pid \<Longrightarrow> pr_status p = P_ACTIVE \<and> qty \<le> pr_stockQty p"
proof -
  obtain r where r: "r \<in> set t" "can_take pid qty r"
    using count_rows_one assms(2) by fastforce
  have same: "can_take pid qty p" if "p \<in> set t" "pr_id p = pid" for p
    using distinct_key_unique [OF assms(1) that(1) r(1)] that(2) r(2) by (simp add: can_take_def)
  then show "map_rows (can_take pid qty) (take_stock now qty) t
      = map (\<lambda>p. if pr_id p = pid then take_stock now qty p else p) t"
    by (auto simp: map_rows_def can_take_def)
  show "p \<in> set t \<Longrightarrow> pr_id p = pid \<Longrightarrow> pr_status p = P_ACTIVE \<and> qty \<le> pr_stockQty p"
    using same by (auto simp: can_take_def)
qed

lemma decrement_loop_Inr:
  "decrement_loop now session ls t = Inr t' \<Longrightarrow> distinct (map pr_id t) \<Longrightarrow> \<forall>l \<in> set ls. 0 < pl_quantity (snd l) \<Longrightarrow>
   t' = map (taken now ls) t \<and>
   (\<forall>p \<in> set t. pr_id p \<in> fst ` set ls \<longrightarrow> pr_status p = P_ACTIVE \<and> wanted ls (pr_id p) \<le> pr_stockQty p)"
proof (induction ls arbitrary: t)
  case Nil
  then show ?case by (simp add: taken_def)
next
  case (Cons l ls)
  let ?take = "\<lambda>p. if pr_id p = fst l then take_stock now (pl_quantity (snd l)) p else p"
  have one: "count_rows (can_take (fst l) (pl_quantity (snd l))) t = 1"
    using Cons.prems(1) by (auto simp: update_many_def split: if_splits)
  note g = guarded_take [OF Cons.prems(2) one]
  have rest: "decrement_loop now session ls (map ?take t) = Inr t'"
    using Cons.prems(1) one g(1) by (simp add: update_many_def)
  have ids: "pr_id (?take p) = pr_id p" for p by simp
  have "map pr_id (map ?take t) = map pr_id t" by (simp only: map_map comp_def ids)
  then have d: "distinct (map pr_id (map ?take t))" using Cons.prems(2) by (simp only:)
  have q: "\<forall>l \<in> set ls. 0 < pl_quantity (snd l)" using Cons.prems(3) by simp
  note IH = Cons.IH [OF rest d q]
  have "pr_status p = P_ACTIVE \<and> wanted (l # ls) (pr_id p) \<le> pr_stockQty p"
    if p: "p \<in> set t" "pr_id p \<in> fst ` set (l # ls)" for p
  proof (cases "pr_id p \<in> fst ` set ls")
    case True
    have "?take p \<in> set (map ?take t)" using p(1) by simp
    moreover have "pr_id (?take p) \<in> fst ` set ls" using True by (simp only: ids)
    ultimately have "pr_status (?take p) = P_ACTIVE \<and> wanted ls (pr_id (?take p)) \<le> pr_stockQty (?take p)"
      by (rule IH [THEN conjunct2, rule_format])
    then show ?thesis by (auto simp: wanted_Cons split: if_splits)
  next
    case False
    then show ?thesis using p g(2) [OF p(1)] wanted_zero [OF False] by (auto simp: wanted_Cons)
  qed
  moreover have "t' = map (taken now (l # ls)) t"
    using IH by (simp add: comp_def taken_Cons)
  ultimately show ?case by blast
qed

definition after_sale :: "instant \<Rightarrow> (uuid \<times> priced_line) list \<Rightarrow> product_row \<Rightarrow> product_row" where
  "after_sale now ls p =
     (let q = taken now ls p
      in if sold_out_row (map fst ls) q then q\<lparr>pr_status := P_OUT_OF_STOCK, pr_updatedAt := now\<rparr> else q)"

definition lines_ok :: "priced_line list \<Rightarrow> bool" where
  "lines_ok ls \<longleftrightarrow> (\<forall>l \<in> set ls. 0 < pl_quantity l)"

lemma product_lines_ok: "lines_ok ls \<Longrightarrow> \<forall>l \<in> set (product_lines ls). 0 < pl_quantity (snd l)"
  by (auto simp: lines_ok_def product_lines_def List.map_filter_def split: if_splits)

lemma decrementStock_Inr:
  assumes "decrementStock now session ls s = Inr s'" "distinct (map pr_id (products s))" "lines_ok ls"
  shows "s' = s\<lparr>products := map (after_sale now (product_lines ls)) (products s)\<rparr>"
    and "p \<in> set (products s) \<Longrightarrow> pr_id p \<in> fst ` set (product_lines ls) \<Longrightarrow>
      pr_status p = P_ACTIVE \<and> wanted (product_lines ls) (pr_id p) \<le> pr_stockQty p"
proof -
  let ?ls = "product_lines ls"
  have nil: "after_sale now [] = (\<lambda>p. p)"
    by (simp add: fun_eq_iff after_sale_def taken_def sold_out_row_def)
  have "s' = s\<lparr>products := map (after_sale now ?ls) (products s)\<rparr> \<and>
    (\<forall>p \<in> set (products s). pr_id p \<in> fst ` set ?ls \<longrightarrow>
       pr_status p = P_ACTIVE \<and> wanted ?ls (pr_id p) \<le> pr_stockQty p)"
  proof (cases "?ls = []")
    case True
    then show ?thesis using assms(1) nil by (simp add: decrementStock_def)
  next
    case False
    then obtain t where t: "decrement_loop now session ?ls (products s) = Inr t"
        "s' = s\<lparr>products := map_rows (sold_out_row (map fst ?ls)) (\<lambda>p. p\<lparr>pr_status := P_OUT_OF_STOCK, pr_updatedAt := now\<rparr>) t\<rparr>"
      using assms(1) by (auto simp: decrementStock_def Let_def split: sum.splits)
    note loop = decrement_loop_Inr [OF t(1) assms(2) product_lines_ok [OF assms(3)]]
    have "map_rows (sold_out_row (map fst ?ls)) (\<lambda>p. p\<lparr>pr_status := P_OUT_OF_STOCK, pr_updatedAt := now\<rparr>) t
        = map (after_sale now ?ls) (products s)"
      using loop by (simp add: map_rows_def after_sale_def Let_def comp_def)
    then show ?thesis using loop t(2) by simp
  qed
  then show "s' = s\<lparr>products := map (after_sale now ?ls) (products s)\<rparr>"
    and "p \<in> set (products s) \<Longrightarrow> pr_id p \<in> fst ` set ?ls \<Longrightarrow>
      pr_status p = P_ACTIVE \<and> wanted ?ls (pr_id p) \<le> pr_stockQty p"
    by blast+
qed

definition after_orders :: "order_context \<Rightarrow> priced_line list \<Rightarrow> db \<Rightarrow> db" where
  "after_orders c ls s =
     (with_orders c 0 (groupBySeller ls) s)
       \<lparr>products := map (after_sale (oc_now c) (product_lines ls)) (products s),
        cartItems := delete_many (\<lambda>i. ci_id i \<in> set (List.map_filter pl_cartItemId ls)) (cartItems s),
        notifications := notifications s @
          createOrderPlacedNotifications (oc_buyer c) (map (placed_of c) (enumerate 0 (groupBySeller ls)))\<rparr>"

lemma runOrderTransaction_stages:
  assumes "runOrderTransaction report c ls s = Inr (s', os, ns)"
  obtains s1 s2 where "order_loop report c 0 (groupBySeller ls) s = Inr (s1, os)"
    "decrementStock (oc_now c) (oc_session c) ls s1 = Inr s2"
    "ns = createOrderPlacedNotifications (oc_buyer c) os"
    "s' = s2\<lparr>cartItems := delete_many (\<lambda>i. ci_id i \<in> set (List.map_filter pl_cartItemId ls)) (cartItems s2),
            notifications := notifications s2 @ ns\<rparr>"
proof -
  have "writeOrders report c ls s = Inr (s', os, ns)"
    using assms by (auto simp: runOrderTransaction_def split: sum.splits error.splits if_splits)
  then show thesis
    by (auto simp: writeOrders_def Let_def split: sum.splits intro: that)
qed

lemma runOrderTransaction_Inr:
  assumes "runOrderTransaction report c ls s = Inr (s', os, ns)" "distinct (map pr_id (products s))" "lines_ok ls"
  shows "s' = after_orders c ls s" "os = map (placed_of c) (enumerate 0 (groupBySeller ls))"
    "ns = createOrderPlacedNotifications (oc_buyer c) os" "lots_once s \<longrightarrow> lots_once s'"
    "\<And>p. p \<in> set (products s) \<Longrightarrow> pr_id p \<in> fst ` set (product_lines ls) \<Longrightarrow>
      pr_status p = P_ACTIVE \<and> wanted (product_lines ls) (pr_id p) \<le> pr_stockQty p"
proof -
  obtain s1 s2 where w: "order_loop report c 0 (groupBySeller ls) s = Inr (s1, os)"
      "decrementStock (oc_now c) (oc_session c) ls s1 = Inr s2"
      "ns = createOrderPlacedNotifications (oc_buyer c) os"
      "s' = s2\<lparr>cartItems := delete_many (\<lambda>i. ci_id i \<in> set (List.map_filter pl_cartItemId ls)) (cartItems s2),
              notifications := notifications s2 @ ns\<rparr>"
    by (rule runOrderTransaction_stages [OF assms(1)])
  note loop = order_loop_Inr [OF w(1)]
  have s1: "products s1 = products s" "cartItems s1 = cartItems s" "notifications s1 = notifications s"
    using loop by (simp_all add: with_orders_def)
  note dec = decrementStock_Inr [OF w(2), unfolded s1, OF assms(2,3)]
  show os: "os = map (placed_of c) (enumerate 0 (groupBySeller ls))" and "ns = createOrderPlacedNotifications (oc_buyer c) os"
    using loop w(3) by simp_all
  show "s' = after_orders c ls s"
    using loop w(4) dec(1) s1 by (simp add: after_orders_def w(3))
  have "orderItems s' = orderItems s1" using w(4) dec(1) by simp
  then have "lots_once s' = lots_once s1" by (simp only: lots_once_def)
  then show "lots_once s \<longrightarrow> lots_once s'" using loop by blast
  show "\<And>p. p \<in> set (products s) \<Longrightarrow> pr_id p \<in> fst ` set (product_lines ls) \<Longrightarrow>
      pr_status p = P_ACTIVE \<and> wanted (product_lines ls) (pr_id p) \<le> pr_stockQty p"
    by (rule dec(2))
qed

section \<open>The invariant\<close>

definition stock_ok :: "product_row \<Rightarrow> bool" where
  "stock_ok p \<longleftrightarrow> 0 \<le> pr_stockQty p \<and> (pr_status p = P_ACTIVE \<longrightarrow> 0 < pr_stockQty p) \<and>
     (pr_status p = P_OUT_OF_STOCK \<longrightarrow> pr_stockQty p = 0)"

definition shelf_ok :: "product_row list \<Rightarrow> bool" where
  "shelf_ok t \<longleftrightarrow> distinct (map pr_id t) \<and> (\<forall>p \<in> set t. stock_ok p)"

definition receipts_ok :: "order_item_row list \<Rightarrow> bool" where
  "receipts_ok t \<longleftrightarrow> distinct (lots_of t) \<and> (\<forall>i \<in> set t. 0 < oi_quantity i)"

definition parcels_ok :: "order_row list \<Rightarrow> shipment_row list \<Rightarrow> bool" where
  "parcels_ok t u \<longleftrightarrow> distinct (map or_id t) \<and> distinct (map sh_id u) \<and> map sh_orderId u = map or_id t"

definition asks_ok :: "cart_item_row list \<Rightarrow> offer_row list \<Rightarrow> bool" where
  "asks_ok t u \<longleftrightarrow> (\<forall>i \<in> set t. 0 < ci_quantity i) \<and> distinct (map of_id u) \<and> (\<forall>x \<in> set u. 0 < of_quantity x)"

definition shop_inv :: "db \<Rightarrow> bool" where
  "shop_inv s \<longleftrightarrow> shelf_ok (products s) \<and> receipts_ok (orderItems s) \<and> parcels_ok (orders s) (shipments s) \<and>
     asks_ok (cartItems s) (offers s)"

lemma stock_ok_after_sale:
  assumes "stock_ok p" "pr_id p \<in> fst ` set ls \<Longrightarrow> pr_status p = P_ACTIVE \<and> wanted ls (pr_id p) \<le> pr_stockQty p"
  shows "stock_ok (after_sale now ls p)"
proof (cases "pr_id p \<in> fst ` set ls")
  case False
  then have "\<not> sold_out_row (map fst ls) p" by (simp add: sold_out_row_def)
  then show ?thesis using assms(1) False by (simp add: after_sale_def taken_def)
next
  case True
  then show ?thesis using assms(2) [OF True] by (auto simp: after_sale_def Let_def sold_out_row_def stock_ok_def)
qed

lemma after_sale_id [simp]: "pr_id (after_sale now ls p) = pr_id p"
  by (simp add: after_sale_def Let_def)

lemma items_of_groups_quantity:
  assumes "lines_ok ls"
  shows "\<forall>i \<in> set (concat (map (items_of_group c) (enumerate k (groupBySeller ls)))). 0 < oi_quantity i"
proof -
  have "set (concat (map snd (foldl group_add gs ls))) \<subseteq> set (concat (map snd gs)) \<union> set ls" for gs
  proof (induction ls arbitrary: gs)
    case (Cons l ls)
    have "set (concat (map snd (group_add gs l))) \<subseteq> insert l (set (concat (map snd gs)))"
      by (auto simp: group_add_def split: if_splits)
    with Cons [of "group_add gs l"] show ?case by (simp only: foldl.simps list.set) blast
  qed simp
  from this [of "[]"] have "\<forall>g \<in> set (groupBySeller ls). lines_ok (snd g)"
    using assms by (fastforce simp: groupBySeller_def lines_ok_def)
  then show ?thesis
    by (fastforce simp: items_of_group_def item_of_def lines_ok_def enumerate_eq_zip dest!: set_zip_rightD)
qed

section \<open>Steps\<close>

definition fresh_ids :: "order_context \<Rightarrow> nat \<Rightarrow> db \<Rightarrow> bool" where
  "fresh_ids c n s \<longleftrightarrow>
     distinct (map or_id (orders s) @ map (oc_orderId c) [0..<n]) \<and>
     distinct (map sh_id (shipments s) @ map (oc_shipmentId c) [0..<n])"

inductive shop_step :: "(instant \<Rightarrow> 'tok \<Rightarrow> accept_payload option) \<Rightarrow> db \<Rightarrow> db \<Rightarrow> bool"
  for verify :: "instant \<Rightarrow> 'tok \<Rightarrow> accept_payload option" where
  get_cart: "getCart s newCart u = (s', v) \<Longrightarrow> shop_step verify s s'"
| add_item: "0 < qty \<Longrightarrow> addItem s newCart newItem u pid qty = (s', r) \<Longrightarrow> shop_step verify s s'"
| update_item: "0 < qty \<Longrightarrow> updateItem s newCart u item qty = (s', r) \<Longrightarrow> shop_step verify s s'"
| remove_item: "removeItem s newCart u item = (s', r) \<Longrightarrow> shop_step verify s s'"
| clear: "clear_cart s newCart u = (s', v) \<Longrightarrow> shop_step verify s s'"
| negotiate: "newId \<notin> of_id ` set (offers s) \<Longrightarrow> 0 < qty \<Longrightarrow>
     negotiate sign s now newId pid u qty amount = Inr (s', v :: 'tok negotiation) \<Longrightarrow> shop_step verify s s'"
| price: "price_lines verify s now u dto = (s', r) \<Longrightarrow> shop_step verify s s'"
| pay: "s' = s\<lparr>payments := payments s @ [p]\<rparr> \<Longrightarrow> shop_step verify s s'"
| order: "lines_ok ls \<Longrightarrow> fresh_ids c (length (groupBySeller ls)) s \<Longrightarrow>
     runOrderTransaction report c ls s = Inr (s', os, ns) \<Longrightarrow> shop_step verify s s'"
| ship: "updateShipmentStatus s s now tracking oid u nxt = Inr (s', msgs, h) \<Longrightarrow> shop_step verify s s'"
| create_product: "newId \<notin> pr_id ` set (products s) \<Longrightarrow> 0 \<le> cp_stockQty dto \<Longrightarrow>
     create keyFromUrl render rnd s now newId imgId u dto = Inr (s', v, w) \<Longrightarrow> shop_step verify s s'"
| update_product: "\<forall>q. up_stockQty udto = Some q \<longrightarrow> 0 \<le> q \<Longrightarrow>
     update s s now pid u udto = Inr (s', v, w) \<Longrightarrow> shop_step verify s s'"
| product_status: "updateStatus s s now pid u active = Inr (s', v) \<Longrightarrow> shop_step verify s s'"
| product_stock: "0 \<le> q \<Longrightarrow> updateStock s s now pid u q = Inr (s', v) \<Longrightarrow> shop_step verify s s'"
| remove_product: "remove s s now pid u = Inr (s', st) \<Longrightarrow> shop_step verify s s'"
| suspend: "deactivate s s now pid admin reason = Inr (s', p) \<Longrightarrow> shop_step verify s s'"
| restore: "reactivate s s now pid admin reason = Inr (s', p) \<Longrightarrow> shop_step verify s s'"
| elsewhere: "products s' = products s \<Longrightarrow> orderItems s' = orderItems s \<Longrightarrow> orders s' = orders s \<Longrightarrow>
     shipments s' = shipments s \<Longrightarrow> cartItems s' = cartItems s \<Longrightarrow> offers s' = offers s \<Longrightarrow> shop_step verify s s'"

text \<open>The tables the cart and the pricing leave alone.\<close>

definition same_shelf :: "db \<Rightarrow> db \<Rightarrow> bool" where
  "same_shelf s s' \<longleftrightarrow> products s' = products s \<and> orderItems s' = orderItems s \<and> orders s' = orders s \<and>
     shipments s' = shipments s"

lemma shop_inv_asks:
  "shop_inv s \<Longrightarrow> same_shelf s s' \<Longrightarrow> asks_ok (cartItems s') (offers s') \<Longrightarrow> shop_inv s'"
  by (simp add: shop_inv_def same_shelf_def)

lemma shop_inv_shelf:
  "shop_inv s \<Longrightarrow> shelf_ok (products s') \<Longrightarrow> orderItems s' = orderItems s \<Longrightarrow> orders s' = orders s \<Longrightarrow>
   shipments s' = shipments s \<Longrightarrow> cartItems s' = cartItems s \<Longrightarrow> offers s' = offers s \<Longrightarrow> shop_inv s'"
  by (simp add: shop_inv_def)

lemma findOrCreateCart_same:
  assumes "findOrCreateCart s newCart u = (s', cid)"
  shows "same_shelf s s'" "cartItems s' = cartItems s" "offers s' = offers s"
  using assms by (auto simp: findOrCreateCart_def same_shelf_def split: option.splits)

lemma asks_ok_items: "asks_ok t u \<Longrightarrow> \<forall>i \<in> set t'. i \<in> set t \<or> 0 < ci_quantity i \<Longrightarrow> asks_ok t' u"
  by (auto simp: asks_ok_def)

lemma upsert_item_ok:
  "\<forall>i \<in> set t. 0 < ci_quantity i \<Longrightarrow> 0 < qty \<Longrightarrow> i \<in> set (upsert_item t newItem cid pid qty) \<Longrightarrow> 0 < ci_quantity i"
  by (auto simp: upsert_item_def set_map_rows split: if_splits)

lemma cart_ops_inv:
  assumes inv: "shop_inv s"
  shows "getCart s newCart u = (s', v) \<Longrightarrow> shop_inv s'"
    and "0 < qty \<Longrightarrow> addItem s newCart newItem u pid qty = (s', r) \<Longrightarrow> shop_inv s'"
    and "0 < qty \<Longrightarrow> updateItem s newCart u item qty = (s', r) \<Longrightarrow> shop_inv s'"
    and "removeItem s newCart u item = (s', r) \<Longrightarrow> shop_inv s'"
    and "clear_cart s newCart u = (s', v) \<Longrightarrow> shop_inv s'"
proof -
  obtain s1 cid where c: "findOrCreateCart s newCart u = (s1, cid)" by fastforce
  note same = findOrCreateCart_same [OF c]
  have asks: "asks_ok (cartItems s) (offers s)" using inv by (simp add: shop_inv_def)
  have inv1: "shop_inv s1"
    by (rule shop_inv_asks [OF inv same(1)]) (simp add: same asks)
  have keep: "shop_inv (s1\<lparr>cartItems := t\<rparr>)" if "\<forall>i \<in> set t. i \<in> set (cartItems s) \<or> 0 < ci_quantity i" for t
    by (rule shop_inv_asks [OF inv]) (use same that asks in \<open>auto simp: same_shelf_def intro: asks_ok_items\<close>)
  show "getCart s newCart u = (s', v) \<Longrightarrow> shop_inv s'"
    using inv1 c by (auto simp: getCart_def)
  show "removeItem s newCart u item = (s', r) \<Longrightarrow> shop_inv s'"
    using inv1 c same by (auto simp: removeItem_def Let_def delete_many_def split: sum.splits intro!: keep)
  show "clear_cart s newCart u = (s', v) \<Longrightarrow> shop_inv s'"
    using c same by (auto simp: clear_cart_def Let_def delete_many_def intro!: keep)
  show "updateItem s newCart u item qty = (s', r) \<Longrightarrow> shop_inv s'" if "0 < qty"
    using inv1 c same that
    by (auto simp: updateItem_def Let_def set_map_rows split: sum.splits option.splits intro!: keep)
  have pos: "0 < (case find P (cartItems s1) of None \<Rightarrow> 0 | Some i \<Rightarrow> ci_quantity i) + qty" if "0 < qty" for P qty
    using asks that same(2) by (auto simp: asks_ok_def split: option.splits dest!: find_SomeD)
  show "addItem s newCart newItem u pid qty = (s', r) \<Longrightarrow> shop_inv s'" if q: "0 < qty"
  proof -
    assume a: "addItem s newCart newItem u pid qty = (s', r)"
    let ?n = "(case find (\<lambda>i. ci_cartId i = cid \<and> ci_productId i = pid) (cartItems s1) of None \<Rightarrow> 0 | Some i \<Rightarrow> ci_quantity i) + qty"
    have "s' = s \<or> s' = s1 \<or> s' = s1\<lparr>cartItems := upsert_item (cartItems s1) newItem cid pid ?n\<rparr>"
      using a c by (auto simp: addItem_def Let_def split: sum.splits option.splits)
    moreover have "shop_inv (s1\<lparr>cartItems := upsert_item (cartItems s1) newItem cid pid ?n\<rparr>)"
      using asks same(2) upsert_item_ok [OF _ pos [OF q]] by (intro keep) (auto simp: asks_ok_def)
    ultimately show ?thesis using inv inv1 by blast
  qed
qed

lemma verifyAndConsume_Inr:
  assumes "verifyAndConsumeAcceptToken verify s now token = Inr (s', payload)"
  shows "s' = s\<lparr>offers := map_rows (redeemable now (ap_offerId payload)) (\<lambda>x. x\<lparr>of_expiresAt := Some 0\<rparr>) (offers s)\<rparr>"
    "count_rows (redeemable now (ap_offerId payload)) (offers s) = 1" "verify now token = Some payload"
  using assms by (auto simp: verifyAndConsumeAcceptToken_def update_many_def split: option.splits if_splits)

lemma price_lines_state:
  assumes "price_lines verify s now u dto = (s', r)"
  shows "s' = s \<or> (\<exists>token payload. verifyAndConsumeAcceptToken verify s now token = Inr (s', payload))"
  using assms
  by (auto simp: price_lines_def priceOffer_def split: option.splits sum.splits if_splits)

lemma shop_inv_price:
  assumes "shop_inv s" "price_lines verify s now u dto = (s', r)"
  shows "shop_inv s'"
  using price_lines_state [OF assms(2)]
proof (elim disjE exE)
  fix token payload assume "verifyAndConsumeAcceptToken verify s now token = Inr (s', payload)"
  note v = verifyAndConsume_Inr(1) [OF this]
  show ?thesis
    by (rule shop_inv_asks [OF assms(1)])
      (use assms(1) in \<open>auto simp: v same_shelf_def shop_inv_def asks_ok_def set_map_rows map_map_rows_same\<close>)
qed (use assms(1) in simp)

lemma shop_inv_negotiate:
  assumes "shop_inv s" "newId \<notin> of_id ` set (offers s)" "0 < qty"
    and "negotiate sign s now newId pid u qty amount = Inr (s', v)"
  shows "shop_inv s'"
proof -
  obtain x where x: "offers s' = offers s @ [x]" "of_id x = newId" "of_quantity x = qty" "same_shelf s s'"
      "cartItems s' = cartItems s"
    using assms(4) by (auto simp: negotiate_def Let_def same_shelf_def
        split: option.splits if_splits prod.splits)
  show ?thesis
    by (rule shop_inv_asks [OF assms(1) x(4)])
      (use assms(1-3) x in \<open>auto simp: shop_inv_def asks_ok_def\<close>)
qed

section \<open>Every step keeps the invariant\<close>

lemma with_orders_ids:
  "map or_id (map (order_row_of c) (enumerate 0 gs)) = map (oc_orderId c) [0..<length gs]"
  "map sh_id (map (shipment_row_of c) (enumerate 0 gs)) = map (oc_shipmentId c) [0..<length gs]"
  "map sh_orderId (map (shipment_row_of c) (enumerate 0 gs)) = map (oc_orderId c) [0..<length gs]"
proof -
  have "map (\<lambda>jg. f (fst jg)) (enumerate 0 gs) = map f [0..<length gs]" for f :: "nat \<Rightarrow> uuid"
  proof -
    have "map f (map fst (enumerate 0 gs)) = map f [0..<length gs]"
      by (simp only: map_fst_enumerate add_0)
    then show ?thesis by (simp only: map_map comp_def)
  qed
  then show "map or_id (map (order_row_of c) (enumerate 0 gs)) = map (oc_orderId c) [0..<length gs]"
    "map sh_id (map (shipment_row_of c) (enumerate 0 gs)) = map (oc_shipmentId c) [0..<length gs]"
    "map sh_orderId (map (shipment_row_of c) (enumerate 0 gs)) = map (oc_orderId c) [0..<length gs]"
    by (simp_all add: comp_def order_row_of_def shipment_row_of_def split_beta)
qed

lemma shop_inv_order:
  assumes inv: "shop_inv s" and ls: "lines_ok ls" and fresh: "fresh_ids c (length (groupBySeller ls)) s"
    and run: "runOrderTransaction report c ls s = Inr (s', os, ns)"
  shows "shop_inv s'"
proof -
  have d: "distinct (map pr_id (products s))" using inv by (simp add: shop_inv_def shelf_ok_def)
  note r = runOrderTransaction_Inr [OF run d ls]
  have "shelf_ok (products s')"
    using inv r(5) by (auto simp: r(1) after_orders_def shop_inv_def shelf_ok_def comp_def intro: stock_ok_after_sale)
  moreover have "receipts_ok (orderItems s')"
  proof -
    have "lots_once s'" using r(4) inv by (simp add: shop_inv_def receipts_ok_def lots_once_def)
    moreover have "orderItems s' = orderItems s @ concat (map (items_of_group c) (enumerate 0 (groupBySeller ls)))"
      by (simp add: r(1) after_orders_def with_orders_def)
    moreover have "\<forall>i \<in> set (orderItems s). 0 < oi_quantity i"
      using inv by (simp add: shop_inv_def receipts_ok_def)
    ultimately show ?thesis
      using items_of_groups_quantity [OF ls, of c 0] unfolding receipts_ok_def lots_once_def by auto
  qed
  moreover have "parcels_ok (orders s') (shipments s')"
  proof -
    let ?gs = "groupBySeller ls"
    have o: "orders s' = orders s @ map (order_row_of c) (enumerate 0 ?gs)"
      and h: "shipments s' = shipments s @ map (shipment_row_of c) (enumerate 0 ?gs)"
      by (simp_all add: r(1) after_orders_def with_orders_def)
    have "map or_id (orders s') = map or_id (orders s) @ map (oc_orderId c) [0..<length ?gs]"
      "map sh_id (shipments s') = map sh_id (shipments s) @ map (oc_shipmentId c) [0..<length ?gs]"
      "map sh_orderId (shipments s') = map sh_orderId (shipments s) @ map (oc_orderId c) [0..<length ?gs]"
      by (simp_all only: o h map_append with_orders_ids)
    then show ?thesis
      using inv fresh unfolding parcels_ok_def shop_inv_def fresh_ids_def by simp
  qed
  moreover have "asks_ok (cartItems s') (offers s')"
    using inv by (auto simp: r(1) after_orders_def with_orders_def shop_inv_def asks_ok_def delete_many_def)
  ultimately show ?thesis by (simp add: shop_inv_def)
qed

definition returned :: "(uuid \<times> int) list \<Rightarrow> uuid \<Rightarrow> int" where
  "returned items pid = sum_list (map snd (filter (\<lambda>i. fst i = pid) items))"

lemma put_back_simps [simp]:
  "pr_id (put_back now q p) = pr_id p" "pr_status (put_back now q p) = pr_status p"
  "pr_stockQty (put_back now q p) = pr_stockQty p + q"
  "put_back now q (put_back now r p) = put_back now (r + q) p"
  by (simp_all add: put_back_def)

definition given :: "instant \<Rightarrow> (uuid \<times> int) list \<Rightarrow> product_row \<Rightarrow> product_row" where
  "given now items p = (if pr_id p \<in> fst ` set items then put_back now (returned items (pr_id p)) p else p)"

lemma returned_zero: "pid \<notin> fst ` set items \<Longrightarrow> returned items pid = 0"
proof -
  assume "pid \<notin> fst ` set items"
  then have "filter (\<lambda>i. fst i = pid) items = []" by (auto simp: filter_empty_conv)
  then show ?thesis by (simp add: returned_def)
qed

lemma given_simps [simp]: "pr_id (given now items p) = pr_id p" "pr_status (given now items p) = pr_status p"
  "pr_stockQty (given now items p) = pr_stockQty p + returned items (pr_id p)"
  by (simp_all add: given_def returned_zero)

lemma given_Cons:
  "given now items (if pr_id p = fst i then put_back now (snd i) p else p) = given now (i # items) p"
  by (auto simp: given_def returned_def returned_zero [unfolded returned_def])

lemma restock_rows: "restock now items t = map (given now items) t"
proof (induction items arbitrary: t)
  case Nil
  then show ?case by (simp add: restock_def given_def)
next
  case (Cons i items)
  have "restock now (i # items) t = restock now items (map_rows (\<lambda>p. pr_id p = fst i) (put_back now (snd i)) t)"
    by (simp add: restock_def)
  then show ?case
    by (simp add: Cons.IH map_rows_def comp_def given_Cons)
qed

definition after_return :: "instant \<Rightarrow> (uuid \<times> int) list \<Rightarrow> product_row \<Rightarrow> product_row" where
  "after_return now items p =
     (let q = given now items p
      in if back_on_sale (map fst items) q then q\<lparr>pr_status := P_ACTIVE, pr_updatedAt := now\<rparr> else q)"

lemma cancelOrder_eq:
  "cancelOrder s now oid = s\<lparr>orders := map_rows (\<lambda>x. or_id x = oid) (\<lambda>x. x\<lparr>or_status := O_CANCELLED\<rparr>) (orders s),
     products := map (after_return now (order_product_items s oid)) (products s)\<rparr>"
proof -
  have nil: "after_return now [] = (\<lambda>p. p)"
    by (simp add: fun_eq_iff after_return_def given_def back_on_sale_def)
  have items: "order_product_items (s\<lparr>orders := t\<rparr>) oid = order_product_items s oid" for t
    by (simp add: order_product_items_def)
  show ?thesis
  proof (cases "order_product_items s oid = []")
    case True
    then show ?thesis by (simp add: cancelOrder_def items nil)
  next
    case False
    then show ?thesis
      by (simp add: cancelOrder_def Let_def items restock_rows map_rows_def after_return_def comp_def)
  qed
qed

lemma stock_ok_after_return:
  assumes "stock_ok p" "\<forall>i \<in> set items. 0 < snd i"
  shows "stock_ok (after_return now items p)"
proof (cases "filter (\<lambda>i. fst i = pr_id p) items")
  case Nil
  then have "returned items (pr_id p) = 0" "pr_id p \<notin> set (map fst items)"
    by (auto simp: returned_def filter_empty_conv)
  then show ?thesis using assms(1) by (simp add: after_return_def given_def back_on_sale_def)
next
  case (Cons i js)
  have "i \<in> set (filter (\<lambda>i. fst i = pr_id p) items)" unfolding Cons by simp
  then have i: "i \<in> set items" "fst i = pr_id p" by simp_all
  have "\<forall>j \<in> set js. 0 < snd j" using assms(2) Cons by (metis filter_is_subset list.set_intros(2) subsetD)
  then have "0 \<le> sum_list (map snd js)" by (induction js) auto
  then have "0 < returned items (pr_id p)" using Cons assms(2) i(1) by (force simp: returned_def)
  moreover have "pr_id p \<in> set (map fst items)" using i by force
  ultimately show ?thesis using assms(1) by (auto simp: after_return_def back_on_sale_def stock_ok_def Let_def)
qed

lemma after_return_id [simp]: "pr_id (after_return now items p) = pr_id p"
  by (simp add: after_return_def Let_def)

lemma order_product_items_pos:
  assumes "shop_inv s"
  shows "\<forall>i \<in> set (order_product_items s oid). 0 < snd i"
  using assms by (auto simp: shop_inv_def receipts_ok_def order_product_items_def List.map_filter_def split: if_splits)

lemma updateShipmentStatus_Inr:
  assumes "updateShipmentStatus rd wr now tracking oid u nxt = Inr (s', msgs, g)"
  obtains x h where "loadOrderParties rd oid u = Inr (x, h)" "or_sellerId x = u" "canTransition (sh_status h) nxt"
    "count_rows (at_status (sh_id h) (sh_status h)) (shipments wr) = 1"
    "shipments s' = map_rows (at_status (sh_id h) (sh_status h)) (advance nxt tracking) (shipments wr)"
    "products s' = (if nxt = S_CANCELLED then map (after_return now (order_product_items wr oid)) (products wr) else products wr)"
    "orders s' = (if nxt = S_CANCELLED then map_rows (\<lambda>x. or_id x = oid) (\<lambda>x. x\<lparr>or_status := O_CANCELLED\<rparr>) (orders wr)
       else orders wr)"
    "orderItems s' = orderItems wr" "cartItems s' = cartItems wr" "offers s' = offers wr"
    "find (\<lambda>g. sh_id g = sh_id h) (shipments s') = Some g"
    "shipmentEvents s' = shipmentEvents wr @ [\<lparr>se_shipmentId = sh_id h, se_actorUserId = Some u,
       se_eventType = nxt, se_createdAt = now\<rparr>]"
proof -
  obtain x h where l: "loadOrderParties rd oid u = Inr (x, h)" "or_sellerId x = u" "canTransition (sh_status h) nxt"
    using assms by (auto simp: updateShipmentStatus_def split: sum.splits if_splits)
  have c: "count_rows (at_status (sh_id h) (sh_status h)) (shipments wr) = 1"
    using assms l by (auto simp: updateShipmentStatus_def update_many_def split: if_splits)
  have items: "order_product_items (wr\<lparr>shipments := t, shipmentEvents := e\<rparr>) oid = order_product_items wr oid" for t e
    by (simp add: order_product_items_def)
  show thesis
    by (rule that [OF l c])
      (use assms l c in \<open>auto simp: updateShipmentStatus_def update_many_def Let_def cancelOrder_eq items
         split: option.splits if_splits\<close>)
qed

lemma advance_ids [simp]: "sh_id (advance nxt tr h) = sh_id h" "sh_orderId (advance nxt tr h) = sh_orderId h"
    "sh_status (advance nxt tr h) = nxt"
  by (simp_all add: advance_def)

lemma shop_inv_ship:
  assumes inv: "shop_inv s" and st: "updateShipmentStatus s s now tracking oid u nxt = Inr (s', msgs, g)"
  shows "shop_inv s'"
  using st
proof (cases rule: updateShipmentStatus_Inr)
  case (1 x h)
  have "shelf_ok (products s')"
    using inv stock_ok_after_return [OF _ order_product_items_pos [OF inv]]
    by (auto simp: 1(6) shop_inv_def shelf_ok_def comp_def)
  moreover have "map or_id (orders s') = map or_id (orders s)" "map sh_id (shipments s') = map sh_id (shipments s)"
      "map sh_orderId (shipments s') = map sh_orderId (shipments s)"
    by (simp_all add: 1(5,7) map_map_rows_same)
  ultimately show ?thesis using inv by (simp add: shop_inv_def parcels_ok_def 1(8-10))
qed

lemma write_product_Inr:
  assumes "write_product wr pid f = Inr (s', p)"
  shows "s' = wr\<lparr>products := map_rows (\<lambda>p. pr_id p = pid) f (products wr)\<rparr>" "find_product s' pid = Some p"
  using assms by (auto simp: write_product_def Let_def split: option.splits)

lemma shelf_ok_write:
  assumes "shelf_ok t" "\<And>p. pr_id (f p) = pr_id p" "\<And>p. p \<in> set t \<Longrightarrow> pr_id p = pid \<Longrightarrow> stock_ok p \<Longrightarrow> stock_ok (f p)"
  shows "shelf_ok (map_rows (\<lambda>p. pr_id p = pid) f t)"
  using assms by (auto simp: shelf_ok_def set_map_rows map_map_rows_same)

lemma shop_inv_write:
  assumes inv: "shop_inv s" and w: "write_product s pid f = Inr (s', p)"
    and f: "\<And>p. pr_id (f p) = pr_id p" "\<And>p. find_product s pid = Some p \<Longrightarrow> stock_ok p \<Longrightarrow> stock_ok (f p)"
  shows "shop_inv s'"
proof (rule shop_inv_shelf [OF inv])
  note w' = write_product_Inr(1) [OF w]
  have d: "shelf_ok (products s)" using inv by (simp add: shop_inv_def)
  have "find_product s pid = Some p" if "p \<in> set (products s)" "pr_id p = pid" for p
    unfolding find_product_def
    by (rule find_key_eq [where k = pr_id]) (use d that in \<open>auto simp: shelf_ok_def\<close>)
  then show "shelf_ok (products s')"
    using shelf_ok_write [OF d f(1)] f(2) by (simp add: w')
qed (simp_all add: write_product_Inr(1) [OF w])

lemma findOwnedProduct_Inr:
  "findOwnedProduct s pid u = Inr p \<longleftrightarrow> find_product s pid = Some p \<and> pr_sellerId p = u"
  by (auto simp: findOwnedProduct_def split: option.splits)

lemma stock_ok_resolved:
  assumes "stock_ok p" "0 \<le> q" "st = or_default (resolveStatus (pr_status p) q) (pr_status p)"
    "pr_stockQty r = q" "pr_status r = st" "pr_status p \<noteq> P_SUSPENDED"
  shows "stock_ok r"
  using assms by (cases "pr_status p") (auto simp: stock_ok_def resolveStatus_def or_default_def)

lemma shop_inv_update:
  assumes inv: "shop_inv s" and q: "\<forall>q. up_stockQty dto = Some q \<longrightarrow> 0 \<le> q"
    and st: "update s s now pid u dto = Inr (s', v, w)"
  shows "shop_inv s'"
proof -
  obtain e p where e: "find_product s pid = Some e" "pr_status e \<noteq> P_SUSPENDED"
    and wr: "write_product s pid (apply_product_edit dto now
      (resolveStatus (pr_status e) (or_default (up_stockQty dto) (pr_stockQty e)))) = Inr (s', p)"
    using st by (auto simp: update_def Let_def findOwnedProduct_Inr assertNotSuspended_def
        split: sum.splits option.splits if_splits)
  show ?thesis
  proof (rule shop_inv_write [OF inv wr])
    fix p assume "find_product s pid = Some p" and ok: "stock_ok p"
    then have p: "p = e" using e by simp
    have "0 \<le> or_default (up_stockQty dto) (pr_stockQty e)"
      using q ok p by (auto simp: or_default_def stock_ok_def split: option.splits)
    then show "stock_ok (apply_product_edit dto now
        (resolveStatus (pr_status e) (or_default (up_stockQty dto) (pr_stockQty e))) p)"
      using ok e(2) p by (intro stock_ok_resolved [OF ok]) (simp_all add: apply_product_edit_def)
  qed (simp add: apply_product_edit_def)
qed

lemma shop_inv_product_status:
  assumes inv: "shop_inv s" and st: "updateStatus s s now pid u active = Inr (s', v)"
  shows "shop_inv s'"
proof -
  obtain e p where e: "find_product s pid = Some e"
    and wr: "write_product s pid (\<lambda>p. p\<lparr>pr_status := (if \<not> active then P_INACTIVE
        else if pr_stockQty e > 0 then P_ACTIVE else P_OUT_OF_STOCK), pr_updatedAt := now\<rparr>) = Inr (s', p)"
    using st by (auto simp: updateStatus_def Let_def findOwnedProduct_Inr
        split: sum.splits option.splits if_splits)
  show ?thesis
    by (rule shop_inv_write [OF inv wr]) (use e in \<open>auto simp: stock_ok_def\<close>)
qed

lemma shop_inv_product_stock:
  assumes inv: "shop_inv s" and q: "0 \<le> q" and st: "updateStock s s now pid u q = Inr (s', v)"
  shows "shop_inv s'"
proof -
  obtain e p where e: "find_product s pid = Some e" "pr_status e \<noteq> P_SUSPENDED"
    and wr: "write_product s pid (\<lambda>p. p\<lparr>pr_stockQty := q,
        pr_status := or_default (resolveStatus (pr_status e) q) (pr_status p), pr_updatedAt := now\<rparr>) = Inr (s', p)"
    using st by (auto simp: updateStock_def Let_def findOwnedProduct_Inr assertNotSuspended_def
        split: sum.splits option.splits if_splits)
  show ?thesis
  proof (rule shop_inv_write [OF inv wr])
    fix p assume "find_product s pid = Some p" and ok: "stock_ok p"
    then show "stock_ok (p\<lparr>pr_stockQty := q,
        pr_status := or_default (resolveStatus (pr_status e) q) (pr_status p), pr_updatedAt := now\<rparr>)"
      using e by (intro stock_ok_resolved [OF ok q refl]) simp_all
  qed simp
qed

lemma shop_inv_remove:
  assumes inv: "shop_inv s" and st: "remove s s now pid u = Inr (s', r)"
  shows "shop_inv s'"
proof -
  obtain p st where wr: "write_product s pid (\<lambda>p. p\<lparr>pr_status := st, pr_updatedAt := now\<rparr>) = Inr (s', p)"
      "st = P_INACTIVE \<or> st = P_REMOVED"
    using st by (auto simp: remove_def Let_def split: sum.splits option.splits if_splits)
  show ?thesis
    by (rule shop_inv_write [OF inv wr(1)]) (use wr(2) in \<open>auto simp: stock_ok_def\<close>)
qed

lemma moderate_Inr:
  assumes "moderate wr now pid st act adm reason = Inr (s', p)"
  obtains s1 where "write_product wr pid (\<lambda>p. p\<lparr>pr_status := st, pr_updatedAt := now\<rparr>) = Inr (s1, p)"
    "products s' = products s1" "orderItems s' = orderItems s1" "orders s' = orders s1"
    "shipments s' = shipments s1" "cartItems s' = cartItems s1" "offers s' = offers s1"
  using assms by (auto simp: moderate_def split: sum.splits)

lemma shop_inv_same:
  "shop_inv s \<Longrightarrow> products s' = products s \<Longrightarrow> orderItems s' = orderItems s \<Longrightarrow> orders s' = orders s \<Longrightarrow>
   shipments s' = shipments s \<Longrightarrow> cartItems s' = cartItems s \<Longrightarrow> offers s' = offers s \<Longrightarrow> shop_inv s'"
  by (simp add: shop_inv_def)

lemma shop_inv_moderate:
  assumes inv: "shop_inv s" and st: "moderate s now pid st act adm reason = Inr (s', p)"
    and ok: "\<And>p. find_product s pid = Some p \<Longrightarrow> stock_ok p \<Longrightarrow> stock_ok (p\<lparr>pr_status := st, pr_updatedAt := now\<rparr>)"
  shows "shop_inv s'"
  using st
proof (cases rule: moderate_Inr)
  case (1 s1)
  have "shop_inv s1" by (rule shop_inv_write [OF inv 1(1)]) (use ok in simp_all)
  then show ?thesis by (rule shop_inv_same) (use 1 in simp_all)
qed

lemma shop_inv_suspend:
  assumes inv: "shop_inv s"
  shows "deactivate s s now pid adm reason = Inr (s', p) \<Longrightarrow> shop_inv s'"
    and "reactivate s s now pid adm reason = Inr (s', p) \<Longrightarrow> shop_inv s'"
proof -
  assume "deactivate s s now pid adm reason = Inr (s', p)"
  then have "moderate s now pid P_SUSPENDED DEACTIVATE_PRODUCT adm reason = Inr (s', p)"
    by (auto simp: deactivate_def split: sum.splits if_splits)
  then show "shop_inv s'" by (rule shop_inv_moderate [OF inv]) (simp add: stock_ok_def)
next
  assume "reactivate s s now pid adm reason = Inr (s', p)"
  then obtain e where "find_product s pid = Some e"
      "moderate s now pid (if pr_stockQty e > 0 then P_ACTIVE else P_OUT_OF_STOCK) REACTIVATE_PRODUCT adm reason = Inr (s', p)"
    by (auto simp: reactivate_def findModerable_def split: sum.splits option.splits if_splits)
  then show "shop_inv s'" by (intro shop_inv_moderate [OF inv]) (auto simp: stock_ok_def split: if_splits)
qed

lemma shop_inv_create:
  assumes inv: "shop_inv s" and new: "newId \<notin> pr_id ` set (products s)" "0 \<le> cp_stockQty dto"
    and st: "create keyFromUrl render rnd s now newId imgId u dto = Inr (s', v, w)"
  shows "shop_inv s'"
proof -
  obtain p where p: "products s' = products s @ [p]" "pr_id p = newId" "pr_stockQty p = cp_stockQty dto"
      "pr_status p = (if cp_stockQty dto > 0 then P_ACTIVE else P_OUT_OF_STOCK)"
      "orderItems s' = orderItems s" "orders s' = orders s" "shipments s' = shipments s"
      "cartItems s' = cartItems s" "offers s' = offers s"
    using st by (auto simp: create_def Let_def split: option.splits)
  show ?thesis
    by (rule shop_inv_shelf [OF inv])
      (use inv new p in \<open>auto simp: shop_inv_def shelf_ok_def stock_ok_def\<close>)
qed

lemma shop_step_inv:
  assumes "shop_inv s" "shop_step verify s s'"
  shows "shop_inv s'"
  using assms(2)
proof cases
  case order
  then show ?thesis by (rule shop_inv_order [OF assms(1)])
next
  case price
  then show ?thesis by (rule shop_inv_price [OF assms(1)])
next
  case negotiate
  then show ?thesis by (rule shop_inv_negotiate [OF assms(1)])
next
  case elsewhere
  then show ?thesis by (rule shop_inv_same [OF assms(1)])
next
  case pay
  then show ?thesis using assms(1) by (simp add: shop_inv_def)
next
  case create_product
  then show ?thesis by (rule shop_inv_create [OF assms(1)])
next
  case get_cart
  then show ?thesis by (rule cart_ops_inv(1) [OF assms(1)])
next
  case add_item
  then show ?thesis by (rule cart_ops_inv(2) [OF assms(1)])
next
  case update_item
  then show ?thesis by (rule cart_ops_inv(3) [OF assms(1)])
next
  case remove_item
  then show ?thesis by (rule cart_ops_inv(4) [OF assms(1)])
next
  case clear
  then show ?thesis by (rule cart_ops_inv(5) [OF assms(1)])
next
  case ship
  then show ?thesis by (rule shop_inv_ship [OF assms(1)])
next
  case update_product
  then show ?thesis by (rule shop_inv_update [OF assms(1)])
next
  case product_status
  then show ?thesis by (rule shop_inv_product_status [OF assms(1)])
next
  case product_stock
  then show ?thesis by (rule shop_inv_product_stock [OF assms(1)])
next
  case remove_product
  then show ?thesis by (rule shop_inv_remove [OF assms(1)])
next
  case suspend
  then show ?thesis by (rule shop_inv_suspend(1) [OF assms(1)])
next
  case restore
  then show ?thesis by (rule shop_inv_suspend(2) [OF assms(1)])
qed

definition shop_init :: "db \<Rightarrow> bool" where
  "shop_init s \<longleftrightarrow> products s = [] \<and> orderItems s = [] \<and> orders s = [] \<and> shipments s = [] \<and>
     cartItems s = [] \<and> offers s = []"

section \<open>Accept tokens are single-use\<close>

definition redeem ::
  "(instant \<Rightarrow> 'tok \<Rightarrow> accept_payload option) \<Rightarrow> db \<Rightarrow> instant \<times> 'tok \<Rightarrow> (db \<times> uuid) option" where
  "redeem verify s i =
     (if fst i < 0 then None
      else case verifyAndConsumeAcceptToken verify s (fst i) (snd i) of
             Inl e \<Rightarrow> None
           | Inr (s', payload) \<Rightarrow> Some (s', ap_offerId payload))"

definition spent_offer :: "db \<Rightarrow> uuid \<Rightarrow> bool" where
  "spent_offer s oid \<longleftrightarrow> (\<exists>x \<in> set (offers s). of_id x = oid \<and> of_expiresAt x = Some 0)"

lemma redeem_SomeD:
  assumes "redeem verify s i = Some (s', k)"
  shows "0 \<le> fst i" "\<exists>payload. verifyAndConsumeAcceptToken verify s (fst i) (snd i) = Inr (s', payload) \<and> ap_offerId payload = k"
  using assms by (auto simp: redeem_def split: if_splits sum.splits)

lemma spent_after_write:
  assumes "spent_offer s k" "offers s' = map_rows P (\<lambda>x. x\<lparr>of_expiresAt := Some 0\<rparr>) (offers s)"
  shows "spent_offer s' k"
proof -
  obtain x where x: "x \<in> set (offers s)" "of_id x = k" "of_expiresAt x = Some 0"
    using assms(1) by (auto simp: spent_offer_def)
  let ?y = "if P x then x\<lparr>of_expiresAt := Some 0\<rparr> else x"
  have "?y \<in> set (offers s')" unfolding assms(2) set_map_rows using x(1) by (rule imageI)
  moreover have "of_id ?y = k" "of_expiresAt ?y = Some 0" using x by simp_all
  ultimately show ?thesis unfolding spent_offer_def by blast
qed

lemma price_spends:
  assumes "verifyAndConsumeAcceptToken verify s now token = Inr (s', payload)"
  shows "\<exists>u dto r. price_lines verify s now u dto = (s', r)"
proof -
  let ?addr = "\<lparr>ad_recipientName = [], ad_line1 = [], ad_line2 = None, ad_city = [], ad_postalCode = [], ad_phone = []\<rparr>"
  let ?dto = "\<lparr>co_paymentMethod = CARD, co_shippingAddress = ?addr, co_cartItemIds = None, co_auctionId = None,
      co_offerAcceptToken = Some token\<rparr>"
  have "fst (price_lines verify s now (ap_buyerId payload) ?dto) = s'"
    using assms by (simp add: price_lines_def priceOffer_def split: option.split)
  then have "price_lines verify s now (ap_buyerId payload) ?dto
      = (s', snd (price_lines verify s now (ap_buyerId payload) ?dto))" by (simp add: prod_eq_iff)
  then show ?thesis by blast
qed

text \<open>
  What a step leaves in the books: orders, items and parcels are only added and keep what they are
  about, and a spent offer stays spent.
\<close>

definition same_books :: "db \<Rightarrow> db \<Rightarrow> bool" where
  "same_books s s' \<longleftrightarrow> offers s' = offers s \<and> orders s' = orders s \<and> orderItems s' = orderItems s \<and>
     shipments s' = shipments s"

definition order_key :: "order_row \<Rightarrow> uuid \<times> uuid \<times> uuid" where
  "order_key x = (or_id x, or_sellerId x, or_buyerId x)"

definition ship_key :: "shipment_row \<Rightarrow> uuid \<times> uuid" where
  "ship_key h = (sh_id h, sh_orderId h)"

definition parcels_move :: "db \<Rightarrow> db \<Rightarrow> bool" where
  "parcels_move s s' \<longleftrightarrow> (\<forall>h \<in> set (shipments s). \<exists>h' \<in> set (shipments s').
     ship_key h' = ship_key h \<and> canTransition\<^sup>*\<^sup>* (sh_status h) (sh_status h'))"

definition books_grow :: "db \<Rightarrow> db \<Rightarrow> bool" where
  "books_grow s s' \<longleftrightarrow> prefix (orderItems s) (orderItems s') \<and>
     prefix (map order_key (orders s)) (map order_key (orders s')) \<and>
     prefix (map ship_key (shipments s)) (map ship_key (shipments s')) \<and>
     parcels_move s s' \<and> (\<forall>k. spent_offer s k \<longrightarrow> spent_offer s' k)"

lemma parcels_move_kept: "set (shipments s) \<subseteq> set (shipments s') \<Longrightarrow> parcels_move s s'"
  unfolding parcels_move_def by blast

lemma parcels_move_trans: "parcels_move s t \<Longrightarrow> parcels_move t u \<Longrightarrow> parcels_move s u"
  unfolding parcels_move_def by (metis rtranclp_trans)

lemma same_books_grow: "same_books s s' \<Longrightarrow> books_grow s s'"
  by (simp add: same_books_def books_grow_def spent_offer_def parcels_move_kept)

lemma books_grow_refl: "books_grow s s"
  by (simp add: books_grow_def parcels_move_kept)

lemma books_grow_trans: "books_grow s t \<Longrightarrow> books_grow t u \<Longrightarrow> books_grow s u"
  unfolding books_grow_def by (blast intro: prefix_order.trans parcels_move_trans)

lemma findOrCreateCart_books: "findOrCreateCart s newCart u = (s', cid) \<Longrightarrow> same_books s s'"
  by (auto simp: findOrCreateCart_def same_books_def split: option.splits)

lemma cart_ops_books:
  "getCart s newCart u = (s', v) \<Longrightarrow> same_books s s'"
  "addItem s newCart newItem u pid qty = (s', r) \<Longrightarrow> same_books s s'"
  "updateItem s newCart u item qty = (s', r) \<Longrightarrow> same_books s s'"
  "removeItem s newCart u item = (s', r) \<Longrightarrow> same_books s s'"
  "clear_cart s newCart u = (s', v) \<Longrightarrow> same_books s s'"
proof -
  obtain s1 cid where c: "findOrCreateCart s newCart u = (s1, cid)" by fastforce
  have 1: "same_books s s1" "same_books s (s1\<lparr>cartItems := t\<rparr>)" for t
    using findOrCreateCart_books [OF c] by (simp_all add: same_books_def)
  have 0: "same_books s s" by (simp add: same_books_def)
  show "getCart s newCart u = (s', v) \<Longrightarrow> same_books s s'"
    using 1 c by (auto simp: getCart_def)
  show "addItem s newCart newItem u pid qty = (s', r) \<Longrightarrow> same_books s s'"
    using 0 1 c by (auto simp: addItem_def Let_def split: sum.splits option.splits)
  show "updateItem s newCart u item qty = (s', r) \<Longrightarrow> same_books s s'"
    using 1 c by (auto simp: updateItem_def Let_def split: sum.splits option.splits)
  show "removeItem s newCart u item = (s', r) \<Longrightarrow> same_books s s'"
    using 1 c by (auto simp: removeItem_def Let_def split: sum.splits)
  show "clear_cart s newCart u = (s', v) \<Longrightarrow> same_books s s'"
    using 1 c by (auto simp: clear_cart_def Let_def)
qed

lemma write_product_books: "write_product s pid f = Inr (s', p) \<Longrightarrow> same_books s s'"
  by (auto simp: write_product_def Let_def same_books_def split: option.splits if_splits)

lemma moderate_books: "moderate wr now pid st act adm reason = Inr (s', p) \<Longrightarrow> same_books wr s'"
  by (auto simp: moderate_def write_product_def Let_def same_books_def split: option.splits sum.splits if_splits)

lemma product_ops_books:
  "create keyFromUrl render rnd s now newId imgId u dto = Inr (s', v, w) \<Longrightarrow> same_books s s'"
  "update s wr now pid u udto = Inr (s', v, w) \<Longrightarrow> same_books wr s'"
  "updateStatus s wr now pid u active = Inr (s', v) \<Longrightarrow> same_books wr s'"
  "updateStock s wr now pid u q = Inr (s', v) \<Longrightarrow> same_books wr s'"
  "remove s wr now pid u = Inr (s', st) \<Longrightarrow> same_books wr s'"
  "deactivate s wr now pid adm reason = Inr (s', p) \<Longrightarrow> same_books wr s'"
  "reactivate s wr now pid adm reason = Inr (s', p) \<Longrightarrow> same_books wr s'"
  by (auto simp: create_def update_def updateStatus_def updateStock_def remove_def deactivate_def reactivate_def
      Let_def same_books_def split: option.splits sum.splits if_splits
      dest!: write_product_books moderate_books)

lemma shop_step_books:
  assumes "shop_step verify s s'"
  shows "books_grow s s'"
  using assms
proof cases
  case (price now u dto r)
  show ?thesis
    using price_lines_state [OF price]
  proof (elim disjE exE)
    fix token payload assume "verifyAndConsumeAcceptToken verify s now token = Inr (s', payload)"
    from verifyAndConsume_Inr(1) [OF this] show ?thesis
      by (auto simp: books_grow_def intro: spent_after_write parcels_move_kept)
  qed (simp add: books_grow_refl)
next
  case (negotiate newId qty sign now pid u amount v)
  then have "(\<exists>x. offers s' = offers s @ [x]) \<and> orderItems s' = orderItems s \<and> orders s' = orders s \<and>
      shipments s' = shipments s"
    by (auto simp: negotiate_def Let_def split: option.splits if_splits prod.splits)
  then show ?thesis by (auto simp: books_grow_def spent_offer_def intro: parcels_move_kept)
next
  case (order ls c report os ns)
  obtain s1 s2 where "order_loop report c 0 (groupBySeller ls) s = Inr (s1, os)"
      "decrementStock (oc_now c) (oc_session c) ls s1 = Inr s2"
      "s' = s2\<lparr>cartItems := delete_many (\<lambda>i. ci_id i \<in> set (List.map_filter pl_cartItemId ls)) (cartItems s2),
              notifications := notifications s2 @ ns\<rparr>"
    by (rule runOrderTransaction_stages [OF order(3)])
  then show ?thesis
    by (auto simp: books_grow_def spent_offer_def decrementStock_def Let_def with_orders_def
        dest!: order_loop_Inr intro!: parcels_move_kept split: if_splits sum.splits)
next
  case (ship now tracking oid u nxt msgs h)
  then show ?thesis
  proof (rule updateShipmentStatus_Inr)
    fix x h
    assume w: "shipments s' = map_rows (at_status (sh_id h) (sh_status h)) (advance nxt tracking) (shipments s)"
      and can: "canTransition (sh_status h) nxt" and u:
      "orders s' = (if nxt = S_CANCELLED then map_rows (\<lambda>x. or_id x = oid) (\<lambda>x. x\<lparr>or_status := O_CANCELLED\<rparr>) (orders s)
         else orders s)" "orderItems s' = orderItems s" "offers s' = offers s"
    have "parcels_move s s'"
      unfolding parcels_move_def
    proof
      fix g assume g: "g \<in> set (shipments s)"
      let ?g = "if at_status (sh_id h) (sh_status h) g then advance nxt tracking g else g"
      have "?g \<in> set (shipments s')" using g by (auto simp: w set_map_rows)
      moreover have "ship_key ?g = ship_key g" by (simp add: ship_key_def)
      moreover have "canTransition\<^sup>*\<^sup>* (sh_status g) (sh_status ?g)"
        using can by (auto simp: at_status_def)
      ultimately show "\<exists>h' \<in> set (shipments s'). ship_key h' = ship_key g \<and>
          canTransition\<^sup>*\<^sup>* (sh_status g) (sh_status h')"
        by blast
    qed
    moreover have "map order_key (orders s') = map order_key (orders s)"
      using u(1) by (auto simp: map_rows_def order_key_def)
    moreover have "map ship_key (shipments s') = map ship_key (shipments s)"
      using w by (auto simp: map_rows_def ship_key_def)
    ultimately show ?thesis using u(2,3) by (simp add: books_grow_def spent_offer_def)
  qed
next
  case pay
  then show ?thesis by (auto intro: same_books_grow simp: same_books_def)
next
  case elsewhere
  then show ?thesis by (auto intro: same_books_grow simp: same_books_def)
qed (blast intro: same_books_grow cart_ops_books product_ops_books)+

lemma shop_steps_books: "(shop_step verify)\<^sup>*\<^sup>* s s' \<Longrightarrow> books_grow s s'"
proof (induction rule: rtranclp_induct)
  case base
  then show ?case by (rule books_grow_refl)
next
  case (step t u)
  then show ?case using shop_step_books books_grow_trans by blast
qed

interpretation shop: single_use shop_init "shop_step verify" shop_inv "redeem verify" spent_offer
  for verify :: "instant \<Rightarrow> 'tok \<Rightarrow> accept_payload option"
proof unfold_locales
  show "shop_init s \<Longrightarrow> shop_inv s" for s
    by (simp add: shop_init_def shop_inv_def shelf_ok_def receipts_ok_def parcels_ok_def asks_ok_def lots_of_def
        List.map_filter_def)
  show "shop_inv s \<Longrightarrow> shop_step verify s s' \<Longrightarrow> shop_inv s'" for s s'
    by (rule shop_step_inv)
  show "shop_step verify s s' \<Longrightarrow> spent_offer s k \<Longrightarrow> spent_offer s' k" for s s' k
    using shop_step_books unfolding books_grow_def by blast
  fix s i s' k
  assume r: "redeem verify s i = Some (s', k)"
  obtain payload where v: "verifyAndConsumeAcceptToken verify s (fst i) (snd i) = Inr (s', payload)" "ap_offerId payload = k"
    using redeem_SomeD(2) [OF r] by blast
  note c = verifyAndConsume_Inr [OF v(1)]
  obtain x where x: "x \<in> set (offers s)" "redeemable (fst i) k x"
    using count_rows_one c(2) v(2) by fastforce
  then have "x\<lparr>of_expiresAt := Some 0\<rparr> \<in> set (offers s')" "of_id x = k"
    by (auto simp: c(1) v(2) set_map_rows redeemable_def)
  then show "spent_offer s' k" unfolding spent_offer_def by (metis offer_row.select_convs(1,8) offer_row.update_convs(8) offer_row.surjective)
  show "\<not> spent_offer s k" if inv: "shop_inv s"
  proof
    assume "spent_offer s k"
    then obtain y where y: "y \<in> set (offers s)" "of_id y = k" "of_expiresAt y = Some 0"
      by (auto simp: spent_offer_def)
    have "distinct (map of_id (offers s))" using inv by (simp add: shop_inv_def asks_ok_def)
    then have "y = x" using distinct_key_unique x y by (metis redeemable_def)
    then show False using x(2) y(3) redeem_SomeD(1) [OF r] by (auto simp: redeemable_def)
  qed
  show "shop_step verify s s'"
    using price_spends [OF v(1)] shop_step.price by blast
qed

end
