(* ===== verification/Shop_Demo.thy ===== *)
theory Shop_Demo
  imports Shop_House
begin

text \<open>
  A concrete run of the shop: a seller lists a product with three in stock, a buyer puts all three
  in the cart, another agrees a price for one, the first buyer's checkout sells the product out,
  and the seller cancels the parcel. The witnesses of the properties use its states.
\<close>

definition shop_state :: "db \<Rightarrow> error + (db \<times> 'a) \<Rightarrow> db" where
  "shop_state s r = (case r of Inl _ \<Rightarrow> s | Inr (s', _) \<Rightarrow> s')"

lemma shop_stateE: "\<not> isl r \<Longrightarrow> (\<And>v. r = Inr (shop_state s r, v) \<Longrightarrow> P) \<Longrightarrow> P"
  by (cases r) (auto simp: shop_state_def)

definition shop0 :: db where
  "shop0 = empty_db\<lparr>
     users := [\<lparr>us_id = 10, us_displayName = Some (ascii ''Sela''), us_autoReplyMessage = None\<rparr>,
               \<lparr>us_id = 20, us_displayName = Some (ascii ''Arun''), us_autoReplyMessage = None\<rparr>,
               \<lparr>us_id = 21, us_displayName = None, us_autoReplyMessage = None\<rparr>],
     categories := [\<lparr>ca_id = 3, ca_name = ascii ''Art'', ca_slug = ascii ''art'', ca_isActive = True,
       ca_parentId = None, ca_description = None, ca_createdByAdminId = None, ca_createdAt = 0,
       ca_updatedAt = 0\<rparr>]\<rparr>"

definition shop_product :: create_product_dto where
  "shop_product = \<lparr>cp_title = ascii ''Mug'', cp_description = ascii ''Blue'', cp_categoryId = 3,
     cp_price = 10000, cp_stockQty = 3, cp_condition = NEW, cp_imageUrls = [ascii ''u''],
     cp_negotiationFloor = Some 8000, cp_quantityDiscountMinQty = None, cp_quantityDiscountPercent = None\<rparr>"

definition no_key :: "utext \<Rightarrow> utext option" where
  "no_key url = None"

definition plain_id :: "uuid \<Rightarrow> utext" where
  "plain_id u = [48 + u]"

definition shop1 :: db where
  "shop1 = shop_state shop0 (create no_key plain_id (\<lambda>k. 900 + k) shop0 5 7 (\<lambda>k. 800 + k) 10 shop_product)"

definition shop2 :: db where
  "shop2 = fst (addItem shop1 40 41 20 7 3)"

text \<open>Tokens of the run are the pair of the time of signing and the payload.\<close>

definition shop_sign :: "instant \<Rightarrow> accept_payload \<Rightarrow> instant \<times> accept_payload" where
  "shop_sign t payload = (t, payload)"

definition shop_verify :: "instant \<Rightarrow> instant \<times> accept_payload \<Rightarrow> accept_payload option" where
  "shop_verify now token = (if now < fst token + OFFER_TTL_MS then Some (snd token) else None)"

definition shop3 :: db where
  "shop3 = shop2\<lparr>offers := [\<lparr>of_id = 60, of_buyerId = 21, of_productId = 7, of_quantity = 1,
      of_offerAmount = 10000, of_decision = ACCEPTED, of_counterAmount = None,
      of_expiresAt = Some (100 + OFFER_TTL_MS), of_createdAt = 100\<rparr>],
    aiRequests := [\<lparr>ai_userId = 21, ai_type = NEGOTIATION\<rparr>]\<rparr>"

definition shop_address :: address where
  "shop_address = \<lparr>ad_recipientName = ascii ''A'', ad_line1 = ascii ''1'', ad_line2 = None,
     ad_city = ascii ''B'', ad_postalCode = ascii ''1'', ad_phone = ascii ''0''\<rparr>"

definition shop_context :: order_context where
  "shop_context = \<lparr>oc_session = 70, oc_buyer = 20, oc_payment = 71, oc_address = shop_address, oc_now = 200,
     oc_orderId = (\<lambda>k. 80 + k), oc_shipmentId = (\<lambda>k. 85 + k)\<rparr>"

definition shop_lines :: "priced_line list" where
  "shop_lines = projr (priceCart shop3 20 None)"

definition shop4 :: db where
  "shop4 = shop_state shop3 (runOrderTransaction TargetList shop_context shop_lines shop3)"

definition shop5 :: db where
  "shop5 = shop_state shop4 (updateShipmentStatus shop4 shop4 300 (ascii ''T'', ascii ''C'') 80 10 S_CANCELLED)"

lemma shop_ok:
  "\<not> isl (create no_key plain_id (\<lambda>k. 900 + k) shop0 5 7 (\<lambda>k. 800 + k) 10 shop_product)"
  "\<not> isl (runOrderTransaction TargetList shop_context shop_lines shop3)"
  "\<not> isl (updateShipmentStatus shop4 shop4 300 (ascii ''T'', ascii ''C'') 80 10 S_CANCELLED)"
  by code_simp+

lemma decide_full_price:
  assumes "quantity \<le> stock" "0 < flr" "flr \<le> price" "price \<le> 10 ^ 13"
  shows "decide price flr price quantity stock out = (ACCEPTED, None)"
proof -
  have "to_number flr \<le> to_number price" using assms by (subst to_number_le_iff) auto
  then show ?thesis using assms(1) by (simp add: decide_def Let_def)
qed

definition demo_product :: product_row where
  "demo_product = hd (products shop2)"

lemma shop2_product: "find_product shop2 7 = Some demo_product" "pr_status demo_product = P_ACTIVE"
  "pr_sellerId demo_product = 10" "pr_negotiationFloor demo_product = Some 8000" "pr_price demo_product = 10000"
  "pr_stockQty demo_product = 3" "offers shop2 = []" "aiRequests shop2 = []"
  by code_simp+

lemma shop3_negotiated:
  "negotiate shop_sign shop2 100 60 7 21 1 10000 = Inr (shop3, \<lparr>ng_id = 60, ng_decision = ACCEPTED,
     ng_counterAmount = None, ng_expiresAt = Some (100 + OFFER_TTL_MS),
     ng_acceptToken = Some (shop_sign 100 \<lparr>ap_offerId = 60, ap_productId = 7, ap_buyerId = 21\<rparr>)\<rparr>)"
proof -
  have "decide 10000 8000 10000 1 3 None = (ACCEPTED, None)" by (rule decide_full_price) simp_all
  moreover have "readRecentOffers shop2 100 21 7 = []" by (simp add: readRecentOffers_def shop2_product)
  ultimately show ?thesis
    by (simp add: negotiate_def shop2_product findOutstandingCounter_def assertWithinRateLimit_def shop3_def Let_def)
qed

lemma shop_init0: "shop_init shop0"
  by code_simp

lemma shop_steps:
  "shop_step shop_verify shop0 shop1" "shop_step shop_verify shop1 shop2" "shop_step shop_verify shop2 shop3"
  "shop_step shop_verify shop3 shop4" "shop_step shop_verify shop4 shop5"
proof -
  have zero: "7 \<notin> pr_id ` set (products shop0)" "0 \<le> cp_stockQty shop_product" by code_simp+
  show "shop_step shop_verify shop0 shop1"
  proof (rule shop_stateE [OF shop_ok(1), of shop0], fold shop1_def)
    fix v assume "create no_key plain_id (\<lambda>k. 900 + k) shop0 5 7 (\<lambda>k. 800 + k) 10 shop_product = Inr (shop1, v)"
    then show ?thesis using shop_step.create_product [OF zero] by (cases v) blast
  qed
  have "addItem shop1 40 41 20 7 3 = (shop2, snd (addItem shop1 40 41 20 7 3))" by (simp add: shop2_def)
  then show "shop_step shop_verify shop1 shop2" by (rule shop_step.add_item [rotated]) simp
  show "shop_step shop_verify shop2 shop3"
    by (rule shop_step.negotiate [OF _ _ shop3_negotiated]) (simp_all add: shop2_product)
  show "shop_step shop_verify shop3 shop4"
  proof (rule shop_stateE [OF shop_ok(2), of shop3], fold shop4_def)
    fix v assume run: "runOrderTransaction TargetList shop_context shop_lines shop3 = Inr (shop4, v)"
    have "lines_ok shop_lines" "fresh_ids shop_context (length (groupBySeller shop_lines)) shop3"
      by code_simp+
    then show ?thesis using run shop_step.order by (cases v) blast
  qed
  show "shop_step shop_verify shop4 shop5"
  proof (rule shop_stateE [OF shop_ok(3), of shop4], fold shop5_def)
    fix v assume "updateShipmentStatus shop4 shop4 300 (ascii ''T'', ascii ''C'') 80 10 S_CANCELLED = Inr (shop5, v)"
    then show ?thesis using shop_step.ship by (cases v) blast
  qed
qed

lemma shop_reachable:
  "(shop_step shop_verify)\<^sup>*\<^sup>* shop0 shop3" "(shop_step shop_verify)\<^sup>*\<^sup>* shop0 shop4"
  "(shop_step shop_verify)\<^sup>*\<^sup>* shop0 shop5"
  using shop_steps by (meson rtranclp.rtrancl_refl rtranclp.rtrancl_into_rtrancl)+

end
