(* ===== verification/Shop_Properties.thy ===== *)
theory Shop_Properties
  imports Shop_Demo
begin

text \<open>
  What the shop guarantees, stated over \<open>shop_step\<close> and the operations themselves. The lemmas in
  front of a property connect it to the after-states of \<open>Shop_House\<close>.
\<close>

section \<open>Stock\<close>



definition bought :: "priced_line list \<Rightarrow> uuid \<Rightarrow> int" where
  "bought ls pid = sum_list (map pl_quantity (filter (\<lambda>l. pl_productId l = Some pid) ls))"

lemma wanted_product_lines: "wanted (product_lines ls) pid = bought ls pid"
  by (induction ls)
    (auto simp: wanted_def product_lines_def bought_def List.map_filter_simps split: option.splits)

lemma fst_product_lines: "fst ` set (product_lines ls) = {pid. \<exists>l \<in> set ls. pl_productId l = Some pid}"
  by (force simp: product_lines_def List.map_filter_def)

lemma after_sale_row:
  "pid \<notin> fst ` set ls \<Longrightarrow> pr_id p = pid \<Longrightarrow> after_sale now ls p = p"
  by (simp add: after_sale_def taken_def sold_out_row_def)

text \<open>How a listing's row \<open>q\<close> after an order relates to the row \<open>p\<close> before it.\<close>

definition sold_as :: "priced_line list \<Rightarrow> product_row \<Rightarrow> product_row \<Rightarrow> bool" where
  "sold_as ls p q \<longleftrightarrow>
     (if list_ex (\<lambda>l. pl_productId l = Some (pr_id p)) ls
      then pr_status p = P_ACTIVE \<and> bought ls (pr_id p) \<le> pr_stockQty p \<and> pr_id q = pr_id p \<and>
           pr_stockQty q = pr_stockQty p - bought ls (pr_id p) \<and>
           pr_status q = (if pr_stockQty q = 0 then P_OUT_OF_STOCK else P_ACTIVE)
      else q = p)"

lemma after_sale_sold_as:
  assumes "pr_id p \<in> fst ` set (product_lines ls) \<Longrightarrow>
      pr_status p = P_ACTIVE \<and> wanted (product_lines ls) (pr_id p) \<le> pr_stockQty p"
  shows "sold_as ls p (after_sale now (product_lines ls) p)"
proof (cases "pr_id p \<in> fst ` set (product_lines ls)")
  case True
  then show ?thesis
    using assms [OF True]
    by (auto simp: sold_as_def list_ex_iff fst_product_lines after_sale_def Let_def sold_out_row_def wanted_product_lines)
next
  case False
  then show ?thesis
    using after_sale_row [OF False refl] by (auto simp: sold_as_def list_ex_iff fst_product_lines)
qed

text \<open>C13: an order takes exactly what was bought. When the order transaction commits, every
  product of its lines was on sale with at least the quantity bought in stock; its stock falls by
  that quantity, and it goes out of stock exactly when nothing is left; no other product changes,
  and the paid cart lines, and only they, leave the carts.\<close>

theorem order_takes_exactly_what_was_bought:
  assumes "shop_init s0" "(shop_step verify)\<^sup>*\<^sup>* s0 s" "lines_ok ls"
    and "runOrderTransaction report c ls s = Inr (s', os, ns)"
  shows "list_all2 (sold_as ls) (products s) (products s') \<and>
     cartItems s' = filter (\<lambda>i. \<not> list_ex (\<lambda>l. pl_cartItemId l = Some (ci_id i)) ls) (cartItems s)"
proof -
  have "shop_inv s" by (rule shop.reachable_inv [OF assms(1,2)])
  then have d: "distinct (map pr_id (products s))" by (simp add: shop_inv_def shelf_ok_def)
  note r = runOrderTransaction_Inr [OF assms(4) d assms(3)]
  have "products s' = map (after_sale (oc_now c) (product_lines ls)) (products s)"
    by (simp add: r(1) after_orders_def)
  then have "list_all2 (sold_as ls) (products s) (products s')"
    by (simp add: list.rel_map) (rule list.rel_refl_strong, rule after_sale_sold_as, rule r(5))
  moreover have paid: "ci_id i \<in> set (List.map_filter pl_cartItemId ls)
      \<longleftrightarrow> list_ex (\<lambda>l. pl_cartItemId l = Some (ci_id i)) ls" for i
    by (force simp: List.map_filter_def list_ex_iff)
  have "cartItems s' = filter (\<lambda>i. ci_id i \<notin> set (List.map_filter pl_cartItemId ls)) (cartItems s)"
    by (simp add: r(1) after_orders_def delete_many_def)
  then have "cartItems s' = filter (\<lambda>i. \<not> list_ex (\<lambda>l. pl_cartItemId l = Some (ci_id i)) ls) (cartItems s)"
    by (simp only: paid)
  ultimately show ?thesis by blast
qed

theorem order_takes_exactly_what_was_bought_witness:
  "bought shop_lines 7 = 3 \<and> map pr_stockQty (products shop3) = [3] \<and> map pr_stockQty (products shop4) = [0] \<and>
   map pr_status (products shop4) = [P_OUT_OF_STOCK]"
proof (rule shop_stateE [OF shop_ok(2), of shop3], fold shop4_def)
  fix v assume v: "runOrderTransaction TargetList shop_context shop_lines shop3 = Inr (shop4, v)"
  have ls: "lines_ok shop_lines" "bought shop_lines 7 = 3" "list_ex (\<lambda>l. pl_productId l = Some 7) shop_lines"
    by code_simp+
  have "map (\<lambda>p. (pr_id p, pr_stockQty p)) (products shop3) = [(7, 3)]" by code_simp
  then obtain p where p: "products shop3 = [p]" "pr_id p = 7" "pr_stockQty p = 3" by auto
  have "list_all2 (sold_as shop_lines) (products shop3) (products shop4)"
    using order_takes_exactly_what_was_bought
      [OF shop_init0 shop_reachable(1) ls(1), of TargetList shop_context shop4 "fst v" "snd v"] v by simp
  then show ?thesis
    using ls(2,3) p by (auto simp: list_all2_Cons1 sold_as_def)
qed

section \<open>One order per seller\<close>

lemma set_of_snoc: "set_of (xs @ [x]) = set_add (set_of xs) x"
  by (simp add: set_of_def)

lemma groupBySeller_eq:
  "groupBySeller ls = map (\<lambda>u. (u, filter (\<lambda>l. pl_sellerId l = u) ls)) (set_of (map pl_sellerId ls))"
proof (induction ls rule: rev_induct)
  case Nil
  then show ?case by (simp add: groupBySeller_def set_of_def)
next
  case (snoc l ls)
  have none: "filter (\<lambda>m. pl_sellerId m = pl_sellerId l) ls = []" if "pl_sellerId l \<notin> set (map pl_sellerId ls)"
    using that by (auto simp: filter_empty_conv) (metis imageI)
  have "groupBySeller (ls @ [l]) = group_add (groupBySeller ls) l" by (simp add: groupBySeller_def)
  then show ?case
    using none by (auto simp: snoc group_add_def list_ex_iff set_of_snoc set_add_def)
qed

lemma sum_by_key:
  assumes "distinct us" "\<forall>x \<in> set xs. key x \<in> set us"
  shows "sum_list (map (\<lambda>u. sum_list (map f (filter (\<lambda>x. key x = u) xs))) us) = (sum_list (map f xs) :: int)"
  using assms(2)
proof (induction xs)
  case (Cons x xs)
  have "sum_list (map f (filter (\<lambda>y. key y = u) (x # xs)))
      = (if u = key x then f x else 0) + sum_list (map f (filter (\<lambda>y. key y = u) xs))" for u
    by simp
  moreover have "sum_list (map (\<lambda>u. if u = key x then f x else 0) us) = f x"
    using Cons.prems assms(1) by (simp add: sum_list_distinct_conv_sum_set sum.If_cases Int_absorb1)
  ultimately show ?case using Cons by (simp add: sum_list_addf)
qed simp

lemma runOrderTransaction_orders:
  assumes "runOrderTransaction report c ls s = Inr (s', os, ns)"
  shows "os = map (placed_of c) (enumerate 0 (groupBySeller ls))"
    "orders s' = orders s @ map (order_row_of c) (enumerate 0 (groupBySeller ls))"
    "orderItems s' = orderItems s @ concat (map (items_of_group c) (enumerate 0 (groupBySeller ls)))"
    "ns = createOrderPlacedNotifications (oc_buyer c) os" "notifications s' = notifications s @ ns"
proof -
  obtain s1 s2 where w: "order_loop report c 0 (groupBySeller ls) s = Inr (s1, os)"
      "decrementStock (oc_now c) (oc_session c) ls s1 = Inr s2"
      "ns = createOrderPlacedNotifications (oc_buyer c) os"
      "s' = s2\<lparr>cartItems := delete_many (\<lambda>i. ci_id i \<in> set (List.map_filter pl_cartItemId ls)) (cartItems s2),
              notifications := notifications s2 @ ns\<rparr>"
    by (rule runOrderTransaction_stages [OF assms])
  have "orders s2 = orders s1" "orderItems s2 = orderItems s1" "notifications s2 = notifications s1"
    using w(2) by (auto simp: decrementStock_def Let_def split: if_splits sum.splits)
  then show "os = map (placed_of c) (enumerate 0 (groupBySeller ls))"
    "orders s' = orders s @ map (order_row_of c) (enumerate 0 (groupBySeller ls))"
    "orderItems s' = orderItems s @ concat (map (items_of_group c) (enumerate 0 (groupBySeller ls)))"
    "ns = createOrderPlacedNotifications (oc_buyer c) os" "notifications s' = notifications s @ ns"
    using order_loop_Inr [OF w(1)] w(3,4) by (simp_all add: with_orders_def)
qed

lemma map_enumerate_snd: "map (\<lambda>jg. f (snd jg)) (enumerate n xs) = map f xs"
proof -
  have "map f (map snd (enumerate n xs)) = map f xs" by (simp only: map_snd_enumerate)
  then show ?thesis by (simp only: map_map comp_def)
qed

lemma placed_of_simps: "po_seller (placed_of c jg) = fst (snd jg)"
  "po_subtotal (placed_of c jg) = dec_sum (map pl_subtotal (snd (snd jg)))"
  by (simp_all add: placed_of_def split_beta)

text \<open>A checkout is split by seller without losing a satang. The order transaction writes one
  order per seller of the lines, in the order they first appear, paid and addressed to the buyer,
  with that seller's subtotal; the subtotals of the orders add up to the total charged; the items
  written are the lines, each once; and the buyer and each order's seller are notified of it.\<close>

theorem orders_split_the_total:
  assumes "runOrderTransaction report c ls s = Inr (s', os, ns)"
    and "\<forall>l \<in> set ls. 0 \<le> pl_subtotal l" "sum_list (map pl_subtotal ls) < 10 ^ 20"
  shows "map po_seller os = set_of (map pl_sellerId ls) \<and>
     map or_subtotal (orders s') = map or_subtotal (orders s) @ map po_subtotal os \<and>
     map or_sellerId (orders s') = map or_sellerId (orders s) @ map po_seller os \<and>
     sum_list (map po_subtotal os) = dec_sum (map pl_subtotal ls) \<and>
     map no_userId ns = replicate (length os) (oc_buyer c) @ map po_seller os"
proof -
  note r = runOrderTransaction_orders [OF assms(1)]
  let ?us = "set_of (map pl_sellerId ls)" and ?of = "\<lambda>u. filter (\<lambda>l. pl_sellerId l = u) ls"
  have sellers: "map po_seller os = ?us"
    by (simp add: r(1) placed_of_simps comp_def map_enumerate_snd [of fst] groupBySeller_eq)
  have parts: "map po_subtotal os = map (\<lambda>u. dec_sum (map pl_subtotal (?of u))) ?us"
    by (simp add: r(1) placed_of_simps comp_def map_enumerate_snd [of "\<lambda>g. dec_sum (map pl_subtotal (snd g))"]
        groupBySeller_eq)
  have rows: "map or_subtotal (map (order_row_of c) (enumerate 0 (groupBySeller ls))) = map po_subtotal os"
    "map or_sellerId (map (order_row_of c) (enumerate 0 (groupBySeller ls))) = map po_seller os"
    by (simp_all add: r(1) order_row_of_def placed_of_def split_beta comp_def)
  have whole: "sum_list (map (\<lambda>u. sum_list (map pl_subtotal (?of u))) ?us) = sum_list (map pl_subtotal ls)"
    by (rule sum_by_key) simp_all
  have part: "sum_list (map pl_subtotal (?of u)) \<le> sum_list (map pl_subtotal ls)" for u
    using assms(2) by (induction ls) auto
  have "dec_sum (map pl_subtotal (?of u)) = sum_list (map pl_subtotal (?of u))" for u
    using assms(2,3) part [of u] by (intro dec_sum_exact) auto
  then have "sum_list (map po_subtotal os) = sum_list (map pl_subtotal ls)"
    by (simp add: parts whole)
  moreover have "dec_sum (map pl_subtotal ls) = sum_list (map pl_subtotal ls)"
    using assms(2,3) by (intro dec_sum_exact) auto
  moreover have "map no_userId ns = replicate (length os) (oc_buyer c) @ map po_seller os"
    by (simp add: r(4) createOrderPlacedNotifications_def comp_def map_replicate_const)
  ultimately show ?thesis
    using sellers rows by (simp add: r(2))
qed

theorem orders_split_the_total_witness:
  "sum_list (map pl_subtotal shop_lines) = 30000 \<and> map or_subtotal (orders shop4) = [30000] \<and>
   map or_sellerId (orders shop4) = [10]"
proof (rule shop_stateE [OF shop_ok(2), of shop3], fold shop4_def)
  fix v assume v: "runOrderTransaction TargetList shop_context shop_lines shop3 = Inr (shop4, v)"
  have ls: "list_all (\<lambda>l. 0 \<le> pl_subtotal l) shop_lines" "sum_list (map pl_subtotal shop_lines) = 30000"
    "set_of (map pl_sellerId shop_lines) = [10]" "dec_sum (map pl_subtotal shop_lines) = 30000" "orders shop3 = []"
    by code_simp+
  show ?thesis
    using orders_split_the_total [of TargetList shop_context shop_lines shop3 shop4 "fst v" "snd v"] v ls
    by (auto simp: list_all_iff length_Suc_conv map_eq_Cons_conv)
qed

section \<open>Checkout\<close>

text \<open>What a refusal after the charge names: the checkout session.\<close>

fun names_session :: "uuid \<Rightarrow> error \<Rightarrow> bool" where
  "names_session u (BadRequest (PaymentDeclined v)) = (v = u)"
| "names_session u (Conflict (AuctionPaidMeanwhile v)) = (v = u)"
| "names_session u (Conflict (StockLostAfterCharge v is)) = (v = u)"
| "names_session u e = False"

lemma create_items_Inl: "create_items report oid ls s = Inl e \<Longrightarrow> \<exists>t. e = KnownRequestError ''P2002'' t"
  by (induction ls arbitrary: s) (auto split: if_splits)

lemma order_loop_Inl: "order_loop report c k gs s = Inl e \<Longrightarrow> \<exists>t. e = KnownRequestError ''P2002'' t"
  by (induction gs arbitrary: k s) (auto split: sum.splits dest: create_items_Inl)

lemma decrement_loop_Inl: "decrement_loop now session ls t = Inl e \<Longrightarrow> names_session session e"
  by (induction ls arbitrary: t) (auto simp: Let_def split: if_splits prod.splits)

lemma runOrderTransaction_Inl:
  assumes "runOrderTransaction report c ls s = Inl e"
  shows "names_session (oc_session c) e"
proof (cases "order_loop report c 0 (groupBySeller ls) s")
  case (Inl f)
  then show ?thesis
    using assms order_loop_Inl [OF Inl] by (auto simp: runOrderTransaction_def writeOrders_def)
next
  case (Inr r)
  obtain s1 os where r: "r = (s1, os)" by fastforce
  show ?thesis
  proof (cases "decrementStock (oc_now c) (oc_session c) ls s1")
    case d: (Inl f)
    then have "names_session (oc_session c) f"
      by (auto simp: decrementStock_def Let_def split: if_splits sum.splits dest: decrement_loop_Inl)
    then show ?thesis
      using assms Inr r d by (cases "(oc_session c, f)" rule: names_session.cases)
        (auto simp: runOrderTransaction_def writeOrders_def)
  next
    case d: (Inr s2)
    then show ?thesis using assms Inr r by (simp add: runOrderTransaction_def writeOrders_def Let_def)
  qed
qed

lemma price_lines_tables:
  assumes "price_lines verify s now u dto = (s', r)"
  shows "\<exists>t. s' = s\<lparr>offers := t\<rparr>"
  using price_lines_state [OF assms]
proof (elim disjE exE)
  assume "s' = s"
  then have "s' = s\<lparr>offers := offers s\<rparr>" by simp
  then show ?thesis ..
next
  fix token payload assume v: "verifyAndConsumeAcceptToken verify s now token = Inr (s', payload)"
  show ?thesis using verifyAndConsume_Inr(1) [OF v] ..
qed

text \<open>The one payment row a checkout writes, and the context it gives the order transaction.\<close>

definition payment_of :: "uuid \<Rightarrow> uuid \<Rightarrow> payment_method \<Rightarrow> payment_status \<Rightarrow> payment_row" where
  "payment_of paymentId session m st =
     \<lparr>pt_id = paymentId, pt_checkoutSessionId = session, pt_status = st, pt_method = m\<rparr>"

definition context_of ::
  "instant \<Rightarrow> uuid \<Rightarrow> uuid \<Rightarrow> (nat \<Rightarrow> uuid) \<Rightarrow> (nat \<Rightarrow> uuid) \<Rightarrow> uuid \<Rightarrow> 'tok checkout_dto \<Rightarrow> order_context" where
  "context_of now session paymentId orderId shipmentId buyerId dto =
     \<lparr>oc_session = session, oc_buyer = buyerId, oc_payment = paymentId, oc_address = co_shippingAddress dto,
      oc_now = now, oc_orderId = orderId, oc_shipmentId = shipmentId\<rparr>"

lemma checkout_cases:
  assumes "checkout report verify between s now session paymentId orderId shipmentId buyerId dto = (s', msgs, x)"
  obtains (several) "s' = s" "msgs = []" "x = Inl (BadRequest SeveralTargets)"
  | (unpriced) e where "price_lines verify s now buyerId dto = (s', Inl e)" "msgs = []" "x = Inl e"
  | (declined) s1 ls where "price_lines verify s now buyerId dto = (s1, Inr ls)" "msgs = []"
      "s' = s1\<lparr>payments := payments s1 @ [payment_of paymentId session (co_paymentMethod dto) PAY_FAILED]\<rparr>"
      "x = Inl (BadRequest (PaymentDeclined session))"
  | (lost) s1 ls e where "price_lines verify s now buyerId dto = (s1, Inr ls)" "msgs = []"
      "s' = between (s1\<lparr>payments := payments s1 @ [payment_of paymentId session (co_paymentMethod dto) PAY_SUCCEEDED]\<rparr>)"
      "runOrderTransaction report (context_of now session paymentId orderId shipmentId buyerId dto) ls s' = Inl e"
      "x = Inl e"
  | (placed) s1 ls os ns where "price_lines verify s now buyerId dto = (s1, Inr ls)"
      "runOrderTransaction report (context_of now session paymentId orderId shipmentId buyerId dto) ls
         (between (s1\<lparr>payments := payments s1 @ [payment_of paymentId session (co_paymentMethod dto) PAY_SUCCEEDED]\<rparr>))
       = Inr (s', os, ns)"
      "x = Inr \<lparr>rc_checkoutSessionId = session, rc_total = dec_sum (map pl_subtotal ls), rc_orders = os\<rparr>"
      "msgs = map (\<lambda>n. Notify (no_userId n) n) ns @ auto_replies buyerId os"
proof (cases "length (filter id [co_auctionId dto \<noteq> None, co_cartItemIds dto \<noteq> None,
    co_offerAcceptToken dto \<noteq> None]) > 1")
  case True
  then show thesis using several assms by (simp add: checkout_def)
next
  case one: False
  obtain s1 r where r: "price_lines verify s now buyerId dto = (s1, r)" by fastforce
  show thesis
  proof (cases r)
    case (Inl e)
    then show thesis using unpriced assms r one unfolding checkout_def by simp
  next
    case (Inr ls)
    note co = assms [unfolded checkout_def if_not_P [OF one] r Inr prod.case sum.case Let_def
        payment_of_def [symmetric] context_of_def [symmetric]]
    show thesis
    proof (cases "charge (dec_sum (map pl_subtotal ls))")
      case PAY_FAILED
      then show thesis using declined r Inr co by simp
    next
      case ok: PAY_SUCCEEDED
      let ?s2 = "s1\<lparr>payments := payments s1 @ [payment_of paymentId session (co_paymentMethod dto) PAY_SUCCEEDED]\<rparr>"
      let ?run = "runOrderTransaction report (context_of now session paymentId orderId shipmentId buyerId dto)
          ls (between ?s2)"
      show thesis
      proof (cases ?run)
        case run: (Inl e)
        show thesis by (rule lost [OF r [unfolded Inr]]) (use co ok run in auto)
      next
        case run: (Inr v)
        obtain s3 os ns where v: "v = (s3, os, ns)" by (rule prod_cases3)
        show thesis by (rule placed [OF r [unfolded Inr]]) (use co ok run v in auto)
      qed
    qed
  qed
qed

text \<open>C14: a refused checkout sells nothing, and says whether money was taken. Whatever the request,
  a checkout that is refused (running alone) announces nothing and leaves every listing, cart,
  order, item, parcel and notification as it was; a payment row is written exactly when the answer
  names the checkout session, so a buyer who was charged is always told which charge it was.\<close>

theorem refused_checkout_sells_nothing:
  assumes "checkout report verify id s now session paymentId orderId shipmentId buyerId dto = (s', msgs, Inl e)"
  shows "msgs = [] \<and> products s' = products s \<and> cartItems s' = cartItems s \<and> orders s' = orders s \<and>
     orderItems s' = orderItems s \<and> shipments s' = shipments s \<and> shipmentEvents s' = shipmentEvents s \<and>
     notifications s' = notifications s \<and>
     (\<exists>st. payments s' = payments s @ (if names_session session e
        then [\<lparr>pt_id = paymentId, pt_checkoutSessionId = session, pt_status = st, pt_method = co_paymentMethod dto\<rparr>]
        else []))"
using assms
proof (cases rule: checkout_cases)
  case several
  then show ?thesis by simp
next
  case (unpriced f)
  have "\<not> names_session session f"
    using unpriced(1) by (auto simp: price_lines_def priceAuction_def priceCart_def priceOffer_def Let_def
        split: option.splits if_splits sum.splits prod.splits)
  then show ?thesis using unpriced price_lines_tables [OF unpriced(1)] by auto
next
  case (declined s1 ls)
  then show ?thesis using price_lines_tables [OF declined(1)] by (auto simp: payment_of_def)
next
  case (lost s1 ls f)
  have "names_session session e"
    using runOrderTransaction_Inl [OF lost(4)] lost(5) by (simp add: context_of_def)
  then show ?thesis using lost(2,3) price_lines_tables [OF lost(1)] by (auto simp: payment_of_def)
next
  case (placed s1 ls os ns)
  then show ?thesis by simp
qed

definition shop_checkout :: "(instant \<times> accept_payload) checkout_dto" where
  "shop_checkout = \<lparr>co_paymentMethod = CARD, co_shippingAddress = shop_address, co_cartItemIds = None,
     co_auctionId = None, co_offerAcceptToken = None\<rparr>"

definition shop_declined :: db where
  "shop_declined = shop3\<lparr>products := map (\<lambda>p. p\<lparr>pr_price := 22200\<rparr>) (products shop3)\<rparr>"

definition run_checkout :: "db \<Rightarrow> db \<times> shop_message list \<times> (error + receipt)" where
  "run_checkout s = checkout TargetList shop_verify id s 200 70 71 (\<lambda>k. 80 + k) (\<lambda>k. 85 + k) 20 shop_checkout"

theorem refused_checkout_sells_nothing_witness:
  "map pt_status (payments (fst (run_checkout shop_declined))) = [PAY_FAILED] \<and>
   products (fst (run_checkout shop_declined)) = products shop_declined"
proof -
  have r: "snd (snd (run_checkout shop_declined)) = Inl (BadRequest (PaymentDeclined 70))"
    "map pt_status (payments (fst (run_checkout shop_declined))) = [PAY_FAILED]"
    by code_simp+
  have "run_checkout shop_declined = (fst (run_checkout shop_declined), fst (snd (run_checkout shop_declined)),
      Inl (BadRequest (PaymentDeclined 70)))"
    using r(1) by (simp add: prod_eq_iff)
  then show ?thesis
    using refused_checkout_sells_nothing [of TargetList shop_verify shop_declined] r(2)
    unfolding run_checkout_def by blast
qed

lemma in_cart_of_own:
  assumes "distinct (map ct_id (carts s))" "distinct (map ct_userId (carts s))" "c \<in> set (carts s)"
  shows "in_cart_of s (ct_userId c) i \<longleftrightarrow> ci_cartId i = ct_id c"
proof -
  have "d = c" if "d \<in> set (carts s)" "ct_userId d = ct_userId c" for d
    by (rule distinct_key_unique [OF assms(2) that(1) assms(3) that(2)])
  then show ?thesis using assms(3) unfolding in_cart_of_def list_ex_iff by metis
qed

lemma no_issue_iff:
  "line_issue u ip = None \<Longrightarrow> cl_issue (buildLine s ip) = None"
  by (auto simp: line_issue_def buildLine_def detectIssue_def Let_def split: prod.splits if_splits)

lemma priceCart_Inr:
  assumes "priceCart s u None = Inr ls"
  obtains xs where "ls = map cart_line_of xs" "collectCheckoutIssues u xs = []"
    "xs = List.map_filter (with_product s) (sort_key ci_id (filter (in_cart_of s u) (cartItems s)))"
  using assms by (auto simp: priceCart_def Let_def split: if_splits)

text \<open>The buyer is charged the total the cart showed. When a checkout of a whole cart succeeds,
  the total charged is the total of the cart view at the moment of pricing, no line of that view
  showed an issue, and the receipt has one order per seller the view counted, whatever other
  transactions did between the charge and the orders.\<close>

theorem checkout_charges_the_cart_total:
  assumes "distinct (map ct_id (carts s))" "distinct (map ct_userId (carts s))" "c \<in> set (carts s)"
    and "co_cartItemIds dto = None" "co_auctionId dto = None" "co_offerAcceptToken dto = None"
    and "checkout report verify between s now session paymentId orderId shipmentId (ct_userId c) dto
       = (s', msgs, Inr r)"
  shows "rc_total r = cv_total (buildCartView s (ct_id c)) \<and>
     list_all (\<lambda>l. cl_issue l = None) (cv_items (buildCartView s (ct_id c))) \<and>
     length (rc_orders r) = cv_sellerCount (buildCartView s (ct_id c)) \<and>
     sum_list (map pl_quantity (projr (snd (price_lines verify s now (ct_userId c) dto))))
       = cv_itemCount (buildCartView s (ct_id c))"
  using assms(7)
proof (cases rule: checkout_cases)
  case (placed s1 ls os ns)
  then have "priceCart s (ct_userId c) None = Inr ls"
    using assms(4-6) by (auto simp: price_lines_def)
  then obtain xs where xs: "ls = map cart_line_of xs" "collectCheckoutIssues (ct_userId c) xs = []"
      "xs = List.map_filter (with_product s) (sort_key ci_id (filter (in_cart_of s (ct_userId c)) (cartItems s)))"
    by (rule priceCart_Inr)
  have items: "filter (in_cart_of s (ct_userId c)) (cartItems s) = filter (\<lambda>i. ci_cartId i = ct_id c) (cartItems s)"
    by (rule filter_cong [OF refl]) (rule in_cart_of_own [OF assms(1-3)])
  have view: "cv_items (buildCartView s (ct_id c)) = map (buildLine s) xs"
    "cv_total (buildCartView s (ct_id c)) = dec_sum (map (\<lambda>l. lt_subtotal (cl_total l)) (map (buildLine s) xs))"
    "cv_sellerCount (buildCartView s (ct_id c)) = length (set_of (map cl_sellerId (map (buildLine s) xs)))"
    "cv_itemCount (buildCartView s (ct_id c)) = sum_list (map cl_quantity (map (buildLine s) xs))"
    by (simp_all add: buildCartView_def Let_def xs(3) items)
  have same: "lt_subtotal (cl_total (buildLine s x)) = pl_subtotal (cart_line_of x)"
    "cl_sellerId (buildLine s x) = pl_sellerId (cart_line_of x)"
    "cl_quantity (buildLine s x) = pl_quantity (cart_line_of x)" for x
    by (simp_all add: buildLine_def cart_line_of_def Let_def split_beta)
  have "\<forall>x \<in> set xs. line_issue (ct_userId c) x = None"
    using xs(2) by (auto simp: collectCheckoutIssues_def List.map_filter_def filter_empty_conv)
  then have "list_all (\<lambda>l. cl_issue l = None) (map (buildLine s) xs)"
    by (auto simp: list_all_iff intro: no_issue_iff)
  moreover have "length os = length (set_of (map pl_sellerId ls))"
    using runOrderTransaction_orders(1) [OF placed(2)] by (simp add: groupBySeller_eq)
  ultimately show ?thesis
    using placed(1,3) by (simp add: view same xs(1) comp_def)
qed simp_all

theorem checkout_charges_the_cart_total_witness:
  "\<exists>r. snd (snd (run_checkout shop3)) = Inr r \<and> rc_total r = 30000 \<and>
     rc_total r = cv_total (buildCartView shop3 40) \<and> length (rc_orders r) = 1"
proof -
  have c: "distinct (map ct_id (carts shop3))" "distinct (map ct_userId (carts shop3))"
    "map (\<lambda>c. (ct_id c, ct_userId c)) (carts shop3) = [(40, 20)]"
    "\<not> isl (snd (snd (run_checkout shop3)))" "cv_total (buildCartView shop3 40) = 30000"
    "cv_sellerCount (buildCartView shop3 40) = 1"
    by code_simp+
  obtain k where k: "k \<in> set (carts shop3)" "ct_id k = 40" "ct_userId k = 20" using c(3) by auto
  obtain r where r: "snd (snd (run_checkout shop3)) = Inr r" using c(4) by (cases "snd (snd (run_checkout shop3))") auto
  then have "run_checkout shop3 = (fst (run_checkout shop3), fst (snd (run_checkout shop3)), Inr r)"
    by (simp add: prod_eq_iff)
  then have "rc_total r = cv_total (buildCartView shop3 40) \<and> length (rc_orders r) = cv_sellerCount (buildCartView shop3 40)"
    using checkout_charges_the_cart_total [OF c(1,2) k(1), of shop_checkout TargetList shop_verify id 200 70 71] k(2,3)
    unfolding run_checkout_def by (auto simp: shop_checkout_def)
  then show ?thesis using r c(5,6) by auto
qed

section \<open>Lots and agreed prices\<close>

lemma item_of_line:
  assumes "l \<in> set ls"
  shows "\<exists>j. item_of (oc_orderId c j) l \<in> set (concat (map (items_of_group c) (enumerate k (groupBySeller ls))))"
proof -
  let ?g = "(pl_sellerId l, filter (\<lambda>m. pl_sellerId m = pl_sellerId l) ls)"
  have "?g \<in> set (groupBySeller ls)" using assms by (simp add: groupBySeller_eq)
  then have "?g \<in> snd ` set (enumerate k (groupBySeller ls))"
    by (metis list.set_map map_snd_enumerate)
  then obtain j where "(j, ?g) \<in> set (enumerate k (groupBySeller ls))" by force
  moreover have "item_of (oc_orderId c j) l \<in> set (items_of_group c (j, ?g))"
    using assms by (auto simp: items_of_group_def)
  ultimately show ?thesis unfolding set_concat set_map by blast
qed

lemma lot_written:
  assumes "list_ex (\<lambda>l. pl_auctionId l = Some aid) ls"
  shows "aid \<in> set (lots_of (concat (map (items_of_group c) (enumerate k (groupBySeller ls)))))"
proof -
  obtain l where l: "l \<in> set ls" "pl_auctionId l = Some aid" using assms by (auto simp: list_ex_iff)
  obtain j where "item_of (oc_orderId c j) l \<in> set (concat (map (items_of_group c) (enumerate k (groupBySeller ls))))"
    using item_of_line [OF l(1)] by blast
  moreover have "oi_auctionId (item_of (oc_orderId c j) l) = Some aid" by (simp add: item_of_def l(2))
  ultimately show ?thesis unfolding lots_of_def List.map_filter_def by force
qed

lemma paid_lot_refused:
  assumes inv: "shop_inv s" and paid: "has_order_item s aid" and l: "list_ex (\<lambda>l. pl_auctionId l = Some aid) ls"
  shows "runOrderTransaction report c ls s = Inl (Conflict (AuctionPaidMeanwhile (oc_session c)))"
proof (cases "order_loop report c 0 (groupBySeller ls) s")
  case (Inr r)
  obtain s1 os where r: "r = (s1, os)" by fastforce
  note w = order_loop_Inr [OF Inr [unfolded r]]
  have "lots_once s" using inv by (simp add: shop_inv_def receipts_ok_def lots_once_def)
  then have "lots_once s1" using w by blast
  then have "distinct (lots_of (orderItems s1))" by (simp only: lots_once_def)
  moreover have "orderItems s1 = orderItems s @ concat (map (items_of_group c) (enumerate 0 (groupBySeller ls)))"
    using w by (simp add: with_orders_def)
  ultimately have False using lot_written [OF l, of c 0] paid by (auto simp: has_order_item_iff)
  then show ?thesis ..
next
  case (Inl e)
  then show ?thesis using order_loop_Inl [OF Inl] by (auto simp: runOrderTransaction_def writeOrders_def)
qed

lemma once_of_distinct_lots:
  "distinct (lots_of t) \<Longrightarrow> length (filter (\<lambda>i. oi_auctionId i = Some aid) t) = (if aid \<in> set (lots_of t) then 1 else 0)"
  by (induction t) (auto simp: lots_of_def List.map_filter_simps split: option.splits)

text \<open>C15: a lot is paid for once. Once an order for a won auction has committed, at any later time
  the auction has exactly one order item, pricing it for anybody is refused, and an order
  transaction that still carries it (priced before, charged meanwhile) is refused whole, naming its
  checkout session.\<close>

theorem lot_is_paid_for_once:
  assumes "shop_init s0" "(shop_step verify)\<^sup>*\<^sup>* s0 s" "lines_ok ls" "fresh_ids c (length (groupBySeller ls)) s"
    and "list_ex (\<lambda>l. pl_auctionId l = Some aid) ls" "runOrderTransaction report c ls s = Inr (s1, os, ns)"
    and "(shop_step verify)\<^sup>*\<^sup>* s1 s2" "list_ex (\<lambda>l. pl_auctionId l = Some aid) ls2"
  shows "length (filter (\<lambda>i. oi_auctionId i = Some aid) (orderItems s2)) = 1 \<and> isl (priceAuction s2 u aid) \<and>
     runOrderTransaction report2 c2 ls2 s2 = Inl (Conflict (AuctionPaidMeanwhile (oc_session c2)))"
proof -
  have inv: "shop_inv s" by (rule shop.reachable_inv [OF assms(1,2)])
  have "shop_inv s1"
    using shop_step_inv [OF inv shop_step.order] assms(3,4,6) by blast
  then have inv2: "shop_inv s2" using shop.steps_inv [OF assms(7)] by blast
  have "aid \<in> set (lots_of (orderItems s1))"
    using lot_written [OF assms(5)] by (simp add: runOrderTransaction_orders(3) [OF assms(6)])
  moreover have "prefix (orderItems s1) (orderItems s2)"
    using shop_steps_books [OF assms(7)] by (simp add: books_grow_def)
  ultimately have paid: "has_order_item s2 aid" by (auto simp: has_order_item_iff prefix_def)
  have "distinct (lots_of (orderItems s2))" using inv2 by (simp add: shop_inv_def receipts_ok_def)
  then have "length (filter (\<lambda>i. oi_auctionId i = Some aid) (orderItems s2)) = 1"
    using once_of_distinct_lots paid by (simp add: has_order_item_iff)
  moreover have "isl (priceAuction s2 u aid)"
    using paid by (auto simp: priceAuction_def split: option.splits)
  ultimately show ?thesis using paid_lot_refused [OF inv2 paid assms(8)] by blast
qed

definition shop_lot :: "priced_line list" where
  "shop_lot = [\<lparr>pl_cartItemId = None, pl_productId = None, pl_auctionId = Some 5, pl_title = ascii ''Lamp'',
     pl_sellerId = 10, pl_quantity = 1, pl_unitPrice = 500, pl_subtotal = 500\<rparr>]"

theorem lot_is_paid_for_once_witness:
  "runOrderTransaction TargetList (shop_context\<lparr>oc_session := 99\<rparr>) shop_lot
     (shop_state shop3 (runOrderTransaction TargetList shop_context shop_lot shop3))
   = Inl (Conflict (AuctionPaidMeanwhile 99))"
proof -
  have l: "lines_ok shop_lot" "fresh_ids shop_context (length (groupBySeller shop_lot)) shop3"
    "list_ex (\<lambda>l. pl_auctionId l = Some 5) shop_lot"
    "\<not> isl (runOrderTransaction TargetList shop_context shop_lot shop3)"
    by code_simp+
  show ?thesis
  proof (rule shop_stateE [OF l(4), of shop3])
    fix v assume "runOrderTransaction TargetList shop_context shop_lot shop3
      = Inr (shop_state shop3 (runOrderTransaction TargetList shop_context shop_lot shop3), v)"
    then have v: "runOrderTransaction TargetList shop_context shop_lot shop3
      = Inr (shop_state shop3 (runOrderTransaction TargetList shop_context shop_lot shop3), fst v, snd v)" by simp
    show ?thesis
      using lot_is_paid_for_once [OF shop_init0 shop_reachable(1) l(1,2,3) v rtranclp.rtrancl_refl l(3),
          of 20 TargetList "shop_context\<lparr>oc_session := 99\<rparr>"] by simp
  qed
qed

text \<open>C16: an agreed price is used once. After an accept token has been redeemed (whether or not the
  payment then succeeded), at any later time no token for the same offer is redeemed again, however
  many were signed for it.\<close>

theorem agreed_price_is_used_once:
  assumes "shop_init s0" "(shop_step verify)\<^sup>*\<^sup>* s0 s" "0 \<le> now" "0 \<le> now'"
    and "verifyAndConsumeAcceptToken verify s now token = Inr (s1, p)" "(shop_step verify)\<^sup>*\<^sup>* s1 s2"
    and "verify now' token' = Some q" "ap_offerId q = ap_offerId p"
  shows "isl (verifyAndConsumeAcceptToken verify s2 now' token')"
proof (rule ccontr)
  assume "\<not> isl (verifyAndConsumeAcceptToken verify s2 now' token')"
  then obtain s3 q' where v: "verifyAndConsumeAcceptToken verify s2 now' token' = Inr (s3, q')"
    by (cases "verifyAndConsumeAcceptToken verify s2 now' token'") auto
  then have q': "q' = q" using verifyAndConsume_Inr(3) assms(7) by fastforce
  have "redeem verify s (now, token) = Some (s1, ap_offerId p)" "redeem verify s2 (now', token') = Some (s3, ap_offerId q)"
    using assms(3-5) v q' by (simp_all add: redeem_def)
  from shop.redeemed_once [OF shop.reachable_inv [OF assms(1,2)] this(1) assms(6) this(2)] assms(8)
  show False by simp
qed

theorem agreed_price_is_used_once_witness:
  "isl (verifyAndConsumeAcceptToken shop_verify
     (shop_state shop3 (verifyAndConsumeAcceptToken shop_verify shop3 150
        (shop_sign 100 \<lparr>ap_offerId = 60, ap_productId = 7, ap_buyerId = 21\<rparr>))) 160
     (shop_sign 120 \<lparr>ap_offerId = 60, ap_productId = 7, ap_buyerId = 21\<rparr>))"
proof -
  let ?p = "\<lparr>ap_offerId = 60, ap_productId = 7, ap_buyerId = 21\<rparr>"
  have ok: "\<not> isl (verifyAndConsumeAcceptToken shop_verify shop3 150 (shop_sign 100 ?p))"
    "shop_verify 150 (shop_sign 100 ?p) = Some ?p" "shop_verify 160 (shop_sign 120 ?p) = Some ?p"
    by code_simp+
  show ?thesis
  proof (rule shop_stateE [OF ok(1), of shop3])
    fix v assume v: "verifyAndConsumeAcceptToken shop_verify shop3 150 (shop_sign 100 ?p)
      = Inr (shop_state shop3 (verifyAndConsumeAcceptToken shop_verify shop3 150 (shop_sign 100 ?p)), v)"
    have "v = ?p" using verifyAndConsume_Inr(3) [OF v] ok(2) by simp
    then show ?thesis
      using agreed_price_is_used_once [OF shop_init0 shop_reachable(1) _ _ v rtranclp.rtrancl_refl ok(3)] by simp
  qed
qed

section \<open>Parcels\<close>

text \<open>Where a parcel can still be, given where it is.\<close>

fun still_ahead :: "shipment_status \<Rightarrow> shipment_status list" where
  "still_ahead PROCESSING = [PROCESSING, SHIPPED, IN_TRANSIT, DELIVERED, S_CANCELLED]"
| "still_ahead SHIPPED = [SHIPPED, IN_TRANSIT, DELIVERED]"
| "still_ahead IN_TRANSIT = [IN_TRANSIT, DELIVERED]"
| "still_ahead DELIVERED = [DELIVERED]"
| "still_ahead S_CANCELLED = [S_CANCELLED]"

lemma transitions_ahead: "canTransition\<^sup>*\<^sup>* a b \<Longrightarrow> b \<in> set (still_ahead a)"
proof (induction rule: rtranclp_induct)
  case base
  then show ?case by (cases a) simp_all
next
  case (step b c)
  then show ?case by (cases a; cases b) (auto simp: canTransition_def)
qed

text \<open>C24: a parcel only moves forward. Between any two reachable states a parcel belongs to the same
  order and its status is the same or a later one; once delivered or cancelled it stays so, and
  once it has shipped it is never cancelled.\<close>

theorem parcels_only_move_forward:
  assumes "shop_init s0" "(shop_step verify)\<^sup>*\<^sup>* s0 s" "(shop_step verify)\<^sup>*\<^sup>* s s'"
    and "h \<in> set (shipments s)" "h' \<in> set (shipments s')" "sh_id h' = sh_id h"
  shows "sh_orderId h' = sh_orderId h \<and> sh_status h' \<in> set (still_ahead (sh_status h))"
proof -
  have inv: "shop_inv s'" by (rule shop.steps_inv [OF assms(3) shop.reachable_inv [OF assms(1,2)]])
  obtain g where g: "g \<in> set (shipments s')" "ship_key g = ship_key h" "canTransition\<^sup>*\<^sup>* (sh_status h) (sh_status g)"
    using shop_steps_books [OF assms(3)] assms(4) unfolding books_grow_def parcels_move_def by blast
  have "distinct (map sh_id (shipments s'))" using inv by (simp add: shop_inv_def parcels_ok_def)
  then have "h' = g" using distinct_key_unique assms(5,6) g(1,2) by (metis Pair_inject ship_key_def)
  then show ?thesis using g(2,3) transitions_ahead by (simp add: ship_key_def)
qed

theorem parcels_only_move_forward_witness:
  "map sh_status (shipments shop4) = [PROCESSING] \<and> map sh_status (shipments shop5) = [S_CANCELLED] \<and>
   sh_orderId (hd (shipments shop5)) = sh_orderId (hd (shipments shop4))"
proof -
  have h: "hd (shipments shop4) \<in> set (shipments shop4)" "hd (shipments shop5) \<in> set (shipments shop5)"
    "sh_id (hd (shipments shop5)) = sh_id (hd (shipments shop4))"
    "map sh_status (shipments shop4) = [PROCESSING]" "map sh_status (shipments shop5) = [S_CANCELLED]"
    by code_simp+
  have "(shop_step shop_verify)\<^sup>*\<^sup>* shop4 shop5" using shop_steps(5) by blast
  from parcels_only_move_forward [OF shop_init0 shop_reachable(2) this h(1-3)] h(4,5) show ?thesis by blast
qed

lemma key_found:
  assumes "prefix (map k t) (map k t')" "distinct (map i t')" "\<And>x y. k x = k y \<Longrightarrow> i x = i y" "x \<in> set t"
  obtains y where "y \<in> set t'" "k y = k x" "find (\<lambda>z. i z = i x) t' = Some y"
proof -
  have "k x \<in> set (map k t')" using set_mono_prefix [OF assms(1)] assms(4) by auto
  then obtain y where y: "y \<in> set t'" "k y = k x" by auto
  have "find (\<lambda>z. i z = i x) t' = Some y"
    by (rule find_key_eq [where k = i, OF assms(2) y(1)]) (use assms(3) [OF y(2)] in simp_all)
  then show thesis using that y by blast
qed

lemma loadOrderParties_Inr:
  "loadOrderParties s oid u = Inr (x, h) \<longleftrightarrow>
     find_order s oid = Some x \<and> (or_buyerId x = u \<or> or_sellerId x = u) \<and> shipment_of s oid = Some h"
  by (auto simp: loadOrderParties_def split: option.splits)

lemma shipment_of_inv:
  assumes "shop_inv s"
  shows "distinct (map or_id (orders s))" "distinct (map sh_id (shipments s))" "distinct (map sh_orderId (shipments s))"
  using assms by (auto simp: shop_inv_def parcels_ok_def)

lemma buildNotifications_key: "order_key x = order_key y \<Longrightarrow> buildNotifications x nxt = buildNotifications y nxt"
  by (simp add: buildNotifications_def order_key_def)

text \<open>Shipping is serialisable, and only the seller ships. The update checks the order and the
  parcel it read and writes only if the parcel still has the status it read; whatever committed in
  between, an update that commits is the one that would have run alone on the state it wrote, with
  the same answer and the same notifications; there the order is the caller's own sale and the
  parcel's status allows the next one.\<close>

theorem shipment_update_serialises:
  assumes "shop_init s0" "(shop_step verify)\<^sup>*\<^sup>* s0 rd" "(shop_step verify)\<^sup>*\<^sup>* rd wr"
    and "updateShipmentStatus rd wr now tracking oid u nxt = Inr (s', msgs, g)"
  shows "updateShipmentStatus wr wr now tracking oid u nxt = Inr (s', msgs, g) \<and>
     (\<exists>x h. find_order wr oid = Some x \<and> or_sellerId x = u \<and> shipment_of wr oid = Some h \<and>
        nxt \<in> set (SHIPMENT_TRANSITIONS (sh_status h)))"
proof -
  have inv: "shop_inv rd" by (rule shop.reachable_inv [OF assms(1,2)])
  have inv': "shop_inv wr" by (rule shop.steps_inv [OF assms(3) inv])
  note d = shipment_of_inv [OF inv'] and b = shop_steps_books [OF assms(3), unfolded books_grow_def]
  obtain x h where xh: "loadOrderParties rd oid u = Inr (x, h)" "or_sellerId x = u" "canTransition (sh_status h) nxt"
      "count_rows (at_status (sh_id h) (sh_status h)) (shipments wr) = 1"
    by (rule updateShipmentStatus_Inr [OF assms(4)])
  have rd: "x \<in> set (orders rd)" "or_id x = oid" "h \<in> set (shipments rd)" "sh_orderId h = oid"
    using xh(1) by (auto simp: loadOrderParties_Inr find_order_def shipment_of_def dest!: find_SomeD)
  obtain y where y: "order_key y = order_key x" "find (\<lambda>z. or_id z = or_id x) (orders wr) = Some y"
    using key_found [where k = order_key and i = or_id, OF _ d(1) _ rd(1)] b by (auto simp: order_key_def)
  obtain k where k: "k \<in> set (shipments wr)" "ship_key k = ship_key h"
      "find (\<lambda>z. sh_orderId z = sh_orderId h) (shipments wr) = Some k"
    using key_found [where k = ship_key and i = sh_orderId, OF _ d(3) _ rd(3)] b by (auto simp: ship_key_def)
  obtain j where j: "j \<in> set (shipments wr)" "at_status (sh_id h) (sh_status h) j"
    using count_rows_one xh(4) by fastforce
  then have "j = k" using distinct_key_unique [OF d(2) j(1) k(1)] k(2) by (simp add: at_status_def ship_key_def)
  then have same: "sh_status k = sh_status h" "sh_id k = sh_id h" using j(2) by (simp_all add: at_status_def)
  have keys: "or_id y = or_id x" "or_sellerId y = or_sellerId x" "or_buyerId y = or_buyerId x"
    using y(1) by (simp_all add: order_key_def)
  have load: "loadOrderParties wr oid u = Inr (y, k)"
    using xh(1,2) y(2) k(3) rd keys by (simp add: loadOrderParties_Inr find_order_def shipment_of_def)
  have "updateShipmentStatus wr wr now tracking oid u nxt = updateShipmentStatus rd wr now tracking oid u nxt"
    unfolding updateShipmentStatus_def load xh(1) sum.case prod.case keys same buildNotifications_key [OF y(1)] ..
  then show ?thesis
    using assms(4) load xh(2,3) keys same by (auto simp: loadOrderParties_Inr canTransition_def)
qed

theorem shipment_update_serialises_witness:
  "\<not> isl (updateShipmentStatus shop4 (shop4\<lparr>carts := []\<rparr>) 300 (ascii ''T'', ascii ''C'') 80 10 SHIPPED) \<and>
   updateShipmentStatus shop4 (shop4\<lparr>carts := []\<rparr>) 300 (ascii ''T'', ascii ''C'') 80 10 SHIPPED
     = updateShipmentStatus (shop4\<lparr>carts := []\<rparr>) (shop4\<lparr>carts := []\<rparr>) 300 (ascii ''T'', ascii ''C'') 80 10 SHIPPED"
proof -
  let ?r = "updateShipmentStatus shop4 (shop4\<lparr>carts := []\<rparr>) 300 (ascii ''T'', ascii ''C'') 80 10 SHIPPED"
  have ok: "\<not> isl ?r" by code_simp
  have "(shop_step shop_verify)\<^sup>*\<^sup>* shop4 (shop4\<lparr>carts := []\<rparr>)"
    by (rule r_into_rtranclp, rule shop_step.elsewhere) simp_all
  moreover obtain v where "?r = Inr (fst v, fst (snd v), snd (snd v))" using ok by (cases ?r) auto
  ultimately show ?thesis
    using shipment_update_serialises [OF shop_init0 shop_reachable(2)] ok by metis
qed

section \<open>Cancelling undoes the sale\<close>

lemma order_product_items_append:
  "oid \<notin> oi_orderId ` set (orderItems s) \<Longrightarrow> orderItems s' = orderItems s @ map (item_of oid) ls \<Longrightarrow>
   order_product_items s' oid = map (\<lambda>l. (fst l, pl_quantity (snd l))) (product_lines ls)"
proof -
  assume a: "oid \<notin> oi_orderId ` set (orderItems s)" "orderItems s' = orderItems s @ map (item_of oid) ls"
  have old: "List.map_filter (\<lambda>i. if oi_orderId i = oid then map_option (\<lambda>pid. (pid, oi_quantity i)) (oi_productId i)
      else None) (orderItems s) = []"
    using a(1) by (auto simp: List.map_filter_def filter_empty_conv split: if_splits)
  have new: "List.map_filter (\<lambda>i. if oi_orderId i = oid then map_option (\<lambda>pid. (pid, oi_quantity i)) (oi_productId i)
      else None) (map (item_of oid) ls) = map (\<lambda>l. (fst l, pl_quantity (snd l))) (product_lines ls)"
    by (induction ls) (auto simp: product_lines_def List.map_filter_simps item_of_def split: option.splits)
  have "List.map_filter f (xs @ ys) = List.map_filter f xs @ List.map_filter f ys" for f :: "order_item_row \<Rightarrow> (uuid \<times> int) option" and xs ys
    by (simp add: List.map_filter_def)
  then show ?thesis unfolding order_product_items_def a(2) by (simp only: old new append_Nil)
qed

lemma returned_wanted: "returned (map (\<lambda>l. (fst l, pl_quantity (snd l))) ls) pid = wanted ls pid"
  by (induction ls) (auto simp: returned_def wanted_def)

lemma one_seller_group: "ls \<noteq> [] \<Longrightarrow> \<forall>l \<in> set ls. pl_sellerId l = u \<Longrightarrow> groupBySeller ls = [(u, ls)]"
proof (induction ls rule: rev_induct)
  case (snoc l ls)
  then show ?case by (cases "ls = []") (simp_all add: groupBySeller_def group_add_def)
qed simp

lemma return_undoes_sale:
  assumes "stock_ok p"
    and "pr_id p \<in> fst ` set ls \<Longrightarrow> pr_status p = P_ACTIVE \<and> wanted ls (pr_id p) \<le> pr_stockQty p"
    and "q = after_return t (map (\<lambda>l. (fst l, pl_quantity (snd l))) ls) (after_sale now ls p)"
  shows "(pr_id q, pr_stockQty q, pr_status q) = (pr_id p, pr_stockQty p, pr_status p)"
proof (cases "pr_id p \<in> fst ` set ls")
  case False
  then have "after_sale now ls p = p" by (rule after_sale_row) simp
  moreover have "after_return t (map (\<lambda>l. (fst l, pl_quantity (snd l))) ls) p = p"
    using False by (auto simp: after_return_def given_def back_on_sale_def Let_def image_image)
  ultimately show ?thesis using assms(3) by simp
next
  case True
  then have ids: "pr_id p \<in> set (map fst (map (\<lambda>l. (fst l, pl_quantity (snd l))) ls))" by auto
  have p: "pr_status p = P_ACTIVE" "0 < pr_stockQty p" "wanted ls (pr_id p) \<le> pr_stockQty p"
    using assms(2) [OF True] assms(1) by (auto simp: stock_ok_def)
  show ?thesis
    using assms(3) p ids True
    by (auto simp: after_return_def after_sale_def Let_def back_on_sale_def sold_out_row_def returned_wanted)
qed

text \<open>C23: cancelling a parcel undoes its sale on the shelf. When everything of a checkout was bought
  from one seller and that seller cancels the parcel before anything else happens to the listings,
  every listing has the stock and the status it had before the checkout; the order is marked
  cancelled and its items stay on record.\<close>

theorem cancelling_undoes_the_sale:
  assumes "shop_init s0" "(shop_step verify)\<^sup>*\<^sup>* s0 s" "lines_ok ls" "ls \<noteq> []" "\<forall>l \<in> set ls. pl_sellerId l = u"
    and "oc_orderId c 0 \<notin> oi_orderId ` set (orderItems s)" "fresh_ids c 1 s"
    and "runOrderTransaction report c ls s = Inr (s1, os, ns)"
    and "updateShipmentStatus s1 s1 now tracking (oc_orderId c 0) u S_CANCELLED = Inr (s2, msgs, g)"
  shows "map (\<lambda>p. (pr_id p, pr_stockQty p, pr_status p)) (products s2)
       = map (\<lambda>p. (pr_id p, pr_stockQty p, pr_status p)) (products s) \<and>
     map or_status (orders s2) = map or_status (orders s) @ [O_CANCELLED] \<and>
     orderItems s2 = orderItems s @ map (item_of (oc_orderId c 0)) ls"
proof -
  have inv: "shop_inv s" by (rule shop.reachable_inv [OF assms(1,2)])
  then have d: "distinct (map pr_id (products s))" and ok: "\<forall>p \<in> set (products s). stock_ok p"
    by (simp_all add: shop_inv_def shelf_ok_def)
  note r = runOrderTransaction_Inr [OF assms(8) d assms(3)] and w = runOrderTransaction_orders [OF assms(8)]
  have g1: "groupBySeller ls = [(u, ls)]" by (rule one_seller_group [OF assms(4,5)])
  have items: "orderItems s1 = orderItems s @ map (item_of (oc_orderId c 0)) ls"
    by (simp add: w(3) g1 items_of_group_def)
  have opi: "order_product_items s1 (oc_orderId c 0) = map (\<lambda>l. (fst l, pl_quantity (snd l))) (product_lines ls)"
    by (rule order_product_items_append [OF assms(6) items])
  have st: "products s2 = map (after_return now (order_product_items s1 (oc_orderId c 0))) (products s1)"
    "orders s2 = map_rows (\<lambda>x. or_id x = oc_orderId c 0) (\<lambda>x. x\<lparr>or_status := O_CANCELLED\<rparr>) (orders s1)"
    "orderItems s2 = orderItems s1"
    by (rule updateShipmentStatus_Inr [OF assms(9)], simp)+
  have p1: "products s1 = map (after_sale (oc_now c) (product_lines ls)) (products s)"
    by (simp add: r(1) after_orders_def)
  have "map (\<lambda>p. (pr_id p, pr_stockQty p, pr_status p)) (products s2)
      = map (\<lambda>p. (pr_id p, pr_stockQty p, pr_status p)) (products s)"
    unfolding st(1) opi p1 map_map
    by (rule map_cong [OF refl], unfold comp_def) (rule return_undoes_sale [OF bspec [OF ok] r(5) refl])
  moreover have "or_id x \<noteq> oc_orderId c 0" if "x \<in> set (orders s)" for x
    using assms(7) that by (force simp: fresh_ids_def)
  then have "map or_status (orders s2) = map or_status (orders s) @ [O_CANCELLED]"
    by (auto simp: st(2) w(2) g1 map_rows_def order_row_of_def)
  ultimately show ?thesis using items st(3) by simp
qed

theorem cancelling_undoes_the_sale_witness:
  "map (\<lambda>p. (pr_id p, pr_stockQty p, pr_status p)) (products shop4) = [(7, 0, P_OUT_OF_STOCK)] \<and>
   map (\<lambda>p. (pr_id p, pr_stockQty p, pr_status p)) (products shop5)
     = map (\<lambda>p. (pr_id p, pr_stockQty p, pr_status p)) (products shop3)"
proof -
  have l: "lines_ok shop_lines" "shop_lines \<noteq> []" "list_all (\<lambda>l. pl_sellerId l = 10) shop_lines"
    "oc_orderId shop_context 0 \<notin> oi_orderId ` set (orderItems shop3)" "fresh_ids shop_context 1 shop3"
    "map (\<lambda>p. (pr_id p, pr_stockQty p, pr_status p)) (products shop4) = [(7, 0, P_OUT_OF_STOCK)]"
    "oc_orderId shop_context 0 = 80"
    by code_simp+
  obtain v where v: "runOrderTransaction TargetList shop_context shop_lines shop3 = Inr (shop4, v)"
    using shop_stateE [OF shop_ok(2), of shop3] shop4_def by metis
  obtain w where w: "updateShipmentStatus shop4 shop4 300 (ascii ''T'', ascii ''C'') 80 10 S_CANCELLED = Inr (shop5, w)"
    using shop_stateE [OF shop_ok(3), of shop4] shop5_def by metis
  have "\<forall>l \<in> set shop_lines. pl_sellerId l = 10" using l(3) by (simp add: list_all_iff)
  from cancelling_undoes_the_sale [OF shop_init0 shop_reachable(1) l(1,2) this l(4,5),
      of TargetList shop4 "fst v" "snd v" 300 "(ascii ''T'', ascii ''C'')" shop5 "fst w" "snd w"] v w l(6,7)
  show ?thesis by simp
qed

section \<open>Listings\<close>

text \<open>A suspension binds the seller. While a listing is suspended every change its owner can ask
  for (editing, pausing or resuming, restocking, removing, adding or removing a picture) is refused
  with the same answer, and nothing is written.\<close>

theorem suspended_listing_is_frozen:
  assumes "find_product s pid = Some p" "pr_sellerId p = u" "pr_status p = P_SUSPENDED"
  shows "update s s now pid u dto = Inl (Forbidden ProductSuspended) \<and>
     updateStatus s s now pid u active = Inl (Forbidden ProductSuspended) \<and>
     updateStock s s now pid u q = Inl (Forbidden ProductSuspended) \<and>
     remove s s now pid u = Inl (Forbidden ProductSuspended) \<and>
     addImage s s imgId pid u upload = (s, [], Inl (Forbidden ProductSuspended)) \<and>
     removeImage s s pid u imageId = (s, [], Inl (Forbidden ProductSuspended))"
  using assms
  by (simp add: update_def updateStatus_def updateStock_def remove_def addImage_def removeImage_def
      findOwnedProduct_def assertNotSuspended_def assertImagesAreEditable_def)

definition shop_suspended :: db where
  "shop_suspended = shop_state shop2 (deactivate shop2 shop2 90 7 99 (ascii ''x''))"

definition shop_edit :: update_product_dto where
  "shop_edit = \<lparr>up_title = Some (ascii ''Cup''), up_description = None, up_categoryId = None, up_price = None,
     up_stockQty = None, up_condition = None, up_negotiationFloor = None, up_quantityDiscountMinQty = None,
     up_quantityDiscountPercent = None\<rparr>"

theorem suspended_listing_is_frozen_witness:
  "updateStatus shop_suspended shop_suspended 95 7 10 True = Inl (Forbidden ProductSuspended) \<and>
   remove shop_suspended shop_suspended 95 7 10 = Inl (Forbidden ProductSuspended)"
proof -
  have "map_option (\<lambda>p. (pr_sellerId p, pr_status p)) (find_product shop_suspended 7) = Some (10, P_SUSPENDED)"
    by code_simp
  then obtain p where "find_product shop_suspended 7 = Some p" "pr_sellerId p = 10" "pr_status p = P_SUSPENDED"
    by auto
  from suspended_listing_is_frozen [OF this] show ?thesis by blast
qed

text \<open>As it is written, a seller's edit overwrites what came between its check and its write,
  since the write is unguarded. An edit or a resume that read the listing before an admin suspended
  it puts it back on sale; and an edit of the title that read the listing in stock and writes after
  the last unit was sold leaves it on sale with nothing in stock.\<close>

theorem seller_edits_overwrite_what_came_between:
  "(shop_step shop_verify)\<^sup>*\<^sup>* shop0 shop_suspended \<and>
   map pr_status (products shop_suspended) = [P_SUSPENDED] \<and>
   map pr_status (products (shop_state shop2 (updateStatus shop2 shop_suspended 91 7 10 True))) = [P_ACTIVE] \<and>
   map pr_status (products (shop_state shop2 (update shop2 shop_suspended 91 7 10 shop_edit))) = [P_ACTIVE] \<and>
   map (\<lambda>p. (pr_stockQty p, pr_status p)) (products shop4) = [(0, P_OUT_OF_STOCK)] \<and>
   map (\<lambda>p. (pr_stockQty p, pr_status p)) (products (shop_state shop3 (update shop3 shop4 210 7 10 shop_edit)))
     = [(0, P_ACTIVE)]"
proof -
  have ok: "\<not> isl (deactivate shop2 shop2 90 7 99 (ascii ''x''))" by code_simp
  have "shop_step shop_verify shop2 shop_suspended"
  proof (rule shop_stateE [OF ok, of shop2], fold shop_suspended_def)
    fix v assume "deactivate shop2 shop2 90 7 99 (ascii ''x'') = Inr (shop_suspended, v)"
    then show ?thesis by (rule shop_step.suspend)
  qed
  moreover have "(shop_step shop_verify)\<^sup>*\<^sup>* shop0 shop2"
    using shop_steps(1,2) by (meson rtranclp.rtrancl_refl rtranclp.rtrancl_into_rtrancl)
  moreover have "map pr_status (products shop_suspended) = [P_SUSPENDED]"
    "map pr_status (products (shop_state shop2 (updateStatus shop2 shop_suspended 91 7 10 True))) = [P_ACTIVE]"
    "map pr_status (products (shop_state shop2 (update shop2 shop_suspended 91 7 10 shop_edit))) = [P_ACTIVE]"
    "map (\<lambda>p. (pr_stockQty p, pr_status p)) (products shop4) = [(0, P_OUT_OF_STOCK)]"
    "map (\<lambda>p. (pr_stockQty p, pr_status p)) (products (shop_state shop3 (update shop3 shop4 210 7 10 shop_edit)))
       = [(0, P_ACTIVE)]"
    by code_simp+
  ultimately show ?thesis by (meson rtranclp.rtrancl_into_rtrancl)
qed

section \<open>Offers\<close>

lemma recent_head:
  assumes "readRecentOffers s now u pid = x # xs" "y \<in> set (x # xs)"
  shows "of_createdAt y \<le> of_createdAt x"
proof -
  have "sorted (map (\<lambda>o'. - of_createdAt o') (x # xs))"
    using assms(1) unfolding readRecentOffers_def by (metis sorted_sort_key)
  then show ?thesis using assms(2) by auto
qed

lemma within_rate_limit:
  assumes "assertWithinRateLimit (readRecentOffers s now u pid) now = None"
    and "y \<in> set (offers s)" "of_buyerId y = u" "of_productId y = pid"
  shows "of_createdAt y \<le> now - COOLDOWN_MS"
proof (cases "y \<in> set (readRecentOffers s now u pid)")
  case False
  then show ?thesis
    using assms(2-4) by (auto simp: readRecentOffers_def ATTEMPT_WINDOW_MS_def COOLDOWN_MS_def)
next
  case True
  then obtain x xs where x: "readRecentOffers s now u pid = x # xs" by (cases "readRecentOffers s now u pid") auto
  have "of_createdAt x \<le> now - COOLDOWN_MS"
    using assms(1) by (auto simp: x assertWithinRateLimit_def Let_def split: if_splits)
  then show ?thesis using recent_head [OF x] True x by force
qed

text \<open>The secret floor cannot be searched for. An offer is taken up only for a listing on sale
  that is somebody else's and accepts offers; it is accepted only at or above the floor and when it
  is in stock; and unless it meets a price the negotiation itself proposed in the last day, it is at
  most the third in a day and comes at least five minutes after the buyer's previous offer for the
  listing.\<close>

theorem negotiation_is_paced:
  assumes "negotiate sign s now newId pid u qty amount = Inr (s', v)" "0 < amount" "amount \<le> 10 ^ 13"
    and "\<forall>p \<in> set (products s). \<forall>f. pr_negotiationFloor p = Some f \<longrightarrow> 0 < f \<and> f \<le> 10 ^ 13"
    and "\<forall>x \<in> set (offers s). \<forall>c. of_counterAmount x = Some c \<longrightarrow> 0 < c \<and> c \<le> 10 ^ 13"
  shows "(\<exists>p f. find_product s pid = Some p \<and> pr_status p = P_ACTIVE \<and> pr_sellerId p \<noteq> u \<and>
       pr_negotiationFloor p = Some f \<and> (ng_decision v = ACCEPTED \<longrightarrow> f \<le> amount \<and> qty \<le> pr_stockQty p)) \<and>
     ((\<exists>x \<in> set (offers s). \<exists>c. of_buyerId x = u \<and> of_productId x = pid \<and> of_decision x = COUNTERED \<and>
         now - ATTEMPT_WINDOW_MS < of_createdAt x \<and> of_counterAmount x = Some c \<and> c \<le> amount) \<or>
      length (readRecentOffers s now u pid) < MAX_ATTEMPTS_PER_WINDOW \<and>
      (\<forall>x \<in> set (offers s). of_buyerId x = u \<and> of_productId x = pid \<longrightarrow> of_createdAt x \<le> now - COOLDOWN_MS))"
proof -
  let ?recent = "readRecentOffers s now u pid"
  let ?out = "findOutstandingCounter ?recent"
  let ?meets = "case ?out of None \<Rightarrow> False | Some c \<Rightarrow> to_number amount \<ge> to_number c"
  obtain p f where p: "find_product s pid = Some p" "pr_status p = P_ACTIVE" "pr_sellerId p \<noteq> u"
      "pr_negotiationFloor p = Some f" "(if ?meets then None else assertWithinRateLimit ?recent now) = None"
      "ng_decision v = fst (decide amount f (pr_price p) qty (pr_stockQty p) ?out)"
    using assms(1) by (auto simp: negotiate_def Let_def split: option.splits if_splits prod.splits)
  have "p \<in> set (products s)" using p(1) by (auto simp: find_product_def dest: find_SomeD)
  then have f: "0 < f" "f \<le> 10 ^ 13" using assms(4) p(4) by blast+
  have "f \<le> amount \<and> qty \<le> pr_stockQty p" if "ng_decision v = ACCEPTED"
  proof -
    have "to_number f \<le> to_number amount \<and> qty \<le> pr_stockQty p"
      using that p(6) by (auto simp: decide_def Let_def split: if_splits)
    then show ?thesis using to_number_le_iff [of f amount] f assms(2,3) by auto
  qed
  moreover have "(\<exists>x \<in> set (offers s). \<exists>c. of_buyerId x = u \<and> of_productId x = pid \<and> of_decision x = COUNTERED \<and>
         now - ATTEMPT_WINDOW_MS < of_createdAt x \<and> of_counterAmount x = Some c \<and> c \<le> amount)" if m: "?meets"
  proof -
    obtain c where c: "?out = Some c" "to_number c \<le> to_number amount" using m by (auto split: option.splits)
    then obtain x where x: "find (\<lambda>o'. of_decision o' = COUNTERED \<and> of_counterAmount o' \<noteq> None) ?recent = Some x"
        "of_counterAmount x = Some c"
      by (auto simp: findOutstandingCounter_def bind_eq_Some_conv)
    from find_SomeD [OF x(1)] have y: "x \<in> set ?recent" "of_decision x = COUNTERED" by auto
    then have z: "x \<in> set (offers s)" "of_buyerId x = u" "of_productId x = pid" "now - ATTEMPT_WINDOW_MS < of_createdAt x"
      by (auto simp: readRecentOffers_def)
    have "0 < c \<and> c \<le> 10 ^ 13" using assms(5) z(1) x(2) by blast
    then have "c \<le> amount" using c(2) to_number_le_iff [of c amount] assms(2,3) by auto
    then show ?thesis using x(2) y(2) z by blast
  qed
  moreover have "length ?recent < MAX_ATTEMPTS_PER_WINDOW \<and>
      (\<forall>x \<in> set (offers s). of_buyerId x = u \<and> of_productId x = pid \<longrightarrow> of_createdAt x \<le> now - COOLDOWN_MS)"
    if "\<not> ?meets"
  proof -
    have a: "assertWithinRateLimit ?recent now = None" using p(5) that by (auto split: if_splits)
    then have "length ?recent < MAX_ATTEMPTS_PER_WINDOW"
      by (cases ?recent) (auto simp: assertWithinRateLimit_def Let_def MAX_ATTEMPTS_PER_WINDOW_def split: if_splits)
    then show ?thesis using within_rate_limit [OF a] by blast
  qed
  ultimately show ?thesis using p(1-4) by blast
qed

theorem negotiation_is_paced_witness:
  "length (readRecentOffers shop2 100 21 7) < MAX_ATTEMPTS_PER_WINDOW \<and>
   map_option pr_negotiationFloor (find_product shop2 7) = Some (Some 8000)"
proof -
  have "map pr_negotiationFloor (products shop2) = [Some 8000]" by code_simp
  then have "\<forall>p \<in> set (products shop2). \<forall>f. pr_negotiationFloor p = Some f \<longrightarrow> 0 < f \<and> f \<le> (10 ^ 13 :: int)"
    by auto
  then show ?thesis
    using negotiation_is_paced [OF shop3_negotiated] by (simp add: shop2_product)
qed

section \<open>Pictures of a listing\<close>

definition stored_keys :: "storage_key list \<Rightarrow> utext list" where
  "stored_keys ks = List.map_filter (\<lambda>k. case k of Stored x \<Rightarrow> Some x | Invented u r i \<Rightarrow> None) ks"

lemma stored_keys_simps [simp]:
  "stored_keys [] = []" "stored_keys (Stored x # ks) = x # stored_keys ks"
  "stored_keys (Invented u r i # ks) = stored_keys ks" "stored_keys (ks @ js) = stored_keys ks @ stored_keys js"
  by (simp_all add: stored_keys_def List.map_filter_def)

lemma set_stored_keys: "x \<in> set (stored_keys ks) \<longleftrightarrow> Stored x \<in> set ks"
  by (induction ks) (auto simp: stored_keys_def List.map_filter_simps split: storage_key.splits option.splits)

lemma claim_keys_stored:
  assumes "\<And>k. stored_keys [invented k] = []"
  shows "distinct (stored_keys (claim_keys invented k cs used)) \<and> length (claim_keys invented k cs used) = length cs \<and>
    (\<forall>x \<in> set (stored_keys (claim_keys invented k cs used)). Some x \<in> set cs \<and> x \<notin> set used)"
proof (induction cs arbitrary: k used)
  case (Cons c cs)
  have i: "stored_keys (invented k # ks) = stored_keys ks" for ks
    using assms [of k] by (cases "invented k") simp_all
  show ?case
  proof (cases c)
    case None
    then show ?thesis using Cons [of "Suc k" used] by (auto simp: i)
  next
    case (Some key)
    then show ?thesis using Cons [of "Suc k" "set_add used key"] by (auto simp: i set_add_def split: if_splits)
  qed
qed simp

lemma resolveImageKeys_claims:
  obtains cs used where "resolveImageKeys keyFromUrl render rnd s u urls
      = claim_keys (\<lambda>k. Invented u (rnd k) k) 0 cs used" "length cs = length urls"
    "\<And>x. Some x \<in> set cs \<Longrightarrow> starts_with (pendingPrefix render u) x \<and> (\<exists>url \<in> set urls. keyFromUrl url = Some x)"
    "\<And>x. Some x \<in> set cs \<Longrightarrow> Stored x \<in> im_storageKey ` set (productImages s) \<Longrightarrow> x \<in> set used"
proof -
  define cand where "cand url = (case keyFromUrl url of None \<Rightarrow> None
      | Some key \<Rightarrow> if starts_with (pendingPrefix render u) key then Some key else None)" for url
  define cs where "cs = map cand urls"
  define used where "used = filter (\<lambda>key. list_ex (\<lambda>i. im_storageKey i = Stored key) (productImages s)) (List.map_filter id cs)"
  have cand: "cand url = Some x \<Longrightarrow> starts_with (pendingPrefix render u) x \<and> keyFromUrl url = Some x" for url x
    by (auto simp: cand_def split: option.splits if_splits)
  show thesis
  proof (rule that [of cs used])
    show "resolveImageKeys keyFromUrl render rnd s u urls = claim_keys (\<lambda>k. Invented u (rnd k) k) 0 cs used"
      unfolding resolveImageKeys_def Let_def used_def cs_def cand_def ..
    show "length cs = length urls" by (simp add: cs_def)
    show "starts_with (pendingPrefix render u) x \<and> (\<exists>url \<in> set urls. keyFromUrl url = Some x)" if "Some x \<in> set cs" for x
      using that cand by (force simp: cs_def)
    show "x \<in> set used" if "Some x \<in> set cs" "Stored x \<in> im_storageKey ` set (productImages s)" for x
      using that by (force simp: used_def list_ex_iff List.map_filter_def)
  qed
qed

lemma resolveImageKeys_stored:
  "length (resolveImageKeys keyFromUrl render rnd s u urls) = length urls"
  "distinct (stored_keys (resolveImageKeys keyFromUrl render rnd s u urls))"
  "x \<in> set (stored_keys (resolveImageKeys keyFromUrl render rnd s u urls)) \<Longrightarrow>
     starts_with (pendingPrefix render u) x \<and> (\<exists>url \<in> set urls. keyFromUrl url = Some x) \<and>
     Stored x \<notin> im_storageKey ` set (productImages s)"
proof -
  obtain cs used where c: "resolveImageKeys keyFromUrl render rnd s u urls
      = claim_keys (\<lambda>k. Invented u (rnd k) k) 0 cs used" "length cs = length urls"
    "\<And>x. Some x \<in> set cs \<Longrightarrow> starts_with (pendingPrefix render u) x \<and> (\<exists>url \<in> set urls. keyFromUrl url = Some x)"
    "\<And>x. Some x \<in> set cs \<Longrightarrow> Stored x \<in> im_storageKey ` set (productImages s) \<Longrightarrow> x \<in> set used"
    by (rule resolveImageKeys_claims) (rule that)
  have "stored_keys [Invented u (rnd k) k] = []" for k by simp
  note k = claim_keys_stored [where invented = "\<lambda>k. Invented u (rnd k) k", OF this, of 0 cs used]
  show "length (resolveImageKeys keyFromUrl render rnd s u urls) = length urls"
    "distinct (stored_keys (resolveImageKeys keyFromUrl render rnd s u urls))"
    using k c(1,2) by simp_all
  assume "x \<in> set (stored_keys (resolveImageKeys keyFromUrl render rnd s u urls))"
  then have "Some x \<in> set cs" "x \<notin> set used" using k c(1) by simp_all
  then show "starts_with (pendingPrefix render u) x \<and> (\<exists>url \<in> set urls. keyFromUrl url = Some x) \<and>
     Stored x \<notin> im_storageKey ` set (productImages s)" using c(3,4) by blast
qed

text \<open>No two pictures share a stored file. Listing a product claims the file behind a picture's
  url only when the file lies in the seller's own upload folder, no picture has it yet and no
  earlier picture of the same request took it; so if no two pictures shared a file before, none do
  after, and removing a picture never deletes a file another still shows.\<close>

theorem pictures_never_share_a_file:
  assumes "create keyFromUrl render rnd s now newId imgId u dto = Inr (s', v, w)"
    and "distinct (stored_keys (map im_storageKey (productImages s)))"
  shows "distinct (stored_keys (map im_storageKey (productImages s'))) \<and>
     length (productImages s') = length (productImages s) + length (cp_imageUrls dto) \<and>
     (\<forall>i \<in> set (productImages s'). \<forall>x. i \<notin> set (productImages s) \<longrightarrow> im_storageKey i = Stored x \<longrightarrow>
        starts_with (pendingPrefix render u) x \<and> (\<exists>url \<in> set (cp_imageUrls dto). keyFromUrl url = Some x))"
proof -
  let ?ks = "resolveImageKeys keyFromUrl render rnd s u (cp_imageUrls dto)"
  let ?new = "map (\<lambda>(k, url, key). \<lparr>im_id = imgId k, im_ownerId = newId, im_storageKey = key, im_url = url,
      im_position = k, im_isPrimary = (k = 0)\<rparr>) (enumerate 0 (zip (cp_imageUrls dto) ?ks))"
  have imgs: "productImages s' = productImages s @ ?new"
    using assms(1) by (auto simp: create_def Let_def split: option.splits)
  note r = resolveImageKeys_stored [where keyFromUrl = keyFromUrl and render = render and rnd = rnd and s = s and u = u
      and urls = "cp_imageUrls dto"]
  have "map im_storageKey ?new = map (\<lambda>z. snd (snd z)) (enumerate 0 (zip (cp_imageUrls dto) ?ks))"
    by (simp add: split_beta comp_def)
  also have "\<dots> = map snd (zip (cp_imageUrls dto) ?ks)" by (rule map_enumerate_snd)
  also have "\<dots> = ?ks" using r(1) by simp
  finally have keys: "map im_storageKey ?new = ?ks" .
  have "distinct (stored_keys (map im_storageKey (productImages s')))"
    using assms(2) r(2) r(3) unfolding imgs map_append keys by (auto simp: set_stored_keys)
  moreover have "starts_with (pendingPrefix render u) x \<and> (\<exists>url \<in> set (cp_imageUrls dto). keyFromUrl url = Some x)"
    if i: "i \<in> set ?new" "im_storageKey i = Stored x" for i x
  proof -
    have "Stored x \<in> im_storageKey ` set ?new" unfolding i(2) [symmetric] by (rule imageI [OF i(1)])
    then have "Stored x \<in> set (map im_storageKey ?new)" by (simp only: list.set_map)
    then have "Stored x \<in> set ?ks" unfolding keys .
    then show ?thesis using r(3) by (simp add: set_stored_keys)
  qed
  then have "\<forall>i \<in> set (productImages s'). \<forall>x. i \<notin> set (productImages s) \<longrightarrow> im_storageKey i = Stored x \<longrightarrow>
        starts_with (pendingPrefix render u) x \<and> (\<exists>url \<in> set (cp_imageUrls dto). keyFromUrl url = Some x)"
    unfolding imgs set_append by blast
  moreover have "length (productImages s') = length (productImages s) + length (cp_imageUrls dto)"
    by (simp add: imgs r(1))
  ultimately show ?thesis by blast
qed

text \<open>A url is filed under the part after its eleventh character, as in \<open>https://x/pending/1/a\<close>.\<close>

definition shop_key :: "utext \<Rightarrow> utext option" where
  "shop_key url = (if length url \<le> 10 then None else Some (drop 10 url))"

definition shop_pictures :: create_product_dto where
  "shop_pictures = shop_product\<lparr>cp_imageUrls := let url = ascii ''https://x/'' @ pendingPrefix plain_id 1 @ ascii ''a''
     in [url, url, ascii ''u'']\<rparr>"

theorem pictures_never_share_a_file_witness:
  "distinct (stored_keys (map im_storageKey (productImages
     (shop_state shop0 (create shop_key plain_id (\<lambda>k. 900 + k) shop0 5 7 (\<lambda>k. 800 + k) 1 shop_pictures))))) \<and>
   stored_keys (map im_storageKey (productImages
     (shop_state shop0 (create shop_key plain_id (\<lambda>k. 900 + k) shop0 5 7 (\<lambda>k. 800 + k) 1 shop_pictures))))
     = [pendingPrefix plain_id 1 @ ascii ''a'']"
proof -
  let ?r = "create shop_key plain_id (\<lambda>k. 900 + k) shop0 5 7 (\<lambda>k. 800 + k) 1 shop_pictures"
  have ok: "\<not> isl ?r" "distinct (stored_keys (map im_storageKey (productImages shop0)))"
    "stored_keys (map im_storageKey (productImages (shop_state shop0 ?r))) = [pendingPrefix plain_id 1 @ ascii ''a'']"
    by code_simp+
  show ?thesis
  proof (rule shop_stateE [OF ok(1), of shop0])
    fix v assume "?r = Inr (shop_state shop0 ?r, v)"
    then have "?r = Inr (shop_state shop0 ?r, fst v, snd v)" by simp
    from pictures_never_share_a_file [OF this ok(2)] ok(3) show ?thesis by blast
  qed
qed

end
