(* ===== verification/Accounts.thy ===== *)
theory Accounts
  imports BN_Schema
begin

text \<open>
  The accounts of \<open>apps/api/prisma/schema.prisma\<close>: users with their profile, provider accounts,
  refresh sessions, trusted devices, emailed codes and reset links, and the admin actions on users;
  the record \<open>auth_db\<close> of these tables; the errors of the auth services; and the string methods the
  services use that work in UTF-16 units. \<open>BN_Schema\<close> keeps, for the shop and the auctions, the two
  columns of a user those read.
\<close>

section \<open>Enums and rows\<close>

datatype user_role = USER | ADMIN

datatype user_status = U_ACTIVE | U_SUSPENDED | U_DEACTIVATED

datatype auth_provider = GOOGLE | LINE

record profile_row =
  pf_firstName :: utext
  pf_lastName :: "utext option"
  pf_displayName :: utext
  pf_avatarUrl :: "utext option"
  pf_bio :: "utext option"
  pf_phone :: "utext option"
  pf_recipientName :: "utext option"
  pf_line1 :: "utext option"
  pf_line2 :: "utext option"
  pf_city :: "utext option"
  pf_postalCode :: "utext option"
  pf_updatedAt :: instant

record account_row =
  acc_id :: uuid
  acc_email :: utext
  acc_passwordHash :: "utext option"
  acc_role :: user_role
  acc_status :: user_status
  acc_emailVerifiedAt :: "instant option"
  acc_lastLoginAt :: "instant option"
  acc_createdAt :: instant
  acc_profile :: "profile_row option"

record provider_row =
  pv_userId :: uuid
  pv_provider :: auth_provider
  pv_providerAccountId :: utext

record session_row =
  ss_id :: uuid
  ss_userId :: uuid
  ss_refreshTokenHash :: utext
  ss_expiresAt :: instant
  ss_revokedAt :: "instant option"
  ss_createdAt :: instant

record device_row =
  dv_id :: uuid
  dv_userId :: uuid
  dv_tokenHash :: utext
  dv_label :: "utext option"
  dv_expiresAt :: instant
  dv_lastUsedAt :: instant
  dv_revokedAt :: "instant option"

record code_row =
  tf_id :: uuid
  tf_userId :: uuid
  tf_codeHash :: utext
  tf_expiresAt :: instant
  tf_used :: bool
  tf_createdAt :: instant

record reset_row =
  rt_id :: uuid
  rt_userId :: uuid
  rt_tokenHash :: utext
  rt_expiresAt :: instant
  rt_used :: bool

record user_action_row =
  ua_adminUserId :: uuid
  ua_actionType :: admin_action_type
  ua_targetUserId :: uuid
  ua_note :: "utext option"

record auth_db =
  accounts :: "account_row list"
  providers :: "provider_row list"
  sessions :: "session_row list"
  devices :: "device_row list"
  codes :: "code_row list"
  resets :: "reset_row list"
  userActions :: "user_action_row list"

definition empty_auth_db :: auth_db where
  "empty_auth_db = \<lparr>accounts = [], providers = [], sessions = [], devices = [], codes = [],
     resets = [], userActions = []\<rparr>"

interpretation session_table: table_lens sessions "\<lambda>t s. s\<lparr>sessions := t\<rparr>" ss_id
  by unfold_locales simp_all

interpretation code_table: table_lens codes "\<lambda>t s. s\<lparr>codes := t\<rparr>" tf_id
  by unfold_locales simp_all

interpretation reset_table: table_lens resets "\<lambda>t s. s\<lparr>resets := t\<rparr>" rt_id
  by unfold_locales simp_all

section \<open>Errors\<close>

text \<open>\<open>refusalFor\<close> of \<open>oauth.service.ts\<close> words a conflict four ways.\<close>

datatype provider_refusal =
  LinkedToAnother auth_provider | RegisteredWithPassword | RegisteredWith auth_provider
| AlreadyRegistered

datatype auth_error =
  EmailTaken | InvalidCredentials | AccountNotActive | InvalidCode | CodeSentRecently int
| InvalidRefreshToken | InvalidResetLink | FinishSigningUp | ProviderConflict provider_refusal
| ProviderNotConfigured | ProviderUnreachable | InvalidProviderToken | WrongAudience
| MissingAccessToken | InvalidAccessToken | InsufficientPermissions
| OwnStatus | UserNotFound | WrongCurrentPassword
| MailFailed | MalformedTtl
| UniqueViolation \<comment> \<open>Prisma's P2002\<close>
| RowMissing \<comment> \<open>Prisma's \<open>update\<close> or a required relation on a missing row\<close>

fun auth_status :: "auth_error \<Rightarrow> nat" where
  "auth_status EmailTaken = 409"
| "auth_status InvalidCredentials = 401"
| "auth_status AccountNotActive = 403"
| "auth_status InvalidCode = 401"
| "auth_status (CodeSentRecently n) = 429"
| "auth_status InvalidRefreshToken = 401"
| "auth_status InvalidResetLink = 401"
| "auth_status FinishSigningUp = 401"
| "auth_status (ProviderConflict r) = 409"
| "auth_status ProviderNotConfigured = 503"
| "auth_status ProviderUnreachable = 503"
| "auth_status InvalidProviderToken = 401"
| "auth_status WrongAudience = 401"
| "auth_status MissingAccessToken = 401"
| "auth_status InvalidAccessToken = 401"
| "auth_status InsufficientPermissions = 403"
| "auth_status OwnStatus = 403"
| "auth_status UserNotFound = 404"
| "auth_status WrongCurrentPassword = 401"
| "auth_status MailFailed = 500"
| "auth_status MalformedTtl = 500"
| "auth_status UniqueViolation = 500"
| "auth_status RowMissing = 500"

section \<open>Strings\<close>

text \<open>
  \<open>slice(0, n)\<close> counts UTF-16 units: a code point past the basic plane is two of them, and a cut
  through the middle leaves the high surrogate.
\<close>

fun slice16 :: "nat \<Rightarrow> utext \<Rightarrow> utext" where
  "slice16 n [] = []"
| "slice16 n (c # cs) =
     (if n = 0 then []
      else if c < 65536 then c # slice16 (n - 1) cs
      else if n = 1 then [55296 + (c - 65536) div 1024]
      else c # slice16 (n - 2) cs)"

fun length16 :: "utext \<Rightarrow> nat" where
  "length16 [] = 0"
| "length16 (c # cs) = (if c < 65536 then 1 else 2) + length16 cs"

lemma slice16_bound:
  assumes "\<forall>c \<in> set s. c < 1114112"
  shows "length16 (slice16 n s) \<le> n"
  using assms
proof (induction n s rule: slice16.induct)
  case (1 n)
  then show ?case by simp
next
  case (2 n c cs)
  have "55296 + (c - 65536) div 1024 < 65536"
    using "2.prems" div_le_mono [of "c - 65536" 1048575 1024] by auto
  with 2 show ?case by auto
qed

lemma slice16_short: "length16 s \<le> n \<Longrightarrow> slice16 n s = s"
  by (induction n s rule: slice16.induct) (auto split: if_splits)

text \<open>\<open>split\<close> at one character, and \<open>toLowerCase\<close> as far as comparing with ASCII words needs it.\<close>

fun split_at :: "nat \<Rightarrow> utext \<Rightarrow> utext list" where
  "split_at sep [] = [[]]"
| "split_at sep (c # cs) =
     (if c = sep then [] # split_at sep cs
      else (case split_at sep cs of [] \<Rightarrow> [[c]] | w # ws \<Rightarrow> (c # w) # ws))"

lemma split_at_not_Nil [simp]: "split_at sep s \<noteq> []"
  by (induction s) (auto split: list.splits)

definition ascii_lower :: "utext \<Rightarrow> utext" where
  "ascii_lower = map (\<lambda>c. if 65 \<le> c \<and> c \<le> 90 then c + 32 else c)"

definition digit_of :: "nat \<Rightarrow> nat option" where
  "digit_of c = (if 48 \<le> c \<and> c \<le> 57 then Some (c - 48) else None)"

fun number_of_digits :: "nat \<Rightarrow> utext \<Rightarrow> nat option" where
  "number_of_digits acc [] = Some acc"
| "number_of_digits acc (c # cs) =
     (case digit_of c of None \<Rightarrow> None | Some d \<Rightarrow> number_of_digits (10 * acc + d) cs)"

end
