(* ===== verification/Auth_Service.thy ===== *)
theory Auth_Service
  imports Accounts
begin

text \<open>
  Signing in: \<open>auth/token.service.ts\<close>, \<open>trusted-device.service.ts\<close>, \<open>two-factor.service.ts\<close>,
  \<open>password-reset.service.ts\<close>, \<open>oauth/\<close>, \<open>auth.service.ts\<close>, the two guards of \<open>common/guards\<close>, and the
  account operations of \<open>admin/users.service.ts\<close> and \<open>users/users.service.ts\<close>. Most methods here are
  not one transaction but a row of statements, so what was written before an error stays written:
  a method answers the state, the mails handed to the relay and the exception or result. Where time
  passes between a read and a write (a password hash takes a quarter of a second) the method takes
  two states, \<open>rd\<close> that the check read and \<open>wr\<close> that the writes found. Tokens, codes and salts drawn at
  random are arguments.
\<close>

section \<open>Libraries\<close>

text \<open>
  bcrypt, SHA-256 and the JSON web token library are not part of the program; \<open>crypto\<close> is what the
  services call of them and \<open>crypto_laws\<close> what bcrypt and jsonwebtoken document.
\<close>

record access_payload =
  ap_sub :: uuid
  ap_email :: utext
  ap_role :: user_role

record crypto =
  sha256 :: "utext \<Rightarrow> utext"
  bcrypt_hash :: "utext \<Rightarrow> utext \<Rightarrow> utext" \<comment> \<open>salt, then plain text\<close>
  bcrypt_compare :: "utext \<Rightarrow> utext \<Rightarrow> bool"
  jwt_sign :: "access_payload \<Rightarrow> instant \<Rightarrow> utext"
  jwt_verify :: "utext \<Rightarrow> instant \<Rightarrow> uuid option"

record auth_config =
  JWT_REFRESH_TTL :: utext
  OTP_TTL_MINUTES :: int
  OTP_RESEND_COOLDOWN_SECONDS :: int
  ADMIN_SKIP_2FA :: bool
  PASSWORD_RESET_TTL_MINUTES :: int
  TRUSTED_DEVICE_TTL_DAYS :: int
  WEB_APP_URL :: utext
  GOOGLE_CLIENT_ID :: "utext option"
  LINE_CHANNEL_ID :: "utext option"

definition crypto_laws :: "crypto \<Rightarrow> bool" where
  "crypto_laws k \<longleftrightarrow>
     (\<forall>salt plain. bcrypt_compare k plain (bcrypt_hash k salt plain) \<and> bcrypt_hash k salt plain \<noteq> [])"

datatype mail =
  TwoFactorCode utext utext int
| PasswordResetLink utext utext int

type_synonym 'a reply = "auth_db \<times> mail list \<times> (auth_error + 'a)"

section \<open>Tokens\<close>

record session_owner =
  so_id :: uuid
  so_email :: utext
  so_role :: user_role
  so_status :: user_status

record issued_tokens =
  it_accessToken :: utext
  it_refreshToken :: utext

datatype refresh_lookup =
  VALID uuid session_owner | UNKNOWN | EXPIRED uuid | REPLAYED uuid session_owner

definition find_account :: "auth_db \<Rightarrow> uuid \<Rightarrow> account_row option" where
  "find_account s uid = find (\<lambda>a. acc_id a = uid) (accounts s)"

definition account_by_email :: "auth_db \<Rightarrow> utext \<Rightarrow> account_row option" where
  "account_by_email s email = find (\<lambda>a. acc_email a = email) (accounts s)"

definition session_owner_of :: "account_row \<Rightarrow> session_owner" where
  "session_owner_of a = \<lparr>so_id = acc_id a, so_email = acc_email a, so_role = acc_role a,
     so_status = acc_status a\<rparr>"

definition signAccessToken :: "crypto \<Rightarrow> instant \<Rightarrow> session_owner \<Rightarrow> utext" where
  "signAccessToken k now u =
     jwt_sign k \<lparr>ap_sub = so_id u, ap_email = so_email u, ap_role = so_role u\<rparr> now"

text \<open>The unit is the last character and everything before it one or more digits.\<close>

definition unit_ms :: "nat \<Rightarrow> int option" where
  "unit_ms c = (if c = 115 then Some 1000 else if c = 109 then Some 60000
     else if c = 104 then Some 3600000 else if c = 100 then Some 86400000 else None)"

definition refreshExpiry :: "auth_config \<Rightarrow> instant \<Rightarrow> instant option" where
  "refreshExpiry cfg now =
     (case rev (JWT_REFRESH_TTL cfg) of
        [] \<Rightarrow> None
      | [u] \<Rightarrow> None
      | u # ds \<Rightarrow>
          (case (unit_ms u, number_of_digits 0 (rev ds)) of
             (Some unit, Some amount) \<Rightarrow> Some (now + int amount * unit)
           | _ \<Rightarrow> None))"

definition create_session ::
  "crypto \<Rightarrow> auth_db \<Rightarrow> instant \<Rightarrow> uuid \<Rightarrow> utext \<Rightarrow> uuid \<Rightarrow> instant \<Rightarrow> auth_error + auth_db" where
  "create_session k s now newId refreshToken uid expiresAt =
     (if list_ex (\<lambda>x. ss_refreshTokenHash x = sha256 k refreshToken) (sessions s)
      then Inl UniqueViolation
      else Inr (s\<lparr>sessions := sessions s @ [\<lparr>ss_id = newId, ss_userId = uid,
             ss_refreshTokenHash = sha256 k refreshToken, ss_expiresAt = expiresAt,
             ss_revokedAt = None, ss_createdAt = now\<rparr>]\<rparr>))"

definition issue ::
  "crypto \<Rightarrow> auth_config \<Rightarrow> auth_db \<Rightarrow> instant \<Rightarrow> uuid \<Rightarrow> utext \<Rightarrow> session_owner
     \<Rightarrow> auth_error + (auth_db \<times> issued_tokens)" where
  "issue k cfg s now newId refreshToken u =
     (let accessToken = signAccessToken k now u in
      case refreshExpiry cfg now of
        None \<Rightarrow> Inl MalformedTtl
      | Some expiresAt \<Rightarrow>
          (case create_session k s now newId refreshToken (so_id u) expiresAt of
             Inl e \<Rightarrow> Inl e
           | Inr s1 \<Rightarrow> Inr (s1, \<lparr>it_accessToken = accessToken, it_refreshToken = refreshToken\<rparr>)))"

definition find_session :: "crypto \<Rightarrow> auth_db \<Rightarrow> utext \<Rightarrow> session_row option" where
  "find_session k s refreshToken =
     find (\<lambda>x. ss_refreshTokenHash x = sha256 k refreshToken) (sessions s)"

definition lookupRefreshToken ::
  "crypto \<Rightarrow> auth_db \<Rightarrow> instant \<Rightarrow> utext \<Rightarrow> auth_error + refresh_lookup" where
  "lookupRefreshToken k s now refreshToken =
     (case find_session k s refreshToken of
        None \<Rightarrow> Inr UNKNOWN
      | Some x \<Rightarrow>
          (case find_account s (ss_userId x) of
             None \<Rightarrow> Inl RowMissing
           | Some u \<Rightarrow>
               if ss_revokedAt x \<noteq> None then Inr (REPLAYED (ss_id x) (session_owner_of u))
               else if ss_expiresAt x \<le> now then Inr (EXPIRED (ss_id x))
               else Inr (VALID (ss_id x) (session_owner_of u))))"

definition rotateSession ::
  "crypto \<Rightarrow> auth_config \<Rightarrow> auth_db \<Rightarrow> instant \<Rightarrow> uuid \<Rightarrow> utext \<Rightarrow> uuid \<Rightarrow> session_owner
     \<Rightarrow> auth_error + (auth_db \<times> issued_tokens)" where
  "rotateSession k cfg s now newId refreshToken sessionId u =
     (let accessToken = signAccessToken k now u in
      case refreshExpiry cfg now of
        None \<Rightarrow> Inl MalformedTtl
      | Some expiresAt \<Rightarrow>
          let (count, t) = update_many (\<lambda>x. ss_id x = sessionId) (\<lambda>x. x\<lparr>ss_revokedAt := Some now\<rparr>)
                (sessions s) in
          if count = 0 then Inl RowMissing
          else (case create_session k (s\<lparr>sessions := t\<rparr>) now newId refreshToken (so_id u) expiresAt of
                  Inl e \<Rightarrow> Inl e
                | Inr s1 \<Rightarrow> Inr (s1, \<lparr>it_accessToken = accessToken, it_refreshToken = refreshToken\<rparr>)))"

definition revoke_where :: "(session_row \<Rightarrow> bool) \<Rightarrow> instant \<Rightarrow> auth_db \<Rightarrow> auth_db" where
  "revoke_where P now s =
     s\<lparr>sessions := snd (update_many (\<lambda>x. P x \<and> ss_revokedAt x = None)
        (\<lambda>x. x\<lparr>ss_revokedAt := Some now\<rparr>) (sessions s))\<rparr>"

definition revokeSession :: "auth_db \<Rightarrow> instant \<Rightarrow> uuid \<Rightarrow> auth_db" where
  "revokeSession s now sessionId = revoke_where (\<lambda>x. ss_id x = sessionId) now s"

definition revokeAllSessions :: "auth_db \<Rightarrow> instant \<Rightarrow> uuid \<Rightarrow> auth_db" where
  "revokeAllSessions s now uid = revoke_where (\<lambda>x. ss_userId x = uid) now s"

section \<open>Trusted devices\<close>

definition LABEL_MAX :: nat where
  "LABEL_MAX = 200"

definition is_trusted_row :: "crypto \<Rightarrow> instant \<Rightarrow> uuid \<Rightarrow> utext \<Rightarrow> device_row \<Rightarrow> bool" where
  "is_trusted_row k now uid token d \<longleftrightarrow>
     dv_userId d = uid \<and> dv_tokenHash d = sha256 k token \<and> dv_revokedAt d = None \<and> dv_expiresAt d > now"

definition isTrusted :: "crypto \<Rightarrow> auth_db \<Rightarrow> instant \<Rightarrow> uuid \<Rightarrow> utext option \<Rightarrow> auth_db \<times> bool" where
  "isTrusted k s now uid token =
     (case token of
        None \<Rightarrow> (s, False)
      | Some [] \<Rightarrow> (s, False)
      | Some t \<Rightarrow>
          let (count, ds) = update_many (is_trusted_row k now uid t) (\<lambda>d. d\<lparr>dv_lastUsedAt := now\<rparr>)
                (devices s)
          in (s\<lparr>devices := ds\<rparr>, count > 0))"

definition remember ::
  "crypto \<Rightarrow> auth_config \<Rightarrow> auth_db \<Rightarrow> instant \<Rightarrow> uuid \<Rightarrow> utext \<Rightarrow> uuid \<Rightarrow> utext option
     \<Rightarrow> auth_error + (auth_db \<times> utext)" where
  "remember k cfg s now newId token uid label =
     (if list_ex (\<lambda>d. dv_tokenHash d = sha256 k token) (devices s) then Inl UniqueViolation
      else Inr (s\<lparr>devices := devices s @ [\<lparr>dv_id = newId, dv_userId = uid,
             dv_tokenHash = sha256 k token, dv_label = map_option (slice16 LABEL_MAX) label,
             dv_expiresAt = now + TRUSTED_DEVICE_TTL_DAYS cfg * 24 * 60 * 60 * 1000,
             dv_lastUsedAt = now, dv_revokedAt = None\<rparr>]\<rparr>, token))"

definition forget_where :: "(device_row \<Rightarrow> bool) \<Rightarrow> instant \<Rightarrow> auth_db \<Rightarrow> auth_db" where
  "forget_where P now s =
     s\<lparr>devices := snd (update_many (\<lambda>d. P d \<and> dv_revokedAt d = None)
        (\<lambda>d. d\<lparr>dv_revokedAt := Some now\<rparr>) (devices s))\<rparr>"

definition revokeAll :: "auth_db \<Rightarrow> instant \<Rightarrow> uuid \<Rightarrow> auth_db" where
  "revokeAll s now uid = forget_where (\<lambda>d. dv_userId d = uid) now s"

definition revoke :: "crypto \<Rightarrow> auth_db \<Rightarrow> instant \<Rightarrow> uuid \<Rightarrow> utext \<Rightarrow> auth_db" where
  "revoke k s now uid token =
     forget_where (\<lambda>d. dv_userId d = uid \<and> dv_tokenHash d = sha256 k token) now s"

section \<open>Emailed codes\<close>

text \<open>
  \<open>Math.ceil(cooldown - elapsed / 1000)\<close> over doubles is the exact ceiling: the quotient of whole
  milliseconds is exact when it is whole and otherwise a thousandth away from the next whole second.
\<close>

definition checkCooldown :: "auth_config \<Rightarrow> auth_db \<Rightarrow> instant \<Rightarrow> uuid \<Rightarrow> bool \<times> int" where
  "checkCooldown cfg s now uid =
     (case find_by (\<lambda>c. - tf_createdAt c) (\<lambda>c. tf_userId c = uid) (codes s) of
        None \<Rightarrow> (False, 0)
      | Some latest \<Rightarrow>
          let remaining = (OTP_RESEND_COOLDOWN_SECONDS cfg * 1000 - (now - tf_createdAt latest) + 999) div 1000
          in if remaining > 0 then (True, remaining) else (False, 0))"

definition issue_code ::
  "crypto \<Rightarrow> auth_config \<Rightarrow> auth_db \<Rightarrow> instant \<Rightarrow> uuid \<Rightarrow> utext \<Rightarrow> utext \<Rightarrow> uuid \<Rightarrow> utext
     \<Rightarrow> auth_db \<times> mail list" where
  "issue_code k cfg s now newId salt code uid email =
     (s\<lparr>codes := map_rows (\<lambda>c. tf_userId c = uid \<and> \<not> tf_used c) (\<lambda>c. c\<lparr>tf_used := True\<rparr>) (codes s)
          @ [\<lparr>tf_id = newId, tf_userId = uid, tf_codeHash = bcrypt_hash k salt code,
              tf_expiresAt = now + OTP_TTL_MINUTES cfg * 60000, tf_used = False,
              tf_createdAt = now\<rparr>]\<rparr>,
      [TwoFactorCode email code (OTP_TTL_MINUTES cfg)])"

definition live_code :: "auth_db \<Rightarrow> instant \<Rightarrow> uuid \<Rightarrow> code_row option" where
  "live_code s now uid =
     find_by (\<lambda>c. - tf_createdAt c) (\<lambda>c. tf_userId c = uid \<and> \<not> tf_used c \<and> tf_expiresAt c > now) (codes s)"

definition claim_code :: "auth_db \<Rightarrow> uuid \<Rightarrow> auth_db \<times> bool" where
  "claim_code s cid =
     (let (count, t) = update_many (\<lambda>c. tf_id c = cid \<and> \<not> tf_used c) (\<lambda>c. c\<lparr>tf_used := True\<rparr>) (codes s)
      in (s\<lparr>codes := t\<rparr>, count = 1))"

definition consume_code ::
  "crypto \<Rightarrow> auth_db \<Rightarrow> auth_db \<Rightarrow> instant \<Rightarrow> uuid \<Rightarrow> utext \<Rightarrow> auth_db \<times> bool" where
  "consume_code k rd wr now uid code =
     (case live_code rd now uid of
        None \<Rightarrow> (wr, False)
      | Some candidate \<Rightarrow>
          if \<not> bcrypt_compare k code (tf_codeHash candidate) then (wr, False)
          else claim_code wr (tf_id candidate))"

section \<open>Reset links\<close>

definition buildLink :: "auth_config \<Rightarrow> utext \<Rightarrow> utext" where
  "buildLink cfg token =
     rev (dropWhile (\<lambda>c. c = 47) (rev (WEB_APP_URL cfg))) @ ascii ''/reset-password?token='' @ token"

text \<open>\<open>delivers\<close> says whether the mail relay takes a message; \<open>sendPasswordResetLink\<close> rethrows when not.\<close>

definition issue_link ::
  "crypto \<Rightarrow> auth_config \<Rightarrow> (mail \<Rightarrow> bool) \<Rightarrow> auth_db \<Rightarrow> instant \<Rightarrow> uuid \<Rightarrow> utext \<Rightarrow> utext \<Rightarrow> unit reply" where
  "issue_link k cfg delivers s now newId token email =
     (case account_by_email s email of
        None \<Rightarrow> (s, [], Inr ())
      | Some u \<Rightarrow>
          if acc_status u \<noteq> U_ACTIVE then (s, [], Inr ())
          else
            let s1 = s\<lparr>resets :=
                   map_rows (\<lambda>r. rt_userId r = acc_id u \<and> \<not> rt_used r) (\<lambda>r. r\<lparr>rt_used := True\<rparr>) (resets s)
                   @ [\<lparr>rt_id = newId, rt_userId = acc_id u, rt_tokenHash = sha256 k token,
                       rt_expiresAt = now + PASSWORD_RESET_TTL_MINUTES cfg * 60000, rt_used = False\<rparr>]\<rparr>;
                m = PasswordResetLink (acc_email u) (buildLink cfg token) (PASSWORD_RESET_TTL_MINUTES cfg)
            in (s1, [m], if delivers m then Inr () else Inl MailFailed))"

definition live_link :: "crypto \<Rightarrow> auth_db \<Rightarrow> instant \<Rightarrow> utext \<Rightarrow> reset_row option" where
  "live_link k s now token =
     find (\<lambda>r. rt_tokenHash r = sha256 k token \<and> \<not> rt_used r \<and> rt_expiresAt r > now) (resets s)"

definition claim_link :: "auth_db \<Rightarrow> uuid \<Rightarrow> auth_db \<times> bool" where
  "claim_link s rid =
     (let (count, t) = update_many (\<lambda>r. rt_id r = rid \<and> \<not> rt_used r) (\<lambda>r. r\<lparr>rt_used := True\<rparr>) (resets s)
      in (s\<lparr>resets := t\<rparr>, count = 1))"

definition consume_link ::
  "crypto \<Rightarrow> auth_db \<Rightarrow> auth_db \<Rightarrow> instant \<Rightarrow> utext \<Rightarrow> auth_db \<times> (uuid \<times> uuid) option" where
  "consume_link k rd wr now token =
     (case live_link k rd now token of
        None \<Rightarrow> (wr, None)
      | Some candidate \<Rightarrow>
          let (s1, claimed) = claim_link wr (rt_id candidate)
          in (s1, if claimed then Some (rt_id candidate, rt_userId candidate) else None))"

section \<open>Provider sign-in\<close>

record oauth_profile =
  op_provider :: auth_provider
  op_providerAccountId :: utext
  op_email :: "utext option"
  op_emailVerified :: bool
  op_displayName :: "utext option"

text \<open>What the provider answers: nothing, a status that is not 2xx, or the claims of the token.\<close>

record token_info =
  ti_sub :: "utext option"
  ti_aud :: "utext option"
  ti_email :: "utext option"
  ti_email_verified :: bool \<comment> \<open>the boolean or the string \<open>true\<close>\<close>
  ti_name :: "utext option"

datatype provider_response = Unreachable | NotOk | TokenInfo token_info

definition truthy :: "utext option \<Rightarrow> bool" where
  "truthy x \<longleftrightarrow> x \<noteq> None \<and> x \<noteq> Some []"

definition verify_info ::
  "utext option \<Rightarrow> provider_response \<Rightarrow> auth_error + token_info" where
  "verify_info clientId response =
     (if \<not> truthy clientId then Inl ProviderNotConfigured
      else case response of
             Unreachable \<Rightarrow> Inl ProviderUnreachable
           | NotOk \<Rightarrow> Inl InvalidProviderToken
           | TokenInfo info \<Rightarrow>
               if \<not> truthy (ti_sub info) then Inl InvalidProviderToken
               else if ti_aud info \<noteq> clientId then Inl WrongAudience
               else Inr info)"

definition google_verify ::
  "(utext \<Rightarrow> utext) \<Rightarrow> auth_config \<Rightarrow> provider_response \<Rightarrow> auth_error + oauth_profile" where
  "google_verify toLowerCase cfg response =
     (case verify_info (GOOGLE_CLIENT_ID cfg) response of
        Inl e \<Rightarrow> Inl e
      | Inr info \<Rightarrow> Inr \<lparr>op_provider = GOOGLE, op_providerAccountId = the (ti_sub info),
          op_email = map_option toLowerCase (ti_email info),
          op_emailVerified = (truthy (ti_email info) \<and> ti_email_verified info),
          op_displayName = ti_name info\<rparr>)"

definition line_verify ::
  "(utext \<Rightarrow> utext) \<Rightarrow> auth_config \<Rightarrow> provider_response \<Rightarrow> auth_error + oauth_profile" where
  "line_verify toLowerCase cfg response =
     (case verify_info (LINE_CHANNEL_ID cfg) response of
        Inl e \<Rightarrow> Inl e
      | Inr info \<Rightarrow> Inr \<lparr>op_provider = LINE, op_providerAccountId = the (ti_sub info),
          op_email = map_option toLowerCase (ti_email info),
          op_emailVerified = truthy (ti_email info),
          op_displayName = ti_name info\<rparr>)"

definition DISPLAY_NAME_MAX :: nat where
  "DISPLAY_NAME_MAX = 100"

definition nameFromEmail :: "utext \<Rightarrow> utext" where
  "nameFromEmail email =
     (let local = trim (hd (split_at 64 email)) in
      if local = [] then ascii ''BidNest user'' else slice16 DISPLAY_NAME_MAX local)"

definition clampName :: "utext option \<Rightarrow> utext option" where
  "clampName name =
     (case name of
        None \<Rightarrow> None
      | Some n \<Rightarrow> if trim n = [] then None else Some (slice16 DISPLAY_NAME_MAX (trim n)))"

definition refusalFor :: "auth_provider \<Rightarrow> utext option \<Rightarrow> auth_provider list \<Rightarrow> provider_refusal" where
  "refusalFor provider passwordHash held =
     (if provider \<in> set held then LinkedToAnother provider
      else if truthy passwordHash then RegisteredWithPassword
      else case held of other # _ \<Rightarrow> RegisteredWith other | [] \<Rightarrow> AlreadyRegistered)"

datatype account_resolution = RESOLVED session_owner | EMAIL_REQUIRED

definition asResolved :: "session_owner \<Rightarrow> auth_error + account_resolution" where
  "asResolved u = (if so_status u \<noteq> U_ACTIVE then Inl AccountNotActive else Inr (RESOLVED u))"

definition new_profile :: "instant \<Rightarrow> utext \<Rightarrow> utext option \<Rightarrow> utext \<Rightarrow> profile_row" where
  "new_profile now firstName lastName displayName =
     \<lparr>pf_firstName = firstName, pf_lastName = lastName, pf_displayName = displayName,
      pf_avatarUrl = None, pf_bio = None, pf_phone = None, pf_recipientName = None,
      pf_line1 = None, pf_line2 = None, pf_city = None, pf_postalCode = None, pf_updatedAt = now\<rparr>"

definition new_account ::
  "instant \<Rightarrow> uuid \<Rightarrow> utext \<Rightarrow> utext option \<Rightarrow> instant option \<Rightarrow> profile_row \<Rightarrow> account_row" where
  "new_account now newId email passwordHash verifiedAt p =
     \<lparr>acc_id = newId, acc_email = email, acc_passwordHash = passwordHash, acc_role = USER,
      acc_status = U_ACTIVE, acc_emailVerifiedAt = verifiedAt, acc_lastLoginAt = None,
      acc_createdAt = now, acc_profile = Some p\<rparr>"

definition provider_key :: "provider_row \<Rightarrow> auth_provider \<times> utext" where
  "provider_key v = (pv_provider v, pv_providerAccountId v)"

text \<open>
  The address the account is found or opened under: the verified one of the provider, else the one
  the caller typed, trimmed and lower-cased; an empty one counts as none.
\<close>

definition oauth_email :: "(utext \<Rightarrow> utext) \<Rightarrow> oauth_profile \<Rightarrow> utext option \<Rightarrow> utext option" where
  "oauth_email toLowerCase p supplied =
     (case (if op_emailVerified p then op_email p else None) of
        Some e \<Rightarrow> Some e
      | None \<Rightarrow> map_option (\<lambda>e. toLowerCase (trim e)) supplied)"

definition resolveAccount ::
  "(utext \<Rightarrow> utext) \<Rightarrow> auth_db \<Rightarrow> auth_db \<Rightarrow> instant \<Rightarrow> uuid \<Rightarrow> oauth_profile \<Rightarrow> utext option
     \<Rightarrow> auth_db \<times> (auth_error + account_resolution)" where
  "resolveAccount toLowerCase rd wr now newId p supplied =
     (case find (\<lambda>v. provider_key v = (op_provider p, op_providerAccountId p)) (providers rd) of
        Some v \<Rightarrow>
          (wr, (case find_account rd (pv_userId v) of
                  None \<Rightarrow> Inl RowMissing
                | Some a \<Rightarrow> asResolved (session_owner_of a)))
      | None \<Rightarrow>
          if \<not> truthy (oauth_email toLowerCase p supplied) then (wr, Inr EMAIL_REQUIRED)
          else
            let email = the (oauth_email toLowerCase p supplied) in
            (case account_by_email rd email of
               Some existing \<Rightarrow>
                 (wr, Inl (ProviderConflict (refusalFor (op_provider p) (acc_passwordHash existing)
                        (map pv_provider (filter (\<lambda>v. pv_userId v = acc_id existing) (providers rd))))))
             | None \<Rightarrow>
                 if account_by_email wr email \<noteq> None \<or>
                    list_ex (\<lambda>v. provider_key v = (op_provider p, op_providerAccountId p)) (providers wr)
                 then (wr, Inl UniqueViolation)
                 else
                   let name = (case clampName (op_displayName p) of
                                 Some n \<Rightarrow> n | None \<Rightarrow> nameFromEmail email);
                       a = new_account now newId email None
                             (if op_emailVerified p then Some now else None)
                             (new_profile now name None name)
                   in (wr\<lparr>accounts := accounts wr @ [a],
                         providers := providers wr @ [\<lparr>pv_userId = newId, pv_provider = op_provider p,
                           pv_providerAccountId = op_providerAccountId p\<rparr>]\<rparr>,
                       asResolved (session_owner_of a))))"

section \<open>The auth service\<close>

record auth_user =
  av_id :: uuid
  av_email :: utext
  av_role :: user_role
  av_status :: user_status
  av_firstName :: utext
  av_lastName :: "utext option"
  av_displayName :: utext
  av_avatarUrl :: "utext option"
  av_createdAt :: instant

definition toAuthUser :: "account_row \<Rightarrow> auth_user" where
  "toAuthUser a =
     \<lparr>av_id = acc_id a, av_email = acc_email a, av_role = acc_role a, av_status = acc_status a,
      av_firstName = (case acc_profile a of None \<Rightarrow> [] | Some p \<Rightarrow> pf_firstName p),
      av_lastName = Option.bind (acc_profile a) pf_lastName,
      av_displayName = (case acc_profile a of None \<Rightarrow> [] | Some p \<Rightarrow> pf_displayName p),
      av_avatarUrl = Option.bind (acc_profile a) pf_avatarUrl,
      av_createdAt = acc_createdAt a\<rparr>"

record auth_tokens =
  tk_accessToken :: utext
  tk_refreshToken :: utext
  tk_user :: auth_user
  tk_deviceToken :: "utext option"

datatype login_response =
  PENDING_2FA int int \<comment> \<open>minutes the code lives, seconds until another may be asked for\<close>
| EmailRequired
| Tokens auth_tokens

record register_dto =
  rg_email :: utext
  rg_password :: utext
  rg_firstName :: utext
  rg_lastName :: "utext option"
  rg_displayName :: utext

record login_dto =
  lg_email :: utext
  lg_password :: utext
  lg_deviceToken :: "utext option"

record remember_dto =
  rm_otp :: utext
  rm_rememberDevice :: bool
  rm_deviceLabel :: "utext option"

text \<open>Everything a call draws at random.\<close>

record draws =
  dr_id :: uuid
  dr_salt :: utext
  dr_code :: utext
  dr_refreshToken :: utext
  dr_deviceToken :: utext
  dr_resetToken :: utext

definition register ::
  "crypto \<Rightarrow> auth_db \<Rightarrow> auth_db \<Rightarrow> instant \<Rightarrow> draws \<Rightarrow> register_dto \<Rightarrow> auth_db \<times> (auth_error + auth_user)" where
  "register k rd wr now d dto =
     (if account_by_email rd (rg_email dto) \<noteq> None then (wr, Inl EmailTaken)
      else if account_by_email wr (rg_email dto) \<noteq> None then (wr, Inl EmailTaken)
      else
        let a = new_account now (dr_id d) (rg_email dto)
                  (Some (bcrypt_hash k (dr_salt d) (rg_password dto))) None
                  (new_profile now (rg_firstName dto) (rg_lastName dto) (rg_displayName dto))
        in (wr\<lparr>accounts := accounts wr @ [a]\<rparr>, Inr (toAuthUser a)))"

definition authenticate :: "crypto \<Rightarrow> auth_db \<Rightarrow> utext \<Rightarrow> utext \<Rightarrow> auth_error + account_row" where
  "authenticate k s email password =
     (case account_by_email s email of
        None \<Rightarrow> Inl InvalidCredentials
      | Some a \<Rightarrow>
          (case acc_passwordHash a of
             None \<Rightarrow> Inl InvalidCredentials
           | Some [] \<Rightarrow> Inl InvalidCredentials
           | Some h \<Rightarrow>
               if \<not> bcrypt_compare k password h then Inl InvalidCredentials
               else if acc_status a \<noteq> U_ACTIVE then Inl AccountNotActive
               else Inr a))"

definition write_account :: "(account_row \<Rightarrow> bool) \<Rightarrow> (account_row \<Rightarrow> account_row) \<Rightarrow> auth_db \<Rightarrow> auth_db" where
  "write_account P f s = s\<lparr>accounts := map_rows P f (accounts s)\<rparr>"

definition markEmailVerified :: "auth_db \<Rightarrow> instant \<Rightarrow> uuid \<Rightarrow> auth_db" where
  "markEmailVerified s now uid =
     write_account (\<lambda>a. acc_id a = uid \<and> acc_emailVerifiedAt a = None)
       (\<lambda>a. a\<lparr>acc_emailVerifiedAt := Some now\<rparr>) s"

text \<open>The writes of a sign-in: the session, the login time, the verified address.\<close>

definition open_session ::
  "crypto \<Rightarrow> auth_config \<Rightarrow> auth_db \<Rightarrow> instant \<Rightarrow> draws \<Rightarrow> session_owner
     \<Rightarrow> auth_db \<times> (auth_error + issued_tokens)" where
  "open_session k cfg s now d u =
     (case issue k cfg s now (dr_id d) (dr_refreshToken d) u of
        Inl e \<Rightarrow> (s, Inl e)
      | Inr (s1, t) \<Rightarrow>
          if find_account s1 (so_id u) = None then (s1, Inl RowMissing)
          else (markEmailVerified
                  (write_account (\<lambda>a. acc_id a = so_id u) (\<lambda>a. a\<lparr>acc_lastLoginAt := Some now\<rparr>) s1)
                  now (so_id u), Inr t))"

definition tokens_response :: "issued_tokens \<Rightarrow> auth_user \<Rightarrow> auth_tokens" where
  "tokens_response t u = \<lparr>tk_accessToken = it_accessToken t, tk_refreshToken = it_refreshToken t,
     tk_user = u, tk_deviceToken = None\<rparr>"

definition completeLogin ::
  "crypto \<Rightarrow> auth_config \<Rightarrow> auth_db \<Rightarrow> instant \<Rightarrow> draws \<Rightarrow> account_row
     \<Rightarrow> auth_db \<times> (auth_error + auth_tokens)" where
  "completeLogin k cfg s now d a =
     (case open_session k cfg s now d (session_owner_of a) of
        (s1, Inl e) \<Rightarrow> (s1, Inl e)
      | (s1, Inr t) \<Rightarrow> (s1, Inr (tokens_response t (toAuthUser a))))"

definition currentUser :: "auth_db \<Rightarrow> uuid \<Rightarrow> auth_error + auth_user" where
  "currentUser s uid =
     (case find_account s uid of None \<Rightarrow> Inl InvalidRefreshToken | Some a \<Rightarrow> Inr (toAuthUser a))"

definition issueForResolved ::
  "crypto \<Rightarrow> auth_config \<Rightarrow> auth_db \<Rightarrow> instant \<Rightarrow> draws \<Rightarrow> session_owner
     \<Rightarrow> auth_db \<times> (auth_error + auth_tokens)" where
  "issueForResolved k cfg s now d u =
     (case open_session k cfg s now d u of
        (s1, Inl e) \<Rightarrow> (s1, Inl e)
      | (s1, Inr t) \<Rightarrow>
          (s1, (case currentUser s1 (so_id u) of
                  Inl e \<Rightarrow> Inl e | Inr v \<Rightarrow> Inr (tokens_response t v))))"

text \<open>A code is mailed unless one was sent within the cooldown; either way the answer is the same shape.\<close>

definition ask_for_code ::
  "crypto \<Rightarrow> auth_config \<Rightarrow> auth_db \<Rightarrow> instant \<Rightarrow> draws \<Rightarrow> uuid \<Rightarrow> utext \<Rightarrow> login_response reply" where
  "ask_for_code k cfg s now d uid email =
     (let (blocked, retryAfter) = checkCooldown cfg s now uid;
          (s1, ms) = (if blocked then (s, [])
                      else issue_code k cfg s now (dr_id d) (dr_salt d) (dr_code d) uid email)
      in (s1, ms, Inr (PENDING_2FA (OTP_TTL_MINUTES cfg)
            (if blocked then retryAfter else OTP_RESEND_COOLDOWN_SECONDS cfg))))"

definition signed_in :: "auth_db \<times> (auth_error + auth_tokens) \<Rightarrow> login_response reply" where
  "signed_in r = (case r of (s, Inl e) \<Rightarrow> (s, [], Inl e) | (s, Inr t) \<Rightarrow> (s, [], Inr (Tokens t)))"

definition login ::
  "crypto \<Rightarrow> auth_config \<Rightarrow> auth_db \<Rightarrow> auth_db \<Rightarrow> instant \<Rightarrow> draws \<Rightarrow> login_dto \<Rightarrow> login_response reply" where
  "login k cfg rd wr now d dto =
     (case authenticate k rd (lg_email dto) (lg_password dto) of
        Inl e \<Rightarrow> (wr, [], Inl e)
      | Inr a \<Rightarrow>
          if acc_role a = ADMIN \<and> ADMIN_SKIP_2FA cfg
          then signed_in (completeLogin k cfg wr now d a)
          else
            let (s1, trusted) = isTrusted k wr now (acc_id a) (lg_deviceToken dto) in
            if trusted then signed_in (completeLogin k cfg s1 now d a)
            else ask_for_code k cfg s1 now d (acc_id a) (acc_email a))"

text \<open>The tail of both verifications: remember the browser once the tokens are out.\<close>

definition remember_browser ::
  "crypto \<Rightarrow> auth_config \<Rightarrow> instant \<Rightarrow> draws \<Rightarrow> remember_dto \<Rightarrow> uuid \<Rightarrow> auth_db \<times> (auth_error + auth_tokens)
     \<Rightarrow> auth_db \<times> (auth_error + auth_tokens)" where
  "remember_browser k cfg now d dto uid r =
     (case r of
        (s, Inl e) \<Rightarrow> (s, Inl e)
      | (s, Inr t) \<Rightarrow>
          if rm_rememberDevice dto then
            (case remember k cfg s now (dr_id d) (dr_deviceToken d) uid (rm_deviceLabel dto) of
               Inl e \<Rightarrow> (s, Inl e)
             | Inr (s1, token) \<Rightarrow> (s1, Inr (t\<lparr>tk_deviceToken := Some token\<rparr>)))
          else (s, Inr t))"

definition verifyTwoFactor ::
  "crypto \<Rightarrow> auth_config \<Rightarrow> auth_db \<Rightarrow> auth_db \<Rightarrow> instant \<Rightarrow> draws \<Rightarrow> login_dto \<Rightarrow> remember_dto
     \<Rightarrow> auth_db \<times> (auth_error + auth_tokens)" where
  "verifyTwoFactor k cfg rd wr now d dto code =
     (case authenticate k rd (lg_email dto) (lg_password dto) of
        Inl e \<Rightarrow> (wr, Inl e)
      | Inr a \<Rightarrow>
          (case consume_code k rd wr now (acc_id a) (rm_otp code) of
             (s1, False) \<Rightarrow> (s1, Inl InvalidCode)
           | (s1, True) \<Rightarrow>
               remember_browser k cfg now d code (acc_id a) (completeLogin k cfg s1 now d a)))"

definition resendTwoFactor ::
  "crypto \<Rightarrow> auth_config \<Rightarrow> auth_db \<Rightarrow> auth_db \<Rightarrow> instant \<Rightarrow> draws \<Rightarrow> login_dto \<Rightarrow> login_response reply" where
  "resendTwoFactor k cfg rd wr now d dto =
     (case authenticate k rd (lg_email dto) (lg_password dto) of
        Inl e \<Rightarrow> (wr, [], Inl e)
      | Inr a \<Rightarrow>
          let (blocked, retryAfter) = checkCooldown cfg wr now (acc_id a) in
          if blocked then (wr, [], Inl (CodeSentRecently retryAfter))
          else
            let (s1, ms) = issue_code k cfg wr now (dr_id d) (dr_salt d) (dr_code d) (acc_id a) (acc_email a)
            in (s1, ms, Inr (PENDING_2FA (OTP_TTL_MINUTES cfg) (OTP_RESEND_COOLDOWN_SECONDS cfg))))"

definition refresh ::
  "crypto \<Rightarrow> auth_config \<Rightarrow> auth_db \<Rightarrow> auth_db \<Rightarrow> instant \<Rightarrow> draws \<Rightarrow> utext
     \<Rightarrow> auth_db \<times> (auth_error + auth_tokens)" where
  "refresh k cfg rd wr now d refreshToken =
     (case lookupRefreshToken k rd now refreshToken of
        Inl e \<Rightarrow> (wr, Inl e)
      | Inr (REPLAYED sid u) \<Rightarrow> (revokeAllSessions wr now (so_id u), Inl InvalidRefreshToken)
      | Inr UNKNOWN \<Rightarrow> (wr, Inl InvalidRefreshToken)
      | Inr (EXPIRED sid) \<Rightarrow> (wr, Inl InvalidRefreshToken)
      | Inr (VALID sid u) \<Rightarrow>
          if so_status u \<noteq> U_ACTIVE then (wr, Inl AccountNotActive)
          else (case rotateSession k cfg wr now (dr_id d) (dr_refreshToken d) sid u of
                  Inl e \<Rightarrow> (wr, Inl e)
                | Inr (s1, t) \<Rightarrow>
                    (s1, (case currentUser s1 (so_id u) of
                            Inl e \<Rightarrow> Inl e | Inr v \<Rightarrow> Inr (tokens_response t v)))))"

definition logout :: "crypto \<Rightarrow> auth_db \<Rightarrow> auth_db \<Rightarrow> instant \<Rightarrow> utext \<Rightarrow> auth_db \<times> (auth_error + unit)" where
  "logout k rd wr now refreshToken =
     (case lookupRefreshToken k rd now refreshToken of
        Inl e \<Rightarrow> (wr, Inl e)
      | Inr (VALID sid u) \<Rightarrow> (revokeSession wr now sid, Inr ())
      | Inr (EXPIRED sid) \<Rightarrow> (revokeSession wr now sid, Inr ())
      | Inr _ \<Rightarrow> (wr, Inr ()))"

definition forgotPassword ::
  "crypto \<Rightarrow> auth_config \<Rightarrow> (mail \<Rightarrow> bool) \<Rightarrow> auth_db \<Rightarrow> instant \<Rightarrow> uuid \<Rightarrow> utext \<Rightarrow> utext \<Rightarrow> unit reply" where
  "forgotPassword k cfg delivers s now newId token email =
     issue_link k cfg delivers s now newId token email"

text \<open>The common end of a password change: the new hash, then every session and browser is cut off.\<close>

definition change_password :: "auth_db \<Rightarrow> instant \<Rightarrow> uuid \<Rightarrow> utext \<Rightarrow> auth_db \<times> (auth_error + unit)" where
  "change_password s now uid passwordHash =
     (if find_account s uid = None then (s, Inl RowMissing)
      else (revokeAll (revokeAllSessions
              (write_account (\<lambda>a. acc_id a = uid) (\<lambda>a. a\<lparr>acc_passwordHash := Some passwordHash\<rparr>) s)
              now uid) now uid, Inr ()))"

definition resetPassword ::
  "crypto \<Rightarrow> auth_db \<Rightarrow> auth_db \<Rightarrow> instant \<Rightarrow> draws \<Rightarrow> utext \<Rightarrow> utext \<Rightarrow> auth_db \<times> (auth_error + unit)" where
  "resetPassword k rd wr now d token password =
     (case consume_link k rd wr now token of
        (s1, None) \<Rightarrow> (s1, Inl InvalidResetLink)
      | (s1, Some (tokenId, userId)) \<Rightarrow>
          change_password s1 now userId (bcrypt_hash k (dr_salt d) password))"

definition oauthLogin ::
  "crypto \<Rightarrow> auth_config \<Rightarrow> (utext \<Rightarrow> utext) \<Rightarrow> auth_db \<Rightarrow> auth_db \<Rightarrow> instant \<Rightarrow> draws
     \<Rightarrow> auth_error + oauth_profile \<Rightarrow> utext option \<Rightarrow> utext option \<Rightarrow> login_response reply" where
  "oauthLogin k cfg toLowerCase rd wr now d verified email deviceToken =
     (case verified of
        Inl e \<Rightarrow> (wr, [], Inl e)
      | Inr p \<Rightarrow>
          (case resolveAccount toLowerCase rd wr now (dr_id d) p email of
             (s1, Inl e) \<Rightarrow> (s1, [], Inl e)
           | (s1, Inr EMAIL_REQUIRED) \<Rightarrow> (s1, [], Inr EmailRequired)
           | (s1, Inr (RESOLVED u)) \<Rightarrow>
               let (s2, trusted) = isTrusted k s1 now (so_id u) deviceToken in
               if trusted then signed_in (issueForResolved k cfg s2 now d u)
               else ask_for_code k cfg s2 now d (so_id u) (so_email u)))"

definition verifyOAuth ::
  "crypto \<Rightarrow> auth_config \<Rightarrow> (utext \<Rightarrow> utext) \<Rightarrow> auth_db \<Rightarrow> auth_db \<Rightarrow> instant \<Rightarrow> draws
     \<Rightarrow> auth_error + oauth_profile \<Rightarrow> utext option \<Rightarrow> remember_dto \<Rightarrow> auth_db \<times> (auth_error + auth_tokens)" where
  "verifyOAuth k cfg toLowerCase rd wr now d verified email code =
     (case verified of
        Inl e \<Rightarrow> (wr, Inl e)
      | Inr p \<Rightarrow>
          (case resolveAccount toLowerCase rd wr now (dr_id d) p email of
             (s1, Inl e) \<Rightarrow> (s1, Inl e)
           | (s1, Inr EMAIL_REQUIRED) \<Rightarrow> (s1, Inl FinishSigningUp)
           | (s1, Inr (RESOLVED u)) \<Rightarrow>
               (case consume_code k s1 s1 now (so_id u) (rm_otp code) of
                  (s2, False) \<Rightarrow> (s2, Inl InvalidCode)
                | (s2, True) \<Rightarrow>
                    remember_browser k cfg now d code (so_id u) (issueForResolved k cfg s2 now d u))))"

section \<open>Guards\<close>

definition readBearerToken :: "utext option \<Rightarrow> utext option" where
  "readBearerToken header =
     (if \<not> truthy header then None
      else case split_at 32 (the header) of
             scheme # v # _ \<Rightarrow>
               if ascii_lower scheme = ascii ''bearer'' \<and> v \<noteq> [] then Some v else None
           | _ \<Rightarrow> None)"

definition resolveUser ::
  "crypto \<Rightarrow> auth_db \<Rightarrow> instant \<Rightarrow> utext \<Rightarrow> bool \<Rightarrow> auth_error + session_owner option" where
  "resolveUser k s now token isPublic =
     (case jwt_verify k token now of
        None \<Rightarrow> if isPublic then Inr None else Inl InvalidAccessToken
      | Some sub \<Rightarrow>
          (case find_account s sub of
             None \<Rightarrow> if isPublic then Inr None else Inl InvalidAccessToken
           | Some u \<Rightarrow>
               if acc_status u \<noteq> U_ACTIVE
               then (if isPublic then Inr None else Inl AccountNotActive)
               else Inr (Some (session_owner_of u))))"

text \<open>\<open>Inr\<close> the user put on the request, if any.\<close>

definition canActivate ::
  "crypto \<Rightarrow> auth_db \<Rightarrow> instant \<Rightarrow> bool \<Rightarrow> utext option \<Rightarrow> auth_error + session_owner option" where
  "canActivate k s now isPublic header =
     (case readBearerToken header of
        None \<Rightarrow> if isPublic then Inr None else Inl MissingAccessToken
      | Some token \<Rightarrow> resolveUser k s now token isPublic)"

definition rolesCanActivate :: "user_role list \<Rightarrow> session_owner option \<Rightarrow> auth_error option" where
  "rolesCanActivate requiredRoles user =
     (if requiredRoles = [] then None
      else case user of
             None \<Rightarrow> Some InsufficientPermissions
           | Some u \<Rightarrow> if so_role u \<in> set requiredRoles then None else Some InsufficientPermissions)"

section \<open>Accounts\<close>

record user_summary =
  um_id :: uuid
  um_email :: utext
  um_role :: user_role
  um_status :: user_status
  um_createdAt :: instant

definition summary_of :: "account_row \<Rightarrow> user_summary" where
  "summary_of a = \<lparr>um_id = acc_id a, um_email = acc_email a, um_role = acc_role a,
     um_status = acc_status a, um_createdAt = acc_createdAt a\<rparr>"

definition changeUserStatus ::
  "auth_db \<Rightarrow> auth_db \<Rightarrow> instant \<Rightarrow> uuid \<Rightarrow> uuid \<Rightarrow> bool \<Rightarrow> utext option
     \<Rightarrow> auth_error + (auth_db \<times> user_summary)" where
  "changeUserStatus rd wr now adminUserId targetUserId suspend note =
     (if adminUserId = targetUserId then Inl OwnStatus
      else if find_account rd targetUserId = None then Inl UserNotFound
      else
        let s1 = write_account (\<lambda>a. acc_id a = targetUserId)
                   (\<lambda>a. a\<lparr>acc_status := (if suspend then U_SUSPENDED else U_ACTIVE)\<rparr>) wr;
            s2 = s1\<lparr>userActions := userActions s1 @ [\<lparr>ua_adminUserId = adminUserId,
                   ua_actionType = (if suspend then SUSPEND_USER else REACTIVATE_USER),
                   ua_targetUserId = targetUserId, ua_note = note\<rparr>]\<rparr>;
            s3 = (if suspend
                  then revoke_where (\<lambda>x. ss_userId x = targetUserId \<and> ss_expiresAt x > now) now s2 else s2)
        in (case find_account s3 targetUserId of
              None \<Rightarrow> Inl RowMissing
            | Some a \<Rightarrow> Inr (s3, summary_of a)))"

definition changeOwnPassword ::
  "crypto \<Rightarrow> auth_db \<Rightarrow> auth_db \<Rightarrow> instant \<Rightarrow> draws \<Rightarrow> uuid \<Rightarrow> utext \<Rightarrow> utext
     \<Rightarrow> auth_db \<times> (auth_error + unit)" where
  "changeOwnPassword k rd wr now d uid currentPassword newPassword =
     (case Option.bind (find_account rd uid) acc_passwordHash of
        None \<Rightarrow> (wr, Inl WrongCurrentPassword)
      | Some [] \<Rightarrow> (wr, Inl WrongCurrentPassword)
      | Some h \<Rightarrow>
          if \<not> bcrypt_compare k currentPassword h then (wr, Inl WrongCurrentPassword)
          else change_password wr now uid (bcrypt_hash k (dr_salt d) newPassword))"

text \<open>A field of a profile update is absent, cleared or set; the two names are never cleared.\<close>

record update_profile_dto =
  up_firstName :: "utext option"
  up_displayName :: "utext option"
  up_lastName :: "utext option option"
  up_avatarUrl :: "utext option option"
  up_bio :: "utext option option"
  up_phone :: "utext option option"
  up_recipientName :: "utext option option"
  up_line1 :: "utext option option"
  up_line2 :: "utext option option"
  up_city :: "utext option option"
  up_postalCode :: "utext option option"

definition present :: "'a option \<Rightarrow> 'a \<Rightarrow> 'a" where
  "present x old = (case x of None \<Rightarrow> old | Some v \<Rightarrow> v)"

definition empty_profile_dto :: update_profile_dto where
  "empty_profile_dto = \<lparr>up_firstName = None, up_displayName = None, up_lastName = None,
     up_avatarUrl = None, up_bio = None, up_phone = None, up_recipientName = None,
     up_line1 = None, up_line2 = None, up_city = None, up_postalCode = None\<rparr>"

definition apply_profile :: "update_profile_dto \<Rightarrow> instant \<Rightarrow> profile_row \<Rightarrow> profile_row" where
  "apply_profile dto now p =
     \<lparr>pf_firstName = present (up_firstName dto) (pf_firstName p),
      pf_lastName = present (up_lastName dto) (pf_lastName p),
      pf_displayName = present (up_displayName dto) (pf_displayName p),
      pf_avatarUrl = present (up_avatarUrl dto) (pf_avatarUrl p),
      pf_bio = present (up_bio dto) (pf_bio p),
      pf_phone = present (up_phone dto) (pf_phone p),
      pf_recipientName = present (up_recipientName dto) (pf_recipientName p),
      pf_line1 = present (up_line1 dto) (pf_line1 p),
      pf_line2 = present (up_line2 dto) (pf_line2 p),
      pf_city = present (up_city dto) (pf_city p),
      pf_postalCode = present (up_postalCode dto) (pf_postalCode p),
      pf_updatedAt = now\<rparr>"

definition findMe :: "auth_db \<Rightarrow> uuid \<Rightarrow> auth_error + (user_summary \<times> profile_row option)" where
  "findMe s uid =
     (case find_account s uid of
        None \<Rightarrow> Inl UserNotFound | Some a \<Rightarrow> Inr (summary_of a, acc_profile a))"

definition updateMe ::
  "auth_db \<Rightarrow> instant \<Rightarrow> uuid \<Rightarrow> update_profile_dto
     \<Rightarrow> auth_db \<times> (auth_error + (user_summary \<times> profile_row option))" where
  "updateMe s now uid dto =
     (if Option.bind (find_account s uid) acc_profile = None then (s, Inl UserNotFound)
      else
        let s1 = (if dto = empty_profile_dto then s
                  else write_account (\<lambda>a. acc_id a = uid)
                         (\<lambda>a. a\<lparr>acc_profile := map_option (apply_profile dto now) (acc_profile a)\<rparr>) s)
        in (s1, findMe s1 uid))"

end
