(* ===== verification/Auth_Flow.thy ===== *)
theory Auth_Flow
  imports Auth_Service
begin

text \<open>
  What any number of auth requests leaves behind: \<open>auth_step\<close> is one request, with checks that may
  have read an older state, \<open>auth_inv\<close> the keys of the tables and the owners of sessions, \<open>auth_grows\<close>
  that rows stay and that what is revoked or used stays so. Emailed codes and reset links are
  interpretations of \<open>single_use\<close>.
\<close>

section \<open>What stays\<close>

definition session_part :: "session_row \<Rightarrow> uuid \<times> uuid \<times> utext \<times> instant" where
  "session_part x = (ss_id x, ss_userId x, ss_refreshTokenHash x, ss_expiresAt x)"

definition code_part :: "code_row \<Rightarrow> uuid \<times> uuid \<times> utext \<times> instant \<times> instant" where
  "code_part c = (tf_id c, tf_userId c, tf_codeHash c, tf_expiresAt c, tf_createdAt c)"

definition reset_part :: "reset_row \<Rightarrow> uuid \<times> uuid \<times> utext \<times> instant" where
  "reset_part r = (rt_id r, rt_userId r, rt_tokenHash r, rt_expiresAt r)"

definition device_part :: "device_row \<Rightarrow> uuid \<times> uuid \<times> utext \<times> instant" where
  "device_part d = (dv_id d, dv_userId d, dv_tokenHash d, dv_expiresAt d)"

definition revoked :: "session_row \<Rightarrow> bool" where
  "revoked x \<longleftrightarrow> ss_revokedAt x \<noteq> None"

definition auth_grows :: "auth_db \<Rightarrow> auth_db \<Rightarrow> bool" where
  "auth_grows s s' \<longleftrightarrow>
     rows_grow session_part revoked (sessions s) (sessions s') \<and>
     rows_grow code_part tf_used (codes s) (codes s') \<and>
     rows_grow reset_part rt_used (resets s) (resets s') \<and>
     rows_grow device_part (\<lambda>d. dv_revokedAt d \<noteq> None) (devices s) (devices s') \<and>
     acc_id ` set (accounts s) \<subseteq> acc_id ` set (accounts s')"

lemma auth_grows_refl [simp]: "auth_grows s s"
  by (simp add: auth_grows_def)

lemma auth_grows_trans: "auth_grows s t \<Longrightarrow> auth_grows t u \<Longrightarrow> auth_grows s u"
  unfolding auth_grows_def by (meson rows_grow_trans subset_trans)

section \<open>Keys\<close>

definition auth_inv :: "auth_db \<Rightarrow> bool" where
  "auth_inv s \<longleftrightarrow>
     distinct (map ss_id (sessions s)) \<and> distinct (map ss_refreshTokenHash (sessions s)) \<and>
     distinct (map tf_id (codes s)) \<and>
     distinct (map rt_id (resets s)) \<and> distinct (map rt_tokenHash (resets s)) \<and>
     distinct (map acc_id (accounts s)) \<and> distinct (map acc_email (accounts s)) \<and>
     ss_userId ` set (sessions s) \<subseteq> acc_id ` set (accounts s)"

text \<open>Ids and tokens are drawn from spaces too large for a repeat: 122 and 256 random bits.\<close>

definition fresh_draws :: "crypto \<Rightarrow> draws \<Rightarrow> auth_db \<Rightarrow> bool" where
  "fresh_draws k d s \<longleftrightarrow>
     dr_id d \<notin> ss_id ` set (sessions s) \<and> dr_id d \<notin> tf_id ` set (codes s) \<and>
     dr_id d \<notin> rt_id ` set (resets s) \<and> dr_id d \<notin> acc_id ` set (accounts s) \<and>
     sha256 k (dr_resetToken d) \<notin> rt_tokenHash ` set (resets s)"

datatype table_name = TSessions | TCodes | TResets | TAccounts

text \<open>At most one row is added, with the given key; \<open>moves\<close> says which tables may gain one.\<close>

definition adds :: "bool \<Rightarrow> 'k \<Rightarrow> 'k list \<Rightarrow> 'k list \<Rightarrow> bool" where
  "adds b n ks ls \<longleftrightarrow> ls = ks \<or> (b \<and> ls = ks @ [n])"

lemma adds_refl [simp]: "adds b n ks ks"
  by (simp add: adds_def)

lemma adds_Un:
  "T \<inter> U = {} \<Longrightarrow> adds (x \<in> T) n ks ls \<Longrightarrow> adds (x \<in> U) n ls ms \<Longrightarrow> adds (x \<in> T \<union> U) n ks ms"
  by (auto simp: adds_def)

lemma adds_distinct: "adds b n ks ls \<Longrightarrow> n \<notin> set ks \<Longrightarrow> distinct ks \<Longrightarrow> distinct ls"
  by (auto simp: adds_def)

definition moves :: "crypto \<Rightarrow> draws \<Rightarrow> table_name set \<Rightarrow> auth_db \<Rightarrow> auth_db \<Rightarrow> bool" where
  "moves k d T s s' \<longleftrightarrow>
     auth_grows s s' \<and>
     adds (TSessions \<in> T) (dr_id d) (map ss_id (sessions s)) (map ss_id (sessions s')) \<and>
     adds (TCodes \<in> T) (dr_id d) (map tf_id (codes s)) (map tf_id (codes s')) \<and>
     adds (TResets \<in> T) (dr_id d) (map rt_id (resets s)) (map rt_id (resets s')) \<and>
     adds (TResets \<in> T) (sha256 k (dr_resetToken d))
       (map rt_tokenHash (resets s)) (map rt_tokenHash (resets s')) \<and>
     adds (TAccounts \<in> T) (dr_id d) (map acc_id (accounts s)) (map acc_id (accounts s')) \<and>
     (distinct (map ss_refreshTokenHash (sessions s)) \<longrightarrow>
        distinct (map ss_refreshTokenHash (sessions s'))) \<and>
     (distinct (map acc_email (accounts s)) \<longrightarrow> distinct (map acc_email (accounts s'))) \<and>
     ss_userId ` set (sessions s') \<subseteq> ss_userId ` set (sessions s) \<union> acc_id ` set (accounts s')"

lemma moves_refl [simp]: "moves k d T s s"
  by (auto simp: moves_def)

lemma owners_Un: "B \<subseteq> A \<union> X \<Longrightarrow> C \<subseteq> B \<union> Y \<Longrightarrow> X \<subseteq> Y \<Longrightarrow> C \<subseteq> A \<union> Y"
  by blast

lemma owners_kept: "C \<subseteq> B \<union> Y \<Longrightarrow> B \<subseteq> X \<Longrightarrow> X \<subseteq> Y \<Longrightarrow> C \<subseteq> Y"
  by blast

lemma moves_trans:
  assumes "moves k d T s t" "moves k d U t u" "T \<inter> U = {}"
  shows "moves k d (T \<union> U) s u"
  using assms(1,2) unfolding moves_def
  apply (elim conjE)
  apply (intro conjI)
  subgoal by (rule auth_grows_trans)
  subgoal by (rule adds_Un [OF assms(3)])
  subgoal by (rule adds_Un [OF assms(3)])
  subgoal by (rule adds_Un [OF assms(3)])
  subgoal by (rule adds_Un [OF assms(3)])
  subgoal by (rule adds_Un [OF assms(3)])
  subgoal by simp
  subgoal by simp
  subgoal unfolding auth_grows_def by (elim conjE) (rule owners_Un)
  done

lemma moves_mono: "moves k d T s t \<Longrightarrow> T \<subseteq> U \<Longrightarrow> moves k d U s t"
  unfolding moves_def adds_def by blast

lemma moves_grows: "moves k d T s t \<Longrightarrow> auth_grows s t"
  by (simp add: moves_def)

lemma moves_inv:
  assumes "moves k d T s t" "fresh_draws k d s" "auth_inv s"
  shows "auth_inv t"
  using assms unfolding moves_def fresh_draws_def auth_inv_def
  apply (elim conjE)
  apply (intro conjI)
  subgoal by (rule adds_distinct, assumption, simp, assumption)
  subgoal by simp
  subgoal by (rule adds_distinct, assumption, simp, assumption)
  subgoal by (rule adds_distinct, assumption, simp, assumption)
  subgoal by (rule adds_distinct, assumption, simp, assumption)
  subgoal by (rule adds_distinct, assumption, simp, assumption)
  subgoal by simp
  subgoal unfolding auth_grows_def by (elim conjE) (rule owners_kept)
  done

section \<open>The operations move\<close>

lemma rows_grow_sessions [simp]:
  "rows_grow session_part revoked t (map_rows P (\<lambda>x. x\<lparr>ss_revokedAt := Some now\<rparr>) t)"
  by (rule rows_grow_map_rows) (simp_all add: session_part_def revoked_def)

lemma moves_revoke_where [simp]: "moves k d T s (revoke_where P now s)"
  by (auto simp: moves_def auth_grows_def revoke_where_def map_map_rows_same set_map_rows image_iff)

lemma moves_forget_where [simp]: "moves k d T s (forget_where P now s)"
  by (auto simp: moves_def auth_grows_def forget_where_def device_part_def intro!: rows_grow_map_rows)

lemma moves_isTrusted [simp]: "moves k d T s (fst (isTrusted k s now uid token))"
  by (auto simp: moves_def auth_grows_def isTrusted_def device_part_def split_def
      split: option.splits list.splits intro!: rows_grow_map_rows)

lemma moves_remember:
  "remember k cfg s now newId token uid label = Inr (s1, t) \<Longrightarrow> moves k d T s s1"
  by (auto simp: moves_def auth_grows_def remember_def split: if_splits)

lemma moves_write_account:
  assumes "\<And>a. acc_id (f a) = acc_id a" "\<And>a. acc_email (f a) = acc_email a"
  shows "moves k d T s (write_account P f s)"
proof -
  have "acc_id ` set (map_rows P f t) = acc_id ` set t" for t
    using map_map_rows_same [of acc_id f P t] assms(1) by (metis list.set_map)
  then show ?thesis
    by (auto simp: moves_def auth_grows_def write_account_def map_map_rows_same assms)
qed

lemma moves_claim_code [simp]: "moves k d T s (fst (claim_code s cid))"
  by (auto simp: moves_def auth_grows_def claim_code_def split_def map_map_rows_same code_part_def
      intro!: rows_grow_map_rows)

lemma moves_claim_link [simp]: "moves k d T s (fst (claim_link s rid))"
  by (auto simp: moves_def auth_grows_def claim_link_def split_def map_map_rows_same reset_part_def
      intro!: rows_grow_map_rows)

lemma moves_consume_code [simp]: "moves k d T s (fst (consume_code k rd s now uid code))"
  by (auto simp: consume_code_def split: option.splits)

lemma moves_consume_link [simp]: "moves k d T s (fst (consume_link k rd s now token))"
  by (auto simp: consume_link_def split_def Let_def split: option.splits)

lemma moves_issue_code:
  "moves k d {TCodes} s (fst (issue_code k cfg s now (dr_id d) salt code uid email))"
  by (auto simp: moves_def auth_grows_def adds_def issue_code_def map_map_rows_same code_part_def
      intro!: rows_grow_map_rows_append)

lemma moves_issue_link:
  "moves k d {TResets} s (fst (issue_link k cfg delivers s now (dr_id d) (dr_resetToken d) email))"
  by (auto simp: moves_def auth_grows_def adds_def issue_link_def map_map_rows_same reset_part_def Let_def
      split: option.splits intro!: rows_grow_map_rows_append)

lemma moves_issue:
  assumes "issue k cfg s now (dr_id d) token u = Inr (s1, t)" "so_id u \<in> acc_id ` set (accounts s)"
  shows "moves k d {TSessions} s s1"
  using assms
  by (auto simp: moves_def auth_grows_def adds_def issue_def create_session_def Let_def list_ex_iff
      split: option.splits if_splits) blast

lemma moves_rotate:
  assumes "rotateSession k cfg s now (dr_id d) token sid u = Inr (s1, t)"
    "so_id u \<in> acc_id ` set (accounts s)"
  shows "moves k d {TSessions} s s1"
proof -
  let ?s = "s\<lparr>sessions := map_rows (\<lambda>x. ss_id x = sid) (\<lambda>x. x\<lparr>ss_revokedAt := Some now\<rparr>) (sessions s)\<rparr>"
  have "moves k d {} s ?s"
    by (auto simp: moves_def auth_grows_def map_map_rows_same set_map_rows)
  moreover have "issue k cfg ?s now (dr_id d) token u = Inr (s1, t)"
    using assms(1)
    by (auto simp: rotateSession_def issue_def Let_def split_def split: option.splits if_splits)
  then have "moves k d {TSessions} ?s s1"
    by (rule moves_issue) (simp add: assms(2))
  ultimately show ?thesis
    using moves_trans by fastforce
qed

lemma find_account_mem: "find_account s uid = Some a \<Longrightarrow> a \<in> set (accounts s) \<and> acc_id a = uid"
  unfolding find_account_def by (auto dest: find_SomeD)

lemma account_by_email_mem: "account_by_email s e = Some a \<Longrightarrow> a \<in> set (accounts s) \<and> acc_email a = e"
  unfolding account_by_email_def by (auto dest: find_SomeD)

lemma find_account_None_iff: "find_account s uid = None \<longleftrightarrow> uid \<notin> acc_id ` set (accounts s)"
  unfolding find_account_def by (auto simp: find_None_iff)

lemma authenticate_Inr:
  assumes "authenticate k s email password = Inr a"
  obtains h where "a \<in> set (accounts s)" "acc_email a = email" "acc_passwordHash a = Some h"
    "bcrypt_compare k password h" "acc_status a = U_ACTIVE"
  using assms account_by_email_mem [of s email]
  by (auto simp: authenticate_def split: option.splits list.splits if_splits)

definition known :: "uuid \<Rightarrow> auth_db \<Rightarrow> bool" where
  "known uid s \<longleftrightarrow> uid \<in> acc_id ` set (accounts s)"

lemma known_grows: "known uid s \<Longrightarrow> auth_grows s t \<Longrightarrow> known uid t"
  unfolding known_def auth_grows_def by blast

lemma moves_known: "known uid s \<Longrightarrow> moves k d T s t \<Longrightarrow> known uid t"
  using known_grows moves_grows by blast

lemma moves_then: "moves k d {} s t \<Longrightarrow> moves k d T t u \<Longrightarrow> moves k d T s u"
  using moves_trans [of k d "{}" s t T u] by simp

lemma then_moves: "moves k d T s t \<Longrightarrow> moves k d {} t u \<Longrightarrow> moves k d T s u"
  using moves_trans [of k d T s t "{}" u] by simp

lemma moves_markEmailVerified [simp]: "moves k d T s (markEmailVerified s now uid)"
  unfolding markEmailVerified_def by (rule moves_write_account) simp_all

lemma moves_open_session:
  assumes "known (so_id u) s"
  shows "moves k d {TSessions} s (fst (open_session k cfg s now d u))"
proof (cases "issue k cfg s now (dr_id d) (dr_refreshToken d) u")
  case (Inl e)
  then show ?thesis by (simp add: open_session_def)
next
  case (Inr p)
  obtain s1 t where p: "p = (s1, t)" by (cases p)
  have m1: "moves k d {TSessions} s s1"
    using Inr p moves_issue assms unfolding known_def by blast
  let ?s2 = "write_account (\<lambda>a. acc_id a = so_id u) (\<lambda>a. a\<lparr>acc_lastLoginAt := Some now\<rparr>) s1"
  have "moves k d {} s1 ?s2"
    by (rule moves_write_account) simp_all
  then have "moves k d {TSessions} s (markEmailVerified ?s2 now (so_id u))"
    using m1 then_moves moves_markEmailVerified by metis
  then show ?thesis
    using Inr p m1 by (simp add: open_session_def)
qed

lemma moves_completeLogin:
  "known (acc_id a) s \<Longrightarrow> moves k d {TSessions} s (fst (completeLogin k cfg s now d a))"
  using moves_open_session [of "session_owner_of a" s k d cfg now]
  by (auto simp: completeLogin_def session_owner_of_def split: prod.splits sum.splits)

lemma moves_issueForResolved:
  "known (so_id u) s \<Longrightarrow> moves k d {TSessions} s (fst (issueForResolved k cfg s now d u))"
  using moves_open_session [of u s k d cfg now]
  by (auto simp: issueForResolved_def split: prod.splits sum.splits)

lemma fst_signed_in [simp]: "fst (signed_in r) = fst r"
  by (auto simp: signed_in_def split: prod.splits sum.splits)

lemma moves_ask_for_code: "moves k d {TCodes} s (fst (ask_for_code k cfg s now d uid email))"
  using moves_issue_code [of k d s cfg now "dr_salt d" "dr_code d" uid email]
  by (auto simp: ask_for_code_def Let_def split: prod.splits)

lemma moves_remember_browser:
  assumes "moves k d T s (fst r)"
  shows "moves k d T s (fst (remember_browser k cfg now d dto uid r))"
proof (cases r)
  case (Pair s1 res)
  show ?thesis
  proof (cases res)
    case (Inl e)
    then show ?thesis using Pair assms by (simp add: remember_browser_def)
  next
    case (Inr t)
    show ?thesis
    proof (cases "remember k cfg s1 now (dr_id d) (dr_deviceToken d) uid (rm_deviceLabel dto)")
      case (Inl e)
      then show ?thesis using Pair Inr assms by (simp add: remember_browser_def)
    next
      case R: (Inr p)
      obtain s2 tok where p: "p = (s2, tok)" by (cases p)
      have "moves k d {} s1 s2" using R p moves_remember by blast
      then show ?thesis
        using Pair Inr R p assms then_moves by (auto simp: remember_browser_def)
    qed
  qed
qed

section \<open>One request\<close>

text \<open>Accounts are never deleted, so whatever account a check read is still there at the write.\<close>

definition reads_before :: "auth_db \<Rightarrow> auth_db \<Rightarrow> bool" where
  "reads_before rd wr \<longleftrightarrow> acc_id ` set (accounts rd) \<subseteq> acc_id ` set (accounts wr)"

lemma reads_before_refl [simp]: "reads_before s s"
  by (simp add: reads_before_def)

lemma reads_before_grows: "auth_grows rd wr \<Longrightarrow> reads_before rd wr"
  by (simp add: reads_before_def auth_grows_def)

lemma account_known:
  assumes "find_account rd uid = Some a" "reads_before rd s"
  shows "known uid s"
  using find_account_mem [OF assms(1)] assms(2) unfolding known_def reads_before_def by blast

lemma authenticated_known:
  assumes "authenticate k rd email password = Inr a" "reads_before rd s"
  shows "known (acc_id a) s"
  by (rule authenticate_Inr [OF assms(1)]) (use assms(2) in \<open>auto simp: known_def reads_before_def\<close>)

lemma moves_login:
  assumes "reads_before rd s"
  shows "moves k d UNIV s (fst (login k cfg rd s now d dto))"
proof (cases "authenticate k rd (lg_email dto) (lg_password dto)")
  case (Inl e)
  then show ?thesis by (simp add: login_def)
next
  case (Inr a)
  have kn: "known (acc_id a) s" using Inr assms by (rule authenticated_known)
  obtain s1 b where tr: "isTrusted k s now (acc_id a) (lg_deviceToken dto) = (s1, b)" by fastforce
  have m: "moves k d {} s s1" using moves_isTrusted tr by (metis fst_conv)
  have "moves k d {TSessions} s (fst (completeLogin k cfg s now d a))"
    and "moves k d {TSessions} s (fst (completeLogin k cfg s1 now d a))"
    and "moves k d {TCodes} s (fst (ask_for_code k cfg s1 now d (acc_id a) (acc_email a)))"
    using kn m moves_completeLogin moves_known moves_then moves_ask_for_code by metis+
  then show ?thesis
    using Inr tr by (auto simp: login_def intro: moves_mono)
qed

lemma moves_verifyTwoFactor:
  assumes "reads_before rd s"
  shows "moves k d UNIV s (fst (verifyTwoFactor k cfg rd s now d dto code))"
proof (cases "authenticate k rd (lg_email dto) (lg_password dto)")
  case (Inl e)
  then show ?thesis by (simp add: verifyTwoFactor_def)
next
  case (Inr a)
  have kn: "known (acc_id a) s" using Inr assms by (rule authenticated_known)
  obtain s1 b where c: "consume_code k rd s now (acc_id a) (rm_otp code) = (s1, b)" by fastforce
  have m: "moves k d {} s s1" using moves_consume_code c by (metis fst_conv)
  have "moves k d {TSessions} s (fst (completeLogin k cfg s1 now d a))"
    using kn m moves_completeLogin moves_known moves_then by metis
  then have "moves k d {TSessions} s
      (fst (remember_browser k cfg now d code (acc_id a) (completeLogin k cfg s1 now d a)))"
    by (rule moves_remember_browser)
  then show ?thesis
    using Inr c m by (auto simp: verifyTwoFactor_def intro: moves_mono split: bool.splits)
qed

lemma moves_resendTwoFactor: "moves k d UNIV s (fst (resendTwoFactor k cfg rd s now d dto))"
  using moves_issue_code [THEN moves_mono]
  by (auto simp: resendTwoFactor_def Let_def split_def split: sum.splits)

lemma lookup_known:
  assumes "lookupRefreshToken k rd now token = Inr l" "l = VALID sid u \<or> l = REPLAYED sid u"
    "reads_before rd s"
  shows "known (so_id u) s"
proof -
  obtain uid a where "find_account rd uid = Some a" "so_id u = acc_id a"
    using assms(1,2)
    by (auto simp: lookupRefreshToken_def session_owner_of_def split: option.splits if_splits)
  then show ?thesis
    using account_known [OF _ assms(3)] find_account_mem by metis
qed

lemma moves_refresh:
  assumes "reads_before rd s"
  shows "moves k d UNIV s (fst (refresh k cfg rd s now d token))"
proof (cases "lookupRefreshToken k rd now token")
  case (Inl e)
  then show ?thesis by (simp add: refresh_def)
next
  case (Inr l)
  show ?thesis
  proof (cases l)
    case (VALID sid u)
    have kn: "known (so_id u) s" using lookup_known [OF Inr _ assms] VALID by blast
    show ?thesis
    proof (cases "rotateSession k cfg s now (dr_id d) (dr_refreshToken d) sid u")
      case (Inl e)
      then show ?thesis using Inr VALID by (simp add: refresh_def)
    next
      case R: (Inr p)
      obtain s1 t where p: "p = (s1, t)" by (cases p)
      have "moves k d {TSessions} s s1"
        using R p kn moves_rotate unfolding known_def by blast
      then show ?thesis
        using Inr VALID R p by (auto simp: refresh_def intro: moves_mono)
    qed
  qed (use Inr in \<open>simp_all add: refresh_def revokeAllSessions_def\<close>)
qed

lemma moves_logout: "moves k d T s (fst (logout k rd s now token))"
  by (auto simp: logout_def revokeSession_def split: sum.splits refresh_lookup.splits)

lemma moves_change_password [simp]: "moves k d T s (fst (change_password s now uid h))"
proof -
  have "moves k d {} s (write_account (\<lambda>a. acc_id a = uid) (\<lambda>a. a\<lparr>acc_passwordHash := Some h\<rparr>) s)"
    by (rule moves_write_account) simp_all
  then have "moves k d T s (revokeAll (revokeAllSessions
      (write_account (\<lambda>a. acc_id a = uid) (\<lambda>a. a\<lparr>acc_passwordHash := Some h\<rparr>) s) now uid) now uid)"
    unfolding revokeAll_def revokeAllSessions_def
    using moves_then moves_revoke_where moves_forget_where by metis
  then show ?thesis by (simp add: change_password_def)
qed

lemma moves_resetPassword: "moves k d T s (fst (resetPassword k rd s now e token password))"
proof -
  obtain s1 o1 where c: "consume_link k rd s now token = (s1, o1)" by fastforce
  have m: "moves k d {} s s1" using moves_consume_link c by (metis fst_conv)
  show ?thesis
    using c moves_mono [OF m] moves_then [OF m moves_change_password]
    by (auto simp: resetPassword_def split: option.splits)
qed

lemma moves_register:
  "moves k d UNIV s (fst (register k rd s now d dto))"
  by (auto simp: moves_def auth_grows_def adds_def register_def Let_def new_account_def
      account_by_email_def find_None_iff)

lemma moves_resolveAccount:
  "moves k d {TAccounts} s (fst (resolveAccount lower rd s now (dr_id d) p supplied))"
  by (auto simp: moves_def auth_grows_def adds_def resolveAccount_def Let_def new_account_def
      account_by_email_def find_None_iff split: option.splits)

lemma resolved_known:
  assumes r: "resolveAccount lower rd s now newId p supplied = (s1, Inr (RESOLVED u))"
    and b: "reads_before rd s"
  shows "known (so_id u) s1"
proof (cases "find (\<lambda>v. provider_key v = (op_provider p, op_providerAccountId p)) (providers rd)")
  case (Some v)
  then obtain a where "find_account rd (pv_userId v) = Some a" "so_id u = acc_id a" "s1 = s"
    using r by (auto simp: resolveAccount_def asResolved_def session_owner_of_def
        split: option.splits if_splits)
  then show ?thesis
    using account_known [OF _ b] find_account_mem by metis
next
  case None
  then show ?thesis
    using r by (auto simp: resolveAccount_def Let_def asResolved_def known_def session_owner_of_def
        split: option.splits if_splits)
qed

inductive auth_step :: "crypto \<Rightarrow> auth_config \<Rightarrow> auth_db \<Rightarrow> auth_db \<Rightarrow> bool" for k cfg where
  registers: "fresh_draws k d s \<Longrightarrow> auth_step k cfg s (fst (register k rd s now d dto))"
| logs_in: "reads_before rd s \<Longrightarrow> fresh_draws k d s \<Longrightarrow>
    auth_step k cfg s (fst (login k cfg rd s now d dto))"
| verifies: "reads_before rd s \<Longrightarrow> fresh_draws k d s \<Longrightarrow>
    auth_step k cfg s (fst (verifyTwoFactor k cfg rd s now d dto code))"
| resends: "fresh_draws k d s \<Longrightarrow> auth_step k cfg s (fst (resendTwoFactor k cfg rd s now d dto))"
| refreshes: "reads_before rd s \<Longrightarrow> fresh_draws k d s \<Longrightarrow>
    auth_step k cfg s (fst (refresh k cfg rd s now d token))"
| logs_out: "auth_step k cfg s (fst (logout k rd s now token))"
| forgets: "fresh_draws k d s \<Longrightarrow>
    auth_step k cfg s (fst (forgotPassword k cfg delivers s now (dr_id d) (dr_resetToken d) email))"
| resets_password: "auth_step k cfg s (fst (resetPassword k rd s now d token password))"
| logs_in_with_provider: "reads_before rd s \<Longrightarrow> fresh_draws k d s \<Longrightarrow>
    auth_step k cfg s (fst (oauthLogin k cfg lower rd s now d verified email device))"
| verifies_provider: "reads_before rd s \<Longrightarrow> fresh_draws k d s \<Longrightarrow>
    auth_step k cfg s (fst (verifyOAuth k cfg lower rd s now d verified email code))"
| changes_status: "changeUserStatus rd s now admin target suspend note = Inr (s1, u) \<Longrightarrow>
    auth_step k cfg s s1"
| changes_password: "auth_step k cfg s (fst (changeOwnPassword k rd s now d uid old_pw new_pw))"
| updates_profile: "auth_step k cfg s (fst (updateMe s now uid dto2))"
| revokes_device: "auth_step k cfg s (revoke k s now uid token)"

lemma moves_oauthLogin:
  assumes b: "reads_before rd s"
  shows "moves k d UNIV s (fst (oauthLogin k cfg lower rd s now d verified email device))"
proof (cases verified)
  case (Inl e)
  then show ?thesis by (simp add: oauthLogin_def)
next
  case V: (Inr p)
  obtain s1 r where r: "resolveAccount lower rd s now (dr_id d) p email = (s1, r)" by fastforce
  have m: "moves k d {TAccounts} s s1" using moves_resolveAccount r by (metis fst_conv)
  show ?thesis
  proof (cases "\<exists>u. r = Inr (RESOLVED u)")
    case False
    then have "fst (oauthLogin k cfg lower rd s now d verified email device) = s1"
      using V r by (auto simp: oauthLogin_def split: sum.splits account_resolution.splits)
    then show ?thesis using m by (auto intro: moves_mono)
  next
    case True
    then obtain u where u: "r = Inr (RESOLVED u)" by blast
    have kn: "known (so_id u) s1" using resolved_known r u b by blast
    obtain s2 t where tr: "isTrusted k s1 now (so_id u) device = (s2, t)" by fastforce
    have m2: "moves k d {} s1 s2" using moves_isTrusted tr by (metis fst_conv)
    have "moves k d {TSessions} s1 (fst (issueForResolved k cfg s2 now d u))"
      using kn m2 moves_issueForResolved moves_known moves_then by metis
    then have a: "moves k d ({TAccounts} \<union> {TSessions}) s (fst (issueForResolved k cfg s2 now d u))"
      by (intro moves_trans [OF m]) auto
    have "moves k d {TCodes} s1 (fst (ask_for_code k cfg s2 now d (so_id u) (so_email u)))"
      using m2 moves_then moves_ask_for_code by metis
    then have "moves k d ({TAccounts} \<union> {TCodes}) s
        (fst (ask_for_code k cfg s2 now d (so_id u) (so_email u)))"
      by (intro moves_trans [OF m]) auto
    then show ?thesis
      using V r u tr a by (auto simp: oauthLogin_def intro: moves_mono)
  qed
qed

lemma moves_verifyOAuth:
  assumes b: "reads_before rd s"
  shows "moves k d UNIV s (fst (verifyOAuth k cfg lower rd s now d verified email code))"
proof (cases verified)
  case (Inl e)
  then show ?thesis by (simp add: verifyOAuth_def)
next
  case V: (Inr p)
  obtain s1 r where r: "resolveAccount lower rd s now (dr_id d) p email = (s1, r)" by fastforce
  have m: "moves k d {TAccounts} s s1" using moves_resolveAccount r by (metis fst_conv)
  show ?thesis
  proof (cases "\<exists>u. r = Inr (RESOLVED u)")
    case False
    then have "fst (verifyOAuth k cfg lower rd s now d verified email code) = s1"
      using V r by (auto simp: verifyOAuth_def split: sum.splits account_resolution.splits)
    then show ?thesis using m by (auto intro: moves_mono)
  next
    case True
    then obtain u where u: "r = Inr (RESOLVED u)" by blast
    have kn: "known (so_id u) s1" using resolved_known r u b by blast
    obtain s2 t where c: "consume_code k s1 s1 now (so_id u) (rm_otp code) = (s2, t)" by fastforce
    have m2: "moves k d {} s1 s2" using moves_consume_code c by (metis fst_conv)
    have "moves k d {TSessions} s1 (fst (issueForResolved k cfg s2 now d u))"
      using kn m2 moves_issueForResolved moves_known moves_then by metis
    then have "moves k d {TSessions} s1
        (fst (remember_browser k cfg now d code (so_id u) (issueForResolved k cfg s2 now d u)))"
      by (rule moves_remember_browser)
    then have a: "moves k d ({TAccounts} \<union> {TSessions}) s
        (fst (remember_browser k cfg now d code (so_id u) (issueForResolved k cfg s2 now d u)))"
      by (intro moves_trans [OF m]) auto
    have "moves k d {TAccounts} s s2" using m m2 then_moves by blast
    then show ?thesis
      using V r u c a by (auto simp: verifyOAuth_def intro: moves_mono split: bool.splits)
  qed
qed

lemma moves_changeUserStatus:
  assumes "changeUserStatus rd s now admin target suspend note = Inr (s1, u)"
  shows "moves k d T s s1"
proof -
  let ?w = "write_account (\<lambda>a. acc_id a = target)
              (\<lambda>a. a\<lparr>acc_status := (if suspend then U_SUSPENDED else U_ACTIVE)\<rparr>) s"
  obtain log where e: "s1 = (if suspend
      then revoke_where (\<lambda>x. ss_userId x = target \<and> ss_expiresAt x > now) now (?w\<lparr>userActions := log\<rparr>)
      else ?w\<lparr>userActions := log\<rparr>)"
    using assms by (auto simp: changeUserStatus_def Let_def split: if_splits option.splits)
  have "moves k d {} s ?w" by (rule moves_write_account) simp_all
  moreover have "moves k d {} ?w (?w\<lparr>userActions := log\<rparr>)"
    by (auto simp: moves_def auth_grows_def)
  ultimately have w: "moves k d {} s (?w\<lparr>userActions := log\<rparr>)" by (rule moves_then)
  show ?thesis
    unfolding e using moves_then [OF w moves_revoke_where] moves_mono [OF w] by auto
qed

lemma moves_changeOwnPassword:
  "moves k d T s (fst (changeOwnPassword k rd s now e uid old_pw new_pw))"
  by (auto simp: changeOwnPassword_def split: option.splits list.splits)

lemma moves_updateMe: "moves k d T s (fst (updateMe s now uid dto))"
  by (auto simp: updateMe_def Let_def intro!: moves_write_account)

lemma moves_none_inv: "moves k d {} s t \<Longrightarrow> auth_inv s \<Longrightarrow> auth_inv t"
  unfolding moves_def auth_inv_def
  apply (elim conjE)
  apply (intro conjI)
  subgoal by (simp add: adds_def)
  subgoal by simp
  subgoal by (simp add: adds_def)
  subgoal by (simp add: adds_def)
  subgoal by (simp add: adds_def)
  subgoal by (simp add: adds_def)
  subgoal by simp
  subgoal unfolding auth_grows_def by (elim conjE) (rule owners_kept)
  done

lemma auth_step_cases:
  assumes "auth_step k cfg s s'"
  shows "(\<exists>d. moves k d UNIV s s' \<and> fresh_draws k d s) \<or> (\<exists>d. moves k d {} s s')"
  using assms
proof cases
  case changes_status
  then show ?thesis using moves_changeUserStatus by blast
qed (use moves_register moves_login moves_verifyTwoFactor moves_resendTwoFactor moves_refresh
      moves_logout moves_issue_link [THEN moves_mono] moves_resetPassword moves_oauthLogin
      moves_verifyOAuth moves_changeOwnPassword moves_updateMe in
    \<open>auto simp: forgotPassword_def revoke_def intro: moves_forget_where\<close>)

lemma auth_step_grows: "auth_step k cfg s s' \<Longrightarrow> auth_grows s s'"
  using auth_step_cases moves_grows by blast

lemma auth_step_inv: "auth_step k cfg s s' \<Longrightarrow> auth_inv s \<Longrightarrow> auth_inv s'"
  using auth_step_cases moves_inv moves_none_inv by blast

lemma auth_steps_grow: "(auth_step k cfg)\<^sup>*\<^sup>* s s' \<Longrightarrow> auth_grows s s'"
  by (induction rule: rtranclp_induct) (auto dest: auth_step_grows intro: auth_grows_trans)

lemma empty_auth_inv: "auth_inv empty_auth_db"
  by (simp add: auth_inv_def empty_auth_db_def)

interpretation auth: invariant_system "\<lambda>s. s = empty_auth_db" "auth_step k cfg" auth_inv for k cfg
  by unfold_locales (simp_all add: empty_auth_inv auth_step_inv)

section \<open>Used once\<close>

text \<open>The row a code or a link was checked against.\<close>

definition answered_code :: "crypto \<Rightarrow> auth_db \<Rightarrow> instant \<Rightarrow> login_dto \<Rightarrow> uuid" where
  "answered_code k rd now dto =
     (case authenticate k rd (lg_email dto) (lg_password dto) of
        Inl e \<Rightarrow> 0
      | Inr a \<Rightarrow> (case live_code rd now (acc_id a) of None \<Rightarrow> 0 | Some c \<Rightarrow> tf_id c))"

definition presented_link :: "crypto \<Rightarrow> auth_db \<Rightarrow> instant \<Rightarrow> utext \<Rightarrow> uuid" where
  "presented_link k rd now token =
     (case live_link k rd now token of None \<Rightarrow> 0 | Some r \<Rightarrow> rt_id r)"

definition code_spent :: "auth_db \<Rightarrow> uuid \<Rightarrow> bool" where
  "code_spent s c \<longleftrightarrow> (\<exists>r \<in> set (codes s). tf_id r = c \<and> tf_used r)"

definition link_spent :: "auth_db \<Rightarrow> uuid \<Rightarrow> bool" where
  "link_spent s c \<longleftrightarrow> (\<exists>r \<in> set (resets s). rt_id r = c \<and> rt_used r)"

lemma code_spent_grows: "auth_grows s t \<Longrightarrow> code_spent s c \<Longrightarrow> code_spent t c"
  unfolding auth_grows_def code_spent_def rows_grow_def code_part_def by fastforce

lemma link_spent_grows: "auth_grows s t \<Longrightarrow> link_spent s c \<Longrightarrow> link_spent t c"
  unfolding auth_grows_def link_spent_def rows_grow_def reset_part_def by fastforce

lemma claimed_was_unused:
  assumes "distinct (map key t)" "count_rows (\<lambda>r. key r = c \<and> \<not> used r) t = 1"
  shows "\<not> (\<exists>r \<in> set t. key r = c \<and> used r)"
proof -
  obtain q where "q \<in> set t" "key q = c" "\<not> used q"
    using count_rows_one [of "\<lambda>r. key r = c \<and> \<not> used r" t] assms(2) by auto
  then show ?thesis
    using distinct_key_unique [OF assms(1)] by metis
qed

lemma claimed_is_used:
  assumes "count_rows (\<lambda>r. key r = c \<and> \<not> used r) t = 1"
    and "\<And>r. key (f r) = key r" "\<And>r. used (f r)"
  shows "\<exists>r \<in> set (map_rows (\<lambda>r. key r = c \<and> \<not> used r) f t). key r = c \<and> used r"
proof -
  obtain q where q: "q \<in> set t" "key q = c" "\<not> used q"
    using count_rows_one [of "\<lambda>r. key r = c \<and> \<not> used r" t] assms(1) by auto
  then have "f q \<in> set (map_rows (\<lambda>r. key r = c \<and> \<not> used r) f t)"
    unfolding set_map_rows by (intro image_eqI [where x = q]) simp_all
  then show ?thesis
    by (rule bexI [rotated]) (simp add: assms(2,3) q(2))
qed

lemma claim_code_unspent: "auth_inv s \<Longrightarrow> claim_code s c = (s1, True) \<Longrightarrow> \<not> code_spent s c"
  using claimed_was_unused [of tf_id "codes s" c tf_used]
  by (simp add: claim_code_def split_def Let_def code_spent_def auth_inv_def)

lemma claim_code_spends: "claim_code s c = (s1, True) \<Longrightarrow> code_spent s1 c"
  using claimed_is_used [of tf_id c tf_used "codes s" "\<lambda>r. r\<lparr>tf_used := True\<rparr>"]
  by (auto simp: claim_code_def split_def Let_def code_spent_def)

lemma claim_link_unspent: "auth_inv s \<Longrightarrow> claim_link s c = (s1, True) \<Longrightarrow> \<not> link_spent s c"
  using claimed_was_unused [of rt_id "resets s" c rt_used]
  by (simp add: claim_link_def split_def Let_def link_spent_def auth_inv_def)

lemma claim_link_spends: "claim_link s c = (s1, True) \<Longrightarrow> link_spent s1 c"
  using claimed_is_used [of rt_id c rt_used "resets s" "\<lambda>r. r\<lparr>rt_used := True\<rparr>"]
  by (auto simp: claim_link_def split_def Let_def link_spent_def)

text \<open>A verification that hands out tokens, with the code it was answered with.\<close>

definition redeem_code ::
  "crypto \<Rightarrow> auth_config \<Rightarrow> auth_db \<Rightarrow> auth_db \<times> instant \<times> draws \<times> login_dto \<times> remember_dto
     \<Rightarrow> (auth_db \<times> uuid) option" where
  "redeem_code k cfg s i =
     (case i of (rd, now, d, dto, code) \<Rightarrow>
        if reads_before rd s \<and> fresh_draws k d s then
          (case verifyTwoFactor k cfg rd s now d dto code of
             (s1, Inr t) \<Rightarrow> Some (s1, answered_code k rd now dto)
           | (s1, Inl e) \<Rightarrow> None)
        else None)"

definition redeem_link ::
  "crypto \<Rightarrow> auth_db \<Rightarrow> auth_db \<times> instant \<times> draws \<times> utext \<times> utext \<Rightarrow> (auth_db \<times> uuid) option" where
  "redeem_link k s i =
     (case i of (rd, now, d, token, password) \<Rightarrow>
        (case resetPassword k rd s now d token password of
           (s1, Inr u) \<Rightarrow> Some (s1, presented_link k rd now token)
         | (s1, Inl e) \<Rightarrow> None))"

lemma verifyTwoFactor_claims:
  assumes "verifyTwoFactor k cfg rd s now d dto code = (s1, Inr t)" and rd: "reads_before rd s"
  obtains s2 where "claim_code s (answered_code k rd now dto) = (s2, True)" "auth_grows s2 s1"
proof -
  obtain a where a: "authenticate k rd (lg_email dto) (lg_password dto) = Inr a"
    using assms(1) by (cases "authenticate k rd (lg_email dto) (lg_password dto)")
      (simp_all add: verifyTwoFactor_def)
  obtain s2 b where c: "consume_code k rd s now (acc_id a) (rm_otp code) = (s2, b)" by fastforce
  have b: "b" using assms(1) a c by (cases b) (simp_all add: verifyTwoFactor_def)
  have v: "remember_browser k cfg now d code (acc_id a) (completeLogin k cfg s2 now d a) = (s1, Inr t)"
    using assms(1) a c b by (simp add: verifyTwoFactor_def)
  obtain q where q: "live_code rd now (acc_id a) = Some q" "claim_code s (tf_id q) = (s2, True)"
    using c b by (auto simp: consume_code_def split: option.splits if_splits)
  have "known (acc_id a) s" using a rd by (rule authenticated_known)
  then have "known (acc_id a) s2"
    using moves_known moves_consume_code c by (metis fst_conv)
  then have "auth_grows s2 s1"
    using moves_remember_browser [OF moves_completeLogin, THEN moves_grows] v by (metis fst_conv)
  then show ?thesis
    using that [of s2] a q by (simp add: answered_code_def)
qed

lemma resetPassword_claims:
  assumes "resetPassword k rd s now d token password = (s1, Inr u)"
  obtains s2 where "claim_link s (presented_link k rd now token) = (s2, True)" "auth_grows s2 s1"
proof -
  obtain s2 o1 where c: "consume_link k rd s now token = (s2, o1)" by fastforce
  obtain rid uid where o: "o1 = Some (rid, uid)"
    using assms c by (cases o1) (auto simp: resetPassword_def)
  have "change_password s2 now uid (bcrypt_hash k (dr_salt d) password) = (s1, Inr u)"
    using assms c o by (simp add: resetPassword_def)
  then have "auth_grows s2 s1"
    using moves_change_password [THEN moves_grows] by (metis fst_conv)
  moreover have "claim_link s (presented_link k rd now token) = (s2, True)"
    using c o by (auto simp: consume_link_def presented_link_def split_def Let_def
        split: option.splits if_splits intro: prod_eqI)
  ultimately show ?thesis
    using that by blast
qed

interpretation emailed_code: single_use "\<lambda>s. s = empty_auth_db" "auth_step k cfg" auth_inv
    "redeem_code k cfg" code_spent for k cfg
proof unfold_locales
  fix s i s' c
  assume r: "redeem_code k cfg s i = Some (s', c)"
  obtain rd now d dto code where i: "i = (rd, now, d, dto, code)" by (cases i)
  obtain t where v: "verifyTwoFactor k cfg rd s now d dto code = (s', Inr t)"
      "c = answered_code k rd now dto" "reads_before rd s" "fresh_draws k d s"
    using r i by (auto simp: redeem_code_def split: if_splits prod.splits sum.splits)
  obtain s2 where s2: "claim_code s c = (s2, True)" "auth_grows s2 s'"
    using verifyTwoFactor_claims [OF v(1,3)] v(2) by blast
  show "code_spent s' c" using s2 claim_code_spends code_spent_grows by blast
  show "auth_step k cfg s s'" using auth_step.verifies [OF v(3,4), of cfg now dto code] v(1) by simp
  show "auth_inv s \<Longrightarrow> \<not> code_spent s c" using s2 claim_code_unspent by blast
next
  fix s s' c
  assume "auth_step k cfg s s'" "code_spent s c"
  then show "code_spent s' c" using auth_step_grows code_spent_grows by blast
qed

interpretation reset_link: single_use "\<lambda>s. s = empty_auth_db" "auth_step k cfg" auth_inv
    "redeem_link k" link_spent for k cfg
proof unfold_locales
  fix s i s' c
  assume r: "redeem_link k s i = Some (s', c)"
  obtain rd now d token password where i: "i = (rd, now, d, token, password)" by (cases i)
  obtain u where v: "resetPassword k rd s now d token password = (s', Inr u)"
      "c = presented_link k rd now token"
    using r i by (auto simp: redeem_link_def split: prod.splits sum.splits)
  obtain s2 where s2: "claim_link s c = (s2, True)" "auth_grows s2 s'"
    using resetPassword_claims [OF v(1)] v(2) by blast
  show "link_spent s' c" using s2 claim_link_spends link_spent_grows by blast
  show "auth_step k cfg s s'"
    using auth_step.resets_password [of k cfg s rd now d token password] v(1) by simp
  show "auth_inv s \<Longrightarrow> \<not> link_spent s c" using s2 claim_link_unspent by blast
next
  fix s s' c
  assume "auth_step k cfg s s'" "link_spent s c"
  then show "link_spent s' c" using auth_step_grows link_spent_grows by blast
qed

end
