(* ===== verification/Auth_Properties.thy ===== *)
theory Auth_Properties
  imports Auth_Flow
begin

text \<open>
  What signing in guarantees, and where its checks and writes come apart. The concrete run at the
  start serves the witnesses: a library in which hashing is a tag, one account, its code and links.
\<close>

section \<open>A concrete run\<close>

definition demo_crypto :: crypto where
  "demo_crypto = \<lparr>sha256 = (\<lambda>t. 35 # t), bcrypt_hash = (\<lambda>salt plain. 36 # plain),
     bcrypt_compare = (\<lambda>plain h. h = 36 # plain),
     jwt_sign = (\<lambda>p now. [ap_sub p]),
     jwt_verify = (\<lambda>t now. case t of [sub] \<Rightarrow> Some sub | _ \<Rightarrow> None)\<rparr>"

lemma demo_crypto_laws: "crypto_laws demo_crypto"
  by (simp add: crypto_laws_def demo_crypto_def)

definition demo_config :: auth_config where
  "demo_config = \<lparr>JWT_REFRESH_TTL = ascii ''7d'', OTP_TTL_MINUTES = 10,
     OTP_RESEND_COOLDOWN_SECONDS = 60, ADMIN_SKIP_2FA = False, PASSWORD_RESET_TTL_MINUTES = 30,
     TRUSTED_DEVICE_TTL_DAYS = 30, WEB_APP_URL = ascii ''http://localhost:3000/'',
     GOOGLE_CLIENT_ID = None, LINE_CHANNEL_ID = None\<rparr>"

definition demo_draws :: "nat \<Rightarrow> draws" where
  "demo_draws n = \<lparr>dr_id = n, dr_salt = [], dr_code = [48, n], dr_refreshToken = [82, n],
     dr_deviceToken = [68, n], dr_resetToken = [76, n]\<rparr>"

definition demo_login :: login_dto where
  "demo_login = \<lparr>lg_email = ascii ''a@b'', lg_password = ascii ''secret1'', lg_deviceToken = None\<rparr>"

definition demo_remember :: "utext \<Rightarrow> remember_dto" where
  "demo_remember otp = \<lparr>rm_otp = otp, rm_rememberDevice = True, rm_deviceLabel = Some (ascii ''laptop'')\<rparr>"

definition run0 :: auth_db where
  "run0 = fst (register demo_crypto empty_auth_db empty_auth_db 0 (demo_draws 1)
     \<lparr>rg_email = ascii ''a@b'', rg_password = ascii ''secret1'', rg_firstName = ascii ''Ann'',
      rg_lastName = None, rg_displayName = ascii ''ann''\<rparr>)"

definition run1 :: auth_db where
  "run1 = fst (login demo_crypto demo_config run0 run0 1000 (demo_draws 2) demo_login)"

definition run2 :: auth_db where
  "run2 = fst (verifyTwoFactor demo_crypto demo_config run1 run1 5000 (demo_draws 3) demo_login
     (demo_remember [48, 2]))"

definition run3 :: auth_db where
  "run3 = fst (forgotPassword demo_crypto demo_config (\<lambda>m. True) run2 9000 4 [76, 4] (ascii ''a@b''))"

lemma run1_answer: "snd (login demo_crypto demo_config run0 run0 1000 (demo_draws 2) demo_login) =
    ([TwoFactorCode (ascii ''a@b'') [48, 2] 10], Inr (PENDING_2FA 10 60))"
  by code_simp

lemma run2_tokens: "\<not> isl (snd (verifyTwoFactor demo_crypto demo_config run1 run1 5000 (demo_draws 3)
    demo_login (demo_remember [48, 2])))"
  by code_simp

lemma run2_remembered: "map dv_tokenHash (devices run2) = [[35, 68, 3]]"
  by code_simp

lemma run3_links: "map rt_tokenHash (resets run3) = [[35, 76, 4]]"
  by code_simp

section \<open>Who is let in\<close>

definition proves_password :: "crypto \<Rightarrow> auth_db \<Rightarrow> login_dto \<Rightarrow> account_row \<Rightarrow> bool" where
  "proves_password k s dto a \<longleftrightarrow>
     a \<in> set (accounts s) \<and> acc_email a = lg_email dto \<and> acc_status a = U_ACTIVE \<and>
     (\<exists>h. acc_passwordHash a = Some h \<and> bcrypt_compare k (lg_password dto) h)"

lemma authenticate_proves:
  assumes "authenticate k s (lg_email dto) (lg_password dto) = Inr a"
  shows "proves_password k s dto a"
  by (rule authenticate_Inr [OF assms]) (auto simp: proves_password_def)

lemma isTrusted_True:
  assumes "isTrusted k s now uid token = (s1, True)"
  obtains t dv where "token = Some t" "dv \<in> set (devices s)" "is_trusted_row k now uid t dv"
  using assms
  by (auto simp: isTrusted_def split_def Let_def count_rows_def filter_empty_conv
      split: option.splits list.splits)

lemma sessions_isTrusted: "isTrusted k s now uid token = (s1, b) \<Longrightarrow> sessions s1 = sessions s"
  by (auto simp: isTrusted_def split_def Let_def split: option.splits list.splits)

lemma sessions_ask_for_code:
  "ask_for_code k cfg s now d uid email = (s1, ms, r) \<Longrightarrow>
     sessions s1 = sessions s \<and> (\<forall>t. r \<noteq> Inr (Tokens t))"
  by (auto simp: ask_for_code_def issue_code_def Let_def split_def split: if_splits)

text \<open>A sign-in for \<open>a\<close>: one new live session for \<open>a\<close>, and the tokens name \<open>a\<close>.\<close>

definition signs_in :: "crypto \<Rightarrow> auth_db \<Rightarrow> auth_db \<Rightarrow> account_row \<Rightarrow> auth_tokens \<Rightarrow> bool" where
  "signs_in k s s1 a t \<longleftrightarrow>
     tk_user t = toAuthUser a \<and>
     (\<exists>x. sessions s1 = sessions s @ [x] \<and> ss_userId x = acc_id a \<and> ss_revokedAt x = None \<and>
        ss_refreshTokenHash x = sha256 k (tk_refreshToken t))"

lemma completeLogin_signs_in:
  assumes "completeLogin k cfg s now d a = (s1, Inr t)"
  shows "signs_in k s s1 a t"
  using assms
  by (auto simp: completeLogin_def open_session_def issue_def create_session_def Let_def
      signs_in_def tokens_response_def markEmailVerified_def write_account_def session_owner_of_def
      split: sum.splits prod.splits option.splits if_splits)

lemma remember_browser_signs_in:
  assumes "remember_browser k cfg now d dto uid (s1, Inr t1) = (s2, Inr t)" "signs_in k s s1 a t1"
  shows "signs_in k s s2 a t"
  using assms
  by (auto simp: remember_browser_def remember_def signs_in_def split: sum.splits prod.splits if_splits)

lemma login_tokens:
  assumes "login k cfg rd wr now d dto = (s1, ms, Inr (Tokens t))"
  obtains a where "proves_password k rd dto a" "signs_in k wr s1 a t"
    "acc_role a = ADMIN \<and> ADMIN_SKIP_2FA cfg \<or>
     (\<exists>token. lg_deviceToken dto = Some token \<and>
        (\<exists>dv \<in> set (devices wr). is_trusted_row k now (acc_id a) token dv))"
proof -
  obtain a where a: "authenticate k rd (lg_email dto) (lg_password dto) = Inr a"
    using assms by (cases "authenticate k rd (lg_email dto) (lg_password dto)") (simp_all add: login_def)
  have pw: "proves_password k rd dto a" using a by (rule authenticate_proves)
  show ?thesis
  proof (cases "acc_role a = ADMIN \<and> ADMIN_SKIP_2FA cfg")
    case True
    then have "signed_in (completeLogin k cfg wr now d a) = (s1, ms, Inr (Tokens t))"
      using assms a by (simp add: login_def)
    then have "completeLogin k cfg wr now d a = (s1, Inr t)"
      by (auto simp: signed_in_def split: prod.splits sum.splits)
    then show ?thesis using that pw True completeLogin_signs_in by blast
  next
    case False
    obtain s2 b where tr: "isTrusted k wr now (acc_id a) (lg_deviceToken dto) = (s2, b)" by fastforce
    have b: b
      using assms a False tr by (cases b) (auto simp: login_def dest: sessions_ask_for_code)
    have "signed_in (completeLogin k cfg s2 now d a) = (s1, ms, Inr (Tokens t))"
      using assms a False tr b by (auto simp: login_def)
    then have "completeLogin k cfg s2 now d a = (s1, Inr t)"
      by (auto simp: signed_in_def split: prod.splits sum.splits)
    then have "signs_in k wr s1 a t"
      using completeLogin_signs_in sessions_isTrusted [OF tr] unfolding signs_in_def by metis
    then show ?thesis using that pw tr b isTrusted_True by metis
  qed
qed

lemma verify_tokens:
  assumes "verifyTwoFactor k cfg rd wr now d dto code = (s1, Inr t)" "reads_before rd wr"
  obtains a c where "proves_password k rd dto a" "signs_in k wr s1 a t"
    "c \<in> set (codes rd)" "tf_userId c = acc_id a" "tf_expiresAt c > now"
    "bcrypt_compare k (rm_otp code) (tf_codeHash c)"
    "\<exists>q \<in> set (codes wr). tf_id q = tf_id c \<and> \<not> tf_used q" "code_spent s1 (tf_id c)"
proof -
  obtain a where a: "authenticate k rd (lg_email dto) (lg_password dto) = Inr a"
    using assms(1) by (cases "authenticate k rd (lg_email dto) (lg_password dto)")
      (simp_all add: verifyTwoFactor_def)
  obtain s2 b where c: "consume_code k rd wr now (acc_id a) (rm_otp code) = (s2, b)" by fastforce
  have b: b using assms(1) a c by (cases b) (simp_all add: verifyTwoFactor_def)
  have v: "remember_browser k cfg now d code (acc_id a) (completeLogin k cfg s2 now d a) = (s1, Inr t)"
    using assms(1) a c b by (simp add: verifyTwoFactor_def)
  obtain q where q: "live_code rd now (acc_id a) = Some q" "bcrypt_compare k (rm_otp code) (tf_codeHash q)"
      "claim_code wr (tf_id q) = (s2, True)"
    using c b by (auto simp: consume_code_def split: option.splits if_splits)
  have live: "q \<in> set (codes rd)" "tf_userId q = acc_id a" "tf_expiresAt q > now"
    using q(1) find_by_SomeD unfolding live_code_def by (metis (mono_tags, lifting))+
  have unused: "\<exists>p \<in> set (codes wr). tf_id p = tf_id q \<and> \<not> tf_used p"
    using q(3) count_rows_one [of "\<lambda>x. tf_id x = tf_id q \<and> \<not> tf_used x" "codes wr"]
    by (auto simp: claim_code_def split_def Let_def)
  have sess: "sessions s2 = sessions wr"
    using q(3) by (auto simp: claim_code_def split_def Let_def)
  obtain s3 r3 where cl: "completeLogin k cfg s2 now d a = (s3, r3)" by fastforce
  obtain t1 where t1: "r3 = Inr t1" using v cl by (cases r3) (auto simp: remember_browser_def)
  have "signs_in k wr s3 a t1"
    using completeLogin_signs_in cl t1 sess unfolding signs_in_def by metis
  then have si: "signs_in k wr s1 a t"
    using remember_browser_signs_in v cl t1 by metis
  have "tf_id q = answered_code k rd now dto"
    using a q(1) by (simp add: answered_code_def)
  then have "code_spent s1 (tf_id q)"
    using verifyTwoFactor_claims [OF assms] claim_code_spends code_spent_grows by metis
  then show ?thesis
    using that a authenticate_proves si live q(2) unused by blast
qed


definition demo_trusted_login :: login_dto where
  "demo_trusted_login = demo_login\<lparr>lg_deviceToken := Some [68, 3]\<rparr>"

definition run4 :: "auth_db \<times> auth_tokens" where
  "run4 = (case login demo_crypto demo_config run2 run2 30000 (demo_draws 9) demo_trusted_login of
     (s, ms, Inr (Tokens t)) \<Rightarrow> (s, t) | (s, ms, r) \<Rightarrow> (s, undefined))"

lemma run4_step: "login demo_crypto demo_config run2 run2 30000 (demo_draws 9) demo_trusted_login
    = (fst run4, [], Inr (Tokens (snd run4)))"
  by code_simp

lemma run2_step: "verifyTwoFactor demo_crypto demo_config run1 run1 5000 (demo_draws 3) demo_login
    (demo_remember [48, 2]) = (run2, Inr (projr (snd (verifyTwoFactor demo_crypto demo_config run1 run1
      5000 (demo_draws 3) demo_login (demo_remember [48, 2])))))"
  using run2_tokens by (simp add: run2_def prod_eq_iff sum.expand)


section \<open>Reset links\<close>

lemma live_link_mem:
  assumes "live_link k s now token = Some r"
  shows "r \<in> set (resets s)" "rt_tokenHash r = sha256 k token" "\<not> rt_used r" "rt_expiresAt r > now"
  using assms unfolding live_link_def by (auto dest: find_SomeD)

lemma reset_row_stays:
  assumes "auth_grows s t" "r \<in> set (resets s)"
  obtains q where "q \<in> set (resets t)" "rt_id q = rt_id r" "rt_userId q = rt_userId r"
    "rt_tokenHash q = rt_tokenHash r" "rt_used r \<Longrightarrow> rt_used q"
proof -
  obtain q where "q \<in> set (resets t)" "reset_part q = reset_part r" "rt_used r \<Longrightarrow> rt_used q"
    using rows_growD [OF _ assms(2)] assms(1) unfolding auth_grows_def by blast
  then show ?thesis using that by (simp add: reset_part_def)
qed

definition token_spent :: "crypto \<Rightarrow> auth_db \<Rightarrow> utext \<Rightarrow> bool" where
  "token_spent k s token \<longleftrightarrow> (\<exists>r \<in> set (resets s). rt_tokenHash r = sha256 k token \<and> rt_used r)"

lemma token_spent_grows: "auth_grows s t \<Longrightarrow> token_spent k s token \<Longrightarrow> token_spent k t token"
  unfolding token_spent_def by (metis reset_row_stays)

lemma claim_link_refused:
  assumes "auth_inv s" "link_spent s c"
  shows "claim_link s c = (s, False)"
proof -
  have "\<not> (\<exists>r \<in> set (resets s). rt_id r = c \<and> \<not> rt_used r)"
    using assms distinct_key_unique [of rt_id "resets s"]
    unfolding auth_inv_def link_spent_def by metis
  then show ?thesis
    using count_rows_pos_iff [of "\<lambda>r. rt_id r = c \<and> \<not> rt_used r" "resets s"]
    by (auto simp: claim_link_def update_many_def map_rows_id)
qed

lemma spent_token_refused:
  assumes "auth_inv s" "token_spent k s token" "auth_grows rd s"
  shows "resetPassword k rd s now d token password = (s, Inl InvalidResetLink)"
proof (cases "live_link k rd now token")
  case None
  then show ?thesis by (simp add: resetPassword_def consume_link_def)
next
  case (Some p)
  obtain q where q: "q \<in> set (resets s)" "rt_id q = rt_id p" "rt_tokenHash q = sha256 k token"
    using live_link_mem [OF Some] by (metis reset_row_stays [OF assms(3)])
  obtain r where r: "r \<in> set (resets s)" "rt_tokenHash r = sha256 k token" "rt_used r"
    using assms(2) unfolding token_spent_def by blast
  have "q = r"
    using distinct_key_unique [of rt_tokenHash "resets s" q r] assms(1) q r by (simp add: auth_inv_def)
  then have "link_spent s (rt_id p)"
    using q r unfolding link_spent_def by metis
  then show ?thesis
    using Some claim_link_refused [OF assms(1)] by (simp add: resetPassword_def consume_link_def)
qed

lemma sessions_revokeAll [simp]: "sessions (revokeAll s now uid) = sessions s"
  by (simp add: revokeAll_def forget_where_def)

lemma map_rows_kills:
  assumes "\<And>r. P (f r) = P r" "\<And>r. \<not> alive (f r)"
    and "r \<in> set (map_rows (\<lambda>r. P r \<and> alive r) f t)" "P r"
  shows "\<not> alive r"
proof -
  obtain q where "r = (if P q \<and> alive q then f q else q)"
    using assms(3) unfolding map_rows_def set_map by blast
  then show ?thesis
    using assms(1,2,4) by (cases "P q \<and> alive q") auto
qed

lemma revokeAllSessions_revokes:
  "\<forall>x \<in> set (sessions (revokeAllSessions s now uid)). ss_userId x = uid \<longrightarrow> revoked x"
  using map_rows_kills [where f = "\<lambda>x. x\<lparr>ss_revokedAt := Some now\<rparr>" and P = "\<lambda>x. ss_userId x = uid"
      and alive = "\<lambda>x. ss_revokedAt x = None" and t = "sessions s"]
  by (simp add: revokeAllSessions_def revoke_where_def revoked_def)

lemma revokeAll_revokes:
  "\<forall>d \<in> set (devices (revokeAll s now uid)). dv_userId d = uid \<longrightarrow> dv_revokedAt d \<noteq> None"
  using map_rows_kills [where f = "\<lambda>d. d\<lparr>dv_revokedAt := Some now\<rparr>" and P = "\<lambda>d. dv_userId d = uid"
      and alive = "\<lambda>d. dv_revokedAt d = None" and t = "devices s"]
  by (simp add: revokeAll_def forget_where_def)

lemma change_password_effect:
  assumes "change_password s now uid h = (s1, Inr u)"
  shows "\<exists>a \<in> set (accounts s1). acc_id a = uid \<and> acc_passwordHash a = Some h"
    and "\<forall>x \<in> set (sessions s1). ss_userId x = uid \<longrightarrow> revoked x"
    and "\<forall>d \<in> set (devices s1). dv_userId d = uid \<longrightarrow> dv_revokedAt d \<noteq> None"
proof -
  have k: "find_account s uid \<noteq> None"
    and s1: "s1 = revokeAll (revokeAllSessions
      (write_account (\<lambda>a. acc_id a = uid) (\<lambda>a. a\<lparr>acc_passwordHash := Some h\<rparr>) s) now uid) now uid"
    using assms by (auto simp: change_password_def split: if_splits)
  obtain a where a: "a \<in> set (accounts s)" "acc_id a = uid"
    using k find_account_mem by blast
  then have "a\<lparr>acc_passwordHash := Some h\<rparr> \<in> set (accounts s1)"
    unfolding s1 by (auto simp: revokeAll_def revokeAllSessions_def forget_where_def revoke_where_def
        write_account_def set_map_rows)
  then show "\<exists>a \<in> set (accounts s1). acc_id a = uid \<and> acc_passwordHash a = Some h"
    by (rule bexI [rotated]) (simp add: a(2))
  show "\<forall>x \<in> set (sessions s1). ss_userId x = uid \<longrightarrow> revoked x"
    unfolding s1 by (simp add: revokeAllSessions_revokes)
  show "\<forall>d \<in> set (devices s1). dv_userId d = uid \<longrightarrow> dv_revokedAt d \<noteq> None"
    unfolding s1 by (simp add: revokeAll_revokes)
qed

lemma authenticate_account:
  assumes "crypto_laws k" "auth_inv s" "a \<in> set (accounts s)"
    "acc_passwordHash a = Some (bcrypt_hash k salt password)" "acc_status a = U_ACTIVE"
  shows "authenticate k s (acc_email a) password = Inr a"
proof -
  have "account_by_email s (acc_email a) = Some a"
    unfolding account_by_email_def
    by (rule find_key_eq [where k = acc_email]) (use assms(2,3) in \<open>simp_all add: auth_inv_def\<close>)
  moreover obtain c cs where "bcrypt_hash k salt password = c # cs"
    using assms(1) unfolding crypto_laws_def by (meson neq_Nil_conv)
  moreover have "bcrypt_compare k password (c # cs)"
    using assms(1) calculation(2) unfolding crypto_laws_def by metis
  ultimately show ?thesis
    using assms(4,5) by (simp add: authenticate_def)
qed

lemma reset_takes:
  assumes "auth_inv s" "auth_grows rd s" "resetPassword k rd s now d token password = (s1, Inr u)"
  obtains uid s2 where "\<exists>r \<in> set (resets rd). rt_tokenHash r = sha256 k token \<and> \<not> rt_used r \<and>
      rt_expiresAt r > now \<and> rt_userId r = uid"
    "change_password s2 now uid (bcrypt_hash k (dr_salt d) password) = (s1, Inr u)"
    "token_spent k s1 token" "auth_inv s1"
proof -
  obtain s2 o1 where c: "consume_link k rd s now token = (s2, o1)" by fastforce
  obtain rid uid where o: "o1 = Some (rid, uid)"
    using assms(3) c by (cases o1) (auto simp: resetPassword_def)
  obtain p where p: "live_link k rd now token = Some p" "claim_link s (rt_id p) = (s2, True)" "uid = rt_userId p"
    using c o by (auto simp: consume_link_def Let_def split: option.splits if_splits prod.splits)
  have ch: "change_password s2 now uid (bcrypt_hash k (dr_salt d) password) = (s1, Inr u)"
    using assms(3) c o by (simp add: resetPassword_def)
  have inv: "auth_inv s1"
    using moves_none_inv [OF moves_resetPassword assms(1)] assms(3) by (metis fst_conv)
  have g: "auth_grows s s1" "auth_grows s2 s1"
    using moves_resetPassword [THEN moves_grows] moves_change_password [THEN moves_grows]
      assms(3) ch by (metis fst_conv)+
  obtain r where r: "r \<in> set (resets s1)" "rt_id r = rt_id p" "rt_used r"
    using link_spent_grows [OF g(2) claim_link_spends [OF p(2)]] unfolding link_spent_def by blast
  obtain q where q: "q \<in> set (resets s1)" "rt_id q = rt_id p" "rt_tokenHash q = sha256 k token"
    using live_link_mem [OF p(1)] auth_grows_trans [OF assms(2) g(1)] by (metis reset_row_stays)
  have "q = r"
    using distinct_key_unique [of rt_id "resets s1" q r] inv q r by (simp add: auth_inv_def)
  then have "token_spent k s1 token" using q r unfolding token_spent_def by blast
  then show ?thesis using that ch inv live_link_mem [OF p(1)] p(3) by blast
qed

text \<open>C18: Setting a new password through a reset link cuts off everybody: no session and no remembered
  browser of the account is left, and an active account signs in with the new password. The link
  works once: presented again at any later time, by a request however stale in its reads, it is
  refused and nothing changes.\<close>

theorem reset_link_locks_out_and_works_once:
  assumes "crypto_laws k" "auth_inv s" "(auth_step k cfg)\<^sup>*\<^sup>* rd s"
    and "resetPassword k rd s now d token password = (s1, Inr u)"
    and "(auth_step k cfg)\<^sup>*\<^sup>* s1 s2" "(auth_step k cfg)\<^sup>*\<^sup>* rd2 s2"
  shows "(\<exists>a \<in> set (accounts s1).
            (\<exists>r \<in> set (resets rd). rt_tokenHash r = sha256 k token \<and> \<not> rt_used r \<and>
               rt_expiresAt r > now \<and> rt_userId r = acc_id a) \<and>
            (\<forall>x \<in> set (sessions s1). ss_userId x = acc_id a \<longrightarrow> revoked x) \<and>
            (\<forall>e \<in> set (devices s1). dv_userId e = acc_id a \<longrightarrow> dv_revokedAt e \<noteq> None) \<and>
            (acc_status a = U_ACTIVE \<longrightarrow> authenticate k s1 (acc_email a) password = Inr a)) \<and>
         resetPassword k rd2 s2 now2 d2 token password2 = (s2, Inl InvalidResetLink)"
proof -
  obtain uid s0 where t: "\<exists>r \<in> set (resets rd). rt_tokenHash r = sha256 k token \<and> \<not> rt_used r \<and>
        rt_expiresAt r > now \<and> rt_userId r = uid"
      "change_password s0 now uid (bcrypt_hash k (dr_salt d) password) = (s1, Inr u)"
      "token_spent k s1 token" "auth_inv s1"
    by (rule reset_takes [OF assms(2) auth_steps_grow [OF assms(3)] assms(4)])
  obtain a where a: "a \<in> set (accounts s1)" "acc_id a = uid"
      "acc_passwordHash a = Some (bcrypt_hash k (dr_salt d) password)"
    using change_password_effect(1) [OF t(2)] by blast
  have "auth_inv s2" using auth.steps_inv [OF assms(5) t(4)] .
  then have "resetPassword k rd2 s2 now2 d2 token password2 = (s2, Inl InvalidResetLink)"
    using spent_token_refused token_spent_grows [OF auth_steps_grow [OF assms(5)] t(3)]
      auth_steps_grow [OF assms(6)] by blast
  then show ?thesis
    using a t(1) change_password_effect(2,3) [OF t(2)] authenticate_account [OF assms(1) t(4) a(1,3)]
    by blast
qed

lemma run3_inv: "auth_inv run3"
  unfolding auth_inv_def by (intro conjI) code_simp+

theorem reset_link_locks_out_and_works_once_witness:
  "let s1 = fst (resetPassword demo_crypto run3 run3 20000 (demo_draws 7) [76, 4] (ascii ''secret2''))
   in resetPassword demo_crypto run3 s1 21000 (demo_draws 8) [76, 4] (ascii ''secret3'')
        = (s1, Inl InvalidResetLink)"
proof -
  let ?r = "resetPassword demo_crypto run3 run3 20000 (demo_draws 7) [76, 4] (ascii ''secret2'')"
  have r: "?r = (fst ?r, Inr (projr (snd ?r)))" by code_simp
  have st: "(auth_step demo_crypto demo_config)\<^sup>*\<^sup>* run3 (fst ?r)"
    by (rule r_into_rtranclp) (rule resets_password)
  show ?thesis
    using reset_link_locks_out_and_works_once [OF demo_crypto_laws run3_inv rtranclp.rtrancl_refl r
        rtranclp.rtrancl_refl st]
    by (simp add: Let_def)
qed

section \<open>Refresh tokens\<close>

definition live_sessions :: "auth_db \<Rightarrow> uuid \<Rightarrow> session_row list" where
  "live_sessions s uid = filter (\<lambda>x. ss_userId x = uid \<and> \<not> revoked x) (sessions s)"

lemma count_after_kill:
  assumes "distinct (map key t)" "x \<in> set t" "P x" "\<And>r. \<not> P (f r)"
  shows "Suc (length (filter P (map_rows (\<lambda>r. key r = key x) f t))) = length (filter P t)"
  using assms(1,2)
proof (induction t)
  case (Cons r t)
  show ?case
  proof (cases "key r = key x")
    case True
    then have "r = x" using Cons.prems by (auto simp: rev_image_eqI)
    moreover have "map_rows (\<lambda>r. key r = key x) f t = t"
      using Cons.prems True by (intro map_rows_id) (auto simp: rev_image_eqI)
    ultimately show ?thesis using assms(3,4) by (simp add: map_rows_def)
  next
    case False
    then show ?thesis using Cons assms(3) by (auto simp: map_rows_def)
  qed
qed simp

lemma find_session_eq:
  "auth_inv s \<Longrightarrow> x \<in> set (sessions s) \<Longrightarrow> ss_refreshTokenHash x = sha256 k token \<Longrightarrow>
     find_session k s token = Some x"
  unfolding find_session_def
  by (rule find_key_eq [where k = ss_refreshTokenHash]) (simp_all add: auth_inv_def)

lemma session_owner_exists:
  assumes "auth_inv s" "x \<in> set (sessions s)"
  obtains a where "find_account s (ss_userId x) = Some a" "acc_id a = ss_userId x"
proof -
  have "ss_userId x \<in> acc_id ` set (accounts s)"
    using assms unfolding auth_inv_def by blast
  then show ?thesis
    using that find_account_None_iff find_account_mem by (metis not_None_eq)
qed

lemma refresh_Inr:
  assumes "refresh k cfg s s now d token = (s1, Inr t)"
  obtains x a e where "x \<in> set (sessions s)" "ss_refreshTokenHash x = sha256 k token"
    "\<not> revoked x" "now < ss_expiresAt x" "find_account s (ss_userId x) = Some a" "acc_status a = U_ACTIVE"
    "tk_refreshToken t = dr_refreshToken d"
    "sessions s1 = map_rows (\<lambda>y. ss_id y = ss_id x) (\<lambda>y. y\<lparr>ss_revokedAt := Some now\<rparr>) (sessions s) @
       [\<lparr>ss_id = dr_id d, ss_userId = ss_userId x, ss_refreshTokenHash = sha256 k (dr_refreshToken d),
         ss_expiresAt = e, ss_revokedAt = None, ss_createdAt = now\<rparr>]"
proof -
  obtain x where x: "find_session k s token = Some x"
    using assms by (auto simp: refresh_def lookupRefreshToken_def split: option.splits)
  obtain a where a: "find_account s (ss_userId x) = Some a"
    using assms x by (auto simp: refresh_def lookupRefreshToken_def split: option.splits)
  have live: "\<not> revoked x" "now < ss_expiresAt x"
    using assms x a by (auto simp: refresh_def lookupRefreshToken_def revoked_def split: if_splits)
  then have l: "lookupRefreshToken k s now token = Inr (VALID (ss_id x) (session_owner_of a))"
    using x a by (simp add: lookupRefreshToken_def revoked_def)
  have act: "acc_status a = U_ACTIVE"
    using assms l by (auto simp: refresh_def session_owner_of_def split: if_splits)
  obtain s2 p where r: "rotateSession k cfg s now (dr_id d) (dr_refreshToken d) (ss_id x)
      (session_owner_of a) = Inr (s2, p)"
    using assms l act
    by (cases "rotateSession k cfg s now (dr_id d) (dr_refreshToken d) (ss_id x) (session_owner_of a)")
      (auto simp: refresh_def session_owner_of_def)
  have s1: "s1 = s2" "tk_refreshToken t = it_refreshToken p"
    using assms l act r
    by (auto simp: refresh_def session_owner_of_def tokens_response_def split: sum.splits)
  have uid: "acc_id a = ss_userId x" using a find_account_mem by blast
  have mem: "x \<in> set (sessions s)" "ss_refreshTokenHash x = sha256 k token"
    using x unfolding find_session_def by (auto dest: find_SomeD)
  obtain e where "sessions s2 = map_rows (\<lambda>y. ss_id y = ss_id x)
      (\<lambda>y. y\<lparr>ss_revokedAt := Some now\<rparr>) (sessions s) @
       [\<lparr>ss_id = dr_id d, ss_userId = ss_userId x, ss_refreshTokenHash = sha256 k (dr_refreshToken d),
         ss_expiresAt = e, ss_revokedAt = None, ss_createdAt = now\<rparr>]"
      "it_refreshToken p = dr_refreshToken d"
    using r uid by (auto simp: rotateSession_def create_session_def update_many_def Let_def
        session_owner_of_def split: option.splits if_splits)
  then show ?thesis
    using that [OF mem live a act] s1 by metis
qed

lemma revoked_session_refused:
  assumes "auth_inv s" "x \<in> set (sessions s)" "ss_refreshTokenHash x = sha256 k token" "revoked x"
  shows "refresh k cfg s s now d token = (revokeAllSessions s now (ss_userId x), Inl InvalidRefreshToken)"
proof -
  obtain a where "find_account s (ss_userId x) = Some a" "acc_id a = ss_userId x"
    by (rule session_owner_exists [OF assms(1,2)])
  then show ?thesis
    using find_session_eq [OF assms(1-3)] assms(4)
    by (simp add: refresh_def lookupRefreshToken_def revoked_def session_owner_of_def)
qed

lemma revokeAllSessions_none_live: "live_sessions (revokeAllSessions s now uid) uid = []"
  using revokeAllSessions_revokes [of s now uid] by (auto simp: live_sessions_def filter_empty_conv)


lemma run2_inv: "auth_inv run2"
  unfolding auth_inv_def by (intro conjI) code_simp+

lemma run2_fresh: "fresh_draws demo_crypto (demo_draws 5) run2"
  unfolding fresh_draws_def by (intro conjI) code_simp+


section \<open>Suspension\<close>

lemma find_write_account:
  assumes "\<And>a. acc_id (f a) = acc_id a"
  shows "find_account (write_account P f s) uid
       = map_option (\<lambda>a. if P a then f a else a) (find_account s uid)"
  unfolding find_account_def write_account_def using find_map_rows_key [of acc_id f] assms by simp

lemma suspended_state:
  assumes "changeUserStatus rd s now admin target True note = Inr (s1, u)"
  obtains a where "find_account s1 target = Some a" "acc_status a = U_SUSPENDED" "u = summary_of a"
    "\<forall>x \<in> set (sessions s1). ss_userId x = target \<and> now < ss_expiresAt x \<longrightarrow> revoked x"
    "userActions s1 = userActions s @ [\<lparr>ua_adminUserId = admin, ua_actionType = SUSPEND_USER,
       ua_targetUserId = target, ua_note = note\<rparr>]"
proof -
  let ?w = "write_account (\<lambda>a. acc_id a = target) (\<lambda>a. a\<lparr>acc_status := U_SUSPENDED\<rparr>) s"
  let ?log = "userActions s @ [\<lparr>ua_adminUserId = admin, ua_actionType = SUSPEND_USER,
       ua_targetUserId = target, ua_note = note\<rparr>]"
  let ?s1 = "revoke_where (\<lambda>x. ss_userId x = target \<and> ss_expiresAt x > now) now (?w\<lparr>userActions := ?log\<rparr>)"
  obtain a where s1: "s1 = ?s1" and a: "find_account ?s1 target = Some a" "u = summary_of a"
    using assms by (auto simp: changeUserStatus_def Let_def write_account_def split: if_splits option.splits)
  have fa: "find_account ?s1 target = find_account ?w target"
    by (simp add: find_account_def revoke_where_def)
  have "acc_status a = U_SUSPENDED"
    using a(1) find_account_mem unfolding fa find_write_account [of "\<lambda>a. a\<lparr>acc_status := U_SUSPENDED\<rparr>", simplified]
    by (auto dest: find_account_mem)
  moreover have "\<forall>x \<in> set (sessions ?s1). ss_userId x = target \<and> now < ss_expiresAt x \<longrightarrow> revoked x"
    using map_rows_kills [where f = "\<lambda>x. x\<lparr>ss_revokedAt := Some now\<rparr>"
      and P = "\<lambda>x. ss_userId x = target \<and> ss_expiresAt x > now"
      and alive = "\<lambda>x. ss_revokedAt x = None" and t = "sessions s"]
    by (simp add: revoke_where_def write_account_def revoked_def)
  ultimately show ?thesis
    using that [of a] a s1 by (simp add: revoke_where_def)
qed


definition demo_header :: "utext option" where
  "demo_header = Some (ascii ''Bearer '' @ [1])"


text \<open>Two refreshes that present one token at the same time both succeed, and leave two live
  sessions where a client is meant to hold one, with no replay noticed; and a refresh whose lookup
  ran before a password reset opens a session that outlives the reset. The rotation revokes the old
  session without asking that it is still live.\<close>

theorem rotation_does_not_check_again:
  "let (s1, r1) = refresh demo_crypto demo_config run2 run2 20000 (demo_draws 5) [82, 3];
       (s2, r2) = refresh demo_crypto demo_config run2 s1 20000 (demo_draws 6) [82, 3];
       (s3, r3) = resetPassword demo_crypto run3 run3 20000 (demo_draws 7) [76, 4] (ascii ''secret2'');
       (s4, r4) = refresh demo_crypto demo_config run3 s3 20000 (demo_draws 8) [82, 3]
   in length (live_sessions run2 1) = 1 \<and> \<not> isl r1 \<and> \<not> isl r2 \<and> length (live_sessions s2 1) = 2 \<and>
      \<not> isl r3 \<and> live_sessions s3 1 = [] \<and> \<not> isl r4 \<and> length (live_sessions s4 1) = 1"
  by code_simp

text \<open>A login within the cooldown of a code that was already answered says a code is on its way and
  mails none, and no live code exists: the one the cooldown remembers is spent.\<close>

theorem no_code_within_the_cooldown:
  "let (s1, ms, r) = login demo_crypto demo_config run2 run2 20000 (demo_draws 5) demo_login
   in ms = [] \<and> r = Inr (PENDING_2FA 10 41) \<and> live_code s1 20000 1 = None"
  by code_simp

text \<open>Asking for a link answers every address alike as long as the relay takes the mail.\<close>

lemma forgotPassword_answer:
  "snd (snd (forgotPassword k cfg delivers s now newId token email)) =
     (if (\<exists>u. account_by_email s email = Some u \<and> acc_status u = U_ACTIVE \<and>
            \<not> delivers (PasswordResetLink (acc_email u) (buildLink cfg token) (PASSWORD_RESET_TTL_MINUTES cfg)))
      then Inl MailFailed else Inr ())"
  by (auto simp: forgotPassword_def issue_link_def Let_def split: option.splits)

end
