(* ===== verification/Bid_Service.thy ===== *)
theory Bid_Service
  imports Auction_Service
begin

text \<open>
  \<open>BidService\<close> of \<open>apps/api/src/bid/bid.service.ts\<close>: placing a bid in one transaction guarded by
  the row version, replaying a repeated request id, and the public bid history. As in
  \<open>Auction_Service\<close>, \<open>rd\<close> is what the transaction's reads saw and \<open>wr\<close> the state its guarded
  update reached; \<open>report\<close> is how the database client names the columns of a violated unique
  index in \<open>meta.target\<close>.
\<close>

definition find_request :: "db \<Rightarrow> uuid \<Rightarrow> bid_row option" where
  "find_request s clientRequestId = find (\<lambda>b. bi_clientRequestId b = clientRequestId) (bids s)"

definition replayOrRefuse :: "bid_row \<Rightarrow> uuid \<Rightarrow> money \<Rightarrow> error + own_bid" where
  "replayOrRefuse existing auctionId amount =
     (if bi_auctionId existing \<noteq> auctionId then Inl (Conflict RequestIdOnOtherAuction)
      else if bi_amount existing \<noteq> amount then Inl (Conflict RequestIdOtherAmount)
      else Inr (toOwnBid existing))"

definition isUniqueViolation :: "error \<Rightarrow> string \<Rightarrow> bool" where
  "isUniqueViolation e column =
     (case e of
        KnownRequestError code target \<Rightarrow>
          code = ''P2002'' \<and>
          (case target of
             TargetList cols \<Rightarrow> column \<in> set cols
           | TargetName name \<Rightarrow> sublist column name
           | TargetMissing \<Rightarrow> False)
      | _ \<Rightarrow> False)"

record accepted_bid =
  ac_bid :: own_bid
  ac_outbid :: "notification_row option"
  ac_broadcast :: bid_event
  ac_extension :: "extension_event option"

datatype bid_outcome = Replayed own_bid | Accepted accepted_bid

definition bid_guard :: "instant \<Rightarrow> auction_row \<Rightarrow> auction_row \<Rightarrow> bool" where
  "bid_guard now auction a \<longleftrightarrow>
     au_id a = au_id auction \<and> au_status a = ACTIVE \<and>
     (case au_currentEndAt a of None \<Rightarrow> False | Some t \<Rightarrow> t > now) \<and>
     au_deletedAt a = None \<and> au_rowVersion a = au_rowVersion auction"

definition apply_bid :: "instant \<Rightarrow> money \<Rightarrow> extension_decision \<Rightarrow> auction_row \<Rightarrow> auction_row" where
  "apply_bid now amount ext a =
     (let b = a\<lparr>au_currentPrice := amount, au_bidCount := au_bidCount a + 1,
                au_rowVersion := au_rowVersion a + 1, au_updatedAt := now\<rparr>
      in case ext of
           NoExtension \<Rightarrow> b
         | Extension prev new n \<Rightarrow>
             b\<lparr>au_currentEndAt := Some new, au_extensionCount := au_extensionCount a + 1\<rparr>)"

text \<open>The checks the transaction makes before its write, in the code's order.\<close>

definition bid_checks :: "auction_row \<Rightarrow> uuid \<Rightarrow> money \<Rightarrow> instant \<Rightarrow> error + instant" where
  "bid_checks auction bidderId amount now =
     (if au_status auction \<noteq> ACTIVE then Inl (Conflict NotOpenForBidding)
      else case au_currentEndAt auction of
             None \<Rightarrow> Inl (Conflict AuctionHasEnded)
           | Some endAt \<Rightarrow>
               if endAt \<le> now then Inl (Conflict AuctionHasEnded)
               else if au_sellerId auction = bidderId then Inl (Forbidden SellerCannotBid)
               else let minimum = calculateMinimumBid auction in
                    if amount < minimum then Inl (BadRequest (BidBelowMinimum minimum))
                    else Inr endAt)"

text \<open>What is written once the guarded update has taken the row: \<open>s\<close> is the state with the new price.\<close>

definition extension_row_of :: "uuid \<Rightarrow> uuid \<Rightarrow> extension_decision \<Rightarrow> extension_row list" where
  "extension_row_of auctionId bidId ext =
     (case ext of NoExtension \<Rightarrow> []
      | Extension prev new n \<Rightarrow>
          [\<lparr>ex_auctionId = auctionId, ex_triggeredByBidId = bidId, ex_extensionNumber = n,
            ex_previousEndAt = prev, ex_newEndAt = new\<rparr>])"

definition extension_event_of :: "uuid \<Rightarrow> extension_decision \<Rightarrow> extension_event option" where
  "extension_event_of auctionId ext =
     (case ext of NoExtension \<Rightarrow> None
      | Extension prev new n \<Rightarrow>
          Some \<lparr>xe_auctionId = auctionId, xe_extensionNumber = n, xe_previousEndAt = prev,
                xe_newEndAt = new, xe_extensionsRemaining = MAX_EXTENSIONS - n\<rparr>)"

definition record_bid ::
  "(string list \<Rightarrow> unique_target) \<Rightarrow> db \<Rightarrow> instant \<Rightarrow> uuid \<Rightarrow> auction_row \<Rightarrow> uuid \<Rightarrow> uuid \<Rightarrow> money
     \<Rightarrow> extension_decision \<Rightarrow> error + (db \<times> bid_outcome)" where
  "record_bid report s now newBidId auction bidderId clientRequestId amount ext =
     (let auctionId = au_id auction;
          previousLeader = leading_bid s auctionId;
          bid = \<lparr>bi_id = newBidId, bi_auctionId = auctionId, bi_bidderId = bidderId,
                 bi_amount = amount, bi_sequenceNo = au_bidCount auction + 1,
                 bi_clientRequestId = clientRequestId, bi_placedAt = now\<rparr>
      in if list_ex (\<lambda>b. bi_clientRequestId b = clientRequestId) (bids s)
         then Inl (KnownRequestError ''P2002'' (report [''client_request_id'']))
         else if list_ex (\<lambda>b. bi_auctionId b = auctionId \<and> bi_sequenceNo b = bi_sequenceNo bid) (bids s)
         then Inl (KnownRequestError ''P2002'' (report [''auction_id'', ''sequence_no'']))
         else
           let s1 = s\<lparr>bids := bids s @ [bid],
                      extensions := extensions s @ extension_row_of auctionId newBidId ext,
                      auctionEvents := auctionEvents s @
                        [event auctionId (Some bidderId) (Some newBidId) EV_BID_PLACED] @
                        (if ext = NoExtension then []
                         else [event auctionId (Some bidderId) (Some newBidId) EV_EXTENDED])\<rparr>
           in (case find_auction s1 auctionId of
                 None \<Rightarrow> Inl RecordNotFound
               | Some updated \<Rightarrow>
                   let outbid = (case previousLeader of
                         None \<Rightarrow> None
                       | Some l \<Rightarrow> if bi_bidderId l \<noteq> bidderId
                                   then Some (outbidNotification auction (bi_bidderId l) newBidId amount)
                                   else None)
                   in Inr (s1\<lparr>notifications := notifications s1 @ (case outbid of None \<Rightarrow> [] | Some n \<Rightarrow> [n])\<rparr>,
                           Accepted \<lparr>ac_bid = toOwnBid bid, ac_outbid = outbid,
                             ac_broadcast = toBidAcceptedEvent s1 updated bid,
                             ac_extension = extension_event_of auctionId ext\<rparr>)))"

definition placeBidInTransaction ::
  "(string list \<Rightarrow> unique_target) \<Rightarrow> db \<Rightarrow> db \<Rightarrow> instant \<Rightarrow> uuid \<Rightarrow> uuid \<Rightarrow> uuid \<Rightarrow> uuid \<Rightarrow> money
     \<Rightarrow> error + (db \<times> bid_outcome)" where
  "placeBidInTransaction report rd wr now newBidId auctionId bidderId clientRequestId amount =
     (case find_request rd clientRequestId of
        Some existing \<Rightarrow>
          (case replayOrRefuse existing auctionId amount of
             Inl e \<Rightarrow> Inl e | Inr b \<Rightarrow> Inr (wr, Replayed b))
      | None \<Rightarrow>
         (case find (\<lambda>a. au_id a = auctionId \<and> au_deletedAt a = None) (auctions rd) of
            None \<Rightarrow> Inl (NotFound Auction)
          | Some auction \<Rightarrow>
             (case bid_checks auction bidderId amount now of
                Inl e \<Rightarrow> Inl e
              | Inr endAt \<Rightarrow>
                  let ext = calculateAntiSniping endAt (au_extensionCount auction) now;
                      (count, t) = update_many (bid_guard now auction) (apply_bid now amount ext)
                        (auctions wr)
                  in if count \<noteq> 1 then
                       (case find_request wr clientRequestId of
                          Some winner \<Rightarrow>
                            (case replayOrRefuse winner auctionId amount of
                               Inl e \<Rightarrow> Inl e | Inr b \<Rightarrow> Inr (wr, Replayed b))
                        | None \<Rightarrow> Inl (Conflict SomebodyBidFirst))
                     else record_bid report (wr\<lparr>auctions := t\<rparr>) now newBidId auction bidderId
                            clientRequestId amount ext)))"

definition replayExistingBid :: "db \<Rightarrow> uuid \<Rightarrow> uuid \<Rightarrow> money \<Rightarrow> error + own_bid" where
  "replayExistingBid s clientRequestId auctionId amount =
     (case find_request s clientRequestId of
        None \<Rightarrow> Inl (Conflict BidUnconfirmed)
      | Some existing \<Rightarrow> replayOrRefuse existing auctionId amount)"

definition bid_messages :: "uuid \<Rightarrow> accepted_bid \<Rightarrow> message list" where
  "bid_messages auctionId ac =
     [ToRoom auctionId (AuctionBid (ac_broadcast ac))] @
     (case ac_extension ac of None \<Rightarrow> [] | Some x \<Rightarrow> [ToRoom auctionId (AuctionExtension x)]) @
     (case ac_outbid ac of None \<Rightarrow> [] | Some n \<Rightarrow> [ToUser (no_userId n) n])"

definition placeBid ::
  "(string list \<Rightarrow> unique_target) \<Rightarrow> db \<Rightarrow> db \<Rightarrow> instant \<Rightarrow> uuid \<Rightarrow> uuid \<Rightarrow> uuid \<Rightarrow> uuid \<Rightarrow> money
     \<Rightarrow> db \<times> message list \<times> (error + own_bid)" where
  "placeBid report rd wr now newBidId auctionId bidderId clientRequestId amount =
     (case placeBidInTransaction report rd wr now newBidId auctionId bidderId clientRequestId amount of
        Inr (s1, Accepted ac) \<Rightarrow> (s1, bid_messages auctionId ac, Inr (ac_bid ac))
      | Inr (s1, Replayed b) \<Rightarrow> (s1, [], Inr b)
      | Inl e \<Rightarrow>
          if isUniqueViolation e ''client_request_id''
          then (wr, [], replayExistingBid wr clientRequestId auctionId amount)
          else (wr, [], Inl e))"

definition DEFAULT_HISTORY_PAGE_SIZE :: nat where
  "DEFAULT_HISTORY_PAGE_SIZE = 20"

definition listBidHistory ::
  "db \<Rightarrow> uuid \<Rightarrow> nat option \<Rightarrow> nat option \<Rightarrow> uuid option \<Rightarrow> error + (public_bid list \<times> meta)" where
  "listBidHistory s auctionId page limit viewerId =
     (let page = or_default page 1; limit = or_default limit DEFAULT_HISTORY_PAGE_SIZE in
      case find (\<lambda>a. au_id a = auctionId \<and> is_public a) (auctions s) of
        None \<Rightarrow> Inl (NotFound Auction)
      | Some a \<Rightarrow>
          let rows = filter (\<lambda>b. bi_auctionId b = auctionId) (bids s)
          in Inr (map (toPublicBid s viewerId) (page_of page limit (sort_key bi_sequenceNo rows)),
                  meta_of page limit (length rows)))"

end
