(* ===== verification/Chat_Schema.thy ===== *)
theory Chat_Schema
  imports BN_Schema
begin

text \<open>
  The tables of the two chats of \<open>prisma/schema.prisma\<close>: conversations about a listing with their
  messages, and support sessions with theirs.
\<close>

datatype chat_role = C_USER | C_ASSISTANT | C_ADMIN

datatype support_status = AI_ONLY | ESCALATED | RESOLVED_SESSION

record conversation_row =
  cv_id :: uuid
  cv_productId :: "uuid option"
  cv_auctionId :: "uuid option"
  cv_buyerId :: uuid
  cv_sellerId :: uuid
  cv_createdAt :: instant

record message_row =
  ms_id :: uuid
  ms_conversationId :: uuid
  ms_senderId :: uuid
  ms_body :: utext
  ms_createdAt :: instant
  ms_readAt :: "instant option"

record support_session_row =
  sp_id :: uuid
  sp_userId :: uuid
  sp_status :: support_status
  sp_assignedAdminId :: "uuid option"
  sp_createdAt :: instant

record support_message_row =
  sm_id :: uuid
  sm_sessionId :: uuid
  sm_role :: chat_role
  sm_body :: utext
  sm_createdAt :: instant

record chat_db =
  conversations :: "conversation_row list"
  messages :: "message_row list"
  supportSessions :: "support_session_row list"
  supportMessages :: "support_message_row list"

definition find_conversation :: "chat_db \<Rightarrow> uuid \<Rightarrow> conversation_row option" where
  "find_conversation c cid = find (\<lambda>x. cv_id x = cid) (conversations c)"

definition find_support_session :: "chat_db \<Rightarrow> uuid \<Rightarrow> support_session_row option" where
  "find_support_session c sid = find (\<lambda>x. sp_id x = sid) (supportSessions c)"

interpretation support_session_table:
  table_lens supportSessions "\<lambda>t s. s\<lparr>supportSessions := t\<rparr>" sp_id
  by unfold_locales simp_all

interpretation message_table: table_lens messages "\<lambda>t s. s\<lparr>messages := t\<rparr>" ms_id
  by unfold_locales simp_all

end
