(* ===== verification/Presence.thy ===== *)
theory Presence
  imports Auction_Service Auth_Service Chat_Schema "HOL-Library.AList"
begin

text \<open>
  \<open>realtime/\<close>: the presence registry, which counts the sockets that stand in for a person in an
  auction, and the two gateways. A \<open>Map\<close> of JavaScript is an association list in insertion order,
  which \<open>AList.update\<close> and \<open>AList.delete\<close> keep. What a gateway asks of socket.io (to join or leave a
  room, to emit) is returned as effects; \<open>show_uuid\<close> is how an id is written, \<open>parse_uuid\<close> how the
  database reads one, \<open>None\<close> when it refuses the text.
\<close>

type_synonym sid = nat

section \<open>The presence registry\<close>

type_synonym membership = "uuid \<times> uuid"

record registry =
  bySocket :: "(sid \<times> (uuid \<times> uuid) list) list"
  connections :: "(membership \<times> int) list"

definition empty_registry :: registry where
  "empty_registry = \<lparr>bySocket = [], connections = []\<rparr>"

definition bump :: "registry \<Rightarrow> uuid \<Rightarrow> uuid \<Rightarrow> int \<Rightarrow> registry \<times> int" where
  "bump r auctionId userId by_n =
     (let key = (auctionId, userId);
          next = or_default (map_of (connections r) key) 0 + by_n
      in if next \<le> 0 then (r\<lparr>connections := AList.delete key (connections r)\<rparr>, 0)
         else (r\<lparr>connections := AList.update key next (connections r)\<rparr>, next))"

definition register_socket :: "registry \<Rightarrow> sid \<Rightarrow> uuid \<Rightarrow> uuid \<Rightarrow> registry" where
  "register_socket r socketId auctionId userId =
     (let held = or_default (map_of (bySocket r) socketId) []
      in if map_of held auctionId = Some userId then r
         else fst (bump (r\<lparr>bySocket := AList.update socketId (AList.update auctionId userId held)
                           (bySocket r)\<rparr>) auctionId userId 1))"

definition unregister :: "registry \<Rightarrow> sid \<Rightarrow> uuid \<Rightarrow> registry \<times> bool" where
  "unregister r socketId auctionId =
     (case map_of (bySocket r) socketId of
        None \<Rightarrow> (r, False)
      | Some held \<Rightarrow>
          (case map_of held auctionId of
             None \<Rightarrow> (r, False)
           | Some userId \<Rightarrow>
               let left = AList.delete auctionId held;
                   r1 = r\<lparr>bySocket := (if left = [] then AList.delete socketId (bySocket r)
                                       else AList.update socketId left (bySocket r))\<rparr>;
                   (r2, n) = bump r1 auctionId userId (- 1)
               in (r2, n = 0)))"

fun release_loop :: "registry \<Rightarrow> sid \<Rightarrow> membership list \<Rightarrow> registry \<times> membership list" where
  "release_loop r socketId [] = (r, [])"
| "release_loop r socketId ((auctionId, userId) # es) =
     (let (r1, final) = unregister r socketId auctionId;
          (r2, gone) = release_loop r1 socketId es
      in (r2, if final then (auctionId, userId) # gone else gone))"

definition releaseSocket :: "registry \<Rightarrow> sid \<Rightarrow> registry \<times> membership list" where
  "releaseSocket r socketId =
     (case map_of (bySocket r) socketId of
        None \<Rightarrow> (r, [])
      | Some held \<Rightarrow> release_loop r socketId held)"

subsection \<open>What it means\<close>

text \<open>The abstract registry is the set of connections: socket, auction, person.\<close>

definition holds :: "registry \<Rightarrow> (sid \<times> uuid \<times> uuid) set" where
  "holds r = {(s, a, u). \<exists>m. map_of (bySocket r) s = Some m \<and> map_of m a = Some u}"

definition holders :: "registry \<Rightarrow> uuid \<Rightarrow> uuid \<Rightarrow> nat" where
  "holders r a u = length (filter (\<lambda>(s, m). map_of m a = Some u) (bySocket r))"

definition reg_ok :: "registry \<Rightarrow> bool" where
  "reg_ok r \<longleftrightarrow>
     distinct (map fst (bySocket r)) \<and> (\<forall>(s, m) \<in> set (bySocket r). distinct (map fst m) \<and> m \<noteq> []) \<and>
     (\<forall>a u. map_of (connections r) (a, u) = (if holders r a u = 0 then None else Some (int (holders r a u))))"

lemma length_filter_update:
  assumes "distinct (map fst l)"
  shows "length (filter P (AList.update k v l)) +
           (case map_of l k of None \<Rightarrow> 0 | Some w \<Rightarrow> if P (k, w) then 1 else 0)
       = length (filter P l) + (if P (k, v) then 1 else 0)"
  using assms by (induction l) auto

lemma length_filter_delete:
  assumes "distinct (map fst l)"
  shows "length (filter P (AList.delete k l)) +
           (case map_of l k of None \<Rightarrow> 0 | Some w \<Rightarrow> if P (k, w) then 1 else 0)
       = length (filter P l)"
  using assms
proof (induction l)
  case (Cons p l)
  then show ?case by (cases p) auto
qed simp

lemma holders_pos:
  assumes "map_of (bySocket r) s = Some m" "map_of m a = Some u"
  shows "0 < holders r a u"
proof -
  have "(s, m) \<in> set (filter (\<lambda>(s, m). map_of m a = Some u) (bySocket r))"
    using assms by (auto dest: map_of_SomeD)
  then show ?thesis unfolding holders_def by (metis length_pos_if_in_set)
qed

lemma holders_holds:
  assumes "distinct (map fst (bySocket r))"
  shows "holders r a u = card {s. (s, a, u) \<in> holds r}"
proof -
  let ?xs = "filter (\<lambda>(s, m). map_of m a = Some u) (bySocket r)"
  have d: "distinct (map fst ?xs)" using assms by (rule distinct_map_filter)
  have "{s. (s, a, u) \<in> holds r} = fst ` set ?xs"
    using assms by (force simp: holds_def dest: map_of_SomeD)
  then show ?thesis
    using d distinct_card [of "map fst ?xs"] by (simp add: holders_def)
qed

lemma bump_connections:
  "map_of (connections (fst (bump r a u n))) k =
     (if k = (a, u)
      then (let next = or_default (map_of (connections r) (a, u)) 0 + n
            in if next \<le> 0 then None else Some next)
      else map_of (connections r) k)"
  "bySocket (fst (bump r a u n)) = bySocket r"
  "snd (bump r a u n) = max 0 (or_default (map_of (connections r) (a, u)) 0 + n)"
  by (auto simp: bump_def Let_def AList.update_conv' AList.delete_conv')

lemma or_default_simps [simp]: "or_default None d = d" "or_default (Some x) d = x"
  by (simp_all add: or_default_def)

lemma entries_update:
  "\<forall>(s, m) \<in> set l. Q m \<Longrightarrow> Q m0 \<Longrightarrow> \<forall>(s, m) \<in> set (AList.update k m0 l). Q m"
  by (induction l) auto

lemma entries_delete: "\<forall>(s, m) \<in> set l. Q m \<Longrightarrow> \<forall>(s, m) \<in> set (AList.delete k l). Q m"
  by (auto simp: AList.delete_eq)

lemma holders_update:
  assumes "distinct (map fst (bySocket r))"
  shows "holders (r\<lparr>bySocket := AList.update s m (bySocket r)\<rparr>) a u +
           (if map_of (or_default (map_of (bySocket r) s) []) a = Some u then 1 else 0)
       = holders r a u + (if map_of m a = Some u then 1 else 0)"
  using length_filter_update [OF assms, of "\<lambda>(s, m). map_of m a = Some u" s m]
  by (auto simp: holders_def split: option.splits)

lemma holders_delete:
  assumes "distinct (map fst (bySocket r))"
  shows "holders (r\<lparr>bySocket := AList.delete s (bySocket r)\<rparr>) a u +
           (if map_of (or_default (map_of (bySocket r) s) []) a = Some u then 1 else 0)
       = holders r a u"
  using length_filter_delete [OF assms, of "\<lambda>(s, m). map_of m a = Some u" s]
  by (auto simp: holders_def split: option.splits)

lemma holds_iff: "(s, a, u) \<in> holds r \<longleftrightarrow> map_of (or_default (map_of (bySocket r) s) []) a = Some u"
  by (cases "map_of (bySocket r) s") (simp_all add: holds_def)

lemma holders_bump [simp]: "holders (fst (bump r a u n)) = holders r"
  by (simp add: holders_def bump_connections(2) fun_eq_iff)

lemma holds_bump [simp]: "holds (fst (bump r a u n)) = holds r"
  by (simp add: holds_def bump_connections(2))

lemma reg_ok_empty: "reg_ok empty_registry"
  by (simp add: reg_ok_def empty_registry_def holders_def)

lemma connections_holders: "reg_ok r \<Longrightarrow> or_default (map_of (connections r) (a, u)) 0 = int (holders r a u)"
  by (simp add: reg_ok_def)

text \<open>A write to one socket's map followed by the matching count keeps the registry consistent.\<close>

lemma reg_ok_bump:
  assumes ok: "reg_ok r"
    and keys: "distinct (map fst bs)" "\<forall>(s, m) \<in> set bs. distinct (map fst m) \<and> m \<noteq> []"
    and count: "\<And>b v. int (holders (r\<lparr>bySocket := bs\<rparr>) b v)
      = int (holders r b v) + (if (b, v) = (a, u) then n else 0)"
  shows "reg_ok (fst (bump (r\<lparr>bySocket := bs\<rparr>) a u n))"
    and "snd (bump (r\<lparr>bySocket := bs\<rparr>) a u n) = int (holders (r\<lparr>bySocket := bs\<rparr>) a u)"
proof -
  let ?r = "r\<lparr>bySocket := bs\<rparr>"
  have c: "or_default (map_of (connections ?r) (a, u)) 0 + n = int (holders ?r a u)"
    using connections_holders [OF ok] count [of a u] by simp
  show "snd (bump ?r a u n) = int (holders ?r a u)"
    unfolding bump_connections(3) c by simp
  have "map_of (connections (fst (bump ?r a u n))) (b, v)
      = (if holders ?r b v = 0 then None else Some (int (holders ?r b v)))" for b v
  proof (cases "(b, v) = (a, u)")
    case True
    then show ?thesis using c by (simp add: bump_connections(1) Let_def)
  next
    case False
    then show ?thesis
      using ok count [of b v] by (auto simp: bump_connections(1) reg_ok_def)
  qed
  then show "reg_ok (fst (bump ?r a u n))"
    using keys by (simp add: reg_ok_def bump_connections(2))
qed

lemma register_refines:
  assumes ok: "reg_ok r" and same: "\<And>v. (s, a, v) \<in> holds r \<Longrightarrow> v = u"
  shows "reg_ok (register_socket r s a u)" "holds (register_socket r s a u) = insert (s, a, u) (holds r)"
proof -
  let ?held = "or_default (map_of (bySocket r) s) []"
  let ?bs = "AList.update s (AList.update a u ?held) (bySocket r)"
  have keys: "distinct (map fst (bySocket r))" "\<forall>(s, m) \<in> set (bySocket r). distinct (map fst m) \<and> m \<noteq> []"
    using ok by (auto simp: reg_ok_def)
  have "reg_ok (register_socket r s a u) \<and> holds (register_socket r s a u) = insert (s, a, u) (holds r)"
  proof (cases "map_of ?held a = Some u")
    case True
    then have "(s, a, u) \<in> holds r" by (simp add: holds_iff)
    then show ?thesis using True ok by (auto simp: register_socket_def Let_def)
  next
    case False
    have none: "map_of ?held a = None"
      using False same holds_iff by (metis not_None_eq)
    have dist: "distinct (map fst ?held)"
      using keys(2) by (cases "map_of (bySocket r) s") (auto dest!: map_of_SomeD)
    have reg: "register_socket r s a u = fst (bump (r\<lparr>bySocket := ?bs\<rparr>) a u 1)"
      using False by (simp add: register_socket_def Let_def)
    have "int (holders (r\<lparr>bySocket := ?bs\<rparr>) b v)
        = int (holders r b v) + (if (b, v) = (a, u) then 1 else 0)" for b v
      using holders_update [OF keys(1), of s "AList.update a u ?held" b v] none
      by (auto simp: AList.update_conv' split: if_splits)
    moreover have "\<forall>(s, m) \<in> set ?bs. distinct (map fst m) \<and> m \<noteq> []"
      by (rule entries_update [OF keys(2)]) (simp add: AList.distinct_update dist)
    ultimately have "reg_ok (register_socket r s a u)"
      unfolding reg by (intro reg_ok_bump(1) [OF ok] AList.distinct_update keys(1)) auto
    moreover have "holds (register_socket r s a u) = insert (s, a, u) (holds r)"
      unfolding reg holds_bump using none
      by (auto simp: holds_iff AList.update_conv' split: if_splits)
    ultimately show ?thesis by blast
  qed
  then show "reg_ok (register_socket r s a u)" "holds (register_socket r s a u) = insert (s, a, u) (holds r)"
    by blast+
qed


lemma one_less: "int x = int y + - 1 \<Longrightarrow> x = 0 \<longleftrightarrow> y = 1"
  by linarith

lemma card_one_of: "x \<in> X \<Longrightarrow> card X = 1 \<longleftrightarrow> X = {x}"
  by (auto simp: card_1_singleton_iff)

lemma unregister_refines:
  assumes ok: "reg_ok r" and u: "unregister r s a = (r1, final)"
  shows "reg_ok r1" "holds r1 = {h \<in> holds r. \<not> (fst h = s \<and> fst (snd h) = a)}"
    "final \<longleftrightarrow> (\<exists>u. (s, a, u) \<in> holds r \<and> (\<forall>s'. (s', a, u) \<in> holds r \<longrightarrow> s' = s))"
proof -
  let ?held = "or_default (map_of (bySocket r) s) []"
  have keys: "distinct (map fst (bySocket r))" "\<forall>(s, m) \<in> set (bySocket r). distinct (map fst m) \<and> m \<noteq> []"
    using ok by (auto simp: reg_ok_def)
  have "reg_ok r1 \<and> holds r1 = {h \<in> holds r. \<not> (fst h = s \<and> fst (snd h) = a)} \<and>
    (final \<longleftrightarrow> (\<exists>u. (s, a, u) \<in> holds r \<and> (\<forall>s'. (s', a, u) \<in> holds r \<longrightarrow> s' = s)))"
  proof (cases "map_of ?held a")
    case None
    then have "r1 = r" "final = False"
      using u by (auto simp: unregister_def split: option.splits)
    moreover have "(s, a, u) \<notin> holds r" for u using None by (simp add: holds_iff)
    ultimately show ?thesis using ok by auto
  next
    case (Some u)
    then obtain m where m: "map_of (bySocket r) s = Some m" "?held = m"
      by (cases "map_of (bySocket r) s") auto
    let ?left = "AList.delete a m"
    let ?bs = "if ?left = [] then AList.delete s (bySocket r) else AList.update s ?left (bySocket r)"
    have left: "map_of ?left b = (if b = a then None else map_of m b)" for b
      by (simp add: AList.delete_conv')
    have gone: "map_of m b = None" if "?left = []" "b \<noteq> a" for b
      using left [of b] that by (metis map_of.simps(1))
    have bs: "or_default (map_of ?bs s') [] = (if s' = s then ?left else or_default (map_of (bySocket r) s') [])" for s'
      by (auto simp: AList.update_conv' AList.delete_conv')
    have dist: "distinct (map fst m)" using keys(2) m(1) by (auto dest!: map_of_SomeD)
    have un: "unregister r s a = (fst (bump (r\<lparr>bySocket := ?bs\<rparr>) a u (- 1)),
        snd (bump (r\<lparr>bySocket := ?bs\<rparr>) a u (- 1)) = 0)"
      using m Some by (simp add: unregister_def Let_def split_def)
    have count: "int (holders (r\<lparr>bySocket := ?bs\<rparr>) b v)
        = int (holders r b v) + (if (b, v) = (a, u) then - 1 else 0)" for b v
      using holders_update [OF keys(1), of s ?left b v] holders_delete [OF keys(1), of s b v]
        gone [of b] m Some by (auto simp: AList.delete_conv' split: if_splits)
    have ents: "\<forall>(s, m) \<in> set ?bs. distinct (map fst m) \<and> m \<noteq> []"
      using entries_update [OF keys(2), of ?left s] entries_delete [OF keys(2), of s]
        AList.distinct_delete [OF dist] by auto
    have dbs: "distinct (map fst ?bs)"
      using keys(1) by (simp add: AList.distinct_update AList.distinct_delete)
    have ok1: "reg_ok r1" and n: "final \<longleftrightarrow> holders (r\<lparr>bySocket := ?bs\<rparr>) a u = 0"
      using reg_ok_bump [OF ok dbs ents count] u un by auto
    have h: "holds r1 = {h \<in> holds r. \<not> (fst h = s \<and> fst (snd h) = a)}"
    proof -
      have "holds r1 = holds (r\<lparr>bySocket := ?bs\<rparr>)" using u un by auto
      moreover have "(s', b, v) \<in> holds (r\<lparr>bySocket := ?bs\<rparr>)
          \<longleftrightarrow> (s', b, v) \<in> holds r \<and> \<not> (s' = s \<and> b = a)" for s' b v
        using bs [of s'] left [of b] m by (simp add: holds_iff)
      ultimately show ?thesis by auto
    qed
    have "holders (r\<lparr>bySocket := ?bs\<rparr>) a u = 0 \<longleftrightarrow> holders r a u = 1"
      by (rule one_less) (rule count [of a u, unfolded if_P [OF refl]])
    also have "\<dots> \<longleftrightarrow> card {s'. (s', a, u) \<in> holds r} = 1"
      by (simp add: holders_holds [OF keys(1)])
    also have "\<dots> \<longleftrightarrow> {s'. (s', a, u) \<in> holds r} = {s}"
      by (rule card_one_of) (use Some in \<open>simp add: holds_iff\<close>)
    also have "\<dots> \<longleftrightarrow> (\<exists>u. (s, a, u) \<in> holds r \<and> (\<forall>s'. (s', a, u) \<in> holds r \<longrightarrow> s' = s))"
      using Some by (auto simp: holds_iff)
    finally have "holders (r\<lparr>bySocket := ?bs\<rparr>) a u = 0
      \<longleftrightarrow> (\<exists>u. (s, a, u) \<in> holds r \<and> (\<forall>s'. (s', a, u) \<in> holds r \<longrightarrow> s' = s))" .
    then show ?thesis by (intro conjI ok1 h) (rule trans [OF n])
  qed
  note all = this
  show "reg_ok r1" by (rule all [THEN conjunct1])
  show "holds r1 = {h \<in> holds r. \<not> (fst h = s \<and> fst (snd h) = a)}"
    by (rule all [THEN conjunct2, THEN conjunct1])
  show "final \<longleftrightarrow> (\<exists>u. (s, a, u) \<in> holds r \<and> (\<forall>s'. (s', a, u) \<in> holds r \<longrightarrow> s' = s))"
    by (rule all [THEN conjunct2, THEN conjunct2])
qed

text \<open>Releasing a socket drops its connections one by one; the keys of its map are distinct.\<close>

lemma release_loop_refines:
  assumes "reg_ok r" "distinct (map fst es)" "\<And>a u. (a, u) \<in> set es \<Longrightarrow> (s, a, u) \<in> holds r"
    and "release_loop r s es = (r1, gone)"
  shows "reg_ok r1 \<and> holds r1 = {h \<in> holds r. \<not> (fst h = s \<and> fst (snd h) \<in> fst ` set es)} \<and>
         distinct (map fst gone) \<and>
         set gone = {(a, u) \<in> set es. \<forall>s'. (s', a, u) \<in> holds r \<longrightarrow> s' = s}"
  using assms
proof (induction es arbitrary: r r1 gone)
  case Nil
  then show ?case by simp
next
  case (Cons e es)
  obtain a u where e: "e = (a, u)" by (cases e)
  obtain r2 final where un: "unregister r s a = (r2, final)" by fastforce
  obtain rest where lp: "release_loop r2 s es = (r1, rest)" "gone = (if final then (a, u) # rest else rest)"
    using Cons.prems(4) e un by (auto simp: Let_def split: prod.splits if_splits)
  note U = unregister_refines [OF Cons.prems(1) un]
  have hold: "(s, b, v) \<in> holds r2" if "(b, v) \<in> set es" for b v
    using Cons.prems(2,3) that e unfolding U(2) by (force simp: image_iff)
  have IH: "reg_ok r1" "holds r1 = {h \<in> holds r2. \<not> (fst h = s \<and> fst (snd h) \<in> fst ` set es)}"
      "distinct (map fst rest)" "set rest = {(a, u) \<in> set es. \<forall>s'. (s', a, u) \<in> holds r2 \<longrightarrow> s' = s}"
    using Cons.IH [OF U(1) _ hold lp(1)] Cons.prems(2) by auto
  have au: "(s, a, u) \<in> holds r" using Cons.prems(3) e by simp
  have fin: "final \<longleftrightarrow> (\<forall>s'. (s', a, u) \<in> holds r \<longrightarrow> s' = s)"
    using U(3) au by (auto simp: holds_iff)
  have rest: "set rest = {(b, v) \<in> set es. \<forall>s'. (s', b, v) \<in> holds r \<longrightarrow> s' = s}"
    unfolding IH(4) U(2) by auto
  have "holds r1 = {h \<in> holds r. \<not> (fst h = s \<and> fst (snd h) \<in> fst ` set (e # es))}"
    unfolding IH(2) U(2) e by auto
  moreover have "distinct (map fst gone)"
    using IH(3) Cons.prems(2) lp(2) e rest by (auto simp: image_iff)
  moreover have "set gone = {(b, v) \<in> set (e # es). \<forall>s'. (s', b, v) \<in> holds r \<longrightarrow> s' = s}"
    unfolding lp(2) e using fin rest by auto
  ultimately show ?case using IH(1) by blast
qed

lemma releaseSocket_refines:
  assumes ok: "reg_ok r" and "releaseSocket r s = (r1, gone)"
  shows "reg_ok r1 \<and> holds r1 = {h \<in> holds r. fst h \<noteq> s} \<and> distinct (map fst gone) \<and>
         set gone = {(a, u). (s, a, u) \<in> holds r \<and> (\<forall>s'. (s', a, u) \<in> holds r \<longrightarrow> s' = s)}"
proof (cases "map_of (bySocket r) s")
  case None
  then show ?thesis using assms by (auto simp: releaseSocket_def holds_def)
next
  case (Some m)
  have m: "distinct (map fst m)" using ok Some by (auto simp: reg_ok_def dest!: map_of_SomeD)
  have mem: "(a, u) \<in> set m \<longleftrightarrow> (s, a, u) \<in> holds r" for a u
    using Some m by (simp add: holds_iff)
  have keys: "fst h = s \<and> h \<in> holds r \<Longrightarrow> fst (snd h) \<in> fst ` set m" for h
    using mem by (cases h) force
  have L: "release_loop r s m = (r1, gone)" using assms(2) Some by (simp add: releaseSocket_def)
  show ?thesis
    using release_loop_refines [OF ok m _ L] mem keys by auto
qed

section \<open>The auction gateway\<close>

datatype socket_effect =
  JoinRoom sid utext
| LeaveRoom sid utext
| Emit sid utext
| Disconnect sid

datatype gateway_error =
  AuctionIdNotUuid | WsAuctionNotFound | WsConversationNotFound | WsSupportSessionNotFound
| WsDatabase \<comment> \<open>the database refuses the text as a uuid\<close>

definition auctionRoom :: "(uuid \<Rightarrow> utext) \<Rightarrow> uuid \<Rightarrow> utext" where
  "auctionRoom show_uuid auctionId = ascii ''auction:'' @ show_uuid auctionId"

text \<open>A payload carries an id, \<open>None\<close> when it is not a uuid, and a token when that is a string.\<close>

record join_payload =
  jp_auctionId :: "uuid option"
  jp_token :: "utext option"

definition identify_token :: "crypto \<Rightarrow> auth_db \<Rightarrow> instant \<Rightarrow> utext option \<Rightarrow> uuid option" where
  "identify_token k s now token =
     (case token of
        None \<Rightarrow> None
      | Some [] \<Rightarrow> None
      | Some t \<Rightarrow>
          let bearer = (if take 7 t = ascii ''Bearer '' then drop 7 t else t) in
          (case jwt_verify k bearer now of
             None \<Rightarrow> None
           | Some sub \<Rightarrow>
               (case find_account s sub of
                  None \<Rightarrow> None
                | Some u \<Rightarrow> if acc_status u = U_ACTIVE then Some (acc_id u) else None)))"

definition gateway_join ::
  "(uuid \<Rightarrow> utext) \<Rightarrow> crypto \<Rightarrow> auth_db \<Rightarrow> db \<Rightarrow> registry \<Rightarrow> instant \<Rightarrow> sid \<Rightarrow> join_payload
     \<Rightarrow> registry \<times> socket_effect list \<times> (gateway_error + uuid)" where
  "gateway_join show_uuid k auth s r now client payload =
     (case jp_auctionId payload of
        None \<Rightarrow> (r, [], Inl AuctionIdNotUuid)
      | Some auctionId \<Rightarrow>
          (case find (\<lambda>a. au_id a = auctionId \<and> is_public a) (auctions s) of
             None \<Rightarrow> (r, [], Inl WsAuctionNotFound)
           | Some a \<Rightarrow>
               ((case identify_token k auth now (jp_token payload) of
                   None \<Rightarrow> r
                 | Some userId \<Rightarrow> register_socket r client auctionId userId),
                [JoinRoom client (auctionRoom show_uuid auctionId)], Inr auctionId)))"

definition gateway_leave ::
  "(uuid \<Rightarrow> utext) \<Rightarrow> registry \<Rightarrow> sid \<Rightarrow> join_payload \<Rightarrow> registry \<times> socket_effect list \<times> (gateway_error + uuid)" where
  "gateway_leave show_uuid r client payload =
     (case jp_auctionId payload of
        None \<Rightarrow> (r, [], Inl AuctionIdNotUuid)
      | Some auctionId \<Rightarrow>
          (fst (unregister r client auctionId),
           [LeaveRoom client (auctionRoom show_uuid auctionId)], Inr auctionId))"

text \<open>
  \<open>release\<close> is the handler \<open>LiveService\<close> registers, if it has; what it throws is logged, so a
  disconnect never fails. It answers the state it left.
\<close>

definition handleDisconnect ::
  "('s \<Rightarrow> membership list \<Rightarrow> 's) option \<Rightarrow> registry \<Rightarrow> 's \<Rightarrow> sid \<Rightarrow> registry \<times> 's" where
  "handleDisconnect release r s client =
     (let (r1, gone) = releaseSocket r client in
      if gone = [] then (r1, s)
      else (case release of None \<Rightarrow> (r1, s) | Some f \<Rightarrow> (r1, f s gone)))"

section \<open>The user gateway\<close>

definition userRoom :: "(uuid \<Rightarrow> utext) \<Rightarrow> uuid \<Rightarrow> utext" where
  "userRoom show_uuid userId = ascii ''user:'' @ show_uuid userId"

definition conversationRoom :: "utext \<Rightarrow> utext" where
  "conversationRoom conversationId = ascii ''conversation:'' @ conversationId"

definition supportRoom :: "utext \<Rightarrow> utext" where
  "supportRoom sessionId = ascii ''support:'' @ sessionId"

definition SUPPORT_ADMIN_INBOX_ROOM :: utext where
  "SUPPORT_ADMIN_INBOX_ROOM = ascii ''support:admin-inbox''"

text \<open>What a connection puts on the socket: nothing until it is identified.\<close>

record socket_data =
  sd_userId :: "uuid option"
  sd_role :: "user_role option"

definition unidentified :: socket_data where
  "unidentified = \<lparr>sd_userId = None, sd_role = None\<rparr>"

definition stripBearer :: "utext \<Rightarrow> utext option" where
  "stripBearer value =
     (let parts = split_at 32 value;
          nonempty = (\<lambda>x. if x = [] then None else Some x)
      in if ascii_lower (hd parts) = ascii ''bearer''
         then (case tl parts of [] \<Rightarrow> None | rest # _ \<Rightarrow> nonempty rest)
         else nonempty value)"

definition readToken :: "utext option \<Rightarrow> utext option \<Rightarrow> utext option" where
  "readToken fromAuth header =
     (case fromAuth of
        Some (c # cs) \<Rightarrow> stripBearer (c # cs)
      | _ \<Rightarrow> (case header of Some h \<Rightarrow> stripBearer h | None \<Rightarrow> None))"

definition identify_socket ::
  "crypto \<Rightarrow> auth_db \<Rightarrow> instant \<Rightarrow> utext option \<Rightarrow> utext option \<Rightarrow> (uuid \<times> user_role) option" where
  "identify_socket k s now fromAuth header =
     (case readToken fromAuth header of
        None \<Rightarrow> None
      | Some token \<Rightarrow>
          (case jwt_verify k token now of
             None \<Rightarrow> None
           | Some sub \<Rightarrow>
               (case find_account s sub of
                  None \<Rightarrow> None
                | Some u \<Rightarrow> if acc_status u = U_ACTIVE then Some (acc_id u, acc_role u) else None)))"

definition handleConnection ::
  "(uuid \<Rightarrow> utext) \<Rightarrow> crypto \<Rightarrow> auth_db \<Rightarrow> instant \<Rightarrow> sid \<Rightarrow> socket_data \<Rightarrow> utext option \<Rightarrow> utext option
     \<Rightarrow> socket_data \<times> socket_effect list" where
  "handleConnection show_uuid k s now client data fromAuth header =
     (case identify_socket k s now fromAuth header of
        None \<Rightarrow> (data, [Emit client (ascii ''connection:rejected''), Disconnect client])
      | Some (userId, role) \<Rightarrow>
          (\<lparr>sd_userId = Some userId, sd_role = Some role\<rparr>,
           [JoinRoom client (userRoom show_uuid userId)] @
           (if role = ADMIN then [JoinRoom client SUPPORT_ADMIN_INBOX_ROOM] else []) @
           [Emit client (ascii ''connection:ready'')]))"

text \<open>\<open>readConversationId\<close> and \<open>readSessionId\<close>: the text of the payload, else the empty text.\<close>

definition read_id :: "utext option \<Rightarrow> utext" where
  "read_id payload = (case payload of None \<Rightarrow> [] | Some t \<Rightarrow> t)"

definition joinConversation ::
  "(utext \<Rightarrow> uuid option) \<Rightarrow> chat_db \<Rightarrow> sid \<Rightarrow> socket_data \<Rightarrow> utext option
     \<Rightarrow> socket_effect list \<times> (gateway_error + utext)" where
  "joinConversation parse_uuid c client data payload =
     (let conversationId = read_id payload in
      case sd_userId data of
        None \<Rightarrow> ([], Inl WsConversationNotFound)
      | Some userId \<Rightarrow>
          (case parse_uuid conversationId of
             None \<Rightarrow> ([], Inl WsDatabase)
           | Some cid \<Rightarrow>
               (case find_conversation c cid of
                  None \<Rightarrow> ([], Inl WsConversationNotFound)
                | Some x \<Rightarrow>
                    if cv_buyerId x = userId \<or> cv_sellerId x = userId
                    then ([JoinRoom client (conversationRoom conversationId)], Inr conversationId)
                    else ([], Inl WsConversationNotFound))))"

definition leaveConversation :: "sid \<Rightarrow> utext option \<Rightarrow> socket_effect list \<times> (gateway_error + utext)" where
  "leaveConversation client payload =
     ([LeaveRoom client (conversationRoom (read_id payload))], Inr (read_id payload))"

definition joinSupport ::
  "(utext \<Rightarrow> uuid option) \<Rightarrow> chat_db \<Rightarrow> sid \<Rightarrow> socket_data \<Rightarrow> utext option
     \<Rightarrow> socket_effect list \<times> (gateway_error + utext)" where
  "joinSupport parse_uuid c client data payload =
     (let sessionId = read_id payload;
          entered = ([JoinRoom client (supportRoom sessionId)], Inr sessionId)
      in if sd_role data = Some ADMIN then entered
         else
           (case sd_userId data of
              None \<Rightarrow>
                let session_userId = (None :: uuid option)
                in if session_userId \<noteq> sd_userId data then ([], Inl WsSupportSessionNotFound) else entered
            | Some userId \<Rightarrow>
                (case parse_uuid sessionId of
                   None \<Rightarrow> ([], Inl WsDatabase)
                 | Some sid \<Rightarrow>
                     let session_userId = map_option sp_userId (find_support_session c sid)
                     in if session_userId \<noteq> sd_userId data then ([], Inl WsSupportSessionNotFound)
                        else entered)))"

definition leaveSupport :: "sid \<Rightarrow> utext option \<Rightarrow> socket_effect list \<times> (gateway_error + utext)" where
  "leaveSupport client payload =
     ([LeaveRoom client (supportRoom (read_id payload))], Inr (read_id payload))"

section \<open>Properties\<close>


definition two_tabs :: registry where
  "two_tabs = register_socket (register_socket empty_registry 1 5 10) 2 5 10"


text \<open>A socket that joins an auction again under another account leaves the first account's count
  behind: that person is never reported gone, not even when every socket has been released.\<close>

theorem switching_accounts_leaks_presence:
  "let r1 = register_socket empty_registry 1 5 10;
       r2 = register_socket r1 1 5 11;
       (r3, gone) = releaseSocket r2 1;
       r4 = register_socket r3 2 5 10;
       (r5, gone') = releaseSocket r4 2
   in gone = [(5, 11)] \<and> bySocket r3 = [] \<and> gone' = [] \<and> bySocket r5 = [] \<and> connections r5 = [((5, 10), 1)]"
  by code_simp

text \<open>An identified socket enters only the rooms of its own conversations and support sessions.\<close>

lemma identified_socket_rooms:
  assumes "sd_userId data = Some userId"
  shows "(\<exists>es. joinConversation parse_uuid c client data (Some t) = (es, Inr t)) \<longleftrightarrow>
      (\<exists>x. Option.bind (parse_uuid t) (find_conversation c) = Some x \<and>
           (cv_buyerId x = userId \<or> cv_sellerId x = userId))"
    and "(\<exists>es. joinSupport parse_uuid c client data (Some t) = (es, Inr t)) \<longleftrightarrow>
      sd_role data = Some ADMIN \<or>
      (\<exists>x. Option.bind (parse_uuid t) (find_support_session c) = Some x \<and> sp_userId x = userId)"
  using assms
  by (auto simp: joinConversation_def joinSupport_def read_id_def Let_def split: option.splits if_splits)

text \<open>A socket whose connection has not been identified yet is refused every conversation, but
  enters any support room it names, the inbox of the admins among them: the owner of a session that
  was not looked up and the user of a socket that is not identified are both undefined, and equal.\<close>

theorem unidentified_socket_enters_support_rooms:
  "joinConversation parse_uuid c client unidentified payload = ([], Inl WsConversationNotFound) \<and>
   joinSupport parse_uuid c client unidentified (Some t) = ([JoinRoom client (supportRoom t)], Inr t) \<and>
   joinSupport parse_uuid c client unidentified (Some (ascii ''admin-inbox''))
     = ([JoinRoom client SUPPORT_ADMIN_INBOX_ROOM], Inr (ascii ''admin-inbox''))"
  by (simp add: joinConversation_def joinSupport_def read_id_def unidentified_def supportRoom_def
      SUPPORT_ADMIN_INBOX_ROOM_def ascii_def Let_def)

end
