(* ===== verification/Live_Service.thy ===== *)
theory Live_Service
  imports Bid_Service Presence
begin

text \<open>
  \<open>live/live.service.ts\<close> with its utilities: the lobby and the arena of an auction, who is in it, and
  what a screen is told about countdown, bidding access, the soft close and the result. The table
  \<open>auction_participants\<close> is a state of its own, written by joining and leaving only.
\<close>

section \<open>Utilities\<close>

record countdown =
  ctd_serverTime :: instant
  ctd_startsAt :: "instant option"
  ctd_endsAt :: "instant option"
  ctd_msUntilStart :: "int option"
  ctd_msUntilEnd :: "int option"

definition msUntil :: "instant option \<Rightarrow> instant \<Rightarrow> int option" where
  "msUntil target now = (case target of None \<Rightarrow> None | Some t \<Rightarrow> Some (max 0 (t - now)))"

definition calculateCountdown :: "public_auction \<Rightarrow> instant \<Rightarrow> countdown" where
  "calculateCountdown a now =
     \<lparr>ctd_serverTime = now, ctd_startsAt = pa_scheduledStartAt a, ctd_endsAt = pa_currentEndAt a,
      ctd_msUntilStart = msUntil (pa_scheduledStartAt a) now,
      ctd_msUntilEnd = msUntil (pa_currentEndAt a) now\<rparr>"

definition SETTLED_STATUSES :: "auction_status list" where
  "SETTLED_STATUSES = [SOLD, UNSOLD]"

record auction_result =
  ar_outcome :: auction_status
  ar_endedAt :: "instant option"
  ar_soldPrice :: "money option"
  ar_finalPrice :: "money option"
  ar_bidCount :: nat
  ar_reserveMet :: bool
  ar_winner :: "public_bid option"

definition describeAuctionResult :: "public_auction \<Rightarrow> public_bid option \<Rightarrow> auction_result option" where
  "describeAuctionResult a winner =
     (if pa_status a \<notin> set SETTLED_STATUSES then None
      else Some \<lparr>ar_outcome = (if pa_status a = SOLD then SOLD else UNSOLD),
             ar_endedAt = pa_endedAt a, ar_soldPrice = pa_soldPrice a,
             ar_finalPrice = (if pa_bidCount a > 0 then Some (pa_currentPrice a) else None),
             ar_bidCount = pa_bidCount a, ar_reserveMet = pa_reserveMet a,
             ar_winner = (if pa_status a = SOLD then winner else None)\<rparr>)"

datatype bidding_block = AUCTION_NOT_OPEN | YOU_ARE_THE_SELLER | ADMINS_DO_NOT_BID

record viewer =
  vw_id :: uuid
  vw_role :: user_role

text \<open>\<open>canBid\<close> and \<open>blockedBy\<close>.\<close>

definition describeBiddingAccess :: "public_auction \<Rightarrow> viewer \<Rightarrow> bool \<times> bidding_block option" where
  "describeBiddingAccess a v =
     (let blockedBy =
            (if \<not> pa_biddingOpen a then Some AUCTION_NOT_OPEN
             else if vw_id v = fst (pa_seller a) then Some YOU_ARE_THE_SELLER
             else if vw_role v \<noteq> USER then Some ADMINS_DO_NOT_BID
             else None)
      in (blockedBy = None, blockedBy))"

record last_extension =
  le_extensionNumber :: nat
  le_previousEndAt :: instant
  le_newEndAt :: instant
  le_triggeringBid :: money

record sudden_death =
  sd_active :: bool
  sd_windowMs :: int
  sd_extensionMs :: int
  sd_extensionCount :: nat
  sd_extensionsRemaining :: nat
  sd_lastExtension :: "last_extension option"

definition describeSuddenDeath ::
  "public_auction \<Rightarrow> last_extension option \<Rightarrow> instant \<Rightarrow> sudden_death" where
  "describeSuddenDeath a lastExtension now =
     (let remainingMs = map_option (\<lambda>t. t - now) (pa_currentEndAt a)
      in \<lparr>sd_active = (pa_biddingOpen a \<and>
            (case remainingMs of None \<Rightarrow> False
             | Some ms \<Rightarrow> ms > 0 \<and> ms \<le> ANTI_SNIPING_WINDOW_MS)),
          sd_windowMs = ANTI_SNIPING_WINDOW_MS, sd_extensionMs = ANTI_SNIPING_EXTENSION_MS,
          sd_extensionCount = pa_extensionCount a,
          sd_extensionsRemaining = MAX_EXTENSIONS - pa_extensionCount a,
          sd_lastExtension = lastExtension\<rparr>)"

section \<open>Participants\<close>

datatype participant_status = JOINED | LEFT

record participant_row =
  pp_auctionId :: uuid
  pp_userId :: uuid
  pp_status :: participant_status
  pp_joinedAt :: instant
  pp_lastSeenAt :: "instant option"

type_synonym participants = "participant_row list"

definition JOINABLE_AUCTION_STATUSES :: "auction_status list" where
  "JOINABLE_AUCTION_STATUSES = [SCHEDULED, ACTIVE]"

definition ARENA_RECENT_BIDS :: nat where
  "ARENA_RECENT_BIDS = 10"

definition countParticipants :: "participants \<Rightarrow> uuid \<Rightarrow> nat" where
  "countParticipants ps auctionId = count_rows (\<lambda>p. pp_auctionId p = auctionId \<and> pp_status p = JOINED) ps"

definition is_participant :: "uuid \<Rightarrow> uuid \<Rightarrow> participant_row \<Rightarrow> bool" where
  "is_participant auctionId userId p \<longleftrightarrow> pp_auctionId p = auctionId \<and> pp_userId p = userId"

definition findParticipant :: "participants \<Rightarrow> uuid \<Rightarrow> uuid \<Rightarrow> participant_row option" where
  "findParticipant ps auctionId userId = find (is_participant auctionId userId) ps"

definition assertJoinable :: "db \<Rightarrow> uuid \<Rightarrow> error option" where
  "assertJoinable s auctionId =
     (case find (\<lambda>a. au_id a = auctionId \<and> is_public a) (auctions s) of
        None \<Rightarrow> Some (NotFound Auction)
      | Some a \<Rightarrow>
          if au_status a \<notin> set JOINABLE_AUCTION_STATUSES then Some (Conflict NoLongerRunning) else None)"

definition upsert_participant :: "participants \<Rightarrow> instant \<Rightarrow> uuid \<Rightarrow> uuid \<Rightarrow> participants" where
  "upsert_participant ps now auctionId userId =
     (if findParticipant ps auctionId userId = None
      then ps @ [\<lparr>pp_auctionId = auctionId, pp_userId = userId, pp_status = JOINED,
                  pp_joinedAt = now, pp_lastSeenAt = Some now\<rparr>]
      else map_rows (is_participant auctionId userId)
             (\<lambda>p. p\<lparr>pp_status := JOINED, pp_lastSeenAt := Some now\<rparr>) ps)"

text \<open>\<open>auction:presence\<close>, with the count and the moment it was read.\<close>

record presence_event =
  pe_auctionId :: uuid
  pe_participantCount :: nat
  pe_at :: instant

definition announcePresence :: "uuid \<Rightarrow> nat \<Rightarrow> instant \<Rightarrow> presence_event" where
  "announcePresence auctionId n now = \<lparr>pe_auctionId = auctionId, pe_participantCount = n, pe_at = now\<rparr>"

record join_view =
  jv_auctionId :: uuid
  jv_joined :: bool
  jv_joinedAt :: "instant option"
  jv_participantCount :: nat

text \<open>\<open>rd\<close> is what \<open>findParticipant\<close> saw, \<open>wr\<close> what the upsert found.\<close>

definition join_auction ::
  "db \<Rightarrow> participants \<Rightarrow> participants \<Rightarrow> instant \<Rightarrow> uuid \<Rightarrow> uuid
     \<Rightarrow> participants \<times> presence_event list \<times> (error + join_view)" where
  "join_auction s rd wr now auctionId userId =
     (case assertJoinable s auctionId of
        Some e \<Rightarrow> (wr, [], Inl e)
      | None \<Rightarrow>
          let wasJoined = (map_option pp_status (findParticipant rd auctionId userId) = Some JOINED);
              ps = upsert_participant wr now auctionId userId;
              participantCount = countParticipants ps auctionId
          in (ps, (if \<not> wasJoined then [announcePresence auctionId participantCount now] else []),
              Inr \<lparr>jv_auctionId = auctionId, jv_joined = True,
                   jv_joinedAt = map_option pp_joinedAt (findParticipant ps auctionId userId),
                   jv_participantCount = participantCount\<rparr>))"

definition leave_auction ::
  "participants \<Rightarrow> instant \<Rightarrow> uuid \<Rightarrow> uuid \<Rightarrow> participants \<times> presence_event list \<times> join_view" where
  "leave_auction ps now auctionId userId =
     (let (count, ps1) = update_many (\<lambda>p. is_participant auctionId userId p \<and> pp_status p = JOINED)
            (\<lambda>p. p\<lparr>pp_status := LEFT, pp_lastSeenAt := Some now\<rparr>) ps;
          participantCount = countParticipants ps1 auctionId
      in (ps1, (if count = 1 then [announcePresence auctionId participantCount now] else []),
          \<lparr>jv_auctionId = auctionId, jv_joined = False, jv_joinedAt = None,
           jv_participantCount = participantCount\<rparr>))"

text \<open>The handler \<open>onModuleInit\<close> registers: everybody gone leaves.\<close>

fun release_presence :: "instant \<Rightarrow> participants \<times> presence_event list \<Rightarrow> membership list
    \<Rightarrow> participants \<times> presence_event list" where
  "release_presence now (ps, es) [] = (ps, es)"
| "release_presence now (ps, es) ((auctionId, userId) # gone) =
     (let (ps1, es1, v) = leave_auction ps now auctionId userId
      in release_presence now (ps1, es @ es1) gone)"

definition toViewerParticipation :: "participant_row option \<Rightarrow> bool \<times> instant option" where
  "toViewerParticipation p =
     (case p of
        None \<Rightarrow> (False, None)
      | Some r \<Rightarrow> if pp_status r = JOINED then (True, Some (pp_joinedAt r)) else (False, None))"

section \<open>Lobby and arena\<close>

definition public_part :: "auction_view \<Rightarrow> public_auction" where
  "public_part v = (case v of PublicView p \<Rightarrow> p | OwnerView p reserve \<Rightarrow> p)"

record lobby =
  lo_auction :: auction_view
  lo_participantCount :: nat
  lo_countdown :: countdown
  lo_you :: "(bool \<times> instant option) option"

definition getLobby ::
  "db \<Rightarrow> participants \<Rightarrow> instant \<Rightarrow> uuid \<Rightarrow> viewer option \<Rightarrow> db \<times> message list \<times> (error + lobby)" where
  "getLobby s ps now auctionId v =
     (case findPublicAuction s now auctionId (map_option vw_id v) of
        (s1, msgs, Inl e) \<Rightarrow> (s1, msgs, Inl e)
      | (s1, msgs, Inr auction) \<Rightarrow>
          (s1, msgs, Inr \<lparr>lo_auction = auction,
             lo_participantCount = countParticipants ps auctionId,
             lo_countdown = calculateCountdown (public_part auction) now,
             lo_you = map_option (\<lambda>u. toViewerParticipation (findParticipant ps auctionId (vw_id u))) v\<rparr>))"

record arena =
  re_lobby :: lobby
  re_leader :: "public_bid option"
  re_recentBids :: "public_bid list"
  re_suddenDeath :: sudden_death
  re_result :: "auction_result option"
  re_access :: "(bool \<times> bidding_block option) option"

definition last_extension_of :: "db \<Rightarrow> uuid \<Rightarrow> last_extension option" where
  "last_extension_of s auctionId =
     Option.bind (find_by (\<lambda>e. - int (ex_extensionNumber e)) (\<lambda>e. ex_auctionId e = auctionId) (extensions s))
       (\<lambda>e. map_option (\<lambda>b. \<lparr>le_extensionNumber = ex_extensionNumber e,
                le_previousEndAt = ex_previousEndAt e, le_newEndAt = ex_newEndAt e,
                le_triggeringBid = bi_amount b\<rparr>)
              (find (\<lambda>b. bi_id b = ex_triggeredByBidId e) (bids s)))"

definition recorded_winner :: "db \<Rightarrow> uuid \<Rightarrow> bid_row option" where
  "recorded_winner s auctionId =
     find (\<lambda>b. list_ex (\<lambda>a. au_id a = auctionId \<and> au_winningBidId a = Some (bi_id b)) (auctions s)) (bids s)"

definition getArena ::
  "db \<Rightarrow> participants \<Rightarrow> instant \<Rightarrow> uuid \<Rightarrow> viewer option \<Rightarrow> db \<times> message list \<times> (error + arena)" where
  "getArena s ps now auctionId v =
     (case getLobby s ps now auctionId v of
        (s1, msgs, Inl e) \<Rightarrow> (s1, msgs, Inl e)
      | (s1, msgs, Inr l) \<Rightarrow>
          let p = public_part (lo_auction l);
              toBid = toPublicBid s1 (map_option vw_id v)
          in (s1, msgs, Inr \<lparr>re_lobby = l,
             re_leader = map_option toBid (leading_bid s1 auctionId),
             re_recentBids = map toBid (take ARENA_RECENT_BIDS
               (sort_key (\<lambda>b. - int (bi_sequenceNo b)) (filter (\<lambda>b. bi_auctionId b = auctionId) (bids s1)))),
             re_suddenDeath = describeSuddenDeath p (last_extension_of s1 auctionId)
               (ctd_serverTime (lo_countdown l)),
             re_result = describeAuctionResult p (map_option toBid (recorded_winner s1 auctionId)),
             re_access = map_option (describeBiddingAccess p) v\<rparr>))"

section \<open>Participants\<close>

text \<open>One row per person and auction, whatever happens; joining and leaving move the count by one.\<close>

definition participants_ok :: "participants \<Rightarrow> bool" where
  "participants_ok ps \<longleftrightarrow> distinct (map (\<lambda>p. (pp_auctionId p, pp_userId p)) ps)"

lemma upsert_participant_ok:
  assumes "participants_ok ps"
  shows "participants_ok (upsert_participant ps now auctionId userId)"
proof (cases "findParticipant ps auctionId userId")
  case None
  then have "(auctionId, userId) \<notin> (\<lambda>p. (pp_auctionId p, pp_userId p)) ` set ps"
    by (auto simp: findParticipant_def find_None_iff is_participant_def)
  then show ?thesis using assms None by (simp add: upsert_participant_def participants_ok_def)
next
  case (Some p)
  then show ?thesis
    using assms by (simp add: upsert_participant_def participants_ok_def map_map_rows_same)
qed

lemma leave_auction_ok:
  "participants_ok ps \<Longrightarrow> participants_ok (fst (leave_auction ps now auctionId userId))"
  by (simp add: leave_auction_def Let_def participants_ok_def map_map_rows_same update_many_def)

lemma join_auction_ok:
  "participants_ok wr \<Longrightarrow> participants_ok (fst (join_auction s rd wr now auctionId userId))"
  by (simp add: join_auction_def Let_def upsert_participant_ok split: option.split)

end
