(* ===== verification/Auction_Lifecycle.thy ===== *)
theory Auction_Lifecycle
  imports Bid_Service
begin

text \<open>
  \<open>AuctionLifecycleService\<close> of \<open>apps/api/src/auction/auction-lifecycle.service.ts\<close>: the pass that
  opens due auctions and settles overdue ones, at most \<open>LIFECYCLE_BATCH_SIZE\<close> of each, and the flag
  that keeps passes from overlapping.
\<close>

definition LIFECYCLE_BATCH_SIZE :: nat where
  "LIFECYCLE_BATCH_SIZE = 50"

definition time_reached :: "instant \<Rightarrow> instant option \<Rightarrow> bool" where
  "time_reached now t = (case t of None \<Rightarrow> False | Some x \<Rightarrow> x \<le> now)"

definition due_to_start :: "instant \<Rightarrow> auction_row \<Rightarrow> bool" where
  "due_to_start now a \<longleftrightarrow> au_status a = SCHEDULED \<and> time_reached now (au_scheduledStartAt a) \<and>
     au_currentEndAt a \<noteq> None \<and> au_deletedAt a = None"

definition due_to_settle :: "instant \<Rightarrow> auction_row \<Rightarrow> bool" where
  "due_to_settle now a \<longleftrightarrow> au_status a = ACTIVE \<and> time_reached now (au_currentEndAt a) \<and>
     au_deletedAt a = None"

definition start_guard :: "instant \<Rightarrow> uuid \<Rightarrow> auction_row \<Rightarrow> bool" where
  "start_guard now aid a \<longleftrightarrow> au_id a = aid \<and> au_status a = SCHEDULED \<and>
     time_reached now (au_scheduledStartAt a) \<and> au_deletedAt a = None"

definition mark_started :: "instant \<Rightarrow> auction_row \<Rightarrow> auction_row" where
  "mark_started now a = a\<lparr>au_status := ACTIVE, au_startedAt := Some now,
     au_rowVersion := au_rowVersion a + 1, au_updatedAt := now\<rparr>"

definition startAuction :: "db \<Rightarrow> instant \<Rightarrow> uuid \<Rightarrow> db \<times> bool" where
  "startAuction s now aid =
     (let (count, t) = update_many (start_guard now aid) (mark_started now) (auctions s)
      in if count \<noteq> 1 then (s, False)
         else (s\<lparr>auctions := t, auctionEvents := auctionEvents s @ [event aid None None EV_STARTED]\<rparr>, True))"

primrec start_loop :: "instant \<Rightarrow> auction_row list \<Rightarrow> db \<Rightarrow> db \<times> message list \<times> nat" where
  "start_loop now [] s = (s, [], 0)"
| "start_loop now (a # due) s =
     (case startAuction s now (au_id a) of
        (s1, False) \<Rightarrow> start_loop now due s1
      | (s1, True) \<Rightarrow>
         (case start_loop now due s1 of
            (s2, msgs, n) \<Rightarrow>
              (s2, ToRoom (au_id a) (AuctionStarted (au_id a) ACTIVE now (au_currentEndAt a)) # msgs, n + 1)))"

definition startDueAuctions :: "db \<Rightarrow> instant \<Rightarrow> db \<times> message list \<times> nat" where
  "startDueAuctions s now =
     start_loop now (take LIFECYCLE_BATCH_SIZE
       (sort_key (\<lambda>a. (nulls_last_asc (au_scheduledStartAt a), au_id a))
         (filter (due_to_start now) (auctions s)))) s"

primrec settle_loop :: "instant \<Rightarrow> auction_row list \<Rightarrow> db \<Rightarrow> db \<times> message list \<times> nat" where
  "settle_loop now [] s = (s, [], 0)"
| "settle_loop now (a # due) s =
     (case settleAuction s s now (au_id a) of
        (s1, msgs1, result) \<Rightarrow>
         (case settle_loop now due s1 of
            (s2, msgs2, n) \<Rightarrow> (s2, msgs1 @ msgs2, (case result of None \<Rightarrow> n | Some _ \<Rightarrow> n + 1))))"

definition settleDueAuctions :: "db \<Rightarrow> instant \<Rightarrow> db \<times> message list \<times> nat" where
  "settleDueAuctions s now =
     settle_loop now (take LIFECYCLE_BATCH_SIZE
       (sort_key (\<lambda>a. (nulls_last_asc (au_currentEndAt a), au_id a))
         (filter (due_to_settle now) (auctions s)))) s"

text \<open>\<open>reconciling\<close> is the flag of the service object, before and after the call.\<close>

definition reconcileLifecycle :: "bool \<Rightarrow> db \<Rightarrow> instant \<Rightarrow> bool \<times> db \<times> message list" where
  "reconcileLifecycle reconciling s now =
     (if reconciling then (True, s, [])
      else
        (case startDueAuctions s now of
           (s1, msgs1, started) \<Rightarrow>
            (case settleDueAuctions s1 now of
               (s2, msgs2, settled) \<Rightarrow> (False, s2, msgs1 @ msgs2))))"

end
