(* ===== verification/Auction_House.thy ===== *)
theory Auction_House
  imports Auction_Lifecycle
begin

text \<open>
  The auction side as one system: the serial step relation \<open>house_step\<close> whose steps are the
  committed transactions of \<open>AuctionService\<close>, \<open>BidService\<close>, \<open>AuctionLifecycleService\<close> and the admin
  cancellation, its invariant \<open>house_inv\<close>, and what holds in every reachable state.
\<close>

section \<open>What each auction keeps\<close>

definition bids_of :: "db \<Rightarrow> uuid \<Rightarrow> bid_row list" where
  "bids_of s aid = filter (\<lambda>b. bi_auctionId b = aid) (bids s)"

definition extensions_of :: "db \<Rightarrow> uuid \<Rightarrow> extension_row list" where
  "extensions_of s aid = filter (\<lambda>x. ex_auctionId x = aid) (extensions s)"

text \<open>The bid log of one auction, with the price and the count its row carries.\<close>

definition bid_log_ok :: "bid_row list \<Rightarrow> money \<Rightarrow> uuid \<Rightarrow> bool" where
  "bid_log_ok bs startingPrice sellerId \<longleftrightarrow>
     map bi_sequenceNo bs = [1..<Suc (length bs)] \<and> sorted_wrt (<) (map bi_amount bs) \<and>
     (\<forall>b \<in> set bs. startingPrice \<le> bi_amount b \<and> bi_bidderId b \<noteq> sellerId)"

definition price_of :: "bid_row list \<Rightarrow> money" where
  "price_of bs = (if bs = [] then 0 else bi_amount (last bs))"

definition bids_ok :: "bid_row list \<Rightarrow> auction_row \<Rightarrow> bool" where
  "bids_ok bs a \<longleftrightarrow>
     bid_log_ok bs (au_startingPrice a) (au_sellerId a) \<and> au_bidCount a = length bs \<and>
     au_currentPrice a = price_of bs \<and>
     (au_status a = DRAFT \<or> au_status a = SCHEDULED \<longrightarrow> bs = [])"

text \<open>The deadline: five extensions of two minutes at most, each with its row.\<close>

definition extensions_ok :: "extension_row list \<Rightarrow> nat \<Rightarrow> instant option \<Rightarrow> instant option \<Rightarrow> bool" where
  "extensions_ok xs n originalEndAt currentEndAt \<longleftrightarrow>
     n \<le> MAX_EXTENSIONS \<and> map ex_extensionNumber xs = [1..<Suc n] \<and>
     currentEndAt = map_option (\<lambda>t. t + int n * ANTI_SNIPING_EXTENSION_MS) originalEndAt"

definition deadline_ok :: "extension_row list \<Rightarrow> auction_row \<Rightarrow> bool" where
  "deadline_ok xs a \<longleftrightarrow>
     extensions_ok xs (au_extensionCount a) (au_originalEndAt a) (au_currentEndAt a) \<and>
     (au_status a = DRAFT \<or> au_status a = SCHEDULED \<longrightarrow> au_extensionCount a = 0)"

definition schedule_ok :: "instant option \<Rightarrow> instant option \<Rightarrow> bool" where
  "schedule_ok startAt endAt \<longleftrightarrow> (\<exists>t u. startAt = Some t \<and> endAt = Some u \<and> t < u)"

definition reserve_ok :: "money \<Rightarrow> money option \<Rightarrow> bool" where
  "reserve_ok startingPrice reserve \<longleftrightarrow> (\<forall>r. reserve = Some r \<longrightarrow> startingPrice \<le> r)"

definition terms_ok :: "auction_row \<Rightarrow> bool" where
  "terms_ok a \<longleftrightarrow>
     0 < au_startingPrice a \<and> 0 < au_minBidIncrement a \<and>
     (au_status a = DRAFT \<or> au_status a = CANCELLED \<or>
        schedule_ok (au_scheduledStartAt a) (au_originalEndAt a) \<and>
        reserve_ok (au_startingPrice a) (au_reservePrice a))"

definition sold_to :: "bid_row list \<Rightarrow> uuid option \<Rightarrow> uuid option \<Rightarrow> money option \<Rightarrow> money option \<Rightarrow> bool" where
  "sold_to bs winner winningBid soldPrice reserve \<longleftrightarrow>
     bs \<noteq> [] \<and> winner = Some (bi_bidderId (last bs)) \<and> winningBid = Some (bi_id (last bs)) \<and>
     soldPrice = Some (bi_amount (last bs)) \<and> calculateReserveMet (bi_amount (last bs)) reserve"

definition not_sold :: "bid_row list \<Rightarrow> money option \<Rightarrow> bool" where
  "not_sold bs reserve \<longleftrightarrow> (bs \<noteq> [] \<longrightarrow> \<not> calculateReserveMet (bi_amount (last bs)) reserve)"

definition result_ok :: "bid_row list \<Rightarrow> auction_row \<Rightarrow> bool" where
  "result_ok bs a \<longleftrightarrow>
     (if au_status a = SOLD
      then sold_to bs (au_winnerUserId a) (au_winningBidId a) (au_soldPrice a) (au_reservePrice a)
      else au_winnerUserId a = None \<and> au_winningBidId a = None \<and> au_soldPrice a = None \<and>
           (au_status a = UNSOLD \<longrightarrow> not_sold bs (au_reservePrice a)))"

definition row_ok :: "bid_row list \<Rightarrow> extension_row list \<Rightarrow> auction_row \<Rightarrow> bool" where
  "row_ok bs xs a \<longleftrightarrow> bids_ok bs a \<and> deadline_ok xs a \<and> terms_ok a \<and> result_ok bs a"

lemmas row_ok_defs = row_ok_def bids_ok_def deadline_ok_def terms_ok_def result_ok_def

definition house_inv :: "db \<Rightarrow> bool" where
  "house_inv s \<longleftrightarrow>
     distinct (map au_id (auctions s)) \<and>
     distinct (map bi_clientRequestId (bids s)) \<and>
     bi_auctionId ` set (bids s) \<subseteq> au_id ` set (auctions s) \<and>
     ex_auctionId ` set (extensions s) \<subseteq> au_id ` set (auctions s) \<and>
     (\<forall>a \<in> set (auctions s). row_ok (bids_of s (au_id a)) (extensions_of s (au_id a)) a)"

lemma house_invD:
  assumes "house_inv s"
  shows "distinct (map au_id (auctions s))" "distinct (map bi_clientRequestId (bids s))"
    "\<And>a. a \<in> set (auctions s) \<Longrightarrow> row_ok (bids_of s (au_id a)) (extensions_of s (au_id a)) a"
  using assms by (auto simp: house_inv_def)

lemma house_inv_find:
  "house_inv s \<Longrightarrow> find_auction s aid = Some a \<Longrightarrow> row_ok (bids_of s aid) (extensions_of s aid) a"
  by (auto simp: find_auction_def house_inv_def dest!: find_SomeD)

section \<open>The leading bid\<close>

lemma sorted_wrt_less_last:
  fixes xs :: "int list"
  assumes "sorted_wrt (<) xs" "x \<in> set xs"
  shows "x \<le> last xs" "x = last xs \<or> x < last xs"
proof -
  show "x = last xs \<or> x < last xs"
    using assms by (induction xs) (auto split: if_splits)
  then show "x \<le> last xs" by auto
qed

lemma last_map_amount: "bs \<noteq> [] \<Longrightarrow> last (map bi_amount bs) = bi_amount (last bs)"
  by (rule last_map)

lemma leading_is_last:
  assumes "sorted_wrt (<) (map bi_amount (bids_of s aid))"
  shows "leading_bid s aid
       = (if bids_of s aid = [] then None else Some (last (bids_of s aid)))"
proof (cases "leading_bid s aid")
  case None
  then have "\<forall>b \<in> set (bids s). bi_auctionId b \<noteq> aid"
    unfolding leading_bid_def find_by_None_iff by simp
  then show ?thesis using None by (simp add: bids_of_def filter_empty_conv)
next
  case (Some l)
  let ?bs = "bids_of s aid"
  have l: "l \<in> set ?bs"
    using find_by_SomeD(1,2) [OF Some [unfolded leading_bid_def]] by (simp add: bids_of_def)
  have min: "\<forall>q \<in> set ?bs. LEADING_BID_ORDER l \<le> LEADING_BID_ORDER q"
    using find_by_SomeD(3) [OF Some [unfolded leading_bid_def]] by (simp add: bids_of_def)
  have ne: "?bs \<noteq> []" using l by auto
  then have "LEADING_BID_ORDER l \<le> LEADING_BID_ORDER (last ?bs)"
    using min last_in_set by blast
  then have "bi_amount (last ?bs) \<le> bi_amount l"
    by (auto simp: LEADING_BID_ORDER_def less_eq_prod_def)
  moreover have "bi_amount l \<le> bi_amount (last ?bs)"
    using sorted_wrt_less_last(1) [OF assms, of "bi_amount l"] l ne by (simp add: last_map_amount)
  ultimately have same: "bi_amount l = bi_amount (last ?bs)" by simp
  have "distinct (map bi_amount ?bs)"
    using assms strict_sorted_iff by blast
  then have "l = last ?bs"
    using same l last_in_set [OF ne] distinct_key_unique by metis
  then show ?thesis using Some ne by simp
qed

lemma bids_ok_leading:
  "bids_ok (bids_of s aid) a \<Longrightarrow>
   leading_bid s aid = (if bids_of s aid = [] then None else Some (last (bids_of s aid)))"
  by (rule leading_is_last) (simp add: bids_ok_def bid_log_ok_def)

section \<open>Steps\<close>

inductive house_step :: "db \<Rightarrow> db \<Rightarrow> bool" where
  create: "newId \<notin> au_id ` set (auctions s) \<Longrightarrow>
     0 < cd_startingPrice dto \<Longrightarrow> 0 < cd_minBidIncrement dto \<Longrightarrow>
     createDraft s now newId imgId rnd sellerId dto = Inr (s', v) \<Longrightarrow> house_step s s'"
| publish: "publishDraft s s now aid sellerId = Inr (s', v) \<Longrightarrow> house_step s s'"
| edit: "(\<forall>p. ud_startingPrice dto = Some p \<longrightarrow> 0 < p) \<Longrightarrow>
     (\<forall>p. ud_minBidIncrement dto = Some p \<longrightarrow> 0 < p) \<Longrightarrow>
     updateOwnAuction s s now imgId rnd aid sellerId dto = Inr (s', v) \<Longrightarrow> house_step s s'"
| cancel: "cancelInTransaction s s now aid sellerId reason = Inr (s', c) \<Longrightarrow> house_step s s'"
| admin_cancel: "adminCancelInTransaction s s now aid adminId note = Inr (s', c) \<Longrightarrow> house_step s s'"
| add_image: "addDraftImage s s now newImg aid sellerId upload = (s', msgs, Inr v) \<Longrightarrow> house_step s s'"
| remove_image: "removeDraftImage s now aid sellerId img = (s', msgs, Inr v) \<Longrightarrow> house_step s s'"
| start: "startAuction s now aid = (s', True) \<Longrightarrow> house_step s s'"
| bid: "placeBidInTransaction report s s now newBidId aid bidderId requestId amount = Inr (s', out) \<Longrightarrow>
     house_step s s'"
| settle: "settleInTransaction s s now aid = (s', Some st) \<Longrightarrow> house_step s s'"
| elsewhere: "auctions s' = auctions s \<Longrightarrow> bids s' = bids s \<Longrightarrow> extensions s' = extensions s \<Longrightarrow>
     house_step s s'"

text \<open>
  Most steps write auction rows only: a guarded update whose row change keeps the row's invariant
  keeps the system's.
\<close>

lemma house_inv_update:
  assumes inv: "house_inv s"
    and tab: "auctions s' = map_rows P f (auctions s)"
    and rest: "bids s' = bids s" "extensions s' = extensions s"
    and key: "\<And>a. au_id (f a) = au_id a"
    and row: "\<And>a bs xs. a \<in> set (auctions s) \<Longrightarrow> P a \<Longrightarrow> row_ok (bids_of s (au_id a)) (extensions_of s (au_id a)) a
      \<Longrightarrow> row_ok (bids_of s (au_id a)) (extensions_of s (au_id a)) (f a)"
  shows "house_inv s'"
proof -
  have ids: "map au_id (auctions s') = map au_id (auctions s)"
    unfolding tab by (rule map_map_rows_same) (rule key)
  then have idset: "au_id ` set (auctions s') = au_id ` set (auctions s)"
    by (metis list.set_map)
  have same: "bids_of s' = bids_of s" "extensions_of s' = extensions_of s"
    by (simp_all add: fun_eq_iff bids_of_def extensions_of_def rest)
  have "row_ok (bids_of s (au_id b)) (extensions_of s (au_id b)) b" if "b \<in> set (auctions s')" for b
    using that inv row by (auto simp: tab set_map_rows key house_inv_def)
  then show ?thesis
    using inv by (simp add: house_inv_def ids idset rest same)
qed

section \<open>What a successful transaction did\<close>

lemma publishDraft_Inr:
  assumes "publishDraft rd wr now aid sellerId = Inr (s', v)"
  obtains d f where "own_draft rd aid sellerId = Some d"
    "validateDraftForPublish (auctionPublishGateSelect rd d) now = []"
    "count_rows (is_own_draft aid sellerId) (auctions wr) = 1"
    "f = (\<lambda>a. a\<lparr>au_status := (if time_reached now (au_scheduledStartAt d) then ACTIVE else SCHEDULED),
            au_publishedAt := Some now,
            au_startedAt := (if time_reached now (au_scheduledStartAt d) then Some now else None),
            au_rowVersion := au_rowVersion a + 1, au_updatedAt := now\<rparr>)"
    "auctions s' = map_rows (is_own_draft aid sellerId) f (auctions wr)"
    "bids s' = bids wr" "extensions s' = extensions wr"
  using assms
  by (auto simp: publishDraft_def Let_def update_many_def time_reached_def
      split: option.splits if_splits)

lemma updateOwnAuction_Inr:
  assumes "updateOwnAuction rd wr now imgId rnd aid sellerId dto = Inr (s', v)"
  obtains e u where "find (is_own aid sellerId) (auctions rd) = Some e"
    "assertAuctionIsEditable e = None"
    "count_rows (is_own_as_read aid sellerId e) (auctions wr) = 1"
    "auctions s' = map_rows (is_own_as_read aid sellerId e) (apply_edit dto now) (auctions wr)"
    "bids s' = bids wr" "extensions s' = extensions wr"
    "find_auction s' aid = Some u"
    "au_status e = SCHEDULED \<longrightarrow> validateDraftForPublish (auctionPublishGateSelect s' u) now = []"
proof -
  obtain e where e: "find (is_own aid sellerId) (auctions rd) = Some e"
      "Option.bind (ud_categoryId dto) (assertCategoryIsActive rd) = None"
      "assertAuctionIsEditable e = None"
    using assms by (auto simp: updateOwnAuction_def split: option.splits)
  have c: "count_rows (is_own_as_read aid sellerId e) (auctions wr) = 1"
    using assms e by (auto simp: updateOwnAuction_def Let_def update_many_def split: if_splits)
  define s1 where "s1 = wr\<lparr>auctions := map_rows (is_own_as_read aid sellerId e) (apply_edit dto now) (auctions wr),
      auctionImages := (case ud_imageUrls dto of
          None \<Rightarrow> auctionImages wr
        | Some urls \<Rightarrow> delete_many (\<lambda>i. im_ownerId i = aid) (auctionImages wr)
            @ image_rows_of_urls imgId rnd sellerId aid urls)\<rparr>"
  have "(case find_auction s1 aid of
          None \<Rightarrow> Inl RecordNotFound
        | Some u \<Rightarrow>
            let issues = (if au_status e = SCHEDULED
                  then validateDraftForPublish (auctionPublishGateSelect s1 u) now else [])
            in if length issues > 0 then Inl (BadRequest (EditIncomplete issues))
               else Inr (s1, toOwnerAuction s1 u)) = Inr (s', v)"
    using assms e c unfolding updateOwnAuction_def Let_def update_many_def s1_def by simp
  then obtain u where u: "find_auction s1 aid = Some u" "s1 = s'"
      "au_status e = SCHEDULED \<longrightarrow> validateDraftForPublish (auctionPublishGateSelect s1 u) now = []"
    by (auto simp: Let_def split: option.splits if_splits)
  show thesis
    by (rule that [OF e(1) e(3) c _ _ _ u(1,3) [unfolded u(2)]])
      (simp_all add: u(2) [symmetric] s1_def)
qed

lemma cancelInTransaction_Inr:
  assumes "cancelInTransaction rd wr now aid sellerId reason = Inr (s', c)"
  obtains e where "find (is_own aid sellerId) (auctions rd) = Some e"
    "assertAuctionIsCancellable e = None"
    "count_rows (is_own_as_read aid sellerId e) (auctions wr) = 1"
    "auctions s' = map_rows (is_own_as_read aid sellerId e) (mark_cancelled now reason) (auctions wr)"
    "bids s' = bids wr" "extensions s' = extensions wr"
  using assms
  by (auto simp: cancelInTransaction_def Let_def update_many_def split: option.splits if_splits)

lemma adminCancelInTransaction_Inr:
  assumes "adminCancelInTransaction rd wr now aid adminId note = Inr (s', c)"
  obtains e where "find (\<lambda>a. au_id a = aid \<and> au_deletedAt a = None) (auctions rd) = Some e"
    "au_status e \<in> set CANCELLABLE_BY_ADMIN"
    "auctions s' = map_rows (\<lambda>a. au_id a = aid \<and> au_status a = au_status e \<and> au_deletedAt a = None)
       (mark_cancelled now (Some note)) (auctions wr)"
    "bids s' = bids wr" "extensions s' = extensions wr"
  using assms
  by (auto simp: adminCancelInTransaction_def Let_def update_many_def split: option.splits if_splits)

lemma addDraftImage_Inr:
  assumes "addDraftImage rd wr now imgId aid sellerId upload = (s', msgs, Inr v)"
  shows "auctions s' = map_rows (\<lambda>a. au_id a = aid) (bump_version now) (auctions wr)"
    "bids s' = bids wr" "extensions s' = extensions wr"
  using assms
  by (auto simp: addDraftImage_def addImageInTransaction_def Let_def
      split: option.splits if_splits sum.splits)

lemma removeDraftImage_Inr:
  assumes "removeDraftImage s now aid sellerId img = (s', msgs, Inr v)"
  shows "auctions s' = map_rows (\<lambda>a. au_id a = aid) (bump_version now) (auctions s)"
    "bids s' = bids s" "extensions s' = extensions s"
  using assms
  by (auto simp: removeDraftImage_def Let_def split: option.splits if_splits)

lemma startAuction_True:
  assumes "startAuction s now aid = (s', True)"
  shows "auctions s' = map_rows (start_guard now aid) (mark_started now) (auctions s)"
    "bids s' = bids s" "extensions s' = extensions s"
    "count_rows (start_guard now aid) (auctions s) = 1"
  using assms by (auto simp: startAuction_def Let_def update_many_def split: if_splits)

lemma settleInTransaction_Some:
  assumes "settleInTransaction rd wr now aid = (s', Some st)"
  obtains a endAt h sold f where "find (is_settleable aid) (auctions rd) = Some a"
    "au_currentEndAt a = Some endAt" "endAt \<le> now" "h = leading_bid rd aid"
    "sold = (case h of None \<Rightarrow> False | Some b \<Rightarrow> calculateReserveMet (bi_amount b) (au_reservePrice a))"
    "f = (\<lambda>r. r\<lparr>au_status := (if sold then SOLD else UNSOLD), au_endedAt := Some now,
            au_winnerUserId := (if sold then map_option bi_bidderId h else None),
            au_winningBidId := (if sold then map_option bi_id h else None),
            au_soldPrice := (if sold then map_option bi_amount h else None),
            au_rowVersion := au_rowVersion r + 1, au_updatedAt := now\<rparr>)"
    "count_rows (is_settleable aid) (auctions wr) = 1"
    "auctions s' = map_rows (is_settleable aid) f (auctions wr)"
    "bids s' = bids wr" "extensions s' = extensions wr"
    "st_sold st = sold"
proof -
  obtain a where a: "find (is_settleable aid) (auctions rd) = Some a"
    using assms by (auto simp: settleInTransaction_def split: option.splits)
  obtain endAt where e: "au_currentEndAt a = Some endAt"
    using assms a by (auto simp: settleInTransaction_def split: option.splits)
  have le: "endAt \<le> now"
    using assms a e by (auto simp: settleInTransaction_def split: if_splits)
  have c: "count_rows (is_settleable aid) (auctions wr) = 1"
    using assms a e le by (auto simp: settleInTransaction_def Let_def update_many_def split: if_splits)
  show thesis
    by (rule that [OF a e le refl refl refl c])
      (use assms a e le c in \<open>auto simp: settleInTransaction_def Let_def update_many_def\<close>)
qed

lemma placeBid_Inr:
  assumes "placeBidInTransaction report rd wr now newBidId aid bidderId requestId amount = Inr (s', out)"
  obtains (replayed) b where "out = Replayed (toOwnBid b)" "s' = wr" "bi_auctionId b = aid" "bi_amount b = amount"
      "find_request rd requestId = Some b \<or> find_request wr requestId = Some b"
  | (accepted) a endAt ext b ac where "find_request rd requestId = None"
      "find (\<lambda>a. au_id a = aid \<and> au_deletedAt a = None) (auctions rd) = Some a"
      "bid_checks a bidderId amount now = Inr endAt"
      "ext = calculateAntiSniping endAt (au_extensionCount a) now"
      "count_rows (bid_guard now a) (auctions wr) = 1"
      "b = \<lparr>bi_id = newBidId, bi_auctionId = aid, bi_bidderId = bidderId, bi_amount = amount,
            bi_sequenceNo = au_bidCount a + 1, bi_clientRequestId = requestId, bi_placedAt = now\<rparr>"
      "auctions s' = map_rows (bid_guard now a) (apply_bid now amount ext) (auctions wr)"
      "bids s' = bids wr @ [b]"
      "extensions s' = extensions wr @ extension_row_of aid newBidId ext"
      "requestId \<notin> bi_clientRequestId ` set (bids wr)"
      "out = Accepted ac" "ac_bid ac = toOwnBid b"
proof (cases out)
  case (Replayed ob)
  then obtain b where "ob = toOwnBid b" "s' = wr" "bi_auctionId b = aid" "bi_amount b = amount"
      "find_request rd requestId = Some b \<or> find_request wr requestId = Some b"
    using assms
    by (auto simp: placeBidInTransaction_def replayOrRefuse_def record_bid_def Let_def update_many_def
        split: option.splits if_splits sum.splits)
  then show thesis using replayed Replayed by blast
next
  case (Accepted ac)
  have none: "find_request rd requestId = None"
    using assms Accepted
    by (auto simp: placeBidInTransaction_def split: option.splits sum.splits)
  obtain a where a: "find (\<lambda>a. au_id a = aid \<and> au_deletedAt a = None) (auctions rd) = Some a"
    using assms none by (auto simp: placeBidInTransaction_def split: option.splits)
  obtain endAt where e: "bid_checks a bidderId amount now = Inr endAt"
    using assms none a by (auto simp: placeBidInTransaction_def split: sum.splits)
  let ?ext = "calculateAntiSniping endAt (au_extensionCount a) now"
  have aid: "au_id a = aid" using a by (auto dest: find_SomeD)
  have c: "count_rows (bid_guard now a) (auctions wr) = 1"
    using assms none a e Accepted
    by (auto simp: placeBidInTransaction_def Let_def update_many_def split: if_splits option.splits sum.splits)
  have r: "record_bid report (wr\<lparr>auctions := map_rows (bid_guard now a) (apply_bid now amount ?ext) (auctions wr)\<rparr>)
      now newBidId a bidderId requestId amount ?ext = Inr (s', Accepted ac)"
    using assms none a e Accepted c
    by (simp add: placeBidInTransaction_def Let_def update_many_def)
  show thesis
    by (rule accepted [OF none a e refl c refl])
      (use r Accepted aid in \<open>auto simp: record_bid_def Let_def list_ex_iff split: if_splits option.splits\<close>)
qed

section \<open>Every step keeps the invariant\<close>

lemma row_writes_keep_id [simp]:
  "au_id (mark_cancelled now reason a) = au_id a" "au_id (apply_edit dto now a) = au_id a"
  "au_id (mark_started now a) = au_id a" "au_id (bump_version now a) = au_id a"
  "au_id (apply_bid now amount ext a) = au_id a"
  by (simp_all add: mark_cancelled_def apply_edit_def mark_started_def bump_version_def apply_bid_def
      Let_def split: extension_decision.splits)

lemma row_writes_bump [simp]:
  "au_rowVersion (mark_cancelled now reason a) = Suc (au_rowVersion a)"
  "au_rowVersion (apply_edit dto now a) = Suc (au_rowVersion a)"
  "au_rowVersion (mark_started now a) = Suc (au_rowVersion a)"
  "au_rowVersion (bump_version now a) = Suc (au_rowVersion a)"
  "au_rowVersion (apply_bid now amount ext a) = Suc (au_rowVersion a)"
  by (simp_all add: mark_cancelled_def apply_edit_def mark_started_def bump_version_def apply_bid_def
      Let_def split: extension_decision.splits)

lemma row_ok_bump: "row_ok bs xs a \<Longrightarrow> row_ok bs xs (bump_version now a)"
  by (simp add: row_ok_defs bump_version_def)

lemma row_ok_started: "row_ok bs xs a \<Longrightarrow> start_guard now aid a \<Longrightarrow> row_ok bs xs (mark_started now a)"
  by (auto simp: row_ok_defs mark_started_def start_guard_def)

lemma row_ok_cancelled:
  assumes "row_ok bs xs a" "au_status a \<in> {DRAFT, SCHEDULED, ACTIVE}"
  shows "row_ok bs xs (mark_cancelled now reason a)"
proof -
  have "au_status a \<noteq> SOLD" using assms(2) by auto
  then show ?thesis using assms(1) by (simp add: row_ok_defs mark_cancelled_def)
qed

lemma row_ok_published:
  assumes ok: "row_ok bs xs a" and dr: "is_own_draft aid u a"
    and pub: "publishable (auctionPublishGateSelect s a) now"
  shows "row_ok bs xs (a\<lparr>au_status := (if time_reached now (au_scheduledStartAt a) then ACTIVE else SCHEDULED),
            au_publishedAt := p, au_startedAt := q, au_rowVersion := n, au_updatedAt := now\<rparr>)"
proof -
  have "schedule_ok (au_scheduledStartAt a) (au_originalEndAt a)"
      "reserve_ok (au_startingPrice a) (au_reservePrice a)"
    using pub by (auto simp: publishable_def auctionPublishGateSelect_def schedule_ok_def reserve_ok_def)
  moreover have "au_status a = DRAFT" using dr by (simp add: is_own_draft_def)
  ultimately show ?thesis using ok by (auto simp: row_ok_defs)
qed

lemma row_ok_edited:
  assumes ok: "row_ok bs xs a" and st: "au_status a = DRAFT \<or> au_status a = SCHEDULED"
    and pos: "\<forall>p. ud_startingPrice dto = Some p \<longrightarrow> 0 < p" "\<forall>p. ud_minBidIncrement dto = Some p \<longrightarrow> 0 < p"
    and gate: "au_status a = SCHEDULED \<longrightarrow> publishable (auctionPublishGateSelect s (apply_edit dto now a)) now"
  shows "row_ok bs xs (apply_edit dto now a)"
proof -
  let ?e = "apply_edit dto now a"
  have zero: "bs = []" "au_extensionCount a = 0"
    using ok st by (auto simp: row_ok_defs)
  have prices: "0 < au_startingPrice ?e" "0 < au_minBidIncrement ?e"
    using ok pos by (auto simp: row_ok_defs apply_edit_def or_default_def split: option.splits)
  have "au_status a = SCHEDULED \<longrightarrow> schedule_ok (au_scheduledStartAt ?e) (au_originalEndAt ?e) \<and>
      reserve_ok (au_startingPrice ?e) (au_reservePrice ?e)"
    using gate by (auto simp: publishable_def auctionPublishGateSelect_def schedule_ok_def reserve_ok_def)
  moreover have keep: "au_status ?e = au_status a" "au_bidCount ?e = au_bidCount a"
      "au_currentPrice ?e = au_currentPrice a" "au_extensionCount ?e = au_extensionCount a"
      "au_winnerUserId ?e = au_winnerUserId a" "au_winningBidId ?e = au_winningBidId a"
      "au_soldPrice ?e = au_soldPrice a"
    by (simp_all add: apply_edit_def)
  moreover have "au_currentEndAt ?e = au_originalEndAt ?e"
    using ok zero by (auto simp: row_ok_defs extensions_ok_def apply_edit_def option.map_ident split: option.splits)
  ultimately show ?thesis
    using ok st zero prices
    by (auto simp: row_ok_defs extensions_ok_def bid_log_ok_def option.map_ident)
qed

lemma row_ok_settled:
  assumes ok: "row_ok bs xs a" and st: "is_settleable aid a"
    and h: "h = (if bs = [] then None else Some (last bs))"
    and sold: "sold = (case h of None \<Rightarrow> False | Some b \<Rightarrow> calculateReserveMet (bi_amount b) (au_reservePrice a))"
  shows "row_ok bs xs (a\<lparr>au_status := (if sold then SOLD else UNSOLD), au_endedAt := e,
            au_winnerUserId := (if sold then map_option bi_bidderId h else None),
            au_winningBidId := (if sold then map_option bi_id h else None),
            au_soldPrice := (if sold then map_option bi_amount h else None),
            au_rowVersion := n, au_updatedAt := now\<rparr>)"
proof -
  have "au_status a = ACTIVE" using st by (simp add: is_settleable_def)
  moreover have "sold \<longleftrightarrow> bs \<noteq> [] \<and> calculateReserveMet (bi_amount (last bs)) (au_reservePrice a)"
    unfolding sold h by simp
  ultimately show ?thesis
    using ok by (cases sold) (auto simp: row_ok_defs sold_to_def not_sold_def h)
qed

lemma house_inv_same:
  "house_inv s \<Longrightarrow> a \<in> set (auctions s) \<Longrightarrow> b \<in> set (auctions s) \<Longrightarrow> au_id a = au_id b \<Longrightarrow> a = b"
  using distinct_key_unique [OF house_invD(1)] by blast

lemma found_same:
  assumes "house_inv s" "find P (auctions s) = Some e" "a \<in> set (auctions s)" "P e \<Longrightarrow> au_id e = au_id a"
  shows "a = e"
  using house_inv_same [OF assms(1,3)] find_SomeD [OF assms(2)] assms(4) by metis

lemma own_draft_unique:
  assumes "house_inv s" "own_draft s aid u = Some d" "a \<in> set (auctions s)" "is_own_draft aid u a"
  shows "a = d"
  by (rule found_same [OF assms(1) assms(2) [unfolded own_draft_def] assms(3)])
    (use assms(4) in \<open>simp add: is_own_draft_def\<close>)

lemma house_inv_publish:
  assumes inv: "house_inv s" and st: "publishDraft s s now aid u = Inr (s', v)"
  shows "house_inv s'"
proof -
  obtain d f where d: "own_draft s aid u = Some d"
      "validateDraftForPublish (auctionPublishGateSelect s d) now = []"
      "count_rows (is_own_draft aid u) (auctions s) = 1"
      "f = (\<lambda>a. a\<lparr>au_status := (if time_reached now (au_scheduledStartAt d) then ACTIVE else SCHEDULED),
            au_publishedAt := Some now,
            au_startedAt := (if time_reached now (au_scheduledStartAt d) then Some now else None),
            au_rowVersion := au_rowVersion a + 1, au_updatedAt := now\<rparr>)"
    and t: "auctions s' = map_rows (is_own_draft aid u) f (auctions s)"
      "bids s' = bids s" "extensions s' = extensions s"
    by (rule publishDraft_Inr [OF st]) (rule that)
  show ?thesis
  proof (rule house_inv_update [OF inv t])
    fix a bs xs
    assume a: "a \<in> set (auctions s)" "is_own_draft aid u a"
      and ok: "row_ok (bids_of s (au_id a)) (extensions_of s (au_id a)) a"
    have ad: "a = d" by (rule own_draft_unique [OF inv d(1) a])
    show "row_ok (bids_of s (au_id a)) (extensions_of s (au_id a)) (f a)"
      unfolding d(4) ad [symmetric]
      by (rule row_ok_published [OF ok a(2)]) (use d(2) ad in \<open>simp add: no_issue_iff_publishable\<close>)
  qed (simp add: d(4))
qed

lemma house_inv_edit:
  assumes inv: "house_inv s" and st: "updateOwnAuction s s now imgId rnd aid u dto = Inr (s', v)"
    and pos: "\<forall>p. ud_startingPrice dto = Some p \<longrightarrow> 0 < p" "\<forall>p. ud_minBidIncrement dto = Some p \<longrightarrow> 0 < p"
  shows "house_inv s'"
proof -
  obtain e w where e: "find (is_own aid u) (auctions s) = Some e" "assertAuctionIsEditable e = None"
      "count_rows (is_own_as_read aid u e) (auctions s) = 1"
    and t: "auctions s' = map_rows (is_own_as_read aid u e) (apply_edit dto now) (auctions s)"
      "bids s' = bids s" "extensions s' = extensions s"
    and w: "find_auction s' aid = Some w"
      "au_status e = SCHEDULED \<longrightarrow> validateDraftForPublish (auctionPublishGateSelect s' w) now = []"
    by (rule updateOwnAuction_Inr [OF st]) (rule that)
  show ?thesis
  proof (rule house_inv_update [OF inv t])
    fix a bs xs
    assume a: "a \<in> set (auctions s)" "is_own_as_read aid u e a"
      and ok: "row_ok (bids_of s (au_id a)) (extensions_of s (au_id a)) a"
    have "au_id a = aid" using a(2) by (simp add: is_own_as_read_def is_own_def)
    then have ae: "a = e"
      by (intro found_same [OF inv e(1) a(1)]) (simp add: is_own_def)
    have "find_auction s aid = Some a"
      unfolding find_auction_def
      by (rule find_key_eq [where k = au_id]) (use inv a \<open>au_id a = aid\<close> in \<open>auto simp: house_inv_def\<close>)
    then have "w = apply_edit dto now a"
      using w(1) a(2) unfolding find_auction_def t(1)
      by (subst (asm) find_map_rows_key) (auto simp: apply_edit_def)
    moreover have "au_status a = DRAFT \<or> au_status a = SCHEDULED"
      using e(2) ae by (auto simp: assertAuctionIsEditable_def assertSellerMayChange_def SELLER_CHANGEABLE_def
          split: if_splits)
    ultimately show "row_ok (bids_of s (au_id a)) (extensions_of s (au_id a)) (apply_edit dto now a)"
      using row_ok_edited [OF ok _ pos] w(2) ae by (simp add: no_issue_iff_publishable)
  qed (simp add: apply_edit_def)
qed

lemma house_inv_cancel:
  assumes inv: "house_inv s" and st: "cancelInTransaction s s now aid u reason = Inr (s', c)"
  shows "house_inv s'"
proof -
  obtain e where "find (is_own aid u) (auctions s) = Some e"
    and e: "assertAuctionIsCancellable e = None"
      "count_rows (is_own_as_read aid u e) (auctions s) = 1"
    and t: "auctions s' = map_rows (is_own_as_read aid u e) (mark_cancelled now reason) (auctions s)"
      "bids s' = bids s" "extensions s' = extensions s"
    by (rule cancelInTransaction_Inr [OF st]) (rule that)
  show ?thesis
    by (rule house_inv_update [OF inv t])
      (use e in \<open>auto simp: is_own_as_read_def assertAuctionIsCancellable_def
          assertSellerMayChange_def SELLER_CHANGEABLE_def split: if_splits intro!: row_ok_cancelled\<close>)
qed

lemma house_inv_admin_cancel:
  assumes inv: "house_inv s" and st: "adminCancelInTransaction s s now aid adminId note = Inr (s', c)"
  shows "house_inv s'"
proof -
  obtain e where "find (\<lambda>a. au_id a = aid \<and> au_deletedAt a = None) (auctions s) = Some e"
    and e: "au_status e \<in> set CANCELLABLE_BY_ADMIN"
    and t: "auctions s' = map_rows (\<lambda>a. au_id a = aid \<and> au_status a = au_status e \<and> au_deletedAt a = None)
        (mark_cancelled now (Some note)) (auctions s)"
      "bids s' = bids s" "extensions s' = extensions s"
    by (rule adminCancelInTransaction_Inr [OF st]) (rule that)
  show ?thesis
    by (rule house_inv_update [OF inv t])
      (use e in \<open>auto simp: CANCELLABLE_BY_ADMIN_def intro!: row_ok_cancelled\<close>)
qed

lemma house_inv_settle:
  assumes inv: "house_inv s" and st: "settleInTransaction s s now aid = (s', Some o1)"
  shows "house_inv s'"
proof -
  obtain a0 endAt h sold f where a0: "find (is_settleable aid) (auctions s) = Some a0"
      "au_currentEndAt a0 = Some endAt" "endAt \<le> now"
    and h: "h = leading_bid s aid"
      "sold = (case h of None \<Rightarrow> False | Some b \<Rightarrow> calculateReserveMet (bi_amount b) (au_reservePrice a0))"
    and f: "f = (\<lambda>r. r\<lparr>au_status := (if sold then SOLD else UNSOLD), au_endedAt := Some now,
            au_winnerUserId := (if sold then map_option bi_bidderId h else None),
            au_winningBidId := (if sold then map_option bi_id h else None),
            au_soldPrice := (if sold then map_option bi_amount h else None),
            au_rowVersion := au_rowVersion r + 1, au_updatedAt := now\<rparr>)"
      "count_rows (is_settleable aid) (auctions s) = 1"
    and t: "auctions s' = map_rows (is_settleable aid) f (auctions s)"
      "bids s' = bids s" "extensions s' = extensions s"
    by (rule settleInTransaction_Some [OF st]) (rule that)
  show ?thesis
  proof (rule house_inv_update [OF inv t])
    fix a bs xs
    assume a: "a \<in> set (auctions s)" "is_settleable aid a"
      and ok: "row_ok (bids_of s (au_id a)) (extensions_of s (au_id a)) a"
    have aid: "au_id a = aid" using a(2) by (simp add: is_settleable_def)
    then have eq: "a = a0"
      by (intro found_same [OF inv a0(1) a(1)]) (simp add: is_settleable_def)
    have "bids_ok (bids_of s aid) a" using ok aid by (simp add: row_ok_def)
    then have "h = (if bids_of s (au_id a) = [] then None else Some (last (bids_of s (au_id a))))"
      unfolding h(1) aid by (rule bids_ok_leading)
    then show "row_ok (bids_of s (au_id a)) (extensions_of s (au_id a)) (f a)"
      unfolding f(1) by (rule row_ok_settled [OF ok a(2)]) (simp only: h(2) eq)
  qed (simp add: f(1))
qed

lemma bid_checks_Inr:
  "bid_checks a bidderId amount now = Inr endAt \<longleftrightarrow>
     au_status a = ACTIVE \<and> au_currentEndAt a = Some endAt \<and> now < endAt \<and>
     au_sellerId a \<noteq> bidderId \<and> calculateMinimumBid a \<le> amount"
  by (auto simp: bid_checks_def Let_def split: option.splits if_splits)

lemma bid_log_snoc:
  assumes "bid_log_ok bs p u" "bi_sequenceNo b = length bs + 1" "p \<le> bi_amount b" "bi_bidderId b \<noteq> u"
    and "bs \<noteq> [] \<Longrightarrow> bi_amount (last bs) < bi_amount b"
  shows "bid_log_ok (bs @ [b]) p u"
proof -
  have "bi_amount c < bi_amount b" if c: "c \<in> set bs" for c
  proof -
    have "bs \<noteq> []" "bi_amount c \<in> set (map bi_amount bs)"
      using c by auto
    then show ?thesis
      using sorted_wrt_less_last(1) [of "map bi_amount bs" "bi_amount c"] assms(1,5)
      by (simp add: bid_log_ok_def last_map)
  qed
  then show ?thesis
    using assms by (simp add: bid_log_ok_def sorted_wrt_append)
qed

lemma row_ok_minimum:
  assumes "row_ok bs xs a"
  shows "au_startingPrice a \<le> calculateMinimumBid a"
    and "bs \<noteq> [] \<Longrightarrow> bi_amount (last bs) < calculateMinimumBid a"
proof -
  have "bs \<noteq> [] \<Longrightarrow> au_startingPrice a \<le> bi_amount (last bs)"
    using assms by (simp add: row_ok_defs bid_log_ok_def)
  then show "au_startingPrice a \<le> calculateMinimumBid a"
    "bs \<noteq> [] \<Longrightarrow> bi_amount (last bs) < calculateMinimumBid a"
    using assms by (auto simp: row_ok_defs calculateMinimumBid_def price_of_def)
qed

lemma deadline_after_bid:
  assumes "extensions_ok xs n orig (Some endAt)" "ext = calculateAntiSniping endAt n now"
  shows "extensions_ok (xs @ extension_row_of aid bid ext)
     (case ext of NoExtension \<Rightarrow> n | Extension p e k \<Rightarrow> Suc n) orig
     (case ext of NoExtension \<Rightarrow> Some endAt | Extension p e k \<Rightarrow> Some e)"
proof (cases ext)
  case NoExtension
  then show ?thesis using assms(1) by (simp add: extension_row_of_def)
next
  case (Extension p e k)
  then have "n < MAX_EXTENSIONS" "k = Suc n" "e = endAt + ANTI_SNIPING_EXTENSION_MS"
    using assms(2) by (auto simp: calculateAntiSniping_def Let_def split: if_splits)
  then show ?thesis
    using assms(1) Extension
    by (cases orig) (auto simp: extensions_ok_def extension_row_of_def algebra_simps)
qed

lemma row_ok_bid:
  assumes ok: "row_ok bs xs a" and chk: "bid_checks a bidderId amount now = Inr endAt"
    and ext: "ext = calculateAntiSniping endAt (au_extensionCount a) now"
    and b: "bi_sequenceNo b = au_bidCount a + 1" "bi_amount b = amount" "bi_bidderId b = bidderId"
  shows "row_ok (bs @ [b]) (xs @ extension_row_of aid bid ext) (apply_bid now amount ext a)"
proof -
  let ?a = "apply_bid now amount ext a"
  note chk' = chk [unfolded bid_checks_Inr]
  have keep: "au_status ?a = ACTIVE" "au_startingPrice ?a = au_startingPrice a" "au_sellerId ?a = au_sellerId a"
      "au_minBidIncrement ?a = au_minBidIncrement a" "au_bidCount ?a = Suc (au_bidCount a)"
      "au_currentPrice ?a = amount" "au_scheduledStartAt ?a = au_scheduledStartAt a"
      "au_originalEndAt ?a = au_originalEndAt a" "au_reservePrice ?a = au_reservePrice a"
      "au_winnerUserId ?a = au_winnerUserId a" "au_winningBidId ?a = au_winningBidId a"
      "au_soldPrice ?a = au_soldPrice a"
      "au_extensionCount ?a = (case ext of NoExtension \<Rightarrow> au_extensionCount a | Extension p e k \<Rightarrow> Suc (au_extensionCount a))"
      "au_currentEndAt ?a = (case ext of NoExtension \<Rightarrow> Some endAt | Extension p e k \<Rightarrow> Some e)"
    using chk' by (simp_all add: apply_bid_def Let_def split: extension_decision.splits)
  have "bid_log_ok (bs @ [b]) (au_startingPrice a) (au_sellerId a)"
    by (rule bid_log_snoc) (use ok chk' b row_ok_minimum [OF ok] in \<open>auto simp: row_ok_defs\<close>)
  moreover have "extensions_ok (xs @ extension_row_of aid bid ext) (au_extensionCount ?a)
      (au_originalEndAt a) (au_currentEndAt ?a)"
    unfolding keep by (rule deadline_after_bid [OF _ ext]) (use ok chk' in \<open>simp add: row_ok_defs\<close>)
  moreover have "au_bidCount ?a = length (bs @ [b])" "amount = price_of (bs @ [b])"
    using ok b keep by (simp_all add: row_ok_defs price_of_def)
  ultimately show ?thesis
    using ok chk' unfolding row_ok_defs keep by simp
qed

lemma house_inv_bid:
  assumes inv: "house_inv s"
    and st: "placeBidInTransaction report s s now newBidId aid bidderId requestId amount = Inr (s', out)"
  shows "house_inv s'"
  using st
proof (cases rule: placeBid_Inr)
  case (replayed b)
  then show ?thesis using inv by simp
next
  case (accepted a endAt ext b ac)
  have a: "a \<in> set (auctions s)" "au_id a = aid"
    using accepted(2) by (auto dest!: find_SomeD)
  have hit: "r = a" if "r \<in> set (auctions s)" "bid_guard now a r" for r
    by (rule house_inv_same [OF inv that(1) a(1)]) (use that(2) in \<open>simp add: bid_guard_def\<close>)
  obtain g where "g \<in> set (auctions s)" "bid_guard now a g"
    using count_rows_one accepted(5) by fastforce
  then have guard: "bid_guard now a a" using hit by blast
  have xs: "\<forall>x \<in> set (extension_row_of aid newBidId ext). ex_auctionId x = aid"
    by (auto simp: extension_row_of_def split: extension_decision.splits)
  have logs: "bids_of s' i = (if i = aid then bids_of s i @ [b] else bids_of s i)"
      "extensions_of s' i = (if i = aid then extensions_of s i @ extension_row_of aid newBidId ext
         else extensions_of s i)" for i
    using xs by (auto simp: bids_of_def extensions_of_def accepted(6,8,9))
  have row: "row_ok (bids_of s' (au_id r')) (extensions_of s' (au_id r')) r'"
    if mem: "r' \<in> set (auctions s')" for r'
  proof -
    obtain r where r: "r \<in> set (auctions s)"
      "r' = (if bid_guard now a r then apply_bid now amount ext r else r)"
      using mem unfolding accepted(7) set_map_rows by blast
    have ok: "row_ok (bids_of s (au_id r)) (extensions_of s (au_id r)) r"
      by (rule house_invD(3) [OF inv r(1)])
    show ?thesis
    proof (cases "r = a")
      case True
      have "row_ok (bids_of s aid @ [b]) (extensions_of s aid @ extension_row_of aid newBidId ext)
          (apply_bid now amount ext a)"
        by (rule row_ok_bid [OF _ accepted(3,4)]) (use ok True a(2) in \<open>simp_all add: accepted(6)\<close>)
      then show ?thesis using True guard r(2) a(2) by (simp add: logs)
    next
      case False
      have "au_id r \<noteq> aid"
      proof
        assume "au_id r = aid"
        then have "au_id r = au_id a" using a(2) by simp
        then show False using house_inv_same [OF inv r(1) a(1)] False by simp
      qed
      then show ?thesis using False hit r ok by (auto simp: logs)
    qed
  qed
  have ids: "map au_id (auctions s') = map au_id (auctions s)"
    unfolding accepted(7) by (rule map_map_rows_same) simp
  then have idset: "au_id ` set (auctions s') = au_id ` set (auctions s)"
    by (metis list.set_map)
  show ?thesis
    unfolding house_inv_def ids idset
    using inv row a xs accepted(10) by (auto simp: house_inv_def accepted(6,8,9))
qed

lemma house_inv_create:
  assumes inv: "house_inv s" and new: "newId \<notin> au_id ` set (auctions s)"
    and pos: "0 < cd_startingPrice dto" "0 < cd_minBidIncrement dto"
    and st: "createDraft s now newId imgId rnd sellerId dto = Inr (s', v)"
  shows "house_inv s'"
proof -
  obtain a where a: "auctions s' = auctions s @ [a]" "bids s' = bids s" "extensions s' = extensions s"
      "au_id a = newId" "au_status a = DRAFT" "au_bidCount a = 0" "au_currentPrice a = 0"
      "au_extensionCount a = 0" "au_currentEndAt a = au_originalEndAt a"
      "au_startingPrice a = cd_startingPrice dto" "au_minBidIncrement a = cd_minBidIncrement dto"
      "au_winnerUserId a = None" "au_winningBidId a = None" "au_soldPrice a = None"
    using st by (auto simp: createDraft_def Let_def split: option.splits)
  have empty: "bids_of s newId = []" "extensions_of s newId = []"
    using inv new by (auto simp: house_inv_def bids_of_def extensions_of_def filter_empty_conv)
  have same: "bids_of s' = bids_of s" "extensions_of s' = extensions_of s"
    by (simp_all add: fun_eq_iff bids_of_def extensions_of_def a)
  have "row_ok (bids_of s newId) (extensions_of s newId) a"
    unfolding empty row_ok_defs using a pos
    by (simp add: bid_log_ok_def price_of_def extensions_ok_def option.map_ident)
  then show ?thesis
    using inv new a(4) by (auto simp: house_inv_def a(1,2,3) same)
qed

lemma house_step_inv:
  assumes "house_inv s" "house_step s s'"
  shows "house_inv s'"
  using assms(2)
proof cases
  case create
  then show ?thesis using house_inv_create [OF assms(1)] by blast
next
  case (publish now aid sellerId v)
  then show ?thesis using house_inv_publish [OF assms(1)] by blast
next
  case edit
  then show ?thesis using house_inv_edit [OF assms(1)] by blast
next
  case cancel
  then show ?thesis using house_inv_cancel [OF assms(1)] by blast
next
  case admin_cancel
  then show ?thesis using house_inv_admin_cancel [OF assms(1)] by blast
next
  case add_image
  from addDraftImage_Inr [OF this] show ?thesis
    by (rule house_inv_update [OF assms(1)]) (simp_all add: row_ok_bump)
next
  case remove_image
  from removeDraftImage_Inr [OF this] show ?thesis
    by (rule house_inv_update [OF assms(1)]) (simp_all add: row_ok_bump)
next
  case start
  from startAuction_True(1-3) [OF this] show ?thesis
    by (rule house_inv_update [OF assms(1)]) (simp_all add: row_ok_started)
next
  case bid
  then show ?thesis by (rule house_inv_bid [OF assms(1)])
next
  case settle
  then show ?thesis by (rule house_inv_settle [OF assms(1)])
next
  case elsewhere
  then show ?thesis using assms(1) by (simp add: house_inv_def bids_of_def extensions_of_def)
qed

lemma house_step_evolves:
  assumes "house_step s s'"
  shows "evolves_by au_id au_rowVersion (auctions s) (auctions s')"
  using assms
proof cases
  case create
  then show ?thesis
    by (auto simp: createDraft_def Let_def evolves_by_append split: option.splits)
next
  case publish
  then show ?thesis
    by (rule publishDraft_Inr) (simp add: evolves_by_map_rows)
next
  case edit
  from edit(3) show ?thesis
    by (rule updateOwnAuction_Inr) (simp add: evolves_by_map_rows)
next
  case cancel
  then show ?thesis
    by (rule cancelInTransaction_Inr) (simp add: evolves_by_map_rows)
next
  case admin_cancel
  then show ?thesis
    by (rule adminCancelInTransaction_Inr) (simp add: evolves_by_map_rows)
next
  case add_image
  then show ?thesis by (simp add: addDraftImage_Inr(1) evolves_by_map_rows)
next
  case remove_image
  then show ?thesis by (simp add: removeDraftImage_Inr(1) evolves_by_map_rows)
next
  case start
  then show ?thesis by (simp add: startAuction_True(1) evolves_by_map_rows)
next
  case bid
  then show ?thesis
    by (rule placeBid_Inr) (simp_all add: evolves_by_refl evolves_by_map_rows)
next
  case settle
  then show ?thesis
    by (rule settleInTransaction_Some) (simp add: evolves_by_map_rows)
next
  case elsewhere
  then show ?thesis by (simp add: evolves_by_refl)
qed

section \<open>The interfaces, on the model\<close>

definition house_init :: "db \<Rightarrow> bool" where
  "house_init s \<longleftrightarrow> auctions s = [] \<and> bids s = [] \<and> extensions s = []"

interpretation house: invariant_system house_init house_step house_inv
proof unfold_locales
  show "house_init s \<Longrightarrow> house_inv s" for s
    by (simp add: house_init_def house_inv_def)
qed (rule house_step_inv)

interpretation house_table: versioned_table auctions "\<lambda>t s. s\<lparr>auctions := t\<rparr>" au_id au_rowVersion house_step
  by unfold_locales (rule house_step_evolves)

end
