(* ===== verification/Auction_Claims.thy ===== *)
theory Auction_Claims
  imports Auction_House
begin

text \<open>
  What holds of the auction side in every reachable state, and of its operations when they run
  beside others: the life of a row, the price, the deadline, the result of a sale, the acceptance
  of a bid, retries, and the reads that other transactions overtake.
\<close>

section \<open>The life of an auction\<close>

fun next_statuses :: "auction_status \<Rightarrow> auction_status list" where
  "next_statuses DRAFT = [DRAFT, SCHEDULED, ACTIVE, SOLD, UNSOLD, CANCELLED]"
| "next_statuses SCHEDULED = [SCHEDULED, ACTIVE, SOLD, UNSOLD, CANCELLED]"
| "next_statuses ACTIVE = [ACTIVE, SOLD, UNSOLD, CANCELLED]"
| "next_statuses SOLD = [SOLD]"
| "next_statuses UNSOLD = [UNSOLD]"
| "next_statuses CANCELLED = [CANCELLED]"

definition closed :: "auction_row \<Rightarrow> bool" where
  "closed a \<longleftrightarrow> au_status a \<in> {SOLD, UNSOLD, CANCELLED}"

definition later_row :: "auction_row \<Rightarrow> auction_row \<Rightarrow> bool" where
  "later_row a b \<longleftrightarrow> au_id b = au_id a \<and> au_sellerId b = au_sellerId a \<and>
     au_status b \<in> set (next_statuses (au_status a)) \<and> au_bidCount a \<le> au_bidCount b \<and>
     au_deletedAt b = au_deletedAt a \<and> (closed a \<longrightarrow> b = a)"

lemma later_row_refl: "later_row a a"
  by (cases "au_status a") (simp_all add: later_row_def)

lemma later_row_trans: "later_row a b \<Longrightarrow> later_row b c \<Longrightarrow> later_row a c"
  by (cases "au_status a"; cases "au_status b"; simp add: later_row_def closed_def)

definition later_rows :: "auction_row list \<Rightarrow> auction_row list \<Rightarrow> bool" where
  "later_rows t u \<longleftrightarrow> (\<forall>a \<in> set t. \<exists>b \<in> set u. later_row a b)"

lemma later_rows_trans: "later_rows t u \<Longrightarrow> later_rows u w \<Longrightarrow> later_rows t w"
  unfolding later_rows_def by (meson later_row_trans)

lemma later_rows_append: "later_rows t (t @ u)"
  by (auto simp: later_rows_def intro: later_row_refl)

lemma later_rows_map_rows:
  assumes "\<And>a. a \<in> set t \<Longrightarrow> P a \<Longrightarrow> later_row a (f a)"
  shows "later_rows t (map_rows P f t)"
  unfolding later_rows_def set_map_rows by (auto intro: assms later_row_refl)

lemma later_row_bid: "bid_guard now g a \<Longrightarrow> later_row a (apply_bid now amount ext a)"
  by (cases ext) (simp_all add: later_row_def closed_def bid_guard_def apply_bid_def)

lemma later_row_settled:
  "is_settleable aid a \<Longrightarrow> later_row a (a\<lparr>au_status := (if sold then SOLD else UNSOLD), au_endedAt := e,
     au_winnerUserId := w, au_winningBidId := b, au_soldPrice := p, au_rowVersion := n, au_updatedAt := u\<rparr>)"
  by (cases sold) (simp_all add: later_row_def closed_def is_settleable_def)

lemma own_draft_row:
  assumes "house_inv s" "own_draft s aid u = Some d" "a \<in> set (auctions s)" "au_id a = aid"
  shows "a = d" "au_status a = DRAFT"
proof -
  have d: "is_own_draft aid u d"
    using find_SomeD [OF assms(2) [unfolded own_draft_def]] by simp
  then show "a = d"
    using found_same [OF assms(1) assms(2) [unfolded own_draft_def] assms(3)] assms(4)
    by (simp add: is_own_draft_def)
  then show "au_status a = DRAFT"
    using d by (simp add: is_own_draft_def)
qed

lemma house_step_later:
  assumes "house_inv s" "house_step s s'"
  shows "later_rows (auctions s) (auctions s')"
  using assms(2)
proof cases
  case create
  then show ?thesis
    by (auto simp: createDraft_def Let_def later_rows_append split: option.splits)
next
  case publish
  then show ?thesis
    by (rule publishDraft_Inr)
      (auto intro!: later_rows_map_rows simp: later_row_def closed_def is_own_draft_def)
next
  case (edit dto now imgId rnd aid sellerId v)
  from edit(3) show ?thesis
  proof (rule updateOwnAuction_Inr)
    fix e assume e: "assertAuctionIsEditable e = None"
      and t: "auctions s' = map_rows (is_own_as_read aid sellerId e) (apply_edit dto now) (auctions s)"
    have "au_status e = DRAFT \<or> au_status e = SCHEDULED"
      using e by (auto simp: assertAuctionIsEditable_def assertSellerMayChange_def SELLER_CHANGEABLE_def
          split: if_splits)
    then show ?thesis unfolding t
      by (auto intro!: later_rows_map_rows simp: later_row_def closed_def is_own_as_read_def apply_edit_def)
  qed
next
  case (cancel now aid sellerId reason c)
  then show ?thesis
  proof (rule cancelInTransaction_Inr)
    fix e assume e: "assertAuctionIsCancellable e = None"
      and t: "auctions s' = map_rows (is_own_as_read aid sellerId e) (mark_cancelled now reason) (auctions s)"
    have "au_status e = DRAFT \<or> au_status e = SCHEDULED"
      using e by (auto simp: assertAuctionIsCancellable_def assertSellerMayChange_def SELLER_CHANGEABLE_def
          split: if_splits)
    then show ?thesis unfolding t
      by (auto intro!: later_rows_map_rows simp: later_row_def closed_def is_own_as_read_def mark_cancelled_def)
  qed
next
  case admin_cancel
  then show ?thesis
    by (rule adminCancelInTransaction_Inr)
      (auto intro!: later_rows_map_rows simp: later_row_def closed_def CANCELLABLE_BY_ADMIN_def mark_cancelled_def)
next
  case (add_image now newImg aid sellerId upload msgs v)
  then obtain d where "own_draft s aid sellerId = Some d"
    by (auto simp: addDraftImage_def split: option.splits)
  then show ?thesis
    by (auto simp: addDraftImage_Inr(1) [OF add_image] later_row_def closed_def bump_version_def
        dest: own_draft_row(2) [OF assms(1)] intro!: later_rows_map_rows)
next
  case (remove_image now aid sellerId img msgs v)
  then obtain i where "find (\<lambda>i. im_id i = img \<and> im_ownerId i = aid \<and> own_draft s aid sellerId \<noteq> None)
      (auctionImages s) = Some i"
    by (auto simp: removeDraftImage_def split: option.splits)
  then obtain d where "own_draft s aid sellerId = Some d"
    by (auto dest: find_SomeD)
  then show ?thesis
    by (auto simp: removeDraftImage_Inr(1) [OF remove_image] later_row_def closed_def bump_version_def
        dest: own_draft_row(2) [OF assms(1)] intro!: later_rows_map_rows)
next
  case start
  then show ?thesis
    by (auto simp: startAuction_True(1) later_row_def closed_def start_guard_def mark_started_def
        intro!: later_rows_map_rows)
next
  case bid
  then show ?thesis
  proof (cases rule: placeBid_Inr)
    case replayed
    then show ?thesis using later_rows_append [of "auctions s" "[]"] by simp
  next
    case accepted
    show ?thesis unfolding accepted(7) by (rule later_rows_map_rows) (rule later_row_bid)
  qed
next
  case settle
  then show ?thesis
  proof (cases rule: settleInTransaction_Some)
    case (1 a endAt h sold f)
    show ?thesis unfolding 1(8) 1(6) by (rule later_rows_map_rows) (rule later_row_settled)
  qed
next
  case elsewhere
  then show ?thesis using later_rows_append [of "auctions s" "[]"] by simp
qed

lemma house_steps_later:
  assumes "house_step\<^sup>*\<^sup>* s s'" "house_inv s"
  shows "later_rows (auctions s) (auctions s')"
  using assms(1)
proof (induction rule: rtranclp_induct)
  case base
  show ?case using later_rows_append [of "auctions s" "[]"] by simp
next
  case (step y z)
  then show ?case
    using later_rows_trans house_step_later house.steps_inv [OF step(1) assms(2)] by blast
qed

lemma house_steps_row:
  assumes "house_step\<^sup>*\<^sup>* s s'" "house_inv s" "a \<in> set (auctions s)" "b \<in> set (auctions s')" "au_id b = au_id a"
  shows "later_row a b"
proof -
  obtain c where c: "c \<in> set (auctions s')" "later_row a c"
    using house_steps_later [OF assms(1,2)] assms(3) by (auto simp: later_rows_def)
  then have "c = b"
    using house_inv_same [OF house.steps_inv [OF assms(1,2)] c(1) assms(4)] assms(5) by (simp add: later_row_def)
  then show ?thesis using c by simp
qed

lemma house_step_bids_grow: "house_step s s' \<Longrightarrow> \<exists>bs. bids s' = bids s @ bs"
proof (induction rule: house_step.induct)
  case create
  then show ?case by (auto simp: createDraft_def Let_def split: option.splits)
next
  case publish
  then show ?case by (rule publishDraft_Inr) simp
next
  case (edit dto s)
  from edit(3) show ?case by (rule updateOwnAuction_Inr) simp
next
  case cancel
  then show ?case by (rule cancelInTransaction_Inr) simp
next
  case admin_cancel
  then show ?case by (rule adminCancelInTransaction_Inr) simp
next
  case add_image
  then show ?case by (simp add: addDraftImage_Inr(2))
next
  case remove_image
  then show ?case by (simp add: removeDraftImage_Inr(2))
next
  case start
  then show ?case by (simp add: startAuction_True(2))
next
  case bid
  then show ?case by (rule placeBid_Inr) auto
next
  case settle
  then show ?case by (rule settleInTransaction_Some) simp
next
  case elsewhere
  then show ?case by simp
qed

lemma house_steps_bids_kept: "house_step\<^sup>*\<^sup>* s s' \<Longrightarrow> b \<in> set (bids s) \<Longrightarrow> b \<in> set (bids s')"
  by (induction rule: rtranclp_induct) (use house_step_bids_grow in fastforce)+

end
