(* ===== verification/Auction_Demo.thy ===== *)
theory Auction_Demo
  imports Auction_Claims
begin

text \<open>
  A concrete run of the house, from a database with one category and three users: a draft is
  created, published and started at once, two bids are accepted (the second inside the
  anti-sniping window), and the auction is settled. The witnesses of the properties use its states.
\<close>

definition committed :: "db \<Rightarrow> error + (db \<times> 'a) \<Rightarrow> db" where
  "committed s r = (case r of Inl _ \<Rightarrow> s | Inr (s', _) \<Rightarrow> s')"

lemma committedE: "\<not> isl r \<Longrightarrow> (\<And>v. r = Inr (committed s r, v) \<Longrightarrow> P) \<Longrightarrow> P"
  by (cases r) (auto simp: committed_def)

definition demo0 :: db where
  "demo0 = empty_db\<lparr>
     users := [\<lparr>us_id = 10, us_displayName = Some (ascii ''Sela''), us_autoReplyMessage = None\<rparr>,
               \<lparr>us_id = 20, us_displayName = Some (ascii ''Arun''), us_autoReplyMessage = None\<rparr>,
               \<lparr>us_id = 21, us_displayName = Some (ascii ''Boonsri''), us_autoReplyMessage = None\<rparr>],
     categories := [\<lparr>ca_id = 3, ca_name = ascii ''Art'', ca_slug = ascii ''art'', ca_isActive = True,
       ca_parentId = None, ca_description = None, ca_createdByAdminId = None, ca_createdAt = 0,
       ca_updatedAt = 0\<rparr>]\<rparr>"

definition demo_dto :: create_auction_dto where
  "demo_dto = \<lparr>cd_title = ascii ''Vase'', cd_description = ascii ''Old'', cd_categoryId = 3,
     cd_condition = USED, cd_startingPrice = 100, cd_minBidIncrement = 10,
     cd_reservePrice = Some 150, cd_scheduledStartAt = Some 0, cd_scheduledEndAt = Some 1000000,
     cd_imageUrls = Some [ascii ''u'']\<rparr>"

definition demo_report :: "string list \<Rightarrow> unique_target" where
  "demo_report = TargetList"

definition demo1 :: db where
  "demo1 = committed demo0 (createDraft demo0 0 1 (\<lambda>i. 100 + i) (\<lambda>i. 200 + i) 10 demo_dto)"

definition demo2 :: db where
  "demo2 = committed demo1 (publishDraft demo1 demo1 0 1 10)"

definition demo3 :: db where
  "demo3 = committed demo2 (placeBidInTransaction demo_report demo2 demo2 1000 30 1 20 500 100)"

definition demo4 :: db where
  "demo4 = committed demo3 (placeBidInTransaction demo_report demo3 demo3 950000 31 1 21 501 160)"

definition demo5 :: db where
  "demo5 = fst (settleInTransaction demo4 demo4 1120000 1)"

lemma demo_ok:
  "\<not> isl (createDraft demo0 0 1 (\<lambda>i. 100 + i) (\<lambda>i. 200 + i) 10 demo_dto)"
  "\<not> isl (publishDraft demo1 demo1 0 1 10)"
  "\<not> isl (placeBidInTransaction demo_report demo2 demo2 1000 30 1 20 500 100)"
  "\<not> isl (placeBidInTransaction demo_report demo3 demo3 950000 31 1 21 501 160)"
  "snd (settleInTransaction demo4 demo4 1120000 1) \<noteq> None"
  by code_simp+

lemma demo_init: "house_init demo0"
  by code_simp

lemma demo_steps:
  "house_step demo0 demo1" "house_step demo1 demo2" "house_step demo2 demo3"
  "house_step demo3 demo4" "house_step demo4 demo5"
proof -
  show "house_step demo0 demo1"
    by (rule committedE [OF demo_ok(1), of demo0], fold demo1_def, rule house_step.create [rotated -1], assumption)
      (simp_all add: demo0_def empty_db_def demo_dto_def)
  show "house_step demo1 demo2"
    by (rule committedE [OF demo_ok(2), of demo1], fold demo2_def) (rule house_step.publish)
  show "house_step demo2 demo3"
    by (rule committedE [OF demo_ok(3), of demo2], fold demo3_def) (rule house_step.bid)
  show "house_step demo3 demo4"
    by (rule committedE [OF demo_ok(4), of demo3], fold demo4_def) (rule house_step.bid)
  have "settleInTransaction demo4 demo4 1120000 1 = (demo5, snd (settleInTransaction demo4 demo4 1120000 1))"
    by (simp add: demo5_def)
  then show "house_step demo4 demo5"
    using demo_ok(5) house_step.settle by fastforce
qed

lemma demo_reachable:
  "house_step\<^sup>*\<^sup>* demo0 demo2" "house_step\<^sup>*\<^sup>* demo0 demo3" "house_step\<^sup>*\<^sup>* demo0 demo4" "house_step\<^sup>*\<^sup>* demo0 demo5"
  using demo_steps by (meson rtranclp.rtrancl_refl rtranclp.rtrancl_into_rtrancl)+

end
