(* ===== verification/Auction_Properties.thy ===== *)
theory Auction_Properties
  imports Auction_Demo
begin

text \<open>
  The properties of the auction house. Each holds in every state the committed transactions can
  reach from empty auction tables, or says what one operation does on any such state.
\<close>

lemma reachable_row:
  assumes "house_init s0" "house_step\<^sup>*\<^sup>* s0 s" "a \<in> set (auctions s)"
  shows "row_ok (bids_of s (au_id a)) (extensions_of s (au_id a)) a"
  by (rule house_invD(3) [OF house.reachable_inv [OF assms(1,2)] assms(3)])

definition demo_row :: "db \<Rightarrow> auction_row" where
  "demo_row s = hd (auctions s)"

lemma demo_row_in:
  "demo_row demo2 \<in> set (auctions demo2)" "demo_row demo4 \<in> set (auctions demo4)"
  "demo_row demo5 \<in> set (auctions demo5)"
  by code_simp+

text \<open>C1: the price of an auction is its highest bid. Whatever happened, an auction's bids are
  numbered from one without a gap up to its bid count, each is at least the starting price and
  none is its seller's; the leading bid is the last one accepted and its amount is the current
  price, which no other bid exceeds.\<close>

theorem price_is_highest_bid:
  assumes "house_init s0" "house_step\<^sup>*\<^sup>* s0 s" "a \<in> set (auctions s)"
  shows "map bi_sequenceNo (bids_of s (au_id a)) = [1..<Suc (au_bidCount a)] \<and>
     (\<forall>b \<in> set (bids_of s (au_id a)). au_startingPrice a \<le> bi_amount b \<and>
        bi_amount b \<le> au_currentPrice a \<and> bi_bidderId b \<noteq> au_sellerId a) \<and>
     leading_bid s (au_id a) = (if au_bidCount a = 0 then None else Some (last (bids_of s (au_id a)))) \<and>
     (\<forall>l. leading_bid s (au_id a) = Some l \<longrightarrow> bi_amount l = au_currentPrice a)"
proof -
  let ?bs = "bids_of s (au_id a)"
  have ok: "bids_ok ?bs a"
    using reachable_row [OF assms] by (simp add: row_ok_def)
  then have log: "bid_log_ok ?bs (au_startingPrice a) (au_sellerId a)" "au_bidCount a = length ?bs"
      "au_currentPrice a = price_of ?bs"
    by (simp_all add: bids_ok_def)
  have lead: "leading_bid s (au_id a) = (if au_bidCount a = 0 then None else Some (last ?bs))"
    using bids_ok_leading [OF ok] log(2) by simp
  have "bi_amount b \<le> au_currentPrice a" if "b \<in> set ?bs" for b
    using sorted_wrt_less_last(1) [of "map bi_amount ?bs" "bi_amount b"] that log
    by (cases "?bs = []") (auto simp: bid_log_ok_def price_of_def last_map)
  then show ?thesis
    using log lead by (auto simp: bid_log_ok_def price_of_def)
qed

theorem price_is_highest_bid_witness:
  "map bi_sequenceNo (bids_of demo4 (au_id (demo_row demo4))) = [1..<3] \<and> au_currentPrice (demo_row demo4) = 160"
proof -
  have "au_bidCount (demo_row demo4) = 2" "au_currentPrice (demo_row demo4) = 160"
    by code_simp+
  then show ?thesis
    using price_is_highest_bid [OF demo_init demo_reachable(3) demo_row_in(2)] by simp
qed

text \<open>C5: the soft close is bounded. The deadline of an auction is its scheduled end plus two
  minutes for every recorded extension, the extensions are numbered from one without a gap, and
  there are at most five, so bidding never runs more than ten minutes over.\<close>

theorem deadline_is_bounded:
  assumes "house_init s0" "house_step\<^sup>*\<^sup>* s0 s" "a \<in> set (auctions s)"
  shows "map ex_extensionNumber (extensions_of s (au_id a)) = [1..<Suc (au_extensionCount a)] \<and>
     au_extensionCount a \<le> MAX_EXTENSIONS \<and>
     au_currentEndAt a
       = map_option (\<lambda>t. t + int (au_extensionCount a) * ANTI_SNIPING_EXTENSION_MS) (au_originalEndAt a) \<and>
     (\<forall>t u. au_originalEndAt a = Some t \<and> au_currentEndAt a = Some u \<longrightarrow> t \<le> u \<and> u \<le> t + 600000)"
  using reachable_row [OF assms]
  by (auto simp: row_ok_defs extensions_ok_def MAX_EXTENSIONS_def ANTI_SNIPING_EXTENSION_MS_def)

theorem deadline_is_bounded_witness:
  "au_extensionCount (demo_row demo4) = 1 \<and> au_currentEndAt (demo_row demo4) = Some 1120000"
proof -
  have "au_extensionCount (demo_row demo4) = 1" "au_originalEndAt (demo_row demo4) = Some 1000000"
    by code_simp+
  then show ?thesis
    using deadline_is_bounded [OF demo_init demo_reachable(3) demo_row_in(2)]
    by (simp add: ANTI_SNIPING_EXTENSION_MS_def)
qed



section \<open>Bids\<close>

definition live_auction :: "db \<Rightarrow> uuid \<Rightarrow> auction_row option" where
  "live_auction s aid = find (\<lambda>a. au_id a = aid \<and> au_deletedAt a = None) (auctions s)"

lemma live_auction_SomeD:
  "live_auction s aid = Some a \<Longrightarrow> a \<in> set (auctions s) \<and> au_id a = aid \<and> au_deletedAt a = None"
  by (auto simp: live_auction_def dest: find_SomeD)

lemma live_auction_eq:
  "house_inv s \<Longrightarrow> a \<in> set (auctions s) \<Longrightarrow> au_deletedAt a = None \<Longrightarrow> live_auction s (au_id a) = Some a"
  unfolding live_auction_def by (rule find_key_eq [OF house_invD(1)]) auto

lemma bid_guard_of_checks:
  "bid_checks a bidder amount now = Inr endAt \<Longrightarrow> au_deletedAt a = None \<Longrightarrow> bid_guard now a a"
  by (simp add: bid_checks_Inr bid_guard_def)

lemma bid_guard_hits_once:
  assumes "house_inv s" "a \<in> set (auctions s)" "bid_guard now a a"
  shows "count_rows (bid_guard now a) (auctions s) = 1"
proof -
  have "fst (update_many (bid_guard now a) id (auctions s)) = 1"
    using assms by (subst auction_table.guarded_write_hits [where c = "au_id a"])
      (auto simp: house_inv_def bid_guard_def)
  then show ?thesis by simp
qed

lemma bid_goes_through:
  assumes inv: "house_inv s" and new: "find_request s requestId = None"
    and a: "live_auction s aid = Some a" and chk: "bid_checks a bidderId amount now = Inr endAt"
  obtains s' ac where
    "placeBidInTransaction report s s now newBidId aid bidderId requestId amount = Inr (s', Accepted ac)"
proof -
  let ?ext = "calculateAntiSniping endAt (au_extensionCount a) now"
  note mem = live_auction_SomeD [OF a]
  have one: "count_rows (bid_guard now a) (auctions s) = 1"
    by (rule bid_guard_hits_once [OF inv _ bid_guard_of_checks [OF chk]]) (use mem in auto)
  have req: "\<not> list_ex (\<lambda>b. bi_clientRequestId b = requestId) (bids s)"
    using new by (auto simp: find_request_def find_None_iff list_ex_iff)
  have log: "map bi_sequenceNo (bids_of s aid) = [1..<Suc (au_bidCount a)]"
    using house_invD(3) [OF inv, of a] mem by (simp add: row_ok_defs bid_log_ok_def)
  have "bi_sequenceNo b \<noteq> au_bidCount a + 1" if "b \<in> set (bids s)" "bi_auctionId b = aid" for b
  proof -
    have "bi_sequenceNo b \<in> set (map bi_sequenceNo (bids_of s aid))"
      using that by (auto simp: bids_of_def)
    then show ?thesis unfolding log by auto
  qed
  then have seq: "\<not> list_ex (\<lambda>b. bi_auctionId b = aid \<and> bi_sequenceNo b = au_bidCount a + 1) (bids s)"
    by (auto simp: list_ex_iff)
  have "find_auction s aid \<noteq> None"
    using mem by (auto simp: find_auction_def find_None_iff)
  then obtain u where u: "find (\<lambda>a. au_id a = aid) (map_rows (bid_guard now a) (apply_bid now amount ?ext) (auctions s)) = Some u"
    by (auto simp: find_auction_def find_map_rows_key)
  show thesis
    using a chk one req seq mem u new
    by (intro that) (simp add: placeBidInTransaction_def live_auction_def update_many_def record_bid_def
        find_auction_def Let_def)
qed

text \<open>C3: a bid is accepted exactly when the rules allow it. In any reachable state a fresh
  request is accepted if and only if the auction is live, ACTIVE and before its deadline, the
  bidder is not the seller, and the amount is at least the minimum (the starting price, or the
  price plus the increment once there are bids); no unique index can then refuse the row.\<close>

theorem bid_accepted_iff:
  assumes "house_init s0" "house_step\<^sup>*\<^sup>* s0 s" "find_request s requestId = None"
  shows "(\<exists>s' ac. placeBidInTransaction report s s now newBidId aid bidderId requestId amount
            = Inr (s', Accepted ac)) \<longleftrightarrow>
     (\<exists>a endAt. live_auction s aid = Some a \<and> au_status a = ACTIVE \<and> au_currentEndAt a = Some endAt \<and>
        now < endAt \<and> au_sellerId a \<noteq> bidderId \<and>
        (if au_bidCount a = 0 then au_startingPrice a \<le> amount
         else au_currentPrice a + au_minBidIncrement a \<le> amount))"
    (is "?acc \<longleftrightarrow> ?ok")
proof
  assume ?acc
  then obtain s' ac where
    "placeBidInTransaction report s s now newBidId aid bidderId requestId amount = Inr (s', Accepted ac)"
    by blast
  then show ?ok
    by (cases rule: placeBid_Inr)
      (auto simp: live_auction_def bid_checks_Inr calculateMinimumBid_def split: if_splits)
next
  assume ?ok
  then obtain a endAt where a: "live_auction s aid = Some a" "bid_checks a bidderId amount now = Inr endAt"
    unfolding bid_checks_Inr calculateMinimumBid_def if_distrib [of "\<lambda>x. x \<le> amount"] by blast
  show ?acc
    by (rule bid_goes_through [OF house.reachable_inv [OF assms(1,2)] assms(3) a]) blast
qed

theorem bid_accepted_iff_witness:
  "(\<exists>s' ac. placeBidInTransaction demo_report demo3 demo3 950000 31 1 21 501 110 = Inr (s', Accepted ac)) \<and>
   \<not> (\<exists>s' ac. placeBidInTransaction demo_report demo3 demo3 950000 31 1 21 501 109 = Inr (s', Accepted ac))"
proof -
  have new: "find_request demo3 501 = None"
    and row: "map_option (\<lambda>a. (au_status a, au_currentEndAt a, au_sellerId a, au_bidCount a, au_currentPrice a,
        au_minBidIncrement a)) (live_auction demo3 1) = Some (ACTIVE, Some 1000000, 10, 1, 100, 10)"
    by code_simp+
  show ?thesis
    unfolding bid_accepted_iff [OF demo_init demo_reachable(2) new] using row by auto
qed

text \<open>C4: bidding is serialisable. The transaction checks the auction it read and writes only if
  the row's version is still the one it read; whatever other transactions committed in between,
  an accepted bid is the bid the transaction would have made running alone on the state it
  wrote, with the same result and the same announcements.\<close>

theorem bid_serialises:
  assumes "house_init s0" "house_step\<^sup>*\<^sup>* s0 rd" "house_step\<^sup>*\<^sup>* rd wr"
    and "placeBidInTransaction report rd wr now newBidId aid bidderId requestId amount = Inr (s', Accepted ac)"
  shows "placeBidInTransaction report wr wr now newBidId aid bidderId requestId amount = Inr (s', Accepted ac)"
  using assms(4)
proof (cases rule: placeBid_Inr)
  case (accepted a endAt ext b ac')
  have inv: "house_inv rd" "house_inv wr"
    using house.reachable_inv [OF assms(1)] assms(2,3) by (auto intro: house.steps_inv)
  have a: "live_auction rd aid = Some a" using accepted(2) by (simp add: live_auction_def)
  obtain r where r: "r \<in> set (auctions wr)" "bid_guard now a r"
    using count_rows_one accepted(5) by fastforce
  have "r = a"
    by (rule house_table.same_version_same_row [OF assms(3) house_invD(1) [OF inv(2)] _ r(1)])
      (use live_auction_SomeD [OF a] r(2) in \<open>auto simp: bid_guard_def\<close>)
  then have wr: "live_auction wr aid = Some a"
    using live_auction_eq [OF inv(2) r(1)] live_auction_SomeD [OF a] by simp
  have new: "find_request wr requestId = None"
    using accepted(10) by (auto simp: find_request_def find_None_iff)
  show ?thesis
    using assms(4) a wr new accepted(1)
    by (simp add: placeBidInTransaction_def live_auction_def)
qed simp

definition was_accepted :: "error + (db \<times> bid_outcome) \<Rightarrow> bool" where
  "was_accepted r = (case r of Inr (s', Accepted ac) \<Rightarrow> True | _ \<Rightarrow> False)"

lemma was_acceptedE: "was_accepted r \<Longrightarrow> (\<And>s' ac. r = Inr (s', Accepted ac) \<Longrightarrow> P) \<Longrightarrow> P"
  by (auto simp: was_accepted_def split: sum.split_asm prod.split_asm bid_outcome.split_asm)

definition demo3_watched :: db where
  "demo3_watched = demo3\<lparr>watchlists := [\<lparr>wa_userId = 20, wa_targetId = 1, wa_createdAt = 900\<rparr>]\<rparr>"

lemma demo3_watched_reached: "house_step\<^sup>*\<^sup>* demo3 demo3_watched"
  by (rule r_into_rtranclp, rule house_step.elsewhere) (simp_all add: demo3_watched_def)

theorem bid_serialises_witness:
  "placeBidInTransaction demo_report demo3_watched demo3_watched 950000 31 1 21 501 160
     = placeBidInTransaction demo_report demo3 demo3_watched 950000 31 1 21 501 160"
proof (rule was_acceptedE)
  show "was_accepted (placeBidInTransaction demo_report demo3 demo3_watched 950000 31 1 21 501 160)"
    by code_simp
next
  fix s' ac
  assume p: "placeBidInTransaction demo_report demo3 demo3_watched 950000 31 1 21 501 160 = Inr (s', Accepted ac)"
  show ?thesis
    unfolding p by (rule bid_serialises [OF demo_init demo_reachable(2) demo3_watched_reached p])
qed

lemma placeBid_outbid:
  assumes "placeBidInTransaction report s s now newBidId aid bidderId requestId amount = Inr (s', Accepted ac)"
    and "live_auction s aid = Some a"
  shows "ac_outbid ac = (case leading_bid s aid of None \<Rightarrow> None
      | Some l \<Rightarrow> if bi_bidderId l \<noteq> bidderId
                  then Some (outbidNotification a (bi_bidderId l) newBidId amount) else None)"
    and "notifications s' = notifications s @ (case ac_outbid ac of None \<Rightarrow> [] | Some n \<Rightarrow> [n])"
proof -
  have id: "au_id a = aid" using live_auction_SomeD [OF assms(2)] by simp
  obtain endAt where chk: "bid_checks a bidderId amount now = Inr endAt" and new: "find_request s requestId = None"
    using assms(1) by (cases rule: placeBid_Inr) (use assms(2) in \<open>auto simp: live_auction_def\<close>)
  have lead: "leading_bid (s\<lparr>auctions := t\<rparr>) aid = leading_bid s aid" for t
    by (simp add: leading_bid_def)
  let ?ext = "calculateAntiSniping endAt (au_extensionCount a) now"
  have "\<exists>t. record_bid report (s\<lparr>auctions := t\<rparr>) now newBidId a bidderId requestId amount ?ext = Inr (s', Accepted ac)"
    using assms new chk
    by (auto simp: placeBidInTransaction_def live_auction_def Let_def update_many_def split: if_splits)
  then obtain t where "record_bid report (s\<lparr>auctions := t\<rparr>) now newBidId a bidderId requestId amount ?ext = Inr (s', Accepted ac)" ..
  then show "ac_outbid ac = (case leading_bid s aid of None \<Rightarrow> None
      | Some l \<Rightarrow> if bi_bidderId l \<noteq> bidderId
                  then Some (outbidNotification a (bi_bidderId l) newBidId amount) else None)"
    and "notifications s' = notifications s @ (case ac_outbid ac of None \<Rightarrow> [] | Some n \<Rightarrow> [n])"
    unfolding record_bid_def Let_def id lead by (auto split: if_split_asm option.split_asm)
qed

lemma live_auction_map_rows:
  assumes "\<And>r. au_id (f r) = au_id r" "\<And>r. au_deletedAt (f r) = au_deletedAt r"
  shows "live_auction (s\<lparr>auctions := map_rows P f (auctions s)\<rparr>) aid
       = map_option (\<lambda>r. if P r then f r else r) (live_auction s aid)"
proof -
  have "find (\<lambda>a. au_id a = aid \<and> au_deletedAt a = None) (map_rows P f t)
      = map_option (\<lambda>r. if P r then f r else r) (find (\<lambda>a. au_id a = aid \<and> au_deletedAt a = None) t)" for t
    by (induction t) (auto simp: map_rows_def assms)
  then show ?thesis by (simp add: live_auction_def)
qed

lemma apply_bid_deletedAt [simp]: "au_deletedAt (apply_bid now amount ext a) = au_deletedAt a"
  by (cases ext) (simp_all add: apply_bid_def)

text \<open>What an accepted bid does. The bid becomes the leading bid and its amount the price;
  the bid count grows by one; the deadline moves by two minutes exactly when the bid came within
  two minutes of it and fewer than five extensions were used; the previous leader, when it is
  somebody else, is the one user notified; and every other auction is left as it was.\<close>

theorem accepted_bid_effect:
  assumes "house_init s0" "house_step\<^sup>*\<^sup>* s0 s" "live_auction s aid = Some a" "au_currentEndAt a = Some endAt"
    and "placeBidInTransaction report s s now newBidId aid bidderId requestId amount = Inr (s', Accepted ac)"
  shows "(\<exists>b. leading_bid s' aid = Some b \<and> bi_id b = newBidId \<and> bi_bidderId b = bidderId \<and>
       bi_amount b = amount \<and> bids s' = bids s @ [b]) \<and>
     (\<exists>a'. live_auction s' aid = Some a' \<and> au_currentPrice a' = amount \<and> au_bidCount a' = au_bidCount a + 1 \<and>
       au_status a' = ACTIVE \<and>
       au_currentEndAt a' = Some (if endAt \<le> now + 120000 \<and> au_extensionCount a < 5 then endAt + 120000 else endAt)) \<and>
     notifications s' = notifications s @ (case leading_bid s aid of None \<Rightarrow> []
       | Some l \<Rightarrow> if bi_bidderId l = bidderId then []
                   else [outbidNotification a (bi_bidderId l) newBidId amount]) \<and>
     (\<forall>c \<in> set (auctions s). au_id c \<noteq> aid \<longrightarrow> c \<in> set (auctions s'))"
  using assms(5)
proof (cases rule: placeBid_Inr)
  case (accepted a1 e1 ext b ac1)
  have inv: "house_inv s" "house_inv s'"
    using house.reachable_inv [OF assms(1,2)] house_inv_bid [OF _ assms(5)] by auto
  note mem = live_auction_SomeD [OF assms(3)]
  have a1: "a1 = a" "e1 = endAt"
    using accepted(2,3) assms(3,4) by (auto simp: live_auction_def bid_checks_Inr)
  have chk: "bid_checks a bidderId amount now = Inr endAt"
    using accepted(3) a1 by simp
  have b: "bids_of s' aid = bids_of s aid @ [b]"
    by (simp add: bids_of_def accepted(6,8))
  have s': "live_auction s' aid = Some (apply_bid now amount ext a)"
  proof -
    have "live_auction s' aid = live_auction (s\<lparr>auctions := map_rows (bid_guard now a) (apply_bid now amount ext) (auctions s)\<rparr>) aid"
      by (simp add: live_auction_def accepted(7) a1)
    then show ?thesis
      using assms(3) mem bid_guard_of_checks [OF chk] by (simp add: live_auction_map_rows)
  qed
  have "bids_ok (bids_of s' aid) (apply_bid now amount ext a)"
    using house_invD(3) [OF inv(2), of "apply_bid now amount ext a"] live_auction_SomeD [OF s'] mem
    by (simp add: row_ok_def)
  then have "leading_bid s' aid = Some b"
    using bids_ok_leading b by fastforce
  moreover have "\<exists>a'. live_auction s' aid = Some a' \<and> au_currentPrice a' = amount \<and>
      au_bidCount a' = au_bidCount a + 1 \<and> au_status a' = ACTIVE \<and>
      au_currentEndAt a' = Some (if endAt \<le> now + 120000 \<and> au_extensionCount a < 5 then endAt + 120000 else endAt)"
    using chk assms(4) unfolding s' accepted(4) a1 bid_checks_Inr
    by (auto simp: apply_bid_def Let_def calculateAntiSniping_def MAX_EXTENSIONS_def
        ANTI_SNIPING_WINDOW_MS_def ANTI_SNIPING_EXTENSION_MS_def)
  moreover have "c \<in> set (auctions s')" if "c \<in> set (auctions s)" "au_id c \<noteq> aid" for c
    using that mem by (auto simp: accepted(7) set_map_rows bid_guard_def a1 image_iff intro!: bexI [of _ c])
  moreover have "notifications s' = notifications s @ (case leading_bid s aid of None \<Rightarrow> []
       | Some l \<Rightarrow> if bi_bidderId l = bidderId then []
                   else [outbidNotification a (bi_bidderId l) newBidId amount])"
    using placeBid_outbid [OF assms(5,3)] by (auto split: option.splits)
  ultimately show ?thesis
    using accepted(6,8) by auto
qed simp

theorem accepted_bid_effect_witness:
  "map no_userId (notifications demo4) = [20] \<and> map_option bi_bidderId (leading_bid demo4 1) = Some 21"
proof -
  have "map_option au_currentEndAt (live_auction demo3 1) = Some (Some 1000000)"
    and n: "notifications demo3 = []" "map_option bi_bidderId (leading_bid demo3 1) = Some 20"
    by code_simp+
  then obtain a where a: "live_auction demo3 1 = Some a" "au_currentEndAt a = Some 1000000" by auto
  obtain s' ac where p: "placeBidInTransaction demo_report demo3 demo3 950000 31 1 21 501 160 = Inr (s', Accepted ac)"
    by (rule was_acceptedE [of "placeBidInTransaction demo_report demo3 demo3 950000 31 1 21 501 160"]) (code_simp, blast)
  then have "s' = demo4" by (simp add: demo4_def committed_def)
  then show ?thesis
    using accepted_bid_effect [OF demo_init demo_reachable(2) a p] n
    by (auto simp: outbidNotification_def split: option.splits)
qed

section \<open>Retries\<close>

lemma replayOrRefuse_Inr:
  "replayOrRefuse b aid amount = Inr ob \<longleftrightarrow> bi_auctionId b = aid \<and> bi_amount b = amount \<and> ob = toOwnBid b"
  by (auto simp: replayOrRefuse_def)

lemma find_request_SomeD:
  "find_request s r = Some b \<Longrightarrow> b \<in> set (bids s) \<and> bi_clientRequestId b = r"
  by (auto simp: find_request_def dest: find_SomeD)

lemma find_request_eq:
  assumes "house_inv s" "b \<in> set (bids s)"
  shows "find_request s (bi_clientRequestId b) = Some b"
  unfolding find_request_def
  by (rule find_key_eq [OF house_invD(2) [OF assms(1)] assms(2)]) auto

lemma placeBid_success:
  assumes "placeBid report s s now newBidId aid bidderId requestId amount = (s1, msgs, Inr ob)"
  obtains b where "b \<in> set (bids s1)" "bi_clientRequestId b = requestId" "bi_auctionId b = aid"
      "bi_amount b = amount" "ob = toOwnBid b" "house_step\<^sup>*\<^sup>* s s1"
proof (cases "placeBidInTransaction report s s now newBidId aid bidderId requestId amount")
  case (Inl e)
  then have r: "s1 = s" "replayExistingBid s requestId aid amount = Inr ob"
    using assms by (auto simp: placeBid_def split: if_splits)
  then obtain b where "find_request s requestId = Some b" "replayOrRefuse b aid amount = Inr ob"
    by (auto simp: replayExistingBid_def split: option.splits)
  then show thesis using that r(1) by (auto simp: replayOrRefuse_Inr dest: find_request_SomeD)
next
  case (Inr p)
  then obtain s' out where p: "placeBidInTransaction report s s now newBidId aid bidderId requestId amount = Inr (s', out)"
    by (cases p) auto
  then have step: "house_step\<^sup>*\<^sup>* s s'" by (blast intro: house_step.bid)
  from p show thesis
  proof (cases rule: placeBid_Inr)
    case (replayed b)
    then show thesis
      using that [of b] step assms p by (auto simp: placeBid_def dest: find_request_SomeD)
  next
    case (accepted a endAt ext b ac)
    then show thesis
      using that [of b] step assms p by (auto simp: placeBid_def)
  qed
qed

text \<open>C8: retrying a bid is safe. Once a bid has been answered, sending the same request again at
  any later time and from any later state, whatever happened since (outbid, settled, cancelled),
  answers the same bid, changes nothing and announces nothing.\<close>

theorem retry_is_idempotent:
  assumes "house_init s0" "house_step\<^sup>*\<^sup>* s0 s"
    and "placeBid report s s now newBidId aid bidderId requestId amount = (s1, msgs, Inr ob)"
    and "house_step\<^sup>*\<^sup>* s1 s2"
  shows "placeBid report s2 s2 now' newBidId' aid bidderId requestId amount = (s2, [], Inr ob)"
proof -
  obtain b where b: "b \<in> set (bids s1)" "bi_clientRequestId b = requestId" "bi_auctionId b = aid"
      "bi_amount b = amount" "ob = toOwnBid b" "house_step\<^sup>*\<^sup>* s s1"
    by (rule placeBid_success [OF assms(3)]) (rule that)
  have "house_inv s2"
    using house.reachable_inv [OF assms(1,2)] house.steps_inv b(6) assms(4) by blast
  then have "find_request s2 requestId = Some b"
    using find_request_eq [of s2 b] house_steps_bids_kept [OF assms(4) b(1)] b(2) by simp
  then show ?thesis
    using b by (simp add: placeBid_def placeBidInTransaction_def replayOrRefuse_def)
qed

definition answered_bid :: "db \<times> message list \<times> (error + own_bid) \<Rightarrow> own_bid option" where
  "answered_bid r = (case r of (_, _, Inr ob) \<Rightarrow> Some ob | _ \<Rightarrow> None)"

lemma answered_bidE:
  "fst r = s \<Longrightarrow> answered_bid r \<noteq> None \<Longrightarrow> (\<And>msgs ob. r = (s, msgs, Inr ob) \<Longrightarrow> P) \<Longrightarrow> P"
  by (auto simp: answered_bid_def split: prod.split_asm sum.split_asm)

theorem retry_is_idempotent_witness:
  "fst (placeBid demo_report demo5 demo5 2000000 99 1 20 500 100) = demo5 \<and>
   answered_bid (placeBid demo_report demo5 demo5 2000000 99 1 20 500 100)
     = answered_bid (placeBid demo_report demo2 demo2 1000 30 1 20 500 100)"
proof (rule answered_bidE)
  show "fst (placeBid demo_report demo2 demo2 1000 30 1 20 500 100) = demo3"
    "answered_bid (placeBid demo_report demo2 demo2 1000 30 1 20 500 100) \<noteq> None"
    by code_simp+
next
  fix msgs ob
  assume p: "placeBid demo_report demo2 demo2 1000 30 1 20 500 100 = (demo3, msgs, Inr ob)"
  have later: "house_step\<^sup>*\<^sup>* demo3 demo5"
    using demo_steps(4,5) by (meson rtranclp.rtrancl_refl rtranclp.rtrancl_into_rtrancl)
  show ?thesis
    unfolding p retry_is_idempotent [OF demo_init demo_reachable(1) p later] by (simp add: answered_bid_def)
qed

section \<open>The end of an auction\<close>



lemma no_settleable:
  assumes "house_inv s" "a \<in> set (auctions s)" "au_id a = aid" "au_status a \<noteq> ACTIVE"
  shows "count_rows (is_settleable aid) (auctions s) = 0"
proof -
  have "\<not> is_settleable aid b" if "b \<in> set (auctions s)" for b
    using house_inv_same [OF assms(1) that assms(2)] assms(3,4) by (auto simp: is_settleable_def)
  then show ?thesis by (simp add: count_rows_pos_iff)
qed

text \<open>C7: an auction is settled at most once. After a settlement has committed, any later
  settlement of the same auction, however stale its reads (from before the first settlement or
  from any other state), writes nothing and announces nothing.\<close>

theorem settled_at_most_once:
  assumes "house_init s0" "house_step\<^sup>*\<^sup>* s0 s"
    and "settleInTransaction s s now aid = (s1, Some st)" "house_step\<^sup>*\<^sup>* s1 s2"
  shows "settleAuction rd s2 now' aid = (s2, [], None)"
proof -
  have inv: "house_inv s" "house_inv s1" "house_inv s2"
    using house.reachable_inv [OF assms(1,2)] house_inv_settle [OF _ assms(3)]
      house.steps_inv [OF assms(4)] by auto
  from assms(3) obtain a where a: "a \<in> set (auctions s1)" "au_id a = aid" "closed a"
  proof (cases rule: settleInTransaction_Some)
    case (1 a endAt h sold f)
    obtain r where r: "r \<in> set (auctions s)" "is_settleable aid r"
      using count_rows_one 1(7) by fastforce
    have "f r \<in> set (auctions s1)" using r by (auto simp: 1(8) set_map_rows)
    then show thesis
      by (rule that) (use r(2) in \<open>simp_all add: 1(6) closed_def is_settleable_def\<close>)
  qed
  then obtain b where b: "b \<in> set (auctions s2)" "later_row a b"
    using house_steps_later [OF assms(4) inv(2)] by (auto simp: later_rows_def)
  then have "b = a" using a(3) by (simp add: later_row_def)
  then have none: "count_rows (is_settleable aid) (auctions s2) = 0"
    using no_settleable [OF inv(3) b(1)] a by (auto simp: closed_def)
  have "settleInTransaction rd s2 now' aid = (s2, None)"
    unfolding settleInTransaction_def Let_def update_many_def none
    by (auto split: option.splits)
  then show ?thesis by (simp add: settleAuction_def)
qed

theorem settled_at_most_once_witness:
  "settleAuction demo4 demo5 1130000 1 = (demo5, [], None)"
proof -
  obtain st where "settleInTransaction demo4 demo4 1120000 1 = (demo5, Some st)"
    using demo_ok(5) unfolding demo5_def by (metis not_None_eq prod.collapse)
  then show ?thesis
    by (rule settled_at_most_once [OF demo_init demo_reachable(3) _ rtranclp.rtrancl_refl])
qed

section \<open>Publication and cancellation\<close>



lemma is_own_unique:
  assumes "house_inv s" "r \<in> set (auctions s)" "is_own aid u r"
  shows "find (is_own aid u) (auctions s) = Some r"
  using find_key_eq [OF house_invD(1) [OF assms(1)] assms(2), of "is_own aid u"] assms(3)
  by (auto simp: is_own_def)

text \<open>the seller's cancellation is serialisable although its guard compares the status and the
  bid count and not the version: a cancellation that commits is the one that would have run alone
  on the state it wrote, with the same result and the same announcements.\<close>

theorem cancellation_serialises:
  assumes "house_init s0" "house_step\<^sup>*\<^sup>* s0 rd" "house_step\<^sup>*\<^sup>* rd wr"
    and "cancelOwnAuction rd wr now aid sellerId reason = (s', msgs, Inr v)"
  shows "cancelOwnAuction wr wr now aid sellerId reason = (s', msgs, Inr v)"
proof -
  obtain c where c: "cancelInTransaction rd wr now aid sellerId reason = Inr (s', c)"
    using assms(4) by (auto simp: cancelOwnAuction_def split: sum.splits prod.splits)
  have inv: "house_inv wr"
    using house.steps_inv [OF assms(3) house.reachable_inv [OF assms(1,2)]] .
  obtain e where e: "find (is_own aid sellerId) (auctions rd) = Some e" "assertAuctionIsCancellable e = None"
      "count_rows (is_own_as_read aid sellerId e) (auctions wr) = 1"
    by (rule cancelInTransaction_Inr [OF c]) (rule that)
  obtain r where r: "r \<in> set (auctions wr)" "is_own_as_read aid sellerId e r"
    using count_rows_one e(3) by fastforce
  have same: "is_own_as_read aid sellerId r = is_own_as_read aid sellerId e"
      "assertAuctionIsCancellable r = None"
    using r(2) e(2) by (auto simp: fun_eq_iff is_own_as_read_def assertAuctionIsCancellable_def)
  have "find (is_own aid sellerId) (auctions wr) = Some r"
    using is_own_unique [OF inv r(1)] r(2) by (simp add: is_own_as_read_def)
  then have "cancelInTransaction wr wr now aid sellerId reason = Inr (s', c)"
    using c e by (simp add: cancelInTransaction_def same)
  then show ?thesis
    using assms(4) c by (simp add: cancelOwnAuction_def)
qed

definition demo_scheduled :: db where
  "demo_scheduled = committed demo1 (publishDraft demo1 demo1 (-5) 1 10)"

lemma demo_scheduled_reached: "house_step\<^sup>*\<^sup>* demo0 demo_scheduled"
proof -
  have "\<not> isl (publishDraft demo1 demo1 (-5) 1 10)" by code_simp
  then have "house_step demo1 demo_scheduled"
    by (rule committedE [of _ demo1], fold demo_scheduled_def) (rule house_step.publish)
  then show ?thesis using demo_steps(1) by (meson rtranclp.rtrancl_refl rtranclp.rtrancl_into_rtrancl)
qed

definition demo_watched :: db where
  "demo_watched = demo_scheduled\<lparr>watchlists := [\<lparr>wa_userId = 20, wa_targetId = 1, wa_createdAt = -4\<rparr>]\<rparr>"

theorem cancellation_serialises_witness:
  "\<exists>s' msgs v. cancelOwnAuction demo_watched demo_watched (-3) 1 10 None = (s', msgs, Inr v) \<and> length msgs = 2"
proof -
  have step: "house_step\<^sup>*\<^sup>* demo_scheduled demo_watched"
    by (rule r_into_rtranclp, rule house_step.elsewhere) (simp_all add: demo_watched_def)
  let ?r = "cancelOwnAuction demo_scheduled demo_watched (-3) 1 10 None"
  have "\<not> isl (snd (snd ?r)) \<and> length (fst (snd ?r)) = 2"
    by code_simp
  then obtain s' msgs v where p: "?r = (s', msgs, Inr v)" "length msgs = 2"
    by (cases ?r; cases "snd (snd ?r)") auto
  show ?thesis
    using cancellation_serialises [OF demo_init demo_scheduled_reached step p(1)] p(2) by blast
qed

section \<open>Announcing a result\<close>

text \<open>Everybody with a stake hears the result exactly once. A settlement notifies the seller,
  every bidder and every watcher, nobody twice; the one message that says the auction was won
  goes to the winner of a sold auction and to nobody else.\<close>

theorem settlement_notifies_everybody_once:
  assumes "settleInTransaction s s now aid = (s', Some st)" "find (is_settleable aid) (auctions s) = Some a"
  shows "distinct (map no_userId (st_notifications st)) \<and>
     set (map no_userId (st_notifications st))
       = insert (au_sellerId a) (bi_bidderId ` {b \<in> set (bids s). bi_auctionId b = aid}
           \<union> wa_userId ` {w \<in> set (watchlists s). wa_targetId w = aid}) \<and>
     (\<forall>n \<in> set (st_notifications st). no_type n = AUCTION_WON
        \<longleftrightarrow> st_sold st \<and> map_option bi_bidderId (leading_bid s aid) = Some (no_userId n)) \<and>
     notifications s' = notifications s @ st_notifications st"
proof -
  have id: "au_id a = aid" using find_SomeD [OF assms(2)] by (simp add: is_settleable_def)
  obtain t ev where t: "st_notifications st
      = settle_notifications (s\<lparr>auctions := t, auctionEvents := ev\<rparr>) a (leading_bid s aid) (st_sold st)"
    and s': "notifications s' = notifications s @ st_notifications st"
    and sold: "st_sold st \<longrightarrow> leading_bid s aid \<noteq> None"
    using assms by (auto simp: settleInTransaction_def Let_def update_many_def split: option.split_asm if_split_asm)
  have lead: "bi_bidderId h \<in> bi_bidderId ` {b \<in> set (bids s). bi_auctionId b = aid}"
    if "leading_bid s aid = Some h" for h
    using find_by_SomeD(1,2) [OF that [unfolded leading_bid_def]] by auto
  note aud = audience_members [of _ aid]
  show ?thesis
  proof (cases "st_sold st")
    case False
    then show ?thesis
      unfolding t s' settle_notifications_def id
      by (auto simp: aud auctionEndedNotification_def comp_def split: option.splits)
  next
    case True
    then obtain h where h: "leading_bid s aid = Some h" using sold by auto
    show ?thesis
      unfolding t s' settle_notifications_def id using True lead [OF h]
      by (auto simp: h aud auctionEndedNotification_def auctionWonNotification_def comp_def)
  qed
qed

theorem settlement_notifies_everybody_once_witness:
  "\<exists>s' st. settleInTransaction demo4 demo4 1120000 1 = (s', Some st) \<and>
     distinct (map no_userId (st_notifications st)) \<and> set (map no_userId (st_notifications st)) = {10, 20, 21}"
proof -
  obtain st where st: "settleInTransaction demo4 demo4 1120000 1 = (demo5, Some st)"
    using demo_ok(5) unfolding demo5_def by (metis not_None_eq prod.collapse)
  have a: "find (is_settleable 1) (auctions demo4) = Some (demo_row demo4)"
    and sets: "au_sellerId (demo_row demo4) = 10" "map bi_bidderId (bids_of demo4 1) = [20, 21]" "watchlists demo4 = []"
    by code_simp+
  have "bi_bidderId ` {b \<in> set (bids demo4). bi_auctionId b = 1} = set (map bi_bidderId (bids_of demo4 1))"
    by (auto simp: bids_of_def)
  then have "bi_bidderId ` {b \<in> set (bids demo4). bi_auctionId b = 1} = {20, 21}"
    unfolding sets by simp
  then show ?thesis
    using settlement_notifies_everybody_once [OF st a] st sets by auto
qed

section \<open>The public bid history\<close>

lemma sorted_map_sort_key: "sorted (map k xs) \<Longrightarrow> sort_key k xs = xs"
  by (induction xs) (auto simp: insort_is_Cons)

text \<open>the bid history is complete and in order. For an auction the public may see, the pages
  of its history put together are its accepted bids in sequence order, each once, under a masked
  name, whatever the page size.\<close>

theorem history_pages_cover_the_bids:
  assumes "house_init s0" "house_step\<^sup>*\<^sup>* s0 s" "a \<in> set (auctions s)" "is_public a" "0 < limit"
  shows "\<exists>f. (\<forall>page. listBidHistory s (au_id a) (Some page) (Some limit) viewerId
              = Inr (f page, meta_of page limit (au_bidCount a))) \<and>
           concat (map f [1..<Suc (total_pages (au_bidCount a) limit)])
              = map (toPublicBid s viewerId) (bids_of s (au_id a))"
proof -
  have inv: "house_inv s" by (rule house.reachable_inv [OF assms(1,2)])
  have row: "bids_ok (bids_of s (au_id a)) a" using house_invD(3) [OF inv assms(3)] by (simp add: row_ok_def)
  have find: "find (\<lambda>b. au_id b = au_id a \<and> is_public b) (auctions s) = Some a"
    using find_key_eq [OF house_invD(1) [OF inv] assms(3), of "\<lambda>b. au_id b = au_id a \<and> is_public b"] assms(4) by simp
  let ?bs = "bids_of s (au_id a)"
  let ?f = "\<lambda>page. map (toPublicBid s viewerId) (page_of page limit ?bs)"
  have n: "au_bidCount a = length ?bs" and "map bi_sequenceNo ?bs = [1..<Suc (length ?bs)]"
    using row by (simp_all add: bids_ok_def bid_log_ok_def)
  then have sort: "sort_key bi_sequenceNo ?bs = ?bs"
    by (intro sorted_map_sort_key) (simp del: upt_Suc)
  have "concat (map ?f [1..<Suc (total_pages (length ?bs) limit)])
      = map (toPublicBid s viewerId) (concat (map (\<lambda>p. page_of p limit ?bs) [1..<Suc (total_pages (length ?bs) limit)]))"
    by (simp add: map_concat comp_def del: upt_Suc)
  then show ?thesis
    using find sort pages_cover [OF assms(5), of ?bs]
    by (intro exI [of _ ?f]) (simp add: listBidHistory_def or_default_def n bids_of_def [symmetric] Let_def)
qed

theorem history_pages_cover_the_bids_witness:
  "\<exists>f. map pb_bidder (concat (map f [1..<3])) = [ascii ''A***n'', ascii ''B***i''] \<and>
     listBidHistory demo4 1 (Some 2) (Some 1) None = Inr (f 2, meta_of 2 1 2)"
proof -
  have a: "is_public (demo_row demo4)" "au_id (demo_row demo4) = 1" "au_bidCount (demo_row demo4) = 2"
    and b: "map pb_bidder (map (toPublicBid demo4 None) (bids_of demo4 1)) = [ascii ''A***n'', ascii ''B***i'']"
      "total_pages 2 1 = 2"
    by code_simp+
  obtain f where f: "\<forall>page. listBidHistory demo4 1 (Some page) (Some 1) None = Inr (f page, meta_of page 1 2)"
      "concat (map f [1..<Suc 2]) = map (toPublicBid demo4 None) (bids_of demo4 1)"
    using history_pages_cover_the_bids [OF demo_init demo_reachable(3) demo_row_in(2) a(1), of 1 None]
    unfolding a b(2) by auto
  have "Suc 2 = (3::nat)" by simp
  then show ?thesis
    using f b(1) by (intro exI [of _ f]) (simp del: upt_Suc map_map)
qed

section \<open>The lifecycle pass\<close>

text \<open>A row write the pass does: it leaves a row or closes it, or opens a scheduled one.\<close>

definition kept_or_closed :: "auction_row list \<Rightarrow> auction_row list \<Rightarrow> bool" where
  "kept_or_closed t u \<longleftrightarrow> (\<forall>b \<in> set u. b \<in> set t \<or> closed b)"

lemma startAuction_rows:
  assumes "distinct (map au_id (auctions s))"
  shows "auctions (fst (startAuction s now i)) = map_rows (start_guard now i) (mark_started now) (auctions s)"
proof (cases "count_rows (start_guard now i) (auctions s) = 1")
  case False
  then have "count_rows (start_guard now i) (auctions s) = 0"
    using count_rows_key_le_1 [OF assms, of "start_guard now i" i] by (simp add: start_guard_def)
  then show ?thesis
    by (simp add: startAuction_def Let_def update_many_def count_rows_pos_iff map_rows_id)
qed (simp add: startAuction_def Let_def update_many_def)

lemma startAuction_steps: "house_step\<^sup>*\<^sup>* s (fst (startAuction s now i))"
proof (cases "snd (startAuction s now i)")
  case True
  then have "startAuction s now i = (fst (startAuction s now i), True)" by (metis prod.collapse)
  then show ?thesis by (blast intro: house_step.start)
qed (auto simp: startAuction_def Let_def update_many_def split: if_splits)

definition starts_in :: "instant \<Rightarrow> auction_row list \<Rightarrow> auction_row \<Rightarrow> bool" where
  "starts_in now due a \<longleftrightarrow> au_id a \<in> au_id ` set due \<and> start_guard now (au_id a) a"

lemma start_loop_rows:
  "distinct (map au_id (auctions s)) \<Longrightarrow>
   auctions (fst (start_loop now due s)) = map_rows (starts_in now due) (mark_started now) (auctions s) \<and>
   house_step\<^sup>*\<^sup>* s (fst (start_loop now due s))"
proof (induction due arbitrary: s)
  case Nil
  then show ?case by (simp add: map_rows_def starts_in_def)
next
  case (Cons a due)
  let ?s1 = "fst (startAuction s now (au_id a))"
  have rows: "auctions ?s1 = map_rows (start_guard now (au_id a)) (mark_started now) (auctions s)"
    by (rule startAuction_rows [OF Cons.prems])
  have "map au_id (auctions ?s1) = map au_id (auctions s)"
    unfolding rows by (rule map_map_rows_same) simp
  then have IH: "auctions (fst (start_loop now due ?s1)) = map_rows (starts_in now due) (mark_started now) (auctions ?s1)"
      "house_step\<^sup>*\<^sup>* ?s1 (fst (start_loop now due ?s1))"
    using Cons by simp_all
  have "fst (start_loop now (a # due) s) = fst (start_loop now due ?s1)"
    by (simp split: prod.splits bool.splits)
  moreover have "map_rows (starts_in now due) (mark_started now) (auctions ?s1)
      = map_rows (starts_in now (a # due)) (mark_started now) (auctions s)"
  proof -
    have "\<not> starts_in now due (mark_started now r)" for r
      by (simp add: starts_in_def start_guard_def mark_started_def)
    moreover have "starts_in now (a # due) r \<longleftrightarrow> start_guard now (au_id a) r \<or> starts_in now due r" for r
      by (auto simp: starts_in_def start_guard_def)
    ultimately show ?thesis
      unfolding rows map_rows_def by simp
  qed
  ultimately show ?case
    using IH startAuction_steps [of s now "au_id a"] by (auto intro: rtranclp_trans)
qed

lemma kept_or_closed_refl: "kept_or_closed t t"
  by (simp add: kept_or_closed_def)

lemma kept_or_closed_trans: "kept_or_closed t u \<Longrightarrow> kept_or_closed u w \<Longrightarrow> kept_or_closed t w"
  by (auto simp: kept_or_closed_def)

lemma not_due_when_closed: "closed b \<Longrightarrow> \<not> due_to_settle now b \<and> \<not> due_to_start now b"
  by (auto simp: closed_def due_to_settle_def due_to_start_def)

lemma settleInTransaction_closes:
  assumes "settleInTransaction s s now i = (s1, Some st)"
  shows "kept_or_closed (auctions s) (auctions s1) \<and>
    (\<forall>b \<in> set (auctions s1). au_id b = i \<longrightarrow> \<not> due_to_settle now b)"
  using assms
proof (cases rule: settleInTransaction_Some)
  case (1 a endAt h sold f)
  have closed: "closed (f r)" for r by (simp add: 1(6) closed_def)
  have "\<not> due_to_settle now b" if b: "b \<in> set (auctions s1)" "au_id b = i" for b
  proof
    assume due: "due_to_settle now b"
    then have "is_settleable i b" using b(2) by (simp add: due_to_settle_def is_settleable_def)
    then have "closed b" using b(1) closed by (auto simp: 1(8) set_map_rows split: if_splits)
    then show False using due not_due_when_closed by blast
  qed
  moreover have "kept_or_closed (auctions s) (auctions s1)"
    using closed by (auto simp: kept_or_closed_def 1(8) set_map_rows)
  ultimately show ?thesis by blast
qed

lemma one_row:
  assumes "house_inv s" "a \<in> set (auctions s)" "P a" "\<And>q. P q \<Longrightarrow> au_id q = au_id a"
  shows "count_rows P (auctions s) = 1"
  using auction_table.guarded_write_hits [OF house_invD(1) [OF assms(1)] assms(4), where f = id] assms(2,3)
  by auto

lemma settleInTransaction_due:
  assumes "house_inv s" "b \<in> set (auctions s)" "due_to_settle now b"
  shows "snd (settleInTransaction s s now (au_id b)) \<noteq> None"
proof -
  have P: "is_settleable (au_id b) b" using assms(3) by (simp add: due_to_settle_def is_settleable_def)
  have find: "find (is_settleable (au_id b)) (auctions s) = Some b"
    by (rule find_key_eq [where k = au_id, OF house_invD(1) [OF assms(1)] assms(2)])
      (use P in \<open>simp_all add: is_settleable_def\<close>)
  have "count_rows (is_settleable (au_id b)) (auctions s) = 1"
    by (rule one_row [OF assms(1,2)]) (use P in \<open>auto simp: is_settleable_def\<close>)
  moreover obtain t where "au_currentEndAt b = Some t" "t \<le> now"
    using assms(3) by (auto simp: due_to_settle_def time_reached_def split: option.splits)
  ultimately show ?thesis
    using find by (simp add: settleInTransaction_def Let_def update_many_def)
qed

lemma settleInTransaction_None: "settleInTransaction rd wr now i = (s1, None) \<Longrightarrow> s1 = wr"
  by (auto simp: settleInTransaction_def Let_def update_many_def split: option.splits if_splits)

lemma settleAuction_pass:
  assumes inv: "house_inv s"
  shows "house_step\<^sup>*\<^sup>* s (fst (settleAuction s s now i))"
    and "kept_or_closed (auctions s) (auctions (fst (settleAuction s s now i)))"
    and "b \<in> set (auctions (fst (settleAuction s s now i))) \<Longrightarrow> au_id b = i \<Longrightarrow> \<not> due_to_settle now b"
proof -
  obtain s1 r where r: "settleInTransaction s s now i = (s1, r)" by fastforce
  then have s1: "fst (settleAuction s s now i) = s1"
    by (simp add: settleAuction_def split: option.splits)
  show "house_step\<^sup>*\<^sup>* s (fst (settleAuction s s now i))"
    unfolding s1 using r by (cases r) (auto dest: settleInTransaction_None intro: house_step.settle)
  show "kept_or_closed (auctions s) (auctions (fst (settleAuction s s now i)))"
    unfolding s1 using r
    by (cases r) (auto dest: settleInTransaction_None settleInTransaction_closes intro: kept_or_closed_refl)
  assume b: "b \<in> set (auctions (fst (settleAuction s s now i)))" "au_id b = i"
  show "\<not> due_to_settle now b"
  proof (cases r)
    case None
    then show ?thesis
      using settleInTransaction_None [of s s now i s1] settleInTransaction_due [OF inv, of b now] r b s1
      by (auto simp del: not_None_eq)
  next
    case (Some st)
    then show ?thesis using settleInTransaction_closes [of s now i s1 st] r b s1 by simp
  qed
qed

lemma settle_loop_pass:
  "house_inv s \<Longrightarrow>
   house_step\<^sup>*\<^sup>* s (fst (settle_loop now due s)) \<and>
   kept_or_closed (auctions s) (auctions (fst (settle_loop now due s))) \<and>
   (\<forall>b \<in> set (auctions (fst (settle_loop now due s))). au_id b \<in> au_id ` set due \<longrightarrow> \<not> due_to_settle now b)"
proof (induction due arbitrary: s)
  case Nil
  then show ?case by (simp add: kept_or_closed_refl)
next
  case (Cons a due)
  let ?s1 = "fst (settleAuction s s now (au_id a))"
  let ?s2 = "fst (settle_loop now due ?s1)"
  note one = settleAuction_pass [OF Cons.prems, where now = now and i = "au_id a"]
  have inv1: "house_inv ?s1" by (rule house.steps_inv [OF one(1) Cons.prems])
  note IH = Cons.IH [OF inv1]
  have eq: "fst (settle_loop now (a # due) s) = ?s2"
    by (simp split: prod.splits)
  have "\<not> due_to_settle now b" if b: "b \<in> set (auctions ?s2)" "au_id b = au_id a" for b
    using IH b one(3) [of b] not_due_when_closed by (auto simp: kept_or_closed_def)
  then show ?case
    unfolding eq using IH one by (auto intro: rtranclp_trans kept_or_closed_trans)
qed



section \<open>What the public list gives away\<close>

definition set_reserves :: "(auction_row \<Rightarrow> money option) \<Rightarrow> db \<Rightarrow> db" where
  "set_reserves r s = s\<lparr>auctions := map (\<lambda>a. a\<lparr>au_reservePrice := r a\<rparr>) (auctions s)\<rparr>"

lemma toPublicAuction_reserve:
  assumes "calculateReserveMet (au_currentPrice a) (r a) = calculateReserveMet (au_currentPrice a) (au_reservePrice a)"
  shows "toPublicAuction (set_reserves r s) (a\<lparr>au_reservePrice := r a\<rparr>) = toPublicAuction s a"
  using assms by (simp add: toPublicAuction_def calculateMinimumBid_def set_reserves_def find_category_def
      images_of_def display_name_def)

lemma section_order_reserve: "section_order sec (a\<lparr>au_reservePrice := x\<rparr>) = section_order sec a"
  by (cases sec) (simp_all add: HOT_AUCTION_ORDER_def)

lemma listAuctions_where_reserve:
  "listAuctions_where ilike dto (a\<lparr>au_reservePrice := x\<rparr>) = listAuctions_where ilike dto a"
  by (simp add: listAuctions_where_def searchClause_def priceClause_def split: option.splits)

text \<open>C11: AUC-003, the reserve is not in the public list. However the sellers' reserves are
  changed, as long as each auction's price stands on the same side of its reserve, every answer
  of the public list (any section, filter, search, order or page) is the same; so the list says no
  more about a reserve than whether it is met.\<close>

theorem public_list_hides_reserves:
  assumes "\<forall>a \<in> set (auctions s). calculateReserveMet (au_currentPrice a) (r a)
      = calculateReserveMet (au_currentPrice a) (au_reservePrice a)"
  shows "listAuctions ilike (set_reserves r s) dto = listAuctions ilike s dto"
proof -
  let ?g = "\<lambda>a. a\<lparr>au_reservePrice := r a\<rparr>"
  let ?rows = "filter (listAuctions_where ilike dto) (auctions s)"
  have rows: "filter (listAuctions_where ilike dto) (auctions (set_reserves r s)) = map ?g ?rows"
    by (simp add: set_reserves_def filter_map comp_def listAuctions_where_reserve)
  have "map (toPublicAuction (set_reserves r s)) (page_of p l (sort_key (section_order sec) (map ?g ?rows)))
      = map (toPublicAuction s) (page_of p l (sort_key (section_order sec) ?rows))" for p l sec
  proof -
    have "toPublicAuction (set_reserves r s) (?g a) = toPublicAuction s a"
      if "a \<in> set (page_of p l (sort_key (section_order sec) ?rows))" for a
      using that set_page_of [of p l "sort_key (section_order sec) ?rows"] assms
      by (intro toPublicAuction_reserve) auto
    then show ?thesis
      by (simp add: sort_key_map page_of_map section_order_reserve)
  qed
  then show ?thesis
    unfolding listAuctions_def rows by (simp add: Let_def)
qed

theorem public_list_hides_reserves_witness:
  "listAuctions like_instance (set_reserves (\<lambda>_. Some 120) demo4)
     \<lparr>la_q = None, la_categoryIds = [], la_minPrice = None, la_maxPrice = None, la_section = None,
      la_page = None, la_limit = None\<rparr>
   = listAuctions like_instance demo4
     \<lparr>la_q = None, la_categoryIds = [], la_minPrice = None, la_maxPrice = None, la_section = None,
      la_page = None, la_limit = None\<rparr>"
proof (rule public_list_hides_reserves)
  show "\<forall>a \<in> set (auctions demo4). calculateReserveMet (au_currentPrice a) (Some 120)
      = calculateReserveMet (au_currentPrice a) (au_reservePrice a)"
    by code_simp
qed

section \<open>Interleavings the guards let through\<close>

text \<open>
  A bid whose clock read was before the deadline commits between the reads and the guarded write
  of a settlement whose clock read was after it: the settlement's guard asks only that the auction
  is still ACTIVE.
\<close>

definition demo_late_bid :: db where
  "demo_late_bid = committed demo4 (placeBidInTransaction demo_report demo4 demo4 1119000 32 1 20 502 170)"

text \<open>As it is written, the settlement can lose an accepted bid. There is a reachable
  interleaving in which a bid is accepted and extends the deadline, and a settlement that had read
  the auction before still closes it, two minutes before the new deadline, to the bidder who was
  outbid and at the lower price.\<close>

theorem settlement_can_lose_a_bid:
  "house_step\<^sup>*\<^sup>* demo0 demo4 \<and> house_step demo4 demo_late_bid \<and>
   (let s' = fst (settleInTransaction demo4 demo_late_bid 1120000 1); a = demo_row s' in
      au_status a = SOLD \<and> au_winnerUserId a = Some 21 \<and> au_soldPrice a = Some 160 \<and>
      map_option (\<lambda>b. (bi_bidderId b, bi_amount b)) (leading_bid s' 1) = Some (20, 170) \<and>
      au_currentEndAt a = Some 1240000)"
proof (intro conjI)
  show "house_step\<^sup>*\<^sup>* demo0 demo4" by (rule demo_reachable(3))
  have "\<not> isl (placeBidInTransaction demo_report demo4 demo4 1119000 32 1 20 502 170)" by code_simp
  then show "house_step demo4 demo_late_bid"
    by (rule committedE [of _ demo4], fold demo_late_bid_def) (rule house_step.bid)
  show "let s' = fst (settleInTransaction demo4 demo_late_bid 1120000 1); a = demo_row s' in
      au_status a = SOLD \<and> au_winnerUserId a = Some 21 \<and> au_soldPrice a = Some 160 \<and>
      map_option (\<lambda>b. (bi_bidderId b, bi_amount b)) (leading_bid s' 1) = Some (20, 170) \<and>
      au_currentEndAt a = Some 1240000"
    by code_simp
qed

definition no_edit :: update_auction_dto where
  "no_edit = \<lparr>ud_title = None, ud_description = None, ud_categoryId = None, ud_condition = None,
     ud_startingPrice = None, ud_minBidIncrement = None, ud_reservePrice = None,
     ud_scheduledStartAt = None, ud_scheduledEndAt = None, ud_imageUrls = None\<rparr>"

definition demo_edited :: db where
  "demo_edited = committed demo1 (updateOwnAuction demo1 demo1 (-6) (\<lambda>i. 300 + i) (\<lambda>i. 400 + i) 1 10
     (no_edit\<lparr>ud_scheduledEndAt := Some (-1), ud_imageUrls := Some []\<rparr>))"

text \<open>As it is written, the publish gate can be passed by a draft it did not check. The
  guard of the publication asks only that the auction is still a draft, so an edit that commits
  between the gate and the write (here one that removes every picture and ends the auction before
  it starts) goes public unchecked.\<close>

theorem publication_can_skip_the_gate:
  "house_step demo1 demo_edited \<and>
   (case publishDraft demo1 demo_edited (-5) 1 10 of
      Inl e \<Rightarrow> False
    | Inr (s', v) \<Rightarrow> is_public (demo_row s') \<and> images_of s' 1 = [] \<and> au_scheduledStartAt (demo_row s') = Some 0 \<and>
        au_originalEndAt (demo_row s') = Some (-1))"
proof
  have "\<not> isl (updateOwnAuction demo1 demo1 (-6) (\<lambda>i. 300 + i) (\<lambda>i. 400 + i) 1 10
     (no_edit\<lparr>ud_scheduledEndAt := Some (-1), ud_imageUrls := Some []\<rparr>))" by code_simp
  then show "house_step demo1 demo_edited"
    by (rule committedE [of _ demo1], fold demo_edited_def)
      (rule house_step.edit [rotated 2], assumption, simp_all add: no_edit_def)
  show "case publishDraft demo1 demo_edited (-5) 1 10 of
      Inl e \<Rightarrow> False
    | Inr (s', v) \<Rightarrow> is_public (demo_row s') \<and> images_of s' 1 = [] \<and> au_scheduledStartAt (demo_row s') = Some 0 \<and>
        au_originalEndAt (demo_row s') = Some (-1)"
    by code_simp
qed

text \<open>as it is written, a replay does not ask whose bid it is. A user who sends another
  user's request id with the same auction and amount is answered that user's bid, bidder id
  included, as if it were their own; nothing is written for them.\<close>

theorem replay_answers_another_users_bid:
  assumes "house_init s0" "house_step\<^sup>*\<^sup>* s0 s" "b \<in> set (bids s)"
  shows "placeBid report s s now newBidId (bi_auctionId b) anybody (bi_clientRequestId b) (bi_amount b)
       = (s, [], Inr (toOwnBid b))"
  using find_request_eq [OF house.reachable_inv [OF assms(1,2)] assms(3)]
  by (simp add: placeBid_def placeBidInTransaction_def replayOrRefuse_def)

theorem replay_answers_another_users_bid_witness:
  "map_option ob_bidderId (answered_bid (placeBid demo_report demo3 demo3 2000 77 1 21 500 100)) = Some 20"
proof -
  let ?b = "hd (bids demo3)"
  have b: "?b \<in> set (bids demo3)" "bi_auctionId ?b = 1" "bi_clientRequestId ?b = 500" "bi_amount ?b = 100" "bi_bidderId ?b = 20"
    by code_simp+
  have "placeBid demo_report demo3 demo3 2000 77 1 21 500 100 = (demo3, [], Inr (toOwnBid ?b))"
    using replay_answers_another_users_bid [OF demo_init demo_reachable(2) b(1), of demo_report 2000 77 21]
    unfolding b(2-4) .
  then show ?thesis using b(5) by (simp add: answered_bid_def toOwnBid_def)
qed

section \<open>Pictures\<close>

lemma images_of_append:
  "length (images_of (s\<lparr>auctionImages := auctionImages s @ [i], auctions := t\<rparr>) aid)
     = length (images_of s aid) + (if im_ownerId i = aid then 1 else 0)"
  by (simp add: images_of_def)

text \<open>uploading never takes a draft past eight pictures: a successful upload found fewer than
  \<open>MAX_AUCTION_IMAGES\<close> inside the transaction that adds the row, whatever an earlier check saw,
  and adds exactly one; a refused one deletes the file it had stored.\<close>

theorem upload_respects_the_cap:
  "(case addDraftImage rd wr now imgId aid sellerId upload of
      (s', msgs, Inr v) \<Rightarrow> length (images_of s' aid) = length (images_of wr aid) + 1 \<and>
         length (images_of s' aid) \<le> MAX_AUCTION_IMAGES \<and> msgs = []
    | (s', msgs, Inl e) \<Rightarrow> s' = wr \<and>
         msgs = (if own_draft rd aid sellerId = None \<or> MAX_AUCTION_IMAGES \<le> length (images_of rd aid) then []
                 else case upload of None \<Rightarrow> [] | Some (key, url) \<Rightarrow> [DeleteFile key]))"
  by (auto simp: addDraftImage_def addImageInTransaction_def Let_def images_of_append
      split: option.splits sum.splits prod.splits)

text \<open>as it is written, the cap on pictures does not cover pictures given by url: a draft can
  be created with more than \<open>MAX_AUCTION_IMAGES\<close>.\<close>

theorem created_draft_can_exceed_the_cap:
  "(case createDraft demo0 0 1 (\<lambda>i. 100 + i) (\<lambda>i. 200 + i) 10
       (demo_dto\<lparr>cd_imageUrls := Some (replicate 9 (ascii ''u''))\<rparr>) of
      Inl e \<Rightarrow> False
    | Inr (s', v) \<Rightarrow> MAX_AUCTION_IMAGES < length (images_of s' 1))"
  by code_simp

end
