(* ===== verification/Live_Properties.thy ===== *)
theory Live_Properties
  imports Live_Service Auction_Properties
begin

text \<open>
  What the live screens are told, against what the bid service does, and who the lobby counts,
  against the presence registry.
\<close>

section \<open>The arena\<close>

lemma public_part_view_for [simp]: "public_part (view_for s v a) = toPublicAuction s a"
  by (simp add: view_for_def public_part_def toOwnerAuction_def)

lemma settle_due_commits:
  assumes "house_inv s" "a \<in> set (auctions s)" "is_settleable (au_id a) a"
    "au_currentEndAt a = Some t" "t \<le> now"
  obtains s1 st where "settleInTransaction s s now (au_id a) = (s1, Some st)"
proof -
  have f: "find (is_settleable (au_id a)) (auctions s) = Some a"
  proof (rule find_key_eq)
    show "distinct (map au_id (auctions s))" by (rule house_invD(1) [OF assms(1)])
  qed (use assms(2,3) in \<open>simp_all add: is_settleable_def\<close>)
  have c: "count_rows (is_settleable (au_id a)) (auctions s) = 1"
    by (rule iffD2 [OF count_rows_key_1_iff [OF house_invD(1) [OF assms(1)], of _ "au_id a"]])
      (use assms(2,3) in \<open>auto simp: is_settleable_def\<close>)
  show ?thesis
    using that f c assms(4,5) by (auto simp: settleInTransaction_def Let_def update_many_def)
qed

lemma public_read:
  assumes inv: "house_inv s" and r: "findPublicAuction s now aid v = (s1, ms, Inr view)"
  obtains a where "house_inv s1" "live_auction s1 aid = Some a" "view = view_for s1 v a"
    "au_status a = ACTIVE \<longrightarrow> (\<exists>t. au_currentEndAt a = Some t \<and> now < t)"
proof -
  obtain a where a: "find (\<lambda>a. au_id a = aid \<and> is_public a) (auctions s) = Some a"
    using r by (auto simp: findPublicAuction_def split: option.splits)
  then have mem: "a \<in> set (auctions s)" "au_id a = aid" "au_deletedAt a = None"
    by (auto simp: is_public_def dest!: find_SomeD)
  have ends: "au_currentEndAt a \<noteq> None" if "au_status a = ACTIVE"
    using house_invD(3) [OF inv mem(1)] that
    by (auto simp: row_ok_defs schedule_ok_def extensions_ok_def)
  show ?thesis
  proof (cases "au_status a = ACTIVE \<and> (\<exists>t. au_currentEndAt a = Some t \<and> t \<le> now)")
    case False
    then have "s1 = s" "view = view_for s v a"
      using r a by (auto simp: findPublicAuction_def Let_def split: option.splits if_splits)
    then show ?thesis
      using that [of a] inv live_auction_eq [OF inv mem(1,3)] mem(2) ends False by fastforce
  next
    case True
    then obtain t where t: "au_status a = ACTIVE" "au_currentEndAt a = Some t" "t \<le> now" by blast
    obtain s2 st where st: "settleInTransaction s s now aid = (s2, Some st)"
      using settle_due_commits [OF inv mem(1) _ t(2,3)] mem t(1) by (auto simp: is_settleable_def)
    have inv2: "house_inv s2"
      using house_step_inv [OF inv house_step.settle [OF st]] .
    obtain a1 where a1: "find (\<lambda>a. au_id a = aid \<and> is_public a) (auctions s2) = Some a1"
        "s1 = s2" "view = view_for s2 v a1"
      using r a t st
      by (auto simp: findPublicAuction_def settleAuction_def Let_def split: option.splits if_splits)
    then have m1: "a1 \<in> set (auctions s2)" "au_id a1 = aid" "au_deletedAt a1 = None"
      by (auto simp: is_public_def dest!: find_SomeD)
    have "au_status a1 \<noteq> ACTIVE"
      using st
    proof (cases rule: settleInTransaction_Some)
      case (1 b e h sold f)
      obtain q where q: "q \<in> set (auctions s)" "a1 = (if is_settleable aid q then f q else q)"
        using m1(1) unfolding 1(8) map_rows_def by auto
      then have "au_id q = aid" using m1(2) 1(6) by (auto split: if_splits)
      then have "q = a"
        using distinct_key_unique [OF house_invD(1) [OF inv] q(1) mem(1)] mem(2) by simp
      then show ?thesis using q(2) 1(6) t(1) mem by (auto simp: is_settleable_def)
    qed
    then show ?thesis
      using that [of a1] inv2 a1 live_auction_eq [OF inv2 m1(1,3)] m1(2) by auto
  qed
qed

lemma getArena_Inr:
  assumes "getArena s ps now aid v = (s1, ms, Inr ar)"
  obtains view where "findPublicAuction s now aid (map_option vw_id v) = (s1, ms, Inr view)"
    "re_access ar = map_option (describeBiddingAccess (public_part view)) v"
    "re_leader ar = map_option (toPublicBid s1 (map_option vw_id v)) (leading_bid s1 aid)"
    "re_suddenDeath ar = describeSuddenDeath (public_part view) (last_extension_of s1 aid) now"
    "lo_auction (re_lobby ar) = view" "lo_countdown (re_lobby ar) = calculateCountdown (public_part view) now"
  using assms
  by (auto simp: getArena_def getLobby_def Let_def calculateCountdown_def split: sum.splits prod.splits)

text \<open>What an accepted bid does to the deadline.\<close>

definition extends :: "error + (db \<times> bid_outcome) \<Rightarrow> bool" where
  "extends r = (case r of Inr (s, Accepted ac) \<Rightarrow> ac_extension ac \<noteq> None | _ \<Rightarrow> False)"

lemma accepted_extension:
  assumes "placeBidInTransaction report s s now newBidId aid bidderId requestId amount = Inr (s', Accepted ac)"
    "live_auction s aid = Some a" "au_currentEndAt a = Some t"
  shows "ac_extension ac \<noteq> None \<longleftrightarrow> t - now \<le> ANTI_SNIPING_WINDOW_MS \<and> au_extensionCount a < MAX_EXTENSIONS"
proof -
  let ?ext = "calculateAntiSniping t (au_extensionCount a) now"
  have "ac_extension ac = extension_event_of (au_id a) ?ext"
    using assms
    by (auto simp: placeBidInTransaction_def live_auction_def record_bid_def Let_def update_many_def
        bid_checks_Inr split: option.splits sum.splits if_splits)
  then show ?thesis
    by (auto simp: calculateAntiSniping_def extension_event_of_def Let_def)
qed

text \<open>A bid placed alone at this instant, and the auction as the arena shows it.\<close>

definition offer :: "(string list \<Rightarrow> unique_target) \<Rightarrow> nat \<Rightarrow> db \<Rightarrow> int \<Rightarrow> nat \<Rightarrow> viewer \<Rightarrow> nat \<Rightarrow> int \<Rightarrow> error + (db \<times> bid_outcome)" where
  "offer report newBidId s now aid u requestId amount =
     placeBidInTransaction report s s now newBidId aid (vw_id u) requestId amount"

abbreviation shown :: "arena \<Rightarrow> public_auction" where
  "shown ar \<equiv> public_part (lo_auction (re_lobby ar))"

text \<open>C22: The arena tells a signed-in user the truth about bidding, at the moment it answers. Bidding is
  reported possible exactly when a bid of the reported minimum would be accepted, and then exactly
  the bids from that minimum on are; the soft close is reported active, with extensions left,
  exactly when such a bid would move the deadline; and the leader shown is the bid that settlement
  would sell to, at the price shown.\<close>

theorem arena_tells_what_a_bid_would_do:
  assumes "house_init s0" "house_step\<^sup>*\<^sup>* s0 s"
    and ar: "getArena s ps now aid (Some u) = (s1, ms, Inr ar)" and user: "vw_role u = USER"
    and new: "find_request s1 requestId = None"
  shows "(map_option fst (re_access ar) = Some True \<longleftrightarrow>
            was_accepted (offer report newBidId s1 now aid u requestId (pa_minimumNextBid (shown ar)))) \<and>
         (was_accepted (offer report newBidId s1 now aid u requestId amount) \<longleftrightarrow>
            map_option fst (re_access ar) = Some True \<and> pa_minimumNextBid (shown ar) \<le> amount) \<and>
         (extends (offer report newBidId s1 now aid u requestId amount) \<longleftrightarrow>
            was_accepted (offer report newBidId s1 now aid u requestId amount) \<and>
            sd_active (re_suddenDeath ar) \<and> 0 < sd_extensionsRemaining (re_suddenDeath ar)) \<and>
         (case re_leader ar of
            None \<Rightarrow> bids_of s1 aid = []
          | Some l \<Rightarrow> map_option bi_id (leading_bid s1 aid) = Some (pb_id l) \<and>
                      pb_amount l = pa_currentPrice (shown ar))"
proof -
  let ?bid = "offer report newBidId s1 now aid u requestId"
  let ?p = "shown ar"
  have inv: "house_inv s" using house.reachable_inv [OF assms(1,2)] .
  obtain view where view: "findPublicAuction s now aid (Some (vw_id u)) = (s1, ms, Inr view)"
    and acc: "re_access ar = Some (describeBiddingAccess (public_part view) u)"
    and lead: "re_leader ar = map_option (toPublicBid s1 (Some (vw_id u))) (leading_bid s1 aid)"
    and sd: "re_suddenDeath ar = describeSuddenDeath (public_part view) (last_extension_of s1 aid) now"
    and lo: "lo_auction (re_lobby ar) = view"
    using getArena_Inr [OF ar] by (metis option.simps(9))
  obtain a where inv1: "house_inv s1" and a: "live_auction s1 aid = Some a"
    and v: "view = view_for s1 (Some (vw_id u)) a"
    and open_end: "au_status a = ACTIVE \<longrightarrow> (\<exists>t. au_currentEndAt a = Some t \<and> now < t)"
    by (rule public_read [OF inv view])
  have p: "?p = toPublicAuction s1 a" by (simp add: lo v)
  have can: "map_option fst (re_access ar) = Some True \<longleftrightarrow> au_status a = ACTIVE \<and> vw_id u \<noteq> au_sellerId a"
    using user by (simp add: acc v describeBiddingAccess_def toPublicAuction_def Let_def)
  have minimum: "pa_minimumNextBid ?p = calculateMinimumBid a" by (simp add: p toPublicAuction_def)
  have chk: "(\<exists>e. bid_checks a (vw_id u) m now = Inr e) \<longleftrightarrow>
      au_status a = ACTIVE \<and> vw_id u \<noteq> au_sellerId a \<and> calculateMinimumBid a \<le> m" for m
    using open_end by (auto simp: bid_checks_Inr)
  have accept: "was_accepted (?bid m) \<longleftrightarrow>
      au_status a = ACTIVE \<and> vw_id u \<noteq> au_sellerId a \<and> calculateMinimumBid a \<le> m" for m
  proof
    assume "was_accepted (?bid m)"
    then obtain s' ac where "placeBidInTransaction report s1 s1 now newBidId aid (vw_id u) requestId m
        = Inr (s', Accepted ac)"
      unfolding offer_def by (rule was_acceptedE)
    then have "\<exists>e. bid_checks a (vw_id u) m now = Inr e"
      using a by (cases rule: placeBid_Inr) (auto simp: live_auction_def)
    then show "au_status a = ACTIVE \<and> vw_id u \<noteq> au_sellerId a \<and> calculateMinimumBid a \<le> m"
      using chk by blast
  next
    assume "au_status a = ACTIVE \<and> vw_id u \<noteq> au_sellerId a \<and> calculateMinimumBid a \<le> m"
    then obtain e where "bid_checks a (vw_id u) m now = Inr e" using chk by blast
    then obtain s' ac where "placeBidInTransaction report s1 s1 now newBidId aid (vw_id u) requestId m
        = Inr (s', Accepted ac)"
      using bid_goes_through [OF inv1 new a] by blast
    then show "was_accepted (?bid m)" by (simp add: offer_def was_accepted_def)
  qed
  have ext: "extends (?bid amount) \<longleftrightarrow> was_accepted (?bid amount) \<and>
      sd_active (re_suddenDeath ar) \<and> 0 < sd_extensionsRemaining (re_suddenDeath ar)"
  proof (cases "was_accepted (?bid amount)")
    case False
    then show ?thesis
      by (auto simp: extends_def was_accepted_def split: sum.splits prod.splits bid_outcome.splits)
  next
    case True
    then obtain s' ac where b: "?bid amount = Inr (s', Accepted ac)" by (rule was_acceptedE)
    have act: "au_status a = ACTIVE" using True accept by blast
    then obtain t where t: "au_currentEndAt a = Some t" "now < t" using open_end by blast
    have "ac_extension ac \<noteq> None \<longleftrightarrow>
        t - now \<le> ANTI_SNIPING_WINDOW_MS \<and> au_extensionCount a < MAX_EXTENSIONS"
      by (rule accepted_extension [OF b [unfolded offer_def] a t(1)])
    then show ?thesis
      using True b act t by (simp add: extends_def sd v describeSuddenDeath_def toPublicAuction_def)
  qed
  have rows: "bids_ok (bids_of s1 aid) a"
    using house_invD(3) [OF inv1, of a] live_auction_SomeD [OF a] by (simp add: row_ok_def)
  have "case re_leader ar of
            None \<Rightarrow> bids_of s1 aid = []
          | Some l \<Rightarrow> map_option bi_id (leading_bid s1 aid) = Some (pb_id l) \<and> pb_amount l = pa_currentPrice ?p"
    using rows bids_ok_leading [OF rows]
    by (auto simp: lead p toPublicAuction_def toPublicBid_def bids_ok_def price_of_def)
  then show ?thesis
    using can accept minimum ext by auto
qed

theorem arena_tells_what_a_bid_would_do_witness:
  "was_accepted (offer demo_report 31 demo3 950000 1 \<lparr>vw_id = 21, vw_role = USER\<rparr> 501 110) \<and>
   \<not> was_accepted (offer demo_report 31 demo3 950000 1 \<lparr>vw_id = 21, vw_role = USER\<rparr> 501 109)"
proof -
  let ?u = "\<lparr>vw_id = 21, vw_role = USER\<rparr>"
  let ?r = "getArena demo3 [] 950000 1 (Some ?u)"
  have r: "fst ?r = demo3" "fst (snd ?r) = []" "\<not> isl (snd (snd ?r))"
    and new: "find_request demo3 501 = None"
    and can: "map_option fst (re_access (projr (snd (snd ?r)))) = Some True"
    and m: "pa_minimumNextBid (shown (projr (snd (snd ?r)))) = 110"
    by code_simp+
  define ar where "ar = projr (snd (snd ?r))"
  have eq: "?r = (demo3, [], Inr ar)"
    using r unfolding ar_def by (metis prod.collapse sum.collapse(2))
  note facts = can [folded ar_def] m [folded ar_def]
  have "was_accepted (offer demo_report 31 demo3 950000 1 ?u 501 m) \<longleftrightarrow> 110 \<le> m" for m
    using arena_tells_what_a_bid_would_do
        [OF demo_init demo_reachable(2) eq _ new, of demo_report 31 m] facts
    by (metis viewer.select_convs(2))
  then show ?thesis by simp
qed

end
