(* ===== verification/Category_Service.thy ===== *)
theory Category_Service
  imports BN_Schema
begin

text \<open>
  \<open>categories/categories.service.ts\<close>: the slug of a name, the two trees, and the three changes an
  administrator can make, with what any number of them keep. Categories are never deleted. A change
  reads in \<open>rd\<close> what it checks first and runs its transaction on \<open>wr\<close>. NFKC, lower case and the
  Unicode classes L, N and M are those of the JavaScript engine, a record \<open>unicode\<close>; \<open>rank\<close> is the
  place of a name in the collation of the database.
\<close>

section \<open>Slugs\<close>

record unicode =
  NFKC :: "utext \<Rightarrow> utext"
  toLowerCase :: "utext \<Rightarrow> utext"
  word_char :: "nat \<Rightarrow> bool"

definition dash :: nat where "dash = 45"

text \<open>Every run of other characters becomes one dash.\<close>

function dash_runs :: "(nat \<Rightarrow> bool) \<Rightarrow> utext \<Rightarrow> utext" where
  "dash_runs w [] = []"
| "dash_runs w (c # cs) =
     (if w c then c # dash_runs w cs else dash # dash_runs w (dropWhile (\<lambda>x. \<not> w x) cs))"
  by pat_completeness auto
termination
  by (relation "measure (length \<circ> snd)") (auto simp: less_Suc_eq_le length_dropWhile_le)

definition strip_dashes :: "utext \<Rightarrow> utext" where
  "strip_dashes t = rev (dropWhile (\<lambda>c. c = dash) (rev (dropWhile (\<lambda>c. c = dash) t)))"

definition slugify :: "unicode \<Rightarrow> utext \<Rightarrow> utext" where
  "slugify u name = strip_dashes (dash_runs (word_char u) (toLowerCase u (NFKC u name)))"

text \<open>The slug is the words of the name, its maximal runs of letters, digits and marks, joined by dashes.\<close>

function words :: "(nat \<Rightarrow> bool) \<Rightarrow> utext \<Rightarrow> utext list" where
  "words w t =
     (case dropWhile (\<lambda>x. \<not> w x) t of
        [] \<Rightarrow> []
      | c # cs \<Rightarrow> (c # takeWhile w cs) # words w (dropWhile w cs))"
  by auto
termination
proof (relation "measure (length \<circ> snd)", goal_cases)
  case (2 w t c cs)
  then have "length (c # cs) \<le> length t" by (metis length_dropWhile_le)
  then show ?case using length_dropWhile_le [of w cs] by simp
qed simp

fun join_words :: "utext list \<Rightarrow> utext" where
  "join_words [] = []"
| "join_words [x] = x"
| "join_words (x # y # ys) = x @ dash # join_words (y # ys)"

section \<open>Reading\<close>

record category_view =
  cat_id :: uuid
  cat_parentId :: "uuid option"
  cat_name :: utext
  cat_slug :: utext
  cat_description :: "utext option"
  cat_isActive :: bool
  cat_createdAt :: instant
  cat_updatedAt :: instant

definition categorySelect :: "category_row \<Rightarrow> category_view" where
  "categorySelect c = \<lparr>cat_id = ca_id c, cat_parentId = ca_parentId c, cat_name = ca_name c,
     cat_slug = ca_slug c, cat_description = ca_description c, cat_isActive = ca_isActive c,
     cat_createdAt = ca_createdAt c, cat_updatedAt = ca_updatedAt c\<rparr>"

type_synonym category_tree = "(category_view \<times> category_view list) list"

definition by_name :: "(utext \<Rightarrow> nat) \<Rightarrow> category_row list \<Rightarrow> category_row list" where
  "by_name rank cs = sort_key (\<lambda>c. rank (ca_name c)) cs"

definition findActiveTree :: "(utext \<Rightarrow> nat) \<Rightarrow> db \<Rightarrow> category_tree" where
  "findActiveTree rank s =
     map (\<lambda>r. (categorySelect r, map categorySelect
            (by_name rank (filter (\<lambda>c. ca_parentId c = Some (ca_id r) \<and> ca_isActive c) (categories s)))))
       (by_name rank (filter (\<lambda>c. ca_parentId c = None \<and> ca_isActive c) (categories s)))"

definition findAdminTree :: "(utext \<Rightarrow> nat) \<Rightarrow> db \<Rightarrow> category_tree" where
  "findAdminTree rank s =
     map (\<lambda>r. (categorySelect r, map categorySelect
            (by_name rank (filter (\<lambda>c. ca_parentId c = Some (ca_id r)) (categories s)))))
       (by_name rank (filter (\<lambda>c. ca_parentId c = None) (categories s)))"

section \<open>Changing\<close>

record create_category_dto =
  cc_name :: utext
  cc_description :: "utext option"
  cc_parentId :: "uuid option"

record update_category_dto =
  uc_name :: "utext option"
  uc_description :: "utext option"

definition category_by_id :: "db \<Rightarrow> uuid \<Rightarrow> category_row option" where
  "category_by_id s cid = find (\<lambda>c. ca_id c = cid) (categories s)"

definition assertUsableParent :: "db \<Rightarrow> uuid \<Rightarrow> error + unit" where
  "assertUsableParent s parentId =
     (case category_by_id s parentId of
        None \<Rightarrow> Inl (NotFound ParentCategory)
      | Some p \<Rightarrow>
          if ca_parentId p \<noteq> None then Inl (BadRequest TooDeep)
          else if \<not> ca_isActive p then Inl (BadRequest ParentNotActive)
          else Inr ())"

text \<open>
  The columns hold 120 and 140 characters; a text that is too long is refused by the database
  before the unique index on the slug is asked. A note names the category in quotes.
\<close>

definition SLUG_LIMIT :: nat where "SLUG_LIMIT = 140"

definition quoted :: "string \<Rightarrow> utext \<Rightarrow> utext option" where
  "quoted what name = Some (ascii what @ ascii '' category \"'' @ name @ ascii ''\"'')"

definition category_action ::
  "uuid \<Rightarrow> uuid \<Rightarrow> admin_action_type \<Rightarrow> utext option \<Rightarrow> admin_action_row" where
  "category_action admin cid kind note =
     \<lparr>aa_adminUserId = admin, aa_auctionId = None, aa_productId = None, aa_categoryId = Some cid,
      aa_actionType = kind, aa_note = note\<rparr>"

definition createCategory ::
  "unicode \<Rightarrow> db \<Rightarrow> db \<Rightarrow> instant \<Rightarrow> uuid \<Rightarrow> create_category_dto \<Rightarrow> uuid
     \<Rightarrow> error + (db \<times> category_view)" where
  "createCategory u rd wr now newId dto adminUserId =
     (let slug = slugify u (cc_name dto) in
      if slug = [] then Inl (BadRequest NameWithoutLetterOrDigit)
      else
        (case (case cc_parentId dto of None \<Rightarrow> Inr () | Some p \<Rightarrow> assertUsableParent rd p) of
           Inl e \<Rightarrow> Inl e
         | Inr _ \<Rightarrow>
             if length slug > SLUG_LIMIT then Inl (KnownRequestError ''P2000'' TargetMissing)
             else if list_ex (\<lambda>c. ca_slug c = slug) (categories wr) then Inl (Conflict CategorySlugTaken)
             else
               let category = \<lparr>ca_id = newId, ca_name = cc_name dto, ca_slug = slug, ca_isActive = True,
                     ca_parentId = cc_parentId dto, ca_description = cc_description dto,
                     ca_createdByAdminId = Some adminUserId, ca_createdAt = now, ca_updatedAt = now\<rparr>
               in Inr (wr\<lparr>categories := categories wr @ [category],
                          adminActions := adminActions wr @
                            [category_action adminUserId newId CREATE_CATEGORY
                               (quoted ''Created'' (cc_name dto))]\<rparr>,
                       categorySelect category)))"

definition edit_category ::
  "instant \<Rightarrow> update_category_dto \<Rightarrow> utext option \<Rightarrow> category_row \<Rightarrow> category_row" where
  "edit_category now dto slug c =
     c\<lparr>ca_name := or_default (uc_name dto) (ca_name c), ca_slug := or_default slug (ca_slug c),
       ca_description := (if uc_description dto = None then ca_description c else uc_description dto),
       ca_updatedAt := now\<rparr>"

definition updateCategory ::
  "unicode \<Rightarrow> db \<Rightarrow> db \<Rightarrow> instant \<Rightarrow> uuid \<Rightarrow> update_category_dto \<Rightarrow> uuid
     \<Rightarrow> error + (db \<times> category_view)" where
  "updateCategory u rd wr now categoryId dto adminUserId =
     (if uc_name dto = None \<and> uc_description dto = None then Inl (BadRequest NothingToUpdate)
      else if category_by_id rd categoryId = None then Inl (NotFound Category)
      else
        let slug = map_option (slugify u) (uc_name dto) in
        if slug = Some [] then Inl (BadRequest NameWithoutLetterOrDigit)
        else
          (case category_by_id wr categoryId of
             None \<Rightarrow> Inl RecordNotFound
           | Some c \<Rightarrow>
               let category = edit_category now dto slug c in
               if length (ca_slug category) > SLUG_LIMIT then Inl (KnownRequestError ''P2000'' TargetMissing)
               else if list_ex (\<lambda>q. ca_id q \<noteq> categoryId \<and> ca_slug q = ca_slug category) (categories wr)
               then Inl (Conflict CategorySlugTaken)
               else Inr (wr\<lparr>categories := map_rows (\<lambda>q. ca_id q = categoryId)
                                (edit_category now dto slug) (categories wr),
                            adminActions := adminActions wr @
                              [category_action adminUserId categoryId UPDATE_CATEGORY
                                 (quoted ''Updated'' (ca_name category))]\<rparr>,
                         categorySelect category)))"

definition switch_category :: "instant \<Rightarrow> bool \<Rightarrow> category_row \<Rightarrow> category_row" where
  "switch_category now isActive c = c\<lparr>ca_isActive := isActive, ca_updatedAt := now\<rparr>"

definition setCategoryActivation ::
  "db \<Rightarrow> db \<Rightarrow> instant \<Rightarrow> uuid \<Rightarrow> bool \<Rightarrow> uuid \<Rightarrow> error + (db \<times> category_view)" where
  "setCategoryActivation rd wr now categoryId isActive adminUserId =
     (case category_by_id rd categoryId of
        None \<Rightarrow> Inl (NotFound Category)
      | Some category \<Rightarrow>
          if ca_isActive category = isActive then Inr (wr, categorySelect category)
          else if isActive \<and> (case ca_parentId category of None \<Rightarrow> False
                  | Some p \<Rightarrow> (case category_by_id rd p of None \<Rightarrow> True | Some q \<Rightarrow> \<not> ca_isActive q))
          then Inl (BadRequest ActivateParentFirst)
          else
            (case category_by_id wr categoryId of
               None \<Rightarrow> Inl RecordNotFound
             | Some c \<Rightarrow>
                 let updated = switch_category now isActive c;
                     t = map_rows (\<lambda>q. ca_id q = categoryId) (switch_category now isActive) (categories wr);
                     t' = (if \<not> isActive \<and> ca_parentId updated = None
                           then map_rows (\<lambda>q. ca_parentId q = Some categoryId \<and> ca_isActive q)
                                  (switch_category now False) t
                           else t)
                 in Inr (wr\<lparr>categories := t', adminActions := adminActions wr @
                          [category_action adminUserId categoryId
                             (if isActive then ACTIVATE_CATEGORY else DEACTIVATE_CATEGORY)
                             (quoted (if isActive then ''Activated'' else ''Deactivated'') (ca_name updated))]\<rparr>,
                         categorySelect updated)))"

section \<open>The slug is the words of the name\<close>

declare words.simps [simp del]

lemma dropWhile_fixed: "t = [] \<or> \<not> P (hd t) \<Longrightarrow> dropWhile P t = t"
  by (cases t) auto

lemma dash_runs_words: "dash_runs w (takeWhile w t @ r) = takeWhile w t @ dash_runs w r"
  by (induction t) auto

lemma dash_runs_skip:
  "dash_runs w t = (if t = [] \<or> w (hd t) then dash_runs w t else dash # dash_runs w (dropWhile (\<lambda>x. \<not> w x) t))"
  by (cases t) auto

lemma words_Nil [simp]: "words w [] = []"
  by (subst words.simps) simp

lemma words_ok: "x \<in> set (words w t) \<Longrightarrow> x \<noteq> [] \<and> (\<forall>c \<in> set x. w c)"
proof (induction w t rule: words.induct)
  case (1 w t)
  show ?case
  proof (cases "dropWhile (\<lambda>x. \<not> w x) t")
    case Nil
    then have "words w t = []" by (subst words.simps) (simp only: list.case)
    then show ?thesis using 1(2) by simp
  next
    case (Cons c cs)
    then have "w c" using hd_dropWhile [of "\<lambda>x. \<not> w x" t] by auto
    moreover have "x = c # takeWhile w cs \<or> x \<in> set (words w (dropWhile w cs))"
      using 1(2) unfolding words.simps [of w t] Cons by simp
    moreover have "\<forall>c \<in> set (takeWhile w cs). w c" by (auto dest: set_takeWhileD)
    ultimately show ?thesis
      by (elim disjE) (simp, rule 1(1) [OF Cons])
  qed
qed

text \<open>Up to one dash at either end, the runs are already the words joined.\<close>

lemma dash_runs_join:
  "\<exists>a b. set a \<union> set b \<subseteq> {dash} \<and> dash_runs w t = a @ join_words (words w t) @ b \<and>
     (t \<noteq> [] \<and> \<not> w (hd t) \<longrightarrow> words w t = [] \<or> a = [dash]) \<and> (t \<noteq> [] \<and> w (hd t) \<longrightarrow> a = [])"
proof (induction w t rule: words.induct)
  case (1 w t)
  show ?case
  proof (cases "dropWhile (\<lambda>x. \<not> w x) t")
    case Nil
    then have none: "\<forall>x \<in> set t. \<not> w x" by (simp add: dropWhile_eq_Nil_conv)
    then have "dash_runs w t = (if t = [] then [] else [dash])"
      using dash_runs_skip [of w t, unfolded Nil] by (cases "t = []") simp_all
    moreover have "words w t = []" using Nil by (subst words.simps) (simp only: list.case)
    ultimately have "dash_runs w t = (if t = [] then [] else [dash]) @ join_words (words w t) @ [] \<and> words w t = []"
      by simp
    then show ?thesis
      using none by (intro exI [of _ "if t = [] then [] else [dash]"] exI [of _ "[]"]) auto
  next
    case (Cons c cs)
    let ?r = "dropWhile w cs"
    have c: "w c" using hd_dropWhile [of "\<lambda>x. \<not> w x" t] Cons by auto
    have cs: "dash_runs w (c # cs) = (c # takeWhile w cs) @ dash_runs w ?r"
      using c dash_runs_words [of w cs ?r] by simp
    have ws: "words w t = (c # takeWhile w cs) # words w ?r"
      unfolding words.simps [of w t] Cons by simp
    obtain a b where IH: "set a \<union> set b \<subseteq> {dash}" "dash_runs w ?r = a @ join_words (words w ?r) @ b"
        "?r \<noteq> [] \<and> \<not> w (hd ?r) \<longrightarrow> words w ?r = [] \<or> a = [dash]"
      using 1 [OF Cons] by blast
    have r: "?r \<noteq> [] \<Longrightarrow> \<not> w (hd ?r)" using hd_dropWhile [of w cs] by auto
    have joined: "\<exists>b'. set b' \<subseteq> {dash} \<and> dash_runs w (c # cs) = join_words (words w t) @ b'"
    proof (cases "words w ?r")
      case Nil
      then show ?thesis using cs ws IH by (intro exI [of _ "a @ b"]) auto
    next
      case (Cons y ys)
      then have "?r \<noteq> []" using words_Nil [of w] by (metis list.distinct(1))
      then have "a = [dash]" using IH(3) r Cons by auto
      then show ?thesis using cs ws IH Cons by (intro exI [of _ b]) auto
    qed
    then obtain b' where b': "set b' \<subseteq> {dash}" "dash_runs w (c # cs) = join_words (words w t) @ b'" by blast
    show ?thesis
    proof (cases "w (hd t)")
      case True
      then have "dropWhile (\<lambda>x. \<not> w x) t = t" by (intro dropWhile_fixed) auto
      then show ?thesis using b' Cons c by (intro exI [of _ "[]"] exI [of _ b']) auto
    next
      case False
      have "t \<noteq> []" using Cons by auto
      then have "dash_runs w t = dash # dash_runs w (c # cs)"
        using dash_runs_skip [of w t] False Cons by simp
      then show ?thesis using b' False by (intro exI [of _ "[dash]"] exI [of _ b']) auto
    qed
  qed
qed

lemma join_words_ends:
  assumes "\<And>x. x \<in> set ws \<Longrightarrow> x \<noteq> [] \<and> dash \<notin> set x" "ws \<noteq> []"
  shows "join_words ws \<noteq> [] \<and> hd (join_words ws) \<noteq> dash \<and> last (join_words ws) \<noteq> dash"
  using assms
proof (induction ws rule: join_words.induct)
  case (2 x)
  then have "x \<noteq> []" "dash \<notin> set x" by auto
  then show ?case using hd_in_set [of x] last_in_set [of x] by (auto simp del: hd_in_set last_in_set)
next
  case (3 x y ys)
  have x: "x \<noteq> []" "dash \<notin> set x" using 3(2) [of x] by auto
  then have "hd x \<noteq> dash" using hd_in_set [of x] by metis
  then show ?case using 3 x by auto
qed simp

lemma strip_dashes_wrapped:
  assumes "set a \<subseteq> {dash}" "set b \<subseteq> {dash}" "m = [] \<or> hd m \<noteq> dash \<and> last m \<noteq> dash"
  shows "strip_dashes (a @ m @ b) = m"
proof -
  have a: "dropWhile (\<lambda>c. c = dash) (a @ r) = dropWhile (\<lambda>c. c = dash) r" if "set a \<subseteq> {dash}" for a r
    using that by (induction a) auto
  show ?thesis
  proof (cases "m = []")
    case True
    moreover have "dropWhile (\<lambda>c. c = dash) b = []" using assms(2) by (auto simp: dropWhile_eq_Nil_conv)
    ultimately have "dropWhile (\<lambda>c. c = dash) (a @ b) = []" using a [OF assms(1), of b] by simp
    then show ?thesis using True by (simp only: strip_dashes_def append_Nil) simp
  next
    case False
    then have "dropWhile (\<lambda>c. c = dash) (m @ b) = m @ b"
      using assms(3) by (intro dropWhile_fixed) auto
    moreover have "dropWhile (\<lambda>c. c = dash) (rev m) = rev m"
      using assms(3) False by (intro dropWhile_fixed) (auto simp: hd_rev)
    ultimately show ?thesis
      using a [OF assms(1), of "m @ b"] a [of "rev b" "rev m"] assms(2) by (simp add: strip_dashes_def)
  qed
qed

lemma words_block:
  assumes "x \<noteq> []" "\<forall>c \<in> set x. w c" "t = [] \<or> \<not> w (hd t)"
  shows "words w (x @ t) = x # words w t"
proof -
  obtain c cs where x: "x = c # cs" "w c" using assms(1,2) by (cases x) auto
  have "takeWhile w (cs @ t) = cs" "dropWhile w (cs @ t) = t"
    using assms(2,3) x by (auto simp: takeWhile_append dropWhile_append hd_conv_nth intro: dropWhile_fixed)
      (cases t; simp)+
  then show ?thesis using x by (subst words.simps) simp
qed

lemma words_join_words:
  assumes "\<And>x. x \<in> set ws \<Longrightarrow> x \<noteq> [] \<and> dash \<notin> set x"
  shows "words (\<lambda>c. c \<noteq> dash) (join_words ws) = ws"
  using assms
proof (induction ws rule: join_words.induct)
  case 1
  then show ?case by (simp add: words.simps [of _ "[]"])
next
  case (2 x)
  then have x: "x \<noteq> []" "dash \<notin> set x" by auto
  show ?case
    using words_block [of x "\<lambda>c. c \<noteq> dash" "[]"] x by (auto simp: words.simps [of _ "[]"])
next
  case (3 x y ys)
  then have x: "x \<noteq> []" "dash \<notin> set x" by auto
  have "words (\<lambda>c. c \<noteq> dash) (dash # join_words (y # ys)) = words (\<lambda>c. c \<noteq> dash) (join_words (y # ys))"
    by (simp add: words.simps [of _ "dash # _"] words.simps [of _ "join_words (y # ys)"])
  then show ?case
    using words_block [of x "\<lambda>c. c \<noteq> dash" "dash # join_words (y # ys)"] x 3 by auto
qed

text \<open>The slug of a name is the words of its normalised, lower-cased text, that is its maximal runs
  of letters, digits and combining marks, joined by single dashes. Two names share a slug exactly
  when they have the same words, and the slug is empty exactly when there are none.\<close>

theorem slug_is_the_words_joined:
  assumes "\<not> word_char u dash"
  shows "slugify u name = join_words (words (word_char u) (toLowerCase u (NFKC u name))) \<and>
         (slugify u name = slugify u other \<longleftrightarrow>
            words (word_char u) (toLowerCase u (NFKC u name)) = words (word_char u) (toLowerCase u (NFKC u other))) \<and>
         (slugify u name = [] \<longleftrightarrow> words (word_char u) (toLowerCase u (NFKC u name)) = [])"
proof -
  let ?ws = "\<lambda>name. words (word_char u) (toLowerCase u (NFKC u name))"
  have ok: "x \<noteq> [] \<and> dash \<notin> set x" if "x \<in> set (?ws n)" for x n
    using words_ok [OF that] assms by auto
  have slug: "slugify u n = join_words (?ws n)" for n
  proof -
    have "join_words (?ws n) = [] \<or> hd (join_words (?ws n)) \<noteq> dash \<and> last (join_words (?ws n)) \<noteq> dash"
      using join_words_ends [of "?ws n"] ok by (cases "?ws n = []") auto
    moreover obtain a b where "set a \<union> set b \<subseteq> {dash}"
        "dash_runs (word_char u) (toLowerCase u (NFKC u n)) = a @ join_words (?ws n) @ b"
      using dash_runs_join [of "word_char u" "toLowerCase u (NFKC u n)"] by (elim exE conjE)
    ultimately show ?thesis
      unfolding slugify_def using strip_dashes_wrapped [of a b "join_words (?ws n)"] by simp
  qed
  have again: "words (\<lambda>c. c \<noteq> dash) (slugify u n) = ?ws n" for n
    unfolding slug by (rule words_join_words) (rule ok)
  have "slugify u name = slugify u other \<longleftrightarrow> ?ws name = ?ws other"
  proof
    assume "slugify u name = slugify u other"
    then have "words (\<lambda>c. c \<noteq> dash) (slugify u name) = words (\<lambda>c. c \<noteq> dash) (slugify u other)"
      by (rule arg_cong)
    then show "?ws name = ?ws other" unfolding again .
  qed (simp only: slug)
  moreover have "slugify u name = [] \<longleftrightarrow> ?ws name = []"
  proof
    assume "slugify u name = []"
    then have "words (\<lambda>c. c \<noteq> dash) (slugify u name) = []" by (simp only: words_Nil)
    then show "?ws name = []" unfolding again .
  next
    assume "?ws name = []"
    then show "slugify u name = []" using slug [of name] by (simp only: join_words.simps)
  qed
  ultimately show ?thesis using slug [of name] by (intro conjI)
qed

definition demo_unicode :: unicode where
  "demo_unicode = \<lparr>NFKC = \<lambda>t. t, toLowerCase = map (\<lambda>c. if 65 \<le> c \<and> c \<le> 90 then c + 32 else c),
     word_char = \<lambda>c. 97 \<le> c \<and> c \<le> 122 \<or> 48 \<le> c \<and> c \<le> 57\<rparr>"

theorem slug_is_the_words_joined_witness:
  "slugify demo_unicode (ascii ''--Home & Garden '') = ascii ''home-garden''"
proof -
  have w: "\<not> word_char demo_unicode dash" by (simp add: demo_unicode_def dash_def)
  have "words (word_char demo_unicode) (toLowerCase demo_unicode (NFKC demo_unicode (ascii ''--Home & Garden '')))
      = [ascii ''home'', ascii ''garden'']"
    by code_simp
  then show ?thesis
    using slug_is_the_words_joined [OF w] by (simp add: ascii_def dash_def)
qed

end
