(* ===== verification/Category_Properties.thy ===== *)
theory Category_Properties
  imports Category_Service "HOL-Library.Multiset"
begin

text \<open>
  What any number of category changes keep: \<open>category_step\<close> is one call whose checks may have read an
  older state, \<open>category_turn\<close> one whose checks read the state it writes on; \<open>category_inv\<close> are the
  keys and the two levels, \<open>parents_live\<close> that no active category sits under an inactive one. Both
  are interpretations of \<open>invariant_system\<close>.
\<close>

section \<open>Invariants\<close>

text \<open>Two levels, and keys: any number of changes keep these, however old what they read.\<close>

definition category_inv :: "db \<Rightarrow> bool" where
  "category_inv s \<longleftrightarrow>
     distinct (map ca_id (categories s)) \<and> distinct (map ca_slug (categories s)) \<and>
     (\<forall>c \<in> set (categories s). \<forall>p. ca_parentId c = Some p \<longrightarrow>
        (\<exists>q \<in> set (categories s). ca_id q = p \<and> ca_parentId q = None))"

definition place :: "category_row \<Rightarrow> uuid \<times> uuid option" where
  "place c = (ca_id c, ca_parentId c)"

definition read_earlier :: "db \<Rightarrow> db \<Rightarrow> bool" where
  "read_earlier rd wr \<longleftrightarrow> rows_grow place (\<lambda>_. False) (categories rd) (categories wr)"

inductive category_step :: "unicode \<Rightarrow> db \<Rightarrow> db \<Rightarrow> bool" for u where
  creates: "read_earlier rd s \<Longrightarrow> newId \<notin> ca_id ` set (categories s) \<Longrightarrow>
    createCategory u rd s now newId dto admin = Inr (s', v) \<Longrightarrow> category_step u s s'"
| updates: "updateCategory u rd s now cid dto2 admin = Inr (s', v) \<Longrightarrow> category_step u s s'"
| switches: "setCategoryActivation rd s now cid isActive admin = Inr (s', v) \<Longrightarrow> category_step u s s'"

text \<open>One call after another: what a call reads first is what it writes on.\<close>

inductive category_turn :: "unicode \<Rightarrow> db \<Rightarrow> db \<Rightarrow> bool" for u where
  creates: "newId \<notin> ca_id ` set (categories s) \<Longrightarrow>
    createCategory u s s now newId dto admin = Inr (s', v) \<Longrightarrow> category_turn u s s'"
| updates: "updateCategory u s s now cid dto2 admin = Inr (s', v) \<Longrightarrow> category_turn u s s'"
| switches: "setCategoryActivation s s now cid isActive admin = Inr (s', v) \<Longrightarrow> category_turn u s s'"

lemma read_earlier_refl: "read_earlier s s"
  by (simp add: read_earlier_def)

lemma turn_is_step: "category_turn u s s' \<Longrightarrow> category_step u s s'"
  by (induction rule: category_turn.induct)
    (blast intro: category_step.creates read_earlier_refl category_step.updates category_step.switches)+

text \<open>What a committed call did to the table.\<close>

lemma place_edit [simp]: "place (edit_category now dto slug c) = place c"
  and place_switch [simp]: "place (switch_category now b c) = place c"
  by (simp_all add: place_def edit_category_def switch_category_def)

lemma createCategory_Inr:
  assumes "createCategory u rd wr now newId dto admin = Inr (s', v)"
  obtains c where "categories s' = categories wr @ [c]" "ca_id c = newId" "ca_isActive c"
    "ca_parentId c = cc_parentId dto" "\<forall>q \<in> set (categories wr). ca_slug q \<noteq> ca_slug c"
    "\<And>p. cc_parentId dto = Some p \<Longrightarrow> \<exists>q \<in> set (categories rd). ca_id q = p \<and> ca_parentId q = None \<and> ca_isActive q"
    "adminActions s' = adminActions wr @
       [category_action admin newId CREATE_CATEGORY (quoted ''Created'' (ca_name c))]"
proof -
  have "\<exists>q \<in> set (categories rd). ca_id q = p \<and> ca_parentId q = None \<and> ca_isActive q"
    if "cc_parentId dto = Some p" for p
    using assms that
    by (auto simp: createCategory_def Let_def assertUsableParent_def category_by_id_def
        dest!: find_SomeD split: if_splits option.splits)
  moreover have "\<exists>c. categories s' = categories wr @ [c] \<and> ca_id c = newId \<and> ca_isActive c \<and>
      ca_parentId c = cc_parentId dto \<and> (\<forall>q \<in> set (categories wr). ca_slug q \<noteq> ca_slug c) \<and>
      adminActions s' = adminActions wr @
       [category_action admin newId CREATE_CATEGORY (quoted ''Created'' (ca_name c))]"
    using assms by (auto simp: createCategory_def Let_def list_ex_iff split: if_splits sum.splits)
  ultimately show ?thesis using that by blast
qed

lemma updateCategory_Inr:
  assumes "updateCategory u rd wr now cid dto admin = Inr (s', v)"
  obtains c slug where "category_by_id wr cid = Some c"
    "categories s' = map_rows (\<lambda>q. ca_id q = cid) (edit_category now dto slug) (categories wr)"
    "\<forall>q \<in> set (categories wr). ca_id q \<noteq> cid \<longrightarrow> ca_slug q \<noteq> ca_slug (edit_category now dto slug c)"
    "adminActions s' = adminActions wr @
       [category_action admin cid UPDATE_CATEGORY (quoted ''Updated'' (ca_name (edit_category now dto slug c)))]"
  using assms
  by (auto simp: updateCategory_def Let_def list_ex_iff intro!: that split: if_splits option.splits)

lemma setCategoryActivation_Inr:
  assumes "setCategoryActivation rd wr now cid b admin = Inr (s', v)" "s' \<noteq> wr"
  obtains q c where "category_by_id rd cid = Some q" "ca_isActive q \<noteq> b" "category_by_id wr cid = Some c"
    "\<And>p. b \<Longrightarrow> ca_parentId q = Some p \<Longrightarrow> \<exists>r. category_by_id rd p = Some r \<and> ca_isActive r"
    "categories s' = (if \<not> b \<and> ca_parentId c = None
       then map_rows (\<lambda>r. ca_parentId r = Some cid \<and> ca_isActive r) (switch_category now False)
              (map_rows (\<lambda>r. ca_id r = cid) (switch_category now b) (categories wr))
       else map_rows (\<lambda>r. ca_id r = cid) (switch_category now b) (categories wr))"
    "adminActions s' = adminActions wr @
       [category_action admin cid (if b then ACTIVATE_CATEGORY else DEACTIVATE_CATEGORY)
          (quoted (if b then ''Activated'' else ''Deactivated'') (ca_name c))]"
  using assms
  by (auto simp: setCategoryActivation_def Let_def switch_category_def intro!: that
      split: if_splits option.splits)

lemma category_inv_places:
  assumes "category_inv s" "map place (categories s') = map place (categories s)"
    "distinct (map ca_slug (categories s'))"
  shows "category_inv s'"
proof -
  have ids: "map ca_id (categories s') = map ca_id (categories s)"
    using arg_cong [OF assms(2), of "map fst"] by (simp add: place_def comp_def)
  have sets: "place ` set (categories s') = place ` set (categories s)"
    using arg_cong [OF assms(2), of set] by simp
  have "\<exists>q \<in> set (categories s'). ca_id q = p \<and> ca_parentId q = None"
    if c: "c \<in> set (categories s')" "ca_parentId c = Some p" for c p
  proof -
    obtain c0 where "c0 \<in> set (categories s)" "place c0 = place c"
      using sets c(1) by (metis imageE imageI)
    then obtain q where "q \<in> set (categories s)" "place q = (p, None)"
      using assms(1) c(2) unfolding category_inv_def place_def by (metis Pair_inject)
    then show ?thesis using sets by (metis (mono_tags) Pair_inject image_iff place_def)
  qed
  then show ?thesis using assms(1,3) ids unfolding category_inv_def by metis
qed

lemma slugs_after_edit:
  assumes "category_inv s" "category_by_id s cid = Some c"
    "\<forall>q \<in> set (categories s). ca_id q \<noteq> cid \<longrightarrow> ca_slug q \<noteq> ca_slug (f c)" 
  shows "distinct (map ca_slug (map_rows (\<lambda>q. ca_id q = cid) f (categories s)))"
proof -
  have d: "distinct (categories s)" "inj_on ca_id (set (categories s))" "inj_on ca_slug (set (categories s))"
    using assms(1) by (auto simp: category_inv_def distinct_map)
  have c: "c \<in> set (categories s)" "ca_id c = cid"
    using assms(2) by (auto simp: category_by_id_def dest!: find_SomeD)
  have one: "q \<in> set (categories s) \<Longrightarrow> ca_id q = cid \<Longrightarrow> q = c" for q
    using d(2) c by (auto simp: inj_on_def)
  have "inj_on (\<lambda>q. ca_slug (if ca_id q = cid then f q else q)) (set (categories s))"
  proof (rule inj_onI)
    fix x y assume xy: "x \<in> set (categories s)" "y \<in> set (categories s)"
      and eq: "ca_slug (if ca_id x = cid then f x else x) = ca_slug (if ca_id y = cid then f y else y)"
    show "x = y"
    proof (cases "ca_id x = cid"; cases "ca_id y = cid")
      assume "ca_id x \<noteq> cid" "ca_id y \<noteq> cid"
      then show ?thesis using eq d(3) xy by (simp add: inj_onD)
    qed (use eq one [OF xy(1)] one [OF xy(2)] assms(3) xy in \<open>auto dest: sym\<close>)
  qed
  then show ?thesis using d(1) by (simp add: map_rows_def distinct_map comp_def)
qed

lemma map_place_map_rows:
  "(\<And>r. place (f r) = place r) \<Longrightarrow> map place (map_rows P f t) = map place t"
  by (rule map_map_rows_same)

lemma category_step_inv:
  assumes "category_inv s" "category_step u s s'"
  shows "category_inv s'"
  using assms(2)
proof cases
  case (creates rd newId now dto admin v)
  obtain c where c: "categories s' = categories s @ [c]" "ca_id c = newId" "ca_parentId c = cc_parentId dto"
      "\<forall>q \<in> set (categories s). ca_slug q \<noteq> ca_slug c"
      "\<And>p. cc_parentId dto = Some p \<Longrightarrow> \<exists>q \<in> set (categories rd). ca_id q = p \<and> ca_parentId q = None \<and> ca_isActive q"
    using createCategory_Inr [OF creates(3)] by metis
  have parent: "\<exists>q \<in> set (categories s). ca_id q = p \<and> ca_parentId q = None" if "ca_parentId c = Some p" for p
  proof -
    have "cc_parentId dto = Some p" using that c(3) by simp
    then obtain q where q: "q \<in> set (categories rd)" "ca_id q = p" "ca_parentId q = None"
      using c(5) by blast
    then obtain r where "r \<in> set (categories s)" "place r = place q"
      using creates(1) unfolding read_earlier_def by (blast elim: rows_growD)
    then show ?thesis using q by (auto simp: place_def)
  qed
  show ?thesis
    unfolding category_inv_def c(1)
    using assms(1) creates(2) c(2,4) parent unfolding category_inv_def by (auto 0 3 simp: image_iff)
next
  case (updates rd now cid dto2 admin v)
  obtain c slug where c: "category_by_id s cid = Some c"
    "categories s' = map_rows (\<lambda>q. ca_id q = cid) (edit_category now dto2 slug) (categories s)"
    "\<forall>q \<in> set (categories s). ca_id q \<noteq> cid \<longrightarrow> ca_slug q \<noteq> ca_slug (edit_category now dto2 slug c)"
    using updateCategory_Inr [OF updates] by metis
  show ?thesis
    by (rule category_inv_places [OF assms(1)])
      (simp_all add: c(2) map_place_map_rows slugs_after_edit [where f = "edit_category now dto2 slug", OF assms(1) c(1,3)])
next
  case (switches rd now cid isActive admin v)
  show ?thesis
  proof (cases "s' = s")
    case False
    have sl: "ca_slug (switch_category now b r) = ca_slug r" for b r by (simp add: switch_category_def)
    have "map place (categories s') = map place (categories s) \<and>
        map ca_slug (categories s') = map ca_slug (categories s)"
      by (rule setCategoryActivation_Inr [OF switches False])
        (simp add: map_place_map_rows map_map_rows_same sl)
    moreover have "distinct (map ca_slug (categories s))" using assms(1) by (simp add: category_inv_def)
    ultimately show ?thesis by (intro category_inv_places [OF assms(1)]) simp_all
  qed (simp add: assms(1))
qed

definition no_categories :: "db \<Rightarrow> bool" where
  "no_categories s \<longleftrightarrow> categories s = []"

interpretation category_table: table_lens categories "\<lambda>t s. s\<lparr>categories := t\<rparr>" ca_id
  by unfold_locales simp_all

interpretation category_tree: invariant_system no_categories "category_step u" category_inv for u
  by unfold_locales (simp add: no_categories_def category_inv_def, rule category_step_inv)


section \<open>What the trees show\<close>

text \<open>Sorting and grouping under the roots loses and repeats nothing.\<close>

lemma mset_by_name [simp]: "mset (by_name rank cs) = mset cs"
  by (simp add: by_name_def)

lemma mset_under_roots:
  assumes "distinct (map ca_id rs)"
  shows "mset (concat (map (\<lambda>r. f r # map f (by_name rank (filter (\<lambda>c. ca_parentId c = Some (ca_id r) \<and> P c) cs))) rs))
    = image_mset f (mset rs + mset (filter (\<lambda>c. (\<exists>r \<in> set rs. ca_parentId c = Some (ca_id r)) \<and> P c) cs))"
  using assms
proof (induction rs)
  case (Cons r rs)
  have new: "ca_id r \<notin> ca_id ` set rs" using Cons.prems by simp
  have "mset (filter (\<lambda>c. (\<exists>q \<in> set (r # rs). ca_parentId c = Some (ca_id q)) \<and> P c) cs)
      = mset (filter (\<lambda>c. ca_parentId c = Some (ca_id r) \<and> P c) cs)
      + mset (filter (\<lambda>c. (\<exists>q \<in> set rs. ca_parentId c = Some (ca_id q)) \<and> P c) cs)"
    by (induction cs) (use new in \<open>auto simp: image_iff\<close>)
  then show ?case using Cons by (simp add: ac_simps)
qed simp

lemma category_placed:
  assumes "category_inv s" "c \<in> set (categories s)"
  shows "ca_parentId c = None \<or> (\<exists>r \<in> set (categories s). ca_parentId r = None \<and> ca_parentId c = Some (ca_id r))"
  using assms unfolding category_inv_def by (metis not_Some_eq)

lemma distinct_ids_by_name:
  "distinct (map ca_id cs) \<Longrightarrow> distinct (map ca_id (by_name rank (filter P cs)))"
  by (metis distinct_map_filter mset_by_name mset_eq_imp_distinct_iff mset_map)

definition shown_in :: "category_tree \<Rightarrow> category_view list" where
  "shown_in t = concat (map (\<lambda>(root, children). root # children) t)"

lemma tree_shows:
  assumes "category_inv s"
    and closed: "\<And>c p. c \<in> set (categories s) \<Longrightarrow> P c \<Longrightarrow> ca_parentId c = Some p \<Longrightarrow>
      \<exists>r \<in> set (categories s). ca_id r = p \<and> ca_parentId r = None \<and> P r"
  shows "mset (shown_in (map (\<lambda>r. (categorySelect r, map categorySelect
            (by_name rank (filter (\<lambda>c. ca_parentId c = Some (ca_id r) \<and> P c) (categories s)))))
          (by_name rank (filter (\<lambda>c. ca_parentId c = None \<and> P c) (categories s)))))
    = mset (map categorySelect (filter P (categories s)))"
proof -
  let ?rs = "by_name rank (filter (\<lambda>c. ca_parentId c = None \<and> P c) (categories s))"
  have roots: "set ?rs = {c \<in> set (categories s). ca_parentId c = None \<and> P c}"
    by (simp add: by_name_def)
  have d: "distinct (map ca_id ?rs)"
    using assms(1) by (intro distinct_ids_by_name) (simp add: category_inv_def)
  have child: "(\<exists>r \<in> set ?rs. ca_parentId c = Some (ca_id r)) \<and> P c \<longleftrightarrow> ca_parentId c \<noteq> None \<and> P c"
    if "c \<in> set (categories s)" for c
    unfolding roots using closed [OF that] by (cases "ca_parentId c") auto
  have "mset ?rs + mset (filter (\<lambda>c. (\<exists>r \<in> set ?rs. ca_parentId c = Some (ca_id r)) \<and> P c) (categories s))
      = mset (filter (\<lambda>c. ca_parentId c = None \<and> P c) (categories s))
      + mset (filter (\<lambda>c. ca_parentId c \<noteq> None \<and> P c) (categories s))"
  proof -
    have "filter (\<lambda>c. (\<exists>r \<in> set ?rs. ca_parentId c = Some (ca_id r)) \<and> P c) (categories s)
        = filter (\<lambda>c. ca_parentId c \<noteq> None \<and> P c) (categories s)"
      by (rule filter_cong [OF refl]) (rule child)
    then show ?thesis by (metis mset_by_name)
  qed
  also have "\<dots> = mset (filter P (categories s))"
    by (simp add: multiset_eq_iff)
  finally show ?thesis
    using mset_under_roots [OF d, of categorySelect rank P "categories s"]
    by (simp add: shown_in_def comp_def)
qed

lemma admin_tree_shows:
  assumes "category_inv s"
  shows "mset (shown_in (findAdminTree rank s)) = mset (map categorySelect (categories s))"
proof -
  have "\<exists>r \<in> set (categories s). ca_id r = p \<and> ca_parentId r = None \<and> True"
    if "c \<in> set (categories s)" "True" "ca_parentId c = Some p" for c p
    using assms that by (auto simp: category_inv_def)
  from tree_shows [OF assms this] show ?thesis by (simp add: findAdminTree_def)
qed

definition parents_live :: "db \<Rightarrow> bool" where
  "parents_live s \<longleftrightarrow>
     (\<forall>c \<in> set (categories s). \<forall>q \<in> set (categories s).
        ca_isActive c \<and> ca_parentId c = Some (ca_id q) \<longrightarrow> ca_isActive q)"

lemma active_tree_shows:
  assumes "category_inv s" "parents_live s"
  shows "mset (shown_in (findActiveTree rank s)) = mset (map categorySelect (filter ca_isActive (categories s)))"
proof -
  have "\<exists>r \<in> set (categories s). ca_id r = p \<and> ca_parentId r = None \<and> ca_isActive r"
    if "c \<in> set (categories s)" "ca_isActive c" "ca_parentId c = Some p" for c p
    using assms that unfolding category_inv_def parents_live_def by metis
  from tree_shows [OF assms(1) this] show ?thesis by (simp add: findActiveTree_def)
qed

lemma unique_category:
  "category_inv s \<Longrightarrow> q \<in> set (categories s) \<Longrightarrow> r \<in> set (categories s) \<Longrightarrow> ca_id q = ca_id r \<Longrightarrow> q = r"
  unfolding category_inv_def by (metis distinct_key_unique)

lemma category_by_id_Some:
  "category_by_id s cid = Some c \<Longrightarrow> c \<in> set (categories s) \<and> ca_id c = cid"
  by (auto simp: category_by_id_def dest!: find_SomeD)

lemma no_grandchildren:
  assumes "category_inv s" "c \<in> set (categories s)" "q \<in> set (categories s)" "ca_parentId c = Some (ca_id q)"
  shows "ca_parentId q = None"
proof -
  obtain r where "r \<in> set (categories s)" "ca_id r = ca_id q" "ca_parentId r = None"
    using assms(1,2,4) unfolding category_inv_def by blast
  then show ?thesis using unique_category [OF assms(1,3)] by metis
qed

text \<open>Called one after another, the operations never leave an active category under an inactive one.\<close>

lemma turn_parents_live:
  assumes "category_inv s" "parents_live s" "category_turn u s s'"
  shows "parents_live s'"
  using assms(3)
proof cases
  case (creates newId now dto admin v)
  obtain c where c: "categories s' = categories s @ [c]" "ca_id c = newId" "ca_isActive c"
      "ca_parentId c = cc_parentId dto"
      "\<And>p. cc_parentId dto = Some p \<Longrightarrow> \<exists>q \<in> set (categories s). ca_id q = p \<and> ca_parentId q = None \<and> ca_isActive q"
    using createCategory_Inr [OF creates(2)] by metis
  have "ca_isActive q" if d: "d \<in> set (categories s')" "ca_isActive d" "ca_parentId d = Some (ca_id q)"
      and q': "q \<in> set (categories s')" for d q
  proof (cases "q = c")
    case False
    then have q: "q \<in> set (categories s)" using q' c(1) by auto
    show ?thesis
    proof (cases "d = c")
      case True
      then obtain r where "r \<in> set (categories s)" "ca_id r = ca_id q" "ca_isActive r"
        using c(4,5) d(3) by metis
      then show ?thesis using unique_category [OF assms(1) q] by metis
    next
      case False
      then have "d \<in> set (categories s)" using d(1) c(1) by auto
      then show ?thesis using assms(2) q d(2,3) unfolding parents_live_def by blast
    qed
  qed (simp add: c(3))
  then show ?thesis unfolding parents_live_def by blast
next
  case (updates now cid dto2 admin v)
  obtain slug where "categories s' = map_rows (\<lambda>q. ca_id q = cid) (edit_category now dto2 slug) (categories s)"
    using updateCategory_Inr [OF updates] by metis
  then show ?thesis
    using assms(2) by (auto simp: parents_live_def set_map_rows edit_category_def split: if_splits)
next
  case (switches now cid isActive admin v)
  show ?thesis
  proof (cases "s' = s")
    case False
    obtain q c where q: "category_by_id s cid = Some q" "category_by_id s cid = Some c"
      "\<And>p. isActive \<Longrightarrow> ca_parentId q = Some p \<Longrightarrow> \<exists>r. category_by_id s p = Some r \<and> ca_isActive r"
      "categories s' = (if \<not> isActive \<and> ca_parentId c = None
         then map_rows (\<lambda>r. ca_parentId r = Some cid \<and> ca_isActive r) (switch_category now False)
                (map_rows (\<lambda>r. ca_id r = cid) (switch_category now isActive) (categories s))
         else map_rows (\<lambda>r. ca_id r = cid) (switch_category now isActive) (categories s))"
      by (rule setCategoryActivation_Inr [OF switches False]) blast
    have c: "c \<in> set (categories s)" "ca_id c = cid" "q = c" using q(1,2) category_by_id_Some by auto
    have par: "\<And>p r. isActive \<Longrightarrow> ca_parentId c = Some p \<Longrightarrow> r \<in> set (categories s) \<Longrightarrow> ca_id r = p \<Longrightarrow> ca_isActive r"
      using q(3) c(3) unique_category [OF assms(1)] category_by_id_Some by metis
    have one: "r \<in> set (categories s) \<Longrightarrow> ca_id r = cid \<Longrightarrow> r = c" for r
      using unique_category [OF assms(1) _ c(1)] c(2) by metis
    have leaf: "ca_parentId c \<noteq> None \<Longrightarrow> r \<in> set (categories s) \<Longrightarrow> ca_parentId r \<noteq> Some cid" for r
      using no_grandchildren [OF assms(1) _ c(1)] c(2) by metis
    define g where "g r = (let r1 = (if ca_id r = cid then switch_category now isActive r else r)
      in if \<not> isActive \<and> ca_parentId c = None \<and> ca_parentId r1 = Some cid \<and> ca_isActive r1
         then switch_category now False r1 else r1)" for r
    have g: "categories s' = map g (categories s)"
      by (cases "\<not> isActive \<and> ca_parentId c = None") (auto simp: q(4) g_def map_rows_def comp_def Let_def)
    have "ca_isActive y" if x: "x \<in> set (categories s')" "ca_isActive x" "ca_parentId x = Some (ca_id y)"
        and y: "y \<in> set (categories s')" for x y
    proof -
      have row: "\<exists>r \<in> set (categories s). ca_parentId z = ca_parentId r \<and> ca_id z = ca_id r \<and>
          ca_isActive z = (if ca_id r = cid then isActive
             else if \<not> isActive \<and> ca_parentId c = None \<and> ca_parentId r = Some cid then False else ca_isActive r)"
        if z: "z \<in> set (categories s')" for z
      proof -
        obtain r where r: "r \<in> set (categories s)" "z = g r" using z unfolding g by auto
        then show ?thesis
          by (intro bexI [of _ r]) (auto simp: g_def switch_category_def Let_def)
      qed
      obtain x0 where x0: "x0 \<in> set (categories s)" "ca_parentId x = ca_parentId x0" "ca_id x = ca_id x0"
          "ca_isActive x = (if ca_id x0 = cid then isActive
             else if \<not> isActive \<and> ca_parentId c = None \<and> ca_parentId x0 = Some cid then False else ca_isActive x0)"
        using row [OF x(1)] by (elim bexE conjE)
      obtain y0 where y0: "y0 \<in> set (categories s)" "ca_parentId y = ca_parentId y0" "ca_id y = ca_id y0"
          "ca_isActive y = (if ca_id y0 = cid then isActive
             else if \<not> isActive \<and> ca_parentId c = None \<and> ca_parentId y0 = Some cid then False else ca_isActive y0)"
        using row [OF y] by (elim bexE conjE)
      note xy = x0(1) y0(1) x0(2,3) y0(3) x0(4) y0(4)
      have up: "ca_parentId x0 = Some (ca_id y0)" using x(3) xy(3,5) by simp
      show ?thesis
      proof (cases "ca_id y0 = cid")
        case True
        show ?thesis
        proof (rule ccontr)
          assume "\<not> ca_isActive y"
          then have off: "\<not> isActive" using xy(7) True by simp
          then have "ca_id x0 \<noteq> cid" using xy(6) x(2) by auto
          moreover have "ca_parentId c = None" using leaf [OF _ xy(1)] up True by (metis)
          ultimately show False using xy(6) x(2) off up True by simp
        qed
      next
        case False
        have top: "ca_parentId y0 = None" by (rule no_grandchildren [OF assms(1) xy(1,2) up])
        then have kept: "ca_isActive y = ca_isActive y0" using xy(7) False by simp
        show ?thesis
        proof (cases "ca_id x0 = cid")
          case True
          then have "isActive" "x0 = c" using xy(6) x(2) one [OF xy(1)] by auto
          then show ?thesis using par [OF _ _ xy(2) refl] up kept by simp
        next
          case False
          then have "ca_isActive x0" using xy(6) x(2) by (auto split: if_splits)
          then show ?thesis using assms(2) xy(1,2) up kept unfolding parents_live_def by blast
        qed
      qed
    qed
    then show ?thesis unfolding parents_live_def by blast
  qed (simp add: assms(2))
qed

interpretation live_tree: invariant_system no_categories "category_turn u" "\<lambda>s. category_inv s \<and> parents_live s" for u
  by unfold_locales
    (simp add: no_categories_def category_inv_def parents_live_def,
     meson category_step_inv turn_is_step turn_parents_live)


section \<open>Properties\<close>

text \<open>C27: However the changes interleave, the tree an administrator sees shows every category exactly
  once: no category is ever lost under a parent that is not a root. And as long as the changes come
  one after another, the public tree shows exactly the active categories, each once.\<close>

theorem category_trees_are_complete:
  assumes "no_categories s0"
  shows "((category_step u)\<^sup>*\<^sup>* s0 s \<longrightarrow>
            mset (shown_in (findAdminTree rank s)) = mset (map categorySelect (categories s))) \<and>
         ((category_turn u)\<^sup>*\<^sup>* s0 s \<longrightarrow>
            mset (shown_in (findActiveTree rank s)) = mset (map categorySelect (filter ca_isActive (categories s))))"
  using category_tree.reachable_inv [OF assms, of u s] live_tree.reachable_inv [OF assms, of u s]
    admin_tree_shows active_tree_shows by blast

definition tree1 :: db where
  "tree1 = fst (projr (createCategory demo_unicode empty_db empty_db 0 1
     \<lparr>cc_name = ascii ''Home'', cc_description = None, cc_parentId = None\<rparr> 9))"

definition tree2 :: db where
  "tree2 = fst (projr (createCategory demo_unicode tree1 tree1 1 2
     \<lparr>cc_name = ascii ''Lamps'', cc_description = None, cc_parentId = Some 1\<rparr> 9))"

definition tree3 :: db where
  "tree3 = fst (projr (setCategoryActivation tree2 tree2 2 2 False 9))"

definition tree4 :: db where
  "tree4 = fst (projr (setCategoryActivation tree3 tree3 3 1 False 9))"

lemma turn_creates:
  assumes "newId \<notin> ca_id ` set (categories s)" "\<not> isl (createCategory u s s now newId dto admin)"
  shows "category_turn u s (fst (projr (createCategory u s s now newId dto admin)))"
  using category_turn.creates [OF assms(1)] assms(2) by (metis prod.collapse sum.collapse(2))

lemma tree_turns:
  "category_turn demo_unicode empty_db tree1" "category_turn demo_unicode tree1 tree2"
proof -
  have 1: "\<not> isl (createCategory demo_unicode empty_db empty_db 0 1
     \<lparr>cc_name = ascii ''Home'', cc_description = None, cc_parentId = None\<rparr> 9)"
    and 2: "\<not> isl (createCategory demo_unicode tree1 tree1 1 2
     \<lparr>cc_name = ascii ''Lamps'', cc_description = None, cc_parentId = Some 1\<rparr> 9)"
    and 3: "2 \<notin> ca_id ` set (categories tree1)"
    by code_simp+
  show "category_turn demo_unicode empty_db tree1"
    unfolding tree1_def by (rule turn_creates [OF _ 1]) (simp add: empty_db_def)
  show "category_turn demo_unicode tree1 tree2"
    unfolding tree2_def by (rule turn_creates [OF 3 2])
qed

theorem category_trees_are_complete_witness:
  "mset (map cat_slug (shown_in (findActiveTree length tree2))) = {#ascii ''home'', ascii ''lamps''#}"
proof -
  have "(category_turn demo_unicode)\<^sup>*\<^sup>* empty_db tree2"
    using tree_turns by (meson r_into_rtranclp rtranclp.rtrancl_into_rtrancl)
  moreover have "no_categories empty_db" by (simp add: no_categories_def empty_db_def)
  ultimately have "mset (shown_in (findActiveTree length tree2)) = mset (map categorySelect (filter ca_isActive (categories tree2)))"
    using category_trees_are_complete by blast
  moreover have "map cat_slug (map categorySelect (filter ca_isActive (categories tree2))) = [ascii ''home'', ascii ''lamps'']"
    by code_simp
  ultimately show ?thesis by (metis mset.simps(1) mset.simps(2) mset_map)
qed

text \<open>An activation that read its parent before the parent was deactivated still commits: the
  category is active, and the public tree does not show it.\<close>

theorem activation_race_hides_a_category:
  "let r = setCategoryActivation tree3 tree4 4 2 True 9
   in \<not> isl r \<and> cat_isActive (snd (projr r)) \<and> findActiveTree length (fst (projr r)) = [] \<and>
      setCategoryActivation tree4 tree4 4 2 True 9 = Inl (BadRequest ActivateParentFirst)"
  by code_simp

text \<open>No change to the categories goes unrecorded: a committed call either leaves the database as
  it was or adds exactly one entry to the log of administrators, naming the category, and then every
  category that is neither that one nor a child of it is left as it was.\<close>

theorem category_changes_are_logged:
  assumes "category_step u s s'"
  shows "s' = s \<or> (\<exists>a cid. adminActions s' = adminActions s @ [a] \<and> aa_categoryId a = Some cid \<and>
     aa_actionType a \<in> {CREATE_CATEGORY, UPDATE_CATEGORY, ACTIVATE_CATEGORY, DEACTIVATE_CATEGORY} \<and>
     (\<exists>c \<in> set (categories s'). ca_id c = cid) \<and>
     filter (\<lambda>c. ca_id c \<noteq> cid \<and> ca_parentId c \<noteq> Some cid) (categories s')
       = filter (\<lambda>c. ca_id c \<noteq> cid \<and> ca_parentId c \<noteq> Some cid) (categories s))"
  using assms
proof cases
  case (creates rd newId now dto admin v)
  obtain c where "categories s' = categories s @ [c]" "ca_id c = newId"
      "adminActions s' = adminActions s @ [category_action admin newId CREATE_CATEGORY (quoted ''Created'' (ca_name c))]"
    using createCategory_Inr [OF creates(3)] by metis
  then show ?thesis by (auto simp: category_action_def)
next
  case (updates rd now cid dto2 admin v)
  obtain c slug where c: "category_by_id s cid = Some c"
    "categories s' = map_rows (\<lambda>q. ca_id q = cid) (edit_category now dto2 slug) (categories s)"
    "adminActions s' = adminActions s @
       [category_action admin cid UPDATE_CATEGORY (quoted ''Updated'' (ca_name (edit_category now dto2 slug c)))]"
    using updateCategory_Inr [OF updates] by metis
  have "filter (\<lambda>c. ca_id c \<noteq> cid \<and> ca_parentId c \<noteq> Some cid) (categories s')
      = filter (\<lambda>c. ca_id c \<noteq> cid \<and> ca_parentId c \<noteq> Some cid) (categories s)"
    unfolding c(2) by (rule filter_map_rows) (simp add: edit_category_def)
  moreover have "edit_category now dto2 slug c \<in> set (categories s')" "ca_id (edit_category now dto2 slug c) = cid"
    using category_by_id_Some [OF c(1)] unfolding c(2) set_map_rows by (force simp: edit_category_def)+
  ultimately show ?thesis using c(3) by (auto simp: category_action_def)
next
  case (switches rd now cid isActive admin v)
  show ?thesis
  proof (cases "s' = s")
    case False
    let ?t = "map_rows (\<lambda>r. ca_id r = cid) (switch_category now isActive) (categories s)"
    obtain c where c: "category_by_id s cid = Some c"
      "categories s' = (if \<not> isActive \<and> ca_parentId c = None
         then map_rows (\<lambda>r. ca_parentId r = Some cid \<and> ca_isActive r) (switch_category now False) ?t else ?t)"
      "adminActions s' = adminActions s @
         [category_action admin cid (if isActive then ACTIVATE_CATEGORY else DEACTIVATE_CATEGORY)
            (quoted (if isActive then ''Activated'' else ''Deactivated'') (ca_name c))]"
      by (rule setCategoryActivation_Inr [OF switches False]) blast
    have 1: "filter (\<lambda>c. ca_id c \<noteq> cid \<and> ca_parentId c \<noteq> Some cid) ?t
        = filter (\<lambda>c. ca_id c \<noteq> cid \<and> ca_parentId c \<noteq> Some cid) (categories s)"
      by (rule filter_map_rows) (simp add: switch_category_def)
    have 2: "filter (\<lambda>c. ca_id c \<noteq> cid \<and> ca_parentId c \<noteq> Some cid) (categories s')
        = filter (\<lambda>c. ca_id c \<noteq> cid \<and> ca_parentId c \<noteq> Some cid) ?t"
      unfolding c(2) by (auto intro!: filter_map_rows simp: switch_category_def)
    have "map ca_id (categories s') = map ca_id (categories s)"
      by (simp add: c(2) map_map_rows_same switch_category_def)
    then have "ca_id ` set (categories s') = ca_id ` set (categories s)" by (metis list.set_map)
    then have "\<exists>r \<in> set (categories s'). ca_id r = cid"
      using category_by_id_Some [OF c(1)] by (metis imageE imageI)
    moreover note 2 [unfolded 1]
    ultimately show ?thesis using c(3) by (auto simp: category_action_def)
  qed simp
qed

lemma tree_differ: "tree2 \<noteq> tree1"
proof -
  have "length (categories tree2) \<noteq> length (categories tree1)" by code_simp
  then show ?thesis by metis
qed

theorem category_changes_are_logged_witness:
  "\<exists>a. adminActions tree2 = adminActions tree1 @ [a]"
  using category_changes_are_logged [OF turn_is_step [OF tree_turns(2)]]
  by (auto simp: tree_differ)

end
