(* ===== verification/Sensitive_Fields.thy ===== *)
theory Sensitive_Fields
  imports BN_Prelude
begin

text \<open>
  \<open>common/interceptors/sensitive-fields.interceptor.ts\<close>: the net that takes credential digests and
  sellers' private numbers out of a response body. JavaScript objects have identity, which the
  interceptor's \<open>seen\<close> set goes by, so a body is a value over a heap of arrays, plain objects and
  other objects (dates, decimals, instances of classes), which it does not walk. What it returns is
  a tree of new arrays and objects in which a value may be kept as the object it was. Keys are the
  own enumerable keys of an object, in order and distinct.
\<close>

section \<open>Values\<close>

datatype 'p js_value = Prim 'p | Ref nat

datatype 'p js_cell =
  Arr "'p js_value list"
| Plain "(string \<times> 'p js_value) list"
| Other "(string \<times> 'p js_value) list"

type_synonym 'p js_heap = "nat \<Rightarrow> 'p js_cell option"

datatype 'p js_out =
  Kept "'p js_value"
| NewArr "'p js_out list"
| NewObj "(string \<times> 'p js_out) list"

section \<open>The interceptor\<close>

definition NEVER :: "string list" where
  "NEVER = [''passwordHash'', ''refreshTokenHash'', ''codeHash'', ''tokenHash'', ''resetTokenHash'']"

definition OWNER_ONLY :: "string list" where
  "OWNER_ONLY = [''reservePrice'', ''negotiationFloor'']"

definition MAX_DEPTH :: nat where
  "MAX_DEPTH = 8"

text \<open>The state is what was seen and the forbidden keys found, in order.\<close>

type_synonym scrub_state = "nat list \<times> string list"

function (sequential)
  scrub :: "'p js_heap \<Rightarrow> string list \<Rightarrow> nat \<Rightarrow> scrub_state \<Rightarrow> 'p js_value \<Rightarrow> 'p js_out \<times> scrub_state"
and scrub_items :: "'p js_heap \<Rightarrow> string list \<Rightarrow> nat \<Rightarrow> scrub_state \<Rightarrow> 'p js_value list
    \<Rightarrow> 'p js_out list \<times> scrub_state"
and scrub_fields :: "'p js_heap \<Rightarrow> string list \<Rightarrow> nat \<Rightarrow> scrub_state \<Rightarrow> (string \<times> 'p js_value) list
    \<Rightarrow> (string \<times> 'p js_out) list \<times> scrub_state"
where
  "scrub h forbidden depth (seen, found) (Prim p) = (Kept (Prim p), seen, found)"
| "scrub h forbidden depth (seen, found) (Ref a) =
     (if depth > MAX_DEPTH then (Kept (Ref a), seen, found)
      else if a \<in> set seen then (Kept (Ref a), seen, found)
      else (case h a of
              None \<Rightarrow> (Kept (Ref a), seen, found)
            | Some (Other fs) \<Rightarrow> (Kept (Ref a), seen, found)
            | Some (Arr vs) \<Rightarrow>
                (let (os, st) = scrub_items h forbidden (depth + 1) (a # seen, found) vs in (NewArr os, st))
            | Some (Plain fs) \<Rightarrow>
                (let (os, st) = scrub_fields h forbidden (depth + 1) (a # seen, found) fs in (NewObj os, st))))"
| "scrub_items h forbidden depth st [] = ([], st)"
| "scrub_items h forbidden depth st (v # vs) =
     (let (out, st1) = scrub h forbidden depth st v;
          (os, st2) = scrub_items h forbidden depth st1 vs
      in (out # os, st2))"
| "scrub_fields h forbidden depth st [] = ([], st)"
| "scrub_fields h forbidden depth (seen, found) ((key, item) # fs) =
     (if key \<in> set forbidden then scrub_fields h forbidden depth (seen, found @ [key]) fs
      else
        let (out, st1) = scrub h forbidden depth (seen, found) item;
            (os, st2) = scrub_fields h forbidden depth st1 fs
        in ((key, out) # os, st2))"
  by pat_completeness auto
termination
  by (relation "measures
      [\<lambda>x. case x of Inl (h, f, d, st, v) \<Rightarrow> MAX_DEPTH + 1 - d
            | Inr (Inl (h, f, d, st, vs)) \<Rightarrow> MAX_DEPTH + 1 - d
            | Inr (Inr (h, f, d, st, fs)) \<Rightarrow> MAX_DEPTH + 1 - d,
       \<lambda>x. case x of Inl _ \<Rightarrow> 0
            | Inr (Inl (h, f, d, st, vs)) \<Rightarrow> Suc (length vs)
            | Inr (Inr (h, f, d, st, fs)) \<Rightarrow> Suc (length fs)]")
    auto

text \<open>The body as the handler returned it, a cleaned copy, or the exception that names the fields.\<close>

datatype 'p response = Body "'p js_value" | Cleaned "'p js_out" | Leak "string list"

definition forbidden_for :: "bool \<Rightarrow> string list" where
  "forbidden_for ownerAllowed = (if ownerAllowed then NEVER else NEVER @ OWNER_ONLY)"

definition intercept :: "bool \<Rightarrow> bool \<Rightarrow> 'p js_heap \<Rightarrow> 'p js_value \<Rightarrow> 'p response" where
  "intercept throwOnLeak ownerAllowed h body =
     (let (cleaned, seen, found) = scrub h (forbidden_for ownerAllowed) 0 ([], []) body
      in if found = [] then Body body
         else if throwOnLeak then Leak (set_of found)
         else Cleaned cleaned)"

section \<open>What it should do\<close>

text \<open>
  A body without sharing is a tree: \<open>stored h A v j\<close> says that \<open>v\<close> is the tree \<open>j\<close>, laid out at the
  addresses \<open>A\<close>, each used once.
\<close>

datatype 'p tree = Leaf "'p js_value" | Items "'p tree list" | Fields "(string \<times> 'p tree) list"

inductive stored :: "'p js_heap \<Rightarrow> nat set \<Rightarrow> 'p js_value \<Rightarrow> 'p tree \<Rightarrow> bool"
  and stored_items :: "'p js_heap \<Rightarrow> nat set \<Rightarrow> 'p js_value list \<Rightarrow> 'p tree list \<Rightarrow> bool"
  and stored_fields :: "'p js_heap \<Rightarrow> nat set \<Rightarrow> (string \<times> 'p js_value) list \<Rightarrow> (string \<times> 'p tree) list \<Rightarrow> bool"
  for h where
  prim: "stored h {} (Prim p) (Leaf (Prim p))"
| other: "h a = Some (Other fs) \<Longrightarrow> stored h {} (Ref a) (Leaf (Ref a))"
| arr: "h a = Some (Arr vs) \<Longrightarrow> stored_items h A vs js \<Longrightarrow> a \<notin> A \<Longrightarrow> stored h (insert a A) (Ref a) (Items js)"
| obj: "h a = Some (Plain fs) \<Longrightarrow> stored_fields h A fs js \<Longrightarrow> a \<notin> A \<Longrightarrow>
    stored h (insert a A) (Ref a) (Fields js)"
| no_items: "stored_items h {} [] []"
| items: "stored h A v j \<Longrightarrow> stored_items h B vs js \<Longrightarrow> A \<inter> B = {} \<Longrightarrow>
    stored_items h (A \<union> B) (v # vs) (j # js)"
| no_fields: "stored_fields h {} [] []"
| fields: "stored h A v j \<Longrightarrow> stored_fields h B fs js \<Longrightarrow> A \<inter> B = {} \<Longrightarrow>
    stored_fields h (A \<union> B) ((k, v) # fs) ((k, j) # js)"

text \<open>Levels of arrays and objects; the tree without its forbidden fields; the fields left out.\<close>

fun levels :: "'p tree \<Rightarrow> nat" where
  "levels (Leaf v) = 0"
| "levels (Items js) = Suc (fold max (map levels js) 0)"
| "levels (Fields fs) = Suc (fold max (map (\<lambda>(k, j). levels j) fs) 0)"

fun strip :: "string list \<Rightarrow> 'p tree \<Rightarrow> 'p js_out" where
  "strip forbidden (Leaf v) = Kept v"
| "strip forbidden (Items js) = NewArr (map (strip forbidden) js)"
| "strip forbidden (Fields fs) =
     NewObj (map (\<lambda>(k, j). (k, strip forbidden j)) (filter (\<lambda>(k, j). k \<notin> set forbidden) fs))"

fun leaks :: "string list \<Rightarrow> 'p tree \<Rightarrow> string list" where
  "leaks forbidden (Leaf v) = []"
| "leaks forbidden (Items js) = concat (map (leaks forbidden) js)"
| "leaks forbidden (Fields fs) =
     concat (map (\<lambda>(k, j). if k \<in> set forbidden then [k] else leaks forbidden j) fs)"

fun out_keys :: "'p js_out \<Rightarrow> string set" where
  "out_keys (Kept v) = {}"
| "out_keys (NewArr os) = \<Union> (set (map out_keys os))"
| "out_keys (NewObj fs) = \<Union> (set (map (\<lambda>(k, out). insert k (out_keys out)) fs))"

fun tree_keys :: "'p tree \<Rightarrow> string set" where
  "tree_keys (Leaf v) = {}"
| "tree_keys (Items js) = \<Union> (set (map tree_keys js))"
| "tree_keys (Fields fs) = \<Union> (set (map (\<lambda>(k, j). insert k (tree_keys j)) fs))"

lemma fold_max_le: "fold max ns m \<le> n \<longleftrightarrow> m \<le> n \<and> (\<forall>x \<in> set ns. x \<le> n)" for ns :: "nat list"
  by (induction ns arbitrary: m) auto

lemma strip_has_no_forbidden: "out_keys (strip F j) \<inter> set F = {}"
  by (induction F j rule: strip.induct) fastforce+

lemma UN_Int_empty: "(\<Union>x \<in> S. X x) \<inter> F = {} \<longleftrightarrow> (\<forall>x \<in> S. X x \<inter> F = {})"
  by blast

lemma no_leaks_iff: "leaks F j = [] \<longleftrightarrow> tree_keys j \<inter> set F = {}"
proof (induction F j rule: leaks.induct)
  case (3 F fs)
  have "(if k \<in> set F then [k] else leaks F j) = [] \<longleftrightarrow> insert k (tree_keys j) \<inter> set F = {}"
    if "(k, j) \<in> set fs" for k j
    using 3 [OF that] by auto
  then have "(\<forall>(k, j) \<in> set fs. (if k \<in> set F then [k] else leaks F j) = []) \<longleftrightarrow>
      (\<forall>(k, j) \<in> set fs. insert k (tree_keys j) \<inter> set F = {})"
    by fast
  moreover have "leaks F (Fields fs) = [] \<longleftrightarrow> (\<forall>(k, j) \<in> set fs. (if k \<in> set F then [k] else leaks F j) = [])"
    unfolding leaks.simps concat_eq_Nil_conv by auto
  moreover have "tree_keys (Fields fs) \<inter> set F = {} \<longleftrightarrow> (\<forall>(k, j) \<in> set fs. insert k (tree_keys j) \<inter> set F = {})"
    by (simp add: case_prod_unfold UN_Int_empty)
  ultimately show ?case by (simp only:)
next
  case (2 F js)
  then show ?case by (auto simp: UN_Int_empty)
qed auto

lemma scrub_stored:
  "stored h A v j \<Longrightarrow> levels j + d \<le> MAX_DEPTH + 1 \<Longrightarrow> A \<inter> set seen = {} \<Longrightarrow>
     \<exists>seen'. scrub h F d (seen, found) v = (strip F j, seen', found @ leaks F j) \<and> set seen' \<subseteq> set seen \<union> A"
  "stored_items h A vs js \<Longrightarrow> \<forall>j \<in> set js. levels j + d \<le> MAX_DEPTH + 1 \<Longrightarrow> A \<inter> set seen = {} \<Longrightarrow>
     \<exists>seen'. scrub_items h F d (seen, found) vs = (map (strip F) js, seen', found @ concat (map (leaks F) js)) \<and>
       set seen' \<subseteq> set seen \<union> A"
  "stored_fields h A fs ks \<Longrightarrow> \<forall>(k, j) \<in> set ks. levels j + d \<le> MAX_DEPTH + 1 \<Longrightarrow> A \<inter> set seen = {} \<Longrightarrow>
     \<exists>seen'. scrub_fields h F d (seen, found) fs
       = (map (\<lambda>(k, j). (k, strip F j)) (filter (\<lambda>(k, j). k \<notin> set F) ks), seen',
          found @ concat (map (\<lambda>(k, j). if k \<in> set F then [k] else leaks F j) ks)) \<and>
       set seen' \<subseteq> set seen \<union> A"
proof (induction arbitrary: d seen found and d seen found and d seen found
    rule: stored_stored_items_stored_fields.inducts)
  case (arr a vs A js)
  have "\<forall>j \<in> set js. levels j + (d + 1) \<le> MAX_DEPTH + 1" "d \<le> MAX_DEPTH"
    using arr.prems(1) fold_max_le [of "map levels js" 0 "MAX_DEPTH - d"] by auto
  moreover have "A \<inter> set (a # seen) = {}" using arr.prems(2) arr(4) by auto
  ultimately obtain seen' where
    "scrub_items h F (d + 1) (a # seen, found) vs = (map (strip F) js, seen', found @ concat (map (leaks F) js))"
    "set seen' \<subseteq> set (a # seen) \<union> A"
    using arr(3) by blast
  then show ?case using arr(1) arr.prems(2) \<open>d \<le> MAX_DEPTH\<close> by auto
next
  case (obj a fs A ks)
  have "\<forall>(k, j) \<in> set ks. levels j + (d + 1) \<le> MAX_DEPTH + 1" "d \<le> MAX_DEPTH"
    using obj.prems(1) fold_max_le [of "map (\<lambda>(k, j). levels j) ks" 0 "MAX_DEPTH - d"] by auto
  moreover have "A \<inter> set (a # seen) = {}" using obj.prems(2) obj(4) by auto
  ultimately obtain seen' where
    "scrub_fields h F (d + 1) (a # seen, found) fs
      = (map (\<lambda>(k, j). (k, strip F j)) (filter (\<lambda>(k, j). k \<notin> set F) ks), seen',
         found @ concat (map (\<lambda>(k, j). if k \<in> set F then [k] else leaks F j) ks))"
    "set seen' \<subseteq> set (a # seen) \<union> A"
    using obj(3) by blast
  then show ?case using obj(1) obj.prems(2) \<open>d \<le> MAX_DEPTH\<close> by auto
next
  case (items A v j B vs js)
  have A: "A \<inter> set seen = {}" and lv: "levels j + d \<le> MAX_DEPTH + 1" "\<forall>j \<in> set js. levels j + d \<le> MAX_DEPTH + 1"
    using items.prems by auto
  obtain s1 where s1: "scrub h F d (seen, found) v = (strip F j, s1, found @ leaks F j)" "set s1 \<subseteq> set seen \<union> A"
    using items(2) [OF lv(1) A] by blast
  have B: "B \<inter> set s1 = {}" using s1(2) items(5) items.prems(2) by blast
  obtain s2 where "scrub_items h F d (s1, found @ leaks F j) vs
      = (map (strip F) js, s2, (found @ leaks F j) @ concat (map (leaks F) js))" "set s2 \<subseteq> set s1 \<union> B"
    using items(4) [OF lv(2) B] by blast
  then show ?case using s1 by auto
next
  case (fields A v j B fs ks k)
  have A: "A \<inter> set seen = {}" and B0: "B \<inter> set seen = {}"
    and lv: "levels j + d \<le> MAX_DEPTH + 1" "\<forall>(k, j) \<in> set ks. levels j + d \<le> MAX_DEPTH + 1"
    using fields.prems by auto
  show ?case
  proof (cases "k \<in> set F")
    case True
    obtain s2 where "scrub_fields h F d (seen, found @ [k]) fs
        = (map (\<lambda>(k, j). (k, strip F j)) (filter (\<lambda>(k, j). k \<notin> set F) ks), s2,
           (found @ [k]) @ concat (map (\<lambda>(k, j). if k \<in> set F then [k] else leaks F j) ks))"
        "set s2 \<subseteq> set seen \<union> B"
      using fields(4) [OF lv(2) B0] by blast
    then show ?thesis using True by auto
  next
    case False
    obtain s1 where s1: "scrub h F d (seen, found) v = (strip F j, s1, found @ leaks F j)" "set s1 \<subseteq> set seen \<union> A"
      using fields(2) [OF lv(1) A] by blast
    have B: "B \<inter> set s1 = {}" using s1(2) fields(5) B0 by blast
    obtain s2 where "scrub_fields h F d (s1, found @ leaks F j) fs
        = (map (\<lambda>(k, j). (k, strip F j)) (filter (\<lambda>(k, j). k \<notin> set F) ks), s2,
           (found @ leaks F j) @ concat (map (\<lambda>(k, j). if k \<in> set F then [k] else leaks F j) ks))"
        "set s2 \<subseteq> set s1 \<union> B"
      using fields(4) [OF lv(2) B] by blast
    then show ?thesis using False s1 by auto
  qed
qed auto

section \<open>Properties\<close>


definition demo_heap :: "nat js_heap" where
  "demo_heap a = (if a = 1 then Some (Plain [(''title'', Prim 7), (''seller'', Ref 2), (''reservePrice'', Prim 9)])
     else if a = 2 then Some (Plain [(''id'', Prim 5), (''passwordHash'', Prim 8)])
     else if a = 3 then Some (Plain [(''first'', Ref 2), (''second'', Ref 2)])
     else None)"


text \<open>A body that names one object twice is not clean: the second mention is passed on as the object
  it was, with the digest in it, and nothing below the ninth level is looked at.\<close>

theorem shared_objects_are_not_scrubbed:
  "intercept False False demo_heap (Ref 3)
     = Cleaned (NewObj [(''first'', NewObj [(''id'', Kept (Prim 5))]), (''second'', Kept (Ref 2))]) \<and>
   demo_heap 2 = Some (Plain [(''id'', Prim 5), (''passwordHash'', Prim 8)]) \<and>
   intercept True False (\<lambda>a. if a < 9 then Some (Arr [Ref (a + 1)])
     else Some (Plain [(''passwordHash'', Prim (8 :: nat))])) (Ref 0) = Body (Ref 0)"
  by code_simp

end
