(* ===== verification/Watchlist_Service.thy ===== *)
theory Watchlist_Service
  imports Live_Service Product_Service
begin

text \<open>
  \<open>watchlist/watchlist.service.ts\<close> and \<open>product-watchlist/product-watchlist.service.ts\<close>: following an
  auction or a listing, the list of what one follows and the number in the header. The two services
  do the same to two tables: \<open>follow\<close> and \<open>unfollow\<close> are what they do to the rows, and the locale
  \<open>follow_list\<close> is their contract, a set of pairs of a person and what they follow.
\<close>

section \<open>Rows\<close>

definition is_follow :: "uuid \<Rightarrow> uuid \<Rightarrow> watch_row \<Rightarrow> bool" where
  "is_follow userId targetId w \<longleftrightarrow> wa_userId w = userId \<and> wa_targetId w = targetId"

text \<open>The upsert with an empty update, and the delete with its count.\<close>

definition follow :: "instant \<Rightarrow> uuid \<Rightarrow> uuid \<Rightarrow> watch_row list \<Rightarrow> watch_row list \<times> instant" where
  "follow now userId targetId t =
     (case find (is_follow userId targetId) t of
        Some w \<Rightarrow> (t, wa_createdAt w)
      | None \<Rightarrow> (t @ [\<lparr>wa_userId = userId, wa_targetId = targetId, wa_createdAt = now\<rparr>], now))"

definition unfollow :: "uuid \<Rightarrow> uuid \<Rightarrow> watch_row list \<Rightarrow> watch_row list \<times> bool" where
  "unfollow userId targetId t =
     (delete_many (is_follow userId targetId) t, count_rows (is_follow userId targetId) t = 1)"

text \<open>Most recent first, ties by the id of what is followed.\<close>

definition newest_follows :: "watch_row list \<Rightarrow> watch_row list" where
  "newest_follows t = sort_key (\<lambda>w. (- wa_createdAt w, wa_targetId w)) t"

section \<open>Auctions\<close>

definition DEFAULT_WATCHLIST_PAGE_SIZE :: nat where
  "DEFAULT_WATCHLIST_PAGE_SIZE = 20"

definition assertAuctionIsPublic :: "db \<Rightarrow> uuid \<Rightarrow> error + unit" where
  "assertAuctionIsPublic s auctionId =
     (case find (\<lambda>a. au_id a = auctionId \<and> is_public a) (auctions s) of
        None \<Rightarrow> Inl (NotFound Auction)
      | Some a \<Rightarrow> Inr ())"

text \<open>\<open>rd\<close> is what the check read, \<open>wr\<close> what the upsert found.\<close>

definition watchAuction :: "db \<Rightarrow> db \<Rightarrow> instant \<Rightarrow> uuid \<Rightarrow> uuid \<Rightarrow> error + (db \<times> instant)" where
  "watchAuction rd wr now auctionId userId =
     (case assertAuctionIsPublic rd auctionId of
        Inl e \<Rightarrow> Inl e
      | Inr _ \<Rightarrow>
          (let (t, watchedAt) = follow now userId auctionId (watchlists wr)
           in Inr (wr\<lparr>watchlists := t\<rparr>, watchedAt)))"

definition unwatchAuction :: "db \<Rightarrow> uuid \<Rightarrow> uuid \<Rightarrow> db \<times> bool" where
  "unwatchAuction s auctionId userId =
     (let (t, removed) = unfollow userId auctionId (watchlists s) in (s\<lparr>watchlists := t\<rparr>, removed))"

definition own_auction_follow :: "db \<Rightarrow> uuid \<Rightarrow> watch_row \<Rightarrow> bool" where
  "own_auction_follow s userId w \<longleftrightarrow>
     wa_userId w = userId \<and>
     (case find_auction s (wa_targetId w) of None \<Rightarrow> False | Some a \<Rightarrow> is_public a)"

definition findWinners :: "db \<Rightarrow> uuid list \<Rightarrow> uuid \<Rightarrow> (uuid \<times> public_bid) list" where
  "findWinners s auctionIds viewerId =
     List.map_filter (\<lambda>b.
       map_option (\<lambda>a. (au_id a, toPublicBid s (Some viewerId) b))
         (find (\<lambda>a. au_winningBidId a = Some (bi_id b) \<and> au_id a \<in> set auctionIds) (auctions s))) (bids s)"

record watched_auction =
  wd_watchedAt :: instant
  wd_auction :: auction_view
  wd_countdown :: countdown
  wd_result :: "auction_result option"

definition listWatchedAuctions ::
  "db \<Rightarrow> instant \<Rightarrow> uuid \<Rightarrow> nat option \<Rightarrow> nat option \<Rightarrow> watched_auction list \<times> meta" where
  "listWatchedAuctions s now userId page_opt limit_opt =
     (let page = or_default page_opt 1;
          limit = or_default limit_opt DEFAULT_WATCHLIST_PAGE_SIZE;
          own = filter (own_auction_follow s userId) (watchlists s);
          entries = List.map_filter (\<lambda>w. map_option (\<lambda>a. (w, a)) (find_auction s (wa_targetId w)))
            (page_of page limit (newest_follows own));
          winners = map_of (rev (findWinners s (map (\<lambda>(w, a). au_id a) entries) userId))
      in (map (\<lambda>(w, a).
             let view = (if au_sellerId a = userId then toOwnerAuction s a else PublicView (toPublicAuction s a))
             in \<lparr>wd_watchedAt = wa_createdAt w, wd_auction = view,
                 wd_countdown = calculateCountdown (public_part view) now,
                 wd_result = describeAuctionResult (public_part view) (winners (au_id a))\<rparr>) entries,
          meta_of page limit (count_rows (own_auction_follow s userId) (watchlists s))))"

definition countWatchedAuctions :: "db \<Rightarrow> uuid \<Rightarrow> nat" where
  "countWatchedAuctions s userId = count_rows (own_auction_follow s userId) (watchlists s)"

section \<open>Listings\<close>

definition PUBLIC_PRODUCT_STATUSES :: "product_status list" where
  "PUBLIC_PRODUCT_STATUSES = [P_ACTIVE, P_OUT_OF_STOCK]"

definition assertProductIsPublic :: "db \<Rightarrow> uuid \<Rightarrow> error + unit" where
  "assertProductIsPublic s productId =
     (case find (\<lambda>p. pr_id p = productId \<and> pr_status p \<in> set PUBLIC_PRODUCT_STATUSES) (products s) of
        None \<Rightarrow> Inl (NotFound Product)
      | Some p \<Rightarrow> Inr ())"

definition watchProduct :: "db \<Rightarrow> db \<Rightarrow> instant \<Rightarrow> uuid \<Rightarrow> uuid \<Rightarrow> error + (db \<times> instant)" where
  "watchProduct rd wr now productId userId =
     (case assertProductIsPublic rd productId of
        Inl e \<Rightarrow> Inl e
      | Inr _ \<Rightarrow>
          (let (t, watchedAt) = follow now userId productId (productWatchlists wr)
           in Inr (wr\<lparr>productWatchlists := t\<rparr>, watchedAt)))"

definition unwatchProduct :: "db \<Rightarrow> uuid \<Rightarrow> uuid \<Rightarrow> db \<times> bool" where
  "unwatchProduct s productId userId =
     (let (t, removed) = unfollow userId productId (productWatchlists s)
      in (s\<lparr>productWatchlists := t\<rparr>, removed))"

definition own_product_follow :: "db \<Rightarrow> uuid \<Rightarrow> watch_row \<Rightarrow> bool" where
  "own_product_follow s userId w \<longleftrightarrow>
     wa_userId w = userId \<and>
     (case find_product s (wa_targetId w) of None \<Rightarrow> False
      | Some p \<Rightarrow> pr_status p \<in> set PUBLIC_PRODUCT_STATUSES)"

definition listWatchedProducts ::
  "db \<Rightarrow> uuid \<Rightarrow> nat option \<Rightarrow> nat option \<Rightarrow> (instant \<times> public_product) list \<times> meta" where
  "listWatchedProducts s userId page_opt limit_opt =
     (let page = or_default page_opt 1;
          limit = or_default limit_opt DEFAULT_WATCHLIST_PAGE_SIZE;
          own = filter (own_product_follow s userId) (productWatchlists s)
      in (List.map_filter (\<lambda>w. map_option (\<lambda>p. (wa_createdAt w, toPublicProduct s p))
             (find_product s (wa_targetId w))) (page_of page limit (newest_follows own)),
          meta_of page limit (count_rows (own_product_follow s userId) (productWatchlists s))))"

definition countWatchedProducts :: "db \<Rightarrow> uuid \<Rightarrow> nat" where
  "countWatchedProducts s userId = count_rows (own_product_follow s userId) (productWatchlists s)"

section \<open>The contract\<close>

definition pair_of :: "watch_row \<Rightarrow> uuid \<times> uuid" where
  "pair_of w = (wa_userId w, wa_targetId w)"

lemma is_follow_pair: "is_follow u t w \<longleftrightarrow> pair_of w = (u, t)"
  by (simp add: is_follow_def pair_of_def)

locale follow_list =
  fixes rows :: "'s \<Rightarrow> watch_row list"
    and watch :: "'s \<Rightarrow> 's \<Rightarrow> instant \<Rightarrow> uuid \<Rightarrow> uuid \<Rightarrow> error + ('s \<times> instant)"
    and unwatch :: "'s \<Rightarrow> uuid \<Rightarrow> uuid \<Rightarrow> 's \<times> bool"
    and open_to_all :: "'s \<Rightarrow> uuid \<Rightarrow> bool"
  assumes watch_open: "\<not> isl (watch rd wr now t u) \<longleftrightarrow> open_to_all rd t"
    and watch_rows: "watch rd wr now t u = Inr (s', since) \<Longrightarrow> (rows s', since) = follow now u t (rows wr)"
    and unwatch_rows: "unwatch s t u = (s', removed) \<Longrightarrow> (rows s', removed) = unfollow u t (rows s)"
begin

lemma watch_inserts:
  assumes "watch rd wr now t u = Inr (s', since)"
  shows "pair_of ` set (rows s') = insert (u, t) (pair_of ` set (rows wr))"
    and "distinct (map pair_of (rows wr)) \<Longrightarrow> distinct (map pair_of (rows s'))"
    and "set (rows wr) \<subseteq> set (rows s')"
    and "\<exists>w \<in> set (rows s'). pair_of w = (u, t) \<and> wa_createdAt w = since"
    and "(u, t) \<in> pair_of ` set (rows wr) \<Longrightarrow> rows s' = rows wr"
proof -
  have "pair_of ` set (rows s') = insert (u, t) (pair_of ` set (rows wr)) \<and>
      (distinct (map pair_of (rows wr)) \<longrightarrow> distinct (map pair_of (rows s'))) \<and>
      set (rows wr) \<subseteq> set (rows s') \<and>
      (\<exists>w \<in> set (rows s'). pair_of w = (u, t) \<and> wa_createdAt w = since) \<and>
      ((u, t) \<in> pair_of ` set (rows wr) \<longrightarrow> rows s' = rows wr)"
  proof (cases "find (is_follow u t) (rows wr)")
    case None
    then have new: "(u, t) \<notin> pair_of ` set (rows wr)"
      by (auto simp: find_None_iff is_follow_pair)
    show ?thesis
      using watch_rows [OF assms] None new by (auto simp: follow_def pair_of_def)
  next
    case (Some w)
    then have w: "w \<in> set (rows wr)" "pair_of w = (u, t)"
      by (auto simp: is_follow_pair dest!: find_SomeD)
    then have "(u, t) \<in> pair_of ` set (rows wr)" by (metis imageI)
    then show ?thesis
      using watch_rows [OF assms] Some w by (auto simp: follow_def)
  qed
  then show "pair_of ` set (rows s') = insert (u, t) (pair_of ` set (rows wr))"
    and "distinct (map pair_of (rows wr)) \<Longrightarrow> distinct (map pair_of (rows s'))"
    and "set (rows wr) \<subseteq> set (rows s')"
    and "\<exists>w \<in> set (rows s'). pair_of w = (u, t) \<and> wa_createdAt w = since"
    and "(u, t) \<in> pair_of ` set (rows wr) \<Longrightarrow> rows s' = rows wr"
    by blast+
qed

lemma unwatch_removes:
  assumes "unwatch s t u = (s', removed)" "distinct (map pair_of (rows s))"
  shows "pair_of ` set (rows s') = pair_of ` set (rows s) - {(u, t)}"
    and "removed \<longleftrightarrow> (u, t) \<in> pair_of ` set (rows s)"
    and "distinct (map pair_of (rows s'))"
proof -
  have r: "rows s' = filter (\<lambda>w. pair_of w \<noteq> (u, t)) (rows s)"
    and c: "removed \<longleftrightarrow> count_rows (\<lambda>w. pair_of w = (u, t)) (rows s) = 1"
    using unwatch_rows [OF assms(1)] by (simp_all add: unfollow_def delete_many_def is_follow_pair [abs_def])
  show "pair_of ` set (rows s') = pair_of ` set (rows s) - {(u, t)}" by (auto simp: r)
  show "distinct (map pair_of (rows s'))" by (simp add: r assms(2) distinct_map_filter)
  show "removed \<longleftrightarrow> (u, t) \<in> pair_of ` set (rows s)"
    using count_rows_key_1_iff [OF assms(2), of "\<lambda>w. pair_of w = (u, t)" "(u, t)"] c
    by (auto simp: image_iff eq_commute)
qed

end

interpretation auction_follows: follow_list watchlists watchAuction unwatchAuction
    "\<lambda>s t. \<exists>a \<in> set (auctions s). au_id a = t \<and> is_public a"
  by unfold_locales
    (auto simp: watchAuction_def assertAuctionIsPublic_def unwatchAuction_def find_None_iff
      split: option.splits prod.splits dest!: find_SomeD)

interpretation product_follows: follow_list productWatchlists watchProduct unwatchProduct
    "\<lambda>s t. \<exists>p \<in> set (products s). pr_id p = t \<and> pr_status p \<in> set PUBLIC_PRODUCT_STATUSES"
  by unfold_locales
    (auto simp: watchProduct_def assertProductIsPublic_def unwatchProduct_def find_None_iff
      split: option.splits prod.splits dest!: find_SomeD)

end
