(* ===== verification/Watchlist_Properties.thy ===== *)
theory Watchlist_Properties
  imports Watchlist_Service Auction_Demo
begin

text \<open>
  The watchlist against what it stands for: a set of pairs of a person and an auction, of which the
  pages show the public ones.
\<close>

section \<open>Properties\<close>

definition following :: "db \<Rightarrow> (uuid \<times> uuid) set" where
  "following s = pair_of ` set (watchlists s)"

definition item_id :: "watched_auction \<Rightarrow> uuid" where
  "item_id i = pa_id (public_part (wd_auction i))"

lemma set_newest [simp]: "set (newest_follows t) = set t"
  and length_newest [simp]: "length (newest_follows t) = length t"
  by (simp_all add: newest_follows_def)

lemma listed_ids:
  "map item_id (fst (listWatchedAuctions s now u (Some p) (Some limit)))
     = map wa_targetId (page_of p limit (newest_follows (filter (own_auction_follow s u) (watchlists s))))"
proof -
  let ?own = "newest_follows (filter (own_auction_follow s u) (watchlists s))"
  have "map_option (\<lambda>a. (w, a)) (find_auction s (wa_targetId w)) = Some (w, the (find_auction s (wa_targetId w)))"
    if "w \<in> set (page_of p limit ?own)" for w
    using that set_page_of [of p limit ?own] by (auto simp: own_auction_follow_def split: option.splits)
  note entries = map_filter_all [OF this]
  have "au_id (the (find_auction s (wa_targetId w))) = wa_targetId w"
    if "w \<in> set (page_of p limit ?own)" for w
  proof -
    have "own_auction_follow s u w" using that set_page_of [of p limit ?own] by auto
    then obtain a where "find_auction s (wa_targetId w) = Some a"
      by (auto simp: own_auction_follow_def split: option.splits)
    then show ?thesis by (auto simp: find_auction_def dest!: find_SomeD)
  qed
  then show ?thesis
    by (auto simp: listWatchedAuctions_def or_default_def Let_def entries item_id_def public_part_def
        toOwnerAuction_def toPublicAuction_def comp_def)
qed

text \<open>A watchlist is a set. Following a public auction adds that one pair, once, and keeps the time
  it was first followed; unfollowing takes that one pair away and says whether it was there; nobody
  else's list changes. The number in the header is the number of entries on all pages together, and
  they are exactly the followed auctions that are public, each once.\<close>

theorem watchlist_is_a_set:
  assumes keys: "distinct (map pair_of (watchlists s))" and limit: "0 < limit"
  shows "(watchAuction rd s now aid u = Inr (s1, since) \<longrightarrow>
            following s1 = insert (u, aid) (following s) \<and> distinct (map pair_of (watchlists s1)) \<and>
            set (watchlists s) \<subseteq> set (watchlists s1) \<and>
            (\<exists>w \<in> set (watchlists s1). pair_of w = (u, aid) \<and> wa_createdAt w = since)) \<and>
         (unwatchAuction s aid u = (s2, removed) \<longrightarrow>
            following s2 = following s - {(u, aid)} \<and> (removed \<longleftrightarrow> (u, aid) \<in> following s)) \<and>
         (let ids = concat (map (\<lambda>p. map item_id (fst (listWatchedAuctions s now u (Some p) (Some limit))))
                      [1..<Suc (total_pages (countWatchedAuctions s u) limit)])
          in length ids = countWatchedAuctions s u \<and> distinct ids \<and>
             set ids = {b. (u, b) \<in> following s \<and> (\<exists>a. find_auction s b = Some a \<and> is_public a)})"
proof -
  let ?own = "filter (own_auction_follow s u) (watchlists s)"
  let ?ids = "concat (map (\<lambda>p. map item_id (fst (listWatchedAuctions s now u (Some p) (Some limit))))
                      [1..<Suc (total_pages (countWatchedAuctions s u) limit)])"
  have "?ids = map wa_targetId (concat (map (\<lambda>p. page_of p limit (newest_follows ?own))
      [1..<Suc (total_pages (length (newest_follows ?own)) limit)]))"
    by (simp add: listed_ids map_concat comp_def countWatchedAuctions_def count_rows_def del: upt_Suc)
  then have ids: "?ids = map wa_targetId (newest_follows ?own)"
    by (simp only: pages_cover [OF limit])
  have "distinct (map wa_targetId ?own)"
  proof -
    have "map pair_of ?own = map (Pair u) (map wa_targetId ?own)"
      by (auto simp: pair_of_def own_auction_follow_def)
    then show ?thesis using distinct_map_filter [OF keys] by (metis distinct_map)
  qed
  then have "distinct ?ids"
    unfolding ids newest_follows_def by (simp add: distinct_map)
  moreover have "set ?ids = {b. (u, b) \<in> following s \<and> (\<exists>a. find_auction s b = Some a \<and> is_public a)}"
    unfolding ids by (auto simp: following_def pair_of_def own_auction_follow_def image_iff split: option.splits)
  moreover have "length ?ids = countWatchedAuctions s u"
    unfolding ids by (simp add: countWatchedAuctions_def count_rows_def)
  ultimately show ?thesis
    using auction_follows.watch_inserts [of rd s now aid u s1 since]
      auction_follows.unwatch_removes [of s aid u s2 removed] keys
    by (simp add: following_def Let_def del: upt_Suc)
qed

definition watched3 :: db where
  "watched3 = fst (projr (watchAuction demo3 demo3 900 1 20))"

theorem watchlist_is_a_set_witness:
  "following watched3 = {(20, 1)} \<and> following (fst (unwatchAuction watched3 1 20)) = {}"
proof -
  have w: "\<not> isl (watchAuction demo3 demo3 900 1 20)" and empty: "watchlists demo3 = []"
    by code_simp+
  have k: "distinct (map pair_of (watchlists demo3))" by (simp add: empty)
  have "watchAuction demo3 demo3 900 1 20 = Inr (watched3, snd (projr (watchAuction demo3 demo3 900 1 20)))"
    using w by (simp add: watched3_def)
  then have 1: "following watched3 = insert (20, 1) (following demo3) \<and> distinct (map pair_of (watchlists watched3))"
    using watchlist_is_a_set [OF k zero_less_one, of demo3 900 1 20 watched3] by blast
  have "unwatchAuction watched3 1 20 = (fst (unwatchAuction watched3 1 20), snd (unwatchAuction watched3 1 20))"
    by simp
  then have "following (fst (unwatchAuction watched3 1 20)) = following watched3 - {(20, 1)}"
    using watchlist_is_a_set [OF conjunct2 [OF 1] zero_less_one, of _ _ 1 20 _ _ "fst (unwatchAuction watched3 1 20)"]
    by blast
  moreover have "following demo3 = {}" by (simp add: following_def empty)
  ultimately show ?thesis using 1 by simp
qed

end
