(* ===== verification/Notification_Service.thy ===== *)
theory Notification_Service
  imports Auction_Service
begin

text \<open>
  \<open>notification/notification.service.ts\<close>: the read side of the bell. The rows are those the other
  services raise, with the id, the time and the receipt the database adds; the table is the state.
  \<open>markRead\<close> reads the row in \<open>rd\<close> and writes it in \<open>wr\<close>.
\<close>

record inbox_row = notification_row +
  ib_id :: uuid
  ib_readAt :: "instant option"
  ib_createdAt :: instant

type_synonym inbox = "inbox_row list"

definition DEFAULT_PAGE_SIZE :: nat where
  "DEFAULT_PAGE_SIZE = 20"

record list_notification_dto =
  ln_types :: "notification_type list option"
  ln_unreadOnly :: "bool option"
  ln_page :: "nat option"
  ln_limit :: "nat option"

definition notification_where :: "uuid \<Rightarrow> list_notification_dto \<Rightarrow> inbox_row \<Rightarrow> bool" where
  "notification_where userId q n \<longleftrightarrow>
     no_userId n = userId \<and>
     (case ln_types q of Some (t # ts) \<Rightarrow> no_type n \<in> set (t # ts) | _ \<Rightarrow> True) \<and>
     (ln_unreadOnly q = Some True \<longrightarrow> ib_readAt n = None)"

definition unread_by :: "uuid \<Rightarrow> inbox_row \<Rightarrow> bool" where
  "unread_by userId n \<longleftrightarrow> no_userId n = userId \<and> ib_readAt n = None"

definition newest_first :: "inbox \<Rightarrow> inbox" where
  "newest_first t = sort_key (\<lambda>n. (- ib_createdAt n, ib_id n)) t"

record inbox_page =
  ip_items :: inbox
  ip_unread :: nat
  ip_meta :: meta

definition list_notifications :: "inbox \<Rightarrow> uuid \<Rightarrow> list_notification_dto \<Rightarrow> inbox_page" where
  "list_notifications t userId q =
     (let page = or_default (ln_page q) 1;
          limit = or_default (ln_limit q) DEFAULT_PAGE_SIZE
      in \<lparr>ip_items = page_of page limit (newest_first (filter (notification_where userId q) t)),
          ip_unread = count_rows (unread_by userId) t,
          ip_meta = meta_of page limit (count_rows (notification_where userId q) t)\<rparr>)"

definition unreadCount :: "inbox \<Rightarrow> uuid \<Rightarrow> nat" where
  "unreadCount t userId = count_rows (unread_by userId) t"

definition give_receipt :: "instant \<Rightarrow> inbox_row \<Rightarrow> inbox_row" where
  "give_receipt now n = n\<lparr>ib_readAt := Some now\<rparr>"

definition markRead :: "inbox \<Rightarrow> inbox \<Rightarrow> instant \<Rightarrow> uuid \<Rightarrow> uuid \<Rightarrow> error + (inbox \<times> inbox_row)" where
  "markRead rd wr now userId notificationId =
     (case find (\<lambda>n. ib_id n = notificationId \<and> no_userId n = userId) rd of
        None \<Rightarrow> Inl (NotFound Notification)
      | Some existing \<Rightarrow>
          if ib_readAt existing \<noteq> None then Inr (wr, existing)
          else
            (case find (\<lambda>n. ib_id n = notificationId) wr of
               None \<Rightarrow> Inl RecordNotFound
             | Some n \<Rightarrow> Inr (map_rows (\<lambda>n. ib_id n = notificationId) (give_receipt now) wr, give_receipt now n)))"

definition markAllRead :: "inbox \<Rightarrow> instant \<Rightarrow> uuid \<Rightarrow> inbox \<times> nat" where
  "markAllRead t now userId =
     (let (count, t1) = update_many (unread_by userId) (give_receipt now) t in (t1, count))"

section \<open>Properties\<close>

lemma count_newest: "length (newest_first (filter P t)) = count_rows P t"
  by (simp add: newest_first_def count_rows_def)

text \<open>The bell is exact. The pages of any filter together are the caller's notifications that pass it,
  newest first, each once. The badge counts the caller's unread ones whatever the filter. Marking
  one read answers it with its receipt, keeps an earlier receipt, lowers the badge by one exactly
  when it was unread, and changes no other row; marking all read answers the badge, which is then
  zero. A notification of somebody else is not found.\<close>

theorem inbox_is_exact:
  assumes keys: "distinct (map ib_id t)" and limit: "0 < limit"
  shows "concat (map (\<lambda>p. ip_items (list_notifications t u (q\<lparr>ln_page := Some p, ln_limit := Some limit\<rparr>)))
           [1..<Suc (total_pages (count_rows (notification_where u q) t) limit)])
           = newest_first (filter (notification_where u q) t) \<and>
         ip_unread (list_notifications t u q) = unreadCount t u \<and>
         (case markRead t t now u nid of
            Inl e \<Rightarrow> e = NotFound Notification \<and> \<not> (\<exists>n \<in> set t. ib_id n = nid \<and> no_userId n = u)
          | Inr (t1, n1) \<Rightarrow>
              \<exists>n \<in> set t. ib_id n = nid \<and> no_userId n = u \<and>
                n1 = (if ib_readAt n = None then give_receipt now n else n) \<and>
                t1 = map_rows (\<lambda>m. m = n) (\<lambda>_. n1) t \<and>
                unreadCount t u = unreadCount t1 u + (if ib_readAt n = None then 1 else 0)) \<and>
         snd (markAllRead t now u) = unreadCount t u \<and>
         unreadCount (fst (markAllRead t now u)) u = 0"
proof -
  have w: "notification_where u (q\<lparr>ln_page := a, ln_limit := b\<rparr>) = notification_where u q" for a b
    by (simp add: notification_where_def fun_eq_iff)
  have pages: "concat (map (\<lambda>p. ip_items (list_notifications t u (q\<lparr>ln_page := Some p, ln_limit := Some limit\<rparr>)))
           [1..<Suc (total_pages (count_rows (notification_where u q) t) limit)])
           = newest_first (filter (notification_where u q) t)"
    using pages_cover [OF limit, of "newest_first (filter (notification_where u q) t)"]
    by (simp add: list_notifications_def or_default_def w count_newest Let_def del: upt_Suc)
  have "\<not> unread_by u (give_receipt now n)" for n by (simp add: unread_by_def give_receipt_def)
  then have all: "snd (markAllRead t now u) = unreadCount t u" "unreadCount (fst (markAllRead t now u)) u = 0"
    by (simp_all add: markAllRead_def unreadCount_def update_many_def count_rows_pos_iff set_map_rows)
      blast
  have mark: "case markRead t t now u nid of
            Inl e \<Rightarrow> e = NotFound Notification \<and> \<not> (\<exists>n \<in> set t. ib_id n = nid \<and> no_userId n = u)
          | Inr (t1, n1) \<Rightarrow>
              \<exists>n \<in> set t. ib_id n = nid \<and> no_userId n = u \<and>
                n1 = (if ib_readAt n = None then give_receipt now n else n) \<and>
                t1 = map_rows (\<lambda>m. m = n) (\<lambda>_. n1) t \<and>
                unreadCount t u = unreadCount t1 u + (if ib_readAt n = None then 1 else 0)"
  proof (cases "find (\<lambda>n. ib_id n = nid \<and> no_userId n = u) t")
    case None
    then have e: "markRead t t now u nid = Inl (NotFound Notification)" by (simp add: markRead_def)
    show ?thesis using None unfolding e by (auto simp: find_None_iff)
  next
    case (Some n)
    then have n: "n \<in> set t" "ib_id n = nid" "no_userId n = u" by (auto dest!: find_SomeD)
    have one: "m \<in> set t \<Longrightarrow> ib_id m = nid \<longleftrightarrow> m = n" for m
      using distinct_key_unique [OF keys, of m n] n(1,2) by metis
    have f: "find (\<lambda>n. ib_id n = nid) t = Some n"
      by (rule find_key_eq [where k = ib_id]) (use keys n in auto)
    show ?thesis
    proof (cases "ib_readAt n = None")
      case False
      have "map_rows (\<lambda>m. m = n) (\<lambda>_. n) t = t" by (simp add: map_rows_def map_idI)
      moreover have e: "markRead t t now u nid = Inr (t, n)" using Some False by (auto simp: markRead_def)
      ultimately show ?thesis using False n unfolding e by (intro bexI [of _ n] case_prodI | simp)+
    next
      case True
      have rows: "map_rows (\<lambda>m. ib_id m = nid) (give_receipt now) t = map_rows (\<lambda>m. m = n) (\<lambda>_. give_receipt now n) t"
        unfolding map_rows_def
      proof (rule map_cong [OF refl])
        fix m assume "m \<in> set t"
        then show "(if ib_id m = nid then give_receipt now m else m) = (if m = n then give_receipt now n else m)"
          using one [of m] by (cases "m = n") simp_all
      qed
      have "count_rows (unread_by u) t = count_rows (unread_by u) (map_rows (\<lambda>m. m = n) (\<lambda>_. give_receipt now n) t) + 1"
        using keys n(1)
      proof (induction t)
        case (Cons m t)
        have rest: "map_rows (\<lambda>m. m = n) (\<lambda>_. give_receipt now n) t = t" if "m = n"
          using Cons.prems that by (intro map_rows_id) auto
        show ?case
          using Cons rest True n(3)
          by (cases "m = n") (auto simp: count_rows_def map_rows_def unread_by_def give_receipt_def)
      qed simp
      moreover have e: "markRead t t now u nid
          = Inr (map_rows (\<lambda>m. m = n) (\<lambda>_. give_receipt now n) t, give_receipt now n)"
        using Some True f rows by (simp add: markRead_def)
      ultimately show ?thesis
        using True n unfolding e by (intro bexI [of _ n] case_prodI | simp add: unreadCount_def)+
    qed
  qed
  show ?thesis
    using pages all mark by (simp add: list_notifications_def unreadCount_def Let_def del: upt_Suc)
qed

definition demo_note :: "uuid \<Rightarrow> uuid \<Rightarrow> instant option \<Rightarrow> inbox_row" where
  "demo_note nid u seen = \<lparr>no_userId = u, no_auctionId = None, no_bidId = None, no_orderId = None,
     no_conversationId = None, no_type = NEW_MESSAGE, no_body = MessageBody (ascii ''hi''),
     ib_id = nid, ib_readAt = seen, ib_createdAt = 0\<rparr>"

definition demo_inbox :: inbox where
  "demo_inbox = [demo_note 1 7 None, demo_note 2 7 None, demo_note 3 8 None]"

theorem inbox_is_exact_witness:
  "snd (markAllRead demo_inbox 5 7) = 2 \<and> unreadCount (fst (markAllRead demo_inbox 5 7)) 7 = 0"
proof -
  have "distinct (map ib_id demo_inbox)" and "unreadCount demo_inbox 7 = 2" by code_simp+
  then show ?thesis using inbox_is_exact [OF _ zero_less_one, of demo_inbox 7] by metis
qed

text \<open>Marking all read between the read and the write of a mark loses the first receipt: the row says
  the later time, not when the user actually saw it.\<close>

theorem mark_can_overwrite_a_receipt:
  "let t1 = fst (markAllRead demo_inbox 5 7)
   in map_option ib_readAt (find (\<lambda>n. ib_id n = 1) t1) = Some (Some 5) \<and>
      map_option ib_readAt (find (\<lambda>n. ib_id n = 1) (fst (projr (markRead demo_inbox t1 9 7 1)))) = Some (Some 9)"
  by code_simp

end
