(* ===== verification/Chat_Service.thy ===== *)
theory Chat_Service
  imports Chat_Schema Auction_Service Cart_Service Accounts
begin

text \<open>
  \<open>chat/chat.service.ts\<close>: threads between the buyer and the seller of a listing, their messages with
  receipts, and the seller's automatic line after a purchase. The state is the database and the
  chat's tables. What is announced after a commit is returned as events. A list that is not ordered
  by the query comes in the order the rows were written.
\<close>

definition CHAT_PAGE_SIZE :: nat where
  "CHAT_PAGE_SIZE = 50"

datatype chat_event =
  MessageSent uuid message_row \<comment> \<open>into the room of the conversation\<close>
| NotificationCreated uuid uuid \<comment> \<open>to a user, about a conversation\<close>

section \<open>The automatic reply\<close>

definition getAutoReplyMessage :: "db \<Rightarrow> uuid \<Rightarrow> utext option" where
  "getAutoReplyMessage s sellerId = Option.bind (find_user s sellerId) us_autoReplyMessage"

definition setAutoReplyMessage :: "db \<Rightarrow> uuid \<Rightarrow> utext option \<Rightarrow> error + (db \<times> utext option)" where
  "setAutoReplyMessage s sellerId message =
     (let normalized = (case message of None \<Rightarrow> None
            | Some m \<Rightarrow> if trim m = [] then None else Some (trim m))
      in if find_user s sellerId = None then Inl RecordNotFound
         else Inr (s\<lparr>users := map_rows (\<lambda>u. us_id u = sellerId)
                        (\<lambda>u. u\<lparr>us_autoReplyMessage := normalized\<rparr>) (users s)\<rparr>, normalized))"

section \<open>Threads\<close>

definition upsert_conversation ::
  "chat_db \<Rightarrow> instant \<Rightarrow> uuid \<Rightarrow> uuid option \<Rightarrow> uuid option \<Rightarrow> uuid \<Rightarrow> uuid \<Rightarrow> chat_db \<times> conversation_row" where
  "upsert_conversation c now newId productId auctionId buyerId sellerId =
     (case find (\<lambda>x. cv_productId x = productId \<and> cv_auctionId x = auctionId \<and>
                     cv_buyerId x = buyerId \<and> cv_sellerId x = sellerId) (conversations c) of
        Some x \<Rightarrow> (c, x)
      | None \<Rightarrow>
          let x = \<lparr>cv_id = newId, cv_productId = productId, cv_auctionId = auctionId,
                   cv_buyerId = buyerId, cv_sellerId = sellerId, cv_createdAt = now\<rparr>
          in (c\<lparr>conversations := conversations c @ [x]\<rparr>, x))"

definition openProductConversation ::
  "db \<Rightarrow> chat_db \<Rightarrow> instant \<Rightarrow> uuid \<Rightarrow> uuid \<Rightarrow> uuid \<Rightarrow> error + (chat_db \<times> conversation_row)" where
  "openProductConversation s c now newId productId buyerId =
     (case find_product s productId of
        None \<Rightarrow> Inl (NotFound Product)
      | Some p \<Rightarrow>
          if pr_status p = P_REMOVED then Inl (NotFound Product)
          else if pr_sellerId p = buyerId then Inl (Forbidden OwnListingConversation)
          else Inr (upsert_conversation c now newId (Some productId) None buyerId (pr_sellerId p)))"

definition openAuctionConversation ::
  "db \<Rightarrow> chat_db \<Rightarrow> instant \<Rightarrow> uuid \<Rightarrow> uuid \<Rightarrow> uuid \<Rightarrow> error + (chat_db \<times> conversation_row)" where
  "openAuctionConversation s c now newId auctionId buyerId =
     (case find (\<lambda>a. au_id a = auctionId \<and> is_public a) (auctions s) of
        None \<Rightarrow> Inl (NotFound Auction)
      | Some a \<Rightarrow>
          if au_sellerId a = buyerId then Inl (Forbidden OwnListingConversation)
          else Inr (upsert_conversation c now newId None (Some auctionId) buyerId (au_sellerId a)))"

definition assertParticipant :: "chat_db \<Rightarrow> uuid \<Rightarrow> uuid \<Rightarrow> error + conversation_row" where
  "assertParticipant c conversationId userId =
     (case find_conversation c conversationId of
        None \<Rightarrow> Inl (NotFound Conversation)
      | Some x \<Rightarrow>
          if cv_buyerId x \<noteq> userId \<and> cv_sellerId x \<noteq> userId then Inl (NotFound Conversation)
          else Inr x)"

definition messages_of :: "chat_db \<Rightarrow> uuid \<Rightarrow> message_row list" where
  "messages_of c conversationId = filter (\<lambda>m. ms_conversationId m = conversationId) (messages c)"

definition unread_for :: "uuid \<Rightarrow> message_row \<Rightarrow> bool" where
  "unread_for userId m \<longleftrightarrow> ms_senderId m \<noteq> userId \<and> ms_readAt m = None"

section \<open>The list of threads\<close>

datatype thread_listing = PRODUCT_LISTING | AUCTION_LISTING

record chat_listing =
  li_kind :: thread_listing
  li_id :: uuid
  li_title :: utext
  li_imageUrl :: "utext option"

record last_message =
  lm_body :: utext
  lm_sentByMe :: bool
  lm_at :: instant

record thread_view =
  tv_id :: uuid
  tv_asBuyer :: bool
  tv_listing :: chat_listing
  tv_counterpart :: "uuid \<times> utext option"
  tv_lastMessage :: "last_message option"
  tv_unreadCount :: nat
  tv_updatedAt :: instant

definition first_primary :: "uuid \<Rightarrow> image_row list \<Rightarrow> utext option" where
  "first_primary ownerId images = map_option im_url (find (\<lambda>i. im_ownerId i = ownerId \<and> im_isPrimary i) images)"

text \<open>\<open>None\<close> where \<open>conversation.auction!\<close> would be a property of null.\<close>

definition listing_of :: "db \<Rightarrow> conversation_row \<Rightarrow> chat_listing option" where
  "listing_of s x =
     (case Option.bind (cv_productId x) (find_product s) of
        Some p \<Rightarrow> Some \<lparr>li_kind = PRODUCT_LISTING, li_id = pr_id p, li_title = pr_title p,
                       li_imageUrl = first_primary (pr_id p) (productImages s)\<rparr>
      | None \<Rightarrow>
          (case Option.bind (cv_auctionId x) (find_auction s) of
             Some a \<Rightarrow> Some \<lparr>li_kind = AUCTION_LISTING, li_id = au_id a, li_title = au_title a,
                            li_imageUrl = first_primary (au_id a) (auctionImages s)\<rparr>
           | None \<Rightarrow> None))"

definition thread_view_of :: "db \<Rightarrow> chat_db \<Rightarrow> uuid \<Rightarrow> conversation_row \<Rightarrow> thread_view option" where
  "thread_view_of s c userId x =
     (let iAmBuyer = (cv_buyerId x = userId);
          counterpart = (if iAmBuyer then cv_sellerId x else cv_buyerId x);
          lastMessage = find_by (\<lambda>m. - ms_createdAt m) (\<lambda>m. ms_conversationId m = cv_id x) (messages c)
      in map_option (\<lambda>listing.
           \<lparr>tv_id = cv_id x, tv_asBuyer = iAmBuyer, tv_listing = listing,
            tv_counterpart = (counterpart, display_name s counterpart),
            tv_lastMessage = map_option (\<lambda>m. \<lparr>lm_body = ms_body m, lm_sentByMe = (ms_senderId m = userId),
                                           lm_at = ms_createdAt m\<rparr>) lastMessage,
            tv_unreadCount = count_rows (unread_for userId) (messages_of c (cv_id x)),
            tv_updatedAt = (case lastMessage of Some m \<Rightarrow> ms_createdAt m | None \<Rightarrow> cv_createdAt x)\<rparr>)
         (listing_of s x))"

definition my_threads :: "chat_db \<Rightarrow> uuid \<Rightarrow> conversation_row list" where
  "my_threads c userId = filter (\<lambda>x. cv_buyerId x = userId \<or> cv_sellerId x = userId) (conversations c)"

definition listConversations :: "db \<Rightarrow> chat_db \<Rightarrow> uuid \<Rightarrow> thread_view list option" where
  "listConversations s c userId =
     map_option (sort_key (\<lambda>v. - tv_updatedAt v)) (those (map (thread_view_of s c userId) (my_threads c userId)))"

section \<open>Messages\<close>

record message_view =
  mv_id :: uuid
  mv_body :: utext
  mv_sentByMe :: bool
  mv_createdAt :: instant
  mv_readAt :: "instant option"

definition message_view_of :: "uuid \<Rightarrow> message_row \<Rightarrow> message_view" where
  "message_view_of userId m = \<lparr>mv_id = ms_id m, mv_body = ms_body m, mv_sentByMe = (ms_senderId m = userId),
     mv_createdAt = ms_createdAt m, mv_readAt = ms_readAt m\<rparr>"

definition oldest_first :: "message_row list \<Rightarrow> message_row list" where
  "oldest_first t = sort_key (\<lambda>m. (ms_createdAt m, ms_id m)) t"

definition listMessages ::
  "chat_db \<Rightarrow> instant \<Rightarrow> uuid \<Rightarrow> uuid \<Rightarrow> nat option \<Rightarrow> nat option
     \<Rightarrow> error + (chat_db \<times> message_view list \<times> meta)" where
  "listMessages c now conversationId userId page_opt limit_opt =
     (case assertParticipant c conversationId userId of
        Inl e \<Rightarrow> Inl e
      | Inr _ \<Rightarrow>
          (let page = or_default page_opt 1;
               limit = or_default limit_opt CHAT_PAGE_SIZE;
               ms = page_of page limit (oldest_first (messages_of c conversationId));
               unreadOnThisPage = map ms_id (filter (unread_for userId) ms);
               c1 = (if unreadOnThisPage = [] then c
                     else c\<lparr>messages := map_rows (\<lambda>m. ms_id m \<in> set unreadOnThisPage)
                                (\<lambda>m. m\<lparr>ms_readAt := Some now\<rparr>) (messages c)\<rparr>)
           in Inr (c1, map (message_view_of userId) ms,
                   meta_of page limit (length (messages_of c conversationId)))))"

text \<open>A body over 120 UTF-16 units is cut to 117 and three dots in the notification.\<close>

definition message_notification :: "uuid \<Rightarrow> uuid \<Rightarrow> utext \<Rightarrow> notification_row" where
  "message_notification recipientId conversationId body =
     \<lparr>no_userId = recipientId, no_auctionId = None, no_bidId = None, no_orderId = None,
      no_conversationId = Some conversationId, no_type = NEW_MESSAGE,
      no_body = MessageBody (if length16 body > 120 then slice16 117 body @ ascii ''...'' else body)\<rparr>"

definition sendMessage ::
  "db \<Rightarrow> chat_db \<Rightarrow> instant \<Rightarrow> uuid \<Rightarrow> uuid \<Rightarrow> uuid \<Rightarrow> utext
     \<Rightarrow> error + (db \<times> chat_db \<times> chat_event list \<times> message_view)" where
  "sendMessage s c now newId conversationId senderId body =
     (case assertParticipant c conversationId senderId of
        Inl e \<Rightarrow> Inl e
      | Inr x \<Rightarrow>
          (let recipientId = (if cv_buyerId x = senderId then cv_sellerId x else cv_buyerId x);
               m = \<lparr>ms_id = newId, ms_conversationId = conversationId, ms_senderId = senderId,
                    ms_body = body, ms_createdAt = now, ms_readAt = None\<rparr>
           in Inr (s\<lparr>notifications := notifications s @ [message_notification recipientId conversationId body]\<rparr>,
                   c\<lparr>messages := messages c @ [m]\<rparr>,
                   [MessageSent conversationId m, NotificationCreated recipientId conversationId],
                   message_view_of senderId m)))"

text \<open>What it throws is logged, so it only answers the state it left.\<close>

definition sendPurchaseAutoReply ::
  "db \<Rightarrow> chat_db \<Rightarrow> instant \<Rightarrow> uuid \<Rightarrow> uuid \<Rightarrow> uuid \<Rightarrow> uuid \<Rightarrow> uuid \<Rightarrow> db \<times> chat_db \<times> chat_event list" where
  "sendPurchaseAutoReply s c now newConversationId newMessageId sellerId buyerId productId =
     (case getAutoReplyMessage s sellerId of
        Some (a # as) \<Rightarrow>
          (case openProductConversation s c now newConversationId productId buyerId of
             Inl e \<Rightarrow> (s, c, [])
           | Inr (c1, x) \<Rightarrow>
               (case sendMessage s c1 now newMessageId (cv_id x) sellerId (a # as) of
                  Inl e \<Rightarrow> (s, c1, [])
                | Inr (s1, c2, es, v) \<Rightarrow> (s1, c2, es)))
      | _ \<Rightarrow> (s, c, []))"

end
