(* ===== verification/Chat_Properties.thy ===== *)
theory Chat_Properties
  imports Chat_Service Shop_Demo
begin

text \<open>
  What any number of chat requests keep: \<open>chat_step\<close> is one of them, on any state of the rest of the
  database, and \<open>chat_inv\<close> says that a listing, a buyer and a seller have one thread and that a
  message is from one of the two. Reading marks what was shown and nothing else.
\<close>

section \<open>The invariant\<close>

definition thread_key :: "conversation_row \<Rightarrow> uuid option \<times> uuid option \<times> uuid \<times> uuid" where
  "thread_key x = (cv_productId x, cv_auctionId x, cv_buyerId x, cv_sellerId x)"

definition takes_part :: "uuid \<Rightarrow> conversation_row \<Rightarrow> bool" where
  "takes_part u x \<longleftrightarrow> cv_buyerId x = u \<or> cv_sellerId x = u"

definition chat_inv :: "chat_db \<Rightarrow> bool" where
  "chat_inv c \<longleftrightarrow>
     distinct (map cv_id (conversations c)) \<and> distinct (map thread_key (conversations c)) \<and>
     distinct (map ms_id (messages c)) \<and>
     (\<forall>x \<in> set (conversations c). cv_buyerId x \<noteq> cv_sellerId x \<and>
        (cv_productId x = None) \<noteq> (cv_auctionId x = None)) \<and>
     (\<forall>m \<in> set (messages c). \<exists>x \<in> set (conversations c).
        cv_id x = ms_conversationId m \<and> takes_part (ms_senderId m) x)"

definition no_chat :: "chat_db \<Rightarrow> bool" where
  "no_chat c \<longleftrightarrow> conversations c = [] \<and> messages c = []"

definition new_ids :: "chat_db \<Rightarrow> uuid \<Rightarrow> uuid \<Rightarrow> bool" where
  "new_ids c conversationId messageId \<longleftrightarrow>
     conversationId \<notin> cv_id ` set (conversations c) \<and> messageId \<notin> ms_id ` set (messages c)"

inductive chat_step :: "chat_db \<Rightarrow> chat_db \<Rightarrow> bool" where
  opens_product: "new_ids c n m \<Longrightarrow> openProductConversation s c now n pid b = Inr (c', x) \<Longrightarrow> chat_step c c'"
| opens_auction: "new_ids c n m \<Longrightarrow> openAuctionConversation s c now n aid b = Inr (c', x) \<Longrightarrow> chat_step c c'"
| reads: "listMessages c now cid u page limit = Inr (c', vs, me) \<Longrightarrow> chat_step c c'"
| sends: "new_ids c n m \<Longrightarrow> sendMessage s c now m cid u body = Inr (s', c', es, v) \<Longrightarrow> chat_step c c'"
| replies: "new_ids c n m \<Longrightarrow> sendPurchaseAutoReply s c now n m seller b pid = (s', c', es) \<Longrightarrow> chat_step c c'"

lemma assertParticipant_Inr:
  "assertParticipant c cid u = Inr x \<longleftrightarrow> find_conversation c cid = Some x \<and> takes_part u x"
  by (auto simp: assertParticipant_def takes_part_def split: option.splits if_splits)

lemma find_conversation_SomeD:
  "find_conversation c cid = Some x \<Longrightarrow> x \<in> set (conversations c) \<and> cv_id x = cid"
  by (auto simp: find_conversation_def dest!: find_SomeD)

lemma find_conversation_eq:
  "chat_inv c \<Longrightarrow> x \<in> set (conversations c) \<Longrightarrow> find_conversation c (cv_id x) = Some x"
  unfolding find_conversation_def by (rule find_key_eq [where k = cv_id]) (auto simp: chat_inv_def)

lemma upsert_conversation_inv:
  assumes "chat_inv c" "n \<notin> cv_id ` set (conversations c)" "b \<noteq> sl" "(p = None) \<noteq> (a = None)"
    "upsert_conversation c now n p a b sl = (c', x)"
  shows "chat_inv c' \<and> x \<in> set (conversations c') \<and> thread_key x = (p, a, b, sl) \<and> messages c' = messages c \<and>
     set (conversations c) \<subseteq> set (conversations c') \<and> set (conversations c') \<subseteq> insert x (set (conversations c))"
proof (cases "find (\<lambda>x. cv_productId x = p \<and> cv_auctionId x = a \<and> cv_buyerId x = b \<and> cv_sellerId x = sl)
    (conversations c)")
  case (Some y)
  then show ?thesis
    using assms by (auto simp: upsert_conversation_def thread_key_def dest!: find_SomeD)
next
  case None
  then have "(p, a, b, sl) \<notin> thread_key ` set (conversations c)"
    by (auto simp: find_None_iff thread_key_def)
  moreover have "c' = c\<lparr>conversations := conversations c @ [x]\<rparr>" "cv_id x = n" "thread_key x = (p, a, b, sl)"
      "cv_buyerId x = b" "cv_sellerId x = sl" "cv_productId x = p" "cv_auctionId x = a"
    using assms(5) None by (auto simp: upsert_conversation_def Let_def thread_key_def)
  ultimately show ?thesis
    using assms(1-4) unfolding chat_inv_def by (simp add: subset_insertI2)
qed

lemma open_inv:
  assumes "chat_inv c" "new_ids c n m"
  shows "openProductConversation s c now n pid b = Inr (c', x) \<Longrightarrow>
      chat_inv c' \<and> x \<in> set (conversations c') \<and> cv_productId x = Some pid \<and> cv_buyerId x = b \<and>
      messages c' = messages c"
    and "openAuctionConversation s c now n aid b = Inr (c', x) \<Longrightarrow>
      chat_inv c' \<and> x \<in> set (conversations c') \<and> messages c' = messages c"
proof -
  have n: "n \<notin> cv_id ` set (conversations c)" using assms(2) by (simp add: new_ids_def)
  {
    assume "openProductConversation s c now n pid b = Inr (c', x)"
    then obtain sl where "sl \<noteq> b" "upsert_conversation c now n (Some pid) None b sl = (c', x)"
      by (auto simp: openProductConversation_def split: option.splits if_splits)
    from upsert_conversation_inv [OF assms(1) n this(1) [symmetric] _ this(2)]
    show "chat_inv c' \<and> x \<in> set (conversations c') \<and> cv_productId x = Some pid \<and> cv_buyerId x = b \<and>
        messages c' = messages c"
      by (simp add: thread_key_def)
  }
  {
    assume "openAuctionConversation s c now n aid b = Inr (c', x)"
    then obtain sl where "sl \<noteq> b" "upsert_conversation c now n None (Some aid) b sl = (c', x)"
      by (auto simp: openAuctionConversation_def split: option.splits if_splits)
    from upsert_conversation_inv [OF assms(1) n this(1) [symmetric] _ this(2)]
    show "chat_inv c' \<and> x \<in> set (conversations c') \<and> messages c' = messages c"
      by simp
  }
qed

lemma sendMessage_inv:
  assumes "chat_inv c" "m \<notin> ms_id ` set (messages c)" "sendMessage s c now m cid u body = Inr (s', c', es, v)"
  shows "chat_inv c'"
proof -
  obtain x where x: "x \<in> set (conversations c)" "cv_id x = cid" "takes_part u x"
    "c' = c\<lparr>messages := messages c @ [\<lparr>ms_id = m, ms_conversationId = cid, ms_senderId = u,
              ms_body = body, ms_createdAt = now, ms_readAt = None\<rparr>]\<rparr>"
    using assms(3) by (auto simp: sendMessage_def assertParticipant_Inr Let_def split: sum.splits
        dest!: find_conversation_SomeD)
  then show ?thesis using assms(1,2) unfolding chat_inv_def by auto
qed

text \<open>Reading only writes receipts.\<close>

definition sealed :: "message_row \<Rightarrow> uuid \<times> uuid \<times> uuid \<times> utext \<times> instant" where
  "sealed m = (ms_id m, ms_conversationId m, ms_senderId m, ms_body m, ms_createdAt m)"

lemma listMessages_messages:
  assumes "listMessages c now cid u page limit = Inr (c', vs, me)"
  obtains ids where "messages c' = map_rows (\<lambda>m. ms_id m \<in> set ids) (\<lambda>m. m\<lparr>ms_readAt := Some now\<rparr>) (messages c)"
    "conversations c' = conversations c"
    "ids = map ms_id (filter (unread_for u) (page_of (or_default page 1) (or_default limit CHAT_PAGE_SIZE)
        (oldest_first (messages_of c cid))))"
proof -
  let ?ids = "map ms_id (filter (unread_for u) (page_of (or_default page 1) (or_default limit CHAT_PAGE_SIZE)
        (oldest_first (messages_of c cid))))"
  have "messages c' = (if ?ids = [] then messages c
      else map_rows (\<lambda>m. ms_id m \<in> set ?ids) (\<lambda>m. m\<lparr>ms_readAt := Some now\<rparr>) (messages c))"
    and "conversations c' = conversations c"
    using assms by (auto simp: listMessages_def Let_def split: sum.splits)
  moreover have "map_rows (\<lambda>m. ms_id m \<in> set []) f t = t" for f and t :: "message_row list"
    by (simp add: map_rows_id)
  ultimately show ?thesis using that by metis
qed

lemma listMessages_sealed:
  assumes "listMessages c now cid u page limit = Inr (c', vs, me)"
  shows "map sealed (messages c') = map sealed (messages c) \<and> conversations c' = conversations c"
  by (rule listMessages_messages [OF assms]) (simp add: map_map_rows_same sealed_def)

lemma chat_inv_sealed:
  assumes "chat_inv c" "map sealed (messages c') = map sealed (messages c)" "conversations c' = conversations c"
  shows "chat_inv c'"
proof -
  have "map ms_id (messages c') = map ms_id (messages c)"
    using arg_cong [OF assms(2), of "map fst"] by (simp add: sealed_def comp_def)
  moreover have "sealed ` set (messages c') = sealed ` set (messages c)"
    using assms(2) by (metis list.set_map)
  then have "\<exists>q \<in> set (messages c). sealed q = sealed m" if "m \<in> set (messages c')" for m
    using that by (metis imageE imageI)
  then have "\<exists>x \<in> set (conversations c). cv_id x = ms_conversationId m \<and> takes_part (ms_senderId m) x"
    if "m \<in> set (messages c')" for m
    using that assms(1) unfolding chat_inv_def sealed_def by (metis Pair_inject)
  ultimately show ?thesis using assms(1,3) unfolding chat_inv_def by metis
qed

lemma chat_step_inv: "chat_inv c \<Longrightarrow> chat_step c c' \<Longrightarrow> chat_inv c'"
proof (erule chat_step.cases, goal_cases)
  case (3 c now cid u page limit c' vs me)
  then show ?case using chat_inv_sealed listMessages_sealed by metis
next
  case (4 c n m s now cid u body s' c' es v)
  then show ?case using sendMessage_inv by (metis new_ids_def)
next
  case (5 c n m s now seller b pid s' c' es)
  show ?case
  proof (cases "c' = c")
    case False
    then obtain a as where r: "getAutoReplyMessage s seller = Some (a # as)"
      using 5(5) by (cases "getAutoReplyMessage s seller"; cases "the (getAutoReplyMessage s seller)")
        (auto simp: sendPurchaseAutoReply_def)
    then obtain c1 x where o: "openProductConversation s c now n pid b = Inr (c1, x)"
      using False 5(5) by (cases "openProductConversation s c now n pid b") (auto simp: sendPurchaseAutoReply_def)
    have c': "c' = c1 \<or> (\<exists>es v. sendMessage s c1 now m (cv_id x) seller (a # as) = Inr (s', c', es, v))"
      using r o 5(5) by (cases "sendMessage s c1 now m (cv_id x) seller (a # as)") (auto simp: sendPurchaseAutoReply_def)
    have "chat_inv c1" "m \<notin> ms_id ` set (messages c1)"
      using open_inv(1) [OF _ 5(4) o] 5 by (auto simp: new_ids_def)
    then show ?thesis using c' sendMessage_inv 5 by metis
  qed (use 5 in simp)
qed (use open_inv in blast)+

interpretation chat: invariant_system no_chat chat_step chat_inv
  by unfold_locales (simp add: no_chat_def chat_inv_def, rule chat_step_inv)

section \<open>Properties\<close>

text \<open>C25: A thread is between two people. In every reachable state a listing, a buyer and a seller have at
  most one thread and every message is from one of its two participants. A thread can be read and
  written exactly by those two; anybody else, an administrator included, is answered as if it did not
  exist; and a message is announced to the other one of the two.\<close>

theorem chat_stays_between_two:
  assumes "no_chat c0" "chat_step\<^sup>*\<^sup>* c0 c"
  shows "distinct (map thread_key (conversations c)) \<and>
         (\<forall>m \<in> set (messages c). \<exists>x \<in> set (conversations c).
            cv_id x = ms_conversationId m \<and> ms_senderId m \<in> {cv_buyerId x, cv_sellerId x}) \<and>
         (\<not> isl (listMessages c now cid u page limit) \<longleftrightarrow>
            (\<exists>x \<in> set (conversations c). cv_id x = cid \<and> u \<in> {cv_buyerId x, cv_sellerId x})) \<and>
         (isl (listMessages c now cid u page limit) \<longrightarrow>
            listMessages c now cid u page limit = Inl (NotFound Conversation) \<and>
            sendMessage s c now m cid u body = Inl (NotFound Conversation)) \<and>
         (case sendMessage s c now m cid u body of
            Inl e \<Rightarrow> isl (listMessages c now cid u page limit)
          | Inr (s1, c1, es, v) \<Rightarrow>
              (\<exists>x \<in> set (conversations c). \<exists>r msg. cv_id x = cid \<and> {u, r} = {cv_buyerId x, cv_sellerId x} \<and> r \<noteq> u \<and>
                 messages c1 = messages c @ [msg] \<and> ms_senderId msg = u \<and> ms_body msg = body \<and>
                 es = [MessageSent cid msg, NotificationCreated r cid] \<and>
                 notifications s1 = notifications s @ [message_notification r cid body]))"
proof -
  have inv: "chat_inv c" by (rule chat.reachable_inv [OF assms])
  have part: "(\<exists>x. assertParticipant c cid u = Inr x) \<longleftrightarrow>
      (\<exists>x \<in> set (conversations c). cv_id x = cid \<and> u \<in> {cv_buyerId x, cv_sellerId x})"
    using find_conversation_eq [OF inv] find_conversation_SomeD
    by (auto simp: assertParticipant_Inr takes_part_def) metis+
  have out: "assertParticipant c cid u = Inl e \<Longrightarrow> e = NotFound Conversation" for e
    by (auto simp: assertParticipant_def split: option.splits if_splits)
  have keys: "distinct (map thread_key (conversations c))" using inv by (simp add: chat_inv_def)
  have senders: "\<forall>m \<in> set (messages c). \<exists>x \<in> set (conversations c).
      cv_id x = ms_conversationId m \<and> ms_senderId m \<in> {cv_buyerId x, cv_sellerId x}"
    using inv unfolding chat_inv_def takes_part_def by (metis insert_iff)
  show ?thesis
  proof (cases "assertParticipant c cid u")
    case (Inl e)
    then have "listMessages c now cid u page limit = Inl (NotFound Conversation)"
        "sendMessage s c now m cid u body = Inl (NotFound Conversation)"
      using out by (auto simp: listMessages_def sendMessage_def)
    then show ?thesis using keys senders part Inl by simp
  next
    case (Inr x)
    then have x: "x \<in> set (conversations c)" "cv_id x = cid" "takes_part u x"
      using find_conversation_SomeD by (auto simp: assertParticipant_Inr)
    let ?r = "if cv_buyerId x = u then cv_sellerId x else cv_buyerId x"
    let ?msg = "\<lparr>ms_id = m, ms_conversationId = cid, ms_senderId = u, ms_body = body, ms_createdAt = now,
        ms_readAt = None\<rparr>"
    have l: "\<not> isl (listMessages c now cid u page limit)" using Inr by (simp add: listMessages_def Let_def)
    have "cv_buyerId x \<noteq> cv_sellerId x" using inv x(1) by (auto simp: chat_inv_def)
    then have r: "{u, ?r} = {cv_buyerId x, cv_sellerId x}" "?r \<noteq> u" using x(3) by (auto simp: takes_part_def)
    have sent: "sendMessage s c now m cid u body
      = Inr (s\<lparr>notifications := notifications s @ [message_notification ?r cid body]\<rparr>,
             c\<lparr>messages := messages c @ [?msg]\<rparr>, [MessageSent cid ?msg, NotificationCreated ?r cid], message_view_of u ?msg)"
      using Inr by (simp add: sendMessage_def Let_def)
    have "\<exists>r msg. cv_id x = cid \<and> {u, r} = {cv_buyerId x, cv_sellerId x} \<and> r \<noteq> u \<and>
        messages (c\<lparr>messages := messages c @ [?msg]\<rparr>) = messages c @ [msg] \<and> ms_senderId msg = u \<and> ms_body msg = body \<and>
        [MessageSent cid ?msg, NotificationCreated ?r cid] = [MessageSent cid msg, NotificationCreated r cid] \<and>
        notifications (s\<lparr>notifications := notifications s @ [message_notification ?r cid body]\<rparr>)
          = notifications s @ [message_notification r cid body]"
      by (rule exI [of _ ?r], rule exI [of _ ?msg]) (use x(2) r in simp)
    then show ?thesis
      using keys senders part Inr l x(1) unfolding sent sum.case prod.case by blast
  qed
qed

text \<open>Writing receipts moves no message on its page.\<close>

lemma ids_in_order:
  assumes "map sealed t = map sealed u"
  shows "map ms_id (oldest_first (filter (\<lambda>m. ms_conversationId m = cid) t))
       = map ms_id (oldest_first (filter (\<lambda>m. ms_conversationId m = cid) u))"
proof -
  have eq: "map ms_id (oldest_first (filter (\<lambda>m. ms_conversationId m = cid) w))
      = map fst (sort_key (\<lambda>(i, k, v, b, at'). (at', i)) (filter (\<lambda>(i, k, v, b, at'). k = cid) (map sealed w)))"
    for w
    by (simp add: oldest_first_def sort_key_map filter_map comp_def sealed_def)
  show ?thesis unfolding eq assms ..
qed

text \<open>A request for page \<open>p\<close> of the thread at each of the instants.\<close>

fun read_pages :: "chat_db \<Rightarrow> uuid \<Rightarrow> uuid \<Rightarrow> nat \<Rightarrow> nat \<Rightarrow> instant list \<Rightarrow> chat_db" where
  "read_pages c cid u limit p [] = c"
| "read_pages c cid u limit p (now # later) =
     (case listMessages c now cid u (Some p) (Some limit) of
        Inl e \<Rightarrow> c
      | Inr (c1, vs, me) \<Rightarrow> read_pages c1 cid u limit (p + 1) later)"

definition receipted :: "chat_db \<Rightarrow> uuid \<Rightarrow> uuid \<Rightarrow> bool" where
  "receipted c u i \<longleftrightarrow> (\<forall>m \<in> set (messages c). ms_id m = i \<longrightarrow> \<not> unread_for u m)"

lemma one_page:
  assumes "chat_inv c" "listMessages c now cid u (Some p) (Some limit) = Inr (c1, vs, me)"
  shows "chat_inv c1" "map sealed (messages c1) = map sealed (messages c)" "conversations c1 = conversations c"
    "\<forall>i \<in> set (page_of p limit (map ms_id (oldest_first (messages_of c cid)))). receipted c1 u i"
    "receipted c u i \<Longrightarrow> receipted c1 u i"
    "filter (\<lambda>m. ms_conversationId m \<noteq> cid \<or> ms_senderId m = u) (messages c1)
       = filter (\<lambda>m. ms_conversationId m \<noteq> cid \<or> ms_senderId m = u) (messages c)"
    "filter (\<lambda>m. ms_id m \<notin> set (map mv_id vs)) (messages c1)
       = filter (\<lambda>m. ms_id m \<notin> set (map mv_id vs)) (messages c)"
proof -
  let ?page = "page_of p limit (oldest_first (messages_of c cid))"
  obtain ids where c1: "messages c1 = map_rows (\<lambda>m. ms_id m \<in> set ids) (\<lambda>m. m\<lparr>ms_readAt := Some now\<rparr>) (messages c)"
    and ids: "ids = map ms_id (filter (unread_for u) ?page)"
    using listMessages_messages [OF assms(2)] by (auto simp: or_default_def)
  show s: "map sealed (messages c1) = map sealed (messages c)" and v: "conversations c1 = conversations c"
    using listMessages_sealed [OF assms(2)] by auto
  show "chat_inv c1" by (rule chat_inv_sealed [OF assms(1) s v])
  have sub: "set ?page \<subseteq> set (messages_of c cid)"
    by (auto simp: page_of_def oldest_first_def dest!: in_set_takeD in_set_dropD)
  have uniq: "m \<in> set (messages c) \<Longrightarrow> q \<in> set (messages c) \<Longrightarrow> ms_id m = ms_id q \<Longrightarrow> m = q" for m q
    using assms(1) distinct_key_unique unfolding chat_inv_def by metis
  have ids_unread: "m \<in> set (messages c) \<Longrightarrow> ms_id m \<in> set ids \<longleftrightarrow> m \<in> set ?page \<and> unread_for u m" for m
    unfolding ids using sub uniq by (auto simp: messages_of_def)
  show "\<forall>i \<in> set (page_of p limit (map ms_id (oldest_first (messages_of c cid)))). receipted c1 u i"
  proof
    fix i assume "i \<in> set (page_of p limit (map ms_id (oldest_first (messages_of c cid))))"
    then obtain q where q: "q \<in> set ?page" "ms_id q = i" by (auto simp: page_of_map)
    then have qc: "q \<in> set (messages c)" using sub by (auto simp: messages_of_def)
    have "\<not> unread_for u (if ms_id r \<in> set ids then r\<lparr>ms_readAt := Some now\<rparr> else r)"
      if "r \<in> set (messages c)" "ms_id r = i" for r
      using ids_unread [OF that(1)] uniq [OF that(1) qc] that(2) q by (auto simp: unread_for_def)
    then show "receipted c1 u i" unfolding receipted_def c1 set_map_rows by (auto split: if_splits)
  qed
  show "receipted c1 u i" if "receipted c u i"
    using that unfolding receipted_def c1 set_map_rows by (auto simp: unread_for_def split: if_splits)
  show "filter (\<lambda>m. ms_conversationId m \<noteq> cid \<or> ms_senderId m = u) (messages c1)
       = filter (\<lambda>m. ms_conversationId m \<noteq> cid \<or> ms_senderId m = u) (messages c)"
    unfolding c1 by (rule filter_map_rows) (use ids_unread sub in \<open>auto simp: unread_for_def messages_of_def\<close>)
  have "set ids \<subseteq> set (map mv_id vs)"
    using assms(2) unfolding ids
    by (auto simp: listMessages_def Let_def or_default_def message_view_of_def image_image split: sum.splits)
  then show "filter (\<lambda>m. ms_id m \<notin> set (map mv_id vs)) (messages c1)
       = filter (\<lambda>m. ms_id m \<notin> set (map mv_id vs)) (messages c)"
    unfolding c1 by (intro filter_map_rows) auto
qed

lemma read_pages_receipts:
  assumes "chat_inv c" "find_conversation c cid = Some x" "takes_part u x" "1 \<le> p"
  shows "chat_inv (read_pages c cid u limit p ts) \<and>
    map sealed (messages (read_pages c cid u limit p ts)) = map sealed (messages c) \<and>
    (\<forall>k < length ts. \<forall>i \<in> set (page_of (p + k) limit (map ms_id (oldest_first (messages_of c cid)))).
       receipted (read_pages c cid u limit p ts) u i) \<and>
    (\<forall>i. receipted c u i \<longrightarrow> receipted (read_pages c cid u limit p ts) u i) \<and>
    filter (\<lambda>m. ms_conversationId m \<noteq> cid \<or> ms_senderId m = u) (messages (read_pages c cid u limit p ts))
      = filter (\<lambda>m. ms_conversationId m \<noteq> cid \<or> ms_senderId m = u) (messages c)"
  using assms
proof (induction ts arbitrary: c p)
  case Nil
  then show ?case by simp
next
  case (Cons now ts)
  obtain c1 vs me where r: "listMessages c now cid u (Some p) (Some limit) = Inr (c1, vs, me)"
    using Cons.prems(2,3) assertParticipant_Inr [of c cid u x] by (auto simp: listMessages_def Let_def)
  note P = one_page [OF Cons.prems(1) r]
  have f: "find_conversation c1 cid = Some x" using Cons.prems(2) P(3) by (simp add: find_conversation_def)
  have order: "map ms_id (oldest_first (messages_of c1 cid)) = map ms_id (oldest_first (messages_of c cid))"
    unfolding messages_of_def by (rule ids_in_order [OF P(2)])
  note IH = Cons.IH [OF P(1) f Cons.prems(3), of "p + 1"]
  have "receipted (read_pages c cid u limit p (now # ts)) u i"
    if k: "k < length (now # ts)" "i \<in> set (page_of (p + k) limit (map ms_id (oldest_first (messages_of c cid))))"
    for k i
  proof (cases k)
    case 0
    then have "receipted c1 u i" using P(4) k(2) by simp
    then show ?thesis using IH r by simp
  next
    case (Suc j)
    then show ?thesis using IH r k order by auto
  qed
  then show ?case using IH r P(2,5,6) by auto
qed

text \<open>Reading receipts exactly what was shown. Reading a page of a thread changes no message that is
  not on the page, of any thread; and whoever asks for every page once, whenever they do, has no
  unread message left in the thread, while their own messages and all other threads are untouched.\<close>

theorem reading_receipts_what_was_shown:
  assumes "no_chat c0" "chat_step\<^sup>*\<^sup>* c0 c" and x: "find_conversation c cid = Some x" "takes_part u x"
    and limit: "0 < limit"
  shows "(listMessages c now cid u page_no page_size = Inr (c1, vs, me) \<longrightarrow>
            filter (\<lambda>m. ms_id m \<notin> set (map mv_id vs)) (messages c1)
              = filter (\<lambda>m. ms_id m \<notin> set (map mv_id vs)) (messages c)) \<and>
         (total_pages (length (messages_of c cid)) limit \<le> length ts \<longrightarrow>
            count_rows (unread_for u) (messages_of (read_pages c cid u limit 1 ts) cid) = 0 \<and>
            filter (\<lambda>m. ms_conversationId m \<noteq> cid \<or> ms_senderId m = u) (messages (read_pages c cid u limit 1 ts))
              = filter (\<lambda>m. ms_conversationId m \<noteq> cid \<or> ms_senderId m = u) (messages c))"
proof (intro conjI impI)
  have inv: "chat_inv c" by (rule chat.reachable_inv [OF assms(1,2)])
  show "filter (\<lambda>m. ms_id m \<notin> set (map mv_id vs)) (messages c1)
      = filter (\<lambda>m. ms_id m \<notin> set (map mv_id vs)) (messages c)"
    if r: "listMessages c now cid u page_no page_size = Inr (c1, vs, me)"
  proof -
    have "listMessages c now cid u (Some (or_default page_no 1)) (Some (or_default page_size CHAT_PAGE_SIZE))
        = Inr (c1, vs, me)"
    proof -
      have "or_default (Some y) d = y" for y and d :: nat by (simp add: or_default_def)
      then show ?thesis using r by (simp only: listMessages_def)
    qed
    then show ?thesis by (rule one_page(7) [OF inv])
  qed
  assume n: "total_pages (length (messages_of c cid)) limit \<le> length ts"
  let ?c = "read_pages c cid u limit 1 ts"
  let ?ids = "map ms_id (oldest_first (messages_of c cid))"
  note R = read_pages_receipts [OF inv x le_refl, of limit ts]
  note shown = R [THEN conjunct2, THEN conjunct2, THEN conjunct1, rule_format]
  show "filter (\<lambda>m. ms_conversationId m \<noteq> cid \<or> ms_senderId m = u) (messages ?c)
      = filter (\<lambda>m. ms_conversationId m \<noteq> cid \<or> ms_senderId m = u) (messages c)"
    using R by simp
  have "\<not> unread_for u m" if m: "m \<in> set (messages_of ?c cid)" for m
  proof -
    have "map ms_id (oldest_first (messages_of ?c cid)) = ?ids"
      unfolding messages_of_def by (rule ids_in_order) (use R in simp)
    moreover have "ms_id m \<in> set (map ms_id (oldest_first (messages_of ?c cid)))"
      using m by (simp add: oldest_first_def)
    ultimately have "ms_id m \<in> set ?ids" by metis
    then have "ms_id m \<in> set (concat (map (\<lambda>p. page_of p limit ?ids) [1..<Suc (total_pages (length ?ids) limit)]))"
      by (simp only: pages_cover [OF limit])
    then obtain p where p: "1 \<le> p" "p \<le> total_pages (length ?ids) limit" "ms_id m \<in> set (page_of p limit ?ids)"
      by (auto simp del: upt_Suc)
    have "length ?ids = length (messages_of c cid)" by (simp add: oldest_first_def)
    then have "p \<le> length ts" using p(2) n by (metis le_trans)
    then have "p - 1 < length ts" using p(1) by simp
    moreover have "1 + (p - 1) = p" using p(1) by simp
    ultimately have "receipted ?c u (ms_id m)" using shown [of "p - 1" "ms_id m"] p(3) by simp
    then show ?thesis using m by (simp add: receipted_def messages_of_def)
  qed
  then show "count_rows (unread_for u) (messages_of ?c cid) = 0" by (simp add: count_rows_pos_iff)
qed

text \<open>A purchase is answered by the shop's own line. Whatever was said before, the one thread of the
  listing, the buyer and the seller gets exactly one more message, from the seller, and the buyer one
  notification: each purchase again, not only the first.\<close>

theorem every_purchase_is_answered:
  assumes "no_chat c0" "chat_step\<^sup>*\<^sup>* c0 c" and new: "new_ids c n m"
    and p: "find_product s pid = Some p" "pr_status p \<noteq> P_REMOVED" "pr_sellerId p \<noteq> buyer"
    and line: "getAutoReplyMessage s (pr_sellerId p) = Some line" "line \<noteq> []"
  shows "\<exists>c1 x msg. sendPurchaseAutoReply s c now n m (pr_sellerId p) buyer pid
           = (s\<lparr>notifications := notifications s @ [message_notification buyer (cv_id x) line]\<rparr>, c1,
              [MessageSent (cv_id x) msg, NotificationCreated buyer (cv_id x)]) \<and>
         messages c1 = messages c @ [msg] \<and> ms_senderId msg = pr_sellerId p \<and> ms_body msg = line \<and>
         ms_conversationId msg = cv_id x \<and> ms_readAt msg = None \<and>
         filter (\<lambda>y. thread_key y = (Some pid, None, buyer, pr_sellerId p)) (conversations c1) = [x]"
proof -
  have inv: "chat_inv c" by (rule chat.reachable_inv [OF assms(1,2)])
  obtain c2 x where up: "upsert_conversation c now n (Some pid) None buyer (pr_sellerId p) = (c2, x)"
    by fastforce
  have n: "n \<notin> cv_id ` set (conversations c)" using new by (simp add: new_ids_def)
  have U: "chat_inv c2" "x \<in> set (conversations c2)" "thread_key x = (Some pid, None, buyer, pr_sellerId p)"
      "messages c2 = messages c"
    using upsert_conversation_inv [OF inv n p(3) [symmetric] _ up] by auto
  have f: "find_conversation c2 (cv_id x) = Some x" by (rule find_conversation_eq [OF U(1,2)])
  have who: "cv_buyerId x = buyer" "cv_sellerId x = pr_sellerId p" using U(3) by (auto simp: thread_key_def)
  let ?msg = "\<lparr>ms_id = m, ms_conversationId = cv_id x, ms_senderId = pr_sellerId p, ms_body = line,
      ms_createdAt = now, ms_readAt = None\<rparr>"
  obtain a as where l: "line = a # as" using line(2) by (cases line) auto
  have "openProductConversation s c now n pid buyer = Inr (c2, x)"
    using p up by (simp add: openProductConversation_def)
  then have "sendPurchaseAutoReply s c now n m (pr_sellerId p) buyer pid
      = (s\<lparr>notifications := notifications s @ [message_notification buyer (cv_id x) line]\<rparr>,
         c2\<lparr>messages := messages c2 @ [?msg]\<rparr>, [MessageSent (cv_id x) ?msg, NotificationCreated buyer (cv_id x)])"
    using line(1) f who p(3) unfolding l
    by (simp add: sendPurchaseAutoReply_def sendMessage_def assertParticipant_def Let_def)
  moreover have "filter (\<lambda>y. thread_key y = thread_key x) (conversations c2) = [x]"
  proof -
    have "count_rows (\<lambda>y. thread_key y = thread_key x) (conversations c2) = 1"
      by (rule iffD2 [OF count_rows_key_1_iff [where k = thread_key and c = "thread_key x"]])
        (use U(1,2) in \<open>auto simp: chat_inv_def\<close>)
    then obtain y where "filter (\<lambda>y. thread_key y = thread_key x) (conversations c2) = [y]"
      by (auto simp: count_rows_def length_Suc_conv)
    moreover have "x \<in> set (filter (\<lambda>y. thread_key y = thread_key x) (conversations c2))" using U(2) by simp
    ultimately show ?thesis by simp
  qed
  ultimately show ?thesis using U(3,4) by (intro exI conjI) (assumption | simp)+
qed

section \<open>A conversation\<close>

definition chat0 :: chat_db where
  "chat0 = \<lparr>conversations = [], messages = [], supportSessions = [], supportMessages = []\<rparr>"

definition chat_shop :: db where
  "chat_shop = fst (projr (setAutoReplyMessage shop1 10 (Some (ascii '' thanks ''))))"

definition chat1 :: chat_db where
  "chat1 = fst (snd (sendPurchaseAutoReply chat_shop chat0 5 1 2 10 20 7))"

lemma chat_run: "no_chat chat0" "chat_step\<^sup>*\<^sup>* chat0 chat1"
proof -
  show "no_chat chat0" by (simp add: no_chat_def chat0_def)
  have "new_ids chat0 1 2" by (simp add: new_ids_def chat0_def)
  moreover have "sendPurchaseAutoReply chat_shop chat0 5 1 2 10 20 7
      = (fst (sendPurchaseAutoReply chat_shop chat0 5 1 2 10 20 7), chat1,
         snd (snd (sendPurchaseAutoReply chat_shop chat0 5 1 2 10 20 7)))"
    by (simp add: chat1_def)
  ultimately show "chat_step\<^sup>*\<^sup>* chat0 chat1" by (meson chat_step.replies r_into_rtranclp)
qed

theorem chat_stays_between_two_witness:
  "listMessages chat1 9 1 99 None None = Inl (NotFound Conversation)"
proof -
  have "isl (listMessages chat1 9 1 99 None None)" by code_simp
  then show ?thesis using chat_stays_between_two [OF chat_run, of 9 1 99 None None] by blast
qed

theorem reading_receipts_what_was_shown_witness:
  "count_rows (unread_for 20) (messages_of (read_pages chat1 1 20 50 1 [9]) 1) = 0"
proof -
  have f: "find_conversation chat1 1 = Some (the (find_conversation chat1 1))"
    and t: "takes_part 20 (the (find_conversation chat1 1))"
    and n: "total_pages (length (messages_of chat1 1)) 50 \<le> length [9 :: int]"
    by code_simp+
  show ?thesis
    by (rule reading_receipts_what_was_shown [OF chat_run f t, of 50, THEN conjunct2, THEN mp, THEN conjunct1])
      (simp, rule n)
qed

theorem every_purchase_is_answered_witness:
  "length (messages (fst (snd (sendPurchaseAutoReply chat_shop chat1 6 3 4 10 20 7)))) = 2"
proof -
  have p: "find_product chat_shop 7 = Some (the (find_product chat_shop 7))"
    and st: "pr_status (the (find_product chat_shop 7)) \<noteq> P_REMOVED"
    and sl: "pr_sellerId (the (find_product chat_shop 7)) = 10"
    and line: "getAutoReplyMessage chat_shop 10 = Some (ascii ''thanks'')"
    and new: "new_ids chat1 3 4" and len: "length (messages chat1) = 1"
    by code_simp+
  have ne: "(10 :: nat) \<noteq> 20" by simp
  have nz: "ascii ''thanks'' \<noteq> []" by (simp add: ascii_def)
  obtain c1 and x :: conversation_row and msg where "sendPurchaseAutoReply chat_shop chat1 6 3 4 10 20 7
      = (chat_shop\<lparr>notifications := notifications chat_shop @ [message_notification 20 (cv_id x) (ascii ''thanks'')]\<rparr>, c1,
         [MessageSent (cv_id x) msg, NotificationCreated 20 (cv_id x)])" "messages c1 = messages chat1 @ [msg]"
    using every_purchase_is_answered [OF chat_run new p st, of 20 "ascii ''thanks''" 6, unfolded sl, OF ne line nz]
    by blast
  then show ?thesis using len by simp
qed

end
