(* ===== verification/Support_Chat.thy ===== *)
theory Support_Chat
  imports Chat_Schema Accounts
begin

text \<open>
  \<open>support-chat/support-chat.service.ts\<close> and \<open>admin/support.service.ts\<close>: questions to the assistant,
  handing a session over to an administrator, and the administrators' side. The language model is a
  function of the prompt it is sent: a reply, unavailable, or another failure. A prompt is the last
  ten turns and the message; the fixed instructions and the FAQ around them are constant text. Time
  passes while the model answers: the question is written at \<open>now\<close> and the answer at \<open>later\<close>, on the
  state \<open>meanwhile\<close> makes of the one the question left. Nothing is rolled back when a call fails.
\<close>

section \<open>Texts\<close>

text \<open>The Thai constants, as code points.\<close>

definition FALLBACK_MARKER :: utext where
  "FALLBACK_MARKER =
     [3618, 3633, 3591, 3652, 3617, 3656, 3617, 3637, 3586, 3657, 3629, 3617, 3641, 3621, 3648, 3619,
     3639, 3656, 3629, 3591, 3609, 3637, 3657]"

definition EXHAUSTED_MARKER :: utext where
  "EXHAUSTED_MARKER =
     [3612, 3617, 3621, 3629, 3591, 3594, 3656, 3623, 3618, 3648, 3605, 3655, 3617, 3607, 3637, 3656,
     3649, 3621, 3657, 3623]"

definition GEMINI_DOWN_REPLY :: utext where
  "GEMINI_DOWN_REPLY =
     [3605, 3629, 3609, 3609, 3637, 3657, 3612, 3641, 3657, 3594, 3656, 3623, 3618, 32, 65, 73, 32, 3617,
     3637, 3588, 3609, 3651, 3594, 3657, 3591, 3634, 3609, 3648, 3618, 3629, 3632, 3594, 3633, 3656,
     3623, 3588, 3619, 3634, 3623, 3588, 3619, 3633, 3610, 32]
     @ EXHAUSTED_MARKER @
     [3651, 3609, 3626, 3656, 3623, 3609, 3609, 3637, 3657, 3588, 3619, 3633, 3610, 32, 3649, 3609, 3632,
     3609, 3635, 3651, 3627, 3657, 3605, 3636, 3604, 3605, 3656, 3629, 3649, 3629, 3604, 3617, 3636,
     3609, 3652, 3604, 3657, 3648, 3621, 3618, 3588, 3619, 3633, 3610]"

definition CONTACT_ADMIN_REPLY :: utext where
  "CONTACT_ADMIN_REPLY =
     [3652, 3604, 3657, 3648, 3621, 3618, 3588, 3619, 3633, 3610, 32, 3585, 3604, 3611, 3640, 3656, 3617,
     32, 34, 3588, 3640, 3618, 3585, 3633, 3610, 3649, 3629, 3604, 3617, 3636, 3609, 34, 32, 3604, 3657,
     3634, 3609, 3621, 3656, 3634, 3591, 3648, 3614, 3639, 3656, 3629, 3605, 3636, 3604, 3605, 3656,
     3629, 3607, 3637, 3617, 3591, 3634, 3609, 3652, 3604, 3657, 3648, 3621, 3618, 3588, 3619, 3633,
     3610]"

definition ADMIN_NOUN :: "utext list" where
  "ADMIN_NOUN =
     [[3649, 3629, 3604, 3617, 3636, 3609],
      ascii ''admin'',
      [3648, 3592, 3657, 3634, 3627, 3609, 3657, 3634, 3607, 3637, 3656],
      [3588, 3609, 3592, 3619, 3636, 3591],
      ascii ''human agent'',
      ascii ''human'']"

definition CONTACT_VERB :: "utext list" where
  "CONTACT_VERB =
     [[3605, 3636, 3604, 3605, 3656, 3629],
      [3614, 3641, 3604, 3588, 3640, 3618],
      [3588, 3640, 3618],
      [3586, 3629, 3626, 3634, 3618],
      ascii ''call'',
      ascii ''talk'',
      ascii ''speak'',
      ascii ''contact'']"

section \<open>Asking for a human\<close>

definition LINE_TERMINATORS :: "nat list" where
  "LINE_TERMINATORS = [10, 13, 8232, 8233]"

definition units16 :: "nat \<Rightarrow> nat" where
  "units16 c = (if c < 65536 then 1 else 2)"

definition starts_with :: "utext list \<Rightarrow> utext \<Rightarrow> bool" where
  "starts_with ws t \<longleftrightarrow> list_ex (\<lambda>w. take (length w) t = w) ws"

text \<open>\<open>.{0,k}\<close> and then one of the words; a dot is one UTF-16 unit and no line terminator.\<close>

fun gap_then :: "nat \<Rightarrow> utext list \<Rightarrow> utext \<Rightarrow> bool" where
  "gap_then k ws [] = starts_with ws []"
| "gap_then k ws (c # cs) =
     (starts_with ws (c # cs) \<or>
      (c \<notin> set LINE_TERMINATORS \<and> units16 c \<le> k \<and> gap_then (k - units16 c) ws cs))"

fun near :: "utext list \<Rightarrow> utext list \<Rightarrow> utext \<Rightarrow> bool" where
  "near vs ws [] = False"
| "near vs ws (c # cs) =
     (list_ex (\<lambda>v. take (length v) (c # cs) = v \<and> gap_then 8 ws (drop (length v) (c # cs))) vs \<or>
      near vs ws cs)"

fun mentions :: "utext list \<Rightarrow> utext \<Rightarrow> bool" where
  "mentions ws [] = False"
| "mentions ws (c # cs) = (starts_with ws (c # cs) \<or> mentions ws cs)"

text \<open>\<open>replace\<close> takes out the first match: leftmost, then the first alternative that fits.\<close>

fun without_first :: "utext list \<Rightarrow> utext \<Rightarrow> utext" where
  "without_first ws [] = []"
| "without_first ws (c # cs) =
     (case find (\<lambda>w. take (length w) (ascii_lower (c # cs)) = w) ws of
        Some w \<Rightarrow> drop (length w) (c # cs)
      | None \<Rightarrow> c # without_first ws cs)"

definition SHORT_MESSAGE_THRESHOLD :: nat where
  "SHORT_MESSAGE_THRESHOLD = 8"

definition isExplicitEscalationRequest :: "utext \<Rightarrow> bool" where
  "isExplicitEscalationRequest message =
     (let normalized = trim message; lower = ascii_lower normalized in
      if near CONTACT_VERB ADMIN_NOUN lower \<or> near ADMIN_NOUN CONTACT_VERB lower then True
      else if \<not> mentions ADMIN_NOUN lower then False
      else length16 (trim (without_first ADMIN_NOUN normalized)) \<le> SHORT_MESSAGE_THRESHOLD)"

definition includes_text :: "utext \<Rightarrow> utext \<Rightarrow> bool" where
  "includes_text body marker \<longleftrightarrow> mentions [marker] body"

definition ESCALATION_THRESHOLD :: nat where
  "ESCALATION_THRESHOLD = 3"

definition isEscalated :: "utext list \<Rightarrow> bool" where
  "isEscalated recentAssistantBodies \<longleftrightarrow>
     length recentAssistantBodies = ESCALATION_THRESHOLD \<and>
     list_all (\<lambda>body. includes_text body FALLBACK_MARKER) recentAssistantBodies"

section \<open>The model\<close>

record prompt =
  pt_history :: "(bool \<times> utext) list" \<comment> \<open>whether the user said it, and what\<close>
  pt_message :: utext

definition MAX_HISTORY_MESSAGES :: nat where
  "MAX_HISTORY_MESSAGES = 10"

definition last_items :: "nat \<Rightarrow> 'a list \<Rightarrow> 'a list" where
  "last_items n xs = drop (length xs - n) xs"

definition buildSupportPrompt :: "(chat_role \<times> utext) list \<Rightarrow> utext \<Rightarrow> prompt" where
  "buildSupportPrompt chatHistory userMessage =
     \<lparr>pt_history = map (\<lambda>(role, body). (role = C_USER, body)) (last_items MAX_HISTORY_MESSAGES chatHistory),
      pt_message = userMessage\<rparr>"

datatype gemini_answer = GeminiReply utext | GeminiUnavailable | GeminiFailure

type_synonym gemini = "prompt \<Rightarrow> gemini_answer"

definition generateReplySafely :: "gemini \<Rightarrow> prompt \<Rightarrow> utext option" where
  "generateReplySafely gemini p =
     (case gemini p of GeminiReply r \<Rightarrow> Some r | GeminiUnavailable \<Rightarrow> Some GEMINI_DOWN_REPLY
      | GeminiFailure \<Rightarrow> None)"

section \<open>The user's side\<close>

datatype support_error =
  SessionNotFound | NotYourSession | MovedToAdmin | NotYetForAdmin | ModelFailed

datatype support_event =
  SupportMessage uuid support_message_row \<comment> \<open>into the room of the session\<close>
| InboxUpdate uuid "uuid option" \<comment> \<open>to every administrator\<close>

record chat_message =
  cm_id :: uuid
  cm_sessionId :: "uuid option"
  cm_role :: chat_role
  cm_body :: utext
  cm_createdAt :: instant

record support_reply =
  sr_sessionId :: "uuid option"
  sr_reply :: chat_message
  sr_escalated :: bool

definition chat_message_of :: "support_message_row \<Rightarrow> chat_message" where
  "chat_message_of m = \<lparr>cm_id = sm_id m, cm_sessionId = Some (sm_sessionId m), cm_role = sm_role m,
     cm_body = sm_body m, cm_createdAt = sm_createdAt m\<rparr>"

definition getOwnedSession :: "chat_db \<Rightarrow> uuid \<Rightarrow> uuid \<Rightarrow> support_error + support_session_row" where
  "getOwnedSession c sessionId userId =
     (case find_support_session c sessionId of
        None \<Rightarrow> Inl SessionNotFound
      | Some x \<Rightarrow> if sp_userId x \<noteq> userId then Inl NotYourSession else Inr x)"

definition session_messages :: "chat_db \<Rightarrow> uuid \<Rightarrow> support_message_row list" where
  "session_messages c sessionId =
     sort_key sm_createdAt (filter (\<lambda>m. sm_sessionId m = sessionId) (supportMessages c))"

definition getHistory ::
  "chat_db \<Rightarrow> uuid \<Rightarrow> uuid \<Rightarrow> support_error + (support_status \<times> support_message_row list)" where
  "getHistory c sessionId userId =
     (case getOwnedSession c sessionId userId of
        Inl e \<Rightarrow> Inl e
      | Inr x \<Rightarrow> Inr (sp_status x, session_messages c sessionId))"

definition newest_of :: "chat_role \<Rightarrow> chat_db \<Rightarrow> uuid \<Rightarrow> support_message_row list" where
  "newest_of role c sessionId =
     sort_key (\<lambda>m. - sm_createdAt m)
       (filter (\<lambda>m. sm_sessionId m = sessionId \<and> sm_role m = role) (supportMessages c))"

definition isSessionEscalated :: "chat_db \<Rightarrow> uuid \<Rightarrow> bool" where
  "isSessionEscalated c sessionId =
     (let recent = map sm_body (take ESCALATION_THRESHOLD (newest_of C_ASSISTANT c sessionId)) in
      if (case recent of [] \<Rightarrow> False | b # bs \<Rightarrow> includes_text b EXHAUSTED_MARKER) then True
      else if isEscalated recent then True
      else (case newest_of C_USER c sessionId of
              [] \<Rightarrow> False
            | m # ms \<Rightarrow> isExplicitEscalationRequest (sm_body m)))"

definition say :: "chat_db \<Rightarrow> support_message_row \<Rightarrow> chat_db" where
  "say c m = c\<lparr>supportMessages := supportMessages c @ [m]\<rparr>"

definition support_message :: "uuid \<Rightarrow> uuid \<Rightarrow> chat_role \<Rightarrow> utext \<Rightarrow> instant \<Rightarrow> support_message_row" where
  "support_message mid sessionId role body now = \<lparr>sm_id = mid, sm_sessionId = sessionId, sm_role = role,
     sm_body = body, sm_createdAt = now\<rparr>"

definition open_session_row :: "uuid \<Rightarrow> uuid \<Rightarrow> instant \<Rightarrow> support_session_row" where
  "open_session_row newId userId now = \<lparr>sp_id = newId, sp_userId = userId, sp_status = AI_ONLY,
     sp_assignedAdminId = None, sp_createdAt = now\<rparr>"

definition sendSessionMessage ::
  "gemini \<Rightarrow> (chat_db \<Rightarrow> chat_db) \<Rightarrow> chat_db \<Rightarrow> instant \<Rightarrow> instant \<Rightarrow> uuid \<Rightarrow> uuid \<Rightarrow> uuid \<Rightarrow> uuid \<Rightarrow> utext
     \<Rightarrow> uuid option \<Rightarrow> chat_db \<times> (support_error + support_reply)" where
  "sendSessionMessage gemini meanwhile c now later newSession newQuestion newAnswer userId message sessionId =
     (let opened = (case sessionId of
            Some sid \<Rightarrow> map_sum id (Pair c) (getOwnedSession c sid userId)
          | None \<Rightarrow>
              let x = open_session_row newSession userId now
              in Inr (c\<lparr>supportSessions := supportSessions c @ [x]\<rparr>, x))
      in case opened of
           Inl e \<Rightarrow> (c, Inl e)
         | Inr (c1, session) \<Rightarrow>
             if sp_status session \<noteq> AI_ONLY then (c1, Inl MovedToAdmin)
             else
               let sid = sp_id session;
                   c2 = say c1 (support_message newQuestion sid C_USER message now)
               in if isExplicitEscalationRequest message
                  then
                    let m = support_message newAnswer sid C_ASSISTANT CONTACT_ADMIN_REPLY later
                    in (say c2 m, Inr \<lparr>sr_sessionId = Some sid, sr_reply = chat_message_of m, sr_escalated = True\<rparr>)
                  else
                    let history = map (\<lambda>m. (sm_role m, sm_body m)) (session_messages c2 sid)
                    in case generateReplySafely gemini (buildSupportPrompt history message) of
                         None \<Rightarrow> (meanwhile c2, Inl ModelFailed)
                       | Some replyText \<Rightarrow>
                           let m = support_message newAnswer sid C_ASSISTANT replyText later;
                               c3 = say (meanwhile c2) m
                           in (c3, Inr \<lparr>sr_sessionId = Some sid, sr_reply = chat_message_of m,
                                        sr_escalated = isSessionEscalated c3 sid\<rparr>))"

definition guest_message :: "uuid \<Rightarrow> utext \<Rightarrow> instant \<Rightarrow> chat_message" where
  "guest_message mid body now = \<lparr>cm_id = mid, cm_sessionId = None, cm_role = C_ASSISTANT, cm_body = body,
     cm_createdAt = now\<rparr>"

definition sendGuestMessage ::
  "gemini \<Rightarrow> instant \<Rightarrow> uuid \<Rightarrow> utext \<Rightarrow> (chat_role \<times> utext) list \<Rightarrow> support_error + support_reply" where
  "sendGuestMessage gemini now newId message guestHistory =
     (if isExplicitEscalationRequest message
      then Inr \<lparr>sr_sessionId = None, sr_reply = guest_message newId CONTACT_ADMIN_REPLY now, sr_escalated = True\<rparr>
      else
        (case generateReplySafely gemini (buildSupportPrompt guestHistory message) of
           None \<Rightarrow> Inl ModelFailed
         | Some replyText \<Rightarrow>
             let priorAssistantBodies = last_items (ESCALATION_THRESHOLD - 1)
                   (map snd (filter (\<lambda>(role, body). role = C_ASSISTANT) guestHistory))
             in Inr \<lparr>sr_sessionId = None, sr_reply = guest_message newId replyText now,
                     sr_escalated = (includes_text replyText EXHAUSTED_MARKER \<or>
                                     isEscalated (priorAssistantBodies @ [replyText]))\<rparr>))"

definition with_status :: "uuid \<Rightarrow> support_status \<Rightarrow> chat_db \<Rightarrow> chat_db" where
  "with_status sessionId status c =
     c\<lparr>supportSessions := map_rows (\<lambda>x. sp_id x = sessionId) (\<lambda>x. x\<lparr>sp_status := status\<rparr>) (supportSessions c)\<rparr>"

definition escalate ::
  "chat_db \<Rightarrow> uuid \<Rightarrow> uuid \<Rightarrow> chat_db \<times> support_event list \<times> (support_error + support_session_row)" where
  "escalate c sessionId userId =
     (case getOwnedSession c sessionId userId of
        Inl e \<Rightarrow> (c, [], Inl e)
      | Inr session \<Rightarrow>
          if sp_status session \<noteq> AI_ONLY then (c, [], Inr session)
          else if \<not> isSessionEscalated c sessionId then (c, [], Inl NotYetForAdmin)
          else (with_status sessionId ESCALATED c, [InboxUpdate sessionId (Some userId)],
                Inr (session\<lparr>sp_status := ESCALATED\<rparr>)))"

definition sendUserMessageToAdmin ::
  "chat_db \<Rightarrow> instant \<Rightarrow> uuid \<Rightarrow> uuid \<Rightarrow> uuid \<Rightarrow> utext
     \<Rightarrow> chat_db \<times> support_event list \<times> (support_error + support_message_row)" where
  "sendUserMessageToAdmin c now newId sessionId userId body =
     (case getOwnedSession c sessionId userId of
        Inl e \<Rightarrow> (c, [], Inl e)
      | Inr session \<Rightarrow>
          let m = support_message newId sessionId C_USER body now;
              c1 = (if sp_status session = RESOLVED_SESSION then with_status sessionId ESCALATED c else c)
          in (say c1 m, [SupportMessage sessionId m, InboxUpdate sessionId (Some userId)], Inr m))"

section \<open>The administrators' side\<close>

definition flattenParticipant :: "auth_db \<Rightarrow> uuid \<Rightarrow> (uuid \<times> utext \<times> utext option) option" where
  "flattenParticipant s uid =
     map_option (\<lambda>a. (acc_id a, acc_email a,
         map_option pf_displayName (acc_profile a)))
       (find (\<lambda>a. acc_id a = uid) (accounts s))"

record admin_session =
  as_session :: support_session_row
  as_user :: "(uuid \<times> utext \<times> utext option) option"
  as_assignedAdmin :: "(uuid \<times> utext \<times> utext option) option"
  as_messages :: "support_message_row list"

definition admin_session_of :: "auth_db \<Rightarrow> support_session_row \<Rightarrow> support_message_row list \<Rightarrow> admin_session" where
  "admin_session_of s x ms = \<lparr>as_session = x, as_user = flattenParticipant s (sp_userId x),
     as_assignedAdmin = Option.bind (sp_assignedAdminId x) (flattenParticipant s), as_messages = ms\<rparr>"

text \<open>The list shows the last message only.\<close>

definition listSessions :: "auth_db \<Rightarrow> chat_db \<Rightarrow> support_status option \<Rightarrow> admin_session list" where
  "listSessions s c status_opt =
     (let status = or_default status_opt ESCALATED in
      map (\<lambda>x. admin_session_of s x (take 1 (sort_key (\<lambda>m. - sm_createdAt m)
               (filter (\<lambda>m. sm_sessionId m = sp_id x) (supportMessages c)))))
        (sort_key sp_createdAt (filter (\<lambda>x. sp_status x = status) (supportSessions c))))"

definition requireSession :: "chat_db \<Rightarrow> uuid \<Rightarrow> support_error + support_session_row" where
  "requireSession c sessionId =
     (case find_support_session c sessionId of None \<Rightarrow> Inl SessionNotFound | Some x \<Rightarrow> Inr x)"

definition getSession :: "auth_db \<Rightarrow> chat_db \<Rightarrow> uuid \<Rightarrow> support_error + admin_session" where
  "getSession s c sessionId =
     (case requireSession c sessionId of
        Inl e \<Rightarrow> Inl e
      | Inr x \<Rightarrow> Inr (admin_session_of s x (session_messages c sessionId)))"

definition update_session ::
  "chat_db \<Rightarrow> uuid \<Rightarrow> (support_session_row \<Rightarrow> support_session_row) \<Rightarrow> chat_db" where
  "update_session c sessionId f =
     c\<lparr>supportSessions := map_rows (\<lambda>x. sp_id x = sessionId) f (supportSessions c)\<rparr>"

definition claim ::
  "chat_db \<Rightarrow> uuid \<Rightarrow> uuid \<Rightarrow> chat_db \<times> support_event list \<times> (support_error + support_session_row)" where
  "claim c sessionId adminId =
     (case requireSession c sessionId of
        Inl e \<Rightarrow> (c, [], Inl e)
      | Inr x \<Rightarrow> (update_session c sessionId (\<lambda>x. x\<lparr>sp_assignedAdminId := Some adminId\<rparr>),
                 [InboxUpdate sessionId None], Inr (x\<lparr>sp_assignedAdminId := Some adminId\<rparr>)))"

definition reply_to_session ::
  "chat_db \<Rightarrow> instant \<Rightarrow> uuid \<Rightarrow> uuid \<Rightarrow> uuid \<Rightarrow> utext
     \<Rightarrow> chat_db \<times> support_event list \<times> (support_error + support_message_row)" where
  "reply_to_session c now newId sessionId adminId body =
     (case requireSession c sessionId of
        Inl e \<Rightarrow> (c, [], Inl e)
      | Inr session \<Rightarrow>
          let m = support_message newId sessionId C_ADMIN body now;
              c1 = update_session c sessionId (\<lambda>x. x\<lparr>sp_status := ESCALATED,
                     sp_assignedAdminId := Some (or_default (sp_assignedAdminId session) adminId)\<rparr>)
          in (say c1 m, [SupportMessage sessionId m, InboxUpdate sessionId None], Inr m))"

definition resolve ::
  "chat_db \<Rightarrow> uuid \<Rightarrow> chat_db \<times> support_event list \<times> (support_error + support_session_row)" where
  "resolve c sessionId =
     (case requireSession c sessionId of
        Inl e \<Rightarrow> (c, [], Inl e)
      | Inr x \<Rightarrow> (update_session c sessionId (\<lambda>x. x\<lparr>sp_status := RESOLVED_SESSION\<rparr>),
                 [InboxUpdate sessionId None], Inr (x\<lparr>sp_status := RESOLVED_SESSION\<rparr>)))"

end
