(* ===== verification/Support_Properties.thy ===== *)
theory Support_Properties
  imports Support_Chat
begin

text \<open>
  The life of a support session: \<open>user_turn\<close> and \<open>admin_turn\<close> are one call each, run alone; a session
  leaves the assistant for good, and by its user only when that was earned. A guest, whose browser
  carries the conversation, is escalated like a member.
\<close>

section \<open>Turns\<close>

inductive user_turn :: "chat_db \<Rightarrow> chat_db \<Rightarrow> bool" where
  asks: "ns \<notin> sp_id ` set (supportSessions c) \<Longrightarrow>
    user_turn c (fst (sendSessionMessage g id c now later ns nq na u message session))"
| escalates: "user_turn c (fst (escalate c s u))"
| writes: "user_turn c (fst (sendUserMessageToAdmin c now n s u body))"

inductive admin_turn :: "chat_db \<Rightarrow> chat_db \<Rightarrow> bool" where
  claims: "admin_turn c (fst (claim c s admin))"
| replies: "admin_turn c (fst (reply_to_session c now n s admin body))"
| resolves: "admin_turn c (fst (resolve c s))"

definition support_turn :: "chat_db \<Rightarrow> chat_db \<Rightarrow> bool" where
  "support_turn c c' \<longleftrightarrow> user_turn c c' \<or> admin_turn c c'"

definition sessions_keyed :: "chat_db \<Rightarrow> bool" where
  "sessions_keyed c \<longleftrightarrow> distinct (map sp_id (supportSessions c))"

definition assistant_lines :: "chat_db \<Rightarrow> uuid \<Rightarrow> support_message_row list" where
  "assistant_lines c s = filter (\<lambda>m. sm_sessionId m = s \<and> sm_role m = C_ASSISTANT) (supportMessages c)"

text \<open>\<open>handed c s\<close>: the session is with people, escalated or resolved.\<close>

definition handed :: "chat_db \<Rightarrow> uuid \<Rightarrow> bool" where
  "handed c s \<longleftrightarrow> (\<exists>x \<in> set (supportSessions c). sp_id x = s \<and> sp_status x \<noteq> AI_ONLY)"

lemma find_support_session_eq:
  "sessions_keyed c \<Longrightarrow> x \<in> set (supportSessions c) \<Longrightarrow> find_support_session c (sp_id x) = Some x"
  unfolding find_support_session_def sessions_keyed_def by (rule find_key_eq [where k = sp_id]) auto

lemma find_support_session_SomeD:
  "find_support_session c s = Some x \<Longrightarrow> x \<in> set (supportSessions c) \<and> sp_id x = s"
  by (auto simp: find_support_session_def dest!: find_SomeD)

lemma say_simps [simp]:
  "supportSessions (say c m) = supportSessions c" "supportMessages (say c m) = supportMessages c @ [m]"
  by (simp_all add: say_def)

lemma update_session_simps [simp]:
  "supportSessions (update_session c s f) = map_rows (\<lambda>x. sp_id x = s) f (supportSessions c)"
  "supportMessages (update_session c s f) = supportMessages c"
  "supportSessions (with_status s st c) = map_rows (\<lambda>x. sp_id x = s) (\<lambda>x. x\<lparr>sp_status := st\<rparr>) (supportSessions c)"
  "supportMessages (with_status s st c) = supportMessages c"
  by (simp_all add: update_session_def with_status_def)

text \<open>What a question does: nothing, or a line or two in one session that is still the assistant's.\<close>

lemma sendSessionMessage_cases:
  obtains (same) "fst (sendSessionMessage g f c now later ns nq na u message session) = c"
  | (opened) x ms where
      "supportSessions (fst (sendSessionMessage g id c now later ns nq na u message session))
         = supportSessions c @ (if session = None then [open_session_row ns u now] else [])"
      "supportMessages (fst (sendSessionMessage g id c now later ns nq na u message session)) = supportMessages c @ ms"
      "session = None \<longrightarrow> x = open_session_row ns u now" "session \<noteq> None \<longrightarrow> x \<in> set (supportSessions c)"
      "sp_status x = AI_ONLY" "\<forall>m \<in> set ms. sm_sessionId m = sp_id x"
proof (cases session)
  case None
  let ?x = "open_session_row ns u now"
  have "\<exists>ms. supportSessions (fst (sendSessionMessage g id c now later ns nq na u message session))
         = supportSessions c @ [?x] \<and>
      supportMessages (fst (sendSessionMessage g id c now later ns nq na u message session)) = supportMessages c @ ms \<and>
      (\<forall>m \<in> set ms. sm_sessionId m = sp_id ?x)"
    by (auto simp: sendSessionMessage_def None Let_def open_session_row_def support_message_def
        split: option.split)
  then show ?thesis using opened [of _ ?x] None by (auto simp: open_session_row_def)
next
  case (Some s)
  show ?thesis
  proof (cases "getOwnedSession c s u")
    case (Inl e)
    then show ?thesis using same Some by (simp add: sendSessionMessage_def)
  next
    case (Inr x)
    then have x: "x \<in> set (supportSessions c)"
      by (auto simp: getOwnedSession_def dest!: find_support_session_SomeD split: option.splits if_splits)
    show ?thesis
    proof (cases "sp_status x = AI_ONLY")
      case False
      then show ?thesis using same Some Inr by (simp add: sendSessionMessage_def)
    next
      case True
      have "\<exists>ms. supportSessions (fst (sendSessionMessage g id c now later ns nq na u message session))
             = supportSessions c \<and>
          supportMessages (fst (sendSessionMessage g id c now later ns nq na u message session)) = supportMessages c @ ms \<and>
          (\<forall>m \<in> set ms. sm_sessionId m = sp_id x)"
        using True Inr
        by (auto simp: sendSessionMessage_def Some Let_def support_message_def split: option.split)
      then show ?thesis using opened [of _ x] Some True x by auto
    qed
  qed
qed

section \<open>What turns keep\<close>

lemma getOwnedSession_InrD:
  "getOwnedSession c s u = Inr x \<Longrightarrow> x \<in> set (supportSessions c) \<and> sp_id x = s \<and> sp_userId x = u"
  by (auto simp: getOwnedSession_def dest!: find_support_session_SomeD split: option.splits if_splits)

lemma handed_map_rows:
  assumes "handed c s" "supportSessions c' = map_rows P f (supportSessions c)"
    and "\<And>x. sp_id (f x) = sp_id x"
    and "\<And>x. P x \<Longrightarrow> sp_status x \<noteq> AI_ONLY \<Longrightarrow> sp_status (f x) \<noteq> AI_ONLY"
  shows "handed c' s"
proof -
  obtain x :: support_session_row where x: "x \<in> set (supportSessions c)" "sp_id x = s" "sp_status x \<noteq> AI_ONLY"
    using assms(1) by (auto simp: handed_def)
  let ?y = "if P x then f x else x"
  have "?y \<in> set (supportSessions c')" "sp_id ?y = s" "sp_status ?y \<noteq> AI_ONLY"
    using x assms(2-4) by (auto simp: set_map_rows)
  then show ?thesis unfolding handed_def by blast
qed

lemma sessions_keyed_map_rows:
  assumes "sessions_keyed c" "supportSessions c' = map_rows P f (supportSessions c)" "\<And>x. sp_id (f x) = sp_id x"
  shows "sessions_keyed c'"
  using assms by (simp add: sessions_keyed_def map_map_rows_same)

text \<open>\<open>settled_turn s c c'\<close>: what \<open>s\<close> may see of a turn once it is with people.\<close>

definition stays_handed :: "uuid \<Rightarrow> chat_db \<Rightarrow> chat_db \<Rightarrow> bool" where
  "stays_handed s c c' \<longleftrightarrow>
     sessions_keyed c' \<and> handed c' s \<and> assistant_lines c' s = assistant_lines c s"

lemma asks_stays_handed:
  assumes "sessions_keyed c" "handed c s" "ns \<notin> sp_id ` set (supportSessions c)"
  shows "stays_handed s c (fst (sendSessionMessage g id c now later ns nq na u message session))"
  using assms
proof (cases rule: sendSessionMessage_cases [of g id c now later ns nq na u message session])
  case same
  then show ?thesis using assms by (simp add: stays_handed_def)
next
  case (opened x ms)
  let ?c' = "fst (sendSessionMessage g id c now later ns nq na u message session)"
  obtain y :: support_session_row where y: "y \<in> set (supportSessions c)" "sp_id y = s" "sp_status y \<noteq> AI_ONLY"
    using assms(2) by (auto simp: handed_def)
  have "sp_id x \<noteq> s"
  proof (cases session)
    case None
    then show ?thesis using opened(3) y assms(3) by (auto simp: open_session_row_def)
  next
    case (Some t)
    then have "x \<in> set (supportSessions c)" using opened(4) by simp
    then show ?thesis using y opened(5) assms(1) by (auto simp: sessions_keyed_def distinct_map dest: inj_onD)
  qed
  then have "assistant_lines ?c' s = assistant_lines c s"
    using opened(2,6) by (auto simp: assistant_lines_def filter_empty_conv)
  moreover have "handed ?c' s" using y opened(1) by (auto simp: handed_def)
  moreover have "sessions_keyed ?c'"
    using assms(1,3) opened(1) by (auto simp: sessions_keyed_def open_session_row_def)
  ultimately show ?thesis by (simp add: stays_handed_def)
qed

lemma person_line_stays:
  "supportMessages c' = supportMessages c @ [support_message n t role body now] \<Longrightarrow> role \<noteq> C_ASSISTANT \<Longrightarrow>
   assistant_lines c' s = assistant_lines c s"
  by (simp add: assistant_lines_def support_message_def)

lemma rows_stay_handed:
  assumes "sessions_keyed c" "handed c s" "supportSessions c' = map_rows P f (supportSessions c)"
    and "\<And>x. sp_id (f x) = sp_id x"
    and "\<And>x. P x \<Longrightarrow> sp_status x \<noteq> AI_ONLY \<Longrightarrow> sp_status (f x) \<noteq> AI_ONLY"
    and "assistant_lines c' s = assistant_lines c s"
  shows "stays_handed s c c'"
  using handed_map_rows [OF assms(2,3,4,5)] sessions_keyed_map_rows [OF assms(1,3,4)] assms(6)
  by (simp add: stays_handed_def)

lemma writes_stays_handed:
  assumes "sessions_keyed c" "handed c s"
  shows "stays_handed s c (fst (sendUserMessageToAdmin c now n t u body))"
proof (cases "getOwnedSession c t u")
  case (Inl e)
  then show ?thesis using assms by (simp add: sendUserMessageToAdmin_def stays_handed_def)
next
  case (Inr x)
  let ?c' = "fst (sendUserMessageToAdmin c now n t u body)"
  have m: "assistant_lines ?c' s = assistant_lines c s"
    using Inr by (intro person_line_stays [of _ _ n t C_USER body now]) (simp_all add: sendUserMessageToAdmin_def Let_def)
  have "supportSessions ?c' = map_rows (\<lambda>y. sp_status x = RESOLVED_SESSION \<and> sp_id y = t)
      (\<lambda>y. y\<lparr>sp_status := ESCALATED\<rparr>) (supportSessions c)"
    using Inr by (simp add: sendUserMessageToAdmin_def Let_def map_rows_def)
  then show ?thesis by (rule rows_stay_handed [OF assms]) (use m in simp_all)
qed

lemma escalate_stays_handed:
  assumes "sessions_keyed c" "handed c s"
  shows "stays_handed s c (fst (escalate c t u))"
proof -
  have "fst (escalate c t u) = c \<or> fst (escalate c t u) = with_status t ESCALATED c"
    by (simp add: escalate_def split: sum.split)
  moreover have "stays_handed s c c" using assms by (simp add: stays_handed_def)
  moreover have "stays_handed s c (with_status t ESCALATED c)"
    by (rule rows_stay_handed [OF assms update_session_simps(3)]) (simp_all add: assistant_lines_def)
  ultimately show ?thesis by auto
qed

lemma update_session_stays_handed:
  assumes "sessions_keyed c" "handed c s"
    and "\<And>x. sp_id (f x) = sp_id x" "\<And>x. sp_status x \<noteq> AI_ONLY \<Longrightarrow> sp_status (f x) \<noteq> AI_ONLY"
  shows "stays_handed s c (update_session c t f)"
  by (rule rows_stay_handed [OF assms(1,2) update_session_simps(1)])
    (use assms(3,4) in \<open>simp_all add: assistant_lines_def\<close>)

lemma admin_turn_stays_handed:
  assumes "admin_turn c c'" "sessions_keyed c" "handed c s"
  shows "stays_handed s c c'"
  using assms(1)
proof cases
  case (claims t admin)
  then show ?thesis using assms(2,3)
    by (cases "requireSession c t")
      (auto simp: claim_def stays_handed_def [of s c c] intro!: update_session_stays_handed)
next
  case (resolves t)
  then show ?thesis using assms(2,3)
    by (cases "requireSession c t")
      (auto simp: resolve_def stays_handed_def [of s c c] intro!: update_session_stays_handed)
next
  case (replies now n t admin body)
  show ?thesis
  proof (cases "requireSession c t")
    case (Inl e)
    then show ?thesis using assms(2,3) replies by (simp add: reply_to_session_def stays_handed_def)
  next
    case (Inr x)
    have m: "assistant_lines c' s = assistant_lines c s"
      using Inr replies
      by (intro person_line_stays [of _ _ n t C_ADMIN body now]) (simp_all add: reply_to_session_def Let_def)
    have r: "supportSessions c' = map_rows (\<lambda>y. sp_id y = t)
        (\<lambda>y. y\<lparr>sp_status := ESCALATED, sp_assignedAdminId := Some (or_default (sp_assignedAdminId x) admin)\<rparr>)
        (supportSessions c)"
      using Inr replies by (simp add: reply_to_session_def Let_def)
    show ?thesis by (rule rows_stay_handed [OF assms(2,3) r]) (simp_all add: m)
  qed
qed

lemma support_turn_stays_handed:
  assumes "support_turn c c'" "sessions_keyed c" "handed c s"
  shows "stays_handed s c c'"
proof (cases "admin_turn c c'")
  case True
  then show ?thesis using assms(2,3) by (rule admin_turn_stays_handed)
next
  case False
  then have "user_turn c c'" using assms(1) by (simp add: support_turn_def)
  then show ?thesis
    by cases (simp_all add: asks_stays_handed escalate_stays_handed writes_stays_handed assms(2,3))
qed

lemma support_turns_stay_handed:
  assumes "support_turn\<^sup>*\<^sup>* c c'" "sessions_keyed c" "handed c s"
  shows "stays_handed s c c'"
  using assms(1)
proof (induction rule: rtranclp_induct)
  case base
  then show ?case using assms(2,3) by (simp add: stays_handed_def)
next
  case (step d d')
  then show ?case using support_turn_stays_handed [of d d' s] by (simp add: stays_handed_def)
qed

lemma handed_refuses:
  assumes "sessions_keyed c" "handed c s"
  shows "sendSessionMessage g f c now later ns nq na u message (Some s)
    = (c, Inl (if \<exists>x \<in> set (supportSessions c). sp_id x = s \<and> sp_userId x = u then MovedToAdmin else NotYourSession))"
proof -
  obtain x :: support_session_row where x: "x \<in> set (supportSessions c)" "sp_id x = s" "sp_status x \<noteq> AI_ONLY"
    using assms(2) by (auto simp: handed_def)
  have f: "find_support_session c s = Some x"
    using find_support_session_eq [OF assms(1) x(1)] x(2) by simp
  have "(\<exists>y \<in> set (supportSessions c). sp_id y = s \<and> sp_userId y = u) \<longleftrightarrow> sp_userId x = u"
    using x assms(1) by (auto simp: sessions_keyed_def distinct_map dest: inj_onD)
  then show ?thesis using f x(3) by (simp add: sendSessionMessage_def getOwnedSession_def)
qed

text \<open>Only an escalation, and an earned one, takes a session from the assistant.\<close>

lemma only_escalation_hands_over:
  assumes "user_turn c c'" "sessions_keyed c" "\<not> handed c s" "handed c' s"
  shows "isSessionEscalated c s \<and> c' = with_status s ESCALATED c"
  using assms(1)
proof cases
  case (asks ns g now later nq na u message session)
  then have False
    using assms(3,4)
    by (cases rule: sendSessionMessage_cases [of g id c now later ns nq na u message session])
      (auto simp: handed_def open_session_row_def split: if_splits)
  then show ?thesis ..
next
  case (escalates t u)
  show ?thesis
  proof (cases "getOwnedSession c t u")
    case (Inl e)
    then show ?thesis using escalates assms(3,4) by (simp add: escalate_def)
  next
    case (Inr x)
    then have c': "c' = with_status t ESCALATED c" "isSessionEscalated c t"
      using escalates assms(3,4) by (auto simp: escalate_def split: if_splits)
    then have "t = s"
      using assms(3,4) by (auto simp: handed_def set_map_rows split: if_splits)
    then show ?thesis using c' by simp
  qed
next
  case (writes now n t u body)
  have False
  proof (cases "getOwnedSession c t u")
    case (Inl e)
    then show ?thesis using writes assms(3,4) by (simp add: sendUserMessageToAdmin_def)
  next
    case (Inr x)
    note x = getOwnedSession_InrD [OF Inr]
    show ?thesis
    proof (cases "sp_status x = RESOLVED_SESSION")
      case False
      then show ?thesis using writes Inr assms(3,4) by (auto simp: sendUserMessageToAdmin_def handed_def Let_def)
    next
      case True
      then have "s \<noteq> t" using x assms(3) by (auto simp: handed_def)
      then show ?thesis using True writes Inr assms(3,4)
        by (auto simp: sendUserMessageToAdmin_def handed_def Let_def set_map_rows split: if_splits)
    qed
  qed
  then show ?thesis ..
qed

section \<open>Properties\<close>


definition demo_support :: chat_db where
  "demo_support = \<lparr>conversations = [], messages = [],
     supportSessions = [\<lparr>sp_id = 1, sp_userId = 5, sp_status = AI_ONLY, sp_assignedAdminId = None, sp_createdAt = 0\<rparr>],
     supportMessages = [support_message 1 1 C_USER (ascii ''admin please'') 10]\<rparr>"

definition demo_handed :: chat_db where
  "demo_handed = fst (escalate demo_support 1 5)"

definition demo_resolved :: chat_db where
  "demo_resolved = fst (resolve demo_handed 1)"

lemma demo_support_facts:
  "sessions_keyed demo_support" "sessions_keyed demo_handed" "\<not> handed demo_support 1" "handed demo_handed 1"
  "find_support_session demo_resolved 1 = Some \<lparr>sp_id = 1, sp_userId = 5, sp_status = RESOLVED_SESSION,
     sp_assignedAdminId = None, sp_createdAt = 0\<rparr>"
  unfolding sessions_keyed_def handed_def by code_simp+


section \<open>Guests and members\<close>

lemma insort_key_end: "\<forall>y \<in> set ys. g y < g x \<Longrightarrow> insort_key g x ys = ys @ [x]"
  by (induction ys) auto

lemma sort_key_increasing:
  fixes f :: "'a \<Rightarrow> int"
  assumes "sorted_wrt (<) (map f xs)"
  shows "sort_key f xs = xs" "sort_key (\<lambda>x. - f x) xs = rev xs"
proof -
  show "sort_key f xs = xs"
    using assms by (simp add: strict_sorted_iff sort_key_id_if_sorted)
  show "sort_key (\<lambda>x. - f x) xs = rev xs"
    using assms by (induction xs) (simp_all add: insort_key_end)
qed

text \<open>\<open>transcript c s\<close>: what was said in the session, and \<open>in_order\<close>: one line at a time.\<close>

definition transcript :: "chat_db \<Rightarrow> uuid \<Rightarrow> support_message_row list" where
  "transcript c s = filter (\<lambda>m. sm_sessionId m = s) (supportMessages c)"

definition in_order :: "chat_db \<Rightarrow> uuid \<Rightarrow> bool" where
  "in_order c s \<longleftrightarrow> sorted_wrt (<) (map sm_createdAt (transcript c s))"

lemma transcript_say [simp]:
  "transcript (say c m) s = transcript c s @ (if sm_sessionId m = s then [m] else [])"
  by (simp add: transcript_def)

lemma in_order_newest:
  assumes "in_order c s"
  shows "session_messages c s = transcript c s"
    and "newest_of role c s = rev (filter (\<lambda>m. sm_role m = role) (transcript c s))"
proof -
  have "sorted_wrt (<) (map sm_createdAt (filter P (transcript c s)))" for P
    using assms unfolding in_order_def sorted_wrt_map by (rule sorted_wrt_filter)
  from sort_key_increasing(2) [OF this, of "\<lambda>m. sm_role m = role"]
  show "newest_of role c s = rev (filter (\<lambda>m. sm_role m = role) (transcript c s))"
    by (simp add: newest_of_def transcript_def conj_commute cong: conj_cong)
  show "session_messages c s = transcript c s"
    using sort_key_increasing(1) [OF assms [unfolded in_order_def]]
    by (simp add: session_messages_def transcript_def)
qed

lemma in_order_say:
  "in_order c s \<Longrightarrow> \<forall>m \<in> set (transcript c s). sm_createdAt m < sm_createdAt q \<Longrightarrow> in_order (say c q) s"
  by (simp add: in_order_def sorted_wrt_append)

lemma escalated_by_last_three:
  "isEscalated (take ESCALATION_THRESHOLD (rev (bs @ [b])))
     = isEscalated (last_items (ESCALATION_THRESHOLD - 1) bs @ [b])"
proof -
  have "take 3 (rev (bs @ [b])) = rev (last_items 2 bs @ [b])"
    using take_rev [of 2 bs] by (simp add: last_items_def)
  then show ?thesis by (simp add: isEscalated_def ESCALATION_THRESHOLD_def list_all_rev conj_commute)
qed

definition assistant_bodies :: "(chat_role \<times> utext) list \<Rightarrow> utext list" where
  "assistant_bodies h = map snd (filter (\<lambda>(role, body). role = C_ASSISTANT) h)"

definition conversation :: "chat_db \<Rightarrow> uuid \<Rightarrow> (chat_role \<times> utext) list" where
  "conversation c s = map (\<lambda>m. (sm_role m, sm_body m)) (transcript c s)"

lemma assistant_bodies_conversation:
  "assistant_bodies (conversation c s) = map sm_body (filter (\<lambda>m. sm_role m = C_ASSISTANT) (transcript c s))"
  by (simp add: assistant_bodies_def conversation_def filter_map comp_def)

text \<open>The flag of an answer, from the lines before it.\<close>

definition answer_escalates :: "utext list \<Rightarrow> utext \<Rightarrow> bool" where
  "answer_escalates before reply \<longleftrightarrow>
     includes_text reply EXHAUSTED_MARKER \<or> isEscalated (last_items (ESCALATION_THRESHOLD - 1) before @ [reply])"

lemma isSessionEscalated_after_answer:
  fixes c :: chat_db and reply :: utext and nq na :: uuid
  assumes "in_order c s" "\<forall>m \<in> set (transcript c s). sm_createdAt m < now" "now < later"
    and "\<not> isExplicitEscalationRequest message"
  defines "c3 \<equiv> say (say c (support_message nq s C_USER message now)) (support_message na s C_ASSISTANT reply later)"
  shows "isSessionEscalated c3 s = answer_escalates (assistant_bodies (conversation c s)) reply"
proof -
  have "in_order c3 s"
    unfolding c3_def using assms(1-3)
    by (intro in_order_say) (auto simp: support_message_def)
  note newest = in_order_newest(2) [OF this]
  have a: "map sm_body (take 3 (newest_of C_ASSISTANT c3 s))
      = take 3 (rev (assistant_bodies (conversation c s) @ [reply]))"
    unfolding newest assistant_bodies_conversation
    by (simp add: c3_def support_message_def take_map rev_map)
  have u: "\<exists>ms. newest_of C_USER c3 s = support_message nq s C_USER message now # ms"
    unfolding newest by (simp add: c3_def support_message_def)
  show ?thesis
    using a u assms(4) escalated_by_last_three [of "assistant_bodies (conversation c s)" reply]
    by (auto simp: isSessionEscalated_def ESCALATION_THRESHOLD_def Let_def answer_escalates_def
        support_message_def split: list.split)
qed

text \<open>A guest is escalated like a member. Asked the same question, with the same answers given so
  far and the same answer of the model to both prompts, a guest (whose browser carries the history)
  and the owner of a session get the same text and the same offer of an administrator, or the same
  failure.\<close>

theorem guest_and_member_escalate_alike:
  assumes "getOwnedSession c s u = Inr x" "sp_status x = AI_ONLY"
    and "in_order c s" "\<forall>m \<in> set (transcript c s). sm_createdAt m < now" "now < later"
    and "assistant_bodies h = assistant_bodies (conversation c s)"
    and "g (buildSupportPrompt h message)
       = g (buildSupportPrompt (conversation c s @ [(C_USER, message)]) message)"
  shows "map_sum id (\<lambda>r. (cm_body (sr_reply r), sr_escalated r)) (sendGuestMessage g later' n message h)
       = map_sum id (\<lambda>r. (cm_body (sr_reply r), sr_escalated r))
           (snd (sendSessionMessage g id c now later ns nq na u message (Some s)))"
proof -
  have x: "sp_id x = s" using getOwnedSession_InrD [OF assms(1)] by simp
  let ?q = "support_message nq s C_USER message now"
  have "in_order (say c ?q) s"
    using assms(3,4) by (intro in_order_say) (auto simp: support_message_def)
  from in_order_newest(1) [OF this]
  have h: "map (\<lambda>m. (sm_role m, sm_body m)) (session_messages (say c ?q) s) = conversation c s @ [(C_USER, message)]"
    by (simp add: conversation_def support_message_def)
  show ?thesis
  proof (cases "isExplicitEscalationRequest message")
    case True
    then show ?thesis using assms(1,2) x
      by (simp add: sendGuestMessage_def sendSessionMessage_def Let_def guest_message_def chat_message_of_def support_message_def)
  next
    case False
    note e = isSessionEscalated_after_answer [OF assms(3-5) False, of nq na]
    show ?thesis
      using assms(1,2,6,7) x h e False
      by (simp add: sendGuestMessage_def sendSessionMessage_def Let_def guest_message_def chat_message_of_def
          generateReplySafely_def answer_escalates_def assistant_bodies_def support_message_def [of na]
          split: gemini_answer.split)
  qed
qed

definition demo_fallback :: chat_db where
  "demo_fallback = demo_support\<lparr>supportMessages :=
     [support_message 1 1 C_USER (ascii ''why'') 1, support_message 2 1 C_ASSISTANT FALLBACK_MARKER 2,
      support_message 3 1 C_USER (ascii ''how'') 3, support_message 4 1 C_ASSISTANT FALLBACK_MARKER 4]\<rparr>"

theorem guest_and_member_escalate_alike_witness:
  "map_sum id (\<lambda>r. (cm_body (sr_reply r), sr_escalated r))
     (sendGuestMessage (\<lambda>p. GeminiReply FALLBACK_MARKER) 7 9 (ascii ''when'') (conversation demo_fallback 1))
   = map_sum id (\<lambda>r. (cm_body (sr_reply r), sr_escalated r))
       (snd (sendSessionMessage (\<lambda>p. GeminiReply FALLBACK_MARKER) id demo_fallback 5 6 2 5 6 5 (ascii ''when'') (Some 1))) \<and>
   map_sum id (\<lambda>r. (cm_body (sr_reply r), sr_escalated r))
     (sendGuestMessage (\<lambda>p. GeminiReply FALLBACK_MARKER) 7 9 (ascii ''when'') (conversation demo_fallback 1))
   = Inr (FALLBACK_MARKER, True)"
proof -
  let ?g = "\<lambda>p :: prompt. GeminiReply FALLBACK_MARKER"
  have o: "getOwnedSession demo_fallback 1 5 = Inr \<lparr>sp_id = 1, sp_userId = 5, sp_status = AI_ONLY,
      sp_assignedAdminId = None, sp_createdAt = 0\<rparr>" by code_simp
  have t: "in_order demo_fallback 1" "\<forall>m \<in> set (transcript demo_fallback 1). sm_createdAt m < 5"
    unfolding in_order_def by code_simp+
  have v: "map_sum id (\<lambda>r. (cm_body (sr_reply r), sr_escalated r))
     (sendGuestMessage ?g 7 9 (ascii ''when'') (conversation demo_fallback 1)) = Inr (FALLBACK_MARKER, True)"
    by code_simp
  show ?thesis
    using guest_and_member_escalate_alike [OF o _ t, of 6 "conversation demo_fallback 1" ?g "ascii ''when''" 7 9 2 5 6] v
    by simp
qed

definition demo_exhausted :: chat_db where
  "demo_exhausted = demo_support\<lparr>supportMessages :=
     [support_message 1 1 C_USER (ascii ''why'') 1, support_message 2 1 C_ASSISTANT GEMINI_DOWN_REPLY 2]\<rparr>"

definition demo_quiet :: chat_db where
  "demo_quiet = demo_support\<lparr>supportMessages := [support_message 1 1 C_USER (ascii ''why'') 1]\<rparr>"

text \<open>Two ways around the handover. A question that was put before an earned escalation is answered
  by the assistant after it, into a session that is with people; and a message meant for an
  administrator is taken, and put before every administrator, in a session that is still the assistant's
  and has earned nothing.\<close>

theorem handover_has_two_gaps:
  "(let c' = fst (sendSessionMessage (\<lambda>p. GeminiReply (ascii ''hi'')) (\<lambda>d. fst (escalate d 1 5))
                   demo_exhausted 3 9 7 3 4 5 (ascii ''how'') (Some 1))
    in find_support_session c' 1 = Some \<lparr>sp_id = 1, sp_userId = 5, sp_status = ESCALATED,
         sp_assignedAdminId = None, sp_createdAt = 0\<rparr> \<and>
       map sm_id (assistant_lines c' 1) = [2, 4]) \<and>
   \<not> isSessionEscalated demo_quiet 1 \<and>
   escalate demo_quiet 1 5 = (demo_quiet, [], Inl NotYetForAdmin) \<and>
   (case sendUserMessageToAdmin demo_quiet 3 2 1 5 (ascii ''help'') of
      (c', events, answer) \<Rightarrow>
        map_option sp_status (find_support_session c' 1) = Some AI_ONLY \<and>
        events = [SupportMessage 1 (support_message 2 1 C_USER (ascii ''help'') 3), InboxUpdate 1 (Some 5)])"
  by code_simp

end
