(* ===== verification/Admin_Views.thy ===== *)
theory Admin_Views
  imports Support_Chat Order_Service "HOL-Library.Multiset"
begin

text \<open>
  What administrators read: the lists of users, products, auctions and orders, the log of their own
  actions, and the overview (\<open>admin/users\<close>, \<open>products\<close>, \<open>auctions\<close>, \<open>orders\<close>, \<open>actions\<close> and
  \<open>overview.service.ts\<close>). Three lists are read by a cursor: the id of the last row already shown.
  Prisma documents the cursor as the position of that row in the result; what it answers when the row
  is not in the result is the argument \<open>lost\<close>. Where a list is ordered by time alone, rows of one
  instant come in the order the database happens to scan them, the argument \<open>scan\<close>.
\<close>

section \<open>Cursors\<close>

definition cursor_page :: "('r \<Rightarrow> uuid) \<Rightarrow> 'r list \<Rightarrow> uuid option \<Rightarrow> nat \<Rightarrow> 'r list \<Rightarrow> 'r list" where
  "cursor_page rid lost cursor limit rows =
     (case cursor of
        None \<Rightarrow> take limit rows
      | Some c \<Rightarrow> if c \<in> rid ` set rows then take limit (drop 1 (dropWhile (\<lambda>r. rid r \<noteq> c) rows)) else lost)"

text \<open>A reader who follows the cursor until a page is not full, at most \<open>fuel\<close> requests.\<close>

fun walk :: "(uuid option \<Rightarrow> 'r list) \<Rightarrow> ('r \<Rightarrow> uuid) \<Rightarrow> nat \<Rightarrow> nat \<Rightarrow> uuid option \<Rightarrow> 'r list option" where
  "walk fetch rid limit 0 cursor = None"
| "walk fetch rid limit (Suc fuel) cursor =
     (let page = fetch cursor in
      if length page < limit then Some page
      else map_option ((@) page) (walk fetch rid limit fuel (Some (rid (List.last page)))))"

section \<open>Lists\<close>

record user_entry =
  ue_id :: uuid
  ue_email :: utext
  ue_role :: user_role
  ue_status :: user_status
  ue_createdAt :: instant

record user_query =
  uq_cursor :: "uuid option"
  uq_limit :: "nat option"
  uq_status :: "user_status option"
  uq_role :: "user_role option"

definition fits :: "'a option \<Rightarrow> 'a \<Rightarrow> bool" where
  "fits wanted x \<longleftrightarrow> (case wanted of None \<Rightarrow> True | Some w \<Rightarrow> x = w)"

definition user_entry_of :: "account_row \<Rightarrow> user_entry" where
  "user_entry_of a = \<lparr>ue_id = acc_id a, ue_email = acc_email a, ue_role = acc_role a, ue_status = acc_status a,
     ue_createdAt = acc_createdAt a\<rparr>"

definition listUsers ::
  "(account_row list \<Rightarrow> account_row list) \<Rightarrow> account_row list \<Rightarrow> auth_db \<Rightarrow> user_query \<Rightarrow> user_entry list" where
  "listUsers scan lost s q =
     (let limit = or_default (uq_limit q) 20;
          rows = sort_key (\<lambda>a. - acc_createdAt a)
                   (filter (\<lambda>a. fits (uq_status q) (acc_status a) \<and> fits (uq_role q) (acc_role a)) (scan (accounts s)))
      in map user_entry_of (cursor_page acc_id lost (uq_cursor q) limit rows))"

type_synonym participant = "uuid \<times> utext \<times> utext option"

record product_entry =
  pe_id :: uuid
  pe_title :: utext
  pe_status :: product_status
  pe_stockQty :: int
  pe_seller :: "participant option"

record product_query =
  pq_cursor :: "uuid option"
  pq_limit :: "nat option"
  pq_status :: "product_status option"

definition product_entry_of :: "auth_db \<Rightarrow> product_row \<Rightarrow> product_entry" where
  "product_entry_of s p = \<lparr>pe_id = pr_id p, pe_title = pr_title p, pe_status = pr_status p,
     pe_stockQty = pr_stockQty p, pe_seller = flattenParticipant s (pr_sellerId p)\<rparr>"

definition product_rows :: "db \<Rightarrow> product_status option \<Rightarrow> product_row list" where
  "product_rows d status =
     sort_key (\<lambda>p. (- pr_createdAt p, pr_id p)) (filter (\<lambda>p. fits status (pr_status p)) (products d))"

definition listProducts :: "product_row list \<Rightarrow> auth_db \<Rightarrow> db \<Rightarrow> product_query \<Rightarrow> product_entry list" where
  "listProducts lost s d q =
     (let limit = or_default (pq_limit q) 20 in
      map (product_entry_of s) (cursor_page pr_id lost (pq_cursor q) limit (product_rows d (pq_status q))))"

text \<open>An entry of the log as the database keeps it.\<close>

record log_row = admin_action_row +
  lg_id :: uuid
  lg_createdAt :: instant

record log_query =
  lq_cursor :: "uuid option"
  lq_limit :: "nat option"
  lq_actionType :: "admin_action_type option"

definition listActions ::
  "(log_row list \<Rightarrow> log_row list) \<Rightarrow> log_row list \<Rightarrow> log_row list \<Rightarrow> log_query \<Rightarrow> log_row list" where
  "listActions scan lost t q =
     (let limit = or_default (lq_limit q) 20 in
      cursor_page lg_id lost (lq_cursor q) limit
        (sort_key (\<lambda>a. - lg_createdAt a) (filter (\<lambda>a. fits (lq_actionType q) (aa_actionType a)) (scan t))))"

definition adminListAuctions ::
  "db \<Rightarrow> auction_status option \<Rightarrow> nat option \<Rightarrow> nat option \<Rightarrow> public_auction list \<times> meta" where
  "adminListAuctions d status page_opt limit_opt =
     (let page = or_default page_opt 1; limit = or_default limit_opt 20;
          rows = filter (\<lambda>a. au_deletedAt a = None \<and> fits status (au_status a)) (auctions d)
      in (map (toPublicAuction d) (page_of page limit (sort_key (\<lambda>a. (- au_createdAt a, au_id a)) rows)),
          meta_of page limit (length rows)))"

record order_entry =
  oe_id :: uuid
  oe_checkoutSessionId :: uuid
  oe_status :: order_status
  oe_subtotal :: money
  oe_itemCount :: nat
  oe_shipmentStatus :: "shipment_status option"
  oe_createdAt :: instant
  oe_buyer :: "participant option"
  oe_seller :: "participant option"

definition order_entry_of :: "auth_db \<Rightarrow> db \<Rightarrow> order_row \<Rightarrow> order_entry" where
  "order_entry_of s d x = \<lparr>oe_id = or_id x, oe_checkoutSessionId = or_checkoutSessionId x, oe_status = or_status x,
     oe_subtotal = or_subtotal x, oe_itemCount = length (filter (\<lambda>i. oi_orderId i = or_id x) (orderItems d)),
     oe_shipmentStatus = map_option sh_status (shipment_of d (or_id x)), oe_createdAt = or_createdAt x,
     oe_buyer = flattenParticipant s (or_buyerId x), oe_seller = flattenParticipant s (or_sellerId x)\<rparr>"

definition adminListOrders ::
  "auth_db \<Rightarrow> db \<Rightarrow> order_status option \<Rightarrow> nat option \<Rightarrow> nat option \<Rightarrow> order_entry list \<times> meta" where
  "adminListOrders s d status page_opt limit_opt =
     (let page = or_default page_opt 1; limit = or_default limit_opt 20;
          rows = filter (\<lambda>x. fits status (or_status x)) (orders d)
      in (map (order_entry_of s d) (page_of page limit (sort_key (\<lambda>x. (- or_createdAt x, or_id x)) rows)),
          meta_of page limit (length rows)))"

section \<open>The overview\<close>

record overview =
  vw_users :: "nat \<times> nat" \<comment> \<open>all, and suspended\<close>
  vw_auctions :: "nat \<times> nat" \<comment> \<open>active, and all\<close>
  vw_products :: "nat \<times> nat"
  vw_paidCount :: nat
  vw_paidTotal :: money
  vw_adminActionsLast24h :: nat

definition getOverview :: "auth_db \<Rightarrow> db \<Rightarrow> log_row list \<Rightarrow> instant \<Rightarrow> overview" where
  "getOverview s d t now =
     \<lparr>vw_users = (length (accounts s), count_rows (\<lambda>a. acc_status a = U_SUSPENDED) (accounts s)),
      vw_auctions = (count_rows (\<lambda>a. au_status a = ACTIVE \<and> au_deletedAt a = None) (auctions d),
                     count_rows (\<lambda>a. au_deletedAt a = None) (auctions d)),
      vw_products = (count_rows (\<lambda>p. pr_status p = P_ACTIVE) (products d), length (products d)),
      vw_paidCount = count_rows (\<lambda>x. or_status x = O_PAID) (orders d),
      vw_paidTotal = sum_list (map or_subtotal (filter (\<lambda>x. or_status x = O_PAID) (orders d))),
      vw_adminActionsLast24h = count_rows (\<lambda>a. now - 24 * 60 * 60 * 1000 < lg_createdAt a) t\<rparr>"

section \<open>Walking a list\<close>

lemma dropWhile_key:
  "distinct (map rid (xs @ r # ys)) \<Longrightarrow> dropWhile (\<lambda>q. rid q \<noteq> rid r) (xs @ r # ys) = r # ys"
  by (induction xs) auto

lemma cursor_page_after:
  assumes "distinct (map rid (xs @ ys))" "xs \<noteq> []"
  shows "cursor_page rid lost (Some (rid (List.last xs))) limit (xs @ ys) = take limit ys"
proof -
  obtain zs r where xs: "xs = zs @ [r]" using assms(2) by (cases xs rule: rev_cases) auto
  then show ?thesis using assms(1) dropWhile_key [of rid zs r ys] by (auto simp: cursor_page_def)
qed

lemma walk_from:
  assumes "distinct (map rid (xs @ ys))" "0 < limit" "length ys div limit < fuel"
    and "xs = [] \<longleftrightarrow> cursor = None" "\<And>c. cursor = Some c \<Longrightarrow> c = rid (List.last xs)"
  shows "walk (\<lambda>c. cursor_page rid lost c limit (xs @ ys)) rid limit fuel cursor = Some ys"
  using assms
proof (induction fuel arbitrary: xs ys cursor)
  case (Suc fuel)
  have page: "cursor_page rid lost cursor limit (xs @ ys) = take limit ys"
  proof (cases cursor)
    case None
    then show ?thesis using Suc.prems(4) by (simp add: cursor_page_def)
  next
    case (Some c)
    then have "xs \<noteq> []" "c = rid (List.last xs)" using Suc.prems(4,5) by auto
    then show ?thesis using Some cursor_page_after [OF Suc.prems(1)] by simp
  qed
  show ?case
  proof (cases "length ys < limit")
    case True
    then show ?thesis using page by simp
  next
    case False
    let ?p = "take limit ys" and ?r = "drop limit ys"
    have full: "?p \<noteq> []" using False Suc.prems(2) by auto
    have "length ys div limit = Suc (length ?r div limit)"
      using False Suc.prems(2) by (simp add: le_div_geq)
    then have "length ?r div limit < fuel" using Suc.prems(3) by simp
    moreover have "distinct (map rid ((xs @ ?p) @ ?r))" using Suc.prems(1) by simp
    ultimately have "walk (\<lambda>c. cursor_page rid lost c limit ((xs @ ?p) @ ?r)) rid limit fuel
        (Some (rid (List.last ?p))) = Some ?r"
      using Suc.prems(2) full by (intro Suc.IH) simp_all
    then show ?thesis using page False by (simp add: Let_def)
  qed
qed simp

lemma walk_map:
  assumes "\<And>x. rid' (g x) = rid x" "0 < limit"
  shows "walk (\<lambda>c. map g (fetch c)) rid' limit fuel cursor = map_option (map g) (walk fetch rid limit fuel cursor)"
proof (induction fuel arbitrary: cursor)
  case (Suc fuel)
  show ?case
  proof (cases "length (fetch cursor) < limit")
    case False
    then have "fetch cursor \<noteq> []" using assms(2) by auto
    then show ?thesis using False Suc assms(1) by (simp add: last_map option.map_comp comp_def Let_def)
  qed simp
qed simp

section \<open>Properties\<close>

text \<open>C33: Reading the products to the end terminates and misses nothing. An administrator who follows the
  cursor has every product of the chosen status, newest first and each once, after at most one request
  more than there are full pages, with any page size; and each request in between answers exactly one
  page. The order's tie-break on the id is what makes it so.\<close>

theorem product_cursor_covers_the_list:
  assumes "distinct (map pr_id (products d))" "0 < limit"
  shows "walk (\<lambda>c. listProducts lost s d \<lparr>pq_cursor = c, pq_limit = Some limit, pq_status = status\<rparr>) pe_id limit
           (Suc (length (product_rows d status) div limit)) None
         = Some (map (product_entry_of s) (product_rows d status)) \<and>
         mset (product_rows d status) = mset (filter (\<lambda>p. fits status (pr_status p)) (products d))"
proof
  have "distinct (map pr_id (product_rows d status))"
    using assms(1) unfolding product_rows_def by (simp add: distinct_map distinct_filter inj_on_def)
  then have "walk (\<lambda>c. cursor_page pr_id lost c limit (product_rows d status)) pr_id limit
      (Suc (length (product_rows d status) div limit)) None = Some (product_rows d status)"
    using walk_from [of pr_id "[]" "product_rows d status" limit _ None lost] assms(2)
    by (simp del: walk.simps)
  then show "walk (\<lambda>c. listProducts lost s d \<lparr>pq_cursor = c, pq_limit = Some limit, pq_status = status\<rparr>) pe_id limit
           (Suc (length (product_rows d status) div limit)) None
         = Some (map (product_entry_of s) (product_rows d status))"
    using walk_map [of pe_id "product_entry_of s" pr_id limit] assms(2)
    by (simp add: listProducts_def product_entry_of_def or_default_def del: walk.simps)
  show "mset (product_rows d status) = mset (filter (\<lambda>p. fits status (pr_status p)) (products d))"
    by (simp add: product_rows_def)
qed

definition demo_goods :: "nat \<Rightarrow> instant \<Rightarrow> product_row" where
  "demo_goods n t = \<lparr>pr_id = n, pr_sellerId = 5, pr_categoryId = 1, pr_title = [], pr_description = [],
     pr_price = 100, pr_stockQty = 1, pr_condition = NEW, pr_negotiationFloor = None,
     pr_quantityDiscountMinQty = None, pr_quantityDiscountPercent = None, pr_status = P_ACTIVE,
     pr_createdAt = t, pr_updatedAt = t\<rparr>"

definition demo_shelf :: db where
  "demo_shelf = empty_db\<lparr>products := [demo_goods 3 7, demo_goods 1 7, demo_goods 2 7, demo_goods 4 9]\<rparr>"

theorem product_cursor_covers_the_list_witness:
  "map_option (map pe_id) (walk (\<lambda>c. listProducts [] empty_auth_db demo_shelf
       \<lparr>pq_cursor = c, pq_limit = Some 2, pq_status = None\<rparr>) pe_id 2 3 None) = Some [4, 1, 2, 3]"
proof -
  have "map pr_id (product_rows demo_shelf None) = [4, 1, 2, 3]" by code_simp
  moreover have "length (product_rows demo_shelf None) = 4" using arg_cong [OF calculation, of length] by simp
  moreover have "distinct (map pr_id (products demo_shelf))" by code_simp
  ultimately show ?thesis
    using product_cursor_covers_the_list [of demo_shelf 2 "[]" empty_auth_db None]
    by (simp add: product_entry_of_def comp_def numeral_3_eq_3 del: walk.simps)
qed

definition demo_twins :: auth_db where
  "demo_twins = empty_auth_db\<lparr>accounts := map (\<lambda>u. \<lparr>acc_id = u, acc_email = [], acc_passwordHash = None,
     acc_role = USER, acc_status = U_ACTIVE, acc_emailVerifiedAt = None, acc_lastLoginAt = None,
     acc_createdAt = 7, acc_profile = None\<rparr>) [1, 2]\<rparr>"

text \<open>The users and the log are ordered by time alone, so a row of the same instant as its neighbour can
  be missed: when the database scans the two accounts in another order for the second page, a reader
  who follows the cursor to its end sees one of them only, with no account added or removed.\<close>

theorem user_cursor_can_skip:
  "let ask = (\<lambda>scan c. map ue_id (listUsers scan [] demo_twins
         \<lparr>uq_cursor = c, uq_limit = Some 1, uq_status = None, uq_role = None\<rparr>))
   in ask id None = [1] \<and> ask rev (Some 1) = [] \<and> ask id (Some 1) = [2]"
  by code_simp

end
