(* ===== verification/Gemini_Client.thy ===== *)
theory Gemini_Client
  imports Complex_Main Auction_Service Accounts
begin

text \<open>
  \<open>ai-tools/gemini-client.service.ts\<close> and \<open>ai-tools/price-estimator.service.ts\<close>: calling the language
  model with a deadline and retries, and estimating the price of a draft from its photographs. The
  model is a function of the number of the attempt: what it answers and after how many milliseconds.
  What \<open>JSON.parse\<close> makes of a text and what a photograph's address serves are arguments.
\<close>

section \<open>Retries\<close>

datatype model_result = Answered utext | Failed utext \<comment> \<open>the message of the error\<close>

type_synonym model = "nat \<Rightarrow> model_result \<times> nat"

definition MAX_RETRIES :: nat where
  "MAX_RETRIES = 2"

definition RETRY_BASE_DELAY_MS :: nat where
  "RETRY_BASE_DELAY_MS = 1000"

definition GEMINI_TIMEOUT :: utext where
  "GEMINI_TIMEOUT = ascii ''GEMINI_TIMEOUT''"

text \<open>The first bracket that three digits follow.\<close>

definition three_digits :: "utext \<Rightarrow> nat option" where
  "three_digits t =
     (case map digit_of (take 3 t) of
        [Some x, Some y, Some z] \<Rightarrow> Some (100 * x + 10 * y + z)
      | _ \<Rightarrow> None)"

fun status_in :: "utext \<Rightarrow> nat option" where
  "status_in [] = None"
| "status_in (c # cs) =
     (case (if c = 91 then three_digits cs else None) of
        Some status \<Rightarrow> Some status
      | None \<Rightarrow> status_in cs)"

definition isRetryable :: "utext \<Rightarrow> bool" where
  "isRetryable message \<longleftrightarrow>
     message = GEMINI_TIMEOUT \<or>
     (case status_in message of None \<Rightarrow> False | Some status \<Rightarrow> 500 \<le> status \<and> status < 600)"

text \<open>The race of one attempt against its timer: what wins, and when.\<close>

definition race :: "model \<Rightarrow> nat \<Rightarrow> nat \<Rightarrow> model_result \<times> nat" where
  "race model timeoutMs attempt =
     (case model attempt of
        (result, ms) \<Rightarrow> if ms < timeoutMs then (result, ms) else (Failed GEMINI_TIMEOUT, timeoutMs))"

record run =
  rn_answer :: "utext option" \<comment> \<open>\<open>None\<close> is \<open>GeminiUnavailableException\<close>\<close>
  rn_attempts :: nat
  rn_elapsed :: nat

function attempt_from :: "model \<Rightarrow> nat \<Rightarrow> nat \<Rightarrow> nat \<Rightarrow> run" where
  "attempt_from model timeoutMs attempt clock =
     (if MAX_RETRIES < attempt then \<lparr>rn_answer = None, rn_attempts = attempt, rn_elapsed = clock\<rparr>
      else
        (case race model timeoutMs attempt of
           (Answered reply, ms) \<Rightarrow> \<lparr>rn_answer = Some reply, rn_attempts = Suc attempt, rn_elapsed = clock + ms\<rparr>
         | (Failed message, ms) \<Rightarrow>
             if \<not> isRetryable message \<or> attempt = MAX_RETRIES
             then \<lparr>rn_answer = None, rn_attempts = Suc attempt, rn_elapsed = clock + ms\<rparr>
             else attempt_from model timeoutMs (Suc attempt) (clock + ms + RETRY_BASE_DELAY_MS * 2 ^ attempt)))"
  by pat_completeness auto
termination
  by (relation "measure (\<lambda>(model, timeoutMs, attempt, clock). Suc MAX_RETRIES - attempt)")
    (auto simp: MAX_RETRIES_def)

declare attempt_from.simps [simp del]

definition runWithRetry :: "model option \<Rightarrow> nat \<Rightarrow> run" where
  "runWithRetry client timeoutMs =
     (case client of
        None \<Rightarrow> \<lparr>rn_answer = None, rn_attempts = 0, rn_elapsed = 0\<rparr>
      | Some model \<Rightarrow> attempt_from model timeoutMs 0 0)"

definition generateReply :: "model option \<Rightarrow> run" where
  "generateReply client = runWithRetry client 15000"

definition generateVisionJson :: "model option \<Rightarrow> run" where
  "generateVisionJson client = runWithRetry client 20000"

section \<open>The price estimator\<close>

datatype json =
  JNull | JBool bool | JNumber rat | JString utext | JArray "json list" | JObject "(utext \<times> json) list"

record price_estimate =
  es_suggestedStartingPrice :: rat
  es_estimatedClosingRangeLow :: rat
  es_estimatedClosingRangeHigh :: rat
  es_reason :: utext

datatype estimate_error =
  AuctionNotFound | NotYourDraft | CannotEstimate auction_status | NoPhoto | PhotoUnreadable
| ModelUnavailable | NoEstimate

definition MAX_IMAGES :: nat where
  "MAX_IMAGES = 3"

definition ESTIMABLE_STATUSES :: "auction_status list" where
  "ESTIMABLE_STATUSES = [DRAFT, SCHEDULED]"

text \<open>The last of two fields of one name counts.\<close>

definition json_field :: "(utext \<times> json) list \<Rightarrow> string \<Rightarrow> json option" where
  "json_field fs name = map_of (rev fs) (ascii name)"

definition positive_number :: "json option \<Rightarrow> rat option" where
  "positive_number j = (case j of Some (JNumber x) \<Rightarrow> if 0 < x then Some x else None | _ \<Rightarrow> None)"

definition some_text :: "json option \<Rightarrow> utext option" where
  "some_text j = (case j of Some (JString t) \<Rightarrow> if t = [] then None else Some t | _ \<Rightarrow> None)"

definition parseEstimate :: "(utext \<Rightarrow> json option) \<Rightarrow> utext \<Rightarrow> estimate_error + price_estimate" where
  "parseEstimate parse raw =
     (case parse raw of
        Some (JObject fs) \<Rightarrow>
          (case (positive_number (json_field fs ''suggestedStartingPrice''),
                 positive_number (json_field fs ''estimatedClosingRangeLow''),
                 positive_number (json_field fs ''estimatedClosingRangeHigh''),
                 some_text (json_field fs ''reason'')) of
             (Some p, Some l, Some h, Some r) \<Rightarrow>
               Inr \<lparr>es_suggestedStartingPrice = p, es_estimatedClosingRangeLow = l,
                    es_estimatedClosingRangeHigh = h, es_reason = r\<rparr>
           | _ \<Rightarrow> Inl NoEstimate)
      | _ \<Rightarrow> Inl NoEstimate)"

text \<open>What is sent: the category's name, the condition, and the photographs.\<close>

record vision_request =
  vq_category :: "utext option"
  vq_condition :: product_condition
  vq_photos :: "utext list"

definition estimate ::
  "(utext \<Rightarrow> utext option) \<Rightarrow> (utext \<Rightarrow> json option) \<Rightarrow> (vision_request \<Rightarrow> model option) \<Rightarrow> db
     \<Rightarrow> uuid \<Rightarrow> uuid \<Rightarrow> estimate_error + (db \<times> price_estimate)" where
  "estimate fetch parse client s auctionId sellerId =
     (case find_auction s auctionId of
        None \<Rightarrow> Inl AuctionNotFound
      | Some a \<Rightarrow>
          if au_status a = CANCELLED then Inl AuctionNotFound
          else if au_sellerId a \<noteq> sellerId then Inl NotYourDraft
          else if au_status a \<notin> set ESTIMABLE_STATUSES then Inl (CannotEstimate (au_status a))
          else
            let photos = take MAX_IMAGES (images_of s auctionId)
            in if photos = [] then Inl NoPhoto
               else if list_ex (\<lambda>i. fetch (im_url i) = None) photos then Inl PhotoUnreadable
               else
                 let q = \<lparr>vq_category = map_option ca_name (find_category s (au_categoryId a)),
                          vq_condition = au_condition a,
                          vq_photos = map (\<lambda>i. the (fetch (im_url i))) photos\<rparr>
                 in case rn_answer (generateVisionJson (client q)) of
                      None \<Rightarrow> Inl ModelUnavailable
                    | Some raw \<Rightarrow>
                        (case parseEstimate parse raw of
                           Inl e \<Rightarrow> Inl e
                         | Inr e \<Rightarrow> Inr (s\<lparr>aiRequests := aiRequests s @ [\<lparr>ai_userId = sellerId,
                                         ai_type = PRICE_ESTIMATE\<rparr>]\<rparr>, e)))"

section \<open>Properties\<close>

text \<open>The attempts that come before the one that decides.\<close>

definition gives_way :: "model \<Rightarrow> nat \<Rightarrow> nat \<Rightarrow> bool" where
  "gives_way model timeoutMs n \<longleftrightarrow>
     (case fst (race model timeoutMs n) of Answered r \<Rightarrow> False | Failed m \<Rightarrow> isRetryable m)"

lemma race_within: "snd (race model timeoutMs n) \<le> timeoutMs"
  by (simp add: race_def split: prod.split)

text \<open>What one attempt does, with two, one and no attempts left.\<close>

lemma attempt_from_step:
  "attempt_from model t n clock =
     (if MAX_RETRIES < n then \<lparr>rn_answer = None, rn_attempts = n, rn_elapsed = clock\<rparr>
      else if gives_way model t n \<and> n \<noteq> MAX_RETRIES
      then attempt_from model t (Suc n) (clock + snd (race model t n) + RETRY_BASE_DELAY_MS * 2 ^ n)
      else \<lparr>rn_answer = (case fst (race model t n) of Answered r \<Rightarrow> Some r | Failed m \<Rightarrow> None),
            rn_attempts = Suc n, rn_elapsed = clock + snd (race model t n)\<rparr>)"
  by (subst attempt_from.simps) (simp add: gives_way_def split: prod.split model_result.split)

text \<open>Asking the model ends. Whatever the model answers, and however late, there are at most three
  attempts and the call returns within three deadlines and the two pauses, a second and two; it
  answers the first attempt that is not a passing failure, that is a deadline missed or a 5xx, and it
  tries no further after that; and with no key nothing is tried.\<close>

theorem model_calls_are_bounded:
  "rn_attempts (runWithRetry client t) \<le> 3 \<and>
   rn_elapsed (runWithRetry client t) \<le> 3 * t + 3000 \<and>
   (rn_answer (runWithRetry client t) = Some reply \<longleftrightarrow>
      (\<exists>model n. client = Some model \<and> n \<le> 2 \<and> (\<forall>i < n. gives_way model t i) \<and>
         fst (race model t n) = Answered reply \<and> rn_attempts (runWithRetry client t) = Suc n))"
proof (cases client)
  case None
  then show ?thesis by (simp add: runWithRetry_def)
next
  case (Some model)
  define e where "e = (\<lambda>i. snd (race model t i))"
  define d where "d = (\<lambda>i. case fst (race model t i) of Answered r \<Rightarrow> Some r | Failed m \<Rightarrow> None)"
  have run: "runWithRetry client t =
      (if gives_way model t 0
       then if gives_way model t 1
            then \<lparr>rn_answer = d 2, rn_attempts = 3, rn_elapsed = e 0 + 1000 + e 1 + 2000 + e 2\<rparr>
            else \<lparr>rn_answer = d 1, rn_attempts = 2, rn_elapsed = e 0 + 1000 + e 1\<rparr>
       else \<lparr>rn_answer = d 0, rn_attempts = 1, rn_elapsed = e 0\<rparr>)"
    by (simp add: runWithRetry_def Some attempt_from_step [of model t 0] attempt_from_step [of model t 1]
        attempt_from_step [of model t "Suc 0"] attempt_from_step [of model t 2] attempt_from_step [of model t "Suc (Suc 0)"]
        MAX_RETRIES_def RETRY_BASE_DELAY_MS_def d_def e_def numeral_2_eq_2 numeral_3_eq_3)
  have bounds: "e i \<le> t" for i by (simp add: e_def race_within)
  have d: "d i = Some reply \<longleftrightarrow> fst (race model t i) = Answered reply" for i
    by (simp add: d_def split: model_result.split)
  have stays: "\<not> gives_way model t i" if "fst (race model t i) = Answered reply" for i
    using that by (simp add: gives_way_def)
  have upto: "(\<exists>n. n \<le> (2 :: nat) \<and> P n) \<longleftrightarrow> P 0 \<or> P 1 \<or> P 2" for P
    by (auto simp: le_Suc_eq numeral_2_eq_2)
  have less: "(\<forall>i < (2 :: nat). P i) \<longleftrightarrow> P 0 \<and> P 1" for P
    by (auto simp: less_Suc_eq numeral_2_eq_2)
  have "rn_elapsed (runWithRetry client t) \<le> 3 * t + 3000"
    using bounds [of 0] bounds [of 1] bounds [of 2] by (simp add: run)
  moreover have "rn_answer (runWithRetry client t) = Some reply \<longleftrightarrow>
      (\<exists>n. n \<le> 2 \<and> (\<forall>i < n. gives_way model t i) \<and> fst (race model t n) = Answered reply \<and>
         rn_attempts (runWithRetry client t) = Suc n)"
    unfolding upto using stays [of 0] stays [of 1] by (auto simp: run d less)
  moreover have "rn_attempts (runWithRetry client t) \<le> 3" by (simp add: run)
  ultimately show ?thesis by (simp add: Some)
qed

definition demo_model :: model where
  "demo_model n = (if n = 0 then (Failed (ascii ''[503 Service Unavailable]''), 40) else (Answered (ascii ''ok''), 20))"

theorem model_calls_are_bounded_witness:
  "rn_answer (runWithRetry (Some demo_model) 100) = Some (ascii ''ok'') \<and>
   rn_attempts (runWithRetry (Some demo_model) 100) = 2"
proof -
  have "gives_way demo_model 100 0" "fst (race demo_model 100 1) = Answered (ascii ''ok'')" by code_simp+
  moreover have "rn_attempts (runWithRetry (Some demo_model) 100) = Suc 1"
    by code_simp
  moreover have "(\<forall>i < Suc 0. gives_way demo_model 100 i)" using calculation(1) by simp
  ultimately show ?thesis
    using model_calls_are_bounded [of "Some demo_model" 100 "ascii ''ok''"] by fastforce
qed

text \<open>A price estimate is earned. The model is asked only for the seller's own draft or scheduled auction
  with a photograph that can be read, and shown at most three; an estimate that comes back has three
  positive prices and a reason, and leaves exactly one entry in the log of requests; anything else is
  refused without a trace.\<close>

theorem estimate_is_earned:
  assumes "estimate fetch parse client s auctionId sellerId = Inr (s', e)"
  shows "(\<exists>a photos. find_auction s auctionId = Some a \<and> au_sellerId a = sellerId \<and>
       au_status a \<in> {DRAFT, SCHEDULED} \<and> photos = take 3 (images_of s auctionId) \<and> photos \<noteq> [] \<and>
       (\<forall>i \<in> set photos. fetch (im_url i) \<noteq> None)) \<and>
     s' = s\<lparr>aiRequests := aiRequests s @ [\<lparr>ai_userId = sellerId, ai_type = PRICE_ESTIMATE\<rparr>]\<rparr> \<and>
     0 < es_suggestedStartingPrice e \<and> 0 < es_estimatedClosingRangeLow e \<and>
     0 < es_estimatedClosingRangeHigh e \<and> es_reason e \<noteq> []"
  using assms
  by (auto simp: estimate_def Let_def ESTIMABLE_STATUSES_def MAX_IMAGES_def list_ex_iff parseEstimate_def
      positive_number_def some_text_def split: option.splits if_splits sum.splits json.splits)

text \<open>An estimate whose range is upside down is passed on.\<close>

theorem closing_range_can_be_upside_down:
  "parseEstimate (\<lambda>t. Some (JObject [(ascii ''suggestedStartingPrice'', JNumber 5),
       (ascii ''estimatedClosingRangeLow'', JNumber 9), (ascii ''estimatedClosingRangeHigh'', JNumber 2),
       (ascii ''reason'', JString [65])])) []
     = Inr \<lparr>es_suggestedStartingPrice = 5, es_estimatedClosingRangeLow = 9, es_estimatedClosingRangeHigh = 2,
           es_reason = [65]\<rparr>"
  by (simp add: parseEstimate_def json_field_def positive_number_def some_text_def ascii_def)

end
