(* ===== verification/Web_Search.thy ===== *)
theory Web_Search
  imports Accounts Product_Service
begin

text \<open>
  The lists of the web application keep their state in the address: \<open>apps/web/src/lib/auction-search.ts\<close>,
  \<open>shop-search.ts\<close>, \<open>buildQuery\<close> of \<open>lib/api/client.ts\<close> and the page buttons of \<open>lib/pagination.ts\<close>. A
  query is the list of its names and values, which \<open>URLSearchParams\<close> writes and reads back. How
  JavaScript reads a finite number from a text and prints it is the record \<open>numbers\<close>, of which
  \<open>number_laws\<close> states what ECMAScript guarantees: a number that is printed reads back as itself.
\<close>

section \<open>Numbers and texts\<close>

record numbers =
  nu_read :: "utext \<Rightarrow> rat option" \<comment> \<open>\<open>Number\<close>, when the result is finite\<close>
  nu_show :: "rat \<Rightarrow> utext"

definition number_laws :: "numbers \<Rightarrow> bool" where
  "number_laws n \<longleftrightarrow>
     (\<forall>t x. nu_read n t = Some x \<longrightarrow>
        (\<forall>y \<in> {x, of_int \<lfloor>x\<rfloor>}. nu_read n (nu_show n y) = Some y \<and>
           nu_show n y \<noteq> [] \<and> trim (nu_show n y) = nu_show n y))"

definition represented :: "numbers \<Rightarrow> rat \<Rightarrow> bool" where
  "represented n x \<longleftrightarrow> (\<exists>t. nu_read n t = Some x)"

datatype raw = One utext | Many "utext list"

type_synonym raw_params = "string \<Rightarrow> raw option"

definition first :: "raw option \<Rightarrow> utext option" where
  "first value_opt =
     (case (case value_opt of None \<Rightarrow> None | Some (One t) \<Rightarrow> Some t
            | Some (Many ts) \<Rightarrow> (case ts of [] \<Rightarrow> None | t # _ \<Rightarrow> Some t)) of
        None \<Rightarrow> None
      | Some t \<Rightarrow> if trim t = [] then None else Some (trim t))"

definition toNumber :: "numbers \<Rightarrow> raw option \<Rightarrow> rat option" where
  "toNumber n value_opt =
     (case first value_opt of
        None \<Rightarrow> None
      | Some t \<Rightarrow> (case nu_read n t of None \<Rightarrow> None | Some x \<Rightarrow> if 0 \<le> x then Some x else None))"

definition category_texts :: "raw option \<Rightarrow> utext list" where
  "category_texts rawCategories =
     map trim (case rawCategories of None \<Rightarrow> [] | Some (Many ts) \<Rightarrow> ts | Some (One t) \<Rightarrow> split_at 44 t)"

fun join_commas :: "utext list \<Rightarrow> utext" where
  "join_commas [] = []"
| "join_commas [t] = t"
| "join_commas (t # ts) = t @ 44 # join_commas ts"

datatype query_value = QNone | QText utext | QNumber rat | QList "utext list"

text \<open>\<open>buildQuery\<close>: empty values are left out.\<close>

fun query_text :: "numbers \<Rightarrow> query_value \<Rightarrow> utext option" where
  "query_text n QNone = None"
| "query_text n (QText t) = (if t = [] then None else Some t)"
| "query_text n (QNumber x) = Some (nu_show n x)"
| "query_text n (QList ts) = (if ts = [] then None else Some (join_commas ts))"

definition buildQuery :: "numbers \<Rightarrow> (string \<times> query_value) list \<Rightarrow> (string \<times> utext) list" where
  "buildQuery n params =
     List.map_filter (\<lambda>(k, v). map_option (Pair k) (query_text n v)) params"

text \<open>What a page is handed of a query.\<close>

definition params_of :: "(string \<times> utext) list \<Rightarrow> raw_params" where
  "params_of q k = map_option One (map_of q k)"

section \<open>The auction list\<close>

fun section_text :: "auction_section \<Rightarrow> utext" where
  "section_text Hot = ascii ''hot''"
| "section_text EndingSoon = ascii ''ending-soon''"
| "section_text StartingSoon = ascii ''starting-soon''"
| "section_text RecentlyEnded = ascii ''recently-ended''"

definition AUCTION_SECTION_TABS :: "auction_section list" where
  "AUCTION_SECTION_TABS = [Hot, EndingSoon, StartingSoon, RecentlyEnded]"

record auction_search =
  as_section :: auction_section
  as_q :: "utext option"
  as_categoryIds :: "utext list"
  as_minPrice :: "rat option"
  as_maxPrice :: "rat option"
  as_page :: int

definition hex_digit :: "nat \<Rightarrow> bool" where
  "hex_digit c \<longleftrightarrow> (48 \<le> c \<and> c \<le> 57) \<or> (65 \<le> c \<and> c \<le> 70) \<or> (97 \<le> c \<and> c \<le> 102)"

definition UUID_V4 :: "(nat \<Rightarrow> bool) list" where
  "UUID_V4 = replicate 8 hex_digit @ [(=) 45] @ replicate 4 hex_digit @ [(=) 45, (=) 52] @
     replicate 3 hex_digit @ [(=) 45, (\<lambda>c. c \<in> {56, 57, 65, 66, 97, 98})] @ replicate 3 hex_digit @ [(=) 45] @
     replicate 12 hex_digit"

definition isUuid :: "utext \<Rightarrow> bool" where
  "isUuid t \<longleftrightarrow> list_all2 (\<lambda>P c. P c) UUID_V4 t"

definition parseAuctionSearch :: "numbers \<Rightarrow> raw_params \<Rightarrow> auction_search" where
  "parseAuctionSearch n params =
     \<lparr>as_section = (case find (\<lambda>s. Some (section_text s) = first (params ''section'')) AUCTION_SECTION_TABS of
          None \<Rightarrow> Hot | Some s \<Rightarrow> s),
      as_q = first (params ''q''),
      as_categoryIds = filter isUuid (category_texts (params ''categoryIds'')),
      as_minPrice = toNumber n (params ''minPrice''),
      as_maxPrice = toNumber n (params ''maxPrice''),
      as_page = (case first (params ''page'') of None \<Rightarrow> 1
          | Some t \<Rightarrow> (case nu_read n t of None \<Rightarrow> 1 | Some x \<Rightarrow> if 1 \<le> x then \<lfloor>x\<rfloor> else 1))\<rparr>"

definition hasAuctionFilters :: "auction_search \<Rightarrow> bool" where
  "hasAuctionFilters s \<longleftrightarrow>
     as_q s \<noteq> None \<or> as_categoryIds s \<noteq> [] \<or> as_minPrice s \<noteq> None \<or> as_maxPrice s \<noteq> None"

definition opt_text :: "utext option \<Rightarrow> query_value" where
  "opt_text t = (case t of None \<Rightarrow> QNone | Some t \<Rightarrow> QText t)"

definition opt_number :: "rat option \<Rightarrow> query_value" where
  "opt_number x = (case x of None \<Rightarrow> QNone | Some x \<Rightarrow> QNumber x)"

text \<open>\<open>next_search\<close> is \<open>current\<close> with the overrides put in; \<open>paged\<close> says whether they name a page.\<close>

definition auctionHref :: "numbers \<Rightarrow> auction_search \<Rightarrow> bool \<Rightarrow> (string \<times> utext) list" where
  "auctionHref n next_search paged =
     (let page = (if paged then as_page next_search else 1) in
      buildQuery n
        [(''section'', if as_section next_search = Hot then QNone else QText (section_text (as_section next_search))),
         (''q'', opt_text (as_q next_search)),
         (''categoryIds'', QList (as_categoryIds next_search)),
         (''minPrice'', opt_number (as_minPrice next_search)),
         (''maxPrice'', opt_number (as_maxPrice next_search)),
         (''page'', if 1 < page then QNumber (of_int page) else QNone)])"

section \<open>The catalogue\<close>

fun sort_text :: "product_sort \<Rightarrow> utext" where
  "sort_text NEWEST = ascii ''newest''"
| "sort_text PRICE_ASC = ascii ''price_asc''"
| "sort_text PRICE_DESC = ascii ''price_desc''"

definition PRODUCT_SORTS :: "product_sort list" where
  "PRODUCT_SORTS = [NEWEST, PRICE_ASC, PRICE_DESC]"

record shop_search =
  ss_q :: "utext option"
  ss_categoryIds :: "utext list"
  ss_minPrice :: "rat option"
  ss_maxPrice :: "rat option"
  ss_sort :: "product_sort option"
  ss_page :: int

definition parseShopSearch :: "numbers \<Rightarrow> raw_params \<Rightarrow> shop_search" where
  "parseShopSearch n params =
     \<lparr>ss_q = first (params ''q''),
      ss_categoryIds = filter (\<lambda>t. t \<noteq> []) (category_texts (params ''categoryIds'')),
      ss_minPrice = toNumber n (params ''minPrice''),
      ss_maxPrice = toNumber n (params ''maxPrice''),
      ss_sort = find (\<lambda>s. Some (sort_text s) = first (params ''sort'')) PRODUCT_SORTS,
      ss_page = (case toNumber n (params ''page'') of None \<Rightarrow> 1 | Some x \<Rightarrow> if 1 \<le> x then \<lfloor>x\<rfloor> else 1)\<rparr>"

definition shopHref :: "numbers \<Rightarrow> shop_search \<Rightarrow> bool \<Rightarrow> (string \<times> utext) list" where
  "shopHref n next_search paged =
     (let page = (if paged then ss_page next_search else 1) in
      buildQuery n
        [(''q'', opt_text (ss_q next_search)),
         (''categoryIds'', QList (ss_categoryIds next_search)),
         (''minPrice'', opt_number (ss_minPrice next_search)),
         (''maxPrice'', opt_number (ss_maxPrice next_search)),
         (''sort'', case ss_sort next_search of None \<Rightarrow> QNone | Some s \<Rightarrow> QText (sort_text s)),
         (''page'', if 1 < page then QNumber (of_int page) else QNone)])"

section \<open>Page buttons\<close>

datatype page_button = Page int | Gap

fun with_gaps :: "int list \<Rightarrow> page_button list" where
  "with_gaps [] = []"
| "with_gaps [p] = [Page p]"
| "with_gaps (p # q # ps) = Page p # (if 1 < q - p then [Gap] else []) @ with_gaps (q # ps)"

definition pageWindow :: "int \<Rightarrow> int \<Rightarrow> page_button list" where
  "pageWindow current totalPages =
     with_gaps (sort (filter (\<lambda>p. 1 \<le> p \<and> p \<le> totalPages)
       (remdups [1, totalPages, current - 1, current, current + 1])))"

section \<open>Reading back what was written\<close>

lemma dropWhile_idem: "dropWhile P (dropWhile P xs) = dropWhile P xs"
  by (induction xs) auto

lemma trim_trim [simp]: "trim (trim t) = trim t"
proof -
  define u where "u = dropWhile js_space t"
  have v: "trim t = rev (dropWhile js_space (rev u))" by (simp add: trim_def u_def)
  have "dropWhile js_space (trim t) = trim t"
  proof (cases u)
    case Nil
    then show ?thesis by (simp add: v)
  next
    case (Cons c cs)
    then have c: "\<not> js_space c" unfolding u_def by (metis dropWhile_eq_Cons_conv)
    then have "rev (dropWhile js_space (rev u)) = c # rev (dropWhile js_space (rev cs))"
      by (simp add: Cons dropWhile_append)
    then show ?thesis using c by (simp add: v)
  qed
  then show ?thesis by (simp add: trim_def [of "trim t"]) (simp add: v dropWhile_idem)
qed

lemma trim_plain: "\<forall>c \<in> set t. \<not> js_space c \<Longrightarrow> trim t = t"
  by (simp add: trim_def dropWhile_all_false)

lemma first_text [simp]: "first (Some (One t)) = (if trim t = [] then None else Some (trim t))"
  by (simp add: first_def)

lemma first_None [simp]: "first None = None"
  by (simp add: first_def)

lemma first_trimmed: "first v = Some t \<Longrightarrow> trim t = t \<and> t \<noteq> []"
  by (auto simp: first_def split: option.splits raw.splits list.splits if_splits)

lemma split_commas: "44 \<notin> set t \<Longrightarrow> split_at 44 (t @ 44 # r) = t # split_at 44 r"
  by (induction t) auto

lemma split_no_comma: "44 \<notin> set t \<Longrightarrow> split_at 44 t = [t]"
  by (induction t) auto

lemma split_join: "ts \<noteq> [] \<Longrightarrow> \<forall>t \<in> set ts. 44 \<notin> set t \<Longrightarrow> split_at 44 (join_commas ts) = ts"
  by (induction ts rule: join_commas.induct) (simp_all add: split_commas split_no_comma)

lemma map_of_buildQuery:
  "distinct (map fst ps) \<Longrightarrow> map_of (buildQuery n ps) k = Option.bind (map_of ps k) (query_text n)"
proof (induction ps)
  case (Cons p ps)
  obtain j v where p: "p = (j, v)" by force
  have out: "j \<notin> fst ` set (buildQuery n ps)"
  proof
    assume "j \<in> fst ` set (buildQuery n ps)"
    then obtain t where "(j, t) \<in> set (buildQuery n ps)" by force
    then have "j \<in> fst ` set ps" by (force simp: buildQuery_def List.map_filter_def)
    then show False using Cons.prems p by simp
  qed
  show ?case
  proof (cases "query_text n v")
    case None
    then have "buildQuery n (p # ps) = buildQuery n ps" by (simp add: p buildQuery_def map_filter_simps)
    moreover have "map_of (buildQuery n ps) j = None" using out by (simp add: map_of_eq_None_iff)
    ultimately show ?thesis using Cons None by (auto simp: p)
  next
    case (Some t)
    then have "buildQuery n (p # ps) = (j, t) # buildQuery n ps" by (simp add: p buildQuery_def map_filter_simps)
    then show ?thesis using Cons Some by (auto simp: p)
  qed
qed (simp add: buildQuery_def map_filter_simps)

lemma category_texts_join:
  assumes "\<forall>t \<in> set ts. 44 \<notin> set t \<and> trim t = t" "ts \<noteq> []"
  shows "category_texts (Some (One (join_commas ts))) = ts"
  using assms by (simp add: category_texts_def split_join map_idI)

lemma isUuid_plain: "isUuid t \<Longrightarrow> 44 \<notin> set t \<and> trim t = t \<and> t \<noteq> []"
proof -
  assume t: "isUuid t"
  have "\<forall>P \<in> set UUID_V4. \<forall>c. P c \<longrightarrow> 45 \<le> c \<and> c \<le> 102"
    by (auto simp: UUID_V4_def hex_digit_def)
  then have "\<forall>c \<in> set t. 45 \<le> c \<and> c \<le> 102"
    using t by (fastforce simp: isUuid_def list_all2_conv_all_nth in_set_conv_nth)
  moreover have "length t = 36" using t by (auto simp: isUuid_def UUID_V4_def dest: list_all2_lengthD)
  ultimately show ?thesis by (fastforce intro!: trim_plain simp: js_space_def)
qed

lemma toNumber_show:
  assumes "number_laws n" "represented n x" "0 \<le> x"
  shows "toNumber n (Some (One (nu_show n x))) = Some x"
  using assms by (auto simp: toNumber_def number_laws_def represented_def)

lemma page_show:
  assumes "number_laws n" "represented n x"
  shows "nu_read n (nu_show n (of_int \<lfloor>x\<rfloor>)) = Some (of_int \<lfloor>x\<rfloor>)"
    "first (Some (One (nu_show n (of_int \<lfloor>x\<rfloor>)))) = Some (nu_show n (of_int \<lfloor>x\<rfloor>))"
  using assms by (auto simp: number_laws_def represented_def)

text \<open>A search as parsing makes them.\<close>

definition text_ok :: "utext option \<Rightarrow> bool" where
  "text_ok q \<longleftrightarrow> (case q of None \<Rightarrow> True | Some t \<Rightarrow> trim t = t \<and> t \<noteq> [])"

definition price_ok :: "numbers \<Rightarrow> rat option \<Rightarrow> bool" where
  "price_ok n x \<longleftrightarrow> (case x of None \<Rightarrow> True | Some x \<Rightarrow> 0 \<le> x \<and> represented n x)"

definition page_ok :: "numbers \<Rightarrow> int \<Rightarrow> bool" where
  "page_ok n p \<longleftrightarrow> p = 1 \<or> (1 < p \<and> (\<exists>x. represented n x \<and> \<lfloor>x\<rfloor> = p))"

definition auction_search_ok :: "numbers \<Rightarrow> auction_search \<Rightarrow> bool" where
  "auction_search_ok n s \<longleftrightarrow>
     text_ok (as_q s) \<and> list_all isUuid (as_categoryIds s) \<and> price_ok n (as_minPrice s) \<and>
     price_ok n (as_maxPrice s) \<and> page_ok n (as_page s)"

definition shop_search_ok :: "numbers \<Rightarrow> shop_search \<Rightarrow> bool" where
  "shop_search_ok n s \<longleftrightarrow>
     text_ok (ss_q s) \<and> list_all (\<lambda>t. trim t = t \<and> t \<noteq> [] \<and> 44 \<notin> set t) (ss_categoryIds s) \<and>
     price_ok n (ss_minPrice s) \<and> price_ok n (ss_maxPrice s) \<and> page_ok n (ss_page s)"

lemma read_text: "text_ok q \<Longrightarrow> first (map_option One (query_text n (opt_text q))) = q"
  by (auto simp: text_ok_def opt_text_def split: option.splits)

lemma read_price:
  assumes "number_laws n" "price_ok n x"
  shows "toNumber n (map_option One (query_text n (opt_number x))) = x"
  using assms toNumber_show [OF assms(1)]
  by (cases x) (auto simp: price_ok_def opt_number_def toNumber_def)

lemma read_categories:
  assumes "list_all (\<lambda>t. trim t = t \<and> 44 \<notin> set t) ts"
  shows "category_texts (map_option One (query_text n (QList ts))) = ts"
  using assms category_texts_join [of ts] by (auto simp: category_texts_def list_all_iff)

lemma read_page:
  assumes "number_laws n" "page_ok n p" "1 < p"
  shows "first (Some (One (nu_show n (of_int p)))) = Some (nu_show n (of_int p))"
    "nu_read n (nu_show n (of_int p)) = Some (of_int p)"
proof -
  obtain x where x: "represented n x" "p = \<lfloor>x\<rfloor>" using assms(2,3) by (auto simp: page_ok_def)
  show "first (Some (One (nu_show n (of_int p)))) = Some (nu_show n (of_int p))"
    using page_show(2) [OF assms(1) x(1)] unfolding x(2) .
  show "nu_read n (nu_show n (of_int p)) = Some (of_int p)"
    using page_show(1) [OF assms(1) x(1)] unfolding x(2) .
qed

lemma query_none: "map_option One (query_text n QNone) = None"
  by simp

lemma read_page_query:
  assumes "number_laws n" "page_ok n p"
  shows "(case first (map_option One (query_text n (if 1 < p then QNumber (of_int p) else QNone))) of None \<Rightarrow> 1
      | Some t \<Rightarrow> (case nu_read n t of None \<Rightarrow> 1 | Some x \<Rightarrow> if 1 \<le> x then \<lfloor>x\<rfloor> else 1)) = p"
proof (cases "1 < p")
  case True
  show ?thesis using read_page [OF assms True] True by (simp del: first_text)
next
  case False
  then show ?thesis using assms(2) by (simp add: page_ok_def)
qed

lemma parse_auction_href:
  assumes "number_laws n" "auction_search_ok n s"
  shows "parseAuctionSearch n (params_of (auctionHref n s paged)) = (if paged then s else s\<lparr>as_page := 1\<rparr>)"
proof -
  have ids: "list_all (\<lambda>t. trim t = t \<and> 44 \<notin> set t) (as_categoryIds s)"
    using assms(2) isUuid_plain by (auto simp: auction_search_ok_def list_all_iff)
  have uuids: "filter isUuid (as_categoryIds s) = as_categoryIds s"
    using assms(2) by (simp add: auction_search_ok_def list_all_iff)
  define page where "page = (if paged then as_page s else 1)"
  have page: "page_ok n page" using assms(2) by (simp add: page_def auction_search_ok_def page_ok_def)
  note q = map_of_buildQuery [of _ n]
  have sec: "(case find (\<lambda>x. Some (section_text x) = first (map_option One (query_text n
      (if as_section s = Hot then QNone else QText (section_text (as_section s)))))) AUCTION_SECTION_TABS of
        None \<Rightarrow> Hot | Some x \<Rightarrow> x) = as_section s"
    by (cases "as_section s") (simp_all add: AUCTION_SECTION_TABS_def ascii_def trim_def js_space_def)
  have "parseAuctionSearch n (params_of (auctionHref n s paged)) = s\<lparr>as_page := page\<rparr>"
    using assms(2) sec read_page_query [OF assms(1) page] ids uuids read_text [of _ n] read_price [OF assms(1)]
      read_categories [OF ids, of n]
    by (simp add: parseAuctionSearch_def auctionHref_def Let_def params_of_def q auction_search_ok_def
        page_def [symmetric] del: query_text.simps first_text)
  then show ?thesis by (simp add: page_def)
qed

lemma parse_auction_ok:
  assumes "number_laws n"
  shows "auction_search_ok n (parseAuctionSearch n p)"
proof -
  have t: "text_ok (first v)" for v
    using first_trimmed [of v] by (auto simp: text_ok_def split: option.splits)
  have x: "price_ok n (toNumber n v)" for v
    by (auto simp: price_ok_def toNumber_def represented_def split: option.splits)
  have pg: "page_ok n (case first v of None \<Rightarrow> 1
      | Some t \<Rightarrow> (case nu_read n t of None \<Rightarrow> 1 | Some x \<Rightarrow> if 1 \<le> x then \<lfloor>x\<rfloor> else 1))" for v
  proof -
    have "page_ok n \<lfloor>x\<rfloor>" if "nu_read n t = Some x" "1 \<le> x" for t x
    proof -
      have "\<lfloor>x\<rfloor> = 1 \<or> 1 < \<lfloor>x\<rfloor>" 
      proof -
        have "1 \<le> \<lfloor>x\<rfloor>" using that(2) by (simp only: le_floor_iff of_int_1)
        then show ?thesis by arith
      qed
      moreover have "\<exists>y. represented n y \<and> \<lfloor>y\<rfloor> = \<lfloor>x\<rfloor>" using that(1) unfolding represented_def by blast
      ultimately show ?thesis unfolding page_ok_def by blast
    qed
    then show ?thesis by (auto simp: page_ok_def [of n 1] split: option.splits)
  qed
  show ?thesis
    using t x pg [of "p ''page''"] by (simp add: auction_search_ok_def parseAuctionSearch_def list_all_iff)
qed

lemma parse_shop_href:
  assumes "number_laws n" "shop_search_ok n s"
  shows "parseShopSearch n (params_of (shopHref n s paged)) = (if paged then s else s\<lparr>ss_page := 1\<rparr>)"
proof -
  have ids: "list_all (\<lambda>t. trim t = t \<and> 44 \<notin> set t) (ss_categoryIds s)"
    using assms(2) by (auto simp: shop_search_ok_def list_all_iff)
  have full: "filter (\<lambda>t. t \<noteq> []) (ss_categoryIds s) = ss_categoryIds s"
    using assms(2) by (simp add: shop_search_ok_def list_all_iff)
  define page where "page = (if paged then ss_page s else 1)"
  have page: "page_ok n page" using assms(2) by (simp add: page_def shop_search_ok_def page_ok_def)
  have num: "(case toNumber n v of None \<Rightarrow> 1 | Some x \<Rightarrow> if 1 \<le> x then \<lfloor>x\<rfloor> else 1) =
      (case first v of None \<Rightarrow> 1
      | Some t \<Rightarrow> (case nu_read n t of None \<Rightarrow> 1 | Some x \<Rightarrow> if 1 \<le> x then \<lfloor>x\<rfloor> else 1))" for v
    by (auto simp: toNumber_def split: option.splits)
  have sorts: "find (\<lambda>x. Some (sort_text x) = first (map_option One (query_text n
      (case ss_sort s of None \<Rightarrow> QNone | Some x \<Rightarrow> QText (sort_text x))))) PRODUCT_SORTS = ss_sort s"
  proof (cases "ss_sort s")
    case None
    then show ?thesis by (simp add: PRODUCT_SORTS_def)
  next
    case (Some x)
    then show ?thesis by (cases x) (simp_all add: PRODUCT_SORTS_def ascii_def trim_def js_space_def)
  qed
  have "parseShopSearch n (params_of (shopHref n s paged)) = s\<lparr>ss_page := page\<rparr>"
    using assms(2) sorts read_page_query [OF assms(1) page] ids full read_text [of _ n] read_price [OF assms(1)]
      read_categories [OF ids, of n]
    by (simp add: parseShopSearch_def num shopHref_def Let_def params_of_def map_of_buildQuery [of _ n]
        shop_search_ok_def page_def [symmetric] del: query_text.simps first_text)
  then show ?thesis by (simp add: page_def)
qed

text \<open>Whole numbers in decimal, an instance of the number laws.\<close>

fun show_digits :: "nat \<Rightarrow> utext" where
  "show_digits n = (if n < 10 then [48 + n] else show_digits (n div 10) @ [48 + n mod 10])"

declare show_digits.simps [simp del]

definition read_digits :: "utext \<Rightarrow> rat option" where
  "read_digits t =
     (if t \<noteq> [] \<and> list_all (\<lambda>c. 48 \<le> c \<and> c \<le> 57) t
      then Some (of_nat (foldl (\<lambda>a c. a * 10 + (c - 48)) 0 t)) else None)"

definition decimal :: numbers where
  "decimal = \<lparr>nu_read = read_digits, nu_show = (\<lambda>x. show_digits (nat \<lfloor>x\<rfloor>))\<rparr>"

lemma show_digits_read:
  "show_digits k \<noteq> [] \<and> list_all (\<lambda>c. 48 \<le> c \<and> c \<le> 57) (show_digits k) \<and>
     foldl (\<lambda>a c. a * 10 + (c - 48)) 0 (show_digits k) = k"
proof (induction k rule: show_digits.induct)
  case (1 n)
  have "n mod 10 < 10" by simp
  with 1 show ?case by (subst (1 2 3) show_digits.simps) auto
qed

lemma decimal_laws: "number_laws decimal"
proof -
  have "nu_read decimal (nu_show decimal (of_nat k)) = Some (of_nat k) \<and> nu_show decimal (of_nat k) \<noteq> [] \<and>
      trim (nu_show decimal (of_nat k)) = nu_show decimal (of_nat k)" for k
    using show_digits_read [of k]
    by (auto simp: decimal_def read_digits_def list_all_iff js_space_def intro!: trim_plain)
  moreover have "\<exists>k. y = of_nat k" if "nu_read decimal t = Some x" "y \<in> {x, of_int \<lfloor>x\<rfloor>}" for t x y
    using that by (auto simp: decimal_def read_digits_def split: if_splits)
  ultimately show ?thesis unfolding number_laws_def by metis
qed


definition watches_page_two :: auction_search where
  "watches_page_two = \<lparr>as_section = EndingSoon, as_q = Some (ascii ''watch''), as_categoryIds = [], as_minPrice = Some 0,
     as_maxPrice = Some 5000, as_page = 2\<rparr>"

definition cheap_chairs :: shop_search where
  "cheap_chairs = \<lparr>ss_q = Some (ascii ''chair''), ss_categoryIds = [ascii ''c1'', ascii ''c2''], ss_minPrice = None,
     ss_maxPrice = Some 900, ss_sort = Some PRICE_ASC, ss_page = 1\<rparr>"

lemma decimal_represents: "represented decimal (of_nat k)"
  using decimal_laws show_digits_read [of k]
  by (auto simp: represented_def decimal_def read_digits_def intro!: exI [of _ "show_digits k"])

lemma decimal_price: "price_ok decimal (Some (of_nat k))"
  by (simp add: price_ok_def decimal_represents)


text \<open>A catalogue id with a comma in it, from an address that repeats the key, is two ids on the next page.\<close>

lemma shop_comma_splits:
  "ss_categoryIds (parseShopSearch decimal (\<lambda>k. if k = ''categoryIds'' then Some (Many [ascii ''a,b'']) else None)) =
     [ascii ''a,b''] \<and>
   ss_categoryIds (parseShopSearch decimal (params_of (shopHref decimal
     (parseShopSearch decimal (\<lambda>k. if k = ''categoryIds'' then Some (Many [ascii ''a,b'']) else None)) False))) =
     [ascii ''a'', ascii ''b'']"
  by (simp add: parseShopSearch_def shopHref_def params_of_def buildQuery_def category_texts_def toNumber_def
      PRODUCT_SORTS_def opt_text_def opt_number_def ascii_def trim_def js_space_def map_filter_simps)

section \<open>What the page buttons show\<close>

text \<open>The pages between which a gap is drawn, read back from the buttons.\<close>

fun shown_pages :: "page_button list \<Rightarrow> int list" where
  "shown_pages [] = []"
| "shown_pages (Page p # bs) = p # shown_pages bs"
| "shown_pages (Gap # bs) = shown_pages bs"

fun gaps_honest :: "page_button list \<Rightarrow> bool" where
  "gaps_honest [] = True"
| "gaps_honest [b] = (b \<noteq> Gap)"
| "gaps_honest (Page p # Page q # bs) = (q = p + 1 \<and> gaps_honest (Page q # bs))"
| "gaps_honest (Page p # Gap # Page q # bs) = (p + 1 < q \<and> gaps_honest (Page q # bs))"
| "gaps_honest _ = False"

lemma with_gaps_first: "with_gaps (p # ps) = Page p # drop 1 (with_gaps (p # ps))"
  by (cases ps) auto

lemma shown_with_gaps: "shown_pages (with_gaps ps) = ps"
  by (induction ps rule: with_gaps.induct) auto

lemma honest_with_gaps: "sorted_wrt (<) ps \<Longrightarrow> gaps_honest (with_gaps ps)"
proof (induction ps rule: with_gaps.induct)
  case (3 p q ps)
  have "with_gaps (q # ps) = Page q # drop 1 (with_gaps (q # ps))" by (rule with_gaps_first)
  then obtain bs where bs: "with_gaps (q # ps) = Page q # bs" by blast
  then show ?case using 3 by auto
qed auto

text \<open>The page buttons are the first page, the last page, the current page and its neighbours, each once, ascending
  and inside the list, and a gap stands between two of them exactly where pages are left out.
\<close>
theorem page_buttons_exact:
  "shown_pages (pageWindow current totalPages) =
     sorted_list_of_set ({1, totalPages, current - 1, current, current + 1} \<inter> {1..totalPages}) \<and>
   gaps_honest (pageWindow current totalPages)"
proof -
  let ?ps = "filter (\<lambda>p. 1 \<le> p \<and> p \<le> totalPages) (remdups [1, totalPages, current - 1, current, current + 1])"
  have d: "distinct ?ps" by (rule distinct_filter) (rule distinct_remdups)
  have s: "set ?ps = {1, totalPages, current - 1, current, current + 1} \<inter> {1..totalPages}"
    unfolding set_filter set_remdups by auto
  have "sorted_list_of_set (set ?ps) = sort ?ps"
    using sorted_list_of_set_sort_remdups [of ?ps] d by (simp only: distinct_remdups_id)
  moreover have "sorted_wrt (<) (sort ?ps)"
    using d by (simp only: strict_sorted_iff sorted_sort distinct_sort)
  ultimately show ?thesis
    unfolding pageWindow_def s by (simp only: shown_with_gaps honest_with_gaps)
qed

end
