(* ===== verification/Request_Validation.thy ===== *)
theory Request_Validation
  imports Web_Search
begin

text \<open>
  What a request body or query must be: the DTO classes of \<open>apps/api/src/*/dtos\<close> with their decorators, and
  the global validation pipe of \<open>app.setup.ts\<close> (\<open>whitelist\<close>, \<open>forbidNonWhitelisted\<close>, \<open>transform\<close>) that holds a
  request against them. A DTO is the list of its members, each with its transformation and its rules. The
  transformations written in the repository are definitions; class-validator's own rules, \<open>Number\<close>, \<open>Date\<close> and
  \<open>toLowerCase\<close> are the record \<open>libraries\<close>, of which \<open>library_laws\<close> states what their documentation says.
  A body is the list of the names and values of a JSON object, a query that of its parameters.
\<close>

section \<open>Values, rules and members\<close>

datatype payload =
  PNull
| PBool bool
| PNum rat
| PNaN \<comment> \<open>no finite number\<close>
| PText utext
| PArr "payload list"
| PObj "(string \<times> payload) list"
| PDate "instant option" \<comment> \<open>\<open>None\<close> is an invalid date\<close>

datatype pattern = DeviceToken | SixDigits | LetterAndDigit

datatype rule =
  IsOptional
| IfNotNull \<comment> \<open>\<open>ValidateIf((_, value) => value !== null)\<close>\<close>
| IsString | IsNotEmpty | MinLength nat | MaxLength nat | Matches pattern
| IsEmail | IsUrl | IsUUID
| IsInt | IsNumber2 \<comment> \<open>\<open>maxDecimalPlaces: 2\<close>\<close>
| IsPositive | MinValue int | MaxValue int
| IsBoolean | IsDate | IsNotInThePast int
| IsEnum "string list" | IsIn "string list"
| IsArray | ArrayNotEmpty | ArrayMinSize nat | ArrayMaxSize nat | Each rule
| IsObject

datatype transform =
  AsIs
| Trim
| TrimChained \<comment> \<open>\<open>value?.trim()\<close>\<close>
| TrimLower \<comment> \<open>\<open>value?.trim().toLowerCase()\<close>\<close>
| TrimOrNull
| CommaList
| BoolText
| IsTrue
| TypeNumber
| TypeDate

record leaf =
  lf_name :: string
  lf_transform :: transform
  lf_rules :: "rule list"

text \<open>A member with \<open>ValidateNested\<close>: its name, its own rules, whether each element is meant, and what is inside.\<close>

record nest =
  ne_name :: string
  ne_rules :: "rule list"
  ne_each :: bool
  ne_inside :: "leaf list"

record dto =
  dt_leaves :: "leaf list"
  dt_nests :: "nest list"

definition leaf :: "string \<Rightarrow> transform \<Rightarrow> rule list \<Rightarrow> leaf" where
  "leaf x t rs = \<lparr>lf_name = x, lf_transform = t, lf_rules = rs\<rparr>"

definition flat :: "leaf list \<Rightarrow> dto" where
  "flat ls = \<lparr>dt_leaves = ls, dt_nests = []\<rparr>"

text \<open>\<open>PartialType\<close> and \<open>OmitType\<close> of \<open>@nestjs/mapped-types\<close>.\<close>

definition PartialType :: "dto \<Rightarrow> dto" where
  "PartialType d =
     \<lparr>dt_leaves = map (\<lambda>l. l\<lparr>lf_rules := IsOptional # lf_rules l\<rparr>) (dt_leaves d),
      dt_nests = map (\<lambda>n. n\<lparr>ne_rules := IsOptional # ne_rules n\<rparr>) (dt_nests d)\<rparr>"

definition OmitType :: "string list \<Rightarrow> dto \<Rightarrow> dto" where
  "OmitType xs d = \<lparr>dt_leaves = filter (\<lambda>l. lf_name l \<notin> set xs) (dt_leaves d),
     dt_nests = filter (\<lambda>n. ne_name n \<notin> set xs) (dt_nests d)\<rparr>"

section \<open>The regular expressions\<close>

definition ascii_digit :: "nat \<Rightarrow> bool" where
  "ascii_digit c \<longleftrightarrow> 48 \<le> c \<and> c \<le> 57"

definition ascii_letter :: "nat \<Rightarrow> bool" where
  "ascii_letter c \<longleftrightarrow> (65 \<le> c \<and> c \<le> 90) \<or> (97 \<le> c \<and> c \<le> 122)"

text \<open>The two lookaheads of the password rule do not look past the end of a line.\<close>

definition line_end :: "nat \<Rightarrow> bool" where
  "line_end c \<longleftrightarrow> c = 10 \<or> c = 13 \<or> c = 8232 \<or> c = 8233"

fun letter_and_digit :: "utext \<Rightarrow> bool" where
  "letter_and_digit [] = False"
| "letter_and_digit (c # cs) =
     (let line = takeWhile (\<lambda>d. \<not> line_end d) (c # cs)
      in if list_ex ascii_letter line \<and> list_ex ascii_digit line then True else letter_and_digit cs)"

fun matches :: "pattern \<Rightarrow> utext \<Rightarrow> bool" where
  "matches DeviceToken t \<longleftrightarrow> length t = 64 \<and> list_all (\<lambda>c. ascii_digit c \<or> 97 \<le> c \<and> c \<le> 102) t"
| "matches SixDigits t \<longleftrightarrow> length t = 6 \<and> list_all ascii_digit t"
| "matches LetterAndDigit t \<longleftrightarrow> letter_and_digit t"

section \<open>The libraries\<close>

record libraries =
  li_check :: "rule \<Rightarrow> payload \<Rightarrow> bool" \<comment> \<open>class-validator\<close>
  li_number :: "payload \<Rightarrow> rat option" \<comment> \<open>\<open>Number\<close>, when the result is finite\<close>
  li_date :: "payload \<Rightarrow> instant option" \<comment> \<open>\<open>new Date\<close>, when it is valid\<close>
  li_lower :: "utext \<Rightarrow> utext"

definition library_laws :: "libraries \<Rightarrow> bool" where
  "library_laws k \<longleftrightarrow>
     (\<forall>v. (li_check k IsString v \<longleftrightarrow> (\<exists>t. v = PText t)) \<and>
          (li_check k IsNotEmpty v \<longleftrightarrow> v \<noteq> PNull \<and> v \<noteq> PText []) \<and>
          (li_check k IsUUID v \<longrightarrow> (\<exists>t. v = PText t \<and> length t = 36)) \<and>
          (li_check k IsInt v \<longleftrightarrow> (\<exists>z. v = PNum (of_int z))) \<and>
          (li_check k IsNumber2 v \<longleftrightarrow> (\<exists>z. v = PNum (of_int z / 100))) \<and>
          (li_check k IsBoolean v \<longleftrightarrow> (\<exists>b. v = PBool b)) \<and>
          (li_check k IsDate v \<longleftrightarrow> (\<exists>i. v = PDate (Some i))) \<and>
          (li_check k IsArray v \<longleftrightarrow> (\<exists>vs. v = PArr vs)) \<and>
          (li_check k IsObject v \<longleftrightarrow> (\<exists>kvs. v = PObj kvs)) \<and>
          (\<forall>xs. li_check k (IsEnum xs) v \<longleftrightarrow> (\<exists>x \<in> set xs. v = PText (ascii x))) \<and>
          (\<forall>xs. li_check k (IsIn xs) v \<longleftrightarrow> (\<exists>x \<in> set xs. v = PText (ascii x)))) \<and>
     (\<forall>t. isUuid t \<longrightarrow> li_check k IsUUID (PText t)) \<and>
     (\<forall>n t. (li_check k (MinLength n) (PText t) \<longleftrightarrow> n \<le> length t) \<and>
            (li_check k (MaxLength n) (PText t) \<longleftrightarrow> length t \<le> n)) \<and>
     (\<forall>p t. li_check k (Matches p) (PText t) \<longleftrightarrow> matches p t) \<and>
     (\<forall>x. li_check k IsPositive (PNum x) \<longleftrightarrow> 0 < x) \<and>
     (\<forall>b x. (li_check k (MinValue b) (PNum x) \<longleftrightarrow> of_int b \<le> x) \<and>
            (li_check k (MaxValue b) (PNum x) \<longleftrightarrow> x \<le> of_int b)) \<and>
     (\<forall>n vs. (li_check k ArrayNotEmpty (PArr vs) \<longleftrightarrow> vs \<noteq> []) \<and>
             (li_check k (ArrayMinSize n) (PArr vs) \<longleftrightarrow> n \<le> length vs) \<and>
             (li_check k (ArrayMaxSize n) (PArr vs) \<longleftrightarrow> length vs \<le> n)) \<and>
     (\<forall>r vs. li_check k (Each r) (PArr vs) \<longleftrightarrow> list_all (li_check k r) vs)"

section \<open>Transformations\<close>

datatype transformed = Throws | Value "payload option" \<comment> \<open>\<open>None\<close> is \<open>undefined\<close>\<close>

text \<open>\<open>value?.trim()\<close>: nothing for null, and a \<open>TypeError\<close> for whatever else has no such method.\<close>

fun chained :: "(utext \<Rightarrow> utext) \<Rightarrow> payload \<Rightarrow> transformed" where
  "chained f (PText t) = Value (Some (PText (f t)))"
| "chained f PNull = Value None"
| "chained f v = Throws"

definition to_payload :: "('a \<Rightarrow> payload) \<Rightarrow> payload \<Rightarrow> 'a option \<Rightarrow> payload" where
  "to_payload f none x = (case x of None \<Rightarrow> none | Some y \<Rightarrow> f y)"

text \<open>\<open>@Type\<close> leaves null alone and goes into arrays.\<close>

fun typed :: "(payload \<Rightarrow> payload) \<Rightarrow> payload \<Rightarrow> payload" where
  "typed f PNull = PNull"
| "typed f (PArr vs) = PArr (map f vs)"
| "typed f v = f v"

fun transform_value :: "libraries \<Rightarrow> transform \<Rightarrow> payload \<Rightarrow> transformed" where
  "transform_value k AsIs v = Value (Some v)"
| "transform_value k Trim v = Value (Some (case v of PText t \<Rightarrow> PText (trim t) | _ \<Rightarrow> v))"
| "transform_value k TrimChained v = chained trim v"
| "transform_value k TrimLower v = chained (\<lambda>t. li_lower k (trim t)) v"
| "transform_value k TrimOrNull v =
     Value (Some (case v of PText t \<Rightarrow> (if trim t = [] then PNull else PText (trim t)) | _ \<Rightarrow> v))"
| "transform_value k CommaList v =
     Value (Some (case v of PText t \<Rightarrow> PArr (map PText (split_at 44 t)) | _ \<Rightarrow> v))"
| "transform_value k BoolText v =
     Value (Some (if v = PText (ascii ''true'') \<or> v = PBool True then PBool True
                  else if v = PText (ascii ''false'') \<or> v = PBool False then PBool False else v))"
| "transform_value k IsTrue v = Value (Some (PBool (v = PBool True \<or> v = PText (ascii ''true''))))"
| "transform_value k TypeNumber v = Value (Some (typed (\<lambda>w. to_payload PNum PNaN (li_number k w)) v))"
| "transform_value k TypeDate v = Value (Some (typed (\<lambda>w. PDate (li_date k w)) v))"

section \<open>The pipe\<close>

definition complies :: "libraries \<Rightarrow> instant \<Rightarrow> payload option \<Rightarrow> rule \<Rightarrow> bool" where
  "complies k now v r =
     (case r of
        IsOptional \<Rightarrow> True
      | IfNotNull \<Rightarrow> True
      | IsNotInThePast graceMs \<Rightarrow> (case v of Some (PDate (Some i)) \<Rightarrow> now - graceMs \<le> i | _ \<Rightarrow> True)
      | _ \<Rightarrow> (case v of None \<Rightarrow> False | Some w \<Rightarrow> li_check k r w))"

definition passes :: "libraries \<Rightarrow> instant \<Rightarrow> rule list \<Rightarrow> payload option \<Rightarrow> bool" where
  "passes k now rs v =
     (if IsOptional \<in> set rs \<and> (v = None \<or> v = Some PNull) then True
      else if IfNotNull \<in> set rs \<and> v = Some PNull then True
      else list_all (complies k now v) rs)"

datatype verdict = ServerError | BadRequest | Accepted "(string \<times> payload) list"

definition leaf_value :: "libraries \<Rightarrow> (string \<times> payload) list \<Rightarrow> leaf \<Rightarrow> transformed" where
  "leaf_value k kvs l = (case map_of kvs (lf_name l) of None \<Rightarrow> Value None | Some v \<Rightarrow> transform_value k (lf_transform l) v)"

definition present :: "string \<Rightarrow> transformed \<Rightarrow> (string \<times> payload) list" where
  "present x v = (case v of Value (Some w) \<Rightarrow> [(x, w)] | _ \<Rightarrow> [])"

definition leaf_passes :: "libraries \<Rightarrow> instant \<Rightarrow> (string \<times> payload) list \<Rightarrow> leaf \<Rightarrow> bool" where
  "leaf_passes k now kvs l = (case leaf_value k kvs l of Throws \<Rightarrow> False | Value v \<Rightarrow> passes k now (lf_rules l) v)"

definition read_leaves :: "libraries \<Rightarrow> instant \<Rightarrow> string list \<Rightarrow> leaf list \<Rightarrow> (string \<times> payload) list \<Rightarrow> verdict" where
  "read_leaves k now others ls kvs =
     (if list_ex (\<lambda>l. leaf_value k kvs l = Throws) ls then ServerError
      else if list_all (\<lambda>(x, v). x \<in> set (map lf_name ls @ others)) kvs \<and> list_all (leaf_passes k now kvs) ls
      then Accepted (concat (map (\<lambda>l. present (lf_name l) (leaf_value k kvs l)) ls))
      else BadRequest)"

fun inside :: "libraries \<Rightarrow> instant \<Rightarrow> leaf list \<Rightarrow> payload \<Rightarrow> verdict" where
  "inside k now ls (PObj kvs) = read_leaves k now [] ls kvs"
| "inside k now ls v = BadRequest"

text \<open>The verdict on a nested member; an element that is no object is refused.\<close>

definition read_nest :: "libraries \<Rightarrow> instant \<Rightarrow> (string \<times> payload) list \<Rightarrow> nest \<Rightarrow> verdict" where
  "read_nest k now kvs n =
     (case map_of kvs (ne_name n) of
        None \<Rightarrow> if passes k now (ne_rules n) None then Accepted [] else BadRequest
      | Some v \<Rightarrow>
          (let parts = (case v of PArr vs \<Rightarrow> if ne_each n then vs else [v] | _ \<Rightarrow> [v]);
               verdicts = map (inside k now (ne_inside n)) parts
           in if ServerError \<in> set verdicts then ServerError
              else if IsOptional \<in> set (ne_rules n) \<and> v = PNull then Accepted [(ne_name n, PNull)]
              else if passes k now (ne_rules n) (Some v) \<and> BadRequest \<notin> set verdicts
              then Accepted [(ne_name n,
                     (case v of PArr vs \<Rightarrow> PArr (map (\<lambda>w. case w of Accepted inner \<Rightarrow> PObj inner | _ \<Rightarrow> PNull) verdicts)
                      | _ \<Rightarrow> (case verdicts of [Accepted inner] \<Rightarrow> PObj inner | _ \<Rightarrow> v)))]
              else BadRequest))"

definition read_body :: "libraries \<Rightarrow> instant \<Rightarrow> dto \<Rightarrow> (string \<times> payload) list \<Rightarrow> verdict" where
  "read_body k now d kvs =
     (let leaves = read_leaves k now (map ne_name (dt_nests d)) (dt_leaves d) kvs;
          nests = map (read_nest k now kvs) (dt_nests d)
      in if leaves = ServerError \<or> ServerError \<in> set nests then ServerError
         else if leaves = BadRequest \<or> BadRequest \<in> set nests then BadRequest
         else Accepted (concat (map (\<lambda>w. case w of Accepted vs \<Rightarrow> vs | _ \<Rightarrow> []) (leaves # nests))))"

section \<open>The DTO classes\<close>

text \<open>Rules that many members share.\<close>

definition required_text :: "string \<Rightarrow> nat \<Rightarrow> leaf" where
  "required_text x n = leaf x Trim [IsString, IsNotEmpty, MaxLength n]"

definition money_rules :: "rule list" where
  "money_rules = [IsNumber2, IsPositive]"

definition page_leaf :: leaf where
  "page_leaf = leaf ''page'' TypeNumber [IsInt, MinValue 1, IsOptional]"

definition limit_leaf :: leaf where
  "limit_leaf = leaf ''limit'' TypeNumber [IsInt, MinValue 1, MaxValue 100, IsOptional]"

definition cursor_leaf :: leaf where
  "cursor_leaf = leaf ''cursor'' AsIs [IsUUID, IsOptional]"

definition password_rules :: "rule list" where
  "password_rules = [IsString, MinLength 8, MaxLength 72, Matches LetterAndDigit]"

definition auction_status_names :: "string list" where
  "auction_status_names = [''DRAFT'', ''SCHEDULED'', ''ACTIVE'', ''SOLD'', ''UNSOLD'', ''CANCELLED'']"

definition shipment_status_names :: "string list" where
  "shipment_status_names = [''PROCESSING'', ''SHIPPED'', ''IN_TRANSIT'', ''DELIVERED'', ''CANCELLED'']"

subsection \<open>Accounts\<close>

definition LoginDto :: dto where
  "LoginDto = flat
     [leaf ''email'' TrimLower [IsEmail, MaxLength 320],
      leaf ''password'' AsIs [IsString, MinLength 1, MaxLength 72],
      leaf ''deviceToken'' AsIs [IsOptional, IsString, Matches DeviceToken]]"

definition VerifyTwoFactorDto :: dto where
  "VerifyTwoFactorDto = flat (dt_leaves LoginDto @
     [leaf ''otp'' TrimChained [IsString, Matches SixDigits],
      leaf ''rememberDevice'' IsTrue [IsOptional, IsBoolean],
      leaf ''deviceLabel'' TrimChained [IsOptional, IsString, MaxLength 200]])"

definition OAuthLoginDto :: dto where
  "OAuthLoginDto = flat
     [leaf ''idToken'' TrimChained [IsString, MinLength 20, MaxLength 4096],
      leaf ''email'' TrimLower [IsOptional, IsEmail, MaxLength 320],
      leaf ''deviceToken'' AsIs [IsOptional, IsString, Matches DeviceToken]]"

definition VerifyOAuthDto :: dto where
  "VerifyOAuthDto = flat (dt_leaves OAuthLoginDto @
     [leaf ''otp'' TrimChained [IsString, Matches SixDigits],
      leaf ''rememberDevice'' IsTrue [IsOptional, IsBoolean],
      leaf ''deviceLabel'' TrimChained [IsOptional, IsString, MaxLength 200]])"

definition ForgotPasswordDto :: dto where
  "ForgotPasswordDto = flat [leaf ''email'' TrimLower [IsEmail, MaxLength 320]]"

definition ResetPasswordDto :: dto where
  "ResetPasswordDto = flat
     [leaf ''token'' TrimChained [IsString, MinLength 20, MaxLength 200],
      leaf ''password'' AsIs password_rules]"

definition RefreshTokenDto :: dto where
  "RefreshTokenDto = flat [leaf ''refreshToken'' TrimChained [IsString, MinLength 20, MaxLength 200]]"

definition RegisterDto :: dto where
  "RegisterDto = flat
     [leaf ''email'' TrimLower [IsEmail, MaxLength 320],
      leaf ''password'' AsIs password_rules,
      leaf ''firstName'' TrimChained [IsString, IsNotEmpty, MaxLength 100],
      leaf ''lastName'' TrimChained [IsOptional, IsString, MaxLength 100],
      leaf ''displayName'' TrimChained [IsString, IsNotEmpty, MaxLength 100]]"

definition nullable_text :: "string \<Rightarrow> nat \<Rightarrow> leaf" where
  "nullable_text x n = leaf x TrimOrNull [IsOptional, IfNotNull, IsString, MaxLength n]"

definition UpdateProfileDto :: dto where
  "UpdateProfileDto = flat
     [leaf ''firstName'' TrimChained [IsOptional, IsString, IsNotEmpty, MaxLength 100],
      nullable_text ''lastName'' 100,
      leaf ''displayName'' TrimChained [IsOptional, IsString, IsNotEmpty, MaxLength 100],
      leaf ''avatarUrl'' TrimOrNull [IsOptional, IfNotNull, IsUrl, MaxLength 2048],
      nullable_text ''bio'' 500,
      nullable_text ''phone'' 30,
      nullable_text ''recipientName'' 150,
      nullable_text ''line1'' 200,
      nullable_text ''line2'' 200,
      nullable_text ''city'' 100,
      nullable_text ''postalCode'' 20]"

subsection \<open>Auctions and bids\<close>

definition SCHEDULE_PAST_GRACE_MS :: int where
  "SCHEDULE_PAST_GRACE_MS = 5 * 60 * 1000"

definition CreateAuctionDraftDto :: dto where
  "CreateAuctionDraftDto = flat
     [required_text ''title'' 200,
      leaf ''description'' Trim [IsString, IsNotEmpty],
      leaf ''categoryId'' AsIs [IsUUID],
      leaf ''condition'' AsIs [IsEnum [''NEW'', ''USED'']],
      leaf ''startingPrice'' AsIs money_rules,
      leaf ''minBidIncrement'' AsIs money_rules,
      leaf ''reservePrice'' AsIs (money_rules @ [IsOptional]),
      leaf ''scheduledStartAt'' TypeDate [IsNotInThePast SCHEDULE_PAST_GRACE_MS, IsDate, IsOptional],
      leaf ''scheduledEndAt'' TypeDate [IsNotInThePast SCHEDULE_PAST_GRACE_MS, IsDate, IsOptional],
      leaf ''imageUrls'' AsIs [IsArray, Each IsUrl, IsOptional]]"

definition UpdateAuctionDto :: dto where
  "UpdateAuctionDto = PartialType CreateAuctionDraftDto"

definition AddAuctionImageDto :: dto where
  "AddAuctionImageDto = flat [leaf ''altText'' Trim [IsString, IsNotEmpty, MaxLength 255, IsOptional]]"

definition CancelAuctionDto :: dto where
  "CancelAuctionDto = flat [leaf ''reason'' Trim [IsString, IsOptional, MaxLength 500]]"

definition category_and_price_leaves :: "leaf list" where
  "category_and_price_leaves =
     [leaf ''q'' AsIs [IsString, IsOptional],
      leaf ''categoryIds'' CommaList [Each IsUUID, IsOptional],
      leaf ''minPrice'' TypeNumber [IsNumber2, MinValue 0, IsOptional],
      leaf ''maxPrice'' TypeNumber [IsNumber2, MinValue 0, IsOptional]]"

definition ListAuctionsDto :: dto where
  "ListAuctionsDto = flat
     (leaf ''section'' AsIs [IsIn [''hot'', ''ending-soon'', ''starting-soon'', ''recently-ended''], IsOptional] #
      category_and_price_leaves @ [page_leaf, limit_leaf])"

definition ListOwnAuctionsDto :: dto where
  "ListOwnAuctionsDto = flat
     [leaf ''status'' AsIs [IsEnum auction_status_names, IsOptional], page_leaf, limit_leaf]"

definition ListWonAuctionsDto :: dto where
  "ListWonAuctionsDto = flat [leaf ''unpaid'' BoolText [IsBoolean, IsOptional], page_leaf, limit_leaf]"

definition PlaceBidDto :: dto where
  "PlaceBidDto = flat [leaf ''amount'' AsIs money_rules, leaf ''clientRequestId'' AsIs [IsUUID]]"

definition ListBidHistoryDto :: dto where
  "ListBidHistoryDto = flat [page_leaf, limit_leaf]"

definition ListWatchlistDto :: dto where
  "ListWatchlistDto = flat [page_leaf, limit_leaf]"

subsection \<open>Products, carts and orders\<close>

definition CreateProductDto :: dto where
  "CreateProductDto = flat
     [leaf ''title'' Trim [IsString, IsNotEmpty],
      leaf ''description'' Trim [IsString, IsNotEmpty],
      leaf ''categoryId'' AsIs [IsUUID],
      leaf ''price'' AsIs money_rules,
      leaf ''stockQty'' AsIs [IsInt, MinValue 0],
      leaf ''condition'' AsIs [IsEnum [''NEW'', ''USED'']],
      leaf ''imageUrls'' AsIs [IsArray, ArrayMinSize 1, Each IsUrl],
      leaf ''negotiationFloor'' AsIs (money_rules @ [IsOptional]),
      leaf ''quantityDiscountMinQty'' TypeNumber [IsInt, MinValue 2, IsOptional],
      leaf ''quantityDiscountPercent'' AsIs [IsNumber2, IsPositive, MaxValue 100, IsOptional]]"

definition UpdateProductDto :: dto where
  "UpdateProductDto = PartialType (OmitType [''imageUrls''] CreateProductDto)"

definition AddProductImageDto :: dto where
  "AddProductImageDto = flat [leaf ''altText'' Trim [IsString, IsNotEmpty, MaxLength 255, IsOptional]]"

definition SearchProductDto :: dto where
  "SearchProductDto = flat
     (category_and_price_leaves @
      [leaf ''sort'' AsIs [IsEnum [''price_asc'', ''price_desc'', ''newest''], IsOptional], page_leaf, limit_leaf])"

definition UpdateProductStatusDto :: dto where
  "UpdateProductStatusDto = flat [leaf ''status'' AsIs [IsIn [''ACTIVE'', ''INACTIVE'']]]"

definition UpdateStockDto :: dto where
  "UpdateStockDto = flat [leaf ''stockQty'' AsIs [IsInt, MinValue 0]]"

definition ListProductWatchlistDto :: dto where
  "ListProductWatchlistDto = flat [page_leaf, limit_leaf]"

definition AddCartItemDto :: dto where
  "AddCartItemDto = flat [leaf ''productId'' AsIs [IsUUID], leaf ''quantity'' AsIs [IsInt, MinValue 1]]"

definition UpdateCartItemDto :: dto where
  "UpdateCartItemDto = flat [leaf ''quantity'' AsIs [IsInt, MinValue 1]]"

definition CreateOfferDto :: dto where
  "CreateOfferDto = flat
     [leaf ''quantity'' TypeNumber [IsInt, MinValue 1], leaf ''offerAmount'' TypeNumber money_rules]"

definition ShippingAddressDto :: "leaf list" where
  "ShippingAddressDto =
     [required_text ''recipientName'' 150,
      required_text ''line1'' 200,
      leaf ''line2'' AsIs [IsString, IsOptional, MaxLength 200],
      required_text ''city'' 100,
      required_text ''postalCode'' 20,
      required_text ''phone'' 30]"

definition CheckoutDto :: dto where
  "CheckoutDto =
     \<lparr>dt_leaves =
        [leaf ''paymentMethod'' AsIs [IsEnum [''CARD'', ''BANK_TRANSFER'', ''E_WALLET'']],
         leaf ''cartItemIds'' AsIs [IsArray, ArrayNotEmpty, Each IsUUID, IsOptional],
         leaf ''auctionId'' AsIs [IsUUID, IsOptional],
         leaf ''offerAcceptToken'' AsIs [IsString, IsNotEmpty, IsOptional]],
      dt_nests =
        [\<lparr>ne_name = ''shippingAddress'', ne_rules = [IsObject], ne_each = False, ne_inside = ShippingAddressDto\<rparr>]\<rparr>"

definition ListOrderDto :: dto where
  "ListOrderDto = flat
     [leaf ''status'' AsIs [IsEnum [''PENDING'', ''PAID'', ''CANCELLED''], IsOptional],
      leaf ''shipmentStatus'' CommaList [Each (IsEnum shipment_status_names), IsOptional],
      page_leaf, limit_leaf]"

definition UpdateShipmentStatusDto :: dto where
  "UpdateShipmentStatusDto = flat [leaf ''status'' AsIs [IsEnum shipment_status_names]]"

subsection \<open>Messages and notifications\<close>

definition SendChatMessageDto :: dto where
  "SendChatMessageDto = flat [required_text ''body'' 2000]"

definition ListMessagesDto :: dto where
  "ListMessagesDto = flat [page_leaf, limit_leaf]"

definition UpdateAutoReplyDto :: dto where
  "UpdateAutoReplyDto = flat [leaf ''message'' Trim [IsOptional, IsString, MaxLength 500]]"

definition GuestHistoryItemDto :: "leaf list" where
  "GuestHistoryItemDto =
     [leaf ''role'' AsIs [IsEnum [''USER'', ''ASSISTANT'', ''ADMIN'']], leaf ''body'' AsIs [IsString, MaxLength 2000]]"

definition SendSupportChatMessageDto :: dto where
  "SendSupportChatMessageDto =
     \<lparr>dt_leaves =
        [leaf ''sessionId'' AsIs [IsOptional, IsUUID],
         leaf ''message'' AsIs [IsString, MinLength 1, MaxLength 2000]],
      dt_nests =
        [\<lparr>ne_name = ''history'', ne_rules = [IsOptional, IsArray, ArrayMaxSize 10], ne_each = True,
          ne_inside = GuestHistoryItemDto\<rparr>]\<rparr>"

definition SendUserMessageDto :: dto where
  "SendUserMessageDto = flat [leaf ''body'' AsIs [IsString, MinLength 1, MaxLength 2000]]"

definition ListNotificationDto :: dto where
  "ListNotificationDto = flat
     [leaf ''types'' CommaList [Each (IsEnum [''OUTBID'', ''AUCTION_WON'', ''AUCTION_ENDED'', ''AUCTION_CANCELLED'',
        ''ORDER_PLACED'', ''SHIPMENT_UPDATE'', ''DELIVERED'', ''NEW_MESSAGE'']), IsOptional],
      leaf ''unreadOnly'' BoolText [IsBoolean, IsOptional],
      page_leaf, limit_leaf]"

subsection \<open>Administration\<close>

definition CreateCategoryDto :: dto where
  "CreateCategoryDto = flat
     [leaf ''name'' TrimChained [IsString, IsNotEmpty, MaxLength 120],
      leaf ''description'' TrimChained [IsOptional, IsString, MaxLength 500],
      leaf ''parentId'' AsIs [IsOptional, IsUUID]]"

definition UpdateCategoryDto :: dto where
  "UpdateCategoryDto = flat
     [leaf ''name'' TrimChained [IsOptional, IsString, IsNotEmpty, MaxLength 120],
      leaf ''description'' TrimChained [IsOptional, IsString, MaxLength 500]]"

definition AdminCancelAuctionDto :: dto where
  "AdminCancelAuctionDto = flat [required_text ''reason'' 500]"

definition ModerateProductDto :: dto where
  "ModerateProductDto = flat [required_text ''reason'' 500]"

definition ChangeOwnPasswordDto :: dto where
  "ChangeOwnPasswordDto = flat [leaf ''currentPassword'' AsIs [IsString], leaf ''newPassword'' AsIs password_rules]"

definition ChangeUserStatusDto :: dto where
  "ChangeUserStatusDto = flat [leaf ''note'' Trim [IsOptional, IsString, MaxLength 500]]"

definition ReplySupportSessionDto :: dto where
  "ReplySupportSessionDto = flat [leaf ''body'' AsIs [IsString, MinLength 1, MaxLength 2000]]"

definition ListAdminActionsDto :: dto where
  "ListAdminActionsDto = flat
     [cursor_leaf, limit_leaf,
      leaf ''actionType'' AsIs [IsEnum [''SUSPEND_USER'', ''REACTIVATE_USER'', ''CREATE_CATEGORY'', ''UPDATE_CATEGORY'',
        ''ACTIVATE_CATEGORY'', ''DEACTIVATE_CATEGORY'', ''CANCEL_AUCTION'', ''DEACTIVATE_PRODUCT'',
        ''REACTIVATE_PRODUCT''], IsOptional]]"

definition ListAdminAuctionsDto :: dto where
  "ListAdminAuctionsDto = flat
     [leaf ''status'' AsIs [IsEnum auction_status_names, IsOptional], page_leaf, limit_leaf]"

definition ListAdminProductsDto :: dto where
  "ListAdminProductsDto = flat
     [cursor_leaf, limit_leaf,
      leaf ''status'' AsIs [IsEnum [''ACTIVE'', ''INACTIVE'', ''OUT_OF_STOCK'', ''REMOVED'', ''SUSPENDED''], IsOptional]]"

definition ListAdminUsersDto :: dto where
  "ListAdminUsersDto = flat
     [cursor_leaf, limit_leaf,
      leaf ''status'' AsIs [IsEnum [''ACTIVE'', ''SUSPENDED'', ''DEACTIVATED''], IsOptional],
      leaf ''role'' AsIs [IsEnum [''USER'', ''ADMIN''], IsOptional]]"

definition ListAdminSupportSessionsDto :: dto where
  "ListAdminSupportSessionsDto = flat
     [leaf ''status'' AsIs [IsEnum [''AI_ONLY'', ''ESCALATED'', ''RESOLVED''], IsOptional]]"

section \<open>What an accepted request is\<close>

lemma map_of_present:
  assumes "distinct (map lf_name ls)" "l \<in> set ls"
  shows "map_of (concat (map (\<lambda>l. present (lf_name l) (g l)) ls)) (lf_name l) =
    (case g l of Throws \<Rightarrow> None | Value w \<Rightarrow> w)"
  using assms
proof (induction ls)
  case (Cons a ls)
  have names: "fst ` set (concat (map (\<lambda>l. present (lf_name l) (g l)) ls)) \<subseteq> lf_name ` set ls"
    by (auto simp: present_def split: transformed.splits option.splits)
  show ?case
  proof (cases "l = a")
    case True
    then have "lf_name l \<notin> fst ` set (concat (map (\<lambda>l. present (lf_name l) (g l)) ls))"
      using names Cons.prems(1) by auto
    then have "map_of (concat (map (\<lambda>l. present (lf_name l) (g l)) ls)) (lf_name l) = None"
      unfolding map_of_eq_None_iff .
    with True show ?thesis by (auto simp: present_def map_add_def split: transformed.splits option.splits)
  next
    case False
    then have "l \<in> set ls" "lf_name a \<noteq> lf_name l" using Cons.prems by auto
    with Cons show ?thesis by (auto simp: present_def map_add_def split: transformed.splits option.splits)
  qed
qed simp

lemma read_leaves_AcceptedD:
  assumes "read_leaves k now others ls kvs = Accepted vs" "distinct (map lf_name ls)" "l \<in> set ls"
    and "map_of vs (lf_name l) = Some v"
  shows "passes k now (lf_rules l) (Some v)"
proof -
  have "leaf_passes k now kvs l" and vs: "vs = concat (map (\<lambda>l. present (lf_name l) (leaf_value k kvs l)) ls)"
    using assms(1,3) by (auto simp: read_leaves_def list_all_iff split: if_splits)
  moreover have "leaf_value k kvs l = Value (Some v)"
    using assms(4) map_of_present [OF assms(2,3), of "leaf_value k kvs"] unfolding vs by (simp split: transformed.splits)
  ultimately show ?thesis by (simp add: leaf_passes_def)
qed

definition member_names :: "dto \<Rightarrow> string list" where
  "member_names d = map lf_name (dt_leaves d) @ map ne_name (dt_nests d)"

lemma read_body_Accepted:
  assumes "read_body k now d kvs = Accepted vs"
  obtains vs1 vs2 where "read_leaves k now (map ne_name (dt_nests d)) (dt_leaves d) kvs = Accepted vs1" "vs = vs1 @ vs2"
    "vs2 = concat (map (\<lambda>n. case read_nest k now kvs n of Accepted ws \<Rightarrow> ws | _ \<Rightarrow> []) (dt_nests d))"
    "\<And>n. n \<in> set (dt_nests d) \<Longrightarrow> \<exists>ws. read_nest k now kvs n = Accepted ws"
proof -
  let ?L = "read_leaves k now (map ne_name (dt_nests d)) (dt_leaves d) kvs"
  have n: "?L \<noteq> ServerError" "?L \<noteq> BadRequest" "ServerError \<notin> read_nest k now kvs ` set (dt_nests d)"
    "BadRequest \<notin> read_nest k now kvs ` set (dt_nests d)"
    using assms by (auto simp: read_body_def Let_def split: if_splits)
  then obtain vs1 where vs1: "?L = Accepted vs1" by (cases ?L) auto
  have "\<exists>ws. read_nest k now kvs m = Accepted ws" if "m \<in> set (dt_nests d)" for m
    using n(3,4) that by (cases "read_nest k now kvs m") (auto simp: image_iff)
  moreover have "vs = vs1 @ concat (map (\<lambda>n. case read_nest k now kvs n of Accepted ws \<Rightarrow> ws | _ \<Rightarrow> []) (dt_nests d))"
    using assms n vs1 by (simp add: read_body_def Let_def comp_def)
  ultimately show thesis using that vs1 by blast
qed

lemma read_nest_names: "read_nest k now kvs n = Accepted ws \<Longrightarrow> fst ` set ws \<subseteq> {ne_name n}"
  by (auto simp: read_nest_def Let_def split: option.splits if_splits)

lemma read_body_AcceptedD:
  assumes "read_body k now d kvs = Accepted vs" "distinct (member_names d)" "l \<in> set (dt_leaves d)"
    and "map_of vs (lf_name l) = Some v"
  shows "passes k now (lf_rules l) (Some v)"
proof -
  obtain vs1 vs2 where leaves: "read_leaves k now (map ne_name (dt_nests d)) (dt_leaves d) kvs = Accepted vs1"
    and vs: "vs = vs1 @ vs2"
    and vs2: "vs2 = concat (map (\<lambda>n. case read_nest k now kvs n of Accepted ws \<Rightarrow> ws | _ \<Rightarrow> []) (dt_nests d))"
    by (rule read_body_Accepted [OF assms(1)])
  have "x \<in> ne_name ` set (dt_nests d)" if x: "(x, w) \<in> set vs2" for x w
  proof -
    obtain n ws where n: "n \<in> set (dt_nests d)" "read_nest k now kvs n = Accepted ws" "(x, w) \<in> set ws"
      using x unfolding vs2 by (auto split: verdict.splits dest: sym [of "Accepted _"])
    then have "x = ne_name n" using read_nest_names [OF n(2)] by force
    then show ?thesis using n(1) by simp
  qed
  then have "fst ` set vs2 \<subseteq> ne_name ` set (dt_nests d)" by force
  moreover have "lf_name l \<notin> ne_name ` set (dt_nests d)" using assms(2,3) by (auto simp: member_names_def)
  ultimately have "map_of vs2 (lf_name l) = None" by (auto simp: map_of_eq_None_iff)
  then have "map_of vs1 (lf_name l) = Some v" using assms(4) by (simp add: vs map_add_def split: option.splits)
  then show ?thesis
    using read_leaves_AcceptedD [OF leaves _ assms(3)] assms(2) by (simp add: member_names_def)
qed

section \<open>Columns, money and pages\<close>

text \<open>The texts that go into a column of bounded length (\<open>VarChar\<close> in \<open>schema.prisma\<close>), with that length.\<close>

definition text_columns :: "(dto \<times> string \<times> nat) list" where
  "text_columns =
     [(RegisterDto, ''email'', 320), (RegisterDto, ''firstName'', 100), (RegisterDto, ''lastName'', 100),
      (RegisterDto, ''displayName'', 100), (OAuthLoginDto, ''email'', 320), (VerifyOAuthDto, ''email'', 320),
      (VerifyTwoFactorDto, ''deviceLabel'', 200), (VerifyOAuthDto, ''deviceLabel'', 200),
      (UpdateProfileDto, ''firstName'', 100), (UpdateProfileDto, ''lastName'', 100),
      (UpdateProfileDto, ''displayName'', 100), (UpdateProfileDto, ''phone'', 30),
      (UpdateProfileDto, ''recipientName'', 150), (UpdateProfileDto, ''line1'', 200), (UpdateProfileDto, ''line2'', 200),
      (UpdateProfileDto, ''city'', 100), (UpdateProfileDto, ''postalCode'', 20), (UpdateAutoReplyDto, ''message'', 500),
      (CreateAuctionDraftDto, ''title'', 200), (UpdateAuctionDto, ''title'', 200),
      (CreateCategoryDto, ''name'', 120), (UpdateCategoryDto, ''name'', 120)]"

text \<open>The columns of \<open>OrderAddress\<close>.\<close>

definition address_columns :: "(string \<times> nat) list" where
  "address_columns = [(''recipientName'', 150), (''line1'', 200), (''line2'', 200), (''city'', 100),
     (''postalCode'', 20), (''phone'', 30)]"

definition money_members :: "(dto \<times> string) list" where
  "money_members =
     [(PlaceBidDto, ''amount''), (CreateOfferDto, ''offerAmount''), (CreateAuctionDraftDto, ''startingPrice''),
      (CreateAuctionDraftDto, ''minBidIncrement''), (CreateAuctionDraftDto, ''reservePrice''),
      (UpdateAuctionDto, ''startingPrice''), (UpdateAuctionDto, ''minBidIncrement''), (UpdateAuctionDto, ''reservePrice''),
      (CreateProductDto, ''price''), (CreateProductDto, ''negotiationFloor''), (UpdateProductDto, ''price''),
      (UpdateProductDto, ''negotiationFloor'')]"

definition paged_queries :: "dto list" where
  "paged_queries =
     [ListAuctionsDto, ListOwnAuctionsDto, ListWonAuctionsDto, ListBidHistoryDto, ListWatchlistDto, SearchProductDto,
      ListProductWatchlistDto, ListOrderDto, ListMessagesDto, ListNotificationDto, ListAdminAuctionsDto]"

definition has_leaf :: "dto \<Rightarrow> string \<Rightarrow> (rule list \<Rightarrow> bool) \<Rightarrow> bool" where
  "has_leaf d x P \<longleftrightarrow> distinct (member_names d) \<and> list_ex (\<lambda>l. lf_name l = x \<and> P (lf_rules l)) (dt_leaves d)"

definition at_most :: "nat \<Rightarrow> rule list \<Rightarrow> bool" where
  "at_most n rs \<longleftrightarrow> list_ex (\<lambda>r. case r of MaxLength m \<Rightarrow> m \<le> n | _ \<Rightarrow> False) rs"

definition has_rules :: "rule list \<Rightarrow> rule list \<Rightarrow> bool" where
  "has_rules rs rs' \<longleftrightarrow> list_all (List.member rs') rs"

lemma columns_are_guarded: "list_all (\<lambda>(d, x, n). has_leaf d x (at_most n)) text_columns"
  by code_simp

lemma address_is_guarded:
  "distinct (map lf_name ShippingAddressDto) \<and>
   list_all (\<lambda>(x, n). list_ex (\<lambda>l. lf_name l = x \<and> at_most n (lf_rules l)) ShippingAddressDto) address_columns"
  by code_simp

lemma money_is_guarded: "list_all (\<lambda>(d, x). has_leaf d x (has_rules money_rules)) money_members"
  by code_simp

lemma pages_are_guarded:
  "list_all (\<lambda>d. has_leaf d ''page'' (has_rules [IsInt, MinValue 1]) \<and>
     has_leaf d ''limit'' (has_rules [IsInt, MinValue 1, MaxValue 100])) paged_queries"
  by code_simp

lemma passesD:
  assumes "passes k now rs (Some v)" "v \<noteq> PNull" "r \<in> set rs" "r \<notin> {IsOptional, IfNotNull}" "\<forall>g. r \<noteq> IsNotInThePast g"
  shows "li_check k r v"
  using assms by (cases r) (auto simp: passes_def complies_def list_all_iff split: if_splits)

lemma has_leafD:
  assumes "has_leaf d x P" "read_body k now d kvs = Accepted vs" "map_of vs x = Some v"
  shows "\<exists>rs. P rs \<and> passes k now rs (Some v)"
  using assms read_body_AcceptedD [OF assms(2) _ _] by (fastforce simp: has_leaf_def list_ex_iff)

lemma at_most_fits:
  assumes "library_laws k" "at_most n rs" "passes k now rs (Some (PText t))"
  shows "length t \<le> n"
proof -
  obtain r where r: "r \<in> set rs" "case r of MaxLength m \<Rightarrow> m \<le> n | _ \<Rightarrow> False"
    using assms(2) by (auto simp: at_most_def list_ex_iff)
  then obtain m where m: "MaxLength m \<in> set rs" "m \<le> n" by - (cases r; auto)
  then have "li_check k (MaxLength m) (PText t)" using passesD [OF assms(3)] by simp
  then show ?thesis using assms(1) m(2) by (auto simp: library_laws_def)
qed

lemma checkout_address:
  assumes "read_body k now CheckoutDto kvs = Accepted vs" "map_of vs ''shippingAddress'' = Some (PObj inner)"
  shows "\<exists>kvs'. read_leaves k now [] ShippingAddressDto kvs' = Accepted inner"
proof -
  let ?n = "\<lparr>ne_name = ''shippingAddress'', ne_rules = [IsObject], ne_each = False, ne_inside = ShippingAddressDto\<rparr>"
  have nests: "dt_nests CheckoutDto = [?n]" by (simp add: CheckoutDto_def)
  obtain vs1 vs2 where leaves: "read_leaves k now (map ne_name (dt_nests CheckoutDto)) (dt_leaves CheckoutDto) kvs = Accepted vs1"
    and vs: "vs = vs1 @ vs2"
    and vs2: "vs2 = concat (map (\<lambda>n. case read_nest k now kvs n of Accepted ws \<Rightarrow> ws | _ \<Rightarrow> []) (dt_nests CheckoutDto))"
    by (rule read_body_Accepted [OF assms(1)])
  have "fst ` set vs1 \<subseteq> lf_name ` set (dt_leaves CheckoutDto)"
    using leaves by (auto simp: read_leaves_def present_def split: if_splits transformed.splits option.splits)
  moreover have "''shippingAddress'' \<notin> lf_name ` set (dt_leaves CheckoutDto)" by (simp add: CheckoutDto_def leaf_def)
  ultimately have "map_of vs1 ''shippingAddress'' = None" by (auto simp: map_of_eq_None_iff)
  then have "map_of vs2 ''shippingAddress'' = Some (PObj inner)" using assms(2) by (simp add: vs map_add_def)
  then have "map_of (case read_nest k now kvs ?n of Accepted ws \<Rightarrow> ws | _ \<Rightarrow> []) ''shippingAddress'' = Some (PObj inner)"
    by (simp add: vs2 nests)
  then show ?thesis
    by (auto simp: read_nest_def Let_def split: option.splits if_splits payload.splits verdict.splits)
qed



section \<open>An instance of the libraries\<close>

fun documented_check :: "rule \<Rightarrow> payload \<Rightarrow> bool" where
  "documented_check IsString v = (case v of PText t \<Rightarrow> True | _ \<Rightarrow> False)"
| "documented_check IsNotEmpty v = (v \<noteq> PNull \<and> v \<noteq> PText [])"
| "documented_check (MinLength n) v = (case v of PText t \<Rightarrow> n \<le> length t | _ \<Rightarrow> False)"
| "documented_check (MaxLength n) v = (case v of PText t \<Rightarrow> length t \<le> n | _ \<Rightarrow> False)"
| "documented_check (Matches p) v = (case v of PText t \<Rightarrow> matches p t | _ \<Rightarrow> False)"
| "documented_check IsEmail v = (case v of PText t \<Rightarrow> List.member t 64 | _ \<Rightarrow> False)"
| "documented_check IsUrl v = (case v of PText t \<Rightarrow> take 4 t = ascii ''http'' | _ \<Rightarrow> False)"
| "documented_check IsUUID v = (case v of PText t \<Rightarrow> isUuid t | _ \<Rightarrow> False)"
| "documented_check IsInt v = (case v of PNum x \<Rightarrow> x = of_int \<lfloor>x\<rfloor> | _ \<Rightarrow> False)"
| "documented_check IsNumber2 v = (case v of PNum x \<Rightarrow> 100 * x = of_int \<lfloor>100 * x\<rfloor> | _ \<Rightarrow> False)"
| "documented_check IsPositive v = (case v of PNum x \<Rightarrow> 0 < x | _ \<Rightarrow> False)"
| "documented_check (MinValue b) v = (case v of PNum x \<Rightarrow> of_int b \<le> x | _ \<Rightarrow> False)"
| "documented_check (MaxValue b) v = (case v of PNum x \<Rightarrow> x \<le> of_int b | _ \<Rightarrow> False)"
| "documented_check IsBoolean v = (case v of PBool b \<Rightarrow> True | _ \<Rightarrow> False)"
| "documented_check IsDate v = (case v of PDate (Some i) \<Rightarrow> True | _ \<Rightarrow> False)"
| "documented_check (IsEnum xs) v = (case v of PText t \<Rightarrow> list_ex (\<lambda>x. t = ascii x) xs | _ \<Rightarrow> False)"
| "documented_check (IsIn xs) v = (case v of PText t \<Rightarrow> list_ex (\<lambda>x. t = ascii x) xs | _ \<Rightarrow> False)"
| "documented_check IsArray v = (case v of PArr vs \<Rightarrow> True | _ \<Rightarrow> False)"
| "documented_check ArrayNotEmpty v = (case v of PArr vs \<Rightarrow> vs \<noteq> [] | _ \<Rightarrow> False)"
| "documented_check (ArrayMinSize n) v = (case v of PArr vs \<Rightarrow> n \<le> length vs | _ \<Rightarrow> False)"
| "documented_check (ArrayMaxSize n) v = (case v of PArr vs \<Rightarrow> length vs \<le> n | _ \<Rightarrow> False)"
| "documented_check (Each r) v = (case v of PArr vs \<Rightarrow> list_all (documented_check r) vs | _ \<Rightarrow> documented_check r v)"
| "documented_check IsObject v = (case v of PObj kvs \<Rightarrow> True | _ \<Rightarrow> False)"
| "documented_check r v = True"

definition documented :: libraries where
  "documented = \<lparr>li_check = documented_check,
     li_number = (\<lambda>v. case v of PNum x \<Rightarrow> Some x | PText t \<Rightarrow> read_digits t | _ \<Rightarrow> None),
     li_date = (\<lambda>v. case v of PNum x \<Rightarrow> Some \<lfloor>x\<rfloor> | _ \<Rightarrow> None), li_lower = ascii_lower\<rparr>"

lemma isUuid_length: "isUuid t \<Longrightarrow> length t = 36"
  by (auto simp: isUuid_def UUID_V4_def dest: list_all2_lengthD)

lemma hundredths: "100 * x = of_int \<lfloor>100 * x\<rfloor> \<longleftrightarrow> (\<exists>z. x = of_int z / (100::rat))"
proof
  assume "100 * x = of_int \<lfloor>100 * x\<rfloor>"
  then have "x = of_int \<lfloor>100 * x\<rfloor> / 100" by simp
  then show "\<exists>z. x = of_int z / 100" by blast
next
  assume "\<exists>z. x = of_int z / (100::rat)"
  then obtain z where "100 * x = of_int z" by (auto simp: mult.commute)
  then show "100 * x = of_int \<lfloor>100 * x\<rfloor>" by (simp only: floor_of_int)
qed

lemma whole: "x = of_int \<lfloor>x\<rfloor> \<longleftrightarrow> (\<exists>z. x = (of_int z :: rat))"
  by (metis floor_of_int)

lemma documented_laws: "library_laws documented"
  unfolding library_laws_def documented_def
  using isUuid_length hundredths whole
  by (auto simp: list_ex_iff split: payload.splits option.splits)

section \<open>Requests\<close>

definition bid_body :: "(string \<times> payload) list" where
  "bid_body = [(''amount'', PNum (30150 / 100)),
     (''clientRequestId'', PText (ascii ''0f8fad5b-d9cb-469f-a165-70867728950e''))]"

lemma bid_body_accepted: "read_body documented 0 PlaceBidDto bid_body = Accepted bid_body"
  by code_simp



text \<open>The title of a listing has no limit, its column holds two hundred characters; and an edit may set to
  null what its column requires.\<close>

definition long_product :: "(string \<times> payload) list" where
  "long_product =
     [(''title'', PText (replicate 201 97)), (''description'', PText (ascii ''as new'')),
      (''categoryId'', PText (ascii ''0f8fad5b-d9cb-469f-a165-70867728950e'')), (''price'', PNum 10), (''stockQty'', PNum 1),
      (''condition'', PText (ascii ''NEW'')), (''imageUrls'', PArr [PText (ascii ''https://img.example/1'')])]"

theorem listing_title_has_no_limit:
  "read_body documented 0 CreateProductDto long_product = Accepted long_product"
  by code_simp

theorem edits_let_null_through:
  "read_body k now UpdateProductDto [(''title'', PNull)] = Accepted [(''title'', PNull)] \<and>
   read_body k now UpdateAuctionDto [(''title'', PNull)] = Accepted [(''title'', PNull)]"
  by (simp add: read_body_def read_leaves_def UpdateProductDto_def UpdateAuctionDto_def PartialType_def OmitType_def
      CreateProductDto_def CreateAuctionDraftDto_def flat_def leaf_def required_text_def leaf_value_def leaf_passes_def
      passes_def present_def)

end
