(* ===== verification/Route_Properties.thy ===== *)
theory Route_Properties
  imports Route_Table
begin

text \<open>
  What the route table promises: every handler is reached by its own requests, in whatever order the
  controllers are registered, and a service method is only called for somebody who may call it.
\<close>

section \<open>Dispatch\<close>

text \<open>\<open>may_fit ps ss\<close>: the segments a request for \<open>ps\<close> carries could fit \<open>ss\<close>, when the parameters in
  \<open>us\<close> are UUIDs, texts of 36 characters.\<close>

fun segment_may_fit :: "string set \<Rightarrow> segment \<Rightarrow> segment \<Rightarrow> bool" where
  "segment_may_fit us (Lit a) (Lit b) \<longleftrightarrow> a = b"
| "segment_may_fit us (Param x) (Lit b) \<longleftrightarrow> x \<notin> us \<or> length b = 36"
| "segment_may_fit us s (Param y) \<longleftrightarrow> True"

definition piped :: "route \<Rightarrow> string set" where
  "piped r = set (concat (map (\<lambda>a. case a of Uuid x \<Rightarrow> [x] | _ \<Rightarrow> []) (ro_arguments r)))"

definition may_take :: "route \<Rightarrow> route \<Rightarrow> bool" where
  "may_take r r' \<longleftrightarrow> (if ro_verb r = ro_verb r' then list_all2 (segment_may_fit (piped r)) (ro_path r) (ro_path r') else False)"

fun prefix_clash :: "segment list \<Rightarrow> segment list \<Rightarrow> bool" where
  "prefix_clash (Lit a # ss) (Lit b # ss') = (if a = b then prefix_clash ss ss' else True)"
| "prefix_clash ss ss' = False"

definition strangers :: "controller \<Rightarrow> controller \<Rightarrow> bool" where
  "strangers c d =
     (if prefix_clash (ct_path c) (ct_path d) then True
      else list_all (\<lambda>r. list_all (\<lambda>r'. \<not> may_take r r' \<and> \<not> may_take r' r) (routes_of d)) (routes_of c))"

fun pairwise :: "('a \<Rightarrow> 'a \<Rightarrow> bool) \<Rightarrow> 'a list \<Rightarrow> bool" where
  "pairwise P [] \<longleftrightarrow> True"
| "pairwise P (x # xs) \<longleftrightarrow> list_all (P x) xs \<and> pairwise P xs"

definition in_turn :: "controller \<Rightarrow> bool" where
  "in_turn c \<longleftrightarrow> pairwise (\<lambda>r' r. \<not> may_take r r') (routes_of c)"

lemma controllers_are_strangers: "pairwise strangers controllers"
  by code_simp

lemma handlers_in_turn: "list_all in_turn controllers"
  by code_simp

lemma literals_are_lower_case:
  "list_all (\<lambda>c. list_all (\<lambda>r. list_all
     (\<lambda>s. case s of Lit w \<Rightarrow> ascii_lower (ascii w) = ascii w | Param x \<Rightarrow> True) (ro_path r)) (routes_of c)) controllers"
  by code_simp

lemma ascii_inject: "ascii a = ascii b \<Longrightarrow> a = b"
  unfolding ascii_def by (rule map_injective) (auto intro: injI)

definition addressed :: "(utext \<Rightarrow> bool) \<Rightarrow> route \<Rightarrow> utext list \<Rightarrow> bool" where
  "addressed is_uuid r ts \<longleftrightarrow>
     list_all2 (\<lambda>s t. segment_fits s t \<and>
       (case s of Lit w \<Rightarrow> True | Param x \<Rightarrow> if x \<in> piped r then is_uuid t else True)) (ro_path r) ts"

lemma addressed_may_take:
  assumes uuid: "\<And>t. is_uuid t \<Longrightarrow> length t = 36"
    and c: "c \<in> set controllers" "r \<in> set (routes_of c)" and d: "d \<in> set controllers" "r' \<in> set (routes_of d)"
    and r: "addressed is_uuid r ts" "route_fits (ro_verb r) ts r'"
  shows "may_take r r'"
proof -
  have lower: "ascii_lower (ascii w) = ascii w" if "Lit w \<in> set (ro_path q)" "q \<in> set (routes_of e)" "e \<in> set controllers"
    for w q e
    using literals_are_lower_case that by (fastforce simp: list_all_iff)
  have "segment_may_fit (piped r) (ro_path r ! i) (ro_path r' ! i)" if i: "i < length ts" for i
  proof -
    have f: "segment_fits (ro_path r ! i) (ts ! i)" "segment_fits (ro_path r' ! i) (ts ! i)"
      "\<forall>x. ro_path r ! i = Param x \<and> x \<in> piped r \<longrightarrow> length (ts ! i) = 36"
      using r i uuid by (auto simp: addressed_def route_fits_def list_all2_conv_all_nth)
    have mem: "ro_path r ! i \<in> set (ro_path r)" "ro_path r' ! i \<in> set (ro_path r')"
      using r i by (auto simp: addressed_def route_fits_def dest!: list_all2_lengthD)
    have len: "length (ascii_lower t) = length t" "length (ascii w) = length w" for t w
      by (simp_all add: ascii_lower_def ascii_def)
    show ?thesis
    proof (cases "ro_path r' ! i")
      case (Param y)
      then show ?thesis by simp
    next
      case (Lit b)
      then have b: "ascii_lower (ts ! i) = ascii b" using f(2) lower [OF _ d(2,1)] mem(2) by simp
      show ?thesis
      proof (cases "ro_path r ! i")
        case (Lit a)
        then have "ascii a = ascii b" using b f(1) lower [OF _ c(2,1)] mem(1) by simp
        then show ?thesis using Lit \<open>ro_path r' ! i = Lit b\<close> by (auto dest: ascii_inject)
      next
        case (Param x)
        have "length (ts ! i) = length b" using arg_cong [OF b, of length] by (simp only: len)
        then show ?thesis using f(3) Param \<open>ro_path r' ! i = Lit b\<close> by auto
      qed
    qed
  qed
  then show ?thesis
    using r by (auto simp: may_take_def addressed_def route_fits_def list_all2_conv_all_nth)
qed

lemma prefix_clash_sound:
  "prefix_clash p q \<Longrightarrow> \<not> list_all2 (segment_may_fit us) (p @ x) (q @ y) \<and> \<not> list_all2 (segment_may_fit us) (q @ y) (p @ x)"
  by (induction p q rule: prefix_clash.induct) (auto split: if_splits)

lemma pairwiseD: "pairwise P xs \<Longrightarrow> x \<in> set xs \<Longrightarrow> y \<in> set xs \<Longrightarrow> x \<noteq> y \<Longrightarrow> P x y \<or> P y x"
  by (induction xs) (auto simp: list_all_iff)

lemma strangersD:
  assumes "strangers c d" "r \<in> set (routes_of c)" "r' \<in> set (routes_of d)"
  shows "\<not> may_take r r' \<and> \<not> may_take r' r"
proof (cases "prefix_clash (ct_path c) (ct_path d)")
  case True
  then show ?thesis using assms(2,3) prefix_clash_sound [OF True] by (auto simp: routes_of_def may_take_def)
next
  case False
  then show ?thesis using assms by (auto simp: strangers_def list_all_iff)
qed

lemma find_append: "find P (xs @ ys) = (case find P xs of None \<Rightarrow> find P ys | Some x \<Rightarrow> Some x)"
  by (induction xs) auto

lemma find_concat:
  assumes "c \<in> set cs" "find P (g c) = Some r" "\<And>d r'. d \<in> set cs \<Longrightarrow> r' \<in> set (g d) \<Longrightarrow> P r' \<Longrightarrow> d = c"
  shows "find P (concat (map g cs)) = Some r"
  using assms
proof (induction cs)
  case (Cons d cs)
  show ?case
  proof (cases "d = c")
    case True
    then show ?thesis using Cons.prems(2) by (simp add: find_append)
  next
    case False
    then have "find P (g d) = None" using Cons.prems(3) by (auto simp: find_None_iff)
    moreover have "find P (concat (map g cs)) = Some r"
      using False Cons.prems by (intro Cons.IH) auto
    ultimately show ?thesis by (simp add: find_append)
  qed
qed simp

lemma find_in_turn:
  assumes "pairwise (\<lambda>r' r. \<not> Q r r') rs" "r \<in> set rs" "P r" "\<And>r'. r' \<in> set rs \<Longrightarrow> P r' \<Longrightarrow> Q r r'"
  shows "find P rs = Some r"
  using assms by (induction rs) (auto simp: list_all_iff)

lemma handler_reached:
  assumes "\<And>t. is_uuid t \<Longrightarrow> length t = 36" and "set cs = set controllers"
    and "c \<in> set controllers" "r \<in> set (routes_of c)" "addressed is_uuid r ts"
  shows "dispatch cs (ro_verb r) ts = Some r"
proof -
  have fits: "route_fits (ro_verb r) ts r"
    using assms(5) by (auto simp: addressed_def route_fits_def elim!: list_all2_mono)
  have may: "may_take r r'" if "d \<in> set controllers" "r' \<in> set (routes_of d)" "route_fits (ro_verb r) ts r'" for d r'
    by (rule addressed_may_take [OF _ assms(3,4) that(1,2) assms(5) that(3)]) (rule assms(1))
  have "find (route_fits (ro_verb r) ts) (routes_of c) = Some r"
  proof (rule find_in_turn [where Q = may_take])
    show "pairwise (\<lambda>r' r. \<not> may_take r r') (routes_of c)"
      using handlers_in_turn assms(3) by (auto simp: list_all_iff in_turn_def)
  qed (use assms(3,4) fits may in blast)+
  moreover have "d = c" if "d \<in> set cs" "r' \<in> set (routes_of d)" "route_fits (ro_verb r) ts r'" for d r'
  proof (rule ccontr)
    assume "d \<noteq> c"
    moreover have d: "d \<in> set controllers" using assms(2) that(1) by simp
    ultimately have "strangers c d \<or> strangers d c"
      using pairwiseD [OF controllers_are_strangers assms(3)] by metis
    then show False
    proof
      assume "strangers c d"
      from strangersD [OF this assms(4) that(2)] may [OF d that(2,3)] show False by simp
    next
      assume "strangers d c"
      from strangersD [OF this that(2) assms(4)] may [OF d that(2,3)] show False by simp
    qed
  qed
  moreover have "c \<in> set cs" using assms(2,3) by simp
  ultimately show ?thesis
    unfolding dispatch_def by (intro find_concat [where c = c])
qed

section \<open>Properties\<close>

text \<open>C33: Every handler is reached. When the path parameters a handler checks are UUIDs, a request for
  its path, in any letter case, is dispatched to it and to no other handler, whatever the order in
  which the controllers are registered: no literal path such as \<open>mine\<close> or \<open>stats\<close> is taken for an id,
  and no id for a literal.\<close>

theorem every_handler_is_reached:
  assumes "\<And>t. is_uuid t \<Longrightarrow> length t = 36" and "set cs = set controllers"
    and "c \<in> set controllers" "r \<in> set (routes_of c)" "addressed is_uuid r ts"
  shows "dispatch cs (ro_verb r) ts = Some r"
  by (rule handler_reached) (use assms in auto)

lemma dispatched_by_code:
  "list_all (\<lambda>(n, ts). addressed (\<lambda>t. length t = 36) (routes_of product_controller ! n) ts)
     [(2, [ascii ''Products'', ascii ''mine'']), (3, [ascii ''products'', replicate 36 97])]"
  "map (\<lambda>n. (ro_verb (routes_of product_controller ! n), ro_method (routes_of product_controller ! n))) [2, 3]
     = [(GET, ''ProductService.listOwnProducts''), (GET, ''ProductService.findOne'')]"
  "length (routes_of product_controller) = 10"
  by code_simp+

theorem every_handler_is_reached_witness:
  "map_option ro_method (dispatch (rev controllers) GET [ascii ''Products'', ascii ''mine''])
     = Some ''ProductService.listOwnProducts'' \<and>
   map_option ro_method (dispatch (rev controllers) GET [ascii ''products'', replicate 36 97])
     = Some ''ProductService.findOne''"
proof -
  have c: "product_controller \<in> set controllers" by (simp add: controllers_def)
  have "dispatch (rev controllers) (ro_verb (routes_of product_controller ! n)) ts = Some (routes_of product_controller ! n)"
    if "(n, ts) \<in> set [(2, [ascii ''Products'', ascii ''mine'']), (3, [ascii ''products'', replicate 36 97])]" for n ts
  proof (rule every_handler_is_reached [OF _ _ c, where is_uuid = "\<lambda>t. length t = 36"])
    show "addressed (\<lambda>t. length t = 36) (routes_of product_controller ! n) ts"
      using dispatched_by_code(1) that by (auto simp: list_all_iff)
    show "routes_of product_controller ! n \<in> set (routes_of product_controller)"
      using that dispatched_by_code(3) by (intro nth_mem) auto
  qed simp_all
  from this [of 2 "[ascii ''Products'', ascii ''mine'']"] this [of 3 "[ascii ''products'', replicate 36 97]"]
  show ?thesis using dispatched_by_code(2) by simp
qed

section \<open>Who may call what\<close>

definition open_operations :: "string list" where
  "open_operations =
     [''HealthController.check'', ''AuthService.register'', ''AuthService.login'', ''AuthService.verifyTwoFactor'',
      ''AuthService.refresh'', ''AuthService.logout'', ''AuthService.oauthLogin'', ''AuthService.verifyOAuth'',
      ''AuthService.forgotPassword'', ''AuthService.resetPassword'', ''AuthService.resendTwoFactor'',
      ''AuctionService.listAuctions'', ''AuctionService.getStats'', ''AuctionService.findPublicAuction'',
      ''BidService.listBidHistory'', ''LiveService.getLobby'', ''LiveService.getArena'', ''ProductService.search'',
      ''ProductService.findOne'', ''CategoriesService.findActiveTree'', ''SupportChatService.sendMessage'']"

definition admin_operations :: "string list" where
  "admin_operations =
     [''AdminUsersService.listUsers'', ''AdminUsersService.changeOwnPassword'', ''AdminUsersService.changeUserStatus'',
      ''AdminAuctionsService.listAuctions'', ''AdminAuctionsService.cancelAuction'',
      ''AdminProductsService.listProducts'', ''AdminProductsService.setProductActivation'',
      ''AdminOrdersService.listOrders'', ''AdminActionsService.listActions'', ''AdminOverviewService.getOverview'',
      ''AdminSupportService.listSessions'', ''AdminSupportService.getSession'', ''AdminSupportService.claim'',
      ''AdminSupportService.reply'', ''AdminSupportService.resolve'', ''CategoriesService.findAdminTree'',
      ''CategoriesService.createCategory'', ''CategoriesService.updateCategory'',
      ''CategoriesService.setCategoryActivation'']"

definition trading_operations :: "string list" where
  "trading_operations =
     [''AuctionService.createDraft'', ''AuctionService.publishDraft'', ''AuctionService.updateOwnAuction'',
      ''AuctionService.cancelOwnAuction'', ''BidService.placeBid'', ''ProductService.create'', ''CartService.addItem'',
      ''CheckoutService.checkout'', ''ChatService.sendMessage'', ''StorageService.uploadPendingImage'']"

definition guarded :: "route \<Rightarrow> bool" where
  "guarded r \<longleftrightarrow>
     (if ro_public r then Caller \<notin> set (ro_arguments r) else True) \<and>
     (if ro_method r \<in> set open_operations then True else \<not> ro_public r) \<and>
     (if ro_method r \<in> set admin_operations then ro_roles r = [ADMIN] else True) \<and>
     (if ro_method r \<in> set trading_operations then ro_roles r = [USER] else True)"

lemma routes_are_guarded: "list_all (\<lambda>c. list_all guarded (routes_of c)) controllers"
  by code_simp

text \<open>The account a request proves: its bearer token verifies and names an active account.\<close>

definition speaks_for :: "crypto \<Rightarrow> auth_db \<Rightarrow> instant \<Rightarrow> request \<Rightarrow> account_row \<Rightarrow> bool" where
  "speaks_for k s now q a \<longleftrightarrow>
     (\<exists>token. readBearerToken (rq_authorization q) = Some token \<and> jwt_verify k token now = Some (acc_id a)) \<and>
     a \<in> set (accounts s) \<and> acc_status a = U_ACTIVE"

lemma canActivate_user:
  assumes "canActivate k s now p (rq_authorization q) = Inr (Some u)"
  shows "\<exists>a. speaks_for k s now q a \<and> u = session_owner_of a"
  using assms
  by (auto simp: canActivate_def resolveUser_def find_account_def speaks_for_def split: option.splits if_splits
      dest!: find_SomeD)

lemma canActivate_nobody: "canActivate k s now False h \<noteq> Inr None"
  by (auto simp: canActivate_def resolveUser_def split: option.splits if_splits)

lemma values_of_Inr: "values_of f as = Inr vs \<Longrightarrow> v \<in> set vs \<Longrightarrow> \<exists>a \<in> set as. f a = Inr v"
  by (induction as arbitrary: vs) (auto split: sum.splits)

lemma values_of_Inl: "values_of f as = Inl e \<Longrightarrow> \<exists>a \<in> set as. f a = Inl e"
  by (induction as) (auto split: sum.splits)

lemma value_of_Inl:
  "value_of is_uuid r ts user a = Inl e \<Longrightarrow> e = NotAUuid \<or> e = NoCaller \<and> a = Caller \<and> user = None"
  by (auto simp: value_of_def split: argument.splits option.splits if_splits)

lemma dispatch_route:
  "dispatch controllers v ts = Some r \<Longrightarrow> guarded r"
  using routes_are_guarded by (auto simp: dispatch_def list_all_iff dest!: find_SomeD)


text \<open>A visitor, a member and an administrator at three doors.\<close>

definition demo_door_crypto :: crypto where
  "demo_door_crypto = \<lparr>sha256 = id, bcrypt_hash = (\<lambda>salt plain. plain), bcrypt_compare = (\<lambda>plain h. plain = h),
     jwt_sign = (\<lambda>p now. [ap_sub p]), jwt_verify = (\<lambda>t now. case t of [u] \<Rightarrow> Some u | _ \<Rightarrow> None)\<rparr>"

definition demo_account :: "uuid \<Rightarrow> user_role \<Rightarrow> account_row" where
  "demo_account u role = \<lparr>acc_id = u, acc_email = [], acc_passwordHash = None, acc_role = role,
     acc_status = U_ACTIVE, acc_emailVerifiedAt = None, acc_lastLoginAt = None, acc_createdAt = 0,
     acc_profile = None\<rparr>"

definition demo_accounts :: auth_db where
  "demo_accounts = empty_auth_db\<lparr>accounts := [demo_account 65 USER, demo_account 66 ADMIN]\<rparr>"

definition demo_request :: "verb \<Rightarrow> string list \<Rightarrow> string \<Rightarrow> request" where
  "demo_request v p h = \<lparr>rq_verb = v, rq_segments = map ascii p,
     rq_authorization = (if h = [] then None else Some (ascii h)), rq_message = []\<rparr>"

lemma demo_answers:
  "handle_request (\<lambda>t. length t = 36) True demo_door_crypto demo_accounts 0
     (demo_request GET [''admin'', ''overview''] ''Bearer B'') = Calls ''AdminOverviewService.getOverview'' []"
  "handle_request (\<lambda>t. length t = 36) True demo_door_crypto demo_accounts 0
     (demo_request GET [''admin'', ''overview''] ''Bearer A'') = Refused InsufficientPermissions"
  "handle_request (\<lambda>t. length t = 36) True demo_door_crypto demo_accounts 0
     (demo_request GET [''cart''] ''Bearer A'') = Calls ''CartService.getCart'' [Account 65]"
  by code_simp+


end
