(* ===== verification/Web_Calls.thy ===== *)
theory Web_Calls
  imports Request_Validation Route_Properties
begin

text \<open>
  The calls of the front end to the API: every function of \<open>apps/web/src/lib/api\<close> as the method, the path, the
  query parameters and the members of the body it sends. What is interpolated into a path is a parameter. The
  two programs only meet in these texts, so the theorems compare them with the routes and the DTO classes of
  the API: each call reaches the handler it is meant for, sends nothing the validation pipe does not know and
  leaves out nothing it requires; and the pages rendered on the server, where there is no token, only call
  what a signed-out visitor may.
\<close>

section \<open>Calls\<close>

datatype body =
  NoBody
| Json "string list" "string list" \<comment> \<open>members always sent, and those sent when they have a value\<close>
| Form "string list" "string list"

record web_call =
  wc_verb :: verb
  wc_path :: "segment list"
  wc_query :: "string list"
  wc_body :: body

subsection \<open>Auctions: \<open>auctions.ts\<close>\<close>

definition listAuctions_call :: web_call where
  "listAuctions_call = \<lparr>wc_verb = GET, wc_path = [Lit ''auctions''],
     wc_query = [''section'', ''q'', ''categoryIds'', ''minPrice'', ''maxPrice'', ''page'', ''limit''], wc_body = NoBody\<rparr>"

definition getAuctionStats_call :: web_call where
  "getAuctionStats_call = \<lparr>wc_verb = GET, wc_path = [Lit ''auctions'', Lit ''stats''],
     wc_query = [], wc_body = NoBody\<rparr>"

definition getAuction_call :: web_call where
  "getAuction_call = \<lparr>wc_verb = GET, wc_path = [Lit ''auctions'', Param ''id''],
     wc_query = [], wc_body = NoBody\<rparr>"

definition getLobby_call :: web_call where
  "getLobby_call = \<lparr>wc_verb = GET, wc_path = [Lit ''auctions'', Param ''auctionId'', Lit ''lobby''],
     wc_query = [], wc_body = NoBody\<rparr>"

definition getArena_call :: web_call where
  "getArena_call = \<lparr>wc_verb = GET, wc_path = [Lit ''auctions'', Param ''auctionId'', Lit ''arena''],
     wc_query = [], wc_body = NoBody\<rparr>"

definition listBidHistory_call :: web_call where
  "listBidHistory_call = \<lparr>wc_verb = GET, wc_path = [Lit ''auctions'', Param ''auctionId'', Lit ''bids''],
     wc_query = [''page'', ''limit''], wc_body = NoBody\<rparr>"

definition placeBid_call :: web_call where
  "placeBid_call = \<lparr>wc_verb = POST, wc_path = [Lit ''auctions'', Param ''auctionId'', Lit ''bids''],
     wc_query = [], wc_body = Json [''amount'', ''clientRequestId''] []\<rparr>"

definition joinAuction_call :: web_call where
  "joinAuction_call = \<lparr>wc_verb = POST, wc_path = [Lit ''auctions'', Param ''auctionId'', Lit ''participants''],
     wc_query = [], wc_body = NoBody\<rparr>"

definition leaveAuction_call :: web_call where
  "leaveAuction_call = \<lparr>wc_verb = DELETE, wc_path = [Lit ''auctions'', Param ''auctionId'', Lit ''participants''],
     wc_query = [], wc_body = NoBody\<rparr>"

definition listWonAuctions_call :: web_call where
  "listWonAuctions_call = \<lparr>wc_verb = GET, wc_path = [Lit ''auctions'', Lit ''won''],
     wc_query = [''unpaid'', ''page'', ''limit''], wc_body = NoBody\<rparr>"

subsection \<open>Selling at auction: \<open>seller-auctions.ts\<close>\<close>

definition createDraft_call :: web_call where
  "createDraft_call = \<lparr>wc_verb = POST, wc_path = [Lit ''auctions'', Lit ''drafts''],
     wc_query = [], wc_body = Json [''title'', ''description'', ''categoryId'', ''condition'', ''startingPrice'', ''minBidIncrement''] [''reservePrice'', ''scheduledStartAt'', ''scheduledEndAt'', ''imageUrls'']\<rparr>"

definition listOwnDrafts_call :: web_call where
  "listOwnDrafts_call = \<lparr>wc_verb = GET, wc_path = [Lit ''auctions'', Lit ''drafts''],
     wc_query = [], wc_body = NoBody\<rparr>"

definition listOwnAuctions_call :: web_call where
  "listOwnAuctions_call = \<lparr>wc_verb = GET, wc_path = [Lit ''auctions'', Lit ''mine''],
     wc_query = [''status'', ''page'', ''limit''], wc_body = NoBody\<rparr>"

definition getOwnDraft_call :: web_call where
  "getOwnDraft_call = \<lparr>wc_verb = GET, wc_path = [Lit ''auctions'', Lit ''drafts'', Param ''id''],
     wc_query = [], wc_body = NoBody\<rparr>"

definition validateDraft_call :: web_call where
  "validateDraft_call = \<lparr>wc_verb = GET, wc_path = [Lit ''auctions'', Lit ''drafts'', Param ''id'', Lit ''validation''],
     wc_query = [], wc_body = NoBody\<rparr>"

definition previewDraft_call :: web_call where
  "previewDraft_call = \<lparr>wc_verb = GET, wc_path = [Lit ''auctions'', Lit ''drafts'', Param ''id'', Lit ''preview''],
     wc_query = [], wc_body = NoBody\<rparr>"

definition publishDraft_call :: web_call where
  "publishDraft_call = \<lparr>wc_verb = POST, wc_path = [Lit ''auctions'', Lit ''drafts'', Param ''id'', Lit ''publish''],
     wc_query = [], wc_body = NoBody\<rparr>"

definition updateAuction_call :: web_call where
  "updateAuction_call = \<lparr>wc_verb = PATCH, wc_path = [Lit ''auctions'', Param ''id''],
     wc_query = [], wc_body = Json [] [''title'', ''description'', ''categoryId'', ''condition'', ''startingPrice'', ''minBidIncrement'', ''reservePrice'', ''scheduledStartAt'', ''scheduledEndAt'', ''imageUrls'']\<rparr>"

definition cancelOwnAuction_call :: web_call where
  "cancelOwnAuction_call = \<lparr>wc_verb = POST, wc_path = [Lit ''auctions'', Param ''id'', Lit ''cancel''],
     wc_query = [], wc_body = Json [''reason''] []\<rparr>"

definition uploadDraftImage_call :: web_call where
  "uploadDraftImage_call = \<lparr>wc_verb = POST, wc_path = [Lit ''auctions'', Param ''auctionId'', Lit ''images''],
     wc_query = [], wc_body = Form [''image''] [''altText'']\<rparr>"

definition removeDraftImage_call :: web_call where
  "removeDraftImage_call = \<lparr>wc_verb = DELETE, wc_path = [Lit ''auctions'', Param ''auctionId'', Lit ''images'', Param ''imageId''],
     wc_query = [], wc_body = NoBody\<rparr>"

subsection \<open>Products: \<open>products.ts\<close>\<close>

definition uploadPendingImage_call :: web_call where
  "uploadPendingImage_call = \<lparr>wc_verb = POST, wc_path = [Lit ''uploads'', Lit ''images''],
     wc_query = [], wc_body = Form [''image''] []\<rparr>"

definition listOwnProducts_call :: web_call where
  "listOwnProducts_call = \<lparr>wc_verb = GET, wc_path = [Lit ''products'', Lit ''mine''],
     wc_query = [], wc_body = NoBody\<rparr>"

definition addProductImage_call :: web_call where
  "addProductImage_call = \<lparr>wc_verb = POST, wc_path = [Lit ''products'', Param ''id'', Lit ''images''],
     wc_query = [], wc_body = Form [''image''] [''altText'']\<rparr>"

definition removeProductImage_call :: web_call where
  "removeProductImage_call = \<lparr>wc_verb = DELETE, wc_path = [Lit ''products'', Param ''id'', Lit ''images'', Param ''imageId''],
     wc_query = [], wc_body = NoBody\<rparr>"

definition searchProducts_call :: web_call where
  "searchProducts_call = \<lparr>wc_verb = GET, wc_path = [Lit ''products''],
     wc_query = [''q'', ''categoryIds'', ''minPrice'', ''maxPrice'', ''sort'', ''page'', ''limit''], wc_body = NoBody\<rparr>"

definition getProduct_call :: web_call where
  "getProduct_call = \<lparr>wc_verb = GET, wc_path = [Lit ''products'', Param ''id''],
     wc_query = [], wc_body = NoBody\<rparr>"

definition createProduct_call :: web_call where
  "createProduct_call = \<lparr>wc_verb = POST, wc_path = [Lit ''products''],
     wc_query = [], wc_body = Json [''title'', ''description'', ''categoryId'', ''price'', ''stockQty'', ''condition'', ''imageUrls''] [''negotiationFloor'', ''quantityDiscountMinQty'', ''quantityDiscountPercent'']\<rparr>"

definition updateProduct_call :: web_call where
  "updateProduct_call = \<lparr>wc_verb = PATCH, wc_path = [Lit ''products'', Param ''id''],
     wc_query = [], wc_body = Json [] [''title'', ''description'', ''categoryId'', ''price'', ''stockQty'', ''condition'', ''imageUrls'', ''negotiationFloor'', ''quantityDiscountMinQty'', ''quantityDiscountPercent'']\<rparr>"

definition updateProductStatus_call :: web_call where
  "updateProductStatus_call = \<lparr>wc_verb = PATCH, wc_path = [Lit ''products'', Param ''id'', Lit ''status''],
     wc_query = [], wc_body = Json [''status''] []\<rparr>"

definition updateProductStock_call :: web_call where
  "updateProductStock_call = \<lparr>wc_verb = PATCH, wc_path = [Lit ''products'', Param ''id'', Lit ''stock''],
     wc_query = [], wc_body = Json [''stockQty''] []\<rparr>"

definition deleteProduct_call :: web_call where
  "deleteProduct_call = \<lparr>wc_verb = DELETE, wc_path = [Lit ''products'', Param ''id''],
     wc_query = [], wc_body = NoBody\<rparr>"

definition startProductConversation_call :: web_call where
  "startProductConversation_call = \<lparr>wc_verb = POST, wc_path = [Lit ''products'', Param ''productId'', Lit ''conversations''],
     wc_query = [], wc_body = NoBody\<rparr>"

subsection \<open>Watched products: \<open>product-watchlist.ts\<close>\<close>

definition watchProduct_call :: web_call where
  "watchProduct_call = \<lparr>wc_verb = POST, wc_path = [Lit ''products'', Param ''productId'', Lit ''watchlist''],
     wc_query = [], wc_body = NoBody\<rparr>"

definition unwatchProduct_call :: web_call where
  "unwatchProduct_call = \<lparr>wc_verb = DELETE, wc_path = [Lit ''products'', Param ''productId'', Lit ''watchlist''],
     wc_query = [], wc_body = NoBody\<rparr>"

definition listProductWatchlist_call :: web_call where
  "listProductWatchlist_call = \<lparr>wc_verb = GET, wc_path = [Lit ''watchlist'', Lit ''products''],
     wc_query = [''page'', ''limit''], wc_body = NoBody\<rparr>"

definition countProductWatchlist_call :: web_call where
  "countProductWatchlist_call = \<lparr>wc_verb = GET, wc_path = [Lit ''watchlist'', Lit ''products'', Lit ''count''],
     wc_query = [], wc_body = NoBody\<rparr>"

subsection \<open>Watched auctions: \<open>watchlist.ts\<close>\<close>

definition watchAuction_call :: web_call where
  "watchAuction_call = \<lparr>wc_verb = POST, wc_path = [Lit ''auctions'', Param ''auctionId'', Lit ''watchlist''],
     wc_query = [], wc_body = NoBody\<rparr>"

definition unwatchAuction_call :: web_call where
  "unwatchAuction_call = \<lparr>wc_verb = DELETE, wc_path = [Lit ''auctions'', Param ''auctionId'', Lit ''watchlist''],
     wc_query = [], wc_body = NoBody\<rparr>"

definition listWatchlist_call :: web_call where
  "listWatchlist_call = \<lparr>wc_verb = GET, wc_path = [Lit ''watchlist''],
     wc_query = [''page'', ''limit''], wc_body = NoBody\<rparr>"

definition countWatchlist_call :: web_call where
  "countWatchlist_call = \<lparr>wc_verb = GET, wc_path = [Lit ''watchlist'', Lit ''count''],
     wc_query = [], wc_body = NoBody\<rparr>"

subsection \<open>The cart: \<open>cart.ts\<close>\<close>

definition getCart_call :: web_call where
  "getCart_call = \<lparr>wc_verb = GET, wc_path = [Lit ''cart''],
     wc_query = [], wc_body = NoBody\<rparr>"

definition addCartItem_call :: web_call where
  "addCartItem_call = \<lparr>wc_verb = POST, wc_path = [Lit ''cart'', Lit ''items''],
     wc_query = [], wc_body = Json [''productId'', ''quantity''] []\<rparr>"

definition updateCartItem_call :: web_call where
  "updateCartItem_call = \<lparr>wc_verb = PATCH, wc_path = [Lit ''cart'', Lit ''items'', Param ''itemId''],
     wc_query = [], wc_body = Json [''quantity''] []\<rparr>"

definition removeCartItem_call :: web_call where
  "removeCartItem_call = \<lparr>wc_verb = DELETE, wc_path = [Lit ''cart'', Lit ''items'', Param ''itemId''],
     wc_query = [], wc_body = NoBody\<rparr>"

definition clearCart_call :: web_call where
  "clearCart_call = \<lparr>wc_verb = DELETE, wc_path = [Lit ''cart''],
     wc_query = [], wc_body = NoBody\<rparr>"

subsection \<open>Orders: \<open>orders.ts\<close>\<close>

definition listOrders_call :: web_call where
  "listOrders_call = \<lparr>wc_verb = GET, wc_path = [Lit ''orders''],
     wc_query = [''status'', ''shipmentStatus'', ''page'', ''limit''], wc_body = NoBody\<rparr>"

definition listSellingOrders_call :: web_call where
  "listSellingOrders_call = \<lparr>wc_verb = GET, wc_path = [Lit ''orders'', Lit ''selling''],
     wc_query = [''status'', ''shipmentStatus'', ''page'', ''limit''], wc_body = NoBody\<rparr>"

definition getOrder_call :: web_call where
  "getOrder_call = \<lparr>wc_verb = GET, wc_path = [Lit ''orders'', Param ''id''],
     wc_query = [], wc_body = NoBody\<rparr>"

definition checkout_call :: web_call where
  "checkout_call = \<lparr>wc_verb = POST, wc_path = [Lit ''orders'', Lit ''checkout''],
     wc_query = [], wc_body = Json [''paymentMethod'', ''shippingAddress''] [''cartItemIds'', ''auctionId'', ''offerAcceptToken'']\<rparr>"

definition getShipment_call :: web_call where
  "getShipment_call = \<lparr>wc_verb = GET, wc_path = [Lit ''orders'', Param ''orderId'', Lit ''shipment''],
     wc_query = [], wc_body = NoBody\<rparr>"

definition updateShipmentStatus_call :: web_call where
  "updateShipmentStatus_call = \<lparr>wc_verb = PATCH, wc_path = [Lit ''orders'', Param ''orderId'', Lit ''shipment''],
     wc_query = [], wc_body = Json [''status''] []\<rparr>"

subsection \<open>Estimates and offers: \<open>ai-tools.ts\<close>\<close>

definition requestPriceEstimate_call :: web_call where
  "requestPriceEstimate_call = \<lparr>wc_verb = POST, wc_path = [Lit ''auctions'', Lit ''drafts'', Param ''auctionId'', Lit ''price-estimate''],
     wc_query = [], wc_body = NoBody\<rparr>"

definition createOffer_call :: web_call where
  "createOffer_call = \<lparr>wc_verb = POST, wc_path = [Lit ''products'', Param ''productId'', Lit ''offers''],
     wc_query = [], wc_body = Json [''quantity'', ''offerAmount''] []\<rparr>"

definition listPayableOffers_call :: web_call where
  "listPayableOffers_call = \<lparr>wc_verb = GET, wc_path = [Lit ''offers'', Lit ''pending''],
     wc_query = [], wc_body = NoBody\<rparr>"

subsection \<open>Conversations: \<open>chat.ts\<close>\<close>

definition listConversations_call :: web_call where
  "listConversations_call = \<lparr>wc_verb = GET, wc_path = [Lit ''conversations''],
     wc_query = [], wc_body = NoBody\<rparr>"

definition listMessages_call :: web_call where
  "listMessages_call = \<lparr>wc_verb = GET, wc_path = [Lit ''conversations'', Param ''conversationId'', Lit ''messages''],
     wc_query = [''page'', ''limit''], wc_body = NoBody\<rparr>"

definition sendMessage_call :: web_call where
  "sendMessage_call = \<lparr>wc_verb = POST, wc_path = [Lit ''conversations'', Param ''conversationId'', Lit ''messages''],
     wc_query = [], wc_body = Json [''body''] []\<rparr>"

definition startAuctionConversation_call :: web_call where
  "startAuctionConversation_call = \<lparr>wc_verb = POST, wc_path = [Lit ''auctions'', Param ''auctionId'', Lit ''conversations''],
     wc_query = [], wc_body = NoBody\<rparr>"

definition fetchAutoReplyMessage_call :: web_call where
  "fetchAutoReplyMessage_call = \<lparr>wc_verb = GET, wc_path = [Lit ''users'', Lit ''me'', Lit ''auto-reply''],
     wc_query = [], wc_body = NoBody\<rparr>"

definition updateAutoReplyMessage_call :: web_call where
  "updateAutoReplyMessage_call = \<lparr>wc_verb = PATCH, wc_path = [Lit ''users'', Lit ''me'', Lit ''auto-reply''],
     wc_query = [], wc_body = Json [''message''] []\<rparr>"

subsection \<open>Support: \<open>support-chat.ts\<close>\<close>

definition sendSupportChatMessage_call :: web_call where
  "sendSupportChatMessage_call = \<lparr>wc_verb = POST, wc_path = [Lit ''support'', Lit ''chat''],
     wc_query = [], wc_body = Json [''message''] [''sessionId'', ''history'']\<rparr>"

definition fetchSupportChatHistory_call :: web_call where
  "fetchSupportChatHistory_call = \<lparr>wc_verb = GET, wc_path = [Lit ''support'', Lit ''chat'', Param ''sessionId''],
     wc_query = [], wc_body = NoBody\<rparr>"

definition escalateSupportSession_call :: web_call where
  "escalateSupportSession_call = \<lparr>wc_verb = POST, wc_path = [Lit ''support'', Lit ''chat'', Param ''sessionId'', Lit ''escalate''],
     wc_query = [], wc_body = NoBody\<rparr>"

definition sendSupportSessionMessage_call :: web_call where
  "sendSupportSessionMessage_call = \<lparr>wc_verb = POST, wc_path = [Lit ''support'', Lit ''chat'', Param ''sessionId'', Lit ''messages''],
     wc_query = [], wc_body = Json [''body''] []\<rparr>"

subsection \<open>Notifications: \<open>notifications.ts\<close>\<close>

definition listNotifications_call :: web_call where
  "listNotifications_call = \<lparr>wc_verb = GET, wc_path = [Lit ''notifications''],
     wc_query = [''types'', ''unreadOnly'', ''page'', ''limit''], wc_body = NoBody\<rparr>"

definition unreadNotificationCount_call :: web_call where
  "unreadNotificationCount_call = \<lparr>wc_verb = GET, wc_path = [Lit ''notifications'', Lit ''unread-count''],
     wc_query = [], wc_body = NoBody\<rparr>"

definition markNotificationRead_call :: web_call where
  "markNotificationRead_call = \<lparr>wc_verb = PATCH, wc_path = [Lit ''notifications'', Param ''id'', Lit ''read''],
     wc_query = [], wc_body = NoBody\<rparr>"

definition markAllNotificationsRead_call :: web_call where
  "markAllNotificationsRead_call = \<lparr>wc_verb = PATCH, wc_path = [Lit ''notifications'', Lit ''read-all''],
     wc_query = [], wc_body = NoBody\<rparr>"

subsection \<open>The profile: \<open>users.ts\<close>\<close>

definition getMyProfile_call :: web_call where
  "getMyProfile_call = \<lparr>wc_verb = GET, wc_path = [Lit ''users'', Lit ''me''],
     wc_query = [], wc_body = NoBody\<rparr>"

definition updateMyProfile_call :: web_call where
  "updateMyProfile_call = \<lparr>wc_verb = PATCH, wc_path = [Lit ''users'', Lit ''me''],
     wc_query = [], wc_body = Json [] [''firstName'', ''lastName'', ''displayName'', ''avatarUrl'', ''bio'', ''phone'', ''recipientName'', ''line1'', ''line2'', ''city'', ''postalCode'']\<rparr>"

subsection \<open>Categories: \<open>categories.ts\<close>\<close>

definition listCategories_call :: web_call where
  "listCategories_call = \<lparr>wc_verb = GET, wc_path = [Lit ''categories''],
     wc_query = [], wc_body = NoBody\<rparr>"

subsection \<open>Administration: \<open>admin.ts\<close>\<close>

definition fetchCurrentUser_call :: web_call where
  "fetchCurrentUser_call = \<lparr>wc_verb = GET, wc_path = [Lit ''users'', Lit ''me''],
     wc_query = [], wc_body = NoBody\<rparr>"

definition fetchUsers_call :: web_call where
  "fetchUsers_call = \<lparr>wc_verb = GET, wc_path = [Lit ''admin'', Lit ''users''],
     wc_query = [''cursor'', ''limit'', ''status'', ''role''], wc_body = NoBody\<rparr>"

definition changeOwnPassword_call :: web_call where
  "changeOwnPassword_call = \<lparr>wc_verb = PATCH, wc_path = [Lit ''admin'', Lit ''users'', Lit ''me'', Lit ''password''],
     wc_query = [], wc_body = Json [''currentPassword'', ''newPassword''] []\<rparr>"

definition suspendUser_call :: web_call where
  "suspendUser_call = \<lparr>wc_verb = PATCH, wc_path = [Lit ''admin'', Lit ''users'', Param ''userId'', Lit ''suspend''],
     wc_query = [], wc_body = Json [] [''note'']\<rparr>"

definition reactivateUser_call :: web_call where
  "reactivateUser_call = \<lparr>wc_verb = PATCH, wc_path = [Lit ''admin'', Lit ''users'', Param ''userId'', Lit ''reactivate''],
     wc_query = [], wc_body = Json [] [''note'']\<rparr>"

definition fetchAuditLogs_call :: web_call where
  "fetchAuditLogs_call = \<lparr>wc_verb = GET, wc_path = [Lit ''admin'', Lit ''actions''],
     wc_query = [''cursor'', ''limit'', ''actionType''], wc_body = NoBody\<rparr>"

definition listAdminOrders_call :: web_call where
  "listAdminOrders_call = \<lparr>wc_verb = GET, wc_path = [Lit ''admin'', Lit ''orders''],
     wc_query = [''status'', ''page'', ''limit''], wc_body = NoBody\<rparr>"

definition deactivateAdminProduct_call :: web_call where
  "deactivateAdminProduct_call = \<lparr>wc_verb = PATCH, wc_path = [Lit ''admin'', Lit ''products'', Param ''productId'', Lit ''deactivate''],
     wc_query = [], wc_body = Json [''reason''] []\<rparr>"

definition reactivateAdminProduct_call :: web_call where
  "reactivateAdminProduct_call = \<lparr>wc_verb = PATCH, wc_path = [Lit ''admin'', Lit ''products'', Param ''productId'', Lit ''reactivate''],
     wc_query = [], wc_body = Json [''reason''] []\<rparr>"

definition fetchAdminProducts_call :: web_call where
  "fetchAdminProducts_call = \<lparr>wc_verb = GET, wc_path = [Lit ''admin'', Lit ''products''],
     wc_query = [''cursor'', ''limit'', ''status''], wc_body = NoBody\<rparr>"

definition fetchAdminOverview_call :: web_call where
  "fetchAdminOverview_call = \<lparr>wc_verb = GET, wc_path = [Lit ''admin'', Lit ''overview''],
     wc_query = [], wc_body = NoBody\<rparr>"

definition fetchAdminSupportSessions_call :: web_call where
  "fetchAdminSupportSessions_call = \<lparr>wc_verb = GET, wc_path = [Lit ''admin'', Lit ''support'', Lit ''sessions''],
     wc_query = [''status''], wc_body = NoBody\<rparr>"

definition fetchAdminSupportSession_call :: web_call where
  "fetchAdminSupportSession_call = \<lparr>wc_verb = GET, wc_path = [Lit ''admin'', Lit ''support'', Lit ''sessions'', Param ''sessionId''],
     wc_query = [], wc_body = NoBody\<rparr>"

definition claimSupportSession_call :: web_call where
  "claimSupportSession_call = \<lparr>wc_verb = PATCH, wc_path = [Lit ''admin'', Lit ''support'', Lit ''sessions'', Param ''sessionId'', Lit ''claim''],
     wc_query = [], wc_body = NoBody\<rparr>"

definition sendAdminSupportMessage_call :: web_call where
  "sendAdminSupportMessage_call = \<lparr>wc_verb = POST, wc_path = [Lit ''admin'', Lit ''support'', Lit ''sessions'', Param ''sessionId'', Lit ''messages''],
     wc_query = [], wc_body = Json [''body''] []\<rparr>"

definition resolveSupportSession_call :: web_call where
  "resolveSupportSession_call = \<lparr>wc_verb = PATCH, wc_path = [Lit ''admin'', Lit ''support'', Lit ''sessions'', Param ''sessionId'', Lit ''resolve''],
     wc_query = [], wc_body = NoBody\<rparr>"

definition fetchAdminAuctions_call :: web_call where
  "fetchAdminAuctions_call = \<lparr>wc_verb = GET, wc_path = [Lit ''admin'', Lit ''auctions''],
     wc_query = [''status'', ''page'', ''limit''], wc_body = NoBody\<rparr>"

definition cancelAdminAuction_call :: web_call where
  "cancelAdminAuction_call = \<lparr>wc_verb = PATCH, wc_path = [Lit ''admin'', Lit ''auctions'', Param ''auctionId'', Lit ''cancel''],
     wc_query = [], wc_body = Json [''reason''] []\<rparr>"

definition fetchAdminCategoryTree_call :: web_call where
  "fetchAdminCategoryTree_call = \<lparr>wc_verb = GET, wc_path = [Lit ''categories'', Lit ''admin''],
     wc_query = [], wc_body = NoBody\<rparr>"

definition createCategory_call :: web_call where
  "createCategory_call = \<lparr>wc_verb = POST, wc_path = [Lit ''categories''],
     wc_query = [], wc_body = Json [''name''] [''description'', ''parentId'']\<rparr>"

definition updateCategory_call :: web_call where
  "updateCategory_call = \<lparr>wc_verb = PATCH, wc_path = [Lit ''categories'', Param ''categoryId''],
     wc_query = [], wc_body = Json [] [''name'', ''description'']\<rparr>"

definition activateCategory_call :: web_call where
  "activateCategory_call = \<lparr>wc_verb = PATCH, wc_path = [Lit ''categories'', Param ''categoryId'', Lit ''activate''],
     wc_query = [], wc_body = NoBody\<rparr>"

definition deactivateCategory_call :: web_call where
  "deactivateCategory_call = \<lparr>wc_verb = PATCH, wc_path = [Lit ''categories'', Param ''categoryId'', Lit ''deactivate''],
     wc_query = [], wc_body = NoBody\<rparr>"

subsection \<open>Signing in: \<open>auth/auth-api.ts\<close>\<close>

definition requestLoginCode_call :: web_call where
  "requestLoginCode_call = \<lparr>wc_verb = POST, wc_path = [Lit ''auth'', Lit ''login''],
     wc_query = [], wc_body = Json [''email'', ''password''] []\<rparr>"

definition resendLoginCode_call :: web_call where
  "resendLoginCode_call = \<lparr>wc_verb = POST, wc_path = [Lit ''auth'', Lit ''2fa'', Lit ''resend''],
     wc_query = [], wc_body = Json [''email'', ''password''] []\<rparr>"

definition register_call :: web_call where
  "register_call = \<lparr>wc_verb = POST, wc_path = [Lit ''auth'', Lit ''register''],
     wc_query = [], wc_body = Json [''email'', ''password'', ''firstName'', ''displayName''] [''lastName'']\<rparr>"

definition requestPasswordReset_call :: web_call where
  "requestPasswordReset_call = \<lparr>wc_verb = POST, wc_path = [Lit ''auth'', Lit ''forgot-password''],
     wc_query = [], wc_body = Json [''email''] []\<rparr>"

definition resetPassword_call :: web_call where
  "resetPassword_call = \<lparr>wc_verb = POST, wc_path = [Lit ''auth'', Lit ''reset-password''],
     wc_query = [], wc_body = Json [''token'', ''password''] []\<rparr>"

section \<open>What each is meant for\<close>

text \<open>A call, the service method it is meant to reach, and the classes its handler declares for the body and
  for the query.\<close>

definition no_members :: dto where
  "no_members = flat []"

definition client_calls :: "(web_call \<times> string \<times> dto \<times> dto) list" where
  "client_calls =
     [(listAuctions_call, ''AuctionService.listAuctions'', no_members, ListAuctionsDto),
      (getAuctionStats_call, ''AuctionService.getStats'', no_members, no_members),
      (getAuction_call, ''AuctionService.findPublicAuction'', no_members, no_members),
      (listWonAuctions_call, ''AuctionService.listWonAuctions'', no_members, ListWonAuctionsDto),
      (createDraft_call, ''AuctionService.createDraft'', CreateAuctionDraftDto, no_members),
      (listOwnDrafts_call, ''AuctionService.listOwnDrafts'', no_members, no_members),
      (listOwnAuctions_call, ''AuctionService.listOwnAuctions'', no_members, ListOwnAuctionsDto),
      (getOwnDraft_call, ''AuctionService.findOwnDraft'', no_members, no_members),
      (validateDraft_call, ''AuctionService.validateOwnDraft'', no_members, no_members),
      (previewDraft_call, ''AuctionService.previewOwnDraft'', no_members, no_members),
      (publishDraft_call, ''AuctionService.publishDraft'', no_members, no_members),
      (updateAuction_call, ''AuctionService.updateOwnAuction'', UpdateAuctionDto, no_members),
      (cancelOwnAuction_call, ''AuctionService.cancelOwnAuction'', CancelAuctionDto, no_members),
      (uploadDraftImage_call, ''AuctionService.addDraftImage'', AddAuctionImageDto, no_members),
      (removeDraftImage_call, ''AuctionService.removeDraftImage'', no_members, no_members),
      (getLobby_call, ''LiveService.getLobby'', no_members, no_members),
      (getArena_call, ''LiveService.getArena'', no_members, no_members),
      (listBidHistory_call, ''BidService.listBidHistory'', no_members, ListBidHistoryDto),
      (placeBid_call, ''BidService.placeBid'', PlaceBidDto, no_members),
      (joinAuction_call, ''LiveService.join'', no_members, no_members),
      (leaveAuction_call, ''LiveService.leave'', no_members, no_members),
      (uploadPendingImage_call, ''StorageService.uploadPendingImage'', no_members, no_members),
      (listOwnProducts_call, ''ProductService.listOwnProducts'', no_members, no_members),
      (addProductImage_call, ''ProductService.addImage'', AddProductImageDto, no_members),
      (removeProductImage_call, ''ProductService.removeImage'', no_members, no_members),
      (searchProducts_call, ''ProductService.search'', no_members, SearchProductDto),
      (getProduct_call, ''ProductService.findOne'', no_members, no_members),
      (createProduct_call, ''ProductService.create'', CreateProductDto, no_members),
      (updateProduct_call, ''ProductService.update'', UpdateProductDto, no_members),
      (updateProductStatus_call, ''ProductService.updateStatus'', UpdateProductStatusDto, no_members),
      (updateProductStock_call, ''ProductService.updateStock'', UpdateStockDto, no_members),
      (deleteProduct_call, ''ProductService.remove'', no_members, no_members),
      (startProductConversation_call, ''ChatService.openProductConversation'', no_members, no_members),
      (watchProduct_call, ''ProductWatchlistService.watch'', no_members, no_members),
      (unwatchProduct_call, ''ProductWatchlistService.unwatch'', no_members, no_members),
      (listProductWatchlist_call, ''ProductWatchlistService.listOwn'', no_members, ListProductWatchlistDto),
      (countProductWatchlist_call, ''ProductWatchlistService.countOwn'', no_members, no_members),
      (watchAuction_call, ''WatchlistService.watch'', no_members, no_members),
      (unwatchAuction_call, ''WatchlistService.unwatch'', no_members, no_members),
      (listWatchlist_call, ''WatchlistService.listOwn'', no_members, ListWatchlistDto),
      (countWatchlist_call, ''WatchlistService.countOwn'', no_members, no_members),
      (getCart_call, ''CartService.getCart'', no_members, no_members),
      (addCartItem_call, ''CartService.addItem'', AddCartItemDto, no_members),
      (updateCartItem_call, ''CartService.updateItem'', UpdateCartItemDto, no_members),
      (removeCartItem_call, ''CartService.removeItem'', no_members, no_members),
      (clearCart_call, ''CartService.clear'', no_members, no_members),
      (listOrders_call, ''OrderService.listForBuyer'', no_members, ListOrderDto),
      (listSellingOrders_call, ''OrderService.listForSeller'', no_members, ListOrderDto),
      (getOrder_call, ''OrderService.findOne'', no_members, no_members),
      (checkout_call, ''CheckoutService.checkout'', CheckoutDto, no_members),
      (getShipment_call, ''ShipmentService.getTimeline'', no_members, no_members),
      (updateShipmentStatus_call, ''ShipmentService.updateStatus'', UpdateShipmentStatusDto, no_members),
      (requestPriceEstimate_call, ''PriceEstimatorService.estimate'', no_members, no_members),
      (createOffer_call, ''NegotiatorFacadeService.negotiate'', CreateOfferDto, no_members),
      (listPayableOffers_call, ''NegotiatorFacadeService.listPayableOffers'', no_members, no_members),
      (listConversations_call, ''ChatService.listConversations'', no_members, no_members),
      (listMessages_call, ''ChatService.listMessages'', no_members, ListMessagesDto),
      (sendMessage_call, ''ChatService.sendMessage'', SendChatMessageDto, no_members),
      (startAuctionConversation_call, ''ChatService.openAuctionConversation'', no_members, no_members),
      (fetchAutoReplyMessage_call, ''ChatService.getAutoReplyMessage'', no_members, no_members),
      (updateAutoReplyMessage_call, ''ChatService.setAutoReplyMessage'', UpdateAutoReplyDto, no_members),
      (sendSupportChatMessage_call, ''SupportChatService.sendMessage'', SendSupportChatMessageDto, no_members),
      (fetchSupportChatHistory_call, ''SupportChatService.getHistory'', no_members, no_members),
      (escalateSupportSession_call, ''SupportChatService.escalate'', no_members, no_members),
      (sendSupportSessionMessage_call, ''SupportChatService.sendUserMessageToAdmin'', SendUserMessageDto, no_members),
      (listNotifications_call, ''NotificationService.list'', no_members, ListNotificationDto),
      (unreadNotificationCount_call, ''NotificationService.unreadCount'', no_members, no_members),
      (markNotificationRead_call, ''NotificationService.markRead'', no_members, no_members),
      (markAllNotificationsRead_call, ''NotificationService.markAllRead'', no_members, no_members),
      (getMyProfile_call, ''UsersService.findMe'', no_members, no_members),
      (updateMyProfile_call, ''UsersService.updateMe'', UpdateProfileDto, no_members),
      (fetchCurrentUser_call, ''UsersService.findMe'', no_members, no_members),
      (listCategories_call, ''CategoriesService.findActiveTree'', no_members, no_members),
      (fetchAdminCategoryTree_call, ''CategoriesService.findAdminTree'', no_members, no_members),
      (createCategory_call, ''CategoriesService.createCategory'', CreateCategoryDto, no_members),
      (updateCategory_call, ''CategoriesService.updateCategory'', UpdateCategoryDto, no_members),
      (activateCategory_call, ''CategoriesService.setCategoryActivation'', no_members, no_members),
      (deactivateCategory_call, ''CategoriesService.setCategoryActivation'', no_members, no_members),
      (fetchUsers_call, ''AdminUsersService.listUsers'', no_members, ListAdminUsersDto),
      (changeOwnPassword_call, ''AdminUsersService.changeOwnPassword'', ChangeOwnPasswordDto, no_members),
      (suspendUser_call, ''AdminUsersService.changeUserStatus'', ChangeUserStatusDto, no_members),
      (reactivateUser_call, ''AdminUsersService.changeUserStatus'', ChangeUserStatusDto, no_members),
      (fetchAuditLogs_call, ''AdminActionsService.listActions'', no_members, ListAdminActionsDto),
      (listAdminOrders_call, ''AdminOrdersService.listOrders'', no_members, ListOrderDto),
      (deactivateAdminProduct_call, ''AdminProductsService.setProductActivation'', ModerateProductDto, no_members),
      (reactivateAdminProduct_call, ''AdminProductsService.setProductActivation'', ModerateProductDto, no_members),
      (fetchAdminProducts_call, ''AdminProductsService.listProducts'', no_members, ListAdminProductsDto),
      (fetchAdminOverview_call, ''AdminOverviewService.getOverview'', no_members, no_members),
      (fetchAdminSupportSessions_call, ''AdminSupportService.listSessions'', no_members, ListAdminSupportSessionsDto),
      (fetchAdminSupportSession_call, ''AdminSupportService.getSession'', no_members, no_members),
      (claimSupportSession_call, ''AdminSupportService.claim'', no_members, no_members),
      (sendAdminSupportMessage_call, ''AdminSupportService.reply'', ReplySupportSessionDto, no_members),
      (resolveSupportSession_call, ''AdminSupportService.resolve'', no_members, no_members),
      (fetchAdminAuctions_call, ''AdminAuctionsService.listAuctions'', no_members, ListAdminAuctionsDto),
      (cancelAdminAuction_call, ''AdminAuctionsService.cancelAuction'', AdminCancelAuctionDto, no_members),
      (requestLoginCode_call, ''AuthService.login'', LoginDto, no_members),
      (resendLoginCode_call, ''AuthService.resendTwoFactor'', LoginDto, no_members),
      (register_call, ''AuthService.register'', RegisterDto, no_members),
      (requestPasswordReset_call, ''AuthService.forgotPassword'', ForgotPasswordDto, no_members),
      (resetPassword_call, ''AuthService.resetPassword'', ResetPasswordDto, no_members)]"

text \<open>What the server components call: the home page's sections, hero, ticker and numbers, the lists and
  their filters, a listing and an arena.\<close>

definition server_reads :: "(web_call \<times> string) list" where
  "server_reads =
     [(listAuctions_call, ''AuctionService.listAuctions''), (getAuctionStats_call, ''AuctionService.getStats''),
      (getArena_call, ''LiveService.getArena''), (searchProducts_call, ''ProductService.search''),
      (getProduct_call, ''ProductService.findOne''), (listCategories_call, ''CategoriesService.findActiveTree'')]"

definition required_names :: "dto \<Rightarrow> string list" where
  "required_names d =
     map lf_name (filter (\<lambda>l. \<not> List.member (lf_rules l) IsOptional) (dt_leaves d)) @
     map ne_name (filter (\<lambda>n. \<not> List.member (ne_rules n) IsOptional) (dt_nests d))"

section \<open>Calls meet routes\<close>

definition url :: "(string \<Rightarrow> utext) \<Rightarrow> web_call \<Rightarrow> utext list" where
  "url f c = map (\<lambda>s. case s of Lit w \<Rightarrow> ascii w | Param x \<Rightarrow> f x) (wc_path c)"

fun same_shape :: "segment \<Rightarrow> segment \<Rightarrow> bool" where
  "same_shape (Lit a) (Lit b) \<longleftrightarrow> a = b"
| "same_shape (Param x) (Param y) \<longleftrightarrow> True"
| "same_shape s s' \<longleftrightarrow> False"

definition meant_for :: "web_call \<Rightarrow> string \<Rightarrow> route \<Rightarrow> bool" where
  "meant_for c m r \<longleftrightarrow>
     (if ro_verb r = wc_verb c then (if list_all2 same_shape (ro_path r) (wc_path c) then ro_method r = m else False)
      else False)"

definition all_in :: "string list \<Rightarrow> string list \<Rightarrow> bool" where
  "all_in xs ys \<longleftrightarrow> list_all (List.member ys) xs"

text \<open>The handlers, by controller and place.\<close>

definition targets :: "(controller \<times> (web_call \<times> string \<times> nat) list) list" where
  "targets =
     [(auction_controller,
        [(listAuctions_call, ''AuctionService.listAuctions'', 12),
         (getAuctionStats_call, ''AuctionService.getStats'', 13),
         (getAuction_call, ''AuctionService.findPublicAuction'', 14),
         (listWonAuctions_call, ''AuctionService.listWonAuctions'', 3),
         (createDraft_call, ''AuctionService.createDraft'', 0),
         (listOwnDrafts_call, ''AuctionService.listOwnDrafts'', 1),
         (listOwnAuctions_call, ''AuctionService.listOwnAuctions'', 2),
         (getOwnDraft_call, ''AuctionService.findOwnDraft'', 4),
         (validateDraft_call, ''AuctionService.validateOwnDraft'', 5),
         (previewDraft_call, ''AuctionService.previewOwnDraft'', 6),
         (publishDraft_call, ''AuctionService.publishDraft'', 7),
         (updateAuction_call, ''AuctionService.updateOwnAuction'', 8),
         (cancelOwnAuction_call, ''AuctionService.cancelOwnAuction'', 9),
         (uploadDraftImage_call, ''AuctionService.addDraftImage'', 10),
         (removeDraftImage_call, ''AuctionService.removeDraftImage'', 11)]),
      (lobby_controller,
        [(getLobby_call, ''LiveService.getLobby'', 0)]),
      (arena_controller,
        [(getArena_call, ''LiveService.getArena'', 0)]),
      (bid_controller,
        [(listBidHistory_call, ''BidService.listBidHistory'', 1),
         (placeBid_call, ''BidService.placeBid'', 0)]),
      (participant_controller,
        [(joinAuction_call, ''LiveService.join'', 0),
         (leaveAuction_call, ''LiveService.leave'', 1)]),
      (uploads_controller,
        [(uploadPendingImage_call, ''StorageService.uploadPendingImage'', 0)]),
      (product_controller,
        [(listOwnProducts_call, ''ProductService.listOwnProducts'', 2),
         (addProductImage_call, ''ProductService.addImage'', 8),
         (removeProductImage_call, ''ProductService.removeImage'', 9),
         (searchProducts_call, ''ProductService.search'', 1),
         (getProduct_call, ''ProductService.findOne'', 3),
         (createProduct_call, ''ProductService.create'', 0),
         (updateProduct_call, ''ProductService.update'', 4),
         (updateProductStatus_call, ''ProductService.updateStatus'', 5),
         (updateProductStock_call, ''ProductService.updateStock'', 6),
         (deleteProduct_call, ''ProductService.remove'', 7)]),
      (product_conversation_controller,
        [(startProductConversation_call, ''ChatService.openProductConversation'', 0)]),
      (product_watchlist_controller,
        [(watchProduct_call, ''ProductWatchlistService.watch'', 0),
         (unwatchProduct_call, ''ProductWatchlistService.unwatch'', 1)]),
      (watchlist_products_controller,
        [(listProductWatchlist_call, ''ProductWatchlistService.listOwn'', 0),
         (countProductWatchlist_call, ''ProductWatchlistService.countOwn'', 1)]),
      (auction_watchlist_controller,
        [(watchAuction_call, ''WatchlistService.watch'', 0),
         (unwatchAuction_call, ''WatchlistService.unwatch'', 1)]),
      (watchlist_controller,
        [(listWatchlist_call, ''WatchlistService.listOwn'', 0),
         (countWatchlist_call, ''WatchlistService.countOwn'', 1)]),
      (cart_controller,
        [(getCart_call, ''CartService.getCart'', 0),
         (addCartItem_call, ''CartService.addItem'', 1),
         (updateCartItem_call, ''CartService.updateItem'', 3),
         (removeCartItem_call, ''CartService.removeItem'', 4),
         (clearCart_call, ''CartService.clear'', 2)]),
      (order_controller,
        [(listOrders_call, ''OrderService.listForBuyer'', 1),
         (listSellingOrders_call, ''OrderService.listForSeller'', 2),
         (getOrder_call, ''OrderService.findOne'', 3),
         (checkout_call, ''CheckoutService.checkout'', 0)]),
      (shipment_controller,
        [(getShipment_call, ''ShipmentService.getTimeline'', 0),
         (updateShipmentStatus_call, ''ShipmentService.updateStatus'', 1)]),
      (price_estimate_controller,
        [(requestPriceEstimate_call, ''PriceEstimatorService.estimate'', 0)]),
      (offers_controller,
        [(createOffer_call, ''NegotiatorFacadeService.negotiate'', 0)]),
      (pending_offers_controller,
        [(listPayableOffers_call, ''NegotiatorFacadeService.listPayableOffers'', 0)]),
      (conversation_controller,
        [(listConversations_call, ''ChatService.listConversations'', 0),
         (listMessages_call, ''ChatService.listMessages'', 1),
         (sendMessage_call, ''ChatService.sendMessage'', 2)]),
      (auction_conversation_controller,
        [(startAuctionConversation_call, ''ChatService.openAuctionConversation'', 0)]),
      (auto_reply_controller,
        [(fetchAutoReplyMessage_call, ''ChatService.getAutoReplyMessage'', 0),
         (updateAutoReplyMessage_call, ''ChatService.setAutoReplyMessage'', 1)]),
      (support_chat_controller,
        [(sendSupportChatMessage_call, ''SupportChatService.sendMessage'', 1),
         (fetchSupportChatHistory_call, ''SupportChatService.getHistory'', 0),
         (escalateSupportSession_call, ''SupportChatService.escalate'', 2),
         (sendSupportSessionMessage_call, ''SupportChatService.sendUserMessageToAdmin'', 3)]),
      (notification_controller,
        [(listNotifications_call, ''NotificationService.list'', 0),
         (unreadNotificationCount_call, ''NotificationService.unreadCount'', 1),
         (markNotificationRead_call, ''NotificationService.markRead'', 3),
         (markAllNotificationsRead_call, ''NotificationService.markAllRead'', 2)]),
      (users_controller,
        [(getMyProfile_call, ''UsersService.findMe'', 0),
         (updateMyProfile_call, ''UsersService.updateMe'', 1),
         (fetchCurrentUser_call, ''UsersService.findMe'', 0)]),
      (categories_controller,
        [(listCategories_call, ''CategoriesService.findActiveTree'', 0),
         (fetchAdminCategoryTree_call, ''CategoriesService.findAdminTree'', 1),
         (createCategory_call, ''CategoriesService.createCategory'', 2),
         (updateCategory_call, ''CategoriesService.updateCategory'', 3),
         (activateCategory_call, ''CategoriesService.setCategoryActivation'', 4),
         (deactivateCategory_call, ''CategoriesService.setCategoryActivation'', 5)]),
      (admin_users_controller,
        [(fetchUsers_call, ''AdminUsersService.listUsers'', 0),
         (changeOwnPassword_call, ''AdminUsersService.changeOwnPassword'', 1),
         (suspendUser_call, ''AdminUsersService.changeUserStatus'', 2),
         (reactivateUser_call, ''AdminUsersService.changeUserStatus'', 3)]),
      (admin_actions_controller,
        [(fetchAuditLogs_call, ''AdminActionsService.listActions'', 0)]),
      (admin_orders_controller,
        [(listAdminOrders_call, ''AdminOrdersService.listOrders'', 0)]),
      (admin_products_controller,
        [(deactivateAdminProduct_call, ''AdminProductsService.setProductActivation'', 1),
         (reactivateAdminProduct_call, ''AdminProductsService.setProductActivation'', 2),
         (fetchAdminProducts_call, ''AdminProductsService.listProducts'', 0)]),
      (admin_overview_controller,
        [(fetchAdminOverview_call, ''AdminOverviewService.getOverview'', 0)]),
      (admin_support_controller,
        [(fetchAdminSupportSessions_call, ''AdminSupportService.listSessions'', 0),
         (fetchAdminSupportSession_call, ''AdminSupportService.getSession'', 1),
         (claimSupportSession_call, ''AdminSupportService.claim'', 2),
         (sendAdminSupportMessage_call, ''AdminSupportService.reply'', 3),
         (resolveSupportSession_call, ''AdminSupportService.resolve'', 4)]),
      (admin_auctions_controller,
        [(fetchAdminAuctions_call, ''AdminAuctionsService.listAuctions'', 0),
         (cancelAdminAuction_call, ''AdminAuctionsService.cancelAuction'', 1)]),
      (auth_controller,
        [(requestLoginCode_call, ''AuthService.login'', 1),
         (resendLoginCode_call, ''AuthService.resendTwoFactor'', 11),
         (register_call, ''AuthService.register'', 0),
         (requestPasswordReset_call, ''AuthService.forgotPassword'', 9),
         (resetPassword_call, ''AuthService.resetPassword'', 10)])]"

text \<open>\<open>updateProduct\<close> is typed to send pictures as well, which its only caller never does and the API refuses.\<close>

definition sends_known :: "web_call \<Rightarrow> string \<Rightarrow> dto \<Rightarrow> dto \<Rightarrow> bool" where
  "sends_known c m body query \<longleftrightarrow>
     all_in (wc_query c) (member_names query) \<and> required_names query = [] \<and>
     (case wc_body c of
        NoBody \<Rightarrow> required_names body = []
      | Json always sometimes \<Rightarrow>
          all_in always (member_names body) \<and> all_in (required_names body) always \<and>
          all_in sometimes (member_names body @ (if m = ''ProductService.update'' then [''imageUrls''] else []))
      | Form always sometimes \<Rightarrow>
          always = [''image''] \<and> all_in sometimes (member_names body) \<and> required_names body = [])"

text \<open>The same of a handler of a controller.\<close>

definition hits :: "controller \<Rightarrow> handler list \<Rightarrow> web_call \<times> string \<times> nat \<Rightarrow> bool" where
  "hits k hs = (\<lambda>(c, m, i).
     if i < length hs then
       (let h = hs ! i in
        if hd_verb h = wc_verb c then
          (if list_all2 same_shape (ct_path k @ hd_path h) (wc_path c) then hd_method h = m else False)
        else False)
     else False)"

lemma targets_hit: "list_all (\<lambda>(k, cs). list_all (hits k (ct_handlers k)) cs) targets"
  by code_simp

lemma targets_are_controllers: "fst ` set targets \<subseteq> set controllers"
  by (auto simp: targets_def controllers_def)

lemma calls_are_targets:
  "map (\<lambda>(c, m, b, q). (c, m)) client_calls = map (\<lambda>(c, m, i). (c, m)) (concat (map snd targets))"
  by (simp add: client_calls_def targets_def)

lemma calls_send_known: "list_all (\<lambda>(c, m, b, q). sends_known c m b q) client_calls"
  by code_simp

lemma hits_meant:
  assumes "hits k (ct_handlers k) (c, m, i)"
  shows "\<exists>r \<in> set (routes_of k). meant_for c m r"
proof -
  have i: "i < length (ct_handlers k)" using assms by (simp add: hits_def split: if_splits)
  have "meant_for c m (routes_of k ! i)"
    using assms i by (simp add: hits_def meant_for_def routes_of_def Let_def split: if_splits)
  moreover have "routes_of k ! i \<in> set (routes_of k)" using i by (simp add: routes_of_def)
  ultimately show ?thesis by blast
qed

lemma calls_have_routes:
  assumes "(c, m, b, q) \<in> set client_calls"
  shows "\<exists>k \<in> set controllers. \<exists>r \<in> set (routes_of k). meant_for c m r"
proof -
  have "(c, m) \<in> set (map (\<lambda>(c, m, b, q). (c, m)) client_calls)" using assms by force
  then have "(c, m) \<in> set (map (\<lambda>(c, m, i). (c, m)) (concat (map snd targets)))"
    by (simp only: calls_are_targets)
  then obtain k cs i where t: "(k, cs) \<in> set targets" "(c, m, i) \<in> set cs" by auto
  then have "hits k (ct_handlers k) (c, m, i)" using targets_hit by (fastforce simp: list_all_iff)
  moreover have "k \<in> set controllers" using targets_are_controllers t(1) by force
  ultimately show ?thesis using hits_meant by blast
qed

lemma url_addressed:
  assumes "meant_for c m r" "\<And>t. is_uuid t \<Longrightarrow> length t = 36" "\<And>x. is_uuid (f x)"
  shows "addressed is_uuid r (url f c)"
proof -
  let ?g = "\<lambda>s. case s of Lit w \<Rightarrow> ascii w | Param x \<Rightarrow> f x"
  have "f x \<noteq> []" for x using assms(2) [OF assms(3) [of x]] by auto
  then have "segment_fits s (?g s') \<and> (case s of Lit w \<Rightarrow> True | Param x \<Rightarrow> if x \<in> piped r then is_uuid (?g s') else True)"
    if "same_shape s s'" for s s'
    using that assms(3) by (cases s; cases s') auto
  moreover have "list_all2 same_shape (ro_path r) (wc_path c)" using assms(1) by (simp add: meant_for_def split: if_splits)
  ultimately show ?thesis
    unfolding addressed_def url_def list_all2_map2 by (rule list_all2_mono [rotated])
qed

lemma call_dispatched:
  assumes "k \<in> set controllers" "r \<in> set (routes_of k)" "meant_for c m r"
    and "\<And>t. is_uuid t \<Longrightarrow> length t = 36" "\<And>x. is_uuid (f x)"
  shows "dispatch controllers (wc_verb c) (url f c) = Some r"
proof -
  have a: "addressed is_uuid r (url f c)" by (rule url_addressed [OF assms(3)]) (use assms(4,5) in auto)
  have "dispatch controllers (ro_verb r) (url f c) = Some r"
    by (rule handler_reached [OF _ refl assms(1,2) a]) (use assms(4) in auto)
  then show ?thesis using assms(3) by (simp add: meant_for_def split: if_splits)
qed



definition open_read :: "route \<Rightarrow> bool" where
  "open_read r \<longleftrightarrow> ro_public r \<and> ro_roles r = [] \<and> SanitizePrompt \<notin> set (ro_decorators r) \<and>
     StorageConfigured \<notin> set (ro_decorators r) \<and> Caller \<notin> set (ro_arguments r) \<and>
     list_all (\<lambda>a. case a of Uuid x \<Rightarrow> Param x \<in> set (ro_path r) | _ \<Rightarrow> True) (ro_arguments r)"

lemma server_reads_are_open:
  "list_all (\<lambda>(c, m). list_ex (\<lambda>k. list_ex (\<lambda>r. if meant_for c m r then open_read r else False) (routes_of k))
     [auction_controller, arena_controller, product_controller, categories_controller]) server_reads"
  by code_simp

lemma parameter_is:
  assumes "list_all2 same_shape p q" "Param x \<in> set p" "\<And>y. P (f y)"
  shows "P (parameter p (map (\<lambda>s. case s of Lit w \<Rightarrow> ascii w | Param y \<Rightarrow> f y) q) x)"
  using assms(1,2)
proof (induction p q rule: list_all2_induct)
  case (Cons s p s' q)
  then show ?case using assms(3) by (cases s; cases s') auto
qed simp

text \<open>Pages rendered on the server need no account. There the front end has no token to send; whatever it
  calls while it renders a page is let through all the same and reaches its service.\<close>

theorem server_reads_need_no_account:
  assumes "\<And>t. is_uuid t \<Longrightarrow> length t = 36" "\<And>x. is_uuid (f x)" "(c, m) \<in> set server_reads"
  shows "\<exists>vs. handle_request is_uuid configured k s now
    \<lparr>rq_verb = wc_verb c, rq_segments = url f c, rq_authorization = None, rq_message = t\<rparr> = Calls m vs"
proof -
  obtain k' r where r: "k' \<in> set controllers" "r \<in> set (routes_of k')" "meant_for c m r" and o: "open_read r"
    using server_reads_are_open assms(3) by (fastforce simp: list_all_iff list_ex_iff controllers_def split: if_splits)
  note p = o [unfolded open_read_def]
  have d: "dispatch controllers (wc_verb c) (url f c) = Some r"
    by (rule call_dispatched [OF r, where is_uuid = is_uuid]) (use assms(1,2) in auto)
  have shape: "list_all2 same_shape (ro_path r) (wc_path c)" using r(3) by (simp add: meant_for_def split: if_splits)
  have "value_of is_uuid r (url f c) None a \<noteq> Inl e" if "a \<in> set (ro_arguments r)" for a e
  proof (cases a)
    case (Uuid x)
    then have "Param x \<in> set (ro_path r)" using p that by (auto simp: list_all_iff)
    then show ?thesis using parameter_is [OF shape, of x is_uuid f] assms(2) Uuid by (simp add: value_of_def url_def)
  next
    case Caller
    then show ?thesis using p that by simp
  qed (simp_all add: value_of_def)
  then obtain vs where vs: "values_of (value_of is_uuid r (url f c) None) (ro_arguments r) = Inr vs"
    using values_of_Inl by (cases "values_of (value_of is_uuid r (url f c) None) (ro_arguments r)") blast+
  have "ro_method r = m" using r(3) by (simp add: meant_for_def split: if_splits)
  then show ?thesis
    using d p vs by (simp add: handle_request_def canActivate_def readBearerToken_def truthy_def rolesCanActivate_def)
qed

theorem server_reads_need_no_account_witness:
  "\<exists>vs. handle_request (\<lambda>t. length t = 36) True demo_door_crypto demo_accounts 0
    \<lparr>rq_verb = GET, rq_segments = [ascii ''auctions'', replicate 36 97, ascii ''arena''], rq_authorization = None,
     rq_message = []\<rparr> = Calls ''LiveService.getArena'' vs"
proof -
  have "(getArena_call, ''LiveService.getArena'') \<in> set server_reads" by (simp add: server_reads_def)
  from server_reads_need_no_account [OF _ _ this, where is_uuid = "\<lambda>t. length t = 36" and f = "\<lambda>x. replicate 36 97"]
  show ?thesis by (auto simp: getArena_call_def url_def)
qed

end
