(* ===== verification/Web_Session.thy ===== *)
theory Web_Session
  imports Accounts "HOL-Library.Multiset"
begin

text \<open>
  The session of the web application: \<open>apps/web/src/lib/auth/refresh.ts\<close> (trading a refresh token once,
  however many ask), the \<open>jwt\<close> callback of \<open>auth.ts\<close>, \<open>lib/api/client.ts\<close> (one retry after a 401),
  \<open>proxy.ts\<close> and \<open>safeCallback\<close> of \<open>lib/auth/oauth-flow.ts\<close>. What \<open>atob\<close> and \<open>JSON.parse\<close> make of the
  claims of a token is the argument \<open>claims\<close>: the number in \<open>exp\<close>, if there is one. The API is not
  called: a request is sent, and an outcome comes back later.
\<close>

section \<open>Access tokens\<close>

definition SKEW_MS :: int where
  "SKEW_MS = 60000"

definition MAX_HOPS :: nat where
  "MAX_HOPS = 4"

definition base64_of_url :: "utext \<Rightarrow> utext" where
  "base64_of_url = map (\<lambda>c. if c = 45 then 43 else if c = 95 then 47 else c)"

definition expiryOf :: "(utext \<Rightarrow> int option) \<Rightarrow> utext \<Rightarrow> int option" where
  "expiryOf claims accessToken =
     (case drop 1 (split_at 46 accessToken) of
        [] \<Rightarrow> None
      | payload # rest \<Rightarrow>
          if payload = [] then None
          else map_option (\<lambda>e. e * 1000) (claims (base64_of_url payload)))"

definition needsRefresh :: "(utext \<Rightarrow> int option) \<Rightarrow> utext option \<Rightarrow> int \<Rightarrow> bool" where
  "needsRefresh claims accessToken now =
     (case accessToken of
        None \<Rightarrow> False
      | Some t \<Rightarrow> if t = [] then False
                 else case expiryOf claims t of None \<Rightarrow> False | Some expiry \<Rightarrow> expiry - SKEW_MS \<le> now)"

section \<open>Spending a refresh token once\<close>

record token_pair =
  tp_accessToken :: utext
  tp_refreshToken :: utext

datatype outcome = Renewed token_pair | Dead | Unreachable

text \<open>The map \<open>spent\<close>: a request in flight, or the pair it brought, until the timer drops it.\<close>

datatype entry = InFlight | Remembered token_pair

datatype waiter = Owner nat | Joined nat nat \<comment> \<open>the caller, and the hops it has left\<close>

record desk =
  dk_spent :: "utext \<rightharpoonup> entry"
  dk_waiting :: "(utext \<times> waiter) list"
  dk_answers :: "(nat \<times> outcome) list"
  dk_asked :: "utext list" \<comment> \<open>the requests sent to the API\<close>
  dk_failed :: "utext list" \<comment> \<open>those that brought no pair\<close>
  dk_forgotten :: "utext list" \<comment> \<open>the timers that ran out\<close>

definition empty_desk :: desk where
  "empty_desk = \<lparr>dk_spent = Map.empty, dk_waiting = [], dk_answers = [], dk_asked = [], dk_failed = [],
     dk_forgotten = []\<rparr>"

definition answer :: "desk \<Rightarrow> nat \<Rightarrow> outcome \<Rightarrow> desk" where
  "answer d caller r = d\<lparr>dk_answers := dk_answers d @ [(caller, r)]\<rparr>"

text \<open>\<open>follow\<close> with the \<open>catchUp\<close> of a remembered pair.\<close>

fun follow :: "(utext \<Rightarrow> int option) \<Rightarrow> int \<Rightarrow> nat \<Rightarrow> utext \<Rightarrow> desk \<Rightarrow> nat \<Rightarrow> desk" where
  "follow claims now caller t d hops =
     (case dk_spent d t of
        None \<Rightarrow> d\<lparr>dk_spent := (dk_spent d)(t \<mapsto> InFlight), dk_waiting := dk_waiting d @ [(t, Owner caller)],
                  dk_asked := dk_asked d @ [t]\<rparr>
      | Some InFlight \<Rightarrow> d\<lparr>dk_waiting := dk_waiting d @ [(t, Joined caller hops)]\<rparr>
      | Some (Remembered p) \<Rightarrow>
          (case hops of
             0 \<Rightarrow> answer d caller (Renewed p)
           | Suc hops' \<Rightarrow>
               if needsRefresh claims (Some (tp_accessToken p)) now
               then follow claims now caller (tp_refreshToken p) d hops'
               else answer d caller (Renewed p)))"

declare follow.simps [simp del]

definition refreshTokens :: "(utext \<Rightarrow> int option) \<Rightarrow> int \<Rightarrow> nat \<Rightarrow> utext \<Rightarrow> desk \<Rightarrow> desk" where
  "refreshTokens claims now caller t d = follow claims now caller t d MAX_HOPS"

definition catchUp :: "(utext \<Rightarrow> int option) \<Rightarrow> int \<Rightarrow> nat \<Rightarrow> outcome \<Rightarrow> nat \<Rightarrow> desk \<Rightarrow> desk" where
  "catchUp claims now caller r hops d =
     (case r of
        Renewed p \<Rightarrow>
          (case hops of
             0 \<Rightarrow> answer d caller r
           | Suc hops' \<Rightarrow>
               if needsRefresh claims (Some (tp_accessToken p)) now
               then follow claims now caller (tp_refreshToken p) d hops'
               else answer d caller r)
      | _ \<Rightarrow> answer d caller r)"

definition resume :: "(utext \<Rightarrow> int option) \<Rightarrow> int \<Rightarrow> outcome \<Rightarrow> waiter \<Rightarrow> desk \<Rightarrow> desk" where
  "resume claims now r w d =
     (case w of Owner caller \<Rightarrow> answer d caller r | Joined caller hops \<Rightarrow> catchUp claims now caller r hops d)"

text \<open>The request for \<open>t\<close> comes back: it is remembered or dropped, and those who waited go on.\<close>

definition settle :: "(utext \<Rightarrow> int option) \<Rightarrow> int \<Rightarrow> utext \<Rightarrow> outcome \<Rightarrow> desk \<Rightarrow> desk" where
  "settle claims now t r d =
     (let d1 = (case r of
            Renewed p \<Rightarrow> d\<lparr>dk_spent := (dk_spent d)(t \<mapsto> Remembered p)\<rparr>
          | _ \<Rightarrow> d\<lparr>dk_spent := (dk_spent d)(t := None), dk_failed := dk_failed d @ [t]\<rparr>);
          here = map snd (filter (\<lambda>x. fst x = t) (dk_waiting d));
          d2 = d1\<lparr>dk_waiting := filter (\<lambda>x. fst x \<noteq> t) (dk_waiting d)\<rparr>
      in foldl (\<lambda>d w. resume claims now r w d) d2 here)"

definition forget :: "utext \<Rightarrow> desk \<Rightarrow> desk" where
  "forget t d = d\<lparr>dk_spent := (dk_spent d)(t := None), dk_forgotten := dk_forgotten d @ [t]\<rparr>"

text \<open>The answer of \<open>requestRefresh\<close> to a response of the API.\<close>

definition requestRefresh :: "(nat \<times> token_pair option) option \<Rightarrow> outcome" where
  "requestRefresh response =
     (case response of
        None \<Rightarrow> Unreachable
      | Some (status, body) \<Rightarrow>
          if status = 401 \<or> status = 403 then Dead
          else if \<not> (200 \<le> status \<and> status < 300) then Unreachable
          else case body of
                 None \<Rightarrow> Unreachable
               | Some p \<Rightarrow> if tp_accessToken p \<noteq> [] \<and> tp_refreshToken p \<noteq> [] then Renewed p else Unreachable)"

inductive desk_step :: "(utext \<Rightarrow> int option) \<Rightarrow> desk \<Rightarrow> desk \<Rightarrow> bool" for claims where
  arrives: "desk_step claims d (refreshTokens claims now caller t d)"
| returns: "dk_spent d t = Some InFlight \<Longrightarrow> desk_step claims d (settle claims now t r d)"
| lapses: "dk_spent d t = Some (Remembered p) \<Longrightarrow> desk_step claims d (forget t d)"

section \<open>What the desk keeps\<close>

definition desk_inv :: "desk \<Rightarrow> bool" where
  "desk_inv d \<longleftrightarrow>
     (\<forall>(t, w) \<in> set (dk_waiting d). dk_spent d t = Some InFlight) \<and>
     (\<forall>t. count_list (dk_asked d) t
        = count_list (dk_failed d) t + count_list (dk_forgotten d) t + (if dk_spent d t = None then 0 else 1))"

fun caller_of :: "waiter \<Rightarrow> nat" where
  "caller_of (Owner c) = c"
| "caller_of (Joined c hops) = c"

text \<open>Everybody who is waiting or has an answer.\<close>

definition people :: "desk \<Rightarrow> nat multiset" where
  "people d = mset (map (\<lambda>(t, w). caller_of w) (dk_waiting d)) + mset (map fst (dk_answers d))"

text \<open>\<open>goes_on c d d'\<close>: one more caller \<open>c\<close>, and nothing that was in the map leaves it.\<close>

definition goes_on :: "nat \<Rightarrow> desk \<Rightarrow> desk \<Rightarrow> bool" where
  "goes_on c d d' \<longleftrightarrow>
     (desk_inv d \<longrightarrow> desk_inv d') \<and> people d' = add_mset c (people d) \<and>
     (\<forall>t. dk_spent d t \<noteq> None \<longrightarrow> dk_spent d' t = dk_spent d t) \<and>
     dk_failed d' = dk_failed d \<and> dk_forgotten d' = dk_forgotten d"

lemma goes_on_answer: "goes_on c d (answer d c r)"
  by (simp add: goes_on_def answer_def desk_inv_def people_def)

lemma follow_goes_on: "goes_on c d (follow claims now c t d hops)"
proof (induction claims now c t d hops rule: follow.induct)
  case (1 claims now c t d hops)
  show ?case
  proof (cases "dk_spent d t")
    case None
    then show ?thesis
      by (subst follow.simps) (auto simp: goes_on_def desk_inv_def people_def)
  next
    case (Some e)
    show ?thesis
    proof (cases e)
      case InFlight
      then show ?thesis using Some
        by (subst follow.simps) (auto simp: goes_on_def desk_inv_def people_def)
    next
      case (Remembered p)
      show ?thesis
      proof (cases hops)
        case 0
        then show ?thesis using Some Remembered by (subst follow.simps) (simp add: goes_on_answer)
      next
        case (Suc h)
        then show ?thesis using Some Remembered 1 by (subst follow.simps) (simp add: goes_on_answer)
      qed
    qed
  qed
qed

lemma resume_goes_on: "goes_on (caller_of w) d (resume claims now r w d)"
  by (cases w) (simp_all add: resume_def catchUp_def goes_on_answer follow_goes_on split: outcome.split nat.split)

text \<open>Those who waited go on one after another.\<close>

lemma resume_all:
  "desk_inv d \<Longrightarrow>
   (let d' = foldl (\<lambda>d w. resume claims now r w d) d ws
    in desk_inv d' \<and> people d' = mset (map caller_of ws) + people d)"
proof (induction ws arbitrary: d)
  case (Cons w ws)
  have g: "goes_on (caller_of w) d (resume claims now r w d)" by (rule resume_goes_on)
  then have "desk_inv (resume claims now r w d)" using Cons.prems by (simp add: goes_on_def)
  from Cons.IH [OF this] g show ?case by (simp add: goes_on_def Let_def)
qed (simp add: Let_def)

lemma people_split:
  "mset (map (\<lambda>(t, w). caller_of w) xs)
     = mset (map caller_of (map snd (filter (\<lambda>x. fst x = t) xs))) +
       mset (map (\<lambda>(t, w). caller_of w) (filter (\<lambda>x. fst x \<noteq> t) xs))"
  by (induction xs) auto

lemma settle_keeps:
  assumes "desk_inv d" "dk_spent d t = Some InFlight"
  shows "desk_inv (settle claims now t r d) \<and> people (settle claims now t r d) = people d"
proof -
  let ?d1 = "case r of
            Renewed p \<Rightarrow> d\<lparr>dk_spent := (dk_spent d)(t \<mapsto> Remembered p)\<rparr>
          | _ \<Rightarrow> d\<lparr>dk_spent := (dk_spent d)(t := None), dk_failed := dk_failed d @ [t]\<rparr>"
  let ?d2 = "?d1\<lparr>dk_waiting := filter (\<lambda>x. fst x \<noteq> t) (dk_waiting d)\<rparr>"
  let ?ws = "map snd (filter (\<lambda>x. fst x = t) (dk_waiting d))"
  have "desk_inv ?d2"
    using assms by (cases r) (auto simp: desk_inv_def)
  moreover have "people d = mset (map caller_of ?ws) + people ?d2"
    using people_split [of "dk_waiting d" t] by (cases r) (simp_all add: people_def)
  ultimately show ?thesis
    using resume_all [of ?d2 claims now r ?ws] by (simp add: settle_def Let_def)
qed

lemma desk_step_inv: "desk_step claims d d' \<Longrightarrow> desk_inv d \<Longrightarrow> desk_inv d'"
proof (induction rule: desk_step.induct)
  case (arrives now caller t d)
  then show ?case using follow_goes_on by (simp add: refreshTokens_def goes_on_def)
next
  case (returns d t now r)
  then show ?case using settle_keeps by simp
next
  case (lapses d t p)
  then have "\<forall>(s, w) \<in> set (dk_waiting d). s \<noteq> t \<and> dk_spent d s = Some InFlight"
    by (fastforce simp: desk_inv_def)
  then show ?case using lapses by (fastforce simp: desk_inv_def forget_def)
qed

interpretation refresh_desk: invariant_system "\<lambda>d. d = empty_desk" "desk_step claims" desk_inv for claims
  by unfold_locales (simp add: empty_desk_def desk_inv_def, rule desk_step_inv)

section \<open>Properties\<close>

text \<open>C31: A refresh token is spent once. However many callers ask, in whatever order answers come back, the
  requests sent for a token are those that brought no pair, those whose answer has been forgotten, and
  at most one more; while its answer is on its way or remembered, asking again sends none. Nobody is
  lost: whoever waits, waits for a request that is in flight, and when it returns every caller is
  still waiting or answered, once.\<close>

theorem refresh_token_is_spent_once:
  assumes "(desk_step claims)\<^sup>*\<^sup>* empty_desk d"
  shows "count_list (dk_asked d) t
       = count_list (dk_failed d) t + count_list (dk_forgotten d) t + (if dk_spent d t = None then 0 else 1) \<and>
     (dk_spent d t \<noteq> None \<longrightarrow>
        count_list (dk_asked (refreshTokens claims now c t d)) t = count_list (dk_asked d) t) \<and>
     (\<forall>(s, w) \<in> set (dk_waiting d). dk_spent d s = Some InFlight) \<and>
     people (refreshTokens claims now c t d) = add_mset c (people d) \<and>
     (dk_spent d t = Some InFlight \<longrightarrow> people (settle claims now t r d) = people d)"
proof -
  have d: "desk_inv d" using refresh_desk.reachable_inv [OF refl assms] .
  have g: "goes_on c d (refreshTokens claims now c t d)"
    unfolding refreshTokens_def by (rule follow_goes_on)
  then have d': "desk_inv (refreshTokens claims now c t d)" using d by (simp add: goes_on_def)
  show ?thesis
    using d d' g settle_keeps [OF d] by (auto simp: desk_inv_def goes_on_def)
qed

text \<open>Two ask for one token, the answer comes, a third asks.\<close>

definition demo_pair :: token_pair where
  "demo_pair = \<lparr>tp_accessToken = ascii ''h.p.s'', tp_refreshToken = ascii ''next''\<rparr>"

definition demo_desk :: desk where
  "demo_desk = settle (\<lambda>_. Some 9000) 0 (ascii ''old'') (Renewed demo_pair)
     (refreshTokens (\<lambda>_. Some 9000) 0 2 (ascii ''old'') (refreshTokens (\<lambda>_. Some 9000) 0 1 (ascii ''old'') empty_desk))"

lemma demo_desk_values:
  "dk_spent (refreshTokens (\<lambda>_. Some 9000) 0 2 (ascii ''old'')
      (refreshTokens (\<lambda>_. Some 9000) 0 1 (ascii ''old'') empty_desk)) (ascii ''old'') = Some InFlight"
  "dk_spent demo_desk (ascii ''old'') \<noteq> None"
  "dk_asked demo_desk = [ascii ''old'']" "map fst (dk_answers demo_desk) = [1, 2]"
  by code_simp+

theorem refresh_token_is_spent_once_witness:
  "count_list (dk_asked (refreshTokens (\<lambda>_. Some 9000) 0 3 (ascii ''old'') demo_desk)) (ascii ''old'') = 1 \<and>
   people (refreshTokens (\<lambda>_. Some 9000) 0 3 (ascii ''old'') demo_desk) = add_mset 3 (people demo_desk)"
proof -
  let ?k = "\<lambda>_. Some 9000" and ?t = "ascii ''old''"
  have 1: "(desk_step ?k)\<^sup>*\<^sup>* empty_desk (refreshTokens ?k 0 1 ?t empty_desk)"
    by (rule r_into_rtranclp, rule arrives)
  have 2: "(desk_step ?k)\<^sup>*\<^sup>* empty_desk (refreshTokens ?k 0 2 ?t (refreshTokens ?k 0 1 ?t empty_desk))"
    by (rule rtranclp.rtrancl_into_rtrancl [OF 1], rule arrives)
  have "(desk_step ?k)\<^sup>*\<^sup>* empty_desk demo_desk"
    unfolding demo_desk_def
    by (rule rtranclp.rtrancl_into_rtrancl [OF 2], rule returns, rule demo_desk_values(1))
  from refresh_token_is_spent_once [OF this, of "ascii ''old''" 0 3] demo_desk_values(2,3)
  show ?thesis by simp
qed

end
