(* ===== verification/Web_Guard.thy ===== *)
theory Web_Guard
  imports Web_Session
begin

text \<open>
  The doors of the web application: \<open>proxy.ts\<close> (who is sent to log in, and where they come back),
  \<open>safeCallback\<close> of \<open>lib/auth/oauth-flow.ts\<close>, the \<open>jwt\<close> callback of \<open>auth.ts\<close>, and \<open>apiFetch\<close> of
  \<open>lib/api/client.ts\<close>. How a browser reads a relative address is what the URL standard says: spaces
  and controls around it and tabs and line breaks in it are dropped, and two slashes of either kind
  at the start begin a host.
\<close>

section \<open>Return addresses\<close>

definition begins :: "utext \<Rightarrow> utext \<Rightarrow> bool" where
  "begins p t \<longleftrightarrow> take (length p) t = p"

definition safeCallback :: "utext option \<Rightarrow> utext option" where
  "safeCallback value_opt =
     (case value_opt of
        None \<Rightarrow> None
      | Some t \<Rightarrow> if \<not> begins (ascii ''/'') t \<or> begins (ascii ''//'') t then None else Some t)"

definition as_browsers_read :: "utext \<Rightarrow> utext" where
  "as_browsers_read t = filter (\<lambda>c. c \<notin> {9, 10, 13}) (dropWhile (\<lambda>c. c \<le> 32) t)"

definition names_a_host :: "utext \<Rightarrow> bool" where
  "names_a_host t \<longleftrightarrow>
     (case as_browsers_read t of a # b # cs \<Rightarrow> a \<in> {47, 92} \<and> b \<in> {47, 92} | _ \<Rightarrow> False)"

definition PROTECTED :: "utext list" where
  "PROTECTED = map ascii [''/profile'', ''/sell'', ''/cart'', ''/chat'', ''/checkout'', ''/orders'', ''/watchlist'',
     ''/notifications'', ''/admin'']"

definition needsAccount :: "utext \<Rightarrow> bool" where
  "needsAccount pathname \<longleftrightarrow>
     list_ex (\<lambda>path. pathname = path \<or> begins (path @ ascii ''/'') pathname) PROTECTED"

datatype proxy_answer = PassOn | ToLogin utext \<comment> \<open>with \<open>callbackUrl\<close>\<close>

definition proxy :: "utext \<Rightarrow> utext \<Rightarrow> utext option \<Rightarrow> proxy_answer" where
  "proxy pathname query accessToken =
     (if \<not> needsAccount pathname then PassOn
      else if (case accessToken of None \<Rightarrow> False | Some t \<Rightarrow> t \<noteq> []) then PassOn
      else ToLogin (pathname @ query))"

section \<open>The session token\<close>

record session_token =
  st_accessToken :: "utext option"
  st_refreshToken :: "utext option"
  st_role :: "user_role option"
  st_picture :: "utext option"
  st_failed :: bool

record api_user =
  ap_role :: user_role
  ap_avatarUrl :: "utext option"

text \<open>The part of the \<open>jwt\<close> callback that renews, when it does.\<close>

definition renew ::
  "(utext \<Rightarrow> int option) \<Rightarrow> int \<Rightarrow> (utext \<Rightarrow> outcome \<times> api_user) \<Rightarrow> session_token \<Rightarrow> session_token" where
  "renew claims now refresh token =
     (case st_refreshToken token of
        None \<Rightarrow> token
      | Some held \<Rightarrow>
          if held = [] \<or> \<not> needsRefresh claims (st_accessToken token) now then token
          else
            (case refresh held of
               (Renewed p, u) \<Rightarrow> token\<lparr>st_accessToken := Some (tp_accessToken p),
                   st_refreshToken := Some (tp_refreshToken p), st_role := Some (ap_role u),
                   st_picture := ap_avatarUrl u, st_failed := False\<rparr>
             | (Dead, u) \<Rightarrow> token\<lparr>st_accessToken := None, st_refreshToken := None, st_failed := True\<rparr>
             | (Unreachable, u) \<Rightarrow> token))"

section \<open>Calling the API\<close>

datatype message = NoMessage | OneMessage utext | Messages "utext list"

record api_response =
  rp_status :: nat
  rp_message :: message
  rp_body :: utext

datatype api_result = CannotConnect | NoContent | Fetched utext | ApiError nat utext

fun join_lines :: "utext list \<Rightarrow> utext" where
  "join_lines [] = []"
| "join_lines [t] = t"
| "join_lines (t # ts) = t @ [10] @ join_lines ts"

definition extractMessage :: "message \<Rightarrow> utext \<Rightarrow> utext" where
  "extractMessage m fallback =
     (case m of Messages ts \<Rightarrow> join_lines ts | OneMessage t \<Rightarrow> t | NoMessage \<Rightarrow> fallback)"

text \<open>The requests sent, and the result: \<open>send\<close> answers the n-th request with its authorization, \<open>again\<close>
  is what reading the session a second time gives.\<close>

definition apiFetch ::
  "(nat \<Rightarrow> utext option \<Rightarrow> api_response option) \<Rightarrow> (nat \<Rightarrow> utext) \<Rightarrow> utext option \<Rightarrow> utext option
     \<Rightarrow> utext option list \<times> api_result" where
  "apiFetch send fallback auth again =
     (case send 0 auth of
        None \<Rightarrow> ([auth], CannotConnect)
      | Some r \<Rightarrow>
          let retry = rp_status r = 401 \<and> auth \<noteq> None \<and> again \<noteq> None \<and> again \<noteq> auth;
              sent = [auth] @ (if retry then [again] else [])
          in case (if retry then send 1 again else Some r) of
               None \<Rightarrow> (sent, CannotConnect)
             | Some r \<Rightarrow>
                 (sent, if rp_status r = 204 then NoContent
                        else if 200 \<le> rp_status r \<and> rp_status r < 300 then Fetched (rp_body r)
                        else ApiError (rp_status r) (extractMessage (rp_message r) (fallback (rp_status r)))))"

section \<open>Properties\<close>

lemma protected_begins:
  assumes "needsAccount pathname"
  shows "\<exists>c rest. pathname = 47 # c # rest \<and> 97 \<le> c"
proof -
  obtain p where p: "p \<in> set PROTECTED" "pathname = p \<or> begins (p @ ascii ''/'') pathname"
    using assms by (auto simp: needsAccount_def list_ex_iff)
  then have pre: "\<exists>x. pathname = p @ x"
  proof (elim disjE)
    assume "begins (p @ ascii ''/'') pathname"
    then have "pathname = (p @ ascii ''/'') @ drop (length (p @ ascii ''/'')) pathname"
      unfolding begins_def by (metis append_take_drop_id)
    then show ?thesis by (metis append_assoc)
  qed auto
  have "list_all (\<lambda>p. length p > 1 \<and> p ! 0 = 47 \<and> 97 \<le> p ! 1) PROTECTED"
    by code_simp
  then have w: "length p > 1" "p ! 0 = 47" "97 \<le> p ! 1"
    using p(1) unfolding list_all_iff by blast+
  have "\<exists>c rest. p = 47 # c # rest \<and> 97 \<le> c"
  proof (cases p)
    case (Cons a q)
    then show ?thesis using w by (cases q) auto
  qed (use w(1) in simp)
  with pre show ?thesis by (elim exE conjE) simp
qed

text \<open>Logging in leads back. Whoever is turned away from a page that needs an account is sent to log in
  with the address of that page, which \<open>safeCallback\<close> lets through and every browser reads as a path of
  this site; everybody else, and whoever has a token, passes. In general an address \<open>safeCallback\<close> lets
  through stays on the site unless it holds a backslash, a tab or a line break.\<close>

theorem login_leads_back:
  shows "(proxy pathname query accessToken = ToLogin t \<longrightarrow>
       t = pathname @ query \<and> needsAccount pathname \<and> safeCallback (Some t) = Some t \<and> \<not> names_a_host t) \<and>
     (proxy pathname query accessToken = PassOn \<longleftrightarrow>
       \<not> needsAccount pathname \<or> (\<exists>a. accessToken = Some a \<and> a \<noteq> [])) \<and>
     (safeCallback (Some v) = Some w \<and> set v \<inter> {92, 9, 10, 13} = {} \<longrightarrow> w = v \<and> \<not> names_a_host w)"
proof (intro conjI impI)
  assume *: "proxy pathname query accessToken = ToLogin t"
  then show "t = pathname @ query" and n: "needsAccount pathname"
    by (auto simp: proxy_def split: if_splits)
  then obtain c rest where "pathname = 47 # c # rest" and c: "97 \<le> c"
    using protected_begins [OF n] by blast
  then have t: "t = 47 # c # (rest @ query)" using \<open>t = pathname @ query\<close> by simp
  then show "safeCallback (Some t) = Some t" using c by (simp add: safeCallback_def begins_def ascii_def)
  show "\<not> names_a_host t" using t c by (auto simp: names_a_host_def as_browsers_read_def)
next
  show "proxy pathname query accessToken = PassOn \<longleftrightarrow>
       \<not> needsAccount pathname \<or> (\<exists>a. accessToken = Some a \<and> a \<noteq> [])"
    by (auto simp: proxy_def split: option.split)
next
  assume *: "safeCallback (Some v) = Some w \<and> set v \<inter> {92, 9, 10, 13} = {}"
  then show w: "w = v" by (auto simp: safeCallback_def split: if_splits)
  then obtain cs where v: "v = 47 # cs" "take 1 cs \<noteq> [47]"
    using * by (cases v) (auto simp: safeCallback_def begins_def ascii_def split: if_splits)
  have "as_browsers_read v = v"
    using v(1) * unfolding as_browsers_read_def by (subst filter_True) (auto simp: v(1))
  then show "\<not> names_a_host w"
    using w v * by (cases cs) (simp_all add: names_a_host_def)
qed

theorem login_leads_back_witness:
  "safeCallback (Some (ascii ''/orders/7?page=2'')) = Some (ascii ''/orders/7?page=2'') \<and>
   \<not> names_a_host (ascii ''/orders/7?page=2'')"
proof -
  have "proxy (ascii ''/orders/7'') (ascii ''?page=2'') None = ToLogin (ascii ''/orders/7?page=2'')" by code_simp
  then show ?thesis
    using login_leads_back [of "ascii ''/orders/7''" "ascii ''?page=2''" None "ascii ''/orders/7?page=2''" "[]" "[]"]
    by blast
qed

text \<open>A return address with a backslash, or with a tab between two slashes, is let through and names
  another host to every browser.\<close>

theorem safe_callback_lets_hosts_through:
  "safeCallback (Some (ascii ''/'' @ [92] @ ascii ''evil.example'')) = Some (ascii ''/'' @ [92] @ ascii ''evil.example'') \<and>
   names_a_host (ascii ''/'' @ [92] @ ascii ''evil.example'') \<and>
   safeCallback (Some (ascii ''/'' @ [9] @ ascii ''/evil.example'')) = Some (ascii ''/'' @ [9] @ ascii ''/evil.example'') \<and>
   names_a_host (ascii ''/'' @ [9] @ ascii ''/evil.example'')"
  by code_simp

text \<open>Only a refusal ends the session. A session that had a token keeps one whatever happens to the
  request that renews it, a restart of the API, a throttled or broken answer, unless the API itself
  answered 401 or 403; and a call to the API is sent at most twice, the second time only after a 401
  and with another token.\<close>

theorem only_a_refusal_ends_the_session:
  shows "(st_accessToken token \<noteq> None \<and>
        st_accessToken (renew claims now (\<lambda>t. (requestRefresh (respond t), u)) token) = None \<longrightarrow>
        (\<exists>held status body. st_refreshToken token = Some held \<and> respond held = Some (status, body) \<and>
           status \<in> {401, 403})) \<and>
     (case fst (apiFetch send fallback auth again) of
        [a] \<Rightarrow> a = auth
      | [a, b] \<Rightarrow> a = auth \<and> b = again \<and> again \<noteq> auth \<and> (\<exists>r. send 0 auth = Some r \<and> rp_status r = 401)
      | _ \<Rightarrow> False)"
proof
  show "st_accessToken token \<noteq> None \<and>
        st_accessToken (renew claims now (\<lambda>t. (requestRefresh (respond t), u)) token) = None \<longrightarrow>
        (\<exists>held status body. st_refreshToken token = Some held \<and> respond held = Some (status, body) \<and>
           status \<in> {401, 403})"
  proof (cases "st_refreshToken token")
    case (Some held)
    then show ?thesis
      by (cases "respond held") (auto simp: renew_def requestRefresh_def split: option.splits if_splits)
  qed (auto simp: renew_def)
  show "case fst (apiFetch send fallback auth again) of
        [a] \<Rightarrow> a = auth
      | [a, b] \<Rightarrow> a = auth \<and> b = again \<and> again \<noteq> auth \<and> (\<exists>r. send 0 auth = Some r \<and> rp_status r = 401)
      | _ \<Rightarrow> False"
  proof (cases "send 0 auth")
    case (Some r)
    show ?thesis
      by (cases "rp_status r = 401 \<and> auth \<noteq> None \<and> again \<noteq> None \<and> again \<noteq> auth"; cases "send 1 again")
        (simp_all add: apiFetch_def Some Let_def)
  qed (simp add: apiFetch_def)
qed

definition demo_session :: session_token where
  "demo_session = \<lparr>st_accessToken = Some (ascii ''h.p.s''), st_refreshToken = Some (ascii ''r''), st_role = None,
     st_picture = None, st_failed = False\<rparr>"

definition demo_api_user :: api_user where
  "demo_api_user = \<lparr>ap_role = USER, ap_avatarUrl = None\<rparr>"

theorem only_a_refusal_ends_the_session_witness:
  "\<exists>held status body. st_refreshToken demo_session = Some held \<and>
     (if held = ascii ''r'' then Some (401, None) else Some (200, None)) = Some (status, body :: token_pair option) \<and>
     status \<in> {401, 403 :: nat}"
proof -
  have "st_accessToken demo_session \<noteq> None"
    "st_accessToken (renew (\<lambda>_. Some 0) 5
       (\<lambda>t. (requestRefresh (if t = ascii ''r'' then Some (401, None) else Some (200, None)), demo_api_user))
       demo_session) = None"
    by code_simp+
  then show ?thesis
    using only_a_refusal_ends_the_session [of demo_session "\<lambda>_. Some 0" 5
        "\<lambda>t. if t = ascii ''r'' then Some (401, None) else Some (200, None)" demo_api_user]
    by blast
qed

end
