(* ===== verification/Web_Login.thy ===== *)
theory Web_Login
  imports Web_Guard
begin

text \<open>
  Signing in through the front end: the cookies of \<open>apps/web/src/lib/auth/oauth-flow.ts\<close> and \<open>device-cookie.ts\<close> and the
  route handlers of \<open>app/api/auth\<close> (\<open>line/start\<close>, \<open>line/callback\<close>, \<open>oauth/start\<close>, \<open>oauth/verify\<close>, \<open>oauth/claim\<close>,
  \<open>password/login\<close>, \<open>password/verify\<close>). The cookies are
  httpOnly and only these handlers write them, so a cookie is what it was written from. What the API and LINE
  answer is an argument, as is the random state; a cookie may expire at any moment.
\<close>

section \<open>Cookies\<close>

record pending_oauth =
  po_provider :: auth_provider
  po_idToken :: utext
  po_email :: "utext option"
  po_callbackUrl :: "utext option"

record parked_tokens =
  pk_tokens :: token_pair
  pk_callbackUrl :: "utext option"

record jar =
  jr_pending :: "pending_oauth option"
  jr_lineState :: "(utext \<times> utext option) option" \<comment> \<open>the state and the address to return to\<close>
  jr_ready :: "parked_tokens option"
  jr_device :: "utext option"

definition empty_jar :: jar where
  "empty_jar = \<lparr>jr_pending = None, jr_lineState = None, jr_ready = None, jr_device = None\<rparr>"

definition device_shape :: "utext \<Rightarrow> bool" where
  "device_shape t \<longleftrightarrow> length t = 64 \<and> list_all (\<lambda>c. 48 \<le> c \<and> c \<le> 57 \<or> 97 \<le> c \<and> c \<le> 102) t"

definition readDeviceToken :: "jar \<Rightarrow> utext option" where
  "readDeviceToken j = (case jr_device j of None \<Rightarrow> None | Some t \<Rightarrow> if device_shape t then Some t else None)"

definition writeDeviceToken :: "utext option \<Rightarrow> jar \<Rightarrow> jar" where
  "writeDeviceToken token j = (case token of None \<Rightarrow> j | Some t \<Rightarrow> if t = [] then j else j\<lparr>jr_device := Some t\<rparr>)"

definition readPending :: "jar \<Rightarrow> pending_oauth option" where
  "readPending j = (case jr_pending j of None \<Rightarrow> None | Some p \<Rightarrow> if po_idToken p = [] then None else Some p)"

definition claimTokens :: "jar \<Rightarrow> jar \<times> parked_tokens option" where
  "claimTokens j =
     (case jr_ready j of
        None \<Rightarrow> (j, None)
      | Some p \<Rightarrow> (j\<lparr>jr_ready := None\<rparr>, if tp_accessToken (pk_tokens p) = [] then None else Some p))"

section \<open>The API\<close>

datatype api_answer =
  NoAnswer \<comment> \<open>\<open>fetch\<close> throws\<close>
| Refusal nat utext
| CodeSent
| EmailRequired
| Issued token_pair "utext option" \<comment> \<open>with a device token\<close>

record oauth_request =
  oq_provider :: auth_provider
  oq_idToken :: utext
  oq_email :: "utext option"
  oq_deviceToken :: "utext option"
  oq_otp :: "utext option"
  oq_remember :: "utext option option" \<comment> \<open>\<open>rememberDevice\<close> with its label\<close>

datatype page_answer =
  Broken \<comment> \<open>a 500\<close>
| Says nat utext
| AskCode
| AskEmail
| Tokens token_pair "utext option"

fun shown_to_page :: "api_answer \<Rightarrow> page_answer" where
  "shown_to_page NoAnswer = Broken"
| "shown_to_page (Refusal status msg) = Says status msg"
| "shown_to_page CodeSent = AskCode"
| "shown_to_page EmailRequired = AskEmail"
| "shown_to_page (Issued t d) = Tokens t d"

definition fallback :: utext where
  "fallback = ascii ''session expired''"

text \<open>Step one of a provider sign-in: the request it makes, and what a successful answer leaves in the jar.\<close>

definition start_request :: "jar \<Rightarrow> pending_oauth \<Rightarrow> bool \<Rightarrow> oauth_request" where
  "start_request j p withDevice =
     \<lparr>oq_provider = po_provider p, oq_idToken = po_idToken p, oq_email = po_email p,
      oq_deviceToken = (if withDevice then readDeviceToken j else None), oq_otp = None, oq_remember = None\<rparr>"

definition succeeded :: "api_answer \<Rightarrow> bool" where
  "succeeded a \<longleftrightarrow> (case a of NoAnswer \<Rightarrow> False | Refusal s m \<Rightarrow> False | _ \<Rightarrow> True)"

definition startOAuth :: "pending_oauth \<Rightarrow> api_answer \<Rightarrow> jar \<Rightarrow> jar" where
  "startOAuth p a j = (if succeeded a then j\<lparr>jr_pending := Some p\<rparr> else j)"

definition verifyOAuth ::
  "utext \<Rightarrow> utext option option \<Rightarrow> (oauth_request \<Rightarrow> api_answer) \<Rightarrow> jar \<Rightarrow> jar \<times> page_answer" where
  "verifyOAuth otp remember api j =
     (case readPending j of
        None \<Rightarrow> (j, Says 400 fallback)
      | Some p \<Rightarrow>
          (case api \<lparr>oq_provider = po_provider p, oq_idToken = po_idToken p, oq_email = po_email p,
                     oq_deviceToken = None, oq_otp = Some otp, oq_remember = remember\<rparr> of
             Issued t d \<Rightarrow> (writeDeviceToken d (j\<lparr>jr_pending := None\<rparr>), Tokens t None)
           | a \<Rightarrow> ((if succeeded a then j\<lparr>jr_pending := None\<rparr> else j), shown_to_page a)))"

section \<open>The handlers\<close>

definition line_start :: "bool \<Rightarrow> utext \<Rightarrow> utext option \<Rightarrow> jar \<Rightarrow> jar \<times> utext option" where
  "line_start configured state callbackUrl j =
     (if \<not> configured then (j, None)
      else (j\<lparr>jr_lineState := Some (state, safeCallback callbackUrl)\<rparr>, Some state))"

record line_return =
  lr_error :: "utext option"
  lr_code :: "utext option"
  lr_state :: "utext option"

datatype exchange = ExchangeBroken | ExchangeRefused | NoIdToken | IdToken utext

datatype refusal = Cancelled | Expired | WrongState | NotConfigured | NotExchanged | NoToken | ApiRefused utext

datatype redirect = CallbackBroken | ToLoginWith refusal | ToReady | ToVerify | ToVerifyEmail

definition given_text :: "utext option \<Rightarrow> utext option" where
  "given_text t = (case t of None \<Rightarrow> None | Some u \<Rightarrow> if u = [] then None else Some u)"

text \<open>The checks before LINE is asked: the code to exchange and the address to return to.\<close>

definition line_checks :: "bool \<Rightarrow> line_return \<Rightarrow> jar \<Rightarrow> refusal + utext \<times> utext option" where
  "line_checks configured r j =
     (if given_text (lr_error r) \<noteq> None then Inl Cancelled
      else (case (given_text (lr_code r), given_text (lr_state r), jr_lineState j) of
              (Some code, Some state, Some (expected, callbackUrl)) \<Rightarrow>
                if state \<noteq> expected then Inl WrongState
                else if \<not> configured then Inl NotConfigured
                else Inr (code, callbackUrl)
            | _ \<Rightarrow> Inl Expired))"

definition line_callback ::
  "bool \<Rightarrow> line_return \<Rightarrow> (utext \<Rightarrow> exchange) \<Rightarrow> (oauth_request \<Rightarrow> api_answer) \<Rightarrow> jar \<Rightarrow> jar \<times> redirect" where
  "line_callback configured r line api j =
     (let j1 = j\<lparr>jr_lineState := None\<rparr> in
      case line_checks configured r j of
        Inl e \<Rightarrow> (j1, ToLoginWith e)
      | Inr (code, stored) \<Rightarrow>
          (case line code of
             ExchangeBroken \<Rightarrow> (j1, CallbackBroken)
           | ExchangeRefused \<Rightarrow> (j1, ToLoginWith NotExchanged)
           | NoIdToken \<Rightarrow> (j1, ToLoginWith NoToken)
           | IdToken idToken \<Rightarrow>
               (let callbackUrl = safeCallback stored;
                    p = \<lparr>po_provider = LINE, po_idToken = idToken, po_email = None, po_callbackUrl = callbackUrl\<rparr>;
                    a = api (start_request j1 p True);
                    j2 = startOAuth p a j1
                in case a of
                     NoAnswer \<Rightarrow> (j2, CallbackBroken)
                   | Refusal status msg \<Rightarrow> (j2, ToLoginWith (ApiRefused msg))
                   | CodeSent \<Rightarrow> (j2, ToVerify)
                   | EmailRequired \<Rightarrow> (j2, ToVerifyEmail)
                   | Issued t d \<Rightarrow>
                       (j2\<lparr>jr_pending := None, jr_ready := Some \<lparr>pk_tokens = t, pk_callbackUrl = callbackUrl\<rparr>\<rparr>,
                        ToReady))))"

record start_body =
  sb_provider :: "auth_provider option"
  sb_idToken :: "utext option"
  sb_email :: "utext option"
  sb_callbackUrl :: "utext option"

definition or_else :: "'a option \<Rightarrow> 'a option \<Rightarrow> 'a option" where
  "or_else x y = (case x of None \<Rightarrow> y | Some v \<Rightarrow> Some v)"

definition oauth_start :: "start_body \<Rightarrow> (oauth_request \<Rightarrow> api_answer) \<Rightarrow> jar \<Rightarrow> jar \<times> page_answer" where
  "oauth_start body api j =
     (let parked = readPending j;
          provider = or_default (sb_provider body) (or_default (map_option po_provider parked) GOOGLE)
      in case given_text (or_else (sb_idToken body) (map_option po_idToken parked)) of
           None \<Rightarrow> (j, Says 400 fallback)
         | Some idToken \<Rightarrow>
             (let p = \<lparr>po_provider = provider, po_idToken = idToken,
                       po_email = or_else (sb_email body) (Option.bind parked po_email),
                       po_callbackUrl = or_else (safeCallback (sb_callbackUrl body)) (Option.bind parked po_callbackUrl)\<rparr>;
                  a = api (start_request j p True)
              in (startOAuth p a j, shown_to_page a)))"

definition oauth_verify :: "utext option \<Rightarrow> utext option option \<Rightarrow> (oauth_request \<Rightarrow> api_answer) \<Rightarrow> jar \<Rightarrow> jar \<times> page_answer" where
  "oauth_verify otp remember api j =
     (case given_text otp of None \<Rightarrow> (j, Says 400 fallback) | Some code \<Rightarrow> verifyOAuth code remember api j)"

definition password_login :: "(utext option \<Rightarrow> api_answer) \<Rightarrow> jar \<Rightarrow> jar \<times> page_answer" where
  "password_login api j = (j, shown_to_page (api (readDeviceToken j)))"

definition password_verify :: "api_answer \<Rightarrow> jar \<Rightarrow> jar \<times> page_answer" where
  "password_verify a j =
     (case a of Issued t d \<Rightarrow> (writeDeviceToken d j, Tokens t None) | _ \<Rightarrow> (j, shown_to_page a))"

section \<open>Browsers\<close>

text \<open>Every browser has its own jar. \<open>wb_issued\<close> logs which state was drawn for which browser and \<open>wb_answered\<close> the
  states a callback has taken out of a jar.\<close>

record web_world =
  wb_jars :: "nat \<Rightarrow> jar"
  wb_issued :: "(utext \<times> nat) list"
  wb_answered :: "utext list"

definition fresh_world :: web_world where
  "fresh_world = \<lparr>wb_jars = (\<lambda>b. empty_jar), wb_issued = [], wb_answered = []\<rparr>"

definition put_jar :: "nat \<Rightarrow> jar \<Rightarrow> web_world \<Rightarrow> web_world" where
  "put_jar b j w = w\<lparr>wb_jars := (wb_jars w)(b := j)\<rparr>"

definition started :: "nat \<Rightarrow> utext \<Rightarrow> utext option \<Rightarrow> web_world \<Rightarrow> web_world" where
  "started b state callbackUrl w =
     (put_jar b (fst (line_start True state callbackUrl (wb_jars w b))) w)\<lparr>wb_issued := (state, b) # wb_issued w\<rparr>"

definition came_back ::
  "nat \<Rightarrow> bool \<Rightarrow> line_return \<Rightarrow> (utext \<Rightarrow> exchange) \<Rightarrow> (oauth_request \<Rightarrow> api_answer) \<Rightarrow> web_world \<Rightarrow> web_world" where
  "came_back b configured r line api w =
     (put_jar b (fst (line_callback configured r line api (wb_jars w b))) w)
       \<lparr>wb_answered := (case jr_lineState (wb_jars w b) of None \<Rightarrow> [] | Some (s, u) \<Rightarrow> [s]) @ wb_answered w\<rparr>"

inductive login_step :: "web_world \<Rightarrow> web_world \<Rightarrow> bool" where
  starts_line: "state \<notin> fst ` set (wb_issued w) \<Longrightarrow> login_step w (started b state callbackUrl w)"
| comes_back: "login_step w (came_back b configured r line api w)"
| starts_oauth: "login_step w (put_jar b (fst (oauth_start body api (wb_jars w b))) w)"
| verifies: "login_step w (put_jar b (fst (oauth_verify otp remember api (wb_jars w b))) w)"
| claims: "login_step w (put_jar b (fst (claimTokens (wb_jars w b))) w)"
| verifies_password: "login_step w (put_jar b (fst (password_verify a (wb_jars w b))) w)"
| expires: "jr_lineState j \<in> {None, jr_lineState (wb_jars w b)} \<Longrightarrow> login_step w (put_jar b j w)"

inductive_cases login_stepE: "login_step w w'"

definition login_inv :: "web_world \<Rightarrow> bool" where
  "login_inv w \<longleftrightarrow>
     distinct (map fst (wb_issued w)) \<and> set (wb_answered w) \<subseteq> fst ` set (wb_issued w) \<and>
     (\<forall>b s u. jr_lineState (wb_jars w b) = Some (s, u) \<longrightarrow> (s, b) \<in> set (wb_issued w) \<and> s \<notin> set (wb_answered w))"

lemma line_state_kept:
  "jr_lineState (fst (oauth_start body api j)) = jr_lineState j"
  "jr_lineState (fst (oauth_verify otp remember api j)) = jr_lineState j"
  "jr_lineState (fst (claimTokens j)) = jr_lineState j"
  "jr_lineState (fst (password_verify a j)) = jr_lineState j"
  by (auto simp: oauth_start_def startOAuth_def oauth_verify_def verifyOAuth_def writeDeviceToken_def claimTokens_def
      password_verify_def Let_def split: option.splits api_answer.splits)

lemma line_state_spent: "jr_lineState (fst (line_callback configured r line api j)) = None"
  by (auto simp: line_callback_def startOAuth_def Let_def split: sum.splits exchange.splits api_answer.splits)

lemma login_inv_put:
  assumes "login_inv w" "jr_lineState j \<in> {None, jr_lineState (wb_jars w b)}"
  shows "login_inv (put_jar b j w)"
  using assms unfolding login_inv_def put_jar_def by (auto; metis)

lemma login_step_inv:
  assumes "login_inv w" "login_step w w'"
  shows "login_inv w'"
  using assms(2)
proof cases
  case (starts_line state b callbackUrl)
  then show ?thesis
    using assms(1) by (auto simp: login_inv_def started_def put_jar_def line_start_def)
next
  case (comes_back b configured r line api)
  show ?thesis
  proof (cases "jr_lineState (wb_jars w b)")
    case None
    then show ?thesis
      using assms(1) by (auto simp: comes_back login_inv_def came_back_def put_jar_def line_state_spent)
  next
    case (Some x)
    obtain s u where x: "x = (s, u)" by force
    have s: "(s, b) \<in> set (wb_issued w)" using assms(1) Some x by (auto simp: login_inv_def)
    have only: "c = b" if "jr_lineState (wb_jars w c) = Some (s, v)" for c v
    proof -
      have "(s, c) \<in> set (wb_issued w)" using assms(1) that by (auto simp: login_inv_def)
      then show ?thesis using s assms(1) by (auto simp: login_inv_def eq_key_imp_eq_value)
    qed
    have ans: "wb_answered w' = s # wb_answered w" and iss: "wb_issued w' = wb_issued w"
      using Some x by (simp_all add: comes_back(1) came_back_def put_jar_def)
    have jars: "jr_lineState (wb_jars w' c) = (if c = b then None else jr_lineState (wb_jars w c))" for c
      by (simp add: comes_back(1) came_back_def put_jar_def line_state_spent)
    have "s \<in> fst ` set (wb_issued w)" using s by force
    moreover have "(t, c) \<in> set (wb_issued w) \<and> t \<noteq> s \<and> t \<notin> set (wb_answered w)"
      if "jr_lineState (wb_jars w' c) = Some (t, v)" for c t v
    proof -
      have c: "c \<noteq> b" "jr_lineState (wb_jars w c) = Some (t, v)" using that by (simp_all add: jars split: if_splits)
      then show ?thesis using assms(1) only [of c v] unfolding login_inv_def by blast
    qed
    ultimately show ?thesis using assms(1) unfolding login_inv_def ans iss by simp
  qed
qed (simp_all add: login_inv_put assms(1) line_state_kept)

text \<open>A return that passes the checks redeems the state in its jar.\<close>

definition redeem_state ::
  "web_world \<Rightarrow> nat \<times> bool \<times> line_return \<times> (utext \<Rightarrow> exchange) \<times> (oauth_request \<Rightarrow> api_answer) \<Rightarrow>
     (web_world \<times> utext) option" where
  "redeem_state w = (\<lambda>(b, configured, r, line, api).
     case line_checks configured r (wb_jars w b) of
       Inl e \<Rightarrow> None
     | Inr _ \<Rightarrow> map_option (\<lambda>(s, u). (came_back b configured r line api w, s)) (jr_lineState (wb_jars w b)))"

interpretation line_state: single_use "\<lambda>w. w = fresh_world" login_step login_inv redeem_state
    "\<lambda>w s. s \<in> set (wb_answered w)"
proof unfold_locales
  fix w :: web_world
  show "w = fresh_world \<Longrightarrow> login_inv w" by (simp add: login_inv_def fresh_world_def empty_jar_def)
next
  fix w w' show "login_inv w \<Longrightarrow> login_step w w' \<Longrightarrow> login_inv w'" by (rule login_step_inv)
next
  fix w i w' s
  assume r: "redeem_state w i = Some (w', s)"
  then obtain b configured ret line api u where i: "i = (b, configured, ret, line, api)"
      "jr_lineState (wb_jars w b) = Some (s, u)" "w' = came_back b configured ret line api w"
    by (cases i) (auto simp: redeem_state_def split: sum.splits)
  show "login_inv w \<Longrightarrow> s \<notin> set (wb_answered w)" using i(2) by (auto simp: login_inv_def)
  show "s \<in> set (wb_answered w')" using i(2,3) by (simp add: came_back_def)
  show "login_step w w'" unfolding i(3) by (rule login_step.comes_back)
next
  fix w w' s
  assume "login_step w w'" "s \<in> set (wb_answered w)"
  then show "s \<in> set (wb_answered w')"
    by (cases rule: login_stepE) (auto simp: put_jar_def started_def came_back_def)
qed

section \<open>Properties\<close>

lemma line_checks_Inr:
  assumes "line_checks configured r j = Inr (code, u)"
  obtains s where "lr_state r = Some s" "lr_code r = Some code" "jr_lineState j = Some (s, u)"
  using assms by (auto simp: line_checks_def given_text_def split: option.splits if_splits prod.splits)


definition demo_return :: line_return where
  "demo_return = \<lparr>lr_error = None, lr_code = Some (ascii ''c0de''), lr_state = Some (ascii ''5a17'')\<rparr>"

definition one_started :: web_world where
  "one_started = started 1 (ascii ''5a17'') (Some (ascii ''/cart'')) fresh_world"


text \<open>The code a page is shown after a sign-in holds no device token, and which one it was makes no difference.\<close>

lemma device_token_stays_in_its_cookie:
  "snd (password_verify (Issued t d) j) = Tokens t None"
  "snd (verifyOAuth otp remember (\<lambda>q. Issued t d) j) \<in> {Tokens t None, Says 400 fallback}"
  by (auto simp: password_verify_def verifyOAuth_def split: option.splits)

text \<open>A sign-in with Google begun while one with LINE is left over takes that one's email and address to return to
  along.\<close>

lemma leftover_sign_in_is_mixed_in:
  "jr_pending (fst (oauth_start \<lparr>sb_provider = Some GOOGLE, sb_idToken = Some [103], sb_email = None, sb_callbackUrl = None\<rparr>
     (\<lambda>q. CodeSent) (empty_jar\<lparr>jr_pending := Some \<lparr>po_provider = LINE, po_idToken = [108], po_email = Some [101],
       po_callbackUrl = Some (ascii ''/cart'')\<rparr>\<rparr>)))
   = Some \<lparr>po_provider = GOOGLE, po_idToken = [103], po_email = Some [101], po_callbackUrl = Some (ascii ''/cart'')\<rparr>"
  by (simp add: oauth_start_def readPending_def startOAuth_def succeeded_def given_text_def or_else_def empty_jar_def
      safeCallback_def or_default_def Let_def)

end
