(* ===== verification/Bid_Button.thy ===== *)
theory Bid_Button
  imports Auction_Properties Complex_Main
begin

text \<open>
  The bid control of the front end, \<open>apps/web/src/components/auction/place-bid-control.tsx\<close>, together with the bid
  service it talks to: what a press of the button sends, what an answer does to the control, and what becomes
  of a bid whose answer is lost on the way. \<open>Number\<close> of what was typed is an argument, as a rational when it is
  finite; the control keeps the id of the attempt (\<open>attemptId\<close>) until a bid is confirmed.
\<close>

section \<open>The control\<close>

datatype complaint =
  AmountUnreadable
| AtLeast money \<comment> \<open>the minimum that was shown\<close>
| FromApi error
| SendFailed \<comment> \<open>no answer came\<close>

record bid_control =
  bc_attemptId :: "uuid option"
  bc_error :: "complaint option"
  bc_placed :: "money option"

datatype bid_reply = Lost | Answered "error + own_bid"

definition satang :: "money \<Rightarrow> rat" where
  "satang m = of_int m / 100"

text \<open>A press: the control it leaves and the amount and request id it sends.\<close>

definition submit :: "bid_control \<Rightarrow> rat option \<Rightarrow> money \<Rightarrow> uuid \<Rightarrow> bid_control \<times> (rat \<times> uuid) option" where
  "submit c typed minimumNextBid randomUUID =
     (let c = c\<lparr>bc_error := None, bc_placed := None\<rparr> in
      case typed of
        None \<Rightarrow> (c\<lparr>bc_error := Some AmountUnreadable\<rparr>, None)
      | Some v \<Rightarrow>
          if v \<le> 0 then (c\<lparr>bc_error := Some AmountUnreadable\<rparr>, None)
          else if v < satang minimumNextBid then (c\<lparr>bc_error := Some (AtLeast minimumNextBid)\<rparr>, None)
          else (let attempt = or_default (bc_attemptId c) randomUUID in
                (c\<lparr>bc_attemptId := Some attempt\<rparr>, Some (v, attempt))))"

definition answer_bid :: "bid_control \<Rightarrow> bid_reply \<Rightarrow> bid_control" where
  "answer_bid c r =
     (case r of
        Answered (Inr bid) \<Rightarrow> c\<lparr>bc_attemptId := None, bc_placed := Some (ob_amount bid)\<rparr>
      | Answered (Inl e) \<Rightarrow> c\<lparr>bc_error := Some (FromApi e)\<rparr>
      | Lost \<Rightarrow> c\<lparr>bc_error := Some SendFailed\<rparr>)"

text \<open>What is shown instead of the control.\<close>

datatype 'why bid_face = LoginButton | Blocked "'why option" | BidForm

definition shown_control :: "(bool \<times> 'why option) option \<Rightarrow> 'why bid_face" where
  "shown_control you =
     (case you of None \<Rightarrow> LoginButton | Some (canBid, blockedBy) \<Rightarrow> if canBid then BidForm else Blocked blockedBy)"

section \<open>With the bid service\<close>

text \<open>An amount the pipe accepts is a whole number of satang.\<close>

definition whole_satang :: "rat \<Rightarrow> money option" where
  "whole_satang v = (if 100 * v = of_int \<lfloor>100 * v\<rfloor> then Some \<lfloor>100 * v\<rfloor> else None)"

lemma whole_satang_satang [simp]: "whole_satang (satang m) = Some m"
  by (simp add: whole_satang_def satang_def)

lemma whole_satang_SomeD: "whole_satang v = Some m \<Longrightarrow> v = satang m"
  by (auto simp: whole_satang_def satang_def split: if_splits)

text \<open>A press whose request arrives, with the database that the service leaves and its answer.\<close>

definition press ::
  "(string list \<Rightarrow> unique_target) \<Rightarrow> db \<Rightarrow> instant \<Rightarrow> uuid \<Rightarrow> uuid \<Rightarrow> uuid \<Rightarrow> bid_control \<Rightarrow> rat option \<Rightarrow> money \<Rightarrow> uuid \<Rightarrow>
     bid_control \<times> db \<times> (error + own_bid) option" where
  "press report s now newBidId auctionId bidderId c typed minimumNextBid randomUUID =
     (case submit c typed minimumNextBid randomUUID of
        (c', None) \<Rightarrow> (c', s, None)
      | (c', Some (v, attempt)) \<Rightarrow>
          (case whole_satang v of
             None \<Rightarrow> (c', s, None)
           | Some m \<Rightarrow>
               (case placeBid report s s now newBidId auctionId bidderId attempt m of
                  (s', msgs, res) \<Rightarrow> (c', s', Some res))))"

lemma later_request:
  assumes "house_inv s" "placeBid report s s now newBidId aid bidderId r amount = (s1, msgs, Inr ob)"
    and "house_step\<^sup>*\<^sup>* s1 s2"
  obtains b where "house_inv s2" "b \<in> set (bids s2)" "find_request s2 r = Some b" "bi_auctionId b = aid"
    "bi_amount b = amount" "ob = toOwnBid b"
proof -
  obtain b where b: "b \<in> set (bids s1)" "bi_clientRequestId b = r" "bi_auctionId b = aid"
      "bi_amount b = amount" "ob = toOwnBid b" "house_step\<^sup>*\<^sup>* s s1"
    by (rule placeBid_success [OF assms(2)]) (rule that)
  have inv: "house_inv s2" using house.steps_inv [OF assms(3) house.steps_inv [OF b(6) assms(1)]] .
  have kept: "b \<in> set (bids s2)" using house_steps_bids_kept [OF assms(3) b(1)] .
  show thesis
    using that [OF inv kept _ b(3-5)] find_request_eq [OF inv kept] b(2) by simp
qed

lemma placeBid_again:
  assumes "find_request s r = Some b" "bi_auctionId b = aid"
  shows "placeBid report s s now newBidId aid bidderId r m =
    (if bi_amount b = m then (s, [], Inr (toOwnBid b)) else (s, [], Inl (Conflict RequestIdOtherAmount)))"
  using assms by (auto simp: placeBid_def placeBidInTransaction_def replayOrRefuse_def isUniqueViolation_def)

lemma recorded_bid_below_minimum:
  assumes "house_inv s" "b \<in> set (bids s)" "a \<in> set (auctions s)" "au_id a = bi_auctionId b"
  shows "bi_amount b < calculateMinimumBid a"
proof -
  let ?bs = "bids_of s (au_id a)"
  have ok: "row_ok ?bs (extensions_of s (au_id a)) a" using house_invD(3) [OF assms(1,3)] .
  have b: "b \<in> set ?bs" using assms(2,4) by (simp add: bids_of_def)
  then have ne: "?bs \<noteq> []" by auto
  have sorted: "sorted_wrt (<) (map bi_amount ?bs)" using ok by (simp add: row_ok_defs bid_log_ok_def)
  have "bi_amount b \<le> last (map bi_amount ?bs)"
    by (rule sorted_wrt_less_last(1) [OF sorted]) (use b in simp)
  then show ?thesis using row_ok_minimum(2) [OF ok ne] ne by (simp add: last_map)
qed

text \<open>C39: A bid whose answer was lost. Once the service has recorded the bid and the answer is lost, however much
  happens in between, pressing again with the same amount and the minimum shown before confirms that very bid,
  records nothing and frees the control for the next one. But the minimum the arena then shows is above that
  bid: with it, whatever is typed, the press is either turned down on the page or refused by the service
  because the request id stands for another amount, nothing is recorded, and the control keeps that id: until
  the page is loaded again no further bid can be placed with it.\<close>

theorem lost_answer_is_replayed_or_locks:
  assumes "house_init s0" "house_step\<^sup>*\<^sup>* s0 s"
    and "placeBid report s s now newBidId aid bidderId r amount = (s1, msgs, Inr ob)" "house_step\<^sup>*\<^sup>* s1 s2"
    and "bc_attemptId c = Some r" "0 < amount"
  shows "(minimum \<le> amount \<longrightarrow>
      (\<exists>c'. press report s2 now' newBidId' aid bidderId c (Some (satang amount)) minimum u = (c', s2, Some (Inr ob)) \<and>
        bc_attemptId (answer_bid c' (Answered (Inr ob))) = None \<and>
        bc_placed (answer_bid c' (Answered (Inr ob))) = Some amount)) \<and>
    (a \<in> set (auctions s2) \<and> au_id a = aid \<longrightarrow>
      (\<exists>c' res. press report s2 now' newBidId' aid bidderId c typed (calculateMinimumBid a) u = (c', s2, res) \<and>
        bc_attemptId c' = Some r \<and> (res = None \<or> res = Some (Inl (Conflict RequestIdOtherAmount)))))"
proof -
  obtain b where b: "house_inv s2" "b \<in> set (bids s2)" "find_request s2 r = Some b" "bi_auctionId b = aid"
      "bi_amount b = amount" "ob = toOwnBid b"
    by (rule later_request [OF house.reachable_inv [OF assms(1,2)] assms(3,4)])
  note again = placeBid_again [OF b(3,4)]
  have "ob_amount ob = amount" using b(5,6) by (simp add: toOwnBid_def)
  moreover have "\<not> satang amount < satang minimum" if "minimum \<le> amount" using that by (simp add: satang_def divide_right_mono)
  moreover have "0 < satang amount" using assms(6) by (simp add: satang_def)
  ultimately have replay: "minimum \<le> amount \<Longrightarrow>
      \<exists>c'. press report s2 now' newBidId' aid bidderId c (Some (satang amount)) minimum u = (c', s2, Some (Inr ob)) \<and>
        bc_attemptId (answer_bid c' (Answered (Inr ob))) = None \<and>
        bc_placed (answer_bid c' (Answered (Inr ob))) = Some amount"
    using assms(5) b(5,6) by (simp add: press_def submit_def again answer_bid_def or_default_def)
  have locked: "\<exists>c' res. press report s2 now' newBidId' aid bidderId c typed (calculateMinimumBid a) u = (c', s2, res) \<and>
      bc_attemptId c' = Some r \<and> (res = None \<or> res = Some (Inl (Conflict RequestIdOtherAmount)))"
    if a: "a \<in> set (auctions s2)" "au_id a = aid"
  proof -
    have low: "amount < calculateMinimumBid a"
      using recorded_bid_below_minimum [OF b(1,2) a(1)] a(2) b(4,5) by simp
    have "m \<noteq> amount" if "whole_satang v = Some m" "\<not> v < satang (calculateMinimumBid a)" for v m
      using that low by (auto simp: satang_def divide_right_mono dest!: whole_satang_SomeD)
    then show ?thesis
      using assms(5) b(5)
      by (cases typed) (auto simp: press_def submit_def again or_default_def Let_def split: option.splits)
  qed
  show ?thesis using replay locked by blast
qed

definition waiting_control :: bid_control where
  "waiting_control = \<lparr>bc_attemptId = Some 500, bc_error = Some SendFailed, bc_placed = None\<rparr>"

theorem lost_answer_is_replayed_or_locks_witness:
  "\<exists>c' res. press demo_report demo3 1100 31 1 20 waiting_control (Some (satang 100)) 100 501 = (c', demo3, res) \<and>
     bc_attemptId c' = Some 500 \<and> answered_bid (demo3, [], the res) \<noteq> None"
proof (rule answered_bidE)
  show "fst (placeBid demo_report demo2 demo2 1000 30 1 20 500 100) = demo3"
    "answered_bid (placeBid demo_report demo2 demo2 1000 30 1 20 500 100) \<noteq> None"
    by code_simp+
next
  fix msgs ob
  assume p: "placeBid demo_report demo2 demo2 1000 30 1 20 500 100 = (demo3, msgs, Inr ob)"
  have "\<exists>c'. press demo_report demo3 1100 31 1 20 waiting_control (Some (satang 100)) 100 501 = (c', demo3, Some (Inr ob))"
    using lost_answer_is_replayed_or_locks [OF demo_init demo_reachable(1) p rtranclp.rtrancl_refl,
        of waiting_control 100 1100 31 501 undefined None] by (auto simp: waiting_control_def)
  then show ?thesis
    by (auto simp: press_def submit_def waiting_control_def or_default_def Let_def answered_bid_def satang_def
        whole_satang_def split: prod.splits option.splits)
qed

end
