(* ===== verification/Web_Cart.thy ===== *)
theory Web_Cart
  imports Web_Search Shop_Properties Live_Service Bid_Button
begin

text \<open>
  Paying, as the buyer sees it: the ticks of the cart page (\<open>components/cart/cart-view.tsx\<close>), the selection in
  the address (\<open>lib/cart-selection.ts\<close>), the three gates of the checkout page and what it sends
  (\<open>components/checkout/checkout-view.tsx\<close>), and what a refusal is shown as (\<open>failure-overlay.tsx\<close>). The views
  are those the API's own theories build. Ids are written into the address by the argument \<open>show_id\<close>; amounts are
  numbers of satang, which the page reads from \<open>Decimal.toFixed(2)\<close> texts; the doubles it computes with are exact
  below \<open>2 ^ 50\<close> satang and rationals here. The wording of messages is left out.
\<close>

section \<open>The selection\<close>

definition parseSelection :: "utext option \<Rightarrow> utext list option" where
  "parseSelection raw =
     (case raw of
        None \<Rightarrow> None
      | Some t \<Rightarrow>
          if t = [] then None
          else (let ids = filter (\<lambda>i. i \<noteq> []) (split_at 44 t) in if length ids > 0 then Some ids else None))"

definition selectedItems :: "(uuid \<Rightarrow> utext) \<Rightarrow> cart_view \<Rightarrow> utext list option \<Rightarrow> cart_line list" where
  "selectedItems show_id cart selection =
     (case selection of
        None \<Rightarrow> cv_items cart
      | Some chosen \<Rightarrow> filter (\<lambda>item. show_id (cl_id item) \<in> set chosen) (cv_items cart))"

definition toSatang :: "rat \<Rightarrow> int" where
  "toSatang v = round (v * 100)"

record cart_totals =
  tt_itemCount :: int
  tt_discountTotal :: money
  tt_total :: money
  tt_sellerCount :: nat

definition count_line :: "int \<times> int \<times> int \<times> uuid list \<Rightarrow> cart_line \<Rightarrow> int \<times> int \<times> int \<times> uuid list" where
  "count_line acc item = (case acc of (itemCount, amount, discount, sellers) \<Rightarrow>
     (itemCount + cl_quantity item, amount + toSatang (satang (lt_subtotal (cl_total item))),
      discount + toSatang (satang (lt_discountAmount (cl_total item))), set_add sellers (cl_sellerId item)))"

definition totalsOf :: "cart_line list \<Rightarrow> cart_totals" where
  "totalsOf items = (case foldl count_line (0, 0, 0, []) items of (itemCount, amount, discount, sellers) \<Rightarrow>
     \<lparr>tt_itemCount = itemCount, tt_discountTotal = discount, tt_total = amount, tt_sellerCount = length sellers\<rparr>)"

text \<open>The parameter \<open>items\<close> of the link, \<open>None\<close> when it is the plain \<open>/checkout\<close>. A set is the list of its elements
  in the order they were added.\<close>

definition checkoutHref :: "(uuid \<Rightarrow> utext) \<Rightarrow> cart_view \<Rightarrow> uuid list \<Rightarrow> utext option" where
  "checkoutHref show_id cart selected =
     (if length selected = length (cv_items cart) then None
      else Some (join_commas (map (\<lambda>item. show_id (cl_id item))
                                (filter (\<lambda>item. cl_id item \<in> set selected) (cv_items cart)))))"

section \<open>The cart page\<close>

definition selected_ids :: "cart_view \<Rightarrow> uuid list \<Rightarrow> uuid list" where
  "selected_ids cart unselected = set_of (filter (\<lambda>i. i \<notin> set unselected) (map cl_id (cv_items cart)))"

definition toggle :: "uuid \<Rightarrow> bool \<Rightarrow> uuid list \<Rightarrow> uuid list" where
  "toggle i checked current = (if checked then removeAll i current else set_add current i)"

definition toggle_all :: "cart_view \<Rightarrow> bool \<Rightarrow> uuid list" where
  "toggle_all cart checked = (if checked then [] else set_of (map cl_id (cv_items cart)))"

datatype pay_button = NothingChosen | ChosenBlocked nat | PayLink "utext option"

definition cart_button :: "(uuid \<Rightarrow> utext) \<Rightarrow> cart_view \<Rightarrow> uuid list \<Rightarrow> pay_button" where
  "cart_button show_id cart selected =
     (let chosen = filter (\<lambda>item. cl_id item \<in> set selected) (cv_items cart);
          blockingItems = length (filter (\<lambda>item. cl_issue item \<noteq> None) chosen)
      in if length chosen = 0 then NothingChosen
         else if blockingItems > 0 then ChosenBlocked blockingItems
         else PayLink (checkoutHref show_id cart selected))"

section \<open>The gates of the checkout page\<close>

record 'a query_state =
  qs_data :: "'a option"
  qs_isPending :: bool
  qs_isAuthenticated :: bool
  qs_isAuthReady :: bool

datatype 'tok payable =
  CartPay "cart_line list" bool
| AuctionPay uuid utext money
| OfferPay 'tok uuid utext int money

datatype 'tok gate =
  ReceiptShown | Loading | SignIn | NothingToPay | SelectionGone | LinesBlocked nat | Unreadable | PayForm "'tok payable"

text \<open>\<open>paid\<close>: the page holds the receipt of a payment it made.\<close>

definition waits :: "'a query_state \<Rightarrow> bool" where
  "waits q \<longleftrightarrow> \<not> qs_isAuthReady q \<or> qs_isAuthenticated q \<and> qs_isPending q"

definition cart_gate :: "(uuid \<Rightarrow> utext) \<Rightarrow> bool \<Rightarrow> cart_view query_state \<Rightarrow> utext option \<Rightarrow> 'tok gate" where
  "cart_gate show_id paid q items_param =
     (if paid then ReceiptShown
      else if waits q then Loading
      else if \<not> qs_isAuthenticated q then SignIn
      else (case qs_data q of
              None \<Rightarrow> NothingToPay
            | Some cart \<Rightarrow>
                if length (cv_items cart) = 0 then NothingToPay
                else (let paying = selectedItems show_id cart (parseSelection items_param);
                          blocking = filter (\<lambda>item. cl_issue item \<noteq> None) paying
                      in if length paying = 0 then SelectionGone
                         else if length blocking > 0 then LinesBlocked (length blocking)
                         else PayForm (CartPay paying (length (cv_items cart) > length paying)))))"

definition auction_gate :: "uuid \<Rightarrow> bool \<Rightarrow> arena query_state \<Rightarrow> 'tok gate" where
  "auction_gate auctionId paid q =
     (if paid then ReceiptShown
      else if waits q then Loading
      else if \<not> qs_isAuthenticated q then SignIn
      else (case qs_data q of
              None \<Rightarrow> Unreadable
            | Some a \<Rightarrow>
               (case re_result a of
                  None \<Rightarrow> NothingToPay
                | Some outcome \<Rightarrow>
                   (case (ar_winner outcome, ar_soldPrice outcome) of
                      (Some winner, Some soldPrice) \<Rightarrow>
                        if pb_isYours winner
                        then PayForm (AuctionPay auctionId (pa_title (public_part (lo_auction (re_lobby a)))) soldPrice)
                        else NothingToPay
                    | _ \<Rightarrow> NothingToPay))))"

definition offer_gate :: "uuid \<Rightarrow> bool \<Rightarrow> 'tok payable_offer list query_state \<Rightarrow> 'tok gate" where
  "offer_gate offerId paid q =
     (if paid then ReceiptShown
      else if waits q then Loading
      else if \<not> qs_isAuthenticated q then SignIn
      else (case Option.bind (qs_data q) (find (\<lambda>item. po_offerId item = offerId)) of
              None \<Rightarrow> NothingToPay
            | Some offer \<Rightarrow>
                PayForm (OfferPay (po_acceptToken offer) (po_productId offer) (po_title offer) (po_quantity offer)
                  (po_total offer))))"

section \<open>What is shown and sent\<close>

record 'tok pay_request =
  rq_cartItemIds :: "uuid list option"
  rq_auctionId :: "uuid option"
  rq_offerAcceptToken :: "'tok option"

definition no_target :: "'tok pay_request" where
  "no_target = \<lparr>rq_cartItemIds = None, rq_auctionId = None, rq_offerAcceptToken = None\<rparr>"

text \<open>The totals, \<open>leftInCart\<close>, the lot's title and the request.\<close>

fun summarise :: "'tok payable \<Rightarrow> cart_totals \<times> nat \<times> utext option \<times> 'tok pay_request" where
  "summarise (AuctionPay auctionId title soldPrice) =
     (\<lparr>tt_itemCount = 1, tt_discountTotal = 0, tt_total = soldPrice, tt_sellerCount = 1\<rparr>, 0, Some title,
      no_target\<lparr>rq_auctionId := Some auctionId\<rparr>)"
| "summarise (OfferPay token productId title quantity total_price) =
     (\<lparr>tt_itemCount = quantity, tt_discountTotal = 0, tt_total = total_price, tt_sellerCount = 1\<rparr>, 0, Some title,
      no_target\<lparr>rq_offerAcceptToken := Some token\<rparr>)"
| "summarise (CartPay items isPartial) =
     (totalsOf items, if isPartial then length items else 0, None,
      if isPartial then no_target\<lparr>rq_cartItemIds := Some (map cl_id items)\<rparr> else no_target)"

definition profileAddressDefaults :: "profile_row option \<Rightarrow> address" where
  "profileAddressDefaults profile =
     (case profile of
        None \<Rightarrow> \<lparr>ad_recipientName = [], ad_line1 = [], ad_line2 = Some [], ad_city = [], ad_postalCode = [],
                 ad_phone = []\<rparr>
      | Some p \<Rightarrow> \<lparr>ad_recipientName = or_default (pf_recipientName p) [], ad_line1 = or_default (pf_line1 p) [],
                   ad_line2 = Some (or_default (pf_line2 p) []), ad_city = or_default (pf_city p) [],
                   ad_postalCode = or_default (pf_postalCode p) [], ad_phone = or_default (pf_phone p) []\<rparr>)"

text \<open>The request of the form: its six boxes trimmed, an empty second line left out.\<close>

definition pay_form :: "payment_method \<Rightarrow> address \<Rightarrow> 'tok payable \<Rightarrow> 'tok checkout_dto" where
  "pay_form m boxes p =
     (let rq = snd (snd (snd (summarise p)));
          line2 = trim (or_default (ad_line2 boxes) [])
      in \<lparr>co_paymentMethod = m,
          co_shippingAddress = \<lparr>ad_recipientName = trim (ad_recipientName boxes), ad_line1 = trim (ad_line1 boxes),
            ad_line2 = (if line2 = [] then None else Some line2), ad_city = trim (ad_city boxes),
            ad_postalCode = trim (ad_postalCode boxes), ad_phone = trim (ad_phone boxes)\<rparr>,
          co_cartItemIds = rq_cartItemIds rq, co_auctionId = rq_auctionId rq,
          co_offerAcceptToken = rq_offerAcceptToken rq\<rparr>)"

section \<open>A refused payment\<close>

datatype failure_kind = F_UNAVAILABLE | F_RACE_LOST | F_DECLINED | F_AUCTION_PAID | F_UNKNOWN

datatype failure_link = ToCart | ToOrders | ToAuctions | ToShop

record failure =
  fl_kind :: failure_kind
  fl_issues :: "checkout_issue list"
  fl_charged :: bool
  fl_checkoutSessionId :: "uuid option"
  fl_canRetry :: bool
  fl_primary :: "failure_link option"

text \<open>The body of an answer: code, session and issues; \<open>None\<close> for what is not an \<open>ApiError\<close>.\<close>

datatype checkout_code =
  ITEMS_UNAVAILABLE | STOCK_LOST_AFTER_CHARGE | CART_EMPTY | PAYMENT_DECLINED | AUCTION_UNPAYABLE | AUCTION_ALREADY_PAID
| OFFER_UNUSABLE

fun bodyOf :: "error option \<Rightarrow> checkout_code option \<times> uuid option \<times> checkout_issue list" where
  "bodyOf (Some (BadRequest (ItemsUnavailable issues))) = (Some ITEMS_UNAVAILABLE, None, issues)"
| "bodyOf (Some (BadRequest CartEmpty)) = (Some CART_EMPTY, None, [])"
| "bodyOf (Some (BadRequest (PaymentDeclined session))) = (Some PAYMENT_DECLINED, Some session, [])"
| "bodyOf (Some (BadRequest AuctionUnpayable)) = (Some AUCTION_UNPAYABLE, None, [])"
| "bodyOf (Some (BadRequest OfferUnusable)) = (Some OFFER_UNUSABLE, None, [])"
| "bodyOf (Some (Conflict AuctionAlreadyPaid)) = (Some AUCTION_ALREADY_PAID, None, [])"
| "bodyOf (Some (Conflict (AuctionPaidMeanwhile session))) = (Some AUCTION_ALREADY_PAID, Some session, [])"
| "bodyOf (Some (Conflict (StockLostAfterCharge session issues))) = (Some STOCK_LOST_AFTER_CHARGE, Some session, issues)"
| "bodyOf e = (None, None, [])"

definition checkoutFailure :: "error option \<Rightarrow> failure" where
  "checkoutFailure e = (case bodyOf e of (code, session, issues) \<Rightarrow>
     let base = (\<lambda>kind. \<lparr>fl_kind = kind, fl_issues = issues, fl_charged = False, fl_checkoutSessionId = session,
                         fl_canRetry = False, fl_primary = None\<rparr>)
     in case code of
          Some ITEMS_UNAVAILABLE \<Rightarrow> (base F_UNAVAILABLE)\<lparr>fl_primary := Some ToCart\<rparr>
        | Some CART_EMPTY \<Rightarrow> (base F_UNAVAILABLE)\<lparr>fl_primary := Some ToCart\<rparr>
        | Some STOCK_LOST_AFTER_CHARGE \<Rightarrow> (base F_RACE_LOST)\<lparr>fl_charged := True, fl_primary := Some ToCart\<rparr>
        | Some AUCTION_ALREADY_PAID \<Rightarrow> (base F_AUCTION_PAID)\<lparr>fl_primary := Some ToOrders\<rparr>
        | Some AUCTION_UNPAYABLE \<Rightarrow> (base F_UNAVAILABLE)\<lparr>fl_primary := Some ToAuctions\<rparr>
        | Some OFFER_UNUSABLE \<Rightarrow> (base F_UNAVAILABLE)\<lparr>fl_primary := Some ToShop\<rparr>
        | Some PAYMENT_DECLINED \<Rightarrow> (base F_DECLINED)\<lparr>fl_canRetry := True\<rparr>
        | None \<Rightarrow> (base F_UNKNOWN)\<lparr>fl_canRetry := True\<rparr>)"

text \<open>What the overlay says of the money, with the session it asks to be quoted, and its buttons.\<close>

datatype charge_note = ChargeOnRecord "uuid option" | NothingCharged

definition money_note :: "error option \<Rightarrow> charge_note" where
  "money_note e = (let failure = checkoutFailure e in
     if fl_charged failure then ChargeOnRecord (fl_checkoutSessionId failure) else NothingCharged)"

definition failure_buttons :: "failure_link \<Rightarrow> error option \<Rightarrow> bool \<times> failure_link" where
  "failure_buttons fallback_link e = (let failure = checkoutFailure e in
     (fl_canRetry failure, or_default (fl_primary failure) fallback_link))"

section \<open>The lines that were ticked\<close>

text \<open>What is asked of the ids' texts: they are UUIDs.\<close>

definition id_laws :: "(uuid \<Rightarrow> utext) \<Rightarrow> bool" where
  "id_laws show_id \<longleftrightarrow> inj show_id \<and> (\<forall>i. show_id i \<noteq> [] \<and> 44 \<notin> set (show_id i))"

lemma toSatang_satang [simp]: "toSatang (satang m) = m"
  by (simp add: toSatang_def satang_def)

lemma count_lines:
  "foldl count_line (q, t, d, us) items =
     (q + sum_list (map cl_quantity items), t + sum_list (map (\<lambda>l. lt_subtotal (cl_total l)) items),
      d + sum_list (map (\<lambda>l. lt_discountAmount (cl_total l)) items), foldl set_add us (map cl_sellerId items))"
  by (induction items arbitrary: q t d us) (simp_all add: count_line_def)

lemma totalsOf_eq:
  "totalsOf items = \<lparr>tt_itemCount = sum_list (map cl_quantity items),
     tt_discountTotal = sum_list (map (\<lambda>l. lt_discountAmount (cl_total l)) items),
     tt_total = sum_list (map (\<lambda>l. lt_subtotal (cl_total l)) items),
     tt_sellerCount = length (set_of (map cl_sellerId items))\<rparr>"
  by (simp add: totalsOf_def count_lines set_of_def)

lemma foldl_set_add_distinct: "distinct (ys @ xs) \<Longrightarrow> foldl set_add ys xs = ys @ xs"
  by (induction xs arbitrary: ys) (auto simp: set_add_def)

lemma set_of_distinct: "distinct xs \<Longrightarrow> set_of xs = xs"
  by (simp add: set_of_def foldl_set_add_distinct)

lemma filter_all: "length (filter P xs) = length xs \<Longrightarrow> filter P xs = xs"
proof (induction xs)
  case (Cons x xs)
  then show ?case using length_filter_le [of P xs] by (cases "P x") simp_all
qed simp

lemma selected_filter:
  "filter (\<lambda>l. cl_id l \<in> set (selected_ids cart unticked)) (cv_items cart)
     = filter (\<lambda>l. cl_id l \<notin> set unticked) (cv_items cart)"
  by (rule filter_cong) (auto simp: selected_ids_def)

lemma parse_joined:
  assumes "id_laws show_id" "is \<noteq> []"
  shows "parseSelection (Some (join_commas (map show_id is))) = Some (map show_id is)"
proof -
  have ne: "show_id i \<noteq> []" "44 \<notin> set (show_id i)" for i using assms(1) by (auto simp: id_laws_def)
  have "join_commas (map show_id is) \<noteq> []"
    using assms(2) ne(1) by (cases "is" rule: remdups_adj.cases) auto
  moreover have "split_at 44 (join_commas (map show_id is)) = map show_id is"
    by (rule split_join) (use assms(2) ne(2) in auto)
  ultimately show ?thesis using assms(2) ne(1) by (simp add: parseSelection_def Let_def filter_id_conv)
qed

text \<open>The link leads back to the lines that were ticked.\<close>

lemma link_leads_to_ticked:
  assumes "id_laws show_id" "distinct (map cl_id (cv_items cart))"
    and "ticked = filter (\<lambda>l. cl_id l \<notin> set unticked) (cv_items cart)" "ticked \<noteq> []"
  shows "selectedItems show_id cart (parseSelection (checkoutHref show_id cart (selected_ids cart unticked))) = ticked"
proof -
  have sel: "selected_ids cart unticked = map cl_id ticked"
    unfolding selected_ids_def assms(3) filter_map comp_def
    by (rule set_of_distinct) (rule distinct_map_filter [OF assms(2)])
  show ?thesis
  proof (cases "length ticked = length (cv_items cart)")
    case True
    then have "ticked = cv_items cart"
      unfolding assms(3) by (rule filter_all)
    then show ?thesis by (simp add: checkoutHref_def sel selectedItems_def parseSelection_def)
  next
    case False
    have "checkoutHref show_id cart (selected_ids cart unticked)
        = Some (join_commas (map show_id (map cl_id ticked)))"
      using False selected_filter [of cart unticked] unfolding checkoutHref_def sel assms(3) [symmetric]
      by (simp add: comp_def)
    moreover have "filter (\<lambda>l. show_id (cl_id l) \<in> set (map show_id (map cl_id ticked))) (cv_items cart) = ticked"
    proof -
      have "show_id (cl_id l) \<in> set (map show_id (map cl_id ticked)) \<longleftrightarrow> cl_id l \<notin> set unticked"
        if "l \<in> set (cv_items cart)" for l
      proof -
        have "show_id (cl_id l) \<in> set (map show_id (map cl_id ticked)) \<longleftrightarrow> cl_id l \<in> cl_id ` set ticked"
          using assms(1) by (auto simp: id_laws_def inj_eq)
        also have "\<dots> \<longleftrightarrow> cl_id l \<notin> set unticked"
          using that by (auto simp: assms(3))
        finally show ?thesis .
      qed
      then show ?thesis unfolding assms(3) by (intro filter_cong refl) blast
    qed
    moreover have "parseSelection (Some (join_commas (map show_id (map cl_id ticked)))) = Some (map show_id (map cl_id ticked))"
      by (rule parse_joined [OF assms(1)]) (use assms(4) in simp)
    ultimately show ?thesis unfolding selectedItems_def by (simp only: option.case)
  qed
qed

text \<open>What the view holds is what the server prices, ticked lines alone or all of them.\<close>

lemma filter_map_filter:
  "(\<And>x y. g x = Some y \<Longrightarrow> Q y = P x) \<Longrightarrow> filter Q (List.map_filter g xs) = List.map_filter g (filter P xs)"
  by (induction xs) (auto simp: List.map_filter_def split: option.splits)

lemma with_product_fst: "with_product s i = Some y \<Longrightarrow> fst y = i"
  by (auto simp: with_product_def)

lemma map_filter_fst: "map fst (List.map_filter (with_product s) xs) = filter (\<lambda>i. with_product s i \<noteq> None) xs"
  by (induction xs) (auto simp: List.map_filter_def with_product_def)

lemma line_of_shown:
  "cl_id (buildLine s x) = ci_id (fst x)" "pl_cartItemId (cart_line_of x) = Some (ci_id (fst x))"
  "lt_subtotal (cl_total (buildLine s x)) = pl_subtotal (cart_line_of x)"
  "cl_sellerId (buildLine s x) = pl_sellerId (cart_line_of x)"
  "cl_quantity (buildLine s x) = pl_quantity (cart_line_of x)"
  by (simp_all add: buildLine_def cart_line_of_def Let_def split_beta)

lemma shown_without_issue:
  "cl_issue (buildLine s x) = None \<Longrightarrow> cl_sellerId (buildLine s x) \<noteq> u \<Longrightarrow> line_issue u x = None"
  by (auto simp: line_issue_def buildLine_def detectIssue_def Let_def split: prod.splits if_splits)

lemma ticked_lines_are_priced:
  assumes db: "distinct (map ct_id (carts s))" "distinct (map ct_userId (carts s))" "c \<in> set (carts s)"
      "distinct (map ci_id (cartItems s))"
    and V: "V = cv_items (buildCartView s (ct_id c))"
    and ticked: "ticked = filter (\<lambda>l. cl_id l \<notin> set unticked) V" "ticked \<noteq> []"
    and ok: "\<forall>l \<in> set ticked. cl_issue l = None \<and> cl_sellerId l \<noteq> ct_userId c"
  obtains ls where
    "priceCart s (ct_userId c) (if length V > length ticked then Some (map cl_id ticked) else None) = Inr ls"
    "map pl_cartItemId ls = map (\<lambda>l. Some (cl_id l)) ticked"
    "map pl_subtotal ls = map (\<lambda>l. lt_subtotal (cl_total l)) ticked" "map pl_sellerId ls = map cl_sellerId ticked"
proof -
  define rows where "rows = sort_key ci_id (filter (\<lambda>i. ci_cartId i = ct_id c) (cartItems s))"
  define xs where "xs = List.map_filter (with_product s) rows"
  define ys where "ys = filter (\<lambda>x. ci_id (fst x) \<notin> set unticked) xs"
  have V: "V = map (buildLine s) xs"
    by (simp add: assms(5) buildCartView_def Let_def xs_def rows_def)
  have t: "ticked = map (buildLine s) ys"
    by (simp add: ticked(1) V ys_def filter_map comp_def line_of_shown)
  have ne: "ys \<noteq> []" using ticked(2) by (simp add: t)
  have own: "filter (\<lambda>i. in_cart_of s (ct_userId c) i \<and> R i) (cartItems s)
      = filter (\<lambda>i. ci_cartId i = ct_id c \<and> R i) (cartItems s)" for R
    by (rule filter_cong [OF refl]) (use in_cart_of_own [OF db(1-3)] in simp)
  have issues: "collectCheckoutIssues (ct_userId c) ys = []"
  proof -
    have "line_issue (ct_userId c) x = None" if "x \<in> set ys" for x
      by (rule shown_without_issue) (use ok that in \<open>auto simp: t\<close>)
    then show ?thesis by (simp add: collectCheckoutIssues_def List.map_filter_def filter_empty_conv)
  qed
  have ids: "distinct (map ci_id rows)"
    using db(4) by (auto simp: rows_def distinct_map inj_on_def)
  show thesis
  proof (rule that [of "map cart_line_of ys"])
    show "priceCart s (ct_userId c) (if length V > length ticked then Some (map cl_id ticked) else None)
        = Inr (map cart_line_of ys)"
    proof (cases "length V > length ticked")
      case False
      then have "length ys = length xs" using length_filter_le [of _ xs] by (simp add: t V ys_def le_antisym)
      then have "ys = xs" unfolding ys_def by (rule filter_all)
      moreover have "rows \<noteq> []" using ne \<open>ys = xs\<close> by (auto simp: xs_def List.map_filter_def)
      ultimately show ?thesis
        using False issues own [of "\<lambda>i. True"]
        by (simp add: priceCart_def Let_def xs_def rows_def or_default_def)
    next
      case True
      let ?is = "map (\<lambda>x. ci_id (fst x)) ys"
      have ids_are: "?is = map ci_id (filter (\<lambda>i. ci_id i \<notin> set unticked) (filter (\<lambda>i. with_product s i \<noteq> None) rows))"
        unfolding ys_def xs_def map_filter_fst [symmetric] by (simp add: filter_map comp_def)
      have dist: "distinct ?is" unfolding ids_are by (intro distinct_map_filter ids)
      have asked: "sort_key ci_id (filter (\<lambda>i. in_cart_of s (ct_userId c) i \<and> ci_id i \<in> set ?is) (cartItems s))
          = filter (\<lambda>i. ci_id i \<in> set ?is) rows"
        unfolding own rows_def by (simp only: filter_sort filter_filter conj_commute)
      have there: "with_product s i \<noteq> None" if i: "i \<in> set rows" "ci_id i \<in> set ?is" for i
      proof -
        obtain k where k: "k \<in> set rows" "with_product s k \<noteq> None" "ci_id k = ci_id i"
          using i(2) unfolding ids_are by auto
        then show ?thesis using distinct_key_unique [OF ids k(1) i(1)] by simp
      qed
      have "filter (\<lambda>i. ci_id i \<in> set ?is) rows
          = filter (\<lambda>i. ci_id i \<in> set ?is) (filter (\<lambda>i. with_product s i \<noteq> None) rows)"
        unfolding filter_filter by (rule filter_cong) (use there in auto)
      also have "\<dots> = filter (\<lambda>i. ci_id i \<notin> set unticked) (filter (\<lambda>i. with_product s i \<noteq> None) rows)"
        by (rule filter_cong [OF refl]) (auto simp: ids_are)
      finally have "map ci_id (filter (\<lambda>i. ci_id i \<in> set ?is) rows) = ?is" by (simp add: ids_are)
      then have len: "length (filter (\<lambda>i. ci_id i \<in> set ?is) rows) = length ?is"
        by (metis length_map)
      have "List.map_filter (with_product s) (filter (\<lambda>i. ci_id i \<in> set ?is) rows)
          = filter (\<lambda>x. ci_id (fst x) \<in> set ?is) xs"
        unfolding xs_def by (rule filter_map_filter [symmetric]) (simp add: with_product_fst)
      also have "\<dots> = ys"
        unfolding ys_def by (rule filter_cong [OF refl]) auto
      finally have lines: "List.map_filter (with_product s) (filter (\<lambda>i. ci_id i \<in> set ?is) rows) = ys" .
      have sel: "map cl_id ticked = ?is" by (simp add: t line_of_shown comp_def)
      show ?thesis
        unfolding priceCart_def Let_def sel option.map or_default_def option.case set_of_distinct [OF dist]
        using True asked len lines ne issues sel
        by (simp add: set_of_distinct [OF dist] del: set_map)
    qed
  qed (simp_all add: t line_of_shown)
qed

lemma view_ids_distinct:
  assumes "distinct (map ci_id (cartItems s))"
  shows "distinct (map cl_id (cv_items (buildCartView s cartId)))"
proof -
  let ?rows = "sort_key ci_id (filter (\<lambda>i. ci_cartId i = cartId) (cartItems s))"
  have "distinct (map ci_id ?rows)" using assms by (auto simp: distinct_map inj_on_def)
  then have "distinct (map ci_id (map fst (List.map_filter (with_product s) ?rows)))"
    unfolding map_filter_fst by (rule distinct_map_filter)
  then show ?thesis by (simp add: buildCartView_def Let_def comp_def line_of_shown)
qed

lemma single_target:
  assumes "checkout report verify between s now session paymentId orderId shipmentId buyerId dto = (s', msgs, x)"
    and "\<not> length (filter id [co_auctionId dto \<noteq> None, co_cartItemIds dto \<noteq> None, co_offerAcceptToken dto \<noteq> None]) > 1"
    and "price_lines verify s now buyerId dto = (s1, Inr ls)"
  shows "x \<noteq> Inl (BadRequest SeveralTargets)"
  using assms(1) unfolding checkout_def if_not_P [OF assms(2)] assms(3)
  by (auto simp: Let_def split: if_splits sum.splits prod.splits dest!: runOrderTransaction_Inl)

section \<open>Properties\<close>

definition arrived :: "'a \<Rightarrow> 'a query_state" where
  "arrived x = \<lparr>qs_data = Some x, qs_isPending = False, qs_isAuthenticated = True, qs_isAuthReady = True\<rparr>"


lemma show_digits_laws: "id_laws show_digits"
proof -
  have "foldl (\<lambda>a c. a * 10 + (c - 48)) 0 (show_digits k) = k" for k
    using show_digits_read [of k] by blast
  then have "inj show_digits" by (rule inj_on_inverseI)
  moreover have "44 \<notin> set (show_digits i)" for i
    using conjunct1 [OF conjunct2 [OF show_digits_read [of i]]] by (auto simp: list_all_iff)
  moreover have "show_digits i \<noteq> []" for i
    using show_digits_read [of i] by blast
  ultimately show ?thesis unfolding id_laws_def by blast
qed

definition pay_shown :: "db \<Rightarrow> cart_view \<Rightarrow> db \<times> shop_message list \<times> (error + receipt)" where
  "pay_shown s cart = checkout TargetList shop_verify id s 200 70 71 (\<lambda>k. 80 + k) (\<lambda>k. 85 + k) 20
     (pay_form CARD shop_address (CartPay (cv_items cart) False))"

lemma pay_form_cart:
  "pay_form m boxes (CartPay items partial) =
     (let line2 = trim (or_default (ad_line2 boxes) []) in
      \<lparr>co_paymentMethod = m,
       co_shippingAddress = \<lparr>ad_recipientName = trim (ad_recipientName boxes), ad_line1 = trim (ad_line1 boxes),
         ad_line2 = (if line2 = [] then None else Some line2), ad_city = trim (ad_city boxes),
         ad_postalCode = trim (ad_postalCode boxes), ad_phone = trim (ad_phone boxes)\<rparr>,
       co_cartItemIds = (if partial then Some (map cl_id items) else None), co_auctionId = None,
       co_offerAcceptToken = None\<rparr>)"
  by (simp add: pay_form_def Let_def no_target_def)


text \<open>A link without a parameter stands for whatever is in the cart by then: a line added in another tab after the
  total was shown is charged too.\<close>

definition line_added :: db where
  "line_added = shop3\<lparr>products := products shop3 @ map (\<lambda>p. p\<lparr>pr_id := 8\<rparr>) (products shop3),
     cartItems := cartItems shop3 @ [\<lparr>ci_id = 42, ci_cartId = 40, ci_productId = 8, ci_quantity = 1\<rparr>]\<rparr>"

theorem whole_cart_pays_for_what_came_later:
  "tt_total (totalsOf (cv_items (buildCartView shop3 40))) = 30000 \<and>
   map_option rc_total (case snd (snd (pay_shown line_added (buildCartView shop3 40))) of Inl e \<Rightarrow> None | Inr x \<Rightarrow> Some x)
     = Some 40000"
  unfolding totalsOf_eq cart_totals.simps pay_shown_def pay_form_cart by code_simp

text \<open>With a parameter only the lines it names are charged, or the payment is refused.\<close>

theorem named_lines_and_no_others:
  assumes "price_lines verify s now u (pay_form m boxes (CartPay items True)) = (s', Inr ls)"
  shows "set (map pl_cartItemId ls) \<subseteq> set (map (\<lambda>l. Some (cl_id l)) items)"
  using assms
  by (auto simp: price_lines_def pay_form_def Let_def no_target_def priceCart_def or_default_def cart_line_of_def
      List.map_filter_def with_product_def split: if_splits)

section \<open>A refused payment\<close>

lemma money_note_eq:
  "money_note (Some e) = (case e of Conflict (StockLostAfterCharge u is) \<Rightarrow> ChargeOnRecord (Some u) | _ \<Rightarrow> NothingCharged)"
  by (cases "Some e" rule: bodyOf.cases) (auto simp: money_note_def checkoutFailure_def Let_def)

lemma unpriced_error:
  assumes "price_lines verify s now u dto = (s', Inl e)"
  shows "money_note (Some e) = NothingCharged" "e \<noteq> Conflict (AuctionPaidMeanwhile session)"
  using assms by (auto simp: money_note_eq price_lines_def priceAuction_def priceCart_def priceOffer_def Let_def
      split: option.splits if_splits sum.splits prod.splits)

lemma decrement_loop_lost:
  "decrement_loop now session ls t = Inl e \<Longrightarrow> \<exists>is. e = Conflict (StockLostAfterCharge session is)"
  by (induction ls arbitrary: t) (auto simp: Let_def split: if_splits prod.splits)

lemma order_transaction_lost:
  assumes "runOrderTransaction report c ls s = Inl e"
  shows "e = Conflict (AuctionPaidMeanwhile (oc_session c)) \<or> money_note (Some e) = ChargeOnRecord (Some (oc_session c))"
proof (cases "order_loop report c 0 (groupBySeller ls) s")
  case (Inl f)
  then show ?thesis
    using assms order_loop_Inl [OF Inl] by (auto simp: runOrderTransaction_def writeOrders_def)
next
  case (Inr r)
  obtain s1 os where r: "r = (s1, os)" by fastforce
  show ?thesis
  proof (cases "decrementStock (oc_now c) (oc_session c) ls s1")
    case d: (Inl f)
    then have "\<exists>is. f = Conflict (StockLostAfterCharge (oc_session c) is)"
      by (auto simp: decrementStock_def Let_def split: if_splits sum.splits dest: decrement_loop_lost)
    then show ?thesis
      using assms Inr r d by (auto simp: runOrderTransaction_def writeOrders_def money_note_eq)
  next
    case d: (Inr s2)
    then show ?thesis using assms Inr r by (simp add: runOrderTransaction_def writeOrders_def Let_def)
  qed
qed


definition sold_meanwhile :: "db \<Rightarrow> db" where
  "sold_meanwhile s = s\<lparr>products := map (\<lambda>p. p\<lparr>pr_stockQty := 0\<rparr>) (products s)\<rparr>"

definition run_lost :: "db \<times> shop_message list \<times> (error + receipt)" where
  "run_lost = checkout TargetList shop_verify sold_meanwhile shop3 200 70 71 (\<lambda>k. 80 + k) (\<lambda>k. 85 + k) 20 shop_checkout"


text \<open>The screen offers to try a declined payment again. When it was for an agreed price, the token was spent on the first
  try, and the same form is refused from then on.\<close>

theorem declined_offer_cannot_be_retried:
  assumes "checkout report verify between s now session paymentId orderId shipmentId buyerId
      (pay_form m boxes (OfferPay token pid title q price)) = (s', msgs, Inl (BadRequest (PaymentDeclined v)))"
    and "\<forall>t1 t2 p1 p2. verify t1 token = Some p1 \<longrightarrow> verify t2 token = Some p2 \<longrightarrow> p1 = p2"
    and "now \<le> now2" "0 \<le> now2"
  shows "fl_canRetry (checkoutFailure (Some (BadRequest (PaymentDeclined v)))) \<and>
    checkout report verify between s' now2 session2 paymentId2 orderId2 shipmentId2 buyerId
      (pay_form m2 boxes2 (OfferPay token pid title q price)) = (s', [], Inl (BadRequest OfferUnusable))"
proof -
  let ?dto = "pay_form m boxes (OfferPay token pid title q price)"
  have pl: "price_lines verify s now buyerId (pay_form m boxes (OfferPay token pid title q price))
      = priceOffer verify s now buyerId token" for s now m boxes
    by (simp add: price_lines_def pay_form_def Let_def no_target_def)
  obtain s1 ls where s1: "priceOffer verify s now buyerId token = (s1, Inr ls)" "offers s' = offers s1"
    using assms(1)
  proof (cases rule: checkout_cases)
    case (unpriced e)
    then show thesis by (auto simp: pl priceOffer_def split: sum.splits prod.splits option.splits if_splits)
  next
    case (declined s1 ls)
    then show thesis using that by (simp add: pl)
  next
    case (lost s1 ls e)
    then show thesis using order_transaction_lost [OF lost(4)] by (auto simp: money_note_eq)
  qed simp_all
  obtain payload where v: "verifyAndConsumeAcceptToken verify s now token = Inr (s1, payload)"
    using s1(1) by (auto simp: priceOffer_def split: sum.splits prod.splits option.splits if_splits)
  have none: "\<not> redeemable now2 (ap_offerId payload) o'" if "o' \<in> set (offers s')" for o'
    using that assms(3,4) unfolding s1(2) verifyAndConsume_Inr(1) [OF v]
    by (auto simp: map_rows_def redeemable_def split: if_splits option.splits)
  have "verifyAndConsumeAcceptToken verify s' now2 token \<in> {Inl (BadRequest OfferTokenInvalid), Inl (BadRequest OfferUsedOrExpired)}"
  proof (cases "verify now2 token")
    case (Some p)
    then have "p = payload" using assms(2) verifyAndConsume_Inr(3) [OF v] by blast
    then show ?thesis
      using Some none by (simp add: verifyAndConsumeAcceptToken_def update_many_def count_rows_def filter_empty_conv)
  qed (simp add: verifyAndConsumeAcceptToken_def)
  then have "priceOffer verify s' now2 buyerId token = (s', Inl (BadRequest OfferUnusable))"
    by (auto simp: priceOffer_def)
  then show ?thesis
    by (simp add: checkoutFailure_def Let_def checkout_def pl) (simp add: pay_form_def Let_def no_target_def)
qed

end
