(* ===== verification/Spec2Isabelle.thy ===== *)
theory Spec2Isabelle
  imports Shop_Properties Auth_Properties Live_Properties Category_Properties Sensitive_Fields
    Watchlist_Properties Notification_Service Chat_Properties Support_Properties
    Admin_Views Gemini_Client Web_Calls Web_Login Web_Cart
begin

text \<open>
  BidNest is an auction and shop marketplace: a NestJS API (\<open>apps/api\<close>) over PostgreSQL through
  Prisma, and a Next.js front end (\<open>apps/web\<close>). This library models the API's services on the
  state they share, the database, the HTTP surface in front of them and what the front end does before
  and after a request, and proves what they guarantee together.

  \<^bold>\<open>The state.\<close> \<open>BN_Schema\<close> declares a row record per table of \<open>apps/api/prisma/schema.prisma\<close> and
  the record \<open>db\<close> of all tables; a table is the list of its rows in the order they were written.
  Ids are naturals, texts lists of code points, instants milliseconds, money satang (the columns
  are \<open>Decimal(18, 2)\<close>). Values drawn at random (ids, storage keys, tracking numbers) are arguments.

  \<^bold>\<open>Operations and errors.\<close> A service method is a definition of the same name that takes the
  database and answers \<open>Inl\<close> the exception it throws (one constructor per \<open>throw\<close>, \<open>error\<close> in
  \<open>BN_Schema\<close>) or \<open>Inr\<close> the state it commits with its result. The announcements a method makes
  after its commit are returned as messages. One instant stands for the clock reads of one call.

  \<^bold>\<open>Concurrency.\<close> PostgreSQL runs the transactions at READ COMMITTED, so what a method reads first
  may be older than what it writes on. A method that checks and then writes under a guard takes two
  states, \<open>rd\<close> that its reads saw and \<open>wr\<close> that its guarded write found; \<open>rd = wr\<close> is the method
  running alone. The serialisation theorems quantify over every \<open>rd\<close> and every later \<open>wr\<close>; the
  theorems that show a flaw give the two states.

  \<^bold>\<open>The theories.\<close>
  \<^item> \<open>BN_Prelude\<close>: tables, guarded updates, paging, insertion-ordered sets, and the interfaces, which
    are locales: \<open>table_lens\<close> and \<open>versioned_table\<close> (rows that evolve under a version),
    \<open>invariant_system\<close> (a step relation with an invariant), \<open>single_use\<close> (something redeemed once).
  \<^item> \<open>Auction_Rules\<close>: the minimum bid, the soft close, masking, the reserve, the publish gate, the
    orderings and search clauses, the projections and notifications (\<open>bid/utils\<close>, \<open>auction/utils\<close>,
    \<open>auction/constants\<close>, the mappers). Prisma's \<open>contains\<close> in insensitive mode is the argument \<open>ilike\<close>, of
    which \<open>ilike_laws\<close> states what PostgreSQL documents of ILIKE.
  \<^item> \<open>Auction_Service\<close>, \<open>Bid_Service\<close>, \<open>Auction_Lifecycle\<close>: the services of those names and the admin
    cancellation of \<open>admin/auctions.service.ts\<close>.
  \<^item> \<open>Auction_House\<close>: the step relation \<open>house_step\<close> of everything that can happen to auctions and bids
    with \<open>rd\<close> before \<open>wr\<close>, the invariant \<open>house_inv\<close>, its preservation, and the interpretations of
    \<open>invariant_system\<close> and \<open>versioned_table\<close>. \<open>Auction_Claims\<close>: how rows evolve along many steps.
  \<^item> \<open>Auction_Demo\<close>: a concrete run, for witnesses. \<open>Auction_Properties\<close>: the properties.
  \<^item> \<open>Money_Math\<close>: decimal.js (20 significant digits, half up) and IEEE doubles as rationals rounded
    to 53 bits, as far as the services compute with them, with their error bounds.
  \<^item> \<open>Cart_Service\<close>, \<open>Negotiator\<close>, \<open>Checkout\<close>, \<open>Product_Service\<close>, \<open>Order_Service\<close>: the services of those
    names, the shipments and the admin's suspension. Signing and verifying a JSON web token are
    the arguments \<open>sign\<close> and \<open>verify\<close>.
  \<^item> \<open>Shop_House\<close>: the step relation \<open>shop_step\<close>, the invariant \<open>shop_inv\<close> (stock, items, parcels,
    offers), what steps leave in the books, and the interpretation of \<open>single_use\<close> for accept tokens.
    \<open>Shop_Demo\<close>: a concrete run. \<open>Shop_Properties\<close>: the properties.
  \<^item> \<open>Accounts\<close>, \<open>Auth_Service\<close>: accounts and sessions, their own state \<open>auth_db\<close>; signing in, tokens, codes,
    reset links, trusted devices, providers, the guards and the profile (\<open>auth\<close>, \<open>common/guards\<close>,
    \<open>users\<close>, \<open>admin/users.service.ts\<close>). bcrypt, SHA-256 and JSON web tokens are the record \<open>crypto\<close>, of
    which \<open>crypto_laws\<close> states the documented behaviour. \<open>Auth_Flow\<close>: the step relation \<open>auth_step\<close>, its
    invariant, and \<open>single_use\<close> of codes and links. \<open>Auth_Properties\<close>: the properties.
  \<^item> \<open>Live_Service\<close>, \<open>Presence\<close>: the live arena with its utilities, and the gateways and presence registry of
    \<open>realtime\<close>; what a gateway asks of socket.io is a list of effects. \<open>Live_Properties\<close>: the arena
    against the bid service.
  \<^item> \<open>Category_Service\<close>: \<open>categories\<close>; what the slug needs of Unicode is the record \<open>unicode\<close>.
    \<open>Category_Properties\<close>: any number of changes, and what the two trees show.
  \<^item> \<open>Watchlist_Service\<close>: both watchlists, as interpretations of the locale \<open>follow_list\<close>;
    \<open>Watchlist_Properties\<close>. \<open>Notification_Service\<close>: the inbox of \<open>notification\<close>.
  \<^item> \<open>Chat_Schema\<close>, \<open>Chat_Service\<close>, \<open>Chat_Properties\<close>: \<open>chat\<close>, on the state \<open>chat_db\<close>. \<open>Support_Chat\<close>,
    \<open>Support_Properties\<close>: \<open>support-chat\<close> and \<open>admin/support.service.ts\<close>; the language model is a function of
    the prompt, and what others do while it answers is an argument.
  \<^item> \<open>Sensitive_Fields\<close>: the interceptor that strips response bodies
    (\<open>common/interceptors/sensitive-fields.interceptor.ts\<close>), on values whose objects may be shared.
  \<^item> \<open>Admin_Views\<close>: the lists, the log and the overview of \<open>admin\<close>, paged by cursor or by number.
  \<^item> \<open>Gemini_Client\<close>: \<open>ai-tools/gemini-client.service.ts\<close> and \<open>price-estimator.service.ts\<close>; the model is a
    function of the attempt to its answer and its delay.
  \<^item> \<open>Route_Table\<close>: every controller with its routes, roles and pipes, the dispatch of a request and what it
    meets before a service method. \<open>Route_Properties\<close>: every handler is reached, and only by those it admits.
  \<^item> \<open>Request_Validation\<close>: the validation pipe of \<open>app.setup.ts\<close> and every DTO class; class-validator is the record
    \<open>libraries\<close>, of which \<open>library_laws\<close> states the documentation. What the pipe accepts is what the services rely on.
  \<^item> \<open>Web_Calls\<close>: every call of \<open>apps/web/src/lib/api\<close>, held against the routes and the DTO classes.
  \<^item> \<open>Web_Session\<close>: the sharing of token refreshes in \<open>apps/web/src/lib/auth/refresh.ts\<close>, a step relation over
    the callers that wait. \<open>Web_Guard\<close>: the protected pages, return addresses, session renewal and the API
    client. \<open>Web_Search\<close>: the searches in the addresses of the lists, and the page buttons.
  \<^item> \<open>Web_Login\<close>: the sign-in cookies and the route handlers of \<open>app/api/auth\<close>, as steps of any number of
    browsers; \<open>single_use\<close> of LINE's state. \<open>Bid_Button\<close>: the bid control with the bid service behind it.
    \<open>Web_Cart\<close>: the cart and checkout pages with \<open>Checkout\<close> behind them, from the ticks to the receipt or the refusal.

  \<^bold>\<open>Bounds.\<close> The amounts the negotiator's theorem covers are at most a hundred billion baht, where
  doubles still separate satangs; line totals are exact below a quadrillion baht and sums below
  \<open>10\<^sup>2\<^sup>0\<close> satang, which the twenty digits of decimal.js and the columns' \<open>Decimal(18, 2)\<close> allow. Three
  loops carry a bound: following a cursor reads one page more than there are rows, which is proved to
  be enough; a refresh follows at most \<open>MAX_HOPS\<close> renewals, as the code does; the attempts of the model
  client end by a measure. The other loops are over lists, and the lifecycle's are cut by its batch size.

  \<^bold>\<open>Not modelled.\<close> The calls to the file store, the mail server and the language model, which are I/O
  on third-party services; the constant text of the FAQ; the counters of the throttler; the layout
  and wording of the screens, and the screens that only show a view of the API; the seeds and the start-up
  configuration. The English wording of a notification is its template with the values it is filled with.
\<close>

end
